(* ===== verification/Prelude.thy ===== *)
theory Prelude
  imports Main "HOL-Library.Sublist" "HOL-Library.Char_ord" "HOL-Library.List_Lexorder"
begin

text \<open>
  The prelude of the development: Go's slices and string-keyed maps, the functions of
  Go's standard library that the controllers call (\<open>strings\<close>, \<open>strconv\<close>,
  \<open>path/filepath\<close>, \<open>slices\<close>, \<open>maps\<close>), the decimal printing that
  \<open>fmt.Sprintf\<close> does for \<open>%d\<close>, and the generic lemmas the component theories share.
  A Go string is a \<open>string\<close> (a list of bytes). A slice is \<open>'a slice\<close>, in which
  \<open>None\<close> is Go's nil slice, since \<open>reflect.DeepEqual\<close> and \<open>cmp.Diff\<close> tell nil
  and empty apart. A string-keyed map is \<open>string \<rightharpoonup> 'a\<close>; the nil map and the empty map
  are both \<open>Map.empty\<close>, as the code only reads them, copies them or fills fresh ones.
\<close>

named_theorems go_simps "equations of the standard-library model"
named_theorems scope_simps "how the operations of a component read the scope they changed"
named_theorems emits_intros "rules for what a computation may append to the trace"

subsection \<open>Slices and maps\<close>

type_synonym 'a slice = "'a list option"
type_synonym strmap = "string \<rightharpoonup> string"

definition elems :: "'a slice \<Rightarrow> 'a list" where
  "elems s = (case s of None \<Rightarrow> [] | Some xs \<Rightarrow> xs)"

definition append_slice :: "'a slice \<Rightarrow> 'a list \<Rightarrow> 'a slice" where
  "append_slice s xs = (if s = None \<and> xs = [] then None else Some (elems s @ xs))"

definition map_get :: "(string \<rightharpoonup> string) \<Rightarrow> string \<Rightarrow> string" where
  \<comment> \<open>indexing a Go map of strings: the zero value for a missing key\<close>
  "map_get m k = (case m k of None \<Rightarrow> [] | Some v \<Rightarrow> v)"

definition deref :: "'a \<Rightarrow> 'a option \<Rightarrow> 'a" where
  \<comment> \<open>\<open>ptr.Deref\<close>: the value behind a pointer, the default when it is nil\<close>
  "deref d p = (case p of None \<Rightarrow> d | Some v \<Rightarrow> v)"

subsection \<open>The package strings\<close>

definition has_prefix :: "string \<Rightarrow> string \<Rightarrow> bool" where
  "has_prefix p s \<longleftrightarrow> take (length p) s = p"

fun contains :: "string \<Rightarrow> string \<Rightarrow> bool" where
  \<comment> \<open>\<open>strings.Contains(s, sub)\<close>\<close>
  "contains [] sub = (sub = [])"
| "contains (c # s) sub = (has_prefix sub (c # s) \<or> contains s sub)"

fun split_on :: "char \<Rightarrow> string \<Rightarrow> string list" where
  \<comment> \<open>\<open>strings.Split(s, sep)\<close> for a separator of one byte\<close>
  "split_on c [] = [[]]"
| "split_on c (x # s) =
     (if x = c then [] # split_on c s
      else (case split_on c s of [] \<Rightarrow> [[x]] | w # ws \<Rightarrow> (x # w) # ws))"

fun join_with :: "string \<Rightarrow> string list \<Rightarrow> string" where
  \<comment> \<open>\<open>strings.Join(elems, sep)\<close>\<close>
  "join_with sep [] = []"
| "join_with sep [w] = w"
| "join_with sep (w # v # ws) = w @ sep @ join_with sep (v # ws)"

fun cut_at :: "char \<Rightarrow> string \<Rightarrow> string \<times> string \<times> bool" where
  \<comment> \<open>\<open>strings.Cut(s, sep)\<close> for a separator of one byte\<close>
  "cut_at c [] = ([], [], False)"
| "cut_at c (x # s) =
     (if x = c then ([], s, True)
      else (case cut_at c s of (a, b, found) \<Rightarrow> (if found then (x # a, b, True) else (x # s, [], False))))"

definition is_space :: "char \<Rightarrow> bool" where
  "is_space c \<longleftrightarrow> c \<in> set [CHR 0x09, CHR 0x0A, CHR 0x0B, CHR 0x0C, CHR 0x0D, CHR '' '']"

definition trim_space :: "string \<Rightarrow> string" where
  "trim_space s = rev (dropWhile is_space (rev (dropWhile is_space s)))"

definition trim_suffix :: "string \<Rightarrow> string \<Rightarrow> string" where
  \<comment> \<open>\<open>strings.TrimSuffix(s, suffix)\<close>\<close>
  "trim_suffix s suf =
     (if suf \<noteq> [] \<and> length suf \<le> length s \<and> drop (length s - length suf) s = suf
      then take (length s - length suf) s else s)"

fun replace_all :: "string \<Rightarrow> string \<Rightarrow> string \<Rightarrow> string" where
  \<comment> \<open>\<open>strings.ReplaceAll(s, old, new)\<close> for a non-empty \<open>old\<close>\<close>
  "replace_all old new [] = []"
| "replace_all old new (c # s) =
     (if has_prefix old (c # s) then new @ replace_all old new (drop (length old - 1) s)
      else c # replace_all old new s)"

fun replace_first :: "string \<Rightarrow> string \<Rightarrow> string \<Rightarrow> string" where
  \<comment> \<open>\<open>strings.Replace(s, old, new, 1)\<close> for a non-empty \<open>old\<close>\<close>
  "replace_first old new [] = []"
| "replace_first old new (c # s) =
     (if has_prefix old (c # s) then new @ drop (length old - 1) s else c # replace_first old new s)"

definition trim_chars :: "char list \<Rightarrow> string \<Rightarrow> string" where
  \<comment> \<open>\<open>strings.Trim(s, cutset)\<close> for a cutset of single bytes\<close>
  "trim_chars cs s = rev (dropWhile (\<lambda>c. c \<in> set cs) (rev (dropWhile (\<lambda>c. c \<in> set cs) s)))"

definition white_space :: "string list" where
  \<comment> \<open>the encodings of the code points with \<open>unicode.IsSpace\<close>\<close>
  "white_space =
     [[CHR 0x09], [CHR 0x0A], [CHR 0x0B], [CHR 0x0C], [CHR 0x0D], '' '',
      [CHR 0xC2, CHR 0x85], [CHR 0xC2, CHR 0xA0], [CHR 0xE1, CHR 0x9A, CHR 0x80]] @
     map (\<lambda>n. [CHR 0xE2, CHR 0x80, char_of (n::nat)]) [0x80..<0x8B] @
     [[CHR 0xE2, CHR 0x80, CHR 0xA8], [CHR 0xE2, CHR 0x80, CHR 0xA9], [CHR 0xE2, CHR 0x80, CHR 0xAF],
      [CHR 0xE2, CHR 0x81, CHR 0x9F], [CHR 0xE3, CHR 0x80, CHR 0x80]]"

fun joined_fields :: "string \<Rightarrow> string" where
  \<comment> \<open>\<open>strings.Join(strings.Fields(s), "")\<close>: the string without its white space\<close>
  "joined_fields [] = []"
| "joined_fields (c # s) =
     (case find (\<lambda>w. has_prefix w (c # s)) white_space of
        Some w \<Rightarrow> joined_fields (drop (length w - 1) s)
      | None \<Rightarrow> c # joined_fields s)"

definition parse_bool :: "string \<Rightarrow> bool option" where
  \<comment> \<open>\<open>strconv.ParseBool\<close>; \<open>None\<close> is its syntax error\<close>
  "parse_bool s =
     (if s \<in> set [''1'', ''t'', ''T'', ''TRUE'', ''true'', ''True''] then Some True
      else if s \<in> set [''0'', ''f'', ''F'', ''FALSE'', ''false'', ''False''] then Some False
      else None)"

subsection \<open>Decimal printing\<close>

definition digit_char :: "nat \<Rightarrow> char" where
  "digit_char d = char_of (48 + d mod 10)"

fun show_nat :: "nat \<Rightarrow> string" where
  "show_nat n = (if n < 10 then [digit_char n] else show_nat (n div 10) @ [digit_char (n mod 10)])"

declare show_nat.simps [simp del]

definition show_int :: "int \<Rightarrow> string" where
  "show_int i = (if i < 0 then CHR ''-'' # show_nat (nat (- i)) else show_nat (nat i))"

definition pad2 :: "nat \<Rightarrow> string" where
  \<comment> \<open>the verb \<open>%02d\<close>\<close>
  "pad2 n = (if n < 10 then CHR ''0'' # show_nat n else show_nat n)"

definition quoted :: "string \<Rightarrow> string" where
  \<comment> \<open>text in single quotes\<close>
  "quoted s = CHR 0x27 # s @ [CHR 0x27]"

subsection \<open>Texts of the source\<close>

definition newline :: string where "newline = [CHR 0x0A]"

definition raw :: "string \<Rightarrow> string" where
  \<comment> \<open>a text of the source in which a backquote stands for a single quote, a tilde for a
      tabulator and a caret for a backslash, characters the source does not have there\<close>
  "raw l = map (\<lambda>c. if c = CHR 0x60 then CHR 0x27 else if c = CHR ''~'' then CHR 0x09
     else if c = CHR ''^'' then CHR 0x5C else c) l"

definition lines_of :: "string list \<Rightarrow> string" where
  "lines_of ls = concat (map (\<lambda>l. l @ newline) ls)"

subsection \<open>The package path/filepath\<close>

fun clean_push :: "bool \<Rightarrow> string list \<Rightarrow> string list \<Rightarrow> string list" where
  \<comment> \<open>the loop of \<open>filepath.Clean\<close> over the elements, the output reversed\<close>
  "clean_push rooted acc [] = rev acc"
| "clean_push rooted acc (e # es) =
     (if e = [] \<or> e = ''.'' then clean_push rooted acc es
      else if e = ''..'' then
        (case acc of
           [] \<Rightarrow> clean_push rooted (if rooted then [] else [''..'']) es
         | a # as \<Rightarrow> clean_push rooted (if a = ''..'' then ''..'' # a # as else as) es)
      else clean_push rooted (e # acc) es)"

definition filepath_clean :: "string \<Rightarrow> string" where
  "filepath_clean p =
     (let rooted = has_prefix ''/'' p;
          out = (if rooted then ''/'' else []) @
                join_with ''/'' (clean_push rooted [] (split_on (CHR ''/'') p))
      in if out = [] then ''.'' else out)"

definition filepath_join :: "string \<Rightarrow> string \<Rightarrow> string" where
  \<comment> \<open>\<open>filepath.Join(dir, file)\<close>: empty elements are dropped, the rest is cleaned\<close>
  "filepath_join d f =
     (case filter (\<lambda>e. e \<noteq> []) [d, f] of [] \<Rightarrow> [] | es \<Rightarrow> filepath_clean (join_with ''/'' es))"

definition filepath_dir :: "string \<Rightarrow> string" where
  \<comment> \<open>\<open>filepath.Dir(path)\<close>: the part up to the last separator, cleaned\<close>
  "filepath_dir p = filepath_clean (rev (dropWhile (\<lambda>c. c \<noteq> CHR ''/'') (rev p)))"

subsection \<open>Facts about the standard-library model\<close>

lemma elems_simps [simp]: "elems None = []" "elems (Some xs) = xs"
  by (simp_all add: elems_def)

lemma map_get_upd [simp]: "map_get (m(k \<mapsto> v)) k' = (if k' = k then v else map_get m k')"
  by (simp add: map_get_def)

lemma deref_simps [simp]: "deref d None = d" "deref d (Some v) = v"
  by (simp_all add: deref_def)

lemma has_prefix_iff: "has_prefix p s \<longleftrightarrow> (\<exists>t. s = p @ t)"
  by (metis append_eq_conv_conj append_take_drop_id has_prefix_def)

lemma contains_iff: "contains s sub \<longleftrightarrow> (\<exists>a b. s = a @ sub @ b)"
proof (induction s)
  case Nil
  show ?case by simp
next
  case (Cons c s)
  show ?case
  proof
    assume "contains (c # s) sub"
    then consider "has_prefix sub (c # s)" | "contains s sub" by auto
    then show "\<exists>a b. c # s = a @ sub @ b"
    proof cases
      case 1
      then show ?thesis unfolding has_prefix_iff by (metis append_Nil)
    next
      case 2
      with Cons.IH show ?thesis by (metis append_Cons)
    qed
  next
    assume "\<exists>a b. c # s = a @ sub @ b"
    then obtain a b where eq: "c # s = a @ sub @ b" by blast
    show "contains (c # s) sub"
    proof (cases a)
      case Nil
      with eq have "has_prefix sub (c # s)" by (auto simp: has_prefix_iff)
      then show ?thesis by simp
    next
      case (Cons x a')
      with eq have "s = a' @ sub @ b" by simp
      with Cons.IH show ?thesis by auto
    qed
  qed
qed

lemma contains_single: "contains s [c] \<longleftrightarrow> c \<in> set s"
  by (auto simp: contains_iff in_set_conv_decomp)

lemma split_on_nonempty [simp]: "split_on c s \<noteq> []"
  by (induction c s rule: split_on.induct) (auto split: list.splits)

lemma split_on_no_sep: "c \<notin> set s \<Longrightarrow> split_on c s = [s]"
  by (induction s) auto

lemma split_on_append_sep: "c \<notin> set w \<Longrightarrow> split_on c (w @ c # s) = w # split_on c s"
  by (induction w) auto

lemma split_on_join:
  assumes "ws \<noteq> []" and "\<forall>w \<in> set ws. c \<notin> set w"
  shows "split_on c (join_with [c] ws) = ws"
  using assms
proof (induction "[c]" ws rule: join_with.induct)
  case 1
  then show ?case by simp
next
  case (2 w)
  then show ?case by (simp add: split_on_no_sep)
next
  case (3 w v ws)
  then show ?case by (simp add: split_on_append_sep)
qed

lemma split_on_parts: "w \<in> set (split_on c s) \<Longrightarrow> c \<notin> set w"
  by (induction s arbitrary: w) (auto split: list.splits if_splits)

lemma cut_at_found: "cut_at c s = (a, b, True) \<Longrightarrow> s = a @ c # b \<and> c \<notin> set a"
  by (induction s arbitrary: a) (auto split: if_splits prod.splits)

lemma cut_at_append: "c \<notin> set a \<Longrightarrow> cut_at c (a @ c # b) = (a, b, True)"
  by (induction a) auto

lemma cut_at_no_sep: "c \<notin> set s \<Longrightarrow> cut_at c s = (s, [], False)"
  by (induction s) auto

lemma cut_at_not_found: "cut_at c s = (a, b, False) \<longleftrightarrow> c \<notin> set s \<and> a = s \<and> b = []"
proof
  assume "cut_at c s = (a, b, False)"
  moreover have "c \<notin> set s"
  proof
    assume "c \<in> set s"
    then obtain u v where "s = u @ c # v" and "c \<notin> set u"
      by (meson split_list_first)
    with calculation show False by (simp add: cut_at_append)
  qed
  ultimately show "c \<notin> set s \<and> a = s \<and> b = []"
    by (simp add: cut_at_no_sep)
qed (simp add: cut_at_no_sep)

lemma map_add_upd_same [simp]: "((m ++ n)(k \<mapsto> v)) k = Some v"
  by simp

lemma replace_all_append:
  assumes "old = c # w" and "c \<notin> set a"
  shows "replace_all old new (a @ b) = a @ replace_all old new b"
  using assms(2) unfolding assms(1) by (induction a) (auto simp: has_prefix_def)

lemma replace_all_absent: "old = c # w \<Longrightarrow> c \<notin> set s \<Longrightarrow> replace_all old new s = s"
  using replace_all_append [of old c w s new "[]"] by simp

lemma set_join_with: "set (join_with sep ws) \<subseteq> set sep \<union> (\<Union>w \<in> set ws. set w)"
  by (induction sep ws rule: join_with.induct) auto

lemma set_split_on: "w \<in> set (split_on c s) \<Longrightarrow> set w \<subseteq> set s"
  by (induction s arbitrary: w) (auto split: if_splits list.splits, blast)

lemma set_clean_push: "w \<in> set (clean_push r acc es) \<Longrightarrow> w \<in> set acc \<or> w \<in> set es \<or> w = ''..''"
  by (induction r acc es rule: clean_push.induct) (auto split: if_splits list.splits)

lemma set_filepath_clean: "set (filepath_clean p) \<subseteq> insert (CHR ''.'') (insert (CHR ''/'') (set p))"
proof -
  let ?es = "clean_push (has_prefix ''/'' p) [] (split_on (CHR ''/'') p)"
  have "set w \<subseteq> insert (CHR ''.'') (set p)" if "w \<in> set ?es" for w
    using set_clean_push [OF that] set_split_on [of w "CHR ''/''" p] by auto
  then have "set (join_with ''/'' ?es) \<subseteq> insert (CHR ''.'') (insert (CHR ''/'') (set p))"
    using set_join_with [of "''/''" ?es] by fastforce
  then show ?thesis
    by (auto simp: filepath_clean_def Let_def)
qed

lemma set_filepath_dir: "set (filepath_dir p) \<subseteq> insert (CHR ''.'') (insert (CHR ''/'') (set p))"
proof -
  have "set (rev (dropWhile (\<lambda>c. c \<noteq> CHR ''/'') (rev p))) \<subseteq> set p"
    using set_dropWhileD by fastforce
  then show ?thesis
    unfolding filepath_dir_def using set_filepath_clean by blast
qed

end
