(* ===== verification/Go_Effects.thy ===== *)
theory Go_Effects
  imports Prelude
begin

text \<open>
  Errors, panics and effects of Go. An \<open>error\<close> value keeps its wrapping chain, so that
  \<open>errors.Is\<close> and \<open>apierrors.IsNotFound\<close> see through \<open>fmt.Errorf("...: %w")\<close>.
  A call ends in \<open>Ok\<close>, in \<open>Err\<close> or in \<open>Panic\<close>; a function with effects is a
  state transformer \<open>('s, 'a) gom\<close>. The combinators are the shapes of Go control flow the
  controllers use: sequencing with an early return on an error, wrapping, inspecting an
  error, deferred calls, and the loops that stop at or collect errors. The locale
  \<open>frame_order\<close> is the interface all frame and trace arguments share: a preorder on
  states that every primitive step respects is respected by every composed computation.
\<close>

subsection \<open>Errors\<close>

datatype reason = NotFound | AlreadyExists | Conflict | Forbidden | OtherReason

datatype gerror =
    ApiStatus reason string \<comment> \<open>a status error of the API machinery\<close>
  | ErrNotReady
  | ErrClusterNotConnected
  | ErrUnexpectedPlanState
  | ErrMachineWithoutK0sConfigAnnotation
  | ErrDependentCertificateNotFound
  | Sentinel string \<comment> \<open>another package-level \<open>errors.New\<close>, by its text\<close>
  | Errorf string
  | Wrapf string gerror \<comment> \<open>\<open>fmt.Errorf("msg: %w", err)\<close>\<close>
  | Wrapl gerror string \<comment> \<open>\<open>fmt.Errorf("%w: msg", err)\<close>\<close>
  | Aggregate "gerror list"

primrec error_is :: "gerror \<Rightarrow> gerror \<Rightarrow> bool" where
  \<comment> \<open>\<open>errors.Is(err, target)\<close> for a sentinel target\<close>
  "error_is (ApiStatus r m) t = (ApiStatus r m = t)"
| "error_is ErrNotReady t = (ErrNotReady = t)"
| "error_is ErrClusterNotConnected t = (ErrClusterNotConnected = t)"
| "error_is ErrUnexpectedPlanState t = (ErrUnexpectedPlanState = t)"
| "error_is ErrMachineWithoutK0sConfigAnnotation t = (ErrMachineWithoutK0sConfigAnnotation = t)"
| "error_is ErrDependentCertificateNotFound t = (ErrDependentCertificateNotFound = t)"
| "error_is (Sentinel m) t = (Sentinel m = t)"
| "error_is (Errorf m) t = (Errorf m = t)"
| "error_is (Wrapf m e) t = (Wrapf m e = t \<or> error_is e t)"
| "error_is (Wrapl e m) t = (Wrapl e m = t \<or> error_is e t)"
| "error_is (Aggregate es) t = (Aggregate es = t \<or> list_ex (\<lambda>b. b) (map (\<lambda>e. error_is e t) es))"

primrec error_reason :: "gerror \<Rightarrow> reason option" where
  \<comment> \<open>the status an \<open>apierrors.Is...\<close> predicate finds with \<open>errors.As\<close>\<close>
  "error_reason (ApiStatus r m) = Some r"
| "error_reason ErrNotReady = None"
| "error_reason ErrClusterNotConnected = None"
| "error_reason ErrUnexpectedPlanState = None"
| "error_reason ErrMachineWithoutK0sConfigAnnotation = None"
| "error_reason ErrDependentCertificateNotFound = None"
| "error_reason (Sentinel m) = None"
| "error_reason (Errorf m) = None"
| "error_reason (Wrapf m e) = error_reason e"
| "error_reason (Wrapl e m) = error_reason e"
| "error_reason (Aggregate es) = None"

definition is_not_found :: "gerror \<Rightarrow> bool" where
  "is_not_found e \<longleftrightarrow> error_reason e = Some NotFound"

definition is_already_exists :: "gerror \<Rightarrow> bool" where
  "is_already_exists e \<longleftrightarrow> error_reason e = Some AlreadyExists"

definition is_forbidden :: "gerror \<Rightarrow> bool" where
  "is_forbidden e \<longleftrightarrow> error_reason e = Some Forbidden"

primrec error_text :: "gerror \<Rightarrow> string" where
  \<comment> \<open>\<open>err.Error()\<close>\<close>
  "error_text (ApiStatus r m) = m"
| "error_text ErrNotReady = ''waiting for the state''"
| "error_text ErrClusterNotConnected = ''connection to the workload cluster is down''"
| "error_text ErrUnexpectedPlanState = ''unexpected autopilot plan state''"
| "error_text ErrMachineWithoutK0sConfigAnnotation = ''k0s config annotation not found on machine''"
| "error_text ErrDependentCertificateNotFound = ''could not find secret ca''"
| "error_text (Sentinel m) = m"
| "error_text (Errorf m) = m"
| "error_text (Wrapf m e) = m @ '': '' @ error_text e"
| "error_text (Wrapl e m) = error_text e @ '': '' @ m"
| "error_text (Aggregate es) = ''['' @ join_with '', '' (map error_text es) @ '']''"

definition new_aggregate :: "gerror list \<Rightarrow> gerror option" where
  \<comment> \<open>\<open>kerrors.NewAggregate\<close>: nil when there is no error\<close>
  "new_aggregate es = (if es = [] then None else Some (Aggregate es))"

definition opt_list :: "'a option \<Rightarrow> 'a list" where
  "opt_list x = (case x of None \<Rightarrow> [] | Some v \<Rightarrow> [v])"

subsection \<open>Results and computations\<close>

datatype 'a res = Ok 'a | Err gerror | Panic

type_synonym ('s, 'a) gom = "'s \<Rightarrow> 'a res \<times> 's"

definition ret :: "'a \<Rightarrow> ('s, 'a) gom" where
  "ret x = (\<lambda>s. (Ok x, s))"

definition failM :: "gerror \<Rightarrow> ('s, 'a) gom" where
  "failM e = (\<lambda>s. (Err e, s))"

definition panicM :: "('s, 'a) gom" where
  "panicM = (\<lambda>s. (Panic, s))"

definition bindM :: "('s, 'a) gom \<Rightarrow> ('a \<Rightarrow> ('s, 'b) gom) \<Rightarrow> ('s, 'b) gom" where
  \<comment> \<open>go on with the value, return early on an error\<close>
  "bindM m f = (\<lambda>s. case m s of (r, s') \<Rightarrow>
     (case r of Ok x \<Rightarrow> f x s' | Err e \<Rightarrow> (Err e, s') | Panic \<Rightarrow> (Panic, s')))"

definition tryM :: "('s, 'a) gom \<Rightarrow> (gerror + 'a \<Rightarrow> ('s, 'b) gom) \<Rightarrow> ('s, 'b) gom" where
  \<comment> \<open>go on with the value or with the error\<close>
  "tryM m h = (\<lambda>s. case m s of (r, s') \<Rightarrow>
     (case r of Ok x \<Rightarrow> h (Inr x) s' | Err e \<Rightarrow> h (Inl e) s' | Panic \<Rightarrow> (Panic, s')))"

definition wrapM :: "(gerror \<Rightarrow> gerror) \<Rightarrow> ('s, 'a) gom \<Rightarrow> ('s, 'a) gom" where
  "wrapM g m = (\<lambda>s. case m s of (r, s') \<Rightarrow>
     ((case r of Ok x \<Rightarrow> Ok x | Err e \<Rightarrow> Err (g e) | Panic \<Rightarrow> Panic), s'))"

definition deferM :: "('s, 'a) gom \<Rightarrow> ('s, unit) gom \<Rightarrow> ('s, 'a) gom" where
  \<comment> \<open>a deferred call that does not touch the named results\<close>
  "deferM m d = (\<lambda>s. case m s of (r, s') \<Rightarrow> (case d s' of (q, s'') \<Rightarrow>
     ((case q of Panic \<Rightarrow> Panic | _ \<Rightarrow> r), s'')))"

definition deferNamedM :: "('s, 'a) gom \<Rightarrow> ('a res \<Rightarrow> ('s, 'a) gom) \<Rightarrow> ('s, 'a) gom" where
  \<comment> \<open>a deferred closure that reads and may replace the named results\<close>
  "deferNamedM m d = (\<lambda>s. case m s of (r, s') \<Rightarrow> d r s')"

definition getM :: "('s \<Rightarrow> 'a) \<Rightarrow> ('s, 'a) gom" where
  "getM f = (\<lambda>s. (Ok (f s), s))"

definition modM :: "('s \<Rightarrow> 's) \<Rightarrow> ('s, unit) gom" where
  "modM f = (\<lambda>s. (Ok (), f s))"

definition liftE :: "gerror + 'a \<Rightarrow> ('s, 'a) gom" where
  "liftE r = (case r of Inl e \<Rightarrow> failM e | Inr x \<Rightarrow> ret x)"

definition liftR :: "'a res \<Rightarrow> ('s, 'a) gom" where
  "liftR r = (\<lambda>s. (r, s))"

definition retErr :: "gerror option \<Rightarrow> ('s, unit) gom" where
  \<comment> \<open>\<open>return err\<close> for a possibly nil error\<close>
  "retErr e = (case e of None \<Rightarrow> ret () | Some e' \<Rightarrow> failM e')"

primrec for_each :: "('x \<Rightarrow> ('s, unit) gom) \<Rightarrow> 'x list \<Rightarrow> ('s, unit) gom" where
  "for_each f [] = ret ()"
| "for_each f (x # xs) = bindM (f x) (\<lambda>_. for_each f xs)"

primrec collect_errs :: "('x \<Rightarrow> ('s, gerror list) gom) \<Rightarrow> 'x list \<Rightarrow> ('s, gerror list) gom" where
  "collect_errs f [] = ret []"
| "collect_errs f (x # xs) = bindM (f x) (\<lambda>es. bindM (collect_errs f xs) (\<lambda>es'. ret (es @ es')))"

lemmas gom_defs = ret_def failM_def panicM_def bindM_def tryM_def wrapM_def deferM_def deferNamedM_def getM_def
  modM_def liftR_def

subsection \<open>Facts\<close>

lemma is_not_found_simps [simp]:
  "is_not_found (ApiStatus r m) \<longleftrightarrow> r = NotFound"
  "is_not_found (Wrapf m e) \<longleftrightarrow> is_not_found e"
  "is_not_found (Wrapl e m) \<longleftrightarrow> is_not_found e"
  "\<not> is_not_found (Sentinel m)" "\<not> is_not_found (Errorf m)" "\<not> is_not_found ErrNotReady"
  "\<not> is_not_found ErrClusterNotConnected" "\<not> is_not_found (Aggregate es)"
  by (simp_all add: is_not_found_def)

lemma is_already_exists_simps [simp]:
  "is_already_exists (ApiStatus r m) \<longleftrightarrow> r = AlreadyExists"
  "is_already_exists (Wrapf t e) \<longleftrightarrow> is_already_exists e"
  by (simp_all add: is_already_exists_def)

lemma is_forbidden_simps [simp]: "is_forbidden (ApiStatus r m) \<longleftrightarrow> r = Forbidden"
  by (simp add: is_forbidden_def)

lemma run_ret [simp]: "ret x s = (Ok x, s)"
  and run_failM [simp]: "failM e s = (Err e, s)"
  and run_panicM [simp]: "panicM s = (Panic, s)"
  and run_getM [simp]: "getM f s = (Ok (f s), s)"
  and run_modM [simp]: "modM g s = (Ok (), g s)"
  and run_liftR [simp]: "liftR r s = (r, s)"
  by (simp_all add: gom_defs)

lemma run_retErr [simp]: "retErr None s = (Ok (), s)" "retErr (Some e) s = (Err e, s)"
  by (simp_all add: retErr_def)

lemma run_liftE [simp]: "liftE (Inl e) s = (Err e, s)" "liftE (Inr x) s = (Ok x, s)"
  by (simp_all add: liftE_def)

lemma run_bindM: "bindM m f s = (case m s of (r, s') \<Rightarrow>
    (case r of Ok x \<Rightarrow> f x s' | Err e \<Rightarrow> (Err e, s') | Panic \<Rightarrow> (Panic, s')))"
  by (simp add: bindM_def)

lemma run_tryM: "tryM m h s = (case m s of (r, s') \<Rightarrow>
    (case r of Ok x \<Rightarrow> h (Inr x) s' | Err e \<Rightarrow> h (Inl e) s' | Panic \<Rightarrow> (Panic, s')))"
  by (simp add: tryM_def)

lemma run_wrapM: "wrapM g m s = (case m s of (r, s') \<Rightarrow>
    ((case r of Ok x \<Rightarrow> Ok x | Err e \<Rightarrow> Err (g e) | Panic \<Rightarrow> Panic), s'))"
  by (simp add: wrapM_def)

lemma run_deferM: "deferM m d s = (case m s of (r, s') \<Rightarrow> (case d s' of (q, s'') \<Rightarrow>
    ((case q of Panic \<Rightarrow> Panic | _ \<Rightarrow> r), s'')))"
  by (simp add: deferM_def)

lemma run_deferNamedM: "deferNamedM m d s = (case m s of (r, s') \<Rightarrow> d r s')"
  by (simp add: deferNamedM_def)

lemma run_liftE_case: "liftE r s = (case r of Inl e \<Rightarrow> (Err e, s) | Inr x \<Rightarrow> (Ok x, s))"
  by (cases r) simp_all

lemmas run_simps = run_bindM run_tryM run_wrapM run_deferM run_deferNamedM run_liftE_case

lemma bindM_OkE:
  assumes "bindM m f s = (Ok y, s')"
  obtains x s1 where "m s = (Ok x, s1)" and "f x s1 = (Ok y, s')"
  using assms by (auto simp: run_bindM split: prod.splits res.splits)

lemma wrapM_OkE:
  assumes "wrapM g m s = (Ok y, s')"
  obtains "m s = (Ok y, s')"
  using assms by (auto simp: run_wrapM split: prod.splits res.splits)

subsection \<open>Frame orders\<close>

definition keeps :: "('s \<Rightarrow> 's \<Rightarrow> bool) \<Rightarrow> ('s, 'a) gom \<Rightarrow> bool" where
  "keeps R m \<longleftrightarrow> (\<forall>s. R s (snd (m s)))"

lemma keepsD: "keeps R m \<Longrightarrow> m s = (r, s') \<Longrightarrow> R s s'"
  unfolding keeps_def by (metis snd_conv)

locale frame_order =
  fixes R :: "'s \<Rightarrow> 's \<Rightarrow> bool"
  assumes frame_refl: "R s s"
    and frame_trans: "R s t \<Longrightarrow> R t u \<Longrightarrow> R s u"
begin

lemma keeps_pure: "keeps R (ret x)" "keeps R (failM e)" "keeps R panicM" "keeps R (getM f)"
    "keeps R (liftR r)"
  by (simp_all add: keeps_def frame_refl)

lemma keeps_liftE: "keeps R (liftE r)"
  by (cases r) (simp_all add: keeps_def frame_refl)

lemma keeps_retErr: "keeps R (retErr e)"
  by (cases e) (simp_all add: keeps_def frame_refl)

lemma keeps_modM: "(\<And>s. R s (f s)) \<Longrightarrow> keeps R (modM f)"
  by (simp add: keeps_def)

lemma keeps_bindM: "keeps R m \<Longrightarrow> (\<And>x. keeps R (f x)) \<Longrightarrow> keeps R (bindM m f)"
  unfolding keeps_def run_bindM
  by (auto split: prod.splits res.splits) (metis frame_trans snd_conv)+

lemma keeps_bindM_ok: "keeps R m \<Longrightarrow> (\<And>x s s'. m s = (Ok x, s') \<Longrightarrow> keeps R (f x)) \<Longrightarrow> keeps R (bindM m f)"
  \<comment> \<open>what follows may use that its argument was really returned\<close>
  unfolding keeps_def run_bindM
  by (auto split: prod.splits res.splits) (metis frame_trans snd_conv)+

lemma keeps_tryM: "keeps R m \<Longrightarrow> (\<And>x. keeps R (h x)) \<Longrightarrow> keeps R (tryM m h)"
  unfolding keeps_def run_tryM
  by (auto split: prod.splits res.splits) (metis frame_trans snd_conv)+

lemma keeps_tryM_ok:
  "keeps R m \<Longrightarrow> (\<And>e. keeps R (h (Inl e))) \<Longrightarrow> (\<And>x s s'. m s = (Ok x, s') \<Longrightarrow> keeps R (h (Inr x))) \<Longrightarrow> keeps R (tryM m h)"
  unfolding keeps_def run_tryM
  by (auto split: prod.splits res.splits) (metis frame_trans snd_conv)+

lemma keeps_wrapM: "keeps R m \<Longrightarrow> keeps R (wrapM g m)"
  unfolding keeps_def run_wrapM by (auto split: prod.splits) (metis snd_conv)

lemma keeps_deferM: "keeps R m \<Longrightarrow> keeps R d \<Longrightarrow> keeps R (deferM m d)"
  unfolding keeps_def run_deferM by (auto split: prod.splits) (metis frame_trans snd_conv)

lemma keeps_deferNamedM: "keeps R m \<Longrightarrow> (\<And>r. keeps R (d r)) \<Longrightarrow> keeps R (deferNamedM m d)"
  unfolding keeps_def run_deferNamedM by (auto split: prod.splits) (metis frame_trans snd_conv)

lemma keeps_for_each: "(\<And>x. keeps R (f x)) \<Longrightarrow> keeps R (for_each f xs)"
  by (induction xs) (auto intro: keeps_pure keeps_bindM)

lemma keeps_collect_errs: "(\<And>x. keeps R (f x)) \<Longrightarrow> keeps R (collect_errs f xs)"
  by (induction xs) (auto intro!: keeps_pure keeps_bindM)

lemmas keeps_intros = keeps_pure keeps_liftE keeps_retErr keeps_bindM keeps_tryM keeps_wrapM
  keeps_deferM keeps_deferNamedM keeps_for_each keeps_collect_errs

end

end
