(* ===== verification/Kube.thy ===== *)
theory Kube
  imports Go_Effects "HOL-Library.Multiset"
begin

text \<open>
  The data of Kubernetes and Cluster API that the controllers read and write, and the
  functions of third-party packages they call. The data types are the fields the source
  uses of the third-party types. The functions are not defined here: they are the fields
  of the records \<open>ver_lib\<close> (\<open>k0sproject/version\<close>), \<open>cond_lib\<close>
  (\<open>cluster-api/util/conditions\<close>), \<open>coll_lib\<close> (\<open>util/collections\<close>,
  \<open>util/failuredomains\<close>) and \<open>json_lib\<close> (\<open>apimachinery/unstructured\<close>,
  \<open>mergo\<close>), which the model takes as arguments. What the documentation of those packages
  promises is stated as predicates (\<open>ver_laws\<close>, \<open>cond_laws\<close>, \<open>coll_laws\<close>)
  that theorems take as hypotheses. Times are nanoseconds as \<open>int\<close>; a nil or zero
  timestamp is \<open>None\<close>.
\<close>

subsection \<open>Time and results of a reconciliation\<close>

definition second :: int where
  "second = 1000000000"

definition minute :: int where
  "minute = 60 * second"

record result =
  Requeue :: bool
  RequeueAfter :: int

definition zero_result :: result where
  "zero_result = \<lparr>Requeue = False, RequeueAfter = 0\<rparr>"

definition result_is_zero :: "result \<Rightarrow> bool" where
  "result_is_zero r \<longleftrightarrow> r = zero_result"

definition requeue_10s :: result where
  \<comment> \<open>\<open>ctrl.Result{RequeueAfter: 10 * time.Second, Requeue: true}\<close>\<close>
  "requeue_10s = \<lparr>Requeue = True, RequeueAfter = 10 * second\<rparr>"

subsection \<open>Unstructured values\<close>

datatype json =
    JNull
  | JBool bool
  | JInt int
  | JStr string
  | JArr "json list"
  | JObj "(string \<times> json) list"

type_synonym object = "(string \<times> json) list" \<comment> \<open>\<open>map[string]any\<close>, keys distinct\<close>

subsection \<open>Conditions\<close>

datatype cstatus = ConditionTrue | ConditionFalse | ConditionUnknown

record condition =
  c_Type :: string
  c_Status :: cstatus
  c_Reason :: string
  c_Message :: string
  c_LastTransitionTime :: int

definition mk_condition :: "string \<Rightarrow> cstatus \<Rightarrow> string \<Rightarrow> string \<Rightarrow> condition" where
  \<comment> \<open>a composite literal of \<open>metav1.Condition\<close>; the transition time is left zero\<close>
  "mk_condition t st r m =
     \<lparr>c_Type = t, c_Status = st, c_Reason = r, c_Message = m, c_LastTransitionTime = 0\<rparr>"

subsection \<open>Objects\<close>

record objref =
  r_Kind :: string
  r_Name :: string
  r_APIGroup :: string

record ownerref =
  o_APIVersion :: string
  o_Kind :: string
  o_Name :: string
  o_UID :: string

record objmeta =
  om_Name :: string
  om_Namespace :: string
  om_UID :: string
  om_Labels :: strmap
  om_Annotations :: strmap
  om_OwnerReferences :: "ownerref list"
  om_Finalizers :: "string list"
  om_CreationTimestamp :: int
  om_DeletionTimestamp :: "int option"

record machine =
  m_Name :: string
  m_Namespace :: string
  m_Labels :: strmap
  m_Annotations :: strmap
  m_OwnerReferences :: "ownerref list"
  m_CreationTimestamp :: int
  m_DeletionTimestamp :: "int option"
  m_Version :: string
  m_ClusterName :: string
  m_FailureDomain :: string
  m_ConfigRef :: objref
  m_InfrastructureRef :: objref
  m_ProviderID :: string
  m_NodeRefName :: string
  m_Addresses :: "(string \<times> string) list" \<comment> \<open>type and address\<close>
  m_Phase :: string
  m_Conditions :: "condition list"

record unstructured =
  u_APIVersion :: string
  u_Kind :: string
  u_Name :: string
  u_Namespace :: string
  u_Labels :: strmap
  u_Annotations :: strmap
  u_Content :: object

record failure_domain =
  fd_Name :: string
  fd_ControlPlane :: "bool option"

record cluster =
  cl_Name :: string
  cl_Namespace :: string
  cl_UID :: string
  cl_Annotations :: strmap
  cl_EndpointHost :: string
  cl_EndpointPort :: int
  cl_EndpointIsZero :: bool \<comment> \<open>\<open>Spec.ControlPlaneEndpoint.IsZero()\<close>\<close>
  cl_EndpointString :: string \<comment> \<open>\<open>Spec.ControlPlaneEndpoint.String()\<close>\<close>
  cl_ControlPlaneRef :: objref
  cl_InfrastructureRef :: objref
  cl_Pods :: string \<comment> \<open>\<open>Spec.ClusterNetwork.Pods.String()\<close>\<close>
  cl_Services :: string
  cl_ServiceDomain :: string
  cl_FailureDomains :: "failure_domain list"
  cl_Conditions :: "condition list"

record secret =
  s_Name :: string
  s_Namespace :: string
  s_Labels :: strmap
  s_Annotations :: strmap
  s_OwnerReferences :: "ownerref list"
  s_Data :: "string \<rightharpoonup> string"
  s_Type :: string

datatype mgmt_client = ManagementClient | HostingClusterClient
  \<comment> \<open>the cluster a client talks to: where the controllers run, or where hosted control planes run\<close>

subsection \<open>Labels and annotations of Cluster API\<close>

definition ClusterNameLabel :: string where
  "ClusterNameLabel = ''cluster.x-k8s.io/cluster-name''"
definition MachineControlPlaneLabel :: string where
  "MachineControlPlaneLabel = ''cluster.x-k8s.io/control-plane''"
definition MachineControlPlaneNameLabel :: string where
  "MachineControlPlaneNameLabel = ''cluster.x-k8s.io/control-plane-name''"
definition TemplateClonedFromNameAnnotation :: string where
  "TemplateClonedFromNameAnnotation = ''cluster.x-k8s.io/cloned-from-name''"
definition TemplateClonedFromGroupKindAnnotation :: string where
  "TemplateClonedFromGroupKindAnnotation = ''cluster.x-k8s.io/cloned-from-groupkind''"
definition UpdateInProgressAnnotation :: string where
  "UpdateInProgressAnnotation = ''in-place-updates.internal.cluster.x-k8s.io/update-in-progress''"
definition PendingHooksAnnotation :: string where
  "PendingHooksAnnotation = ''runtime.cluster.x-k8s.io/pending-hooks''"

definition MachineReadyCondition :: string where "MachineReadyCondition = ''Ready''"
definition MachineAvailableCondition :: string where "MachineAvailableCondition = ''Available''"
definition MachineUpToDateCondition :: string where "MachineUpToDateCondition = ''UpToDate''"
definition MachineUpdatingCondition :: string where "MachineUpdatingCondition = ''Updating''"
definition MachineOwnerRemediatedCondition :: string where
  "MachineOwnerRemediatedCondition = ''OwnerRemediated''"
definition MachineHealthCheckSucceededCondition :: string where
  "MachineHealthCheckSucceededCondition = ''HealthCheckSucceeded''"

subsection \<open>Third-party functions as parameters\<close>

text \<open>
  A parsed version is determined by the string it was parsed from, so the operations on
  parsed versions are functions of those strings.
\<close>

record ver_lib =
  ver_NewVersion :: "string \<Rightarrow> gerror option" \<comment> \<open>the error of \<open>version.NewVersion\<close>\<close>
  ver_GreaterThanOrEqual :: "string \<Rightarrow> string \<Rightarrow> bool"
  ver_Equal :: "string \<Rightarrow> string \<Rightarrow> bool"
  ver_LessThan :: "string \<Rightarrow> string \<Rightarrow> bool"
  ver_String :: "string \<Rightarrow> string"
  ver_CoreString :: "string \<Rightarrow> string" \<comment> \<open>\<open>v.Core().String()\<close>\<close>
  ver_Minor :: "string \<Rightarrow> int" \<comment> \<open>\<open>v.Core().Segments()[1]\<close>\<close>
  ver_Sort :: "string list \<Rightarrow> string list" \<comment> \<open>\<open>sort.Sort(version.Collection(vs))\<close>\<close>

definition ver_laws :: "ver_lib \<Rightarrow> bool" where
  \<comment> \<open>sorting permutes and puts a least version first; equality is reflexive on versions\<close>
  "ver_laws V \<longleftrightarrow>
     (\<forall>vs. mset (ver_Sort V vs) = mset vs) \<and>
     (\<forall>vs v. v \<in> set vs \<longrightarrow> \<not> ver_LessThan V v (hd (ver_Sort V vs))) \<and>
     (\<forall>v. ver_NewVersion V v = None \<longrightarrow> ver_Equal V v v)"

record cond_lib =
  cond_Get :: "condition list \<Rightarrow> string \<Rightarrow> condition option"
  cond_IsTrue :: "condition list \<Rightarrow> string \<Rightarrow> bool"
  cond_IsFalse :: "condition list \<Rightarrow> string \<Rightarrow> bool"
  cond_Set :: "int \<Rightarrow> condition list \<Rightarrow> condition \<Rightarrow> condition list"
  cond_Delete :: "condition list \<Rightarrow> string \<Rightarrow> condition list"

definition cond_laws :: "cond_lib \<Rightarrow> bool" where
  "cond_laws K \<longleftrightarrow>
     (\<forall>cs t. cond_IsTrue K cs t \<longleftrightarrow> (\<exists>c. cond_Get K cs t = Some c \<and> c_Status c = ConditionTrue)) \<and>
     (\<forall>cs t. cond_IsFalse K cs t \<longleftrightarrow> (\<exists>c. cond_Get K cs t = Some c \<and> c_Status c = ConditionFalse)) \<and>
     (\<forall>now cs c. \<exists>c'. cond_Get K (cond_Set K now cs c) (c_Type c) = Some c' \<and>
        c_Status c' = c_Status c \<and> c_Reason c' = c_Reason c \<and> c_Message c' = c_Message c) \<and>
     (\<forall>now cs c t. t \<noteq> c_Type c \<longrightarrow> cond_Get K (cond_Set K now cs c) t = cond_Get K cs t) \<and>
     (\<forall>cs t. cond_Get K (cond_Delete K cs t) t = None) \<and>
     (\<forall>cs t u. u \<noteq> t \<longrightarrow> cond_Get K (cond_Delete K cs t) u = cond_Get K cs u)"

record coll_lib =
  coll_Oldest :: "machine list \<Rightarrow> machine option"
  coll_Newest :: "machine list \<Rightarrow> machine option"
  coll_SortedByCreationTimestamp :: "machine list \<Rightarrow> machine list"
  coll_IsUnhealthyAndOwnerRemediated :: "machine \<Rightarrow> bool"
  coll_ControlPlaneMachines :: "string \<Rightarrow> machine \<Rightarrow> bool"
  coll_ControlPlaneSelector :: "string \<Rightarrow> string"
  fd_PickFewest :: "failure_domain list \<Rightarrow> machine list \<Rightarrow> machine list \<Rightarrow> string"

definition coll_laws :: "coll_lib \<Rightarrow> bool" where
  "coll_laws C \<longleftrightarrow>
     (\<forall>ms. coll_Oldest C ms = None \<longleftrightarrow> ms = []) \<and>
     (\<forall>ms m. coll_Oldest C ms = Some m \<longrightarrow> m \<in> set ms \<and>
        (\<forall>m' \<in> set ms. m_CreationTimestamp m \<le> m_CreationTimestamp m')) \<and>
     (\<forall>ms. coll_Newest C ms = None \<longleftrightarrow> ms = []) \<and>
     (\<forall>ms m. coll_Newest C ms = Some m \<longrightarrow> m \<in> set ms \<and>
        (\<forall>m' \<in> set ms. m_CreationTimestamp m' \<le> m_CreationTimestamp m)) \<and>
     (\<forall>ms. mset (coll_SortedByCreationTimestamp C ms) = mset ms)"

text \<open>
  The accessors of \<open>unstructured\<close> return a value, whether it was found, and an error:
  \<open>Inl e\<close> is the error, \<open>Inr None\<close> "not found", \<open>Inr (Some v)\<close> the value.
\<close>

record json_lib =
  NestedString :: "object \<Rightarrow> string list \<Rightarrow> gerror + string option"
  NestedBool :: "object \<Rightarrow> string list \<Rightarrow> gerror + bool option"
  NestedMap :: "object \<Rightarrow> string list \<Rightarrow> gerror + object option"
  NestedSlice :: "object \<Rightarrow> string list \<Rightarrow> gerror + json list option"
  NestedStringSlice :: "object \<Rightarrow> string list \<Rightarrow> gerror + string list option"
  SetNestedField :: "object \<Rightarrow> json \<Rightarrow> string list \<Rightarrow> gerror + object"
  SetNestedMap :: "object \<Rightarrow> object \<Rightarrow> string list \<Rightarrow> gerror + object"
  SetNestedStringSlice :: "object \<Rightarrow> string list \<Rightarrow> string list \<Rightarrow> gerror + object"
  RemoveNestedField :: "object \<Rightarrow> string list \<Rightarrow> object"
  MergoMerge :: "object \<Rightarrow> object \<Rightarrow> gerror + object"
  MergoMergeSlices :: "object \<Rightarrow> object \<Rightarrow> gerror + object" \<comment> \<open>with \<open>mergo.WithSliceDeepCopy\<close>\<close>
  MarshalObject :: "object \<Rightarrow> gerror option" \<comment> \<open>the error of \<open>MarshalJSON\<close>\<close>

fun nested_lookup :: "object \<Rightarrow> string list \<Rightarrow> json option" where
  \<comment> \<open>the value at a path of keys\<close>
  "nested_lookup ob [] = Some (JObj ob)"
| "nested_lookup ob [k] = map_of ob k"
| "nested_lookup ob (k # ks) = (case map_of ob k of Some (JObj ob') \<Rightarrow> nested_lookup ob' ks | _ \<Rightarrow> None)"

definition json_laws :: "json_lib \<Rightarrow> bool" where
  \<comment> \<open>an accessor returns the value at the path when it has the accessor's type; removing a path
      leaves nothing there and adds nothing elsewhere; what was set is found; a merge keeps a
      non-empty list of its destination\<close>
  "json_laws J \<longleftrightarrow>
     (\<forall>ob p xs. nested_lookup ob p = Some (JArr xs) \<longrightarrow> NestedSlice J ob p = Inr (Some xs)) \<and>
     (\<forall>ob p m. nested_lookup ob p = Some (JObj m) \<longrightarrow> NestedMap J ob p = Inr (Some m)) \<and>
     (\<forall>ob p v. nested_lookup ob p = Some (JStr v) \<longrightarrow> NestedString J ob p = Inr (Some v)) \<and>
     (\<forall>ob p xs. nested_lookup ob p = Some (JArr (map JStr xs)) \<longrightarrow> NestedStringSlice J ob p = Inr (Some xs)) \<and>
     (\<forall>ob p. p \<noteq> [] \<longrightarrow> nested_lookup (RemoveNestedField J ob p) p = None) \<and>
     (\<forall>ob p q. p \<noteq> [] \<longrightarrow> nested_lookup ob q = None \<longrightarrow> nested_lookup (RemoveNestedField J ob p) q = None) \<and>
     (\<forall>ob xs p ob'. p \<noteq> [] \<longrightarrow> SetNestedStringSlice J ob xs p = Inr ob' \<longrightarrow>
        nested_lookup ob' p = Some (JArr (map JStr xs))) \<and>
     (\<forall>dst src ob' p x xs. MergoMerge J dst src = Inr ob' \<longrightarrow> nested_lookup dst p = Some (JArr (x # xs)) \<longrightarrow>
        nested_lookup ob' p = Some (JArr (x # xs)))"

subsection \<open>Facts\<close>

lemma json_lawsD:
  assumes "json_laws J"
  shows "nested_lookup ob p = Some (JArr xs) \<Longrightarrow> NestedSlice J ob p = Inr (Some xs)"
    and "nested_lookup ob p = Some (JObj m) \<Longrightarrow> NestedMap J ob p = Inr (Some m)"
    and "nested_lookup ob p = Some (JStr v) \<Longrightarrow> NestedString J ob p = Inr (Some v)"
    and "nested_lookup ob p = Some (JArr (map JStr ss)) \<Longrightarrow> NestedStringSlice J ob p = Inr (Some ss)"
    and "p \<noteq> [] \<Longrightarrow> nested_lookup (RemoveNestedField J ob p) p = None"
    and "p \<noteq> [] \<Longrightarrow> nested_lookup ob q = None \<Longrightarrow> nested_lookup (RemoveNestedField J ob p) q = None"
    and "p \<noteq> [] \<Longrightarrow> SetNestedStringSlice J ob ss p = Inr ob' \<Longrightarrow> nested_lookup ob' p = Some (JArr (map JStr ss))"
    and "MergoMerge J ob src = Inr ob' \<Longrightarrow> nested_lookup ob p = Some (JArr (x # xs)) \<Longrightarrow>
      nested_lookup ob' p = Some (JArr (x # xs))"
  using assms unfolding json_laws_def by simp_all

lemma cond_lawsD:
  assumes "cond_laws K"
  shows "cond_IsTrue K cs t \<longleftrightarrow> (\<exists>c. cond_Get K cs t = Some c \<and> c_Status c = ConditionTrue)"
    and "cond_IsFalse K cs t \<longleftrightarrow> (\<exists>c. cond_Get K cs t = Some c \<and> c_Status c = ConditionFalse)"
    and "\<exists>c'. cond_Get K (cond_Set K now cs c) (c_Type c) = Some c' \<and>
        c_Status c' = c_Status c \<and> c_Reason c' = c_Reason c \<and> c_Message c' = c_Message c"
    and "t \<noteq> c_Type c \<Longrightarrow> cond_Get K (cond_Set K now cs c) t = cond_Get K cs t"
    and "cond_Get K (cond_Delete K cs t) t = None"
    and "u \<noteq> t \<Longrightarrow> cond_Get K (cond_Delete K cs t) u = cond_Get K cs u"
proof -
  note laws = assms [unfolded cond_laws_def]
  note rest = laws [THEN conjunct2] laws [THEN conjunct2, THEN conjunct2]
    laws [THEN conjunct2, THEN conjunct2, THEN conjunct2]
    laws [THEN conjunct2, THEN conjunct2, THEN conjunct2, THEN conjunct2]
  show "cond_IsTrue K cs t \<longleftrightarrow> (\<exists>c. cond_Get K cs t = Some c \<and> c_Status c = ConditionTrue)"
    using laws [THEN conjunct1] by (elim allE)
  show "cond_IsFalse K cs t \<longleftrightarrow> (\<exists>c. cond_Get K cs t = Some c \<and> c_Status c = ConditionFalse)"
    using rest(1) [THEN conjunct1] by (elim allE)
  show "\<exists>c'. cond_Get K (cond_Set K now cs c) (c_Type c) = Some c' \<and>
        c_Status c' = c_Status c \<and> c_Reason c' = c_Reason c \<and> c_Message c' = c_Message c"
    using rest(2) [THEN conjunct1] by (elim allE)
  show "t \<noteq> c_Type c \<Longrightarrow> cond_Get K (cond_Set K now cs c) t = cond_Get K cs t"
    using rest(3) [THEN conjunct1] by simp
  show "cond_Get K (cond_Delete K cs t) t = None"
    using rest(4) [THEN conjunct1] by simp
  show "u \<noteq> t \<Longrightarrow> cond_Get K (cond_Delete K cs t) u = cond_Get K cs u"
    using rest(4) [THEN conjunct2] by simp
qed

lemma cond_IsTrue_Set:
  assumes "cond_laws K"
  shows "cond_IsTrue K (cond_Set K now cs c) t \<longleftrightarrow>
     (if t = c_Type c then c_Status c = ConditionTrue else cond_IsTrue K cs t)"
  using cond_lawsD(1,4)[OF assms] cond_lawsD(3)[OF assms, of now cs c] by auto

lemma cond_IsFalse_Set:
  assumes "cond_laws K"
  shows "cond_IsFalse K (cond_Set K now cs c) t \<longleftrightarrow>
     (if t = c_Type c then c_Status c = ConditionFalse else cond_IsFalse K cs t)"
  using cond_lawsD(2,4)[OF assms] cond_lawsD(3)[OF assms, of now cs c] by auto

lemma cond_IsFalse_Delete:
  assumes "cond_laws K"
  shows "cond_IsFalse K (cond_Delete K cs t) u \<longleftrightarrow> u \<noteq> t \<and> cond_IsFalse K cs u"
  using cond_lawsD(2,5,6)[OF assms] by (cases "u = t") auto

lemma coll_Oldest_SomeD:
  assumes "coll_laws C" and "coll_Oldest C ms = Some m"
  shows "m \<in> set ms" and "\<And>m'. m' \<in> set ms \<Longrightarrow> m_CreationTimestamp m \<le> m_CreationTimestamp m'"
proof -
  have "m \<in> set ms \<and> (\<forall>m' \<in> set ms. m_CreationTimestamp m \<le> m_CreationTimestamp m')"
    using assms(1) [unfolded coll_laws_def, THEN conjunct2, THEN conjunct1] assms(2) by simp
  then show "m \<in> set ms" and "\<And>m'. m' \<in> set ms \<Longrightarrow> m_CreationTimestamp m \<le> m_CreationTimestamp m'"
    by simp_all
qed

lemma coll_Oldest_None: "coll_laws C \<Longrightarrow> coll_Oldest C ms = None \<longleftrightarrow> ms = []"
  by (simp add: coll_laws_def)

lemma coll_Oldest_ex: "coll_laws C \<Longrightarrow> ms \<noteq> [] \<Longrightarrow> \<exists>m \<in> set ms. coll_Oldest C ms = Some m"
  by (metis coll_Oldest_None coll_Oldest_SomeD(1) option.exhaust)

lemma requeue_10s_not_zero [simp]: "\<not> result_is_zero requeue_10s"
  by (simp add: result_is_zero_def requeue_10s_def zero_result_def)

lemma zero_result_is_zero [simp]: "result_is_zero zero_result"
  by (simp add: result_is_zero_def)

end
