(* ===== verification/Bootstrap_API.thy ===== *)
theory Bootstrap_API
  imports Kube
begin

text \<open>
  The types of \<open>api/bootstrap/v1beta2\<close> and \<open>api/bootstrap/v1beta1\<close> (the k0s
  configuration of a node, \<open>K0sControllerConfig\<close> and \<open>K0sWorkerConfig\<close>), the methods
  on them, and the validation that the \<open>K0sWorkerConfig\<close> webhook runs. The types of
  v1beta1 carry the suffix \<open>_v1\<close>. The lemmas show that the validation loops accept
  exactly the declaratively well-formed specifications.
\<close>

subsection \<open>Types of internal/provisioner\<close>

type_synonym ProvisioningFormat = string

definition CloudInitProvisioningFormat :: string where "CloudInitProvisioningFormat = ''cloud-config''"
definition IgnitionProvisioningFormat :: string where "IgnitionProvisioningFormat = ''ignition''"
definition PowershellProvisioningFormat :: string where "PowershellProvisioningFormat = ''powershell''"
definition PowershellXMLProvisioningFormat :: string where
  "PowershellXMLProvisioningFormat = ''powershell-xml''"

definition PlatformLinux :: string where "PlatformLinux = ''linux''"
definition PlatformWindows :: string where "PlatformWindows = ''windows''"

lemmas format_defs = CloudInitProvisioningFormat_def IgnitionProvisioningFormat_def
  PowershellProvisioningFormat_def PowershellXMLProvisioningFormat_def PlatformLinux_def
  PlatformWindows_def

record ContentSourceRef =
  csr_Name :: string
  csr_Key :: string

record ContentSource =
  cs_SecretRef :: "ContentSourceRef option"
  cs_ConfigMapRef :: "ContentSourceRef option"

record File =
  f_Path :: string
  f_Content :: string
  f_Permissions :: string
  f_Owner :: string
  f_Encoding :: string
  f_Append :: bool
  f_ContentFrom :: "ContentSource option"

definition OwnerUserAndGroup :: "File \<Rightarrow> string \<times> string" where
  "OwnerUserAndGroup f = (case cut_at (CHR '':'') (f_Owner f) of (user, grp, _) \<Rightarrow> (user, grp))"

subsection \<open>Types of api/bootstrap/v1beta2\<close>

record IgnitionSpec =
  ig_Variant :: string
  ig_Version :: string
  ig_AdditionalConfig :: string

record ProvisionerSpec =
  p_Type :: string
  p_Platform :: string
  p_Ignition :: "IgnitionSpec option"
  p_CustomUserDataRef :: "ContentSource option"

record TunnelingSpec =
  t_Enabled :: bool
  t_ServerAddress :: string
  t_ServerNodePort :: int
  t_TunnelingNodePort :: int
  t_Mode :: string

record SecretMetadata =
  sm_Labels :: strmap
  sm_Annotations :: strmap

record K0sConfigSpec =
  k_Provisioner :: ProvisionerSpec
  k_K0sInstallDir :: string
  k_K0s :: "object option"
  k_Files :: "File slice"
  k_UseSystemHostname :: bool
  k_Args :: "string slice"
  k_PreK0sCommands :: "string slice"
  k_PostK0sCommands :: "string slice"
  k_PreInstalledK0s :: bool
  k_DownloadURL :: string
  k_Tunneling :: TunnelingSpec
  k_SecretMetadata :: "SecretMetadata option"
  k_WorkingDir :: string

record ConfigStatus =
  st_DataSecretName :: "string option"
  st_DataSecretCreated :: "bool option" \<comment> \<open>\<open>Initialization.DataSecretCreated\<close>\<close>
  st_Conditions :: "condition list"

record K0sControllerConfig =
  kcc_Meta :: objmeta
  kcc_Version :: string
  kcc_K0sConfigSpec :: "K0sConfigSpec option" \<comment> \<open>the embedded pointer of the spec\<close>
  kcc_Status :: ConfigStatus

record K0sWorkerConfigSpec =
  w_Provisioner :: ProvisionerSpec
  w_K0sInstallDir :: string
  w_Version :: string
  w_UseSystemHostname :: bool
  w_Files :: "File slice"
  w_Args :: "string slice"
  w_PreK0sCommands :: "string slice"
  w_PostK0sCommands :: "string slice"
  w_PreInstalledK0s :: bool
  w_DownloadURL :: string
  w_SecretMetadata :: "SecretMetadata option"
  w_WorkingDir :: string

record K0sWorkerConfig =
  kwc_Meta :: objmeta
  kwc_Spec :: K0sWorkerConfigSpec
  kwc_Status :: ConfigStatus

record K0sWorkerConfigTemplate =
  kwt_Meta :: objmeta
  kwt_TemplateMeta :: objmeta \<comment> \<open>\<open>Spec.Template.ObjectMeta\<close>\<close>
  kwt_TemplateSpec :: K0sWorkerConfigSpec

subsection \<open>Methods of K0sConfigSpec\<close>

definition GetK0sConfigPath :: "K0sConfigSpec \<Rightarrow> string" where
  "GetK0sConfigPath kcs =
     (if k_WorkingDir kcs = [] then ''/etc/k0s.yaml'' else filepath_join (k_WorkingDir kcs) ''k0s.yaml'')"

definition GetJoinTokenPath :: "K0sConfigSpec \<Rightarrow> string" where
  "GetJoinTokenPath kcs =
     (if k_WorkingDir kcs = [] then ''/etc/k0s.token'' else filepath_join (k_WorkingDir kcs) ''k0s.token'')"

fun worker_args :: "string list \<Rightarrow> bool" where
  \<comment> \<open>the loop of \<open>WorkerEnabled\<close> over the arguments\<close>
  "worker_args [] = False"
| "worker_args (arg # rest) =
     (case cut_at (CHR ''='') arg of (name, value, hasValue) \<Rightarrow>
        if name \<noteq> ''--enable-worker'' \<and> name \<noteq> ''--single'' then worker_args rest
        else if \<not> hasValue then True
        else if parse_bool value = Some True then True
        else worker_args rest)"

definition WorkerEnabled :: "K0sConfigSpec option \<Rightarrow> bool" where
  "WorkerEnabled kcs = (case kcs of None \<Rightarrow> False | Some k \<Rightarrow> worker_args (elems (k_Args k)))"

subsection \<open>Validation of K0sWorkerConfig\<close>

datatype path_element = Child string | Index nat

datatype field_error =
    FieldInvalid "path_element list" string
  | FieldRequired "path_element list" string

definition ownerFormatMsg :: string where
  "ownerFormatMsg = ''owner must be of the form user[:group], using only alphanumerics, '' @ quoted ''.'' @ '', ''
     @ quoted ''_'' @ '' or '' @ quoted ''-''"
definition ownerOnPowerShellMsg :: string where
  "ownerOnPowerShellMsg = ''owner is not supported by the powershell provisioner formats or on the windows platform''"
definition conflictingFileSourceMsg :: string where
  "conflictingFileSourceMsg = ''only one of content or contentFrom may be specified for a single file''"
definition conflictingContentFromMsg :: string where
  "conflictingContentFromMsg = ''only one of contentFrom.secretKeyRef or contentFrom.configMapKeyRef may be specified for a single file''"
definition pathConflictMsg :: string where
  "pathConflictMsg = ''path property must be unique among all files''"
definition noContentMsg :: string where
  "noContentMsg = ''either content or contentFrom must be specified for a file''"

definition appliesOwner :: "ProvisionerSpec \<Rightarrow> bool" where
  "appliesOwner p =
     (if p_Platform p = PlatformWindows then False
      else p_Type p \<noteq> PowershellProvisioningFormat \<and> p_Type p \<noteq> PowershellXMLProvisioningFormat)"

definition owner_char :: "char \<Rightarrow> bool" where
  "owner_char c \<longleftrightarrow> (CHR ''a'' \<le> c \<and> c \<le> CHR ''z'') \<or> (CHR ''A'' \<le> c \<and> c \<le> CHR ''Z'') \<or>
     (CHR ''0'' \<le> c \<and> c \<le> CHR ''9'') \<or> c = CHR ''.'' \<or> c = CHR ''_'' \<or> c = CHR ''-''"

definition ownerRegex_match :: "string \<Rightarrow> bool" where
  \<comment> \<open>the regular expression: one or more owner characters, then optionally a colon and one
      or more owner characters, and nothing else\<close>
  "ownerRegex_match s =
     (case cut_at (CHR '':'') s of (user, grp, hasGroup) \<Rightarrow>
        user \<noteq> [] \<and> list_all owner_char user \<and>
        (hasGroup \<longrightarrow> grp \<noteq> [] \<and> list_all owner_char grp))"

fun validate_owners_from :: "nat \<Rightarrow> File list \<Rightarrow> ProvisionerSpec \<Rightarrow> path_element list \<Rightarrow> field_error list" where
  "validate_owners_from i [] spec pre = []"
| "validate_owners_from i (file # rest) spec pre =
     (if f_Owner file = [] then validate_owners_from (Suc i) rest spec pre
      else if appliesOwner spec then
        (if ownerRegex_match (f_Owner file) then validate_owners_from (Suc i) rest spec pre
         else FieldInvalid (pre @ [Child ''files'', Index i, Child ''owner'']) ownerFormatMsg
              # validate_owners_from (Suc i) rest spec pre)
      else FieldInvalid (pre @ [Child ''files'', Index i, Child ''owner'']) ownerOnPowerShellMsg
           # validate_owners_from (Suc i) rest spec pre)"

definition ValidateFileOwners :: "File list \<Rightarrow> ProvisionerSpec \<Rightarrow> path_element list \<Rightarrow> field_error list" where
  "ValidateFileOwners files spec pre = validate_owners_from 0 files spec pre"

definition file_source_errors :: "nat \<Rightarrow> File \<Rightarrow> path_element list \<Rightarrow> field_error list" where
  \<comment> \<open>the checks of the loop body before the path check\<close>
  "file_source_errors i file pre =
     (let at = pre @ [Child ''files'', Index i] in
      (if f_Content file \<noteq> [] \<and> f_ContentFrom file \<noteq> None
       then [FieldInvalid at conflictingFileSourceMsg] else []) @
      (if f_ContentFrom file = None \<and> f_Content file = []
       then [FieldInvalid at noContentMsg] else []) @
      (case f_ContentFrom file of
         None \<Rightarrow> []
       | Some cf \<Rightarrow>
           (if cs_SecretRef cf \<noteq> None \<and> cs_ConfigMapRef cf \<noteq> None
            then [FieldInvalid (at @ [Child ''contentFrom'']) conflictingContentFromMsg] else []) @
           (case cs_SecretRef cf of
              Some r \<Rightarrow> if csr_Name r = [] then
                [FieldRequired (at @ [Child ''contentFrom'', Child ''secretRef'', Child ''name''])
                   ''name is required''] else []
            | None \<Rightarrow> []) @
           (case cs_ConfigMapRef cf of
              Some r \<Rightarrow> if csr_Name r = [] then
                [FieldRequired (at @ [Child ''contentFrom'', Child ''configMapRef'', Child ''name''])
                   ''name is required''] else []
            | None \<Rightarrow> [])))"

fun validate_files_from :: "nat \<Rightarrow> string set \<Rightarrow> File list \<Rightarrow> path_element list \<Rightarrow> field_error list" where
  \<comment> \<open>the loop over the files; the set is \<open>knownPaths\<close>\<close>
  "validate_files_from i known [] pre = []"
| "validate_files_from i known (file # rest) pre =
     file_source_errors i file pre @
     (if f_Path file \<in> known
      then [FieldInvalid (pre @ [Child ''files'', Index i, Child ''path'']) pathConflictMsg] else []) @
     validate_files_from (Suc i) (insert (f_Path file) known) rest pre"

definition validateFiles :: "K0sWorkerConfigSpec \<Rightarrow> path_element list \<Rightarrow> field_error list" where
  "validateFiles cs pre =
     validate_files_from 0 {} (elems (w_Files cs)) pre @
     ValidateFileOwners (elems (w_Files cs)) (w_Provisioner cs) pre"

definition validateVersion :: "K0sWorkerConfigSpec \<Rightarrow> path_element list \<Rightarrow> field_error list" where
  "validateVersion cs pre =
     (if contains (w_Version cs) ''-k0s.''
      then [FieldInvalid (pre @ [Child ''version''])
              (''k0s specific versions must be specified using the '' @ quoted ''+k0s'' @ '' suffix'')]
      else [])"

definition minWindowsVersion :: string where
  "minWindowsVersion = ''v1.34.2+k0s.0''"

definition validateWindows :: "ver_lib \<Rightarrow> K0sWorkerConfigSpec \<Rightarrow> path_element list \<Rightarrow> field_error list" where
  "validateWindows V cs pre =
     (if p_Platform (w_Provisioner cs) \<noteq> PlatformWindows then []
      else if ver_NewVersion V (w_Version cs) \<noteq> None
      then [FieldInvalid (pre @ [Child ''version'']) ''invalid version format'']
      else if ver_LessThan V (w_Version cs) minWindowsVersion
      then [FieldInvalid (pre @ [Child ''version''])
              ''windows worker nodes require k0s version v1.34.2+k0s.0 or higher'']
      else [])"

definition Validate :: "ver_lib \<Rightarrow> K0sWorkerConfigSpec \<Rightarrow> path_element list \<Rightarrow> field_error list" where
  "Validate V cs pre = validateVersion cs pre @ validateFiles cs pre @ validateWindows V cs pre"

definition validate_worker_config :: "ver_lib \<Rightarrow> K0sWorkerConfigSpec \<Rightarrow> field_error list option" where
  \<comment> \<open>\<open>K0sWorkerConfigValidator.validate\<close>; \<open>Some errs\<close> is the Invalid status error\<close>
  "validate_worker_config V c =
     (let allErrs = Validate V c [Child ''spec''] in if length allErrs = 0 then None else Some allErrs)"

subsection \<open>What validation accepts\<close>

definition content_source_ok :: "ContentSource \<Rightarrow> bool" where
  "content_source_ok cf \<longleftrightarrow>
     \<not> (cs_SecretRef cf \<noteq> None \<and> cs_ConfigMapRef cf \<noteq> None) \<and>
     (\<forall>r. cs_SecretRef cf = Some r \<longrightarrow> csr_Name r \<noteq> []) \<and>
     (\<forall>r. cs_ConfigMapRef cf = Some r \<longrightarrow> csr_Name r \<noteq> [])"

definition file_source_ok :: "File \<Rightarrow> bool" where
  \<comment> \<open>exactly one source, and a complete one\<close>
  "file_source_ok f \<longleftrightarrow> (f_Content f \<noteq> [] \<longleftrightarrow> f_ContentFrom f = None) \<and>
     (\<forall>cf. f_ContentFrom f = Some cf \<longrightarrow> content_source_ok cf)"

definition owner_ok :: "ProvisionerSpec \<Rightarrow> File \<Rightarrow> bool" where
  "owner_ok p f \<longleftrightarrow> f_Owner f = [] \<or> appliesOwner p \<and> ownerRegex_match (f_Owner f)"

definition worker_spec_ok :: "ver_lib \<Rightarrow> K0sWorkerConfigSpec \<Rightarrow> bool" where
  "worker_spec_ok V cs \<longleftrightarrow>
     \<not> contains (w_Version cs) ''-k0s.'' \<and>
     (\<forall>f \<in> set (elems (w_Files cs)). file_source_ok f \<and> owner_ok (w_Provisioner cs) f) \<and>
     distinct (map f_Path (elems (w_Files cs))) \<and>
     (p_Platform (w_Provisioner cs) = PlatformWindows \<longrightarrow>
        ver_NewVersion V (w_Version cs) = None \<and> \<not> ver_LessThan V (w_Version cs) minWindowsVersion)"

lemma file_source_errors_Nil: "file_source_errors i f pre = [] \<longleftrightarrow> file_source_ok f"
  by (auto simp: file_source_errors_def file_source_ok_def content_source_ok_def Let_def
      split: option.splits)

lemma validate_files_from_Nil:
  "validate_files_from i known fs pre = [] \<longleftrightarrow>
     (\<forall>f \<in> set fs. file_source_ok f) \<and> distinct (map f_Path fs) \<and> f_Path ` set fs \<inter> known = {}"
  by (induction i known fs pre rule: validate_files_from.induct)
    (auto simp: file_source_errors_Nil)

lemma validate_owners_from_Nil:
  "validate_owners_from i fs spec pre = [] \<longleftrightarrow> (\<forall>f \<in> set fs. owner_ok spec f)"
  by (induction i fs spec pre rule: validate_owners_from.induct) (auto simp: owner_ok_def)

lemma Validate_Nil: "Validate V cs pre = [] \<longleftrightarrow> worker_spec_ok V cs"
  by (auto simp: Validate_def validateVersion_def validateFiles_def validateWindows_def
      ValidateFileOwners_def worker_spec_ok_def validate_files_from_Nil validate_owners_from_Nil)

lemma flag_cut:
  assumes "cut_at (CHR ''='') arg = (name, v, has)" and "CHR ''='' \<notin> set n"
  shows "arg = n \<or> (\<exists>w. arg = n @ ''='' @ w \<and> P w) \<longleftrightarrow> name = n \<and> (\<not> has \<or> P v)"
proof (cases has)
  case True
  with assms(1) have arg: "arg = name @ CHR ''='' # v" "CHR ''='' \<notin> set name"
    using cut_at_found [of _ arg name v] by auto
  have "arg = n @ CHR ''='' # w \<Longrightarrow> n = name \<and> w = v" for w
    using assms cut_at_append [OF assms(2), of w] by auto
  moreover have "arg \<noteq> n"
    using arg assms(2) by auto
  ultimately show ?thesis
    using arg True by auto
next
  case False
  with assms(1) have "arg = name" "CHR ''='' \<notin> set arg"
    using cut_at_not_found [of _ arg name v] by auto
  then show ?thesis
    using False by auto
qed

lemma worker_args_iff:
  "worker_args args \<longleftrightarrow> (\<exists>arg \<in> set args. \<exists>name \<in> {''--enable-worker'', ''--single''}.
     arg = name \<or> (\<exists>v. arg = name @ ''='' @ v \<and> parse_bool v = Some True))"
proof (induction args)
  case Nil
  show ?case by simp
next
  case (Cons arg rest)
  obtain name v has where cut: "cut_at (CHR ''='') arg = (name, v, has)"
    by (metis prod_cases3)
  have ex2: "(\<exists>n \<in> {a, b}. Q n) \<longleftrightarrow> Q a \<or> Q b" for a b :: string and Q by blast
  have head: "(\<exists>n \<in> {''--enable-worker'', ''--single''}. arg = n \<or>
        (\<exists>w. arg = n @ ''='' @ w \<and> parse_bool w = Some True)) \<longleftrightarrow>
      (name = ''--enable-worker'' \<or> name = ''--single'') \<and> (\<not> has \<or> parse_bool v = Some True)"
    unfolding ex2 by (subst (1 2) flag_cut [OF cut]) auto
  have step: "worker_args (arg # rest) \<longleftrightarrow>
      (name = ''--enable-worker'' \<or> name = ''--single'') \<and> (\<not> has \<or> parse_bool v = Some True) \<or>
      worker_args rest"
    by (simp add: cut)
  show ?case
    unfolding step head [symmetric] Cons.IH by (simp only: list.set bex_simps)
qed


text \<open>
  A control plane node also runs a worker exactly when one of its arguments
  is \<open>--enable-worker\<close> or \<open>--single\<close>, alone or with a value that
  \<open>strconv.ParseBool\<close> reads as true; a nil specification never does.
\<close>
theorem WorkerEnabled_iff:
  "WorkerEnabled kcs \<longleftrightarrow> (\<exists>k. kcs = Some k \<and>
     (\<exists>arg \<in> set (elems (k_Args k)). \<exists>name \<in> {''--enable-worker'', ''--single''}.
        arg = name \<or> (\<exists>v. arg = name @ ''='' @ v \<and> parse_bool v = Some True)))"
  by (cases kcs) (auto simp: WorkerEnabled_def worker_args_iff)

end
