(* ===== verification/Bootstrap_Conversion.thy ===== *)
theory Bootstrap_Conversion
  imports Bootstrap_API
begin

text \<open>
  The conversion webhooks between \<open>api/bootstrap/v1beta1\<close> and the hub version
  \<open>api/bootstrap/v1beta2\<close>. The locale \<open>convertible\<close> is the contract of
  \<open>conversion.Convertible\<close> that the API server relies on (a stored object read back in
  its own version is unchanged); it is interpreted on the conversions of every kind. The
  theorems give the exact result of both round trips. \<open>K0sWorkerConfig\<close> loses its
  \<open>customUserDataRef\<close> on the way back, so its interpretation is restricted to the
  objects that have none.
\<close>

subsection \<open>Types of api/bootstrap/v1beta1\<close>

record K0sConfigSpec_v1 =
  v1k_Ignition :: "IgnitionSpec option"
  v1k_K0sInstallDir :: string
  v1k_K0s :: "object option"
  v1k_Files :: "File slice"
  v1k_UseSystemHostname :: bool
  v1k_Args :: "string slice"
  v1k_PreStartCommands :: "string slice"
  v1k_PostStartCommands :: "string slice"
  v1k_PreInstalledK0s :: bool
  v1k_DownloadURL :: string
  v1k_Tunneling :: TunnelingSpec
  v1k_CustomUserDataRef :: "ContentSource option"
  v1k_WorkingDir :: string

record ConfigStatus_v1 =
  v1s_Ready :: bool
  v1s_DataSecretName :: "string option"
  v1s_Conditions :: "condition list"

record K0sControllerConfig_v1 =
  v1c_Meta :: objmeta
  v1c_Version :: string
  v1c_K0sConfigSpec :: "K0sConfigSpec_v1 option"
  v1c_Status :: ConfigStatus_v1

record K0sWorkerConfigSpec_v1 =
  v1w_Ignition :: "IgnitionSpec option"
  v1w_K0sInstallDir :: string
  v1w_Version :: string
  v1w_UseSystemHostname :: bool
  v1w_Files :: "File slice"
  v1w_Args :: "string slice"
  v1w_PreStartCommands :: "string slice"
  v1w_PostStartCommands :: "string slice"
  v1w_PreInstalledK0s :: bool
  v1w_DownloadURL :: string
  v1w_CustomUserDataRef :: "ContentSource option"
  v1w_SecretMetadata :: "SecretMetadata option"
  v1w_WorkingDir :: string

record K0sWorkerConfig_v1 =
  v1wc_Meta :: objmeta
  v1wc_Spec :: K0sWorkerConfigSpec_v1
  v1wc_Status :: ConfigStatus_v1

record K0sWorkerConfigTemplate_v1 =
  v1wt_Meta :: objmeta
  v1wt_TemplateMeta :: objmeta
  v1wt_TemplateSpec :: K0sWorkerConfigSpec_v1

subsection \<open>K0sControllerConfig\<close>

definition ConvertK0sConfigSpecV1beta1ToV1beta2 :: "K0sConfigSpec_v1 option \<Rightarrow> K0sConfigSpec option" where
  "ConvertK0sConfigSpecV1beta1ToV1beta2 sp = (case sp of None \<Rightarrow> None | Some spec \<Rightarrow>
     (let res = \<lparr>k_Provisioner = \<lparr>p_Type = CloudInitProvisioningFormat, p_Platform = PlatformLinux,
                     p_Ignition = None, p_CustomUserDataRef = None\<rparr>,
                 k_K0sInstallDir = v1k_K0sInstallDir spec,
                 k_K0s = v1k_K0s spec,
                 k_Files = v1k_Files spec,
                 k_UseSystemHostname = v1k_UseSystemHostname spec,
                 k_Args = v1k_Args spec,
                 k_PreK0sCommands = v1k_PreStartCommands spec,
                 k_PostK0sCommands = v1k_PostStartCommands spec,
                 k_PreInstalledK0s = v1k_PreInstalledK0s spec,
                 k_DownloadURL = v1k_DownloadURL spec,
                 k_Tunneling = v1k_Tunneling spec,
                 k_SecretMetadata = None,
                 k_WorkingDir = v1k_WorkingDir spec\<rparr>;
          res = (if v1k_Ignition spec \<noteq> None
                 then res\<lparr>k_Provisioner := \<lparr>p_Type = IgnitionProvisioningFormat, p_Platform = PlatformLinux,
                            p_Ignition = v1k_Ignition spec, p_CustomUserDataRef = None\<rparr>\<rparr>
                 else res)
      in Some (if v1k_CustomUserDataRef spec \<noteq> None
               then res\<lparr>k_Provisioner := (k_Provisioner res)\<lparr>p_CustomUserDataRef := v1k_CustomUserDataRef spec\<rparr>\<rparr>
               else res)))"

definition ConvertK0sConfigSpecV1beta2ToV1beta1 :: "K0sConfigSpec option \<Rightarrow> K0sConfigSpec_v1 option" where
  "ConvertK0sConfigSpecV1beta2ToV1beta1 sp = (case sp of None \<Rightarrow> None | Some spec \<Rightarrow>
     Some \<lparr>v1k_Ignition = (if p_Type (k_Provisioner spec) = IgnitionProvisioningFormat
                            then p_Ignition (k_Provisioner spec) else None),
           v1k_K0sInstallDir = k_K0sInstallDir spec,
           v1k_K0s = k_K0s spec,
           v1k_Files = k_Files spec,
           v1k_UseSystemHostname = k_UseSystemHostname spec,
           v1k_Args = k_Args spec,
           v1k_PreStartCommands = k_PreK0sCommands spec,
           v1k_PostStartCommands = k_PostK0sCommands spec,
           v1k_PreInstalledK0s = k_PreInstalledK0s spec,
           v1k_DownloadURL = k_DownloadURL spec,
           v1k_Tunneling = k_Tunneling spec,
           v1k_CustomUserDataRef = p_CustomUserDataRef (k_Provisioner spec),
           v1k_WorkingDir = k_WorkingDir spec\<rparr>)"

definition status_to_hub :: "ConfigStatus_v1 \<Rightarrow> ConfigStatus" where
  "status_to_hub st = \<lparr>st_DataSecretName = v1s_DataSecretName st,
     st_DataSecretCreated = Some (v1s_Ready st), st_Conditions = v1s_Conditions st\<rparr>"

definition status_from_hub :: "ConfigStatus \<Rightarrow> ConfigStatus_v1" where
  "status_from_hub st = \<lparr>v1s_Ready = deref False (st_DataSecretCreated st),
     v1s_DataSecretName = st_DataSecretName st, v1s_Conditions = st_Conditions st\<rparr>"

definition K0sControllerConfig_ConvertTo :: "K0sControllerConfig_v1 \<Rightarrow> K0sControllerConfig" where
  "K0sControllerConfig_ConvertTo c =
     \<lparr>kcc_Meta = v1c_Meta c, kcc_Version = v1c_Version c,
      kcc_K0sConfigSpec = ConvertK0sConfigSpecV1beta1ToV1beta2 (v1c_K0sConfigSpec c),
      kcc_Status = status_to_hub (v1c_Status c)\<rparr>"

definition K0sControllerConfig_ConvertFrom :: "K0sControllerConfig \<Rightarrow> K0sControllerConfig_v1" where
  "K0sControllerConfig_ConvertFrom src =
     \<lparr>v1c_Meta = kcc_Meta src, v1c_Version = kcc_Version src,
      v1c_K0sConfigSpec = ConvertK0sConfigSpecV1beta2ToV1beta1 (kcc_K0sConfigSpec src),
      v1c_Status = status_from_hub (kcc_Status src)\<rparr>"

subsection \<open>K0sWorkerConfig and K0sWorkerConfigTemplate\<close>

definition k0sWorkerConfigV1beta1ToV1beta2Spec :: "K0sWorkerConfigSpec_v1 \<Rightarrow> K0sWorkerConfigSpec" where
  "k0sWorkerConfigV1beta1ToV1beta2Spec spec =
     (let res = \<lparr>w_Provisioner = \<lparr>p_Type = CloudInitProvisioningFormat, p_Platform = [],
                     p_Ignition = None, p_CustomUserDataRef = None\<rparr>,
                 w_K0sInstallDir = v1w_K0sInstallDir spec,
                 w_Version = v1w_Version spec,
                 w_UseSystemHostname = v1w_UseSystemHostname spec,
                 w_Files = v1w_Files spec,
                 w_Args = v1w_Args spec,
                 w_PreK0sCommands = v1w_PreStartCommands spec,
                 w_PostK0sCommands = v1w_PostStartCommands spec,
                 w_PreInstalledK0s = v1w_PreInstalledK0s spec,
                 w_DownloadURL = v1w_DownloadURL spec,
                 w_SecretMetadata = v1w_SecretMetadata spec,
                 w_WorkingDir = v1w_WorkingDir spec\<rparr>;
          res = (if v1w_Ignition spec \<noteq> None
                 then res\<lparr>w_Provisioner := \<lparr>p_Type = IgnitionProvisioningFormat, p_Platform = [],
                            p_Ignition = v1w_Ignition spec, p_CustomUserDataRef = None\<rparr>\<rparr>
                 else res)
      in if v1w_CustomUserDataRef spec \<noteq> None
         then res\<lparr>w_Provisioner := (w_Provisioner res)\<lparr>p_CustomUserDataRef := v1w_CustomUserDataRef spec\<rparr>\<rparr>
         else res)"

definition k0sWorkerConfigV1beta2ToV1beta1Spec :: "K0sWorkerConfigSpec \<Rightarrow> K0sWorkerConfigSpec_v1" where
  "k0sWorkerConfigV1beta2ToV1beta1Spec spec =
     \<lparr>v1w_Ignition = (if p_Type (w_Provisioner spec) = IgnitionProvisioningFormat
                       then p_Ignition (w_Provisioner spec) else None),
      v1w_K0sInstallDir = w_K0sInstallDir spec,
      v1w_Version = w_Version spec,
      v1w_UseSystemHostname = w_UseSystemHostname spec,
      v1w_Files = w_Files spec,
      v1w_Args = w_Args spec,
      v1w_PreStartCommands = w_PreK0sCommands spec,
      v1w_PostStartCommands = w_PostK0sCommands spec,
      v1w_PreInstalledK0s = w_PreInstalledK0s spec,
      v1w_DownloadURL = w_DownloadURL spec,
      v1w_CustomUserDataRef = None,
      v1w_SecretMetadata = w_SecretMetadata spec,
      v1w_WorkingDir = w_WorkingDir spec\<rparr>"

definition K0sWorkerConfig_ConvertTo :: "K0sWorkerConfig_v1 \<Rightarrow> K0sWorkerConfig" where
  "K0sWorkerConfig_ConvertTo k =
     \<lparr>kwc_Meta = v1wc_Meta k, kwc_Spec = k0sWorkerConfigV1beta1ToV1beta2Spec (v1wc_Spec k),
      kwc_Status = status_to_hub (v1wc_Status k)\<rparr>"

definition K0sWorkerConfig_ConvertFrom :: "K0sWorkerConfig \<Rightarrow> K0sWorkerConfig_v1" where
  "K0sWorkerConfig_ConvertFrom src =
     \<lparr>v1wc_Meta = kwc_Meta src, v1wc_Spec = k0sWorkerConfigV1beta2ToV1beta1Spec (kwc_Spec src),
      v1wc_Status = status_from_hub (kwc_Status src)\<rparr>"

definition K0sWorkerConfigTemplate_ConvertTo :: "K0sWorkerConfigTemplate_v1 \<Rightarrow> K0sWorkerConfigTemplate" where
  "K0sWorkerConfigTemplate_ConvertTo k =
     \<lparr>kwt_Meta = v1wt_Meta k, kwt_TemplateMeta = v1wt_TemplateMeta k,
      kwt_TemplateSpec = k0sWorkerConfigV1beta1ToV1beta2Spec (v1wt_TemplateSpec k)\<rparr>"

definition K0sWorkerConfigTemplate_ConvertFrom :: "K0sWorkerConfigTemplate \<Rightarrow> K0sWorkerConfigTemplate_v1" where
  "K0sWorkerConfigTemplate_ConvertFrom src =
     \<lparr>v1wt_Meta = kwt_Meta src, v1wt_TemplateMeta = kwt_TemplateMeta src,
      v1wt_TemplateSpec = k0sWorkerConfigV1beta2ToV1beta1Spec (kwt_TemplateSpec src)\<rparr>"

subsection \<open>The contract of a convertible kind\<close>

locale convertible =
  fixes to_hub :: "'spoke \<Rightarrow> 'hub"
    and from_hub :: "'hub \<Rightarrow> 'spoke"
    and lossless :: "'spoke \<Rightarrow> bool"
  assumes spoke_round: "lossless x \<Longrightarrow> from_hub (to_hub x) = x"
    and lossless_from_hub: "lossless (from_hub h)"
begin

lemma to_hub_inj: "inj_on to_hub {x. lossless x}"
  by (rule inj_on_inverseI [where g = from_hub]) (simp add: spoke_round)

lemma hub_image_stable: "to_hub (from_hub (to_hub (from_hub h))) = to_hub (from_hub h)"
  by (simp add: spoke_round lossless_from_hub)

lemma from_hub_surj: "lossless x \<Longrightarrow> \<exists>h. from_hub h = x"
  using spoke_round by blast

end

lemmas conversion_defs =
  ConvertK0sConfigSpecV1beta1ToV1beta2_def ConvertK0sConfigSpecV1beta2ToV1beta1_def
  k0sWorkerConfigV1beta1ToV1beta2Spec_def k0sWorkerConfigV1beta2ToV1beta1Spec_def
  status_to_hub_def status_from_hub_def

lemma ignition_is_not_cloudinit [simp]: "CloudInitProvisioningFormat \<noteq> IgnitionProvisioningFormat"
  by (simp add: format_defs)

lemma config_spec_spoke_round:
  "ConvertK0sConfigSpecV1beta2ToV1beta1 (ConvertK0sConfigSpecV1beta1ToV1beta2 sp) = sp"
  by (cases sp) (auto simp: conversion_defs Let_def)

lemma status_spoke_round [simp]: "status_from_hub (status_to_hub st) = st"
  by (simp add: conversion_defs)

lemma worker_spec_spoke_round:
  "k0sWorkerConfigV1beta2ToV1beta1Spec (k0sWorkerConfigV1beta1ToV1beta2Spec sp) =
     sp\<lparr>v1w_CustomUserDataRef := None\<rparr>"
  by (auto simp: conversion_defs Let_def)

lemma worker_spec_no_ref [simp]:
  "v1w_CustomUserDataRef (k0sWorkerConfigV1beta2ToV1beta1Spec h) = None"
  by (simp add: k0sWorkerConfigV1beta2ToV1beta1Spec_def)

lemma worker_spec_ref_None: "v1w_CustomUserDataRef sp = None \<Longrightarrow> sp\<lparr>v1w_CustomUserDataRef := None\<rparr> = sp"
  by (cases sp) simp

interpretation config_spec: convertible ConvertK0sConfigSpecV1beta1ToV1beta2
  ConvertK0sConfigSpecV1beta2ToV1beta1 "\<lambda>_. True"
  by unfold_locales (simp_all add: config_spec_spoke_round)

interpretation controller_config: convertible K0sControllerConfig_ConvertTo
  K0sControllerConfig_ConvertFrom "\<lambda>_. True"
  by unfold_locales
    (simp_all add: K0sControllerConfig_ConvertTo_def K0sControllerConfig_ConvertFrom_def
      config_spec_spoke_round)

interpretation worker_config: convertible K0sWorkerConfig_ConvertTo K0sWorkerConfig_ConvertFrom
  "\<lambda>k. v1w_CustomUserDataRef (v1wc_Spec k) = None"
  by unfold_locales
    (auto simp: K0sWorkerConfig_ConvertTo_def K0sWorkerConfig_ConvertFrom_def
      worker_spec_spoke_round worker_spec_ref_None)

interpretation worker_config_template: convertible K0sWorkerConfigTemplate_ConvertTo
  K0sWorkerConfigTemplate_ConvertFrom "\<lambda>k. v1w_CustomUserDataRef (v1wt_TemplateSpec k) = None"
  by unfold_locales
    (auto simp: K0sWorkerConfigTemplate_ConvertTo_def K0sWorkerConfigTemplate_ConvertFrom_def
      worker_spec_spoke_round worker_spec_ref_None)

subsection \<open>Round trips\<close>

text \<open>
  Converting a \<open>K0sControllerConfig\<close> from v1beta1 to the hub and back
  returns it unchanged, so distinct v1beta1 objects are stored as distinct hub objects.
\<close>
theorem controller_config_roundtrip:
  "K0sControllerConfig_ConvertFrom (K0sControllerConfig_ConvertTo c) = c \<and>
   inj K0sControllerConfig_ConvertTo"
  using controller_config.spoke_round [of c] controller_config.to_hub_inj by simp

text \<open>
  What a hub \<open>K0sConfigSpec\<close> looks like after a visit to v1beta1: the
  secret metadata is gone, the platform is linux, and the provisioner type is ignition if the
  hub object carried an ignition block under that type and cloud-config otherwise; every other
  field is kept. A second visit changes nothing more.
\<close>
theorem config_spec_hub_roundtrip:
  "ConvertK0sConfigSpecV1beta1ToV1beta2 (ConvertK0sConfigSpecV1beta2ToV1beta1 (Some h)) =
     Some (h\<lparr>k_SecretMetadata := None,
             k_Provisioner := (if p_Type (k_Provisioner h) = IgnitionProvisioningFormat \<and>
                                  p_Ignition (k_Provisioner h) \<noteq> None
                               then (k_Provisioner h)\<lparr>p_Platform := PlatformLinux\<rparr>
                               else (k_Provisioner h)\<lparr>p_Type := CloudInitProvisioningFormat,
                                       p_Platform := PlatformLinux, p_Ignition := None\<rparr>)\<rparr>)"
  by (auto simp: conversion_defs Let_def)

text \<open>
  C35 (roundtrip). Converting a \<open>K0sWorkerConfig\<close> from v1beta1 to the hub and back keeps
  everything but \<open>customUserDataRef\<close>, which is dropped; the object is unchanged exactly
  when it had none.
\<close>
theorem worker_config_roundtrip:
  "K0sWorkerConfig_ConvertFrom (K0sWorkerConfig_ConvertTo k) =
     k\<lparr>v1wc_Spec := (v1wc_Spec k)\<lparr>v1w_CustomUserDataRef := None\<rparr>\<rparr> \<and>
   (K0sWorkerConfig_ConvertFrom (K0sWorkerConfig_ConvertTo k) = k \<longleftrightarrow>
     v1w_CustomUserDataRef (v1wc_Spec k) = None)"
proof -
  have eq: "K0sWorkerConfig_ConvertFrom (K0sWorkerConfig_ConvertTo k) =
      k\<lparr>v1wc_Spec := (v1wc_Spec k)\<lparr>v1w_CustomUserDataRef := None\<rparr>\<rparr>"
    by (simp add: K0sWorkerConfig_ConvertTo_def K0sWorkerConfig_ConvertFrom_def
        worker_spec_spoke_round)
  moreover have "k\<lparr>v1wc_Spec := (v1wc_Spec k)\<lparr>v1w_CustomUserDataRef := None\<rparr>\<rparr> = k \<Longrightarrow>
      v1w_CustomUserDataRef (v1wc_Spec k) = None"
    by (drule arg_cong [where f = "\<lambda>k. v1w_CustomUserDataRef (v1wc_Spec k)"]) simp
  ultimately show ?thesis
    using worker_config.spoke_round [of k] by metis
qed

end
