(* ===== verification/ControlPlane_API.thy ===== *)
theory ControlPlane_API
  imports Bootstrap_Conversion "HOL-Library.Word"
begin

text \<open>
  The types of \<open>api/controlplane/v1beta2\<close> and \<open>v1beta1\<close> for \<open>K0sControlPlane\<close>,
  the conversion between them, and the admission webhook. Go's \<open>int32\<close> counters are
  \<open>32 word\<close>, read with \<open>sint\<close>. \<open>spec.machineTemplate\<close> is required by the CRD
  schema and is modelled as present. The conversions are interpretations of
  \<open>convertible\<close>; the webhook theorems say which objects and which version changes are
  admitted.
\<close>

type_synonym int32 = "32 word"

subsection \<open>Types of v1beta2\<close>

definition UpdateInPlace :: string where "UpdateInPlace = ''InPlace''"
definition UpdateRecreate :: string where "UpdateRecreate = ''Recreate''"
definition UpdateRecreateDeleteFirst :: string where
  "UpdateRecreateDeleteFirst = ''RecreateDeleteFirst''"

lemmas strategy_defs = UpdateInPlace_def UpdateRecreate_def UpdateRecreateDeleteFirst_def

definition ControlPlaneAvailableCondition :: string where
  "ControlPlaneAvailableCondition = ''Available''"
definition RemediationInProgressAnnotation :: string where
  "RemediationInProgressAnnotation = ''controlplane.cluster.x-k8s.io/remediation-in-progress''"
definition K0sControlPlaneFinalizer :: string where
  "K0sControlPlaneFinalizer = ''k0s.controlplane.cluster.x-k8s.io''"
definition K0ControlPlanePreTerminateHookCleanupAnnotation :: string where
  "K0ControlPlanePreTerminateHookCleanupAnnotation =
     ''pre-terminate.delete.hook.machine.cluster.x-k8s.io/kcp-cleanup''"
definition MachineK0sConfigAnnotation :: string where
  "MachineK0sConfigAnnotation = ''k0s.controlplane.cluster.x-k8s.io/k0s-config''"
definition K0sClusterIDAnnotation :: string where
  "K0sClusterIDAnnotation = ''k0sproject.io/cluster-id''"

record MachineTemplate =
  mt_Labels :: strmap
  mt_Annotations :: strmap
  mt_InfraAPIVersion :: string
  mt_InfraKind :: string
  mt_InfraName :: string

record K0sControlPlaneSpec =
  ks_K0sConfigSpec :: K0sConfigSpec
  ks_MachineTemplate :: MachineTemplate
  ks_Replicas :: int32
  ks_UpdateStrategy :: string
  ks_Version :: string
  ks_KubeconfigSecretMetadata :: SecretMetadata

record K0sControlPlaneStatus =
  kst_ControlPlaneInitialized :: "bool option" \<comment> \<open>\<open>Initialization.ControlPlaneInitialized\<close>\<close>
  kst_ExternalManagedControlPlane :: "bool option"
  kst_Replicas :: "int32 option"
  kst_Version :: string
  kst_Selector :: string
  kst_ReadyReplicas :: "int32 option"
  kst_AvailableReplicas :: "int32 option"
  kst_UpToDateReplicas :: "int32 option"
  kst_Conditions :: "condition list"

record K0sControlPlane =
  kcp_Meta :: objmeta
  kcp_Spec :: K0sControlPlaneSpec
  kcp_Status :: K0sControlPlaneStatus

definition kcp_WorkerEnabled :: "K0sControlPlane \<Rightarrow> bool" where
  "kcp_WorkerEnabled kcp = WorkerEnabled (Some (ks_K0sConfigSpec (kcp_Spec kcp)))"

abbreviation kcp_Name :: "K0sControlPlane \<Rightarrow> string" where
  "kcp_Name kcp \<equiv> om_Name (kcp_Meta kcp)"
abbreviation kcp_Namespace :: "K0sControlPlane \<Rightarrow> string" where
  "kcp_Namespace kcp \<equiv> om_Namespace (kcp_Meta kcp)"
abbreviation kcp_Version :: "K0sControlPlane \<Rightarrow> string" where
  "kcp_Version kcp \<equiv> ks_Version (kcp_Spec kcp)"
abbreviation kcp_Template :: "K0sControlPlane \<Rightarrow> MachineTemplate" where
  "kcp_Template kcp \<equiv> ks_MachineTemplate (kcp_Spec kcp)"
abbreviation kcp_Config :: "K0sControlPlane \<Rightarrow> K0sConfigSpec" where
  "kcp_Config kcp \<equiv> ks_K0sConfigSpec (kcp_Spec kcp)"
abbreviation kcp_Tunneling :: "K0sControlPlane \<Rightarrow> TunnelingSpec" where
  "kcp_Tunneling kcp \<equiv> k_Tunneling (kcp_Config kcp)"

subsection \<open>Types of v1beta1 and the conversion\<close>

record K0sControlPlaneSpec_v1 =
  v1ks_K0sConfigSpec :: K0sConfigSpec_v1
  v1ks_MachineTemplate :: MachineTemplate
  v1ks_Replicas :: int32
  v1ks_UpdateStrategy :: string
  v1ks_Version :: string
  v1ks_KubeconfigSecretMetadata :: SecretMetadata

record K0sControlPlaneStatus_v1 =
  v1st_Ready :: bool
  v1st_Initialized :: bool
  v1st_ControlPlaneInitialized :: bool \<comment> \<open>\<open>Initialization.ControlPlaneInitialized\<close>\<close>
  v1st_ExternalManagedControlPlane :: bool
  v1st_Replicas :: int32
  v1st_Version :: string
  v1st_Selector :: string
  v1st_UnavailableReplicas :: int32
  v1st_ReadyReplicas :: int32
  v1st_UpdatedReplicas :: int32
  v1st_Conditions :: "condition list"

record K0sControlPlane_v1 =
  v1kcp_Meta :: objmeta
  v1kcp_Spec :: K0sControlPlaneSpec_v1
  v1kcp_Status :: K0sControlPlaneStatus_v1

definition k0sControlPlaneSpecV1beta1ToV1beta2 :: "K0sControlPlaneSpec_v1 \<Rightarrow> K0sControlPlaneSpec" where
  "k0sControlPlaneSpecV1beta1ToV1beta2 spec =
     \<lparr>ks_K0sConfigSpec = the (ConvertK0sConfigSpecV1beta1ToV1beta2 (Some (v1ks_K0sConfigSpec spec))),
      ks_MachineTemplate = v1ks_MachineTemplate spec,
      ks_Replicas = v1ks_Replicas spec,
      ks_UpdateStrategy = v1ks_UpdateStrategy spec,
      ks_Version = v1ks_Version spec,
      ks_KubeconfigSecretMetadata = v1ks_KubeconfigSecretMetadata spec\<rparr>"

definition K0sControlPlane_ConvertTo :: "K0sControlPlane_v1 \<Rightarrow> K0sControlPlane" where
  "K0sControlPlane_ConvertTo k = (let st = v1kcp_Status k in
     \<lparr>kcp_Meta = v1kcp_Meta k,
      kcp_Spec = k0sControlPlaneSpecV1beta1ToV1beta2 (v1kcp_Spec k),
      kcp_Status =
        \<lparr>kst_ControlPlaneInitialized = Some (v1st_Initialized st),
         kst_ExternalManagedControlPlane = Some (v1st_ExternalManagedControlPlane st),
         kst_Replicas = Some (v1st_Replicas st),
         kst_Version = v1st_Version st,
         kst_Selector = v1st_Selector st,
         kst_ReadyReplicas = Some (v1st_ReadyReplicas st),
         kst_AvailableReplicas = Some (v1st_Replicas st - v1st_UnavailableReplicas st),
         kst_UpToDateReplicas = Some (v1st_UpdatedReplicas st),
         kst_Conditions = v1st_Conditions st\<rparr>\<rparr>)"

definition K0sControlPlane_ConvertFrom :: "K0sControlPlane \<Rightarrow> K0sControlPlane_v1" where
  "K0sControlPlane_ConvertFrom src = (let st = kcp_Status src; sp = kcp_Spec src in
     \<lparr>v1kcp_Meta = kcp_Meta src,
      v1kcp_Spec =
        \<lparr>v1ks_K0sConfigSpec = the (ConvertK0sConfigSpecV1beta2ToV1beta1 (Some (ks_K0sConfigSpec sp))),
         v1ks_MachineTemplate = ks_MachineTemplate sp,
         v1ks_Replicas = ks_Replicas sp,
         v1ks_UpdateStrategy = ks_UpdateStrategy sp,
         v1ks_Version = ks_Version sp,
         v1ks_KubeconfigSecretMetadata = ks_KubeconfigSecretMetadata sp\<rparr>,
      v1kcp_Status =
        \<lparr>v1st_Ready = (sint (deref 0 (kst_ReadyReplicas st)) > 0),
         v1st_Initialized = deref False (kst_ControlPlaneInitialized st),
         v1st_ControlPlaneInitialized = deref False (kst_ControlPlaneInitialized st),
         v1st_ExternalManagedControlPlane = deref False (kst_ExternalManagedControlPlane st),
         v1st_Replicas = deref 0 (kst_Replicas st),
         v1st_Version = kst_Version st,
         v1st_Selector = kst_Selector st,
         v1st_UnavailableReplicas =
           (case kst_AvailableReplicas st of
              None \<Rightarrow> deref 0 (kst_Replicas st)
            | Some a \<Rightarrow> deref 0 (kst_Replicas st) - a),
         v1st_ReadyReplicas = deref 0 (kst_ReadyReplicas st),
         v1st_UpdatedReplicas = deref 0 (kst_UpToDateReplicas st),
         v1st_Conditions = kst_Conditions st\<rparr>\<rparr>)"

definition status_consistent :: "K0sControlPlane_v1 \<Rightarrow> bool" where
  \<comment> \<open>the two fields v1beta1 stores redundantly agree with the ones they repeat\<close>
  "status_consistent k \<longleftrightarrow> (let st = v1kcp_Status k in
     v1st_Ready st = (sint (v1st_ReadyReplicas st) > 0) \<and>
     v1st_ControlPlaneInitialized st = v1st_Initialized st)"

subsection \<open>Admission\<close>

definition validateVersionSuffix :: "string \<Rightarrow> string list" where
  "validateVersionSuffix v =
     (if v \<noteq> [] \<and> \<not> contains v ''+k0s.''
      then [''The specified version '' @ quoted v @ '' requires a k0s suffix (+k0s.<number>). Using ''
            @ quoted (v @ ''+k0s.0'') @ '' instead.'']
      else [])"

definition denyIncompatibleK0sVersions :: "ver_lib \<Rightarrow> K0sControlPlane \<Rightarrow> gerror option" where
  "denyIncompatibleK0sVersions V kcp =
     (case ver_NewVersion V (kcp_Version kcp) of
        Some e \<Rightarrow> Some (Errorf (''failed to parse version: '' @ error_text e))
      | None \<Rightarrow>
          (if ver_CoreString V (kcp_Version kcp) = ''1.31.1''
           then Some (Errorf (''version '' @ kcp_Version kcp @
                  '' is not compatible with K0sControlPlane, use v1.31.2+''))
           else None))"

definition denyIncompatibleProvisioners :: "K0sControlPlane \<Rightarrow> gerror option" where
  "denyIncompatibleProvisioners kcp =
     (let p = k_Provisioner (kcp_Config kcp) in
      if p_Platform p = PlatformWindows \<or> p_Type p = PowershellXMLProvisioningFormat \<or>
         p_Type p = PowershellProvisioningFormat
      then Some (Errorf ''K0sControlPlane does not support powershell and powershell-xml provisioning formats'')
      else None)"

definition denyRecreateOnSingleClusters :: "K0sControlPlane \<Rightarrow> gerror option" where
  "denyRecreateOnSingleClusters kcp =
     (if ks_UpdateStrategy (kcp_Spec kcp) = UpdateRecreate then
        (case k_Args (kcp_Config kcp) of
           Some args \<Rightarrow>
             (if ''--single'' \<in> set args
              then Some (Errorf ''UpdateStrategy Recreate strategy is not allowed when the cluster is running in single mode'')
              else None)
         | None \<Rightarrow> None)
      else None)"

definition file_owner_error :: "field_error list \<Rightarrow> gerror" where
  \<comment> \<open>\<open>errs.ToAggregate()\<close>\<close>
  "file_owner_error errs =
     Aggregate (map (\<lambda>e. case e of FieldInvalid _ m \<Rightarrow> Errorf m | FieldRequired _ m \<Rightarrow> Errorf m) errs)"

definition validateK0sControlPlane :: "ver_lib \<Rightarrow> K0sControlPlane \<Rightarrow> gerror option" where
  "validateK0sControlPlane V kcp =
     (case denyIncompatibleK0sVersions V kcp of
        Some e \<Rightarrow> Some e
      | None \<Rightarrow>
     (case denyIncompatibleProvisioners kcp of
        Some e \<Rightarrow> Some e
      | None \<Rightarrow>
     (case denyRecreateOnSingleClusters kcp of
        Some e \<Rightarrow> Some e
      | None \<Rightarrow>
        (let errs = ValidateFileOwners (elems (k_Files (kcp_Config kcp))) (k_Provisioner (kcp_Config kcp))
                      [Child ''spec'', Child ''k0sConfigSpec'']
         in if length errs > 0 then Some (file_owner_error errs) else None))))"

definition ValidateCreate :: "ver_lib \<Rightarrow> K0sControlPlane option \<Rightarrow> string list \<times> gerror option" where
  "ValidateCreate V k =
     (case k of
        None \<Rightarrow> ([], Some (Errorf ''expected a K0sControlPlane object but got nil''))
      | Some kcp \<Rightarrow> (validateVersionSuffix (kcp_Version kcp), validateK0sControlPlane V kcp))"

definition ValidateUpdate :: "ver_lib \<Rightarrow> K0sControlPlane \<Rightarrow> K0sControlPlane \<Rightarrow> string list \<times> gerror option" where
  "ValidateUpdate V oldKcp newKcp =
     (let warnings = validateVersionSuffix (kcp_Version newKcp) in
      if kcp_Version oldKcp \<noteq> kcp_Version newKcp then
        (case ver_NewVersion V (kcp_Version oldKcp) of
           Some e \<Rightarrow> (warnings, Some (Errorf (''failed to parse old version: '' @ error_text e)))
         | None \<Rightarrow>
        (case ver_NewVersion V (kcp_Version newKcp) of
           Some e \<Rightarrow> (warnings, Some (Errorf (''failed to parse new version: '' @ error_text e)))
         | None \<Rightarrow>
           (if ver_Minor V (kcp_Version newKcp) - ver_Minor V (kcp_Version oldKcp) > 1
            then (warnings, Some (Errorf ''upgrading more than one minor version at a time is not allowed by the Kubernetes skew policy''))
            else (warnings, validateK0sControlPlane V newKcp))))
      else (warnings, validateK0sControlPlane V newKcp))"

subsection \<open>The conversion keeps its contract\<close>

lemma control_plane_spoke_round:
  assumes "status_consistent k"
  shows "K0sControlPlane_ConvertFrom (K0sControlPlane_ConvertTo k) = k"
proof -
  have "ConvertK0sConfigSpecV1beta2ToV1beta1
      (Some (the (ConvertK0sConfigSpecV1beta1ToV1beta2 (Some c)))) = Some c" for c
    using config_spec_spoke_round [of "Some c"]
    by (cases "ConvertK0sConfigSpecV1beta1ToV1beta2 (Some c)")
      (auto simp: ConvertK0sConfigSpecV1beta2ToV1beta1_def)
  then show ?thesis
    using assms
    by (simp add: K0sControlPlane_ConvertFrom_def K0sControlPlane_ConvertTo_def Let_def
        k0sControlPlaneSpecV1beta1ToV1beta2_def status_consistent_def)
qed

interpretation control_plane: convertible K0sControlPlane_ConvertTo K0sControlPlane_ConvertFrom
  status_consistent
  by unfold_locales
    (simp_all add: control_plane_spoke_round,
     simp add: status_consistent_def K0sControlPlane_ConvertFrom_def Let_def)

text \<open>
  A v1beta1 \<open>K0sControlPlane\<close> whose \<open>ready\<close> and
  \<open>initialization\<close> fields agree with its counters and its \<open>initialized\<close> flag comes
  back from the hub unchanged. The number of unavailable replicas survives although the hub
  stores available replicas, also where the 32-bit subtraction wraps.
\<close>
theorem control_plane_roundtrip:
  assumes "status_consistent k"
  shows "K0sControlPlane_ConvertFrom (K0sControlPlane_ConvertTo k) = k"
  using assms by (rule control_plane.spoke_round)

definition sample_control_plane :: K0sControlPlane_v1 where
  \<comment> \<open>three replicas reported unavailable while none is counted yet\<close>
  "sample_control_plane =
     \<lparr>v1kcp_Meta = \<lparr>om_Name = ''cp'', om_Namespace = ''default'', om_UID = ''uid'', om_Labels = Map.empty,
        om_Annotations = Map.empty, om_OwnerReferences = [], om_Finalizers = [], om_CreationTimestamp = 0,
        om_DeletionTimestamp = None\<rparr>,
      v1kcp_Spec =
        \<lparr>v1ks_K0sConfigSpec = \<lparr>v1k_Ignition = None, v1k_K0sInstallDir = [], v1k_K0s = None, v1k_Files = None,
           v1k_UseSystemHostname = False, v1k_Args = Some [], v1k_PreStartCommands = None, v1k_PostStartCommands = None,
           v1k_PreInstalledK0s = False, v1k_DownloadURL = [],
           v1k_Tunneling = \<lparr>t_Enabled = False, t_ServerAddress = [], t_ServerNodePort = 0, t_TunnelingNodePort = 0,
             t_Mode = []\<rparr>,
           v1k_CustomUserDataRef = None, v1k_WorkingDir = []\<rparr>,
         v1ks_MachineTemplate = \<lparr>mt_Labels = Map.empty, mt_Annotations = Map.empty, mt_InfraAPIVersion = [],
           mt_InfraKind = [], mt_InfraName = []\<rparr>,
         v1ks_Replicas = 3, v1ks_UpdateStrategy = UpdateRecreate, v1ks_Version = ''v1.30.0+k0s.0'',
         v1ks_KubeconfigSecretMetadata = \<lparr>sm_Labels = Map.empty, sm_Annotations = Map.empty\<rparr>\<rparr>,
      v1kcp_Status = \<lparr>v1st_Ready = False, v1st_Initialized = True, v1st_ControlPlaneInitialized = True,
        v1st_ExternalManagedControlPlane = False, v1st_Replicas = 0, v1st_Version = [], v1st_Selector = [],
        v1st_UnavailableReplicas = 3, v1st_ReadyReplicas = 0, v1st_UpdatedReplicas = 0, v1st_Conditions = []\<rparr>\<rparr>"

theorem control_plane_roundtrip_witness:
  "v1st_UnavailableReplicas (v1kcp_Status (K0sControlPlane_ConvertFrom (K0sControlPlane_ConvertTo sample_control_plane))) = 3"
proof -
  have "status_consistent sample_control_plane"
    by (simp add: status_consistent_def sample_control_plane_def)
  from control_plane_roundtrip [OF this] show ?thesis
    by (simp add: sample_control_plane_def)
qed

subsection \<open>What the webhook admits\<close>

definition control_plane_ok :: "ver_lib \<Rightarrow> K0sControlPlane \<Rightarrow> bool" where
  "control_plane_ok V kcp \<longleftrightarrow>
     ver_NewVersion V (kcp_Version kcp) = None \<and> ver_CoreString V (kcp_Version kcp) \<noteq> ''1.31.1'' \<and>
     appliesOwner (k_Provisioner (kcp_Config kcp)) \<and>
     \<not> (ks_UpdateStrategy (kcp_Spec kcp) = UpdateRecreate \<and>
        ''--single'' \<in> set (elems (k_Args (kcp_Config kcp)))) \<and>
     (\<forall>f \<in> set (elems (k_Files (kcp_Config kcp))). f_Owner f = [] \<or> ownerRegex_match (f_Owner f))"

lemma denyIncompatibleProvisioners_None:
  "denyIncompatibleProvisioners kcp = None \<longleftrightarrow> appliesOwner (k_Provisioner (kcp_Config kcp))"
  by (auto simp: denyIncompatibleProvisioners_def appliesOwner_def Let_def)

lemma denyRecreateOnSingleClusters_None:
  "denyRecreateOnSingleClusters kcp = None \<longleftrightarrow>
     \<not> (ks_UpdateStrategy (kcp_Spec kcp) = UpdateRecreate \<and>
        ''--single'' \<in> set (elems (k_Args (kcp_Config kcp))))"
  by (auto simp: denyRecreateOnSingleClusters_def split: option.splits)

lemma validateK0sControlPlane_None: "validateK0sControlPlane V kcp = None \<longleftrightarrow> control_plane_ok V kcp"
proof -
  have "denyIncompatibleK0sVersions V kcp = None \<longleftrightarrow>
      ver_NewVersion V (kcp_Version kcp) = None \<and> ver_CoreString V (kcp_Version kcp) \<noteq> ''1.31.1''"
    by (auto simp: denyIncompatibleK0sVersions_def split: option.splits)
  moreover have "ValidateFileOwners fs spec pre = [] \<longleftrightarrow> (\<forall>f \<in> set fs. owner_ok spec f)" for fs spec pre
    by (simp add: ValidateFileOwners_def validate_owners_from_Nil)
  ultimately show ?thesis
    using denyIncompatibleProvisioners_None [of kcp] denyRecreateOnSingleClusters_None [of kcp]
    by (auto simp: validateK0sControlPlane_def control_plane_ok_def owner_ok_def Let_def
        split: option.splits)
qed

text \<open>
  An update that the webhook admits leaves an admissible control plane, and if
  it changes the version, both versions parse and the minor version grows by at most one.
\<close>
theorem ValidateUpdate_admits:
  "snd (ValidateUpdate V old new) = None \<longleftrightarrow>
     control_plane_ok V new \<and>
     (kcp_Version old = kcp_Version new \<or>
      ver_NewVersion V (kcp_Version old) = None \<and>
      ver_Minor V (kcp_Version new) - ver_Minor V (kcp_Version old) \<le> 1)"
  by (auto simp: ValidateUpdate_def Let_def validateK0sControlPlane_None control_plane_ok_def
      split: option.splits)

end
