(* ===== verification/Hashes.thy ===== *)
theory Hashes
  imports Prelude "HOL-Library.Word"
begin

unbundle bit_operations_syntax

text \<open>
  The hash functions of Go's standard library that the code calls: \<open>crypto/md5\<close>, which shortens
  the names of objects, \<open>crypto/sha256\<close>, which names volumes, and 32-bit FNV-1a of \<open>hash/fnv\<close>, which detects a change of a
  specification. Bytes are characters, words are 32-bit words that wrap around. The theorem on FNV-1a is what
  the detection of changes rests on: two inputs that differ in one byte never have the same hash.
\<close>

abbreviation byte :: "char \<Rightarrow> nat" where
  "byte c \<equiv> of_char c"

definition hex_char :: "nat \<Rightarrow> char" where
  "hex_char n = ''0123456789abcdef'' ! (n mod 16)"

subsection \<open>MD5\<close>

definition md5_K :: "32 word list" where
  "md5_K =
    [0xd76aa478, 0xe8c7b756, 0x242070db, 0xc1bdceee, 0xf57c0faf, 0x4787c62a, 0xa8304613, 0xfd469501,
     0x698098d8, 0x8b44f7af, 0xffff5bb1, 0x895cd7be, 0x6b901122, 0xfd987193, 0xa679438e, 0x49b40821,
     0xf61e2562, 0xc040b340, 0x265e5a51, 0xe9b6c7aa, 0xd62f105d, 0x02441453, 0xd8a1e681, 0xe7d3fbc8,
     0x21e1cde6, 0xc33707d6, 0xf4d50d87, 0x455a14ed, 0xa9e3e905, 0xfcefa3f8, 0x676f02d9, 0x8d2a4c8a,
     0xfffa3942, 0x8771f681, 0x6d9d6122, 0xfde5380c, 0xa4beea44, 0x4bdecfa9, 0xf6bb4b60, 0xbebfbc70,
     0x289b7ec6, 0xeaa127fa, 0xd4ef3085, 0x04881d05, 0xd9d4d039, 0xe6db99e5, 0x1fa27cf8, 0xc4ac5665,
     0xf4292244, 0x432aff97, 0xab9423a7, 0xfc93a039, 0x655b59c3, 0x8f0ccc92, 0xffeff47d, 0x85845dd1,
     0x6fa87e4f, 0xfe2ce6e0, 0xa3014314, 0x4e0811a1, 0xf7537e82, 0xbd3af235, 0x2ad7d2bb, 0xeb86d391]"

definition md5_s :: "nat list" where
  "md5_s = concat (replicate 4 [7, 12, 17, 22]) @ concat (replicate 4 [5, 9, 14, 20]) @
     concat (replicate 4 [4, 11, 16, 23]) @ concat (replicate 4 [6, 10, 15, 21])"

fun le_bytes :: "nat \<Rightarrow> int \<Rightarrow> nat list" where
  \<comment> \<open>a number as bytes, the lowest first\<close>
  "le_bytes 0 n = []"
| "le_bytes (Suc k) n = nat (n mod 256) # le_bytes k (n div 256)"

definition md5_pad :: "nat list \<Rightarrow> nat list" where
  "md5_pad bs = bs @ [128] @ replicate ((119 - length bs mod 64) mod 64) 0 @ le_bytes 8 (8 * int (length bs))"

fun le_words :: "nat list \<Rightarrow> 32 word list" where
  "le_words (a # b # c # d # rest) = (of_nat a + 256 * of_nat b + 65536 * of_nat c + 16777216 * of_nat d) # le_words rest"
| "le_words _ = []"

type_synonym md5_state = "32 word \<times> 32 word \<times> 32 word \<times> 32 word"

definition md5_mix :: "nat \<Rightarrow> 32 word \<Rightarrow> 32 word \<Rightarrow> 32 word \<Rightarrow> 32 word \<times> nat" where
  \<comment> \<open>the round function and the index of the message word of step \<open>i\<close>\<close>
  "md5_mix i b c d =
     (if i < 16 then ((b AND c) OR (NOT b AND d), i)
      else if i < 32 then ((d AND b) OR (NOT d AND c), (5 * i + 1) mod 16)
      else if i < 48 then (b XOR c XOR d, (3 * i + 5) mod 16)
      else (c XOR (b OR NOT d), 7 * i mod 16))"

definition md5_step :: "32 word list \<Rightarrow> nat \<times> nat \<times> 32 word \<Rightarrow> md5_state \<Rightarrow> md5_state" where
  "md5_step m isk st = (case isk of (i, s, k) \<Rightarrow> case st of (a, b, c, d) \<Rightarrow>
     case md5_mix i b c d of (f, g) \<Rightarrow> (d, b + word_rotl s (a + f + k + m ! g), b, c))"

definition md5_block :: "32 word list \<Rightarrow> md5_state \<Rightarrow> md5_state" where
  "md5_block m st = (case fold (md5_step m) (zip [0..<64] (zip md5_s md5_K)) st of (a', b', c', d') \<Rightarrow>
     case st of (a, b, c, d) \<Rightarrow> (a + a', b + b', c + c', d + d'))"

function md5_blocks :: "32 word list \<Rightarrow> md5_state \<Rightarrow> md5_state" where
  "md5_blocks ws st = (if length ws < 16 then st else md5_blocks (drop 16 ws) (md5_block (take 16 ws) st))"
  by auto
termination
  by (relation "measure (length \<circ> fst)") auto

definition md5_init :: md5_state where
  "md5_init = (0x67452301, 0xefcdab89, 0x98badcfe, 0x10325476)"

definition word_hex :: "32 word \<Rightarrow> string" where
  "word_hex w = concat (map (\<lambda>b. [hex_char (b div 16), hex_char b]) (le_bytes 4 (uint w)))"

definition md5_hex :: "string \<Rightarrow> string" where
  \<comment> \<open>\<open>fmt.Sprintf("%x", md5.Sum([]byte(s)))\<close>\<close>
  "md5_hex s = (case md5_blocks (le_words (md5_pad (map byte s))) md5_init of (a, b, c, d) \<Rightarrow>
     word_hex a @ word_hex b @ word_hex c @ word_hex d)"

lemma length_le_bytes [simp]: "length (le_bytes k n) = k"
  by (induction k n rule: le_bytes.induct) simp_all

lemma length_word_hex [simp]: "length (word_hex w) = 8"
proof -
  have "length (concat (map (\<lambda>b. [hex_char (b div 16), hex_char b]) bs)) = 2 * length bs" for bs
    by (induction bs) simp_all
  then show ?thesis by (simp add: word_hex_def)
qed

declare md5_blocks.simps [simp del]

lemma length_md5_hex [simp]: "length (md5_hex s) = 32"
  by (simp add: md5_hex_def split: prod.splits)

subsection \<open>SHA-256\<close>

fun root_bits :: "nat \<Rightarrow> int \<Rightarrow> nat \<Rightarrow> int \<Rightarrow> int" where
  \<comment> \<open>the \<open>e\<close>-th root of \<open>n\<close>, rounded down, from its highest bit to its lowest\<close>
  "root_bits e n 0 acc = acc"
| "root_bits e n (Suc k) acc = root_bits e n k (if (acc + 2 ^ k) ^ e \<le> n then acc + 2 ^ k else acc)"

definition root_fraction :: "nat \<Rightarrow> int \<Rightarrow> 32 word" where
  \<comment> \<open>the first 32 bits of the fraction of the \<open>e\<close>-th root of \<open>p\<close>\<close>
  "root_fraction e p = of_int (root_bits e (p * 2 ^ (32 * e)) 37 0)"

definition small_primes :: "int list" where
  \<comment> \<open>the first 64\<close>
  "small_primes =
    [2, 3, 5, 7, 11, 13, 17, 19, 23, 29, 31, 37, 41, 43, 47, 53,
     59, 61, 67, 71, 73, 79, 83, 89, 97, 101, 103, 107, 109, 113, 127, 131,
     137, 139, 149, 151, 157, 163, 167, 173, 179, 181, 191, 193, 197, 199, 211, 223,
     227, 229, 233, 239, 241, 251, 257, 263, 269, 271, 277, 281, 283, 293, 307, 311]"

definition sha_K :: "32 word list" where
  \<comment> \<open>from the cube roots of the first 64 primes\<close>
  "sha_K = map (root_fraction 3) small_primes"

lemma root_bits_correct:
  assumes "acc ^ e \<le> n" "n < (acc + 2 ^ k) ^ e"
  shows "root_bits e n k acc ^ e \<le> n \<and> n < (root_bits e n k acc + 1) ^ e"
  using assms
proof (induction k arbitrary: acc)
  case (Suc k)
  show ?case
  proof (cases "(acc + 2 ^ k) ^ e \<le> n")
    case True
    then show ?thesis using Suc.IH [of "acc + 2 ^ k"] Suc.prems by (simp add: add.assoc flip: mult_2)
  next
    case False
    then show ?thesis using Suc.IH [of acc] Suc.prems by simp
  qed
qed simp

definition be_bytes :: "nat \<Rightarrow> int \<Rightarrow> nat list" where
  \<comment> \<open>a number as bytes, the highest first\<close>
  "be_bytes k n = rev (le_bytes k n)"

definition sha_pad :: "nat list \<Rightarrow> nat list" where
  "sha_pad bs = bs @ [128] @ replicate ((119 - length bs mod 64) mod 64) 0 @ be_bytes 8 (8 * int (length bs))"

fun be_words :: "nat list \<Rightarrow> 32 word list" where
  "be_words (a # b # c # d # rest) = (16777216 * of_nat a + 65536 * of_nat b + 256 * of_nat c + of_nat d) # be_words rest"
| "be_words _ = []"

fun sha_schedule :: "nat \<Rightarrow> 32 word list \<Rightarrow> 32 word list" where
  \<comment> \<open>extend the message words, of which the list holds the latest first\<close>
  "sha_schedule 0 ws = rev ws"
| "sha_schedule (Suc k) ws =
     (let x = ws ! 14; y = ws ! 1;
          s0 = word_rotr 7 x XOR word_rotr 18 x XOR drop_bit 3 x;
          s1 = word_rotr 17 y XOR word_rotr 19 y XOR drop_bit 10 y
      in sha_schedule k ((ws ! 15 + s0 + ws ! 6 + s1) # ws))"

type_synonym sha_state = "32 word list"

definition sha_step :: "32 word \<times> 32 word \<Rightarrow> sha_state \<Rightarrow> sha_state" where
  \<comment> \<open>one round, of the message word and the constant, on the eight variables\<close>
  "sha_step wk st =
     (let a = st ! 0; b = st ! 1; c = st ! 2; d = st ! 3; e = st ! 4; f = st ! 5; g = st ! 6; h = st ! 7;
          s1 = word_rotr 6 e XOR word_rotr 11 e XOR word_rotr 25 e;
          ch = (e AND f) XOR (NOT e AND g);
          t1 = h + s1 + ch + snd wk + fst wk;
          s0 = word_rotr 2 a XOR word_rotr 13 a XOR word_rotr 22 a;
          maj = (a AND b) XOR (a AND c) XOR (b AND c)
      in [t1 + (s0 + maj), a, b, c, d + t1, e, f, g])"

definition sha_block :: "32 word list \<Rightarrow> sha_state \<Rightarrow> sha_state" where
  "sha_block m st = map2 (+) st (fold sha_step (zip (sha_schedule 48 (rev m)) sha_K) st)"

function sha_blocks :: "32 word list \<Rightarrow> sha_state \<Rightarrow> sha_state" where
  "sha_blocks ws st = (if length ws < 16 then st else sha_blocks (drop 16 ws) (sha_block (take 16 ws) st))"
  by auto
termination
  by (relation "measure (length \<circ> fst)") auto

declare sha_blocks.simps [simp del]

definition sha_init :: sha_state where
  \<comment> \<open>from the square roots of the first eight primes\<close>
  "sha_init = map (root_fraction 2) (take 8 small_primes)"

lemma length_sha_init [simp]: "length sha_init = 8"
  by (simp add: sha_init_def small_primes_def)

definition hex_bytes :: "nat list \<Rightarrow> string" where
  "hex_bytes bs = concat (map (\<lambda>b. [hex_char (b div 16), hex_char b]) bs)"

definition sha256_hex :: "string \<Rightarrow> string" where
  \<comment> \<open>\<open>fmt.Sprintf("%x", sha256.Sum256([]byte(s)))\<close>\<close>
  "sha256_hex s = concat (map (\<lambda>w. hex_bytes (be_bytes 4 (uint w))) (sha_blocks (be_words (sha_pad (map byte s))) sha_init))"

lemma length_hex_bytes [simp]: "length (hex_bytes bs) = 2 * length bs"
  by (induction bs) (simp_all add: hex_bytes_def)

lemma length_be_bytes [simp]: "length (be_bytes k n) = k"
  by (simp add: be_bytes_def)

lemma length_sha_fold: "length st = 8 \<Longrightarrow> length (fold sha_step ps st) = 8"
  by (induction ps arbitrary: st) (simp_all add: sha_step_def Let_def)

lemma length_sha_blocks: "length st = 8 \<Longrightarrow> length (sha_blocks ws st) = 8"
proof (induction ws st rule: sha_blocks.induct)
  case (1 ws st)
  have "length (sha_block (take 16 ws) st) = 8"
    using 1 by (simp add: sha_block_def length_sha_fold)
  with 1 show ?case by (subst sha_blocks.simps) simp
qed

lemma length_sha256_hex [simp]: "length (sha256_hex s) = 64"
proof -
  have "length (concat (map (\<lambda>w. hex_bytes (be_bytes 4 (uint w))) ws)) = 8 * length ws" for ws :: "32 word list"
    by (induction ws) simp_all
  then show ?thesis
    using length_sha_blocks [of sha_init] by (simp add: sha256_hex_def)
qed

definition hex_digits :: "char set" where
  "hex_digits = set ''0123456789abcdef''"

lemma hex_char_in [simp]: "hex_char n \<in> hex_digits"
  unfolding hex_char_def hex_digits_def by (rule nth_mem) (simp add: less_Suc_eq_le)

lemma set_sha256_hex: "set (sha256_hex s) \<subseteq> hex_digits"
  by (auto simp: sha256_hex_def hex_bytes_def)

subsection \<open>FNV-1a\<close>

definition fnv_offset :: "32 word" where "fnv_offset = 0x811c9dc5"
definition fnv_prime :: "32 word" where "fnv_prime = 0x01000193"

definition fnv_step :: "char \<Rightarrow> 32 word \<Rightarrow> 32 word" where
  "fnv_step c h = (h XOR of_nat (byte c)) * fnv_prime"

definition fnv1a :: "string \<Rightarrow> 32 word" where
  \<comment> \<open>\<open>fnv.New32a()\<close>, \<open>Write\<close> and \<open>Sum32\<close>\<close>
  "fnv1a s = fold fnv_step s fnv_offset"

definition fnv_inverse :: "32 word" where
  \<comment> \<open>the inverse of the prime modulo $2^{32}$\<close>
  "fnv_inverse = 0x359c449b"

lemma fnv_prime_inverse: "fnv_prime * fnv_inverse = 1"
  by (simp add: fnv_prime_def fnv_inverse_def)

lemma fnv_mult_inj: "x * fnv_prime = y * fnv_prime \<longleftrightarrow> x = y"
proof
  assume "x * fnv_prime = y * fnv_prime"
  then have "x * (fnv_prime * fnv_inverse) = y * (fnv_prime * fnv_inverse)"
    by (simp only: mult.assoc [symmetric])
  then show "x = y"
    by (simp add: fnv_prime_inverse)
qed simp

lemma xor_cancel: "a XOR b = a XOR c \<longleftrightarrow> b = c" for a b c :: "32 word"
proof
  assume "a XOR b = a XOR c"
  then have "(a XOR a) XOR b = (a XOR a) XOR c"
    by (simp only: xor.assoc)
  then show "b = c"
    by simp
qed simp

lemma fnv_step_inj: "fnv_step c h = fnv_step c h' \<longleftrightarrow> h = h'"
  by (simp only: fnv_step_def fnv_mult_inj xor.commute [of _ "of_nat (byte c)"] xor_cancel)

lemma fnv_fold_inj: "fold fnv_step s h = fold fnv_step s h' \<longleftrightarrow> h = h'"
  by (induction s arbitrary: h h') (simp_all add: fnv_step_inj)

lemma byte_word_inj: "(of_nat (byte c) :: 32 word) = of_nat (byte c') \<longleftrightarrow> c = c'"
proof
  assume eq: "(of_nat (byte c) :: 32 word) = of_nat (byte c')"
  have small: "(of_char x :: nat) < 2 ^ 32" for x
    by (rule less_trans [OF nat_of_char_less_256]) simp
  have "unat (of_nat (byte c) :: 32 word) = byte c" "unat (of_nat (byte c') :: 32 word) = byte c'"
    using small [of c] small [of c'] by (simp_all add: unat_of_nat)
  with eq have "byte c = byte c'"
    by metis
  then show "c = c'"
    by simp
qed simp

lemma fnv1a_one_byte:
  assumes "c \<noteq> c'"
  shows "fnv1a (xs @ c # ys) \<noteq> fnv1a (xs @ c' # ys)"
  using assms unfolding fnv1a_def
  by (simp add: fnv_fold_inj) (simp add: fnv_step_def fnv_mult_inj xor_cancel byte_word_inj)

end
