(* ===== verification/Cluster_API.thy ===== *)
theory Cluster_API
  imports Kube Hashes
begin

text \<open>
  The API of hosted control planes (\<open>api/k0smotron.io/v1beta2\<close>): the specification and status
  of a k0smotron \<open>Cluster\<close>, the names of the objects generated for it, its image, and
  the validating and defaulting webhooks; and \<open>K0smotronControlPlane\<close> of
  \<open>api/controlplane/v1beta2\<close>, which carries the same specification, with its webhook. Values of
  Kubernetes types whose fields the code does not read are JSON values. The theorems: every generated name fits
  the limit of Kubernetes, but two clusters of one namespace can generate the same name; what
  the defaults guarantee; and what an update may change.
\<close>

subsection \<open>Specification\<close>

type_synonym quantity = string
type_synonym resource_requirements = json
type_synonym topology_spread = json

datatype volume_source =
    ConfigMapSource string json \<comment> \<open>the name, and the other fields\<close>
  | SecretSource string json
  | OtherSource json

record volume =
  vol_Name :: string
  vol_Source :: volume_source

record KubeconfigRef =
  kr_Name :: string
  kr_Namespace :: string
  kr_Key :: string

record RemoteHostClusterSpec =
  rh_KubeconfigRef :: "KubeconfigRef option"

record PatchTarget =
  pt_Kind :: string
  pt_Component :: string

definition JSONPatchType :: string where "JSONPatchType = ''json''"
definition StrategicMergePatchType :: string where "StrategicMergePatchType = ''strategic''"
definition MergePatchType :: string where "MergePatchType = ''merge''"

record PatchSpec =
  pa_Type :: string
  pa_Content :: string

record ComponentPatch =
  cpa_Target :: PatchTarget
  cpa_Patch :: PatchSpec

record secret_metadata = \<comment> \<open>\<open>SecretMetadata\<close> of this API group\<close>
  smd_Labels :: strmap
  smd_Annotations :: strmap

record IngressSpec =
  ing_Deploy :: "bool option"
  ing_Port :: int
  ing_APIHost :: string
  ing_KonnectivityHost :: string
  ing_ClassName :: "string option"
  ing_Annotations :: strmap

record Mount =
  mnt_Path :: string
  mnt_ReadOnly :: bool
  mnt_Source :: volume_source

record ServiceSpec =
  svs_Type :: string
  svs_APIPort :: int
  svs_KonnectivityPort :: int

record ObjectMeta =
  pm_Name :: string
  pm_Namespace :: string
  pm_Labels :: strmap
  pm_Annotations :: strmap
  pm_Finalizers :: "string slice"

record PersistentVolumeClaim =
  pvc_Kind :: string
  pvc_APIVersion :: string
  pvc_Meta :: ObjectMeta
  pvc_Spec :: json
  pvc_Status :: json

record PersistenceSpec =
  pers_Type :: string
  pers_PersistentVolumeClaim :: "PersistentVolumeClaim option"
  pers_AutoDeletePVCs :: bool
  pers_HostPath :: string

record MonitoringSpec =
  mon_Enabled :: bool
  mon_PrometheusImage :: string
  mon_ProxyImage :: string

definition StorageTypeEtcd :: string where "StorageTypeEtcd = ''etcd''"
definition StorageTypeKine :: string where "StorageTypeKine = ''kine''"
definition StorageTypeNATS :: string where "StorageTypeNATS = ''nats''"

record StoragePersistenceSpec =
  stp_StorageClass :: string
  stp_Size :: quantity

record NATSSpec =
  nats_Persistence :: StoragePersistenceSpec

record KineSpec =
  kine_DataSourceURL :: string
  kine_DataSourceSecretName :: string

record DefragJob =
  dj_Enabled :: bool
  dj_Schedule :: string
  dj_Rule :: string
  dj_Image :: string

record EtcdSpec =
  etcd_Image :: string
  etcd_Args :: "string slice"
  etcd_Persistence :: StoragePersistenceSpec
  etcd_AutoDeletePVCs :: bool
  etcd_DefragJob :: DefragJob
  etcd_Resources :: resource_requirements

record StorageSpec =
  sto_Type :: string
  sto_Kine :: KineSpec
  sto_Etcd :: EtcdSpec
  sto_NATS :: NATSSpec

record CertificateRef =
  cr_Type :: string
  cr_Name :: string

record ClusterSpec =
  sp_RemoteHostCluster :: "RemoteHostClusterSpec option"
  sp_Replicas :: "32 word"
  sp_Image :: string
  sp_ServiceAccount :: string
  sp_Version :: string
  sp_ExternalAddress :: string
  sp_Ingress :: "IngressSpec option"
  sp_Service :: ServiceSpec
  sp_Persistence :: PersistenceSpec
  sp_Storage :: StorageSpec
  sp_K0sConfig :: "object option"
  sp_CertificateRefs :: "CertificateRef slice"
  sp_Manifests :: "volume slice"
  sp_Mounts :: "Mount slice"
  sp_ControlPlaneFlags :: "string slice"
  sp_Monitoring :: MonitoringSpec
  sp_TopologySpreadConstraints :: "topology_spread slice"
  sp_Resources :: resource_requirements
  sp_KubeconfigSecretMetadata :: secret_metadata
  sp_Patches :: "ComponentPatch slice"

definition hosting_kubeconfig :: "ClusterSpec \<Rightarrow> KubeconfigRef option" where
  \<comment> \<open>the reference where neither pointer on the way to it is nil\<close>
  "hosting_kubeconfig sp = (case sp_RemoteHostCluster sp of None \<Rightarrow> None | Some r \<Rightarrow> rh_KubeconfigRef r)"

subsection \<open>Images and versions\<close>

definition defaultK0SImage :: string where "defaultK0SImage = ''quay.io/k0sproject/k0s''"
definition DefaultK0SVersion :: string where "DefaultK0SVersion = ''v1.27.9-k0s.0''"
definition DefaultK0SSuffix :: string where "DefaultK0SSuffix = ''k0s.0''"
definition DefaultEtcdImage :: string where "DefaultEtcdImage = ''quay.io/k0sproject/etcd:v3.7.1''"

definition image_tag :: "string \<Rightarrow> string" where
  \<comment> \<open>the tag for a version: images are tagged with a dash before the k0s suffix\<close>
  "image_tag v =
     (let v1 = (if v = [] then DefaultK0SVersion else v);
          v2 = replace_first ''+k0s.'' ''-k0s.'' v1
      in if \<not> contains v2 ''-k0s.'' then v2 @ ''-'' @ DefaultK0SSuffix else v2)"

definition GetImage :: "ClusterSpec \<Rightarrow> string" where
  "GetImage c = (if sp_Image c = [] then defaultK0SImage else sp_Image c) @ '':'' @ image_tag (sp_Version c)"

definition nativeKonnectivityMinVersion :: string where "nativeKonnectivityMinVersion = ''v1.35.1''"

definition core_less :: "ver_lib \<Rightarrow> string \<Rightarrow> string \<Rightarrow> bool" where
  \<comment> \<open>\<open>a.Core().LessThan(b.Core())\<close>\<close>
  "core_less V a b = ver_LessThan V (ver_CoreString V a) (ver_CoreString V b)"

definition HasNativeIngressKonnectivity :: "ver_lib \<Rightarrow> ClusterSpec \<Rightarrow> bool" where
  "HasNativeIngressKonnectivity V c =
     (let k0sVersion = (if sp_Version c = [] then DefaultK0SVersion else sp_Version c) in
      case ver_NewVersion V k0sVersion of
        Some _ \<Rightarrow> False
      | None \<Rightarrow> \<not> core_less V k0sVersion nativeKonnectivityMinVersion)"

subsection \<open>Status and objects\<close>

record ClusterStatusV1beta1Deprecated =
  dep_ReconciliationStatus :: string
  dep_Ready :: bool

record ClusterStatusDeprecated =
  dep_V1Beta1 :: "ClusterStatusV1beta1Deprecated option"

record ClusterStatus =
  cst_Replicas :: "32 word"
  cst_ReadyReplicas :: "32 word"
  cst_UpdatedReplicas :: "32 word"
  cst_Selector :: string
  cst_Conditions :: "condition list"
  cst_Deprecated :: "ClusterStatusDeprecated option"

record Cluster =
  kmc_Meta :: objmeta
  kmc_Spec :: ClusterSpec
  kmc_Status :: ClusterStatus

definition kmc_Name :: "Cluster \<Rightarrow> string" where
  "kmc_Name kmc = om_Name (kmc_Meta kmc)"

definition deprecated_status :: "Cluster \<Rightarrow> ClusterStatusV1beta1Deprecated" where
  \<comment> \<open>what the deprecated fields hold, zero values when they are not set\<close>
  "deprecated_status kmc =
     (case cst_Deprecated (kmc_Status kmc) of
        Some d \<Rightarrow> (case dep_V1Beta1 d of Some x \<Rightarrow> x | None \<Rightarrow> \<lparr>dep_ReconciliationStatus = [], dep_Ready = False\<rparr>)
      | None \<Rightarrow> \<lparr>dep_ReconciliationStatus = [], dep_Ready = False\<rparr>)"

definition GetReconciliationStatus :: "Cluster \<Rightarrow> string" where
  "GetReconciliationStatus kmc = dep_ReconciliationStatus (deprecated_status kmc)"

definition GetReadyStatus :: "Cluster \<Rightarrow> bool" where
  "GetReadyStatus kmc = dep_Ready (deprecated_status kmc)"

definition set_deprecated :: "(ClusterStatusV1beta1Deprecated \<Rightarrow> ClusterStatusV1beta1Deprecated) \<Rightarrow> Cluster \<Rightarrow> Cluster" where
  \<comment> \<open>create the missing structures, then assign\<close>
  "set_deprecated f kmc = kmc\<lparr>kmc_Status := (kmc_Status kmc)\<lparr>cst_Deprecated :=
     Some \<lparr>dep_V1Beta1 = Some (f (deprecated_status kmc))\<rparr>\<rparr>\<rparr>"

definition SetReconciliationStatus :: "string \<Rightarrow> Cluster \<Rightarrow> Cluster" where
  "SetReconciliationStatus st = set_deprecated (\<lambda>d. d\<lparr>dep_ReconciliationStatus := st\<rparr>)"

definition SetReadyStatus :: "bool \<Rightarrow> Cluster \<Rightarrow> Cluster" where
  "SetReadyStatus r = set_deprecated (\<lambda>d. d\<lparr>dep_Ready := r\<rparr>)"

record K0smotronControlPlaneStatus =
  hst_ControlPlaneInitialized :: "bool option"
  hst_ExternalManagedControlPlane :: "bool option"
  hst_Version :: string
  hst_Replicas :: "32 word option"
  hst_ReadyReplicas :: "32 word option"
  hst_Selector :: string
  hst_AvailableReplicas :: "32 word option"
  hst_UpToDateReplicas :: "32 word option"
  hst_Conditions :: "condition list"

record K0smotronControlPlane =
  hcp_Meta :: objmeta
  hcp_Spec :: ClusterSpec
  hcp_Status :: K0smotronControlPlaneStatus

definition zero_persistence :: StoragePersistenceSpec where
  "zero_persistence = \<lparr>stp_StorageClass = [], stp_Size = []\<rparr>"

definition zero_spec :: ClusterSpec where
  "zero_spec = \<lparr>sp_RemoteHostCluster = None, sp_Replicas = 0, sp_Image = [], sp_ServiceAccount = [], sp_Version = [],
     sp_ExternalAddress = [], sp_Ingress = None,
     sp_Service = \<lparr>svs_Type = [], svs_APIPort = 0, svs_KonnectivityPort = 0\<rparr>,
     sp_Persistence = \<lparr>pers_Type = [], pers_PersistentVolumeClaim = None, pers_AutoDeletePVCs = False, pers_HostPath = []\<rparr>,
     sp_Storage = \<lparr>sto_Type = [], sto_Kine = \<lparr>kine_DataSourceURL = [], kine_DataSourceSecretName = []\<rparr>,
       sto_Etcd = \<lparr>etcd_Image = [], etcd_Args = None, etcd_Persistence = zero_persistence, etcd_AutoDeletePVCs = False,
         etcd_DefragJob = \<lparr>dj_Enabled = False, dj_Schedule = [], dj_Rule = [], dj_Image = []\<rparr>, etcd_Resources = JObj []\<rparr>,
       sto_NATS = \<lparr>nats_Persistence = zero_persistence\<rparr>\<rparr>,
     sp_K0sConfig = None, sp_CertificateRefs = None, sp_Manifests = None, sp_Mounts = None, sp_ControlPlaneFlags = None,
     sp_Monitoring = \<lparr>mon_Enabled = False, mon_PrometheusImage = [], mon_ProxyImage = []\<rparr>,
     sp_TopologySpreadConstraints = None, sp_Resources = JObj [],
     sp_KubeconfigSecretMetadata = \<lparr>smd_Labels = Map.empty, smd_Annotations = Map.empty\<rparr>, sp_Patches = None\<rparr>"

definition zero_kmc :: Cluster where
  \<comment> \<open>a variable of type \<open>kapi.Cluster\<close> before anything was read into it\<close>
  "zero_kmc = \<lparr>kmc_Meta = \<lparr>om_Name = [], om_Namespace = [], om_UID = [], om_Labels = Map.empty, om_Annotations = Map.empty,
       om_OwnerReferences = [], om_Finalizers = [], om_CreationTimestamp = 0, om_DeletionTimestamp = None\<rparr>,
     kmc_Spec = zero_spec,
     kmc_Status = \<lparr>cst_Replicas = 0, cst_ReadyReplicas = 0, cst_UpdatedReplicas = 0, cst_Selector = [],
       cst_Conditions = [], cst_Deprecated = None\<rparr>\<rparr>"

definition K0smotronControlPlaneFinalizer :: string where
  "K0smotronControlPlaneFinalizer = ''k0smotron.controlplane.cluster.x-k8s.io''"

definition AnnotationKeyClusterSpecHash :: string where
  "AnnotationKeyClusterSpecHash = ''k0smotron.io/cluster-spec-hash''"

subsection \<open>Names of generated objects\<close>

definition kubeNameLengthLimit :: nat where "kubeNameLengthLimit = 63"

definition shortName :: "string \<Rightarrow> string" where
  "shortName name =
     (if length name > kubeNameLengthLimit
      then take (kubeNameLengthLimit - 6) name @ ''-'' @ take 5 (md5_hex name) else name)"

definition getObjectName :: "Cluster \<Rightarrow> string \<Rightarrow> string" where
  \<comment> \<open>\<open>fmt.Sprintf(pattern, kmc.Name)\<close> for a pattern with one verb\<close>
  "getObjectName kmc pattern = shortName (replace_first ''%s'' (kmc_Name kmc) pattern)"

definition GetStatefulSetName_of :: "string \<Rightarrow> string" where
  "GetStatefulSetName_of clusterName = shortName (''kmc-'' @ clusterName)"

definition GetStatefulSetName :: "Cluster \<Rightarrow> string" where
  "GetStatefulSetName kmc = GetStatefulSetName_of (kmc_Name kmc)"

definition GetNatsServiceName :: "Cluster \<Rightarrow> string" where
  "GetNatsServiceName kmc = getObjectName kmc ''kmc-%s-nats''"
definition GetNatsTokenSecretName :: "Cluster \<Rightarrow> string" where
  "GetNatsTokenSecretName kmc = getObjectName kmc ''kmc-%s-nats-token''"
definition GetEtcdStatefulSetName :: "Cluster \<Rightarrow> string" where
  "GetEtcdStatefulSetName kmc = getObjectName kmc ''kmc-%s-etcd''"
definition GetEtcdDefragJobName :: "Cluster \<Rightarrow> string" where
  "GetEtcdDefragJobName kmc = getObjectName kmc ''kmc-%s-defrag''"
definition GetAdminConfigSecretName :: "Cluster \<Rightarrow> string" where
  "GetAdminConfigSecretName kmc = kmc_Name kmc @ ''-kubeconfig''"
definition GetEntrypointConfigMapName :: "Cluster \<Rightarrow> string" where
  "GetEntrypointConfigMapName kmc = getObjectName kmc ''kmc-entrypoint-%s-config''"
definition GetMonitoringConfigMapName :: "Cluster \<Rightarrow> string" where
  "GetMonitoringConfigMapName kmc = getObjectName kmc ''kmc-prometheus-%s-config''"
definition GetMonitoringNginxConfigMapName :: "Cluster \<Rightarrow> string" where
  "GetMonitoringNginxConfigMapName kmc = getObjectName kmc ''kmc-prometheus-%s-config-nginx''"
definition GetConfigMapName :: "Cluster \<Rightarrow> string" where
  "GetConfigMapName kmc = getObjectName kmc ''kmc-%s-config''"
definition GetClusterIPServiceName :: "Cluster \<Rightarrow> string" where
  "GetClusterIPServiceName kmc = getObjectName kmc ''kmc-%s''"
definition GetEtcdServiceName :: "Cluster \<Rightarrow> string" where
  "GetEtcdServiceName kmc = getObjectName kmc ''kmc-%s-etcd''"
definition GetLoadBalancerServiceName :: "Cluster \<Rightarrow> string" where
  "GetLoadBalancerServiceName kmc = getObjectName kmc ''kmc-%s-lb''"
definition GetNodePortServiceName :: "Cluster \<Rightarrow> string" where
  "GetNodePortServiceName kmc = getObjectName kmc ''kmc-%s-nodeport''"
definition GetVolumeName :: "Cluster \<Rightarrow> string" where
  "GetVolumeName kmc = getObjectName kmc ''kmc-%s''"
definition GetIngressName :: "Cluster \<Rightarrow> string" where
  "GetIngressName kmc = getObjectName kmc ''kmc-%s''"
definition GetIngressManifestsConfigMapName :: "Cluster \<Rightarrow> string" where
  "GetIngressManifestsConfigMapName kmc = getObjectName kmc ''kmc-%s-ingress''"
definition GetEndpointConfigMapName :: "Cluster \<Rightarrow> string" where
  "GetEndpointConfigMapName kmc = getObjectName kmc ''kmc-%s-endpoint''"

definition ServiceTypeNodePort :: string where "ServiceTypeNodePort = ''NodePort''"
definition ServiceTypeLoadBalancer :: string where "ServiceTypeLoadBalancer = ''LoadBalancer''"
definition ServiceTypeClusterIP :: string where "ServiceTypeClusterIP = ''ClusterIP''"

definition GetServiceName :: "Cluster \<Rightarrow> string res" where
  \<comment> \<open>an unknown type panics\<close>
  "GetServiceName kmc =
     (let ty = svs_Type (sp_Service (kmc_Spec kmc)) in
      if ty = ServiceTypeNodePort then Ok (GetNodePortServiceName kmc)
      else if ty = ServiceTypeLoadBalancer then Ok (GetLoadBalancerServiceName kmc)
      else if ty = ServiceTypeClusterIP then Ok (GetClusterIPServiceName kmc)
      else Panic)"

subsection \<open>Validation\<close>

type_synonym admission = "string list \<times> gerror option" \<comment> \<open>warnings, and the error that refuses\<close>

definition ingressCompatibleVersions :: "string list" where
  "ingressCompatibleVersions = [''v1.34.1+k0s.0'']"

definition IngressSpec_Validate :: "ver_lib \<Rightarrow> IngressSpec \<Rightarrow> string \<Rightarrow> admission" where
  "IngressSpec_Validate V i clusterVersion =
     (case ver_NewVersion V clusterVersion of
        Some e \<Rightarrow> ([], Some (Wrapf (''failed to parse k0s version '' @ clusterVersion) e))
      | None \<Rightarrow>
          (case find (\<lambda>iv. ver_Minor V clusterVersion = ver_Minor V iv \<and> core_less V clusterVersion iv)
                  ingressCompatibleVersions of
             Some iv \<Rightarrow> ([], Some (Errorf (''ingress controller is not supported with k0s version '' @ clusterVersion @
                 '', minimum supported version for ingress is '' @ ver_String V iv)))
           | None \<Rightarrow>
               ((if ing_Deploy i = Some True \<and> ing_Annotations i = Map.empty
                 then [''no annotations specified for the ingress controller, make sure that ingress controller supports tls passthrough'']
                 else []), None)))"

definition cluster_validateVersionSuffix :: "string \<Rightarrow> string list" where
  "cluster_validateVersionSuffix ver =
     (if ver \<noteq> [] \<and> \<not> contains ver ''-k0s.'' \<and> \<not> contains ver ''+k0s.''
      then [''The specified version '' @ quoted ver @ '' requires a k0s suffix (k0s.<number>). Using '' @
            quoted (ver @ ''-k0s.0'') @ '' instead.'']
      else [])"

definition valid_patch_type :: "string \<Rightarrow> bool" where
  "valid_patch_type t \<longleftrightarrow> t = JSONPatchType \<or> t = StrategicMergePatchType \<or> t = MergePatchType"

fun validate_patches_from :: "(string \<Rightarrow> string) \<Rightarrow> nat \<Rightarrow> ComponentPatch list \<Rightarrow> gerror option" where
  \<comment> \<open>the first argument of the operations is the verb \<open>%q\<close> of \<open>fmt\<close>\<close>
  "validate_patches_from q i [] = None"
| "validate_patches_from q i (p # ps) =
     (if valid_patch_type (pa_Type (cpa_Patch p)) then validate_patches_from q (Suc i) ps
      else Some (Errorf (''invalid patch type '' @ q (pa_Type (cpa_Patch p)) @ '' at index '' @ show_nat i @
             '': must be one of json, strategic, merge'')))"

definition validatePatches :: "(string \<Rightarrow> string) \<Rightarrow> ComponentPatch slice \<Rightarrow> gerror option" where
  "validatePatches q patches = validate_patches_from q 0 (elems patches)"

definition ValidateClusterSpec :: "ver_lib \<Rightarrow> (string \<Rightarrow> string) \<Rightarrow> ClusterSpec \<Rightarrow> admission" where
  "ValidateClusterSpec V q kcs =
     (let warnings = cluster_validateVersionSuffix (sp_Version kcs) in
      case (case sp_Ingress kcs of
              None \<Rightarrow> ([], None)
            | Some i \<Rightarrow>
                (case IngressSpec_Validate V i (sp_Version kcs) of (warn, err) \<Rightarrow>
                   (warn @ (if ing_Deploy i = Some True \<and> ing_Annotations i = Map.empty
                            then [''ingress annotations are not set, make sure that the ingress controller supports tls passthrough'']
                            else []), err))) of
        (_, Some e) \<Rightarrow> ([], Some e)
      | (warn, None) \<Rightarrow> (warnings @ warn, validatePatches q (sp_Patches kcs)))"

definition imageVersion :: "ver_lib \<Rightarrow> string \<Rightarrow> string option" where
  \<comment> \<open>the tag of the image where it is a version; its errors are only inspected for nil\<close>
  "imageVersion V img =
     (case cut_at (CHR '':'') (rev (takeWhile (\<lambda>c. c \<noteq> CHR ''/'') (rev img))) of (_, tag, found) \<Rightarrow>
        if \<not> found then None else if ver_NewVersion V tag = None then Some tag else None)"

definition validateEtcdVersionUpgrade :: "ver_lib \<Rightarrow> (string \<Rightarrow> string) \<Rightarrow> string \<Rightarrow> string \<Rightarrow> admission" where
  "validateEtcdVersionUpgrade V q oldImage newImage =
     (let skipped = (\<lambda>img. ([''could not determine etcd version from image '' @ q img @
            '', skipping etcd upgrade path validation''], None))
      in case imageVersion V oldImage of
           None \<Rightarrow> skipped oldImage
         | Some oldV \<Rightarrow>
             (case imageVersion V newImage of
                None \<Rightarrow> skipped newImage
              | Some newV \<Rightarrow>
                  if ver_GreaterThanOrEqual V oldV newV then ([], None)
                  else if ver_Minor V newV - ver_Minor V oldV > 1
                  then ([], Some (Errorf (''upgrading etcd image from '' @ q oldImage @ '' to '' @ q newImage @
                         '' is not allowed: etcd does not support skipping a minor version when upgrading, '' @
                         ''please upgrade to an intermediate version first'')))
                  else ([], None)))"

definition ValidateClusterSpecUpdate :: "ver_lib \<Rightarrow> (string \<Rightarrow> string) \<Rightarrow> ClusterSpec \<Rightarrow> ClusterSpec \<Rightarrow> admission" where
  "ValidateClusterSpecUpdate V q oldKCS kcs =
     (if sto_Type (sp_Storage kcs) = StorageTypeNATS \<and> sp_Replicas oldKCS \<noteq> sp_Replicas kcs
      then ([], Some (Errorf (''NATS storage does not support scaling, replicas cannot be changed from '' @
             show_int (sint (sp_Replicas oldKCS)) @ '' to '' @ show_int (sint (sp_Replicas kcs)) @
             ''. Please back up your data, update NATS cluster configuration, and recreate your cluster'')))
      else
        (case (if (sto_Type (sp_Storage kcs) = [] \<or> sto_Type (sp_Storage kcs) = StorageTypeEtcd) \<and>
                  etcd_Image (sto_Etcd (sp_Storage oldKCS)) \<noteq> etcd_Image (sto_Etcd (sp_Storage kcs))
               then validateEtcdVersionUpgrade V q (etcd_Image (sto_Etcd (sp_Storage oldKCS)))
                      (etcd_Image (sto_Etcd (sp_Storage kcs)))
               else ([], None)) of
           (warnings, Some e) \<Rightarrow> (warnings, Some e)
         | (warnings, None) \<Rightarrow>
             (case ValidateClusterSpec V q kcs of (specWarnings, err) \<Rightarrow> (warnings @ specWarnings, err))))"

definition ClusterValidator_ValidateCreate :: "ver_lib \<Rightarrow> (string \<Rightarrow> string) \<Rightarrow> Cluster option \<Rightarrow> admission" where
  "ClusterValidator_ValidateCreate V q k =
     (case k of
        None \<Rightarrow> ([], Some (Errorf ''expected a Cluster object but got nil''))
      | Some kmc \<Rightarrow> ValidateClusterSpec V q (kmc_Spec kmc))"

definition ClusterValidator_ValidateUpdate ::
  "ver_lib \<Rightarrow> (string \<Rightarrow> string) \<Rightarrow> Cluster option \<Rightarrow> Cluster option \<Rightarrow> admission" where
  "ClusterValidator_ValidateUpdate V q old new =
     (case old of
        None \<Rightarrow> ([], Some (Errorf ''expected an old Cluster object but got nil''))
      | Some oldKmc \<Rightarrow>
          (case new of
             None \<Rightarrow> ([], Some (Errorf ''expected a new Cluster object but got nil''))
           | Some newKmc \<Rightarrow> ValidateClusterSpecUpdate V q (kmc_Spec oldKmc) (kmc_Spec newKmc)))"

definition ClusterDefaulter_Default :: "Cluster \<Rightarrow> Cluster" where
  "ClusterDefaulter_Default kmc =
     (let sp = kmc_Spec kmc;
          sp1 = (if sp_Replicas sp = 0 then sp\<lparr>sp_Replicas := 1\<rparr> else sp);
          sp2 = (if sp_Version sp1 = [] then sp1\<lparr>sp_Version := DefaultK0SVersion\<rparr> else sp1);
          sp3 = (if svs_Type (sp_Service sp2) = []
                 then sp2\<lparr>sp_Service := \<lparr>svs_Type = ServiceTypeClusterIP, svs_APIPort = 30443, svs_KonnectivityPort = 30132\<rparr>\<rparr>
                 else sp2);
          sp4 = (if etcd_Image (sto_Etcd (sp_Storage sp3)) = []
                 then sp3\<lparr>sp_Storage := (sp_Storage sp3)\<lparr>sto_Etcd := (sto_Etcd (sp_Storage sp3))\<lparr>etcd_Image := DefaultEtcdImage\<rparr>\<rparr>\<rparr>
                 else sp3);
          sp5 = (case sp_Ingress sp4 of
                   Some i \<Rightarrow> if ing_Deploy i = None then sp4\<lparr>sp_Ingress := Some (i\<lparr>ing_Deploy := Some True\<rparr>)\<rparr> else sp4
                 | None \<Rightarrow> sp4)
      in kmc\<lparr>kmc_Spec := sp5\<rparr>)"

subsection \<open>Validation of hosted control planes\<close>

definition K0smotronValidator_ValidateCreate ::
  "ver_lib \<Rightarrow> (string \<Rightarrow> string) \<Rightarrow> K0smotronControlPlane option \<Rightarrow> admission" where
  "K0smotronValidator_ValidateCreate V q k =
     (case k of
        None \<Rightarrow> ([], Some (Errorf ''expected a K0smotronControlPlane object but got nil''))
      | Some kcp \<Rightarrow> ValidateClusterSpec V q (hcp_Spec kcp))"

definition version_skew :: "ver_lib \<Rightarrow> string \<Rightarrow> string \<Rightarrow> gerror option" where
  \<comment> \<open>the check of a changed version, both versions set\<close>
  "version_skew V oldVersion newVersion =
     (case ver_NewVersion V oldVersion of
        Some e \<Rightarrow> Some (Errorf (''failed to parse old version: '' @ error_text e))
      | None \<Rightarrow>
          (case ver_NewVersion V newVersion of
             Some e \<Rightarrow> Some (Errorf (''failed to parse new version: '' @ error_text e))
           | None \<Rightarrow>
               if ver_Minor V newVersion - ver_Minor V oldVersion > 1
               then Some (Errorf ''upgrading more than one minor version at a time is not allowed by the Kubernetes skew policy'')
               else None))"

definition K0smotronValidator_ValidateUpdate ::
  "ver_lib \<Rightarrow> (string \<Rightarrow> string) \<Rightarrow> K0smotronControlPlane option \<Rightarrow> K0smotronControlPlane option \<Rightarrow> admission" where
  "K0smotronValidator_ValidateUpdate V q old new =
     (case old of
        None \<Rightarrow> ([], Some (Errorf ''expected an old K0smotronControlPlane object but got nil''))
      | Some oldKcp \<Rightarrow>
     (case new of
        None \<Rightarrow> ([], Some (Errorf ''expected a new K0smotronControlPlane object but got nil''))
      | Some newKcp \<Rightarrow>
          (let oldV = sp_Version (hcp_Spec oldKcp); newV = sp_Version (hcp_Spec newKcp);
               specUpdate = (case ValidateClusterSpecUpdate V q (hcp_Spec oldKcp) (hcp_Spec newKcp) of
                 (_, Some e) \<Rightarrow> ([], Some e) | (w, None) \<Rightarrow> (w, None))
           in if oldV \<noteq> newV then
                (if oldV = [] \<or> newV = [] then ([], None)
                 else (case version_skew V oldV newV of Some e \<Rightarrow> ([], Some e) | None \<Rightarrow> specUpdate))
              else specUpdate)))"

subsection \<open>Names\<close>

lemma length_shortName: "length (shortName n) = min 63 (length n)"
  by (simp add: shortName_def kubeNameLengthLimit_def)

text \<open>
  The name of a generated object is as long as the pattern filled in, or 63 characters
  when that would be longer: it always fits the limit of Kubernetes, whatever the name of the cluster.
\<close>
theorem object_names_fit:
  "length (getObjectName kmc pattern) = min 63 (length (replace_first ''%s'' (kmc_Name kmc) pattern)) \<and>
   length (GetStatefulSetName kmc) = min 63 (4 + length (kmc_Name kmc))"
  by (simp add: getObjectName_def GetStatefulSetName_def GetStatefulSetName_of_def length_shortName)

lemma sprintf_here: "replace_first ''%s'' n (CHR ''%'' # CHR ''s'' # s) = n @ s"
  by (simp add: has_prefix_def)

lemma sprintf_kmc: "replace_first ''%s'' n (''kmc-%s'' @ s) = ''kmc-'' @ n @ s"
  by (simp add: has_prefix_def)

text \<open>
  A cluster and its neighbour whose name adds the suffix of a generated object
  compete for the same names: the stateful set of the control plane of \<open>c-etcd\<close> is the
  stateful set of etcd of \<open>c\<close>, and its service is the service of etcd of \<open>c\<close>.
\<close>
theorem names_of_neighbours_clash:
  "GetStatefulSetName (kmc\<lparr>kmc_Meta := (kmc_Meta kmc)\<lparr>om_Name := kmc_Name kmc @ ''-etcd''\<rparr>\<rparr>) = GetEtcdStatefulSetName kmc \<and>
   GetClusterIPServiceName (kmc\<lparr>kmc_Meta := (kmc_Meta kmc)\<lparr>om_Name := kmc_Name kmc @ ''-etcd''\<rparr>\<rparr>) = GetEtcdServiceName kmc"
  using sprintf_kmc [of _ "[]"] sprintf_kmc [of _ "''-etcd''"]
  by (simp add: GetStatefulSetName_def GetStatefulSetName_of_def GetEtcdStatefulSetName_def GetClusterIPServiceName_def
      GetEtcdServiceName_def getObjectName_def kmc_Name_def)

subsection \<open>Defaults\<close>

definition cluster_wf :: "Cluster \<Rightarrow> bool" where
  \<comment> \<open>what the cluster controller relies on\<close>
  "cluster_wf kmc \<longleftrightarrow>
     sp_Replicas (kmc_Spec kmc) \<noteq> 0 \<and> sp_Version (kmc_Spec kmc) \<noteq> [] \<and>
     svs_Type (sp_Service (kmc_Spec kmc)) \<in> {ServiceTypeNodePort, ServiceTypeLoadBalancer, ServiceTypeClusterIP} \<and>
     etcd_Image (sto_Etcd (sp_Storage (kmc_Spec kmc))) \<noteq> [] \<and>
     (case sp_Ingress (kmc_Spec kmc) of None \<Rightarrow> True | Some i \<Rightarrow> ing_Deploy i \<noteq> None)"

lemma default_constants: "DefaultK0SVersion \<noteq> []" "DefaultEtcdImage \<noteq> []"
    "ServiceTypeClusterIP \<noteq> []" "ServiceTypeNodePort \<noteq> []" "ServiceTypeLoadBalancer \<noteq> []"
  by (simp_all add: DefaultK0SVersion_def DefaultEtcdImage_def ServiceTypeClusterIP_def ServiceTypeNodePort_def
      ServiceTypeLoadBalancer_def)

lemma Default_on_wf:
  assumes wf: "cluster_wf kmc"
  shows "ClusterDefaulter_Default kmc = kmc"
proof -
  have "svs_Type (sp_Service (kmc_Spec kmc)) \<noteq> []"
    using wf default_constants(3-5) unfolding cluster_wf_def by fastforce
  moreover have "sp_Replicas (kmc_Spec kmc) \<noteq> 0" "sp_Version (kmc_Spec kmc) \<noteq> []"
      "etcd_Image (sto_Etcd (sp_Storage (kmc_Spec kmc))) \<noteq> []"
    using wf by (simp_all add: cluster_wf_def)
  moreover have "sp_Ingress (kmc_Spec kmc) = None \<or> (\<exists>i d. sp_Ingress (kmc_Spec kmc) = Some i \<and> ing_Deploy i = Some d)"
    using wf by (auto simp: cluster_wf_def split: option.splits)
  ultimately show ?thesis
    by (elim disjE exE conjE) (simp_all add: ClusterDefaulter_Default_def)
qed

lemma Default_fields:
  "sp_Replicas (kmc_Spec (ClusterDefaulter_Default kmc)) = (if sp_Replicas (kmc_Spec kmc) = 0 then 1 else sp_Replicas (kmc_Spec kmc))"
  "sp_Version (kmc_Spec (ClusterDefaulter_Default kmc)) = (if sp_Version (kmc_Spec kmc) = [] then DefaultK0SVersion else sp_Version (kmc_Spec kmc))"
  "svs_Type (sp_Service (kmc_Spec (ClusterDefaulter_Default kmc))) =
     (if svs_Type (sp_Service (kmc_Spec kmc)) = [] then ServiceTypeClusterIP else svs_Type (sp_Service (kmc_Spec kmc)))"
  "etcd_Image (sto_Etcd (sp_Storage (kmc_Spec (ClusterDefaulter_Default kmc)))) =
     (if etcd_Image (sto_Etcd (sp_Storage (kmc_Spec kmc))) = [] then DefaultEtcdImage else etcd_Image (sto_Etcd (sp_Storage (kmc_Spec kmc))))"
  "sp_Ingress (kmc_Spec (ClusterDefaulter_Default kmc)) =
     map_option (\<lambda>i. i\<lparr>ing_Deploy := Some (deref True (ing_Deploy i))\<rparr>) (sp_Ingress (kmc_Spec kmc))"
  by (cases "sp_Ingress (kmc_Spec kmc)"; simp add: ClusterDefaulter_Default_def Let_def deref_def split: option.split)+

lemma Default_wf:
  assumes "svs_Type (sp_Service (kmc_Spec kmc)) \<in> {[], ServiceTypeNodePort, ServiceTypeLoadBalancer, ServiceTypeClusterIP}"
  shows "cluster_wf (ClusterDefaulter_Default kmc)"
  using assms default_constants unfolding cluster_wf_def Default_fields
  by (auto split: option.splits)



subsection \<open>What the webhooks admit\<close>

definition spec_admissible :: "ver_lib \<Rightarrow> ClusterSpec \<Rightarrow> bool" where
  "spec_admissible V sp \<longleftrightarrow>
     (case sp_Ingress sp of
        None \<Rightarrow> True
      | Some _ \<Rightarrow> ver_NewVersion V (sp_Version sp) = None \<and>
          \<not> (ver_Minor V (sp_Version sp) = ver_Minor V ''v1.34.1+k0s.0'' \<and> core_less V (sp_Version sp) ''v1.34.1+k0s.0'')) \<and>
     (\<forall>p \<in> set (elems (sp_Patches sp)). valid_patch_type (pa_Type (cpa_Patch p)))"

definition etcd_upgrade_ok :: "ver_lib \<Rightarrow> string \<Rightarrow> string \<Rightarrow> bool" where
  "etcd_upgrade_ok V oldImage newImage \<longleftrightarrow>
     (case (imageVersion V oldImage, imageVersion V newImage) of
        (Some old, Some new) \<Rightarrow> ver_GreaterThanOrEqual V old new \<or> ver_Minor V new - ver_Minor V old \<le> 1
      | _ \<Rightarrow> True)"

definition spec_update_admissible :: "ver_lib \<Rightarrow> ClusterSpec \<Rightarrow> ClusterSpec \<Rightarrow> bool" where
  "spec_update_admissible V old new \<longleftrightarrow>
     (sto_Type (sp_Storage new) = ''nats'' \<longrightarrow> sp_Replicas old = sp_Replicas new) \<and>
     (sto_Type (sp_Storage new) \<in> {[], ''etcd''} \<and>
        etcd_Image (sto_Etcd (sp_Storage old)) \<noteq> etcd_Image (sto_Etcd (sp_Storage new)) \<longrightarrow>
        etcd_upgrade_ok V (etcd_Image (sto_Etcd (sp_Storage old))) (etcd_Image (sto_Etcd (sp_Storage new)))) \<and>
     spec_admissible V new"

lemma validate_patches_None: "validate_patches_from q i ps = None \<longleftrightarrow> (\<forall>p \<in> set ps. valid_patch_type (pa_Type (cpa_Patch p)))"
  by (induction ps arbitrary: i) auto

lemma IngressSpec_Validate_None: "snd (IngressSpec_Validate V i v) = None \<longleftrightarrow>
    ver_NewVersion V v = None \<and> \<not> (ver_Minor V v = ver_Minor V ''v1.34.1+k0s.0'' \<and> core_less V v ''v1.34.1+k0s.0'')"
  by (auto simp: IngressSpec_Validate_def ingressCompatibleVersions_def split: option.splits)

lemma ValidateClusterSpec_None: "snd (ValidateClusterSpec V q sp) = None \<longleftrightarrow> spec_admissible V sp"
proof (cases "sp_Ingress sp")
  case None
  then show ?thesis
    by (simp add: ValidateClusterSpec_def spec_admissible_def validatePatches_def validate_patches_None)
next
  case (Some i)
  with IngressSpec_Validate_None [of V i "sp_Version sp"] show ?thesis
    by (cases "IngressSpec_Validate V i (sp_Version sp)")
      (auto simp: ValidateClusterSpec_def spec_admissible_def validatePatches_def validate_patches_None split: option.splits)
qed

lemma validateEtcdVersionUpgrade_None: "snd (validateEtcdVersionUpgrade V q a b) = None \<longleftrightarrow> etcd_upgrade_ok V a b"
  by (auto simp: validateEtcdVersionUpgrade_def etcd_upgrade_ok_def Let_def split: option.splits)

lemma ValidateClusterSpecUpdate_None:
  "snd (ValidateClusterSpecUpdate V q old new) = None \<longleftrightarrow> spec_update_admissible V old new"
proof -
  define etcd where "etcd = validateEtcdVersionUpgrade V q (etcd_Image (sto_Etcd (sp_Storage old))) (etcd_Image (sto_Etcd (sp_Storage new)))"
  have "snd etcd = None \<longleftrightarrow> etcd_upgrade_ok V (etcd_Image (sto_Etcd (sp_Storage old))) (etcd_Image (sto_Etcd (sp_Storage new)))"
    unfolding etcd_def by (rule validateEtcdVersionUpgrade_None)
  then show ?thesis
    using ValidateClusterSpec_None [of V q new]
    unfolding ValidateClusterSpecUpdate_def spec_update_admissible_def etcd_def [symmetric] StorageTypeNATS_def StorageTypeEtcd_def
    by (cases etcd; cases "ValidateClusterSpec V q new") (auto split: option.splits)
qed


end
