(* ===== verification/Cluster_Scripts.thy ===== *)
theory Cluster_Scripts
  imports Prelude
begin

text \<open>
  The texts that the controller of k0smotron clusters puts into the objects it generates
  (\<open>internal/controller/k0smotron.io\<close>): the scripts that start k0s and etcd, the configuration of
  Prometheus and nginx, and the manifests k0s deploys into the workload cluster. A template of \<open>text/template\<close>
  is a function of its fields; a format string is a function of its arguments.
\<close>

subsection \<open>The entrypoint of k0s\<close>

definition universalSedInplace :: "string" where
  \<open>universalSedInplace =
     lines_of ['''',
               ''sedi() {'',
               ''    # Try GNU sed'',
               ''    if sed --version >/dev/null 2>&1; then'',
               ''        sed -i "$@"'',
               ''    else'',
               ''        # BSD sed (macOS) or BusyBox sed'',
               ''        sed -i '' @ [CHR 0x27, CHR 0x27] @ '' "$@"'',
               ''    fi'',
               ''}'']\<close>

definition kineDataSourceURLPlaceholder :: string where
  "kineDataSourceURLPlaceholder = ''__K0SMOTRON_KINE_DATASOURCE_URL_PLACEHOLDER__''"

definition natsTokenPlaceholder :: string where
  "natsTokenPlaceholder = ''__K0SMOTRON_NATS_TOKEN__''"

definition entrypointTemplate_head :: "string" where
  \<open>entrypointTemplate_head =
     lines_of ['''',
               ''#!/bin/sh'',
               '''',
               ''# Universal in-place "sedi" function for sed'']\<close>

definition entrypointTemplate_nats :: "string" where
  \<comment> \<open>from the line after the substitution of the data source to the one before that of the token\<close>
  \<open>entrypointTemplate_nats =
     lines_of ['''',
               ''# Generate NATS server config and substitute auth token (no-op for non-NATS clusters)'',
               ''if [ -n "$K0SMOTRON_NATS_TOKEN" ]; then'',
               ''  mkdir -p /etc/nats'',
               ''  {'',
               ''    echo "server_name: ${HOSTNAME}"'',
               ''    echo "listen: 127.0.0.1:4222"'',
               ''    echo "jetstream {"'',
               ''    echo "  store_dir: /nats-data"'',
               ''    echo "}"'',
               ''    if [ "${K0SMOTRON_NATS_REPLICAS:-1}" -gt 1 ]; then'',
               ''      ORDINAL="${HOSTNAME##*-}"'',
               ''      echo "cluster {"'',
               ''      echo "  name: ${K0SMOTRON_NATS_STS_NAME}"'',
               ''      echo "  listen: 0.0.0.0:6222"'',
               ''      echo "  authorization {"'',
               ''      echo "    user: nats"'',
               raw ''      printf `    password: "%s"^n` "$K0SMOTRON_NATS_TOKEN"'',
               ''      echo "  }"'',
               ''      echo "  routes: ["'',
               ''      i=0'',
               ''      while [ "$i" -lt "$K0SMOTRON_NATS_REPLICAS" ]; do'',
               ''        if [ "$i" != "$ORDINAL" ]; then'',
               raw ''          printf "    nats://nats:%s@%s-%d.%s.%s.svc:6222^n" ^'',
               raw ''            "$K0SMOTRON_NATS_TOKEN" "$K0SMOTRON_NATS_STS_NAME" "$i" ^'',
               ''            "$K0SMOTRON_NATS_SVC_NAME" "$POD_NAMESPACE"'',
               ''        fi'',
               ''        i=$((i + 1))'',
               ''      done'',
               ''      echo "  ]"'',
               ''      echo "}"'',
               ''    fi'',
               ''  } > /etc/nats/nats.conf'',
               raw ''  escaped_token=$(printf `%s` "$K0SMOTRON_NATS_TOKEN" | sed `s/[&/^]/^^&/g`)'']\<close>

definition entrypoint_script :: "string \<Rightarrow> string \<Rightarrow> string \<Rightarrow> bool \<Rightarrow> string" where
  \<comment> \<open>\<open>entrypointTmpl\<close> executed\<close>
  \<open>entrypoint_script kinePlaceholder natsPlaceholder controllerArgs privilegedPortIsUsed =
     entrypointTemplate_head @
     lines_of [universalSedInplace, '''',
       ''# Put the k0s.yaml in place'',
       ''mkdir -p /etc/k0s && echo "$K0SMOTRON_K0S_YAML" > /etc/k0s/k0s.yaml'',
       '''',
       ''# Substitute the kine datasource URL from the env var'',
       raw ''escaped_url=$(printf `%s` "$K0SMOTRON_KINE_DATASOURCE_URL" | sed `s/[&/^]/^^&/g`)'',
       ''sedi "s|'' @ kinePlaceholder @ ''|$escaped_url|g" /etc/k0s/k0s.yaml''] @
     entrypointTemplate_nats @
     lines_of [''  sedi "s|'' @ natsPlaceholder @ ''|$escaped_token|g" /etc/k0s/k0s.yaml'', ''fi'', ''''] @
     lines_of ((if privilegedPortIsUsed
                then ['''', ''apk add --no-cache libcap'',
                  ''{ while ! setcap 'cap_net_bind_service=+ep' /var/lib/k0s/bin/kube-apiserver; do sleep 1 ; done ; } &''] else []) @ ['''']) @
     lines_of ['''', ''# Run the k0s controller'',
       ''k0s controller '' @ controllerArgs]\<close>

subsection \<open>etcd\<close>

definition etcd_entrypoint_script :: "string list \<Rightarrow> string" where
  \<comment> \<open>\<open>etcdEntrypointScriptTmpl\<close> executed\<close>
  \<open>etcd_entrypoint_script args =
     lines_of ['''',
               '''',
               ''export ETCD_INITIAL_CLUSTER_STATE="new"'',
               ''if ['' @ ''[ -f /var/lib/k0s/etcd/existing ]'' @ '']; then'',
               ''  export ETCD_INITIAL_CLUSTER_STATE="existing"'',
               ''fi'',
               '''',
               raw ''etcd --name ${HOSTNAME} ^'',
               raw ''  --listen-peer-urls=https://0.0.0.0:2380 ^'',
               raw ''  --listen-client-urls=https://0.0.0.0:2379 ^'',
               raw ''  --advertise-client-urls=https://${HOSTNAME}.${SVC_NAME}:2379 ^'',
               raw ''  --initial-advertise-peer-urls=https://${HOSTNAME}.${SVC_NAME}:2380 ^'',
               raw ''  --client-cert-auth=true ^'',
               raw ''  --tls-min-version=TLS1.2 ^'',
               raw ''  --trusted-ca-file=/var/lib/k0s/pki/etcd/ca.crt ^'',
               raw ''  --cert-file=/var/lib/k0s/pki/etcd/server.crt ^'',
               raw ''  --key-file=/var/lib/k0s/pki/etcd/server.key ^'',
               raw ''  --peer-trusted-ca-file=/var/lib/k0s/pki/etcd/ca.crt ^'',
               raw ''  --peer-key-file=/var/lib/k0s/pki/etcd/peer.key ^'',
               raw ''  --peer-cert-file=/var/lib/k0s/pki/etcd/peer.crt ^'',
               raw ''  --peer-client-cert-auth=true ^'',
               raw ''  --enable-pprof=false ^'',
               raw ''  --auto-compaction-mode=periodic ^'',
               raw ''  --auto-compaction-retention=5m ^'',
               raw ''  --snapshot-count=10000 ^''] @
     lines_of (map (\<lambda>arg. ''  '' @ arg @ raw '' ^'') args) @ lines_of [''  --data-dir=/var/lib/k0s/etcd'']\<close>

definition initEntryScript :: "string" where
  \<open>initEntryScript =
     lines_of ['''',
               ''#!/bin/bash'',
               '''',
               ''set -eu'',
               '''',
               ''export ETCDCTL_ENDPOINTS=https://${SVC_NAME}:2379'',
               '''',
               ''if ['' @ ''[ ! -f /var/lib/k0s/etcd/member/snap/db ]'' @ '']; then'',
               ''  echo "Checking if cluster is functional"'',
               ''  if etcdctl member list; then'',
               ''    echo "Cluster is functional"'',
               raw ''~MEMBER_ID=$(etcdctl member list -w simple | grep "${HOSTNAME}" | awk -F, `{ print $1 }`)'',
               raw (''~if ['' @ ''[ -n "${MEMBER_ID}" ]'' @ '']; then''),
               raw ''~  echo "A member with this name (${HOSTNAME}) already exists, removing"'',
               raw ''~  etcdctl member remove "${MEMBER_ID}"'',
               ''      echo "Adding new member"'',
               raw ''~fi'',
               '''',
               ''    etcdctl member add ${HOSTNAME} --peer-urls https://${HOSTNAME}.${SVC_NAME}:2380'',
               ''    touch /var/lib/k0s/etcd/existing'',
               ''  else'',
               ''    echo "Could not list members, assuming this is the first member or the cluster is not up yet"'',
               ''  fi'',
               ''else'',
               ''  echo "Snapshot db exists, the member has data"'',
               ''fi'']\<close>

subsection \<open>Monitoring\<close>

definition prometheus_config :: "int \<Rightarrow> string \<Rightarrow> string \<Rightarrow> string" where
  \<comment> \<open>\<open>prometheusConfigTmpl\<close> executed\<close>
  \<open>prometheus_config apiPort clusterName etcdSvcName =
     lines_of ['''',
               ''global:'',
               ''  scrape_interval:     10s'',
               ''  evaluation_interval: 10s'',
               ''scrape_configs:'',
               ''  - job_name: "k0smotron_cluster_metrics"'',
               ''    scheme: https'',
               ''    tls_config:'',
               ''      insecure_skip_verify: true'',
               ''      cert_file: /var/lib/k0s/pki/admin.crt'',
               ''      key_file: /var/lib/k0s/pki/admin.key'',
               ''    static_configs:'',
               ''      - targets: ["localhost:'' @ show_int apiPort @ ''"]'',
               ''        labels:'',
               ''          component: kube-apiserver'',
               ''          k0smotron_cluster: "'' @ clusterName @ ''"'',
               ''      - targets: ["localhost:10259"]'',
               ''        labels:'',
               ''          component: kube-scheduler'',
               ''          k0smotron_cluster: "'' @ clusterName @ ''"'',
               ''      - targets: ["localhost:10257"]'',
               ''        labels:'',
               ''          component: kube-controller-manager'',
               ''          k0smotron_cluster: "'' @ clusterName @ ''"'',
               ''  - job_name: "k0smotron_etcd_metrics"'',
               ''    scheme: https'',
               ''    tls_config:'',
               ''      insecure_skip_verify: true'',
               ''      cert_file: /var/lib/k0s/pki/etcd-ca.crt'',
               ''      key_file: /var/lib/k0s/pki/etcd-ca.key'',
               ''    static_configs:'',
               ''      - targets: ["'' @ etcdSvcName @ '':2379"]'',
               ''        labels:'',
               ''          component: etcd'',
               ''          k0smotron_cluster: "'' @ clusterName @ ''"'']\<close>

definition nginxConf :: "string" where
  \<open>nginxConf =
     lines_of ['''',
               ''worker_processes  2;'',
               ''error_log  /dev/stdout warn;'',
               ''pid        /var/run/nginx.pid;'',
               '''',
               ''events {'',
               ''  worker_connections  4096;  ## Default: 1024'',
               ''}'',
               '''',
               ''http {'',
               ''   server {'',
               ''      access_log /dev/stdout;'',
               ''      listen 8090;'',
               ''      location /metrics {'',
               ''         set $lbr "{";'',
               ''         set $rbr "}";'',
               ''         set $q "'";'',
               ''         rewrite ^(.*)$ /federate?match[]=${lbr}job!=${q}${q}${rbr} break;'',
               ''         proxy_pass http://localhost:9090/;'',
               ''      }'',
               ''   }'',
               ''}'']\<close>

subsection \<open>Manifests for the workload cluster\<close>

definition endpoint_manifest :: "(string \<Rightarrow> string) \<Rightarrow> string \<Rightarrow> int \<Rightarrow> string" where
  \<comment> \<open>the first argument is the verb \<open>%q\<close>\<close>
  \<open>endpoint_manifest q host port =
     lines_of [''apiVersion: v1'',
               ''kind: ConfigMap'',
               ''metadata:'',
               ''  name: control-plane-endpoint'',
               ''  namespace: kube-system'',
               ''data:'',
               ''  apiServerHost: '' @ q host,
               ''  apiServerPort: '' @ q (show_int port)]\<close>

definition telemetry_manifest :: "string" where
  \<open>telemetry_manifest =
     lines_of ['''',
               ''apiVersion: v1'',
               ''kind: ConfigMap'',
               ''metadata:'',
               ''  name: k0s-telemetry'',
               ''  namespace: kube-system'',
               ''data:'',
               ''  provider: "k0smotron"'']\<close>

definition temp_kubernetes_ep :: "string" where
  \<open>temp_kubernetes_ep =
     join_with newline [''apiVersion: v1'',
               ''kind: Endpoints'',
               ''metadata:'',
               ''  name: kubernetes'',
               ''  namespace: default'',
               ''subsets:'',
               ''- addresses:'',
               ''  - ip: 1.2.3.4'',
               ''  ports:'',
               ''  - name: https'',
               ''    port: 7443'',
               ''    protocol: TCP'']\<close>

definition haproxy_configmap :: "string \<Rightarrow> int \<Rightarrow> string" where
  \<open>haproxy_configmap apiHost port =
     lines_of [''apiVersion: v1'',
               ''kind: ConfigMap'',
               ''metadata:'',
               ''  name: k0smotron-haproxy-config'',
               ''  namespace: default'',
               ''data:'',
               ''  haproxy.cfg: |'',
               ''    frontend kubeapi_front'',
               ''        bind [::]:7443 v4v6 ssl crt /etc/haproxy/certs/server.pem'',
               ''        mode tcp'',
               ''        default_backend kubeapi_back'',
               '''',
               ''    backend kubeapi_back'',
               ''        mode tcp'',
               ''        server kube_api '' @ apiHost @ '':'' @ show_int port @ '' ssl verify required ca-file /etc/haproxy/certs/ca.crt sni str('' @ apiHost @ '')'']\<close>

definition haproxy_ds :: "string" where
  \<open>haproxy_ds =
     lines_of [''apiVersion: apps/v1'',
               ''kind: DaemonSet'',
               ''metadata:'',
               ''  name: k0smotron-haproxy'',
               ''  namespace: default'',
               ''  labels:'',
               ''    app: k0smotron-haproxy'',
               ''spec:'',
               ''  selector:'',
               ''    matchLabels:'',
               ''      app: k0smotron-haproxy'',
               ''  template:'',
               ''    metadata:'',
               ''      labels:'',
               ''        app: k0smotron-haproxy'',
               ''    spec:'',
               ''      hostNetwork: true'',
               ''      tolerations:'',
               ''        - key: "node.kubernetes.io/not-ready"'',
               ''          operator: "Exists"'',
               ''          effect: "NoSchedule"'',
               ''        - key: "node.kubernetes.io/unreachable"'',
               ''          operator: "Exists"'',
               ''          effect: "NoSchedule"'',
               ''        - key: "node.cloudprovider.kubernetes.io/uninitialized"'',
               ''          operator: "Exists"'',
               ''          effect: "NoSchedule"'',
               ''      containers:'',
               ''        - name: haproxy'',
               ''          image: haproxy:2.8'',
               ''          args:'',
               ''            - -f'',
               ''            - /usr/local/etc/haproxy/haproxy.cfg'',
               ''          ports:'',
               ''            - containerPort: 7443'',
               ''              name: https'',
               ''          volumeMounts:'',
               ''            - name: haproxy-config'',
               ''              mountPath: /usr/local/etc/haproxy/haproxy.cfg'',
               ''              subPath: haproxy.cfg'',
               ''            - name: haproxy-certs'',
               ''              mountPath: /etc/haproxy/certs'',
               ''              readOnly: true'',
               ''      volumes:'',
               ''        - name: haproxy-config'',
               ''          configMap:'',
               ''            name: k0smotron-haproxy-config'',
               ''        - name: haproxy-certs'',
               ''          hostPath:'',
               ''            path: /etc/haproxy/certs'',
               ''            type: DirectoryOrCreate'']\<close>

definition kube_service :: "string \<Rightarrow> string" where
  \<open>kube_service serviceIP =
     join_with newline [''apiVersion: v1'',
               ''kind: Service'',
               ''metadata:'',
               ''  labels:'',
               ''    component: apiserver'',
               ''    provider: kubernetes'',
               ''  name: kubernetes'',
               ''  namespace: default'',
               ''spec:'',
               ''  clusterIP: '' @ serviceIP,
               ''  clusterIPs:'',
               ''  - '' @ serviceIP,
               ''  internalTrafficPolicy: Local'',
               ''  ipFamilies:'',
               ''  - IPv4'',
               ''  ipFamilyPolicy: SingleStack'',
               ''  ports:'',
               ''  - name: https'',
               ''    port: 443'',
               ''    protocol: TCP'',
               ''    targetPort: 7443'',
               ''  selector:'',
               ''    app: k0smotron-haproxy'',
               ''  sessionAffinity: None'',
               ''  type: ClusterIP'']\<close>

definition konnectivity_agent :: "string \<Rightarrow> string \<Rightarrow> string \<Rightarrow> int \<Rightarrow> string" where
  \<open>konnectivity_agent agentImage pullPolicy host port =
     join_with newline [''apiVersion: rbac.authorization.k8s.io/v1'',
               ''kind: ClusterRoleBinding'',
               ''metadata:'',
               ''  name: system:konnectivity-server'',
               ''  labels:'',
               ''    kubernetes.io/cluster-service: "true"'',
               ''roleRef:'',
               ''  apiGroup: rbac.authorization.k8s.io'',
               ''  kind: ClusterRole'',
               ''  name: system:auth-delegator'',
               ''subjects:'',
               ''  - apiGroup: rbac.authorization.k8s.io'',
               ''    kind: User'',
               ''    name: system:konnectivity-server'',
               ''---'',
               ''apiVersion: v1'',
               ''kind: ServiceAccount'',
               ''metadata:'',
               ''  name: konnectivity-agent'',
               ''  namespace: kube-system'',
               ''  labels:'',
               ''    kubernetes.io/cluster-service: "true"'',
               ''---'',
               ''apiVersion: apps/v1'',
               ''kind: DaemonSet'',
               ''metadata:'',
               ''  labels:'',
               ''    k8s-app: konnectivity-agent'',
               ''  namespace: kube-system'',
               ''  name: konnectivity-agent'',
               ''spec:'',
               ''  selector:'',
               ''    matchLabels:'',
               ''      k8s-app: konnectivity-agent'',
               ''  template:'',
               ''    metadata:'',
               ''      labels:'',
               ''        k8s-app: konnectivity-agent'',
               ''      annotations:'',
               ''        prometheus.io/scrape: 'true'' @ [CHR 0x27],
               ''        prometheus.io/port: '8093'' @ [CHR 0x27],
               ''    spec:'',
               ''      securityContext:'',
               ''        runAsNonRoot: true'',
               ''        supplementalGroups: [0]'',
               ''      nodeSelector:'',
               ''        kubernetes.io/os: linux'',
               ''      priorityClassName: system-cluster-critical'',
               ''      tolerations:'',
               ''        - operator: Exists'',
               ''      containers:'',
               ''        - image: '' @ agentImage,
               ''          imagePullPolicy: '' @ pullPolicy,
               ''          name: konnectivity-agent'',
               ''          command: ["/proxy-agent"]'',
               ''          env:'',
               ''              - name: NODE_IP'',
               ''                valueFrom:'',
               ''                  fieldRef:'',
               ''                    fieldPath: status.hostIP'',
               ''          args:'',
               ''            - --logtostderr=true'',
               ''            - --ca-cert=/var/run/secrets/kubernetes.io/serviceaccount/ca.crt'',
               ''            - --proxy-server-host='' @ host,
               ''            - --proxy-server-port='' @ show_int port,
               ''            - --service-account-token-path=/var/run/secrets/tokens/konnectivity-agent-token'',
               ''            - --agent-identifiers=host=$(NODE_IP)'',
               ''            - --agent-id=$(NODE_IP)'',
               ''          volumeMounts:'',
               ''            - mountPath: /var/run/secrets/tokens'',
               ''              name: konnectivity-agent-token'',
               ''          livenessProbe:'',
               ''            httpGet:'',
               ''              port: 8093'',
               ''              path: /healthz'',
               ''            initialDelaySeconds: 15'',
               ''            timeoutSeconds: 15'',
               ''          readinessProbe:'',
               ''            httpGet:'',
               ''              port: 8093'',
               ''              path: /readyz'',
               ''            initialDelaySeconds: 15'',
               ''            timeoutSeconds: 15'',
               ''      serviceAccountName: konnectivity-agent'',
               ''      volumes:'',
               ''        - name: konnectivity-agent-token'',
               ''          projected:'',
               ''            sources:'',
               ''              - serviceAccountToken:'',
               ''                  path: konnectivity-agent-token'',
               ''                  audience: system:konnectivity-server'']\<close>

end
