(* ===== verification/Cluster_Objects.thy ===== *)
theory Cluster_Objects
  imports Cluster_API Cluster_Scripts
begin

text \<open>
  The Kubernetes objects of a hosted control plane, as functions of the \<open>Cluster\<close> they are generated
  for: the generators of \<open>internal/controller/k0smotron.io\<close>, with the labels, annotations, owners
  and user-defined patches of \<open>internal/controller/util\<close>. The types are the fields the source sets of the
  Kubernetes types.

  Go's \<open>AnnotationsForK0smotronCluster\<close> returns the map of the \<open>Cluster\<close> itself, after writing to it, so
  a generator that calls it, or changes what it returned, changes the \<open>Cluster\<close>: such a generator returns the
  changed \<open>Cluster\<close> with its object. What the client writes into an applied object from the answer of the server
  is not modelled.

  The theorems: which pods the service of the control plane selects, which volumes exist for the
  mounts of a pod, the names of volumes for mounted paths, and what a patch may touch.
\<close>

subsection \<open>Objects\<close>

record external_owner =
  eo_Name :: string
  eo_UID :: string

record obj_meta =
  ob_Name :: string
  ob_Namespace :: string
  ob_Labels :: strmap
  ob_Annotations :: strmap
  ob_OwnerReferences :: "ownerref list"

record service_port =
  sep_Name :: string
  sep_Port :: int
  sep_TargetPort :: int
  sep_NodePort :: int

record service_spec =
  ses_Type :: string
  ses_ClusterIP :: string
  ses_Selector :: strmap
  ses_Ports :: "service_port list"
  ses_PublishNotReadyAddresses :: bool
  ses_ExternalTrafficPolicy :: string
  ses_LoadBalancerClass :: "string option"

record volume_mount =
  vm_Name :: string
  vm_MountPath :: string
  vm_SubPath :: string
  vm_ReadOnly :: bool

datatype env_value =
    EnvValue string
  | EnvSecretKey string string \<comment> \<open>\<open>SecretKeyRef\<close>: the name and the key\<close>
  | EnvField string \<comment> \<open>\<open>FieldRef\<close>: the path\<close>

datatype env_source = EnvConfigMap string | EnvSecret string

record probe =
  pro_InitialDelaySeconds :: int
  pro_PeriodSeconds :: int
  pro_FailureThreshold :: int
  pro_Command :: "string list"

record container =
  ct_Name :: string
  ct_Image :: string
  ct_ImagePullPolicy :: string
  ct_Command :: "string list"
  ct_Args :: "string list"
  ct_Env :: "(string \<times> env_value) list"
  ct_EnvFrom :: "env_source list"
  ct_Ports :: "(string \<times> int) list" \<comment> \<open>all of them TCP\<close>
  ct_Resources :: json
  ct_VolumeMounts :: "volume_mount list"
  ct_ReadinessProbe :: "probe option"
  ct_LivenessProbe :: "probe option"

record pod_spec =
  po_AutomountServiceAccountToken :: "bool option"
  po_AntiAffinity :: "(int \<times> string \<times> strmap) list" \<comment> \<open>preferred: weight, topology key, labels\<close>
  po_Volumes :: "volume list"
  po_InitContainers :: "container list"
  po_Containers :: "container list"
  po_ServiceAccountName :: string
  po_TopologySpreadConstraints :: "topology_spread slice"
  po_FSGroup :: "int option"
  po_RestartPolicy :: string

record pod_template =
  te_Labels :: strmap
  te_Annotations :: strmap
  te_Spec :: pod_spec

record stateful_set_spec =
  ss_ServiceName :: string
  ss_Selector :: strmap
  ss_Replicas :: "32 word"
  ss_PodManagementPolicy :: string
  ss_Template :: pod_template
  ss_VolumeClaimTemplates :: "PersistentVolumeClaim list"
  ss_WhenDeleted :: "string option" \<comment> \<open>of the retention policy\<close>

record stateful_set =
  sts_Meta :: obj_meta
  sts_Spec :: stateful_set_spec
  sts_Replicas :: "32 word" \<comment> \<open>of the status, as the next three\<close>
  sts_ReadyReplicas :: "32 word"
  sts_UpdatedReplicas :: "32 word"
  sts_CollisionCount :: "32 word option"

record cron_job_spec =
  cj_Schedule :: string
  cj_ConcurrencyPolicy :: string
  cj_Template :: pod_template

record ingress_spec =
  ig_ClassName :: "string option"
  ig_Rules :: "(string \<times> string \<times> int) list" \<comment> \<open>host, service and port of the path prefix \<open>/\<close>\<close>

datatype kobject =
    KConfigMap obj_meta strmap
  | KSecret obj_meta strmap
  | KService obj_meta service_spec
  | KStatefulSet obj_meta stateful_set_spec
  | KCronJob obj_meta cron_job_spec
  | KIngress obj_meta ingress_spec

primrec obj_Meta :: "kobject \<Rightarrow> obj_meta" where
  "obj_Meta (KConfigMap m d) = m"
| "obj_Meta (KSecret m d) = m"
| "obj_Meta (KService m s) = m"
| "obj_Meta (KStatefulSet m s) = m"
| "obj_Meta (KCronJob m s) = m"
| "obj_Meta (KIngress m s) = m"

primrec with_Meta :: "(obj_meta \<Rightarrow> obj_meta) \<Rightarrow> kobject \<Rightarrow> kobject" where
  "with_Meta f (KConfigMap m d) = KConfigMap (f m) d"
| "with_Meta f (KSecret m d) = KSecret (f m) d"
| "with_Meta f (KService m s) = KService (f m) s"
| "with_Meta f (KStatefulSet m s) = KStatefulSet (f m) s"
| "with_Meta f (KCronJob m s) = KCronJob (f m) s"
| "with_Meta f (KIngress m s) = KIngress (f m) s"

definition plain_container :: "string \<Rightarrow> string \<Rightarrow> container" where
  \<comment> \<open>a composite literal with a name and an image only\<close>
  "plain_container name img = \<lparr>ct_Name = name, ct_Image = img, ct_ImagePullPolicy = [], ct_Command = [], ct_Args = [],
     ct_Env = [], ct_EnvFrom = [], ct_Ports = [], ct_Resources = JObj [], ct_VolumeMounts = [],
     ct_ReadinessProbe = None, ct_LivenessProbe = None\<rparr>"

definition mount_at :: "string \<Rightarrow> string \<Rightarrow> volume_mount" where
  "mount_at name path = \<lparr>vm_Name = name, vm_MountPath = path, vm_SubPath = [], vm_ReadOnly = False\<rparr>"

definition mount_sub :: "string \<Rightarrow> string \<Rightarrow> string \<Rightarrow> volume_mount" where
  "mount_sub name path sub = \<lparr>vm_Name = name, vm_MountPath = path, vm_SubPath = sub, vm_ReadOnly = False\<rparr>"

definition mount_ro :: "string \<Rightarrow> string \<Rightarrow> volume_mount" where
  "mount_ro name path = \<lparr>vm_Name = name, vm_MountPath = path, vm_SubPath = [], vm_ReadOnly = True\<rparr>"

definition int32 :: "int \<Rightarrow> int" where
  \<comment> \<open>the conversion \<open>int32(x)\<close>\<close>
  "int32 x = sint (word_of_int x :: 32 word)"

definition key_to_path :: "string \<times> string \<Rightarrow> json" where
  "key_to_path kp = JObj [(''key'', JStr (fst kp)), (''path'', JStr (snd kp))]"

definition projected_secrets :: "(string \<times> (string \<times> string) list) list \<Rightarrow> volume_source" where
  \<comment> \<open>\<open>ProjectedVolumeSource\<close> of secrets: the name of each, and its keys with their paths\<close>
  "projected_secrets ps = OtherSource (JObj [(''projected'', JObj [(''sources'', JArr (map (\<lambda>p.
     JObj [(''secret'', JObj [(''name'', JStr (fst p)), (''items'', JArr (map key_to_path (snd p)))])]) ps))])])"

definition configmap_items :: "string \<Rightarrow> (string \<times> string) list \<Rightarrow> volume_source" where
  \<comment> \<open>\<open>ConfigMapVolumeSource\<close> with items and the mode \<open>entrypointDefaultMode\<close>\<close>
  "configmap_items name items = ConfigMapSource name
     (JObj [(''defaultMode'', JInt 484), (''items'', JArr (map key_to_path items))])"

definition configmap_volume :: "string \<Rightarrow> volume" where
  \<comment> \<open>a volume named as the config map it holds\<close>
  "configmap_volume name = \<lparr>vol_Name = name, vol_Source = ConfigMapSource name (JObj [])\<rparr>"

definition secret_name :: "string \<Rightarrow> string \<Rightarrow> string" where
  \<comment> \<open>\<open>secret.Name(cluster, purpose)\<close> of Cluster API\<close>
  "secret_name cluster purpose = cluster @ ''-'' @ purpose"

subsection \<open>Third-party functions\<close>

record obj_lib =
  ol_q :: "string \<Rightarrow> string" \<comment> \<open>the verb \<open>%q\<close> of \<open>fmt\<close>\<close>
  ol_UnmarshalString :: "string \<Rightarrow> gerror + string"
  ol_UnmarshalMap :: "string \<Rightarrow> gerror + strmap"
  ol_IsZero :: "quantity \<Rightarrow> bool"
  ol_Cmp :: "quantity \<Rightarrow> quantity \<Rightarrow> int"
  ol_IsDNS1123Label :: "string \<Rightarrow> bool" \<comment> \<open>\<open>len(validation.IsDNS1123Label(s)) == 0\<close>\<close>
  ol_ObjectKinds :: "kobject \<Rightarrow> gerror + string list"
  ol_Marshal :: "kobject \<Rightarrow> gerror + string"
  ol_YAMLToJSON :: "string \<Rightarrow> gerror + string"
  ol_DecodePatch :: "string \<Rightarrow> gerror option"
  ol_ApplyJSON :: "string \<Rightarrow> string \<Rightarrow> gerror + string" \<comment> \<open>a decoded patch, by its text, on a document\<close>
  ol_New :: "string \<Rightarrow> gerror option" \<comment> \<open>the error of \<open>scheme.New\<close>\<close>
  ol_StrategicMerge :: "string \<Rightarrow> string \<Rightarrow> string \<Rightarrow> gerror + string" \<comment> \<open>of a kind\<close>
  ol_Merge :: "string \<Rightarrow> string \<Rightarrow> gerror + string"
  ol_Unmarshal :: "string \<Rightarrow> string \<Rightarrow> gerror + kobject" \<comment> \<open>into a fresh object of a kind\<close>

subsection \<open>User-defined patches\<close>

definition ComponentLabel :: string where "ComponentLabel = ''app.kubernetes.io/component''"

definition applyJSONPatch :: "obj_lib \<Rightarrow> string \<Rightarrow> string \<Rightarrow> gerror + string" where
  "applyJSONPatch L original patchData =
     (case ol_DecodePatch L patchData of
        Some e \<Rightarrow> Inl (Wrapf ''decode json patch'' e)
      | None \<Rightarrow> ol_ApplyJSON L patchData original)"

definition applyStrategicMergePatch :: "obj_lib \<Rightarrow> string \<Rightarrow> string \<Rightarrow> string \<Rightarrow> gerror + string" where
  "applyStrategicMergePatch L kind original patchData =
     (case ol_New L kind of
        Some e \<Rightarrow> Inl (Wrapf ''create empty struct for strategic merge'' e)
      | None \<Rightarrow> ol_StrategicMerge L kind original patchData)"

definition apply_patch :: "obj_lib \<Rightarrow> string \<Rightarrow> nat \<Rightarrow> ComponentPatch \<Rightarrow> string \<Rightarrow> gerror + string" where
  \<comment> \<open>the body of the loop for a patch of the right target\<close>
  "apply_patch L kind i p cur =
     (let ty = pa_Type (cpa_Patch p);
          wrap = (\<lambda>r. case r of Inr d \<Rightarrow> Inr d
                  | Inl e \<Rightarrow> Inl (Wrapf (''apply patch at index '' @ show_nat i @ '' (type='' @ ty @ '', resourceType='' @
                      pt_Kind (cpa_Target p) @ '', component='' @ pt_Component (cpa_Target p) @ '')'') e))
      in case ol_YAMLToJSON L (pa_Content (cpa_Patch p)) of
           Inl e \<Rightarrow> Inl (Wrapf (''convert patch at index '' @ show_nat i @ '' to JSON'') e)
         | Inr patchJSON \<Rightarrow>
             if ty = JSONPatchType then wrap (applyJSONPatch L cur patchJSON)
             else if ty = StrategicMergePatchType then wrap (applyStrategicMergePatch L kind cur patchJSON)
             else if ty = MergePatchType then wrap (ol_Merge L cur patchJSON)
             else Inl (Errorf (''unknown patch type '' @ ol_q L ty @ '' for patch at index '' @ show_nat i)))"

fun apply_patches :: "obj_lib \<Rightarrow> string \<Rightarrow> string \<Rightarrow> nat \<Rightarrow> bool \<Rightarrow> string \<Rightarrow> ComponentPatch list \<Rightarrow> gerror + bool \<times> string" where
  \<comment> \<open>the loop: whether a patch was applied, and the document\<close>
  "apply_patches L kind component i applied cur [] = Inr (applied, cur)"
| "apply_patches L kind component i applied cur (p # ps) =
     (if pt_Kind (cpa_Target p) \<noteq> kind \<or> pt_Component (cpa_Target p) \<noteq> component
      then apply_patches L kind component (Suc i) applied cur ps
      else (case apply_patch L kind i p cur of
              Inl e \<Rightarrow> Inl e
            | Inr cur' \<Rightarrow> apply_patches L kind component (Suc i) True cur' ps))"

definition ApplyComponentPatches :: "obj_lib \<Rightarrow> kobject \<Rightarrow> ComponentPatch slice \<Rightarrow> gerror + kobject" where
  \<comment> \<open>the object as the code leaves it behind its pointer\<close>
  "ApplyComponentPatches L obj patches =
     (if elems patches = [] then Inr obj
      else (case ol_ObjectKinds L obj of
        Inl e \<Rightarrow> Inl (Wrapf ''could not get GVK for object'' e)
      | Inr [] \<Rightarrow> Inl (Errorf ''no GVK registered for object type'')
      | Inr (kind # _) \<Rightarrow>
          (case ol_Marshal L obj of
             Inl e \<Rightarrow> Inl (Wrapf ''marshal object for patching'' e)
           | Inr doc \<Rightarrow>
               (case apply_patches L kind (map_get (ob_Labels (obj_Meta obj)) ComponentLabel) 0 False doc (elems patches) of
                  Inl e \<Rightarrow> Inl e
                | Inr (False, _) \<Rightarrow> Inr obj
                | Inr (True, doc') \<Rightarrow>
                    (case ol_New L kind of
                       Some e \<Rightarrow> Inl (Wrapf ''create new object for unmarshal'' e)
                     | None \<Rightarrow>
                         (case ol_Unmarshal L kind doc' of
                            Inl e \<Rightarrow> Inl (Wrapf ''unmarshal patched object'' e)
                          | Inr obj' \<Rightarrow> Inr obj'))))))"

subsection \<open>Labels, annotations and owners\<close>

definition ComponentClusterConfig :: string where "ComponentClusterConfig = ''cluster-config''"
definition ComponentControlPlane :: string where "ComponentControlPlane = ''control-plane''"
definition ComponentEntrypoint :: string where "ComponentEntrypoint = ''entrypoint''"
definition ComponentEtcd :: string where "ComponentEtcd = ''etcd''"
definition ComponentIngress :: string where "ComponentIngress = ''ingress''"
definition ComponentKubeconfig :: string where "ComponentKubeconfig = ''kubeconfig''"
definition ComponentMonitoring :: string where "ComponentMonitoring = ''monitoring''"
definition ComponentTelemetry :: string where "ComponentTelemetry = ''telemetry''"

definition DefaultK0smotronClusterLabels :: "Cluster \<Rightarrow> strmap" where
  "DefaultK0smotronClusterLabels kmc = [''app'' \<mapsto> ''k0smotron'', ''cluster'' \<mapsto> kmc_Name kmc]"

definition LabelsForK0smotronCluster :: "Cluster \<Rightarrow> strmap" where
  "LabelsForK0smotronCluster kmc =
     (DefaultK0smotronClusterLabels kmc ++ om_Labels (kmc_Meta kmc) ++ smd_Labels (sp_KubeconfigSecretMetadata (kmc_Spec kmc)))
       (''component'' \<mapsto> ''cluster'')"

definition LabelsForK0smotronComponent :: "Cluster \<Rightarrow> string \<Rightarrow> strmap" where
  "LabelsForK0smotronComponent kmc component = (LabelsForK0smotronCluster kmc)(ComponentLabel \<mapsto> component)"

definition LabelsForK0smotronControlPlane :: "Cluster \<Rightarrow> strmap" where
  "LabelsForK0smotronControlPlane kmc = (LabelsForK0smotronCluster kmc)(''cluster.x-k8s.io/control-plane'' \<mapsto> ''true'')"

definition LabelsForEtcdK0smotronCluster :: "Cluster \<Rightarrow> strmap" where
  "LabelsForEtcdK0smotronCluster kmc = (LabelsForK0smotronCluster kmc)(''component'' \<mapsto> ''etcd'')"

definition kmc_annotations :: "Cluster \<Rightarrow> strmap" where
  "kmc_annotations kmc = om_Annotations (kmc_Meta kmc)"

definition set_kmc_annotations :: "strmap \<Rightarrow> Cluster \<Rightarrow> Cluster" where
  "set_kmc_annotations a kmc = kmc\<lparr>kmc_Meta := (kmc_Meta kmc)\<lparr>om_Annotations := a\<rparr>\<rparr>"

definition AnnotationsForK0smotronCluster :: "Cluster \<Rightarrow> Cluster" where
  \<comment> \<open>the cluster with the annotations of its kubeconfig metadata; the map returned is the cluster's\<close>
  "AnnotationsForK0smotronCluster kmc =
     set_kmc_annotations (kmc_annotations kmc ++ smd_Annotations (sp_KubeconfigSecretMetadata (kmc_Spec kmc))) kmc"

definition GetExternalControllerRef :: "external_owner \<Rightarrow> ownerref" where
  "GetExternalControllerRef eo = \<lparr>o_APIVersion = ''v1'', o_Kind = ''ConfigMap'', o_Name = eo_Name eo, o_UID = eo_UID eo\<rparr>"

definition kmc_controller_ref :: "Cluster \<Rightarrow> ownerref" where
  "kmc_controller_ref kmc = \<lparr>o_APIVersion = ''k0smotron.io/v1beta2'', o_Kind = ''Cluster'', o_Name = kmc_Name kmc,
     o_UID = om_UID (kmc_Meta kmc)\<rparr>"

definition owner_of :: "Cluster \<Rightarrow> external_owner option \<Rightarrow> ownerref" where
  "owner_of kmc ext = (case ext of Some eo \<Rightarrow> GetExternalControllerRef eo | None \<Rightarrow> kmc_controller_ref kmc)"

definition SetExternalOwnerReference :: "Cluster \<Rightarrow> external_owner option \<Rightarrow> kobject \<Rightarrow> kobject" where
  "SetExternalOwnerReference kmc ext = with_Meta (\<lambda>m. m\<lparr>ob_OwnerReferences := [owner_of kmc ext]\<rparr>)"

definition kmc_object_meta :: "Cluster \<Rightarrow> string \<Rightarrow> strmap \<Rightarrow> obj_meta" where
  \<comment> \<open>in the namespace of the cluster, with its annotations\<close>
  "kmc_object_meta kmc name labels = \<lparr>ob_Name = name, ob_Namespace = om_Namespace (kmc_Meta kmc), ob_Labels = labels,
     ob_Annotations = kmc_annotations kmc, ob_OwnerReferences = []\<rparr>"

subsection \<open>The service of the control plane\<close>

definition ServiceAnnotationLabels :: string where
  "ServiceAnnotationLabels = ''k0smotron.io/conversion-dropped-service.labels''"
definition ServiceAnnotationAnnotations :: string where
  "ServiceAnnotationAnnotations = ''k0smotron.io/conversion-dropped-service.annotations''"
definition ServiceAnnotationExternalTrafficPolicy :: string where
  "ServiceAnnotationExternalTrafficPolicy = ''k0smotron.io/conversion-dropped-service.externalTrafficPolicy''"
definition ServiceAnnotationLoadBalancerClass :: string where
  "ServiceAnnotationLoadBalancerClass = ''k0smotron.io/conversion-dropped-service.loadBalancerClass''"

definition getStringAnnotation :: "obj_lib \<Rightarrow> strmap \<Rightarrow> string \<Rightarrow> string" where
  "getStringAnnotation L annotations key =
     (case annotations key of
        None \<Rightarrow> []
      | Some val \<Rightarrow> if val = [] then [] else (case ol_UnmarshalString L val of Inl _ \<Rightarrow> [] | Inr s \<Rightarrow> s))"

definition getMapAnnotation :: "obj_lib \<Rightarrow> strmap \<Rightarrow> string \<Rightarrow> strmap option" where
  \<comment> \<open>\<open>None\<close> is the nil map\<close>
  "getMapAnnotation L annotations key =
     (case annotations key of
        None \<Rightarrow> None
      | Some val \<Rightarrow> if val = [] then None else (case ol_UnmarshalMap L val of Inl _ \<Rightarrow> None | Inr m \<Rightarrow> Some m))"

definition GetServiceLabels :: "obj_lib \<Rightarrow> strmap \<Rightarrow> strmap option" where
  "GetServiceLabels L annotations = getMapAnnotation L annotations ServiceAnnotationLabels"

definition GetServiceAnnotations :: "obj_lib \<Rightarrow> strmap \<Rightarrow> strmap option" where
  "GetServiceAnnotations L annotations = getMapAnnotation L annotations ServiceAnnotationAnnotations"

definition GetServiceExternalTrafficPolicy :: "obj_lib \<Rightarrow> strmap \<Rightarrow> string" where
  "GetServiceExternalTrafficPolicy L annotations = getStringAnnotation L annotations ServiceAnnotationExternalTrafficPolicy"

definition GetServiceLoadBalancerClass :: "obj_lib \<Rightarrow> strmap \<Rightarrow> string option" where
  "GetServiceLoadBalancerClass L annotations =
     (let s = getStringAnnotation L annotations ServiceAnnotationLoadBalancerClass in if s = [] then None else Some s)"

definition copied :: "strmap option \<Rightarrow> strmap" where
  \<comment> \<open>what \<open>maps.Copy\<close> copies from a map that may be nil\<close>
  "copied m = (case m of None \<Rightarrow> Map.empty | Some x \<Rightarrow> x)"

definition service_ports :: "bool \<Rightarrow> ServiceSpec \<Rightarrow> service_port list" where
  \<comment> \<open>with the node ports fixed or not\<close>
  "service_ports nodePorts sv = map (\<lambda>(name, port).
     \<lparr>sep_Name = name, sep_Port = int32 port, sep_TargetPort = int32 port, sep_NodePort = (if nodePorts then int32 port else 0)\<rparr>)
     [(''api'', svs_APIPort sv), (''konnectivity'', svs_KonnectivityPort sv)]"

definition default_service_type :: "Cluster \<Rightarrow> Cluster" where
  \<comment> \<open>any other type than the two becomes \<open>ClusterIP\<close>\<close>
  "default_service_type kmc =
     (let sv = sp_Service (kmc_Spec kmc) in
      if svs_Type sv = ServiceTypeNodePort \<or> svs_Type sv = ServiceTypeLoadBalancer then kmc
      else kmc\<lparr>kmc_Spec := (kmc_Spec kmc)\<lparr>sp_Service := sv\<lparr>svs_Type := ServiceTypeClusterIP\<rparr>\<rparr>\<rparr>)"

definition generateService :: "obj_lib \<Rightarrow> Cluster \<Rightarrow> Cluster \<times> kobject" where
  "generateService L kmc0 =
     (let kmc = default_service_type kmc0;
          ty = svs_Type (sp_Service (kmc_Spec kmc));
          name = (if ty = ServiceTypeNodePort then GetNodePortServiceName kmc
                  else if ty = ServiceTypeLoadBalancer then GetLoadBalancerServiceName kmc
                  else GetClusterIPServiceName kmc);
          labels = LabelsForK0smotronComponent kmc ComponentControlPlane ++ copied (GetServiceLabels L (kmc_annotations kmc));
          kmc' = AnnotationsForK0smotronCluster kmc;
          annotations = kmc_annotations kmc' ++ copied (GetServiceAnnotations L (kmc_annotations kmc'))
      in (kmc', KService ((kmc_object_meta kmc' name labels)\<lparr>ob_Annotations := annotations\<rparr>)
           \<lparr>ses_Type = ty, ses_ClusterIP = [], ses_Selector = LabelsForK0smotronCluster kmc',
            ses_Ports = service_ports (ty = ServiceTypeNodePort) (sp_Service (kmc_Spec kmc')),
            ses_PublishNotReadyAddresses = False,
            ses_ExternalTrafficPolicy = GetServiceExternalTrafficPolicy L (kmc_annotations kmc'),
            ses_LoadBalancerClass = (if ty = ServiceTypeLoadBalancer
              then GetServiceLoadBalancerClass L (kmc_annotations kmc') else None)\<rparr>))"

definition kmc_config_map :: "Cluster \<Rightarrow> string \<Rightarrow> string \<Rightarrow> strmap \<Rightarrow> Cluster \<times> kobject" where
  \<comment> \<open>the shape all generated config maps have: the name, the component and the data\<close>
  "kmc_config_map kmc name component data =
     (let kmc' = AnnotationsForK0smotronCluster kmc in
      (kmc', KConfigMap (kmc_object_meta kmc' name (LabelsForK0smotronComponent kmc' component)) data))"

definition generateEndpointConfigMap :: "obj_lib \<Rightarrow> Cluster \<Rightarrow> Cluster \<times> kobject" where
  "generateEndpointConfigMap L kmc =
     kmc_config_map kmc (GetEndpointConfigMapName kmc) ComponentControlPlane
       [''endpoint.yaml'' \<mapsto> endpoint_manifest (ol_q L) (sp_ExternalAddress (kmc_Spec kmc)) (svs_APIPort (sp_Service (kmc_Spec kmc)))]"

definition headless_service :: "(string \<times> int) list \<Rightarrow> strmap \<Rightarrow> service_spec" where
  "headless_service ports selector =
     \<lparr>ses_Type = ServiceTypeClusterIP, ses_ClusterIP = ''None'', ses_Selector = selector,
      ses_Ports = map (\<lambda>(n, p). \<lparr>sep_Name = n, sep_Port = p, sep_TargetPort = p, sep_NodePort = 0\<rparr>) ports,
      ses_PublishNotReadyAddresses = True, ses_ExternalTrafficPolicy = [], ses_LoadBalancerClass = None\<rparr>"

subsection \<open>Entrypoint and monitoring\<close>

definition getControllerFlags :: "Cluster \<Rightarrow> string" where
  "getControllerFlags kmc =
     (let given = elems (sp_ControlPlaneFlags (kmc_Spec kmc));
          overrideConfig = list_ex (\<lambda>arg. has_prefix ''--config='' arg \<or> arg = ''--config'') given;
          overrideDynamicCfg = list_ex (\<lambda>arg. has_prefix ''--enable-dynamic-config='' arg \<or> arg = ''--enable-dynamic-config'') given
      in join_with '' '' (given @
           (if overrideConfig then [] else [''--config=/etc/k0s/k0s.yaml'']) @
           (if overrideDynamicCfg then [] else [''--enable-dynamic-config'']) @
           (if sp_Ingress (kmc_Spec kmc) \<noteq> None then [''--disable-components=endpoint-reconciler''] else [])))"

definition generateEntrypointCM :: "external_owner option \<Rightarrow> Cluster \<Rightarrow> Cluster \<times> kobject" where
  "generateEntrypointCM ext kmc =
     (case kmc_config_map kmc (GetEntrypointConfigMapName kmc) ComponentEntrypoint
        [''k0smotron-entrypoint.sh'' \<mapsto> entrypoint_script kineDataSourceURLPlaceholder natsTokenPlaceholder (getControllerFlags kmc)
           (svs_APIPort (sp_Service (kmc_Spec kmc)) \<le> 1024)] of
      (kmc', cm) \<Rightarrow> (kmc', SetExternalOwnerReference kmc' ext cm))"

definition generateMonitoringCM :: "external_owner option \<Rightarrow> Cluster \<Rightarrow> Cluster \<times> kobject" where
  "generateMonitoringCM ext kmc =
     (case kmc_config_map kmc (GetMonitoringConfigMapName kmc) ComponentMonitoring
        [''prometheus.yml'' \<mapsto> prometheus_config (svs_APIPort (sp_Service (kmc_Spec kmc))) (kmc_Name kmc) (GetEtcdServiceName kmc),
         ''nginx.conf'' \<mapsto> nginxConf] of
      (kmc', cm) \<Rightarrow> (kmc', SetExternalOwnerReference kmc' ext cm))"

subsection \<open>The configuration of k0s\<close>

definition natsServerConfigPath :: string where "natsServerConfigPath = ''/etc/nats/nats.conf''"
definition natsStoreDir :: string where "natsStoreDir = ''/nats-data''"

definition natsDataSourceURL :: "Cluster \<Rightarrow> string" where
  "natsDataSourceURL kmc =
     (let n = sint (sp_Replicas (kmc_Spec kmc)) in
      if n \<le> 1 then ''nats://?serverConfig='' @ natsServerConfigPath
      else ''nats://?serverConfig='' @ natsServerConfigPath @ ''&replicas='' @ show_int n)"

definition JoinHostPort :: "string \<Rightarrow> string \<Rightarrow> string" where
  \<comment> \<open>\<open>net.JoinHostPort\<close>\<close>
  "JoinHostPort host port = (if CHR '':'' \<in> set host then ''['' @ host @ '']:'' @ port else host @ '':'' @ port)"

definition storage_config :: "Cluster \<Rightarrow> json" where
  "storage_config kmc =
     (let kine = (\<lambda>url. JObj [(''type'', JStr ''kine''), (''kine'', JObj [(''dataSource'', JStr url)])]);
          sto = sp_Storage (kmc_Spec kmc)
      in if sto_Type sto = StorageTypeNATS then kine (natsDataSourceURL kmc)
         else if sto_Type sto = StorageTypeKine then kine (kine_DataSourceURL (sto_Kine sto))
         else JObj [(''type'', JStr ''etcd''), (''etcd'', JObj [(''externalCluster'', JObj
                [(''endpoints'', JArr [JStr (''https://'' @ GetEtcdServiceName kmc @ '':2379'')]),
                 (''etcdPrefix'', JStr (kmc_Name kmc)),
                 (''caFile'', JStr ''/var/lib/k0s/pki/etcd-ca.crt''),
                 (''clientCertFile'', JStr ''/var/lib/k0s/pki/apiserver-etcd-client.crt''),
                 (''clientKeyFile'', JStr ''/var/lib/k0s/pki/apiserver-etcd-client.key'')])])])"

definition getV1Beta1Spec :: "ver_lib \<Rightarrow> Cluster \<Rightarrow> string list \<Rightarrow> object" where
  "getV1Beta1Spec V kmc sans =
     (let sv = sp_Service (kmc_Spec kmc);
          api = [(''port'', JInt (svs_APIPort sv)), (''sans'', JArr (map JStr sans))];
          konnectivity = [(''agentPort'', JInt (svs_KonnectivityPort sv))]
      in case sp_Ingress (kmc_Spec kmc) of
           None \<Rightarrow> [(''api'', JObj api), (''konnectivity'', JObj konnectivity), (''storage'', storage_config kmc)]
         | Some i \<Rightarrow>
             [(''api'', JObj (api @ [(''externalAddress'', JStr (JoinHostPort (ing_APIHost i) (show_int (ing_Port i)))),
                 (''extraArgs'', JObj [(''endpoint-reconciler-type'', JStr ''none'')])])),
              (''konnectivity'', JObj (konnectivity @ [(''externalAddress'', JStr
                 (if HasNativeIngressKonnectivity V (kmc_Spec kmc)
                  then JoinHostPort (ing_KonnectivityHost i) (show_int (ing_Port i)) else ing_KonnectivityHost i))])),
              (''storage'', storage_config kmc)])"

end
