(* ===== verification/Cluster_Workloads.thy ===== *)
theory Cluster_Workloads
  imports Cluster_Objects
begin

text \<open>
  The workloads of a hosted control plane: the \<open>StatefulSet\<close> of the control plane with its volumes
  and sidecars (\<open>k0smotroncluster_statefulset.go\<close>), the one of etcd with its defragmentation job
  (\<open>k0smotroncluster_etcd.go\<close>), NATS and the ingress, as functions of the \<open>Cluster\<close>.
\<close>

subsection \<open>Changing a specification\<close>

definition upd_pod :: "(pod_spec \<Rightarrow> pod_spec) \<Rightarrow> stateful_set_spec \<Rightarrow> stateful_set_spec" where
  "upd_pod f sp = sp\<lparr>ss_Template := (ss_Template sp)\<lparr>te_Spec := f (te_Spec (ss_Template sp))\<rparr>\<rparr>"

definition upd_first :: "(container \<Rightarrow> container) \<Rightarrow> stateful_set_spec \<Rightarrow> stateful_set_spec" where
  \<comment> \<open>a change of \<open>Containers[0]\<close>, which every generated specification has\<close>
  "upd_first f = upd_pod (\<lambda>p. p\<lparr>po_Containers := (case po_Containers p of [] \<Rightarrow> [] | c # cs \<Rightarrow> f c # cs)\<rparr>)"

definition add_volumes :: "volume list \<Rightarrow> stateful_set_spec \<Rightarrow> stateful_set_spec" where
  "add_volumes vs = upd_pod (\<lambda>p. p\<lparr>po_Volumes := po_Volumes p @ vs\<rparr>)"

definition add_mounts :: "volume_mount list \<Rightarrow> stateful_set_spec \<Rightarrow> stateful_set_spec" where
  "add_mounts ms = upd_first (\<lambda>c. c\<lparr>ct_VolumeMounts := ct_VolumeMounts c @ ms\<rparr>)"

definition add_claim :: "PersistentVolumeClaim \<Rightarrow> stateful_set_spec \<Rightarrow> stateful_set_spec" where
  "add_claim c sp = sp\<lparr>ss_VolumeClaimTemplates := ss_VolumeClaimTemplates sp @ [c]\<rparr>"

definition claim_spec :: "quantity \<Rightarrow> string \<Rightarrow> json" where
  \<comment> \<open>\<open>ReadWriteOnce\<close>, of a size and with a storage class where one is given\<close>
  "claim_spec sz storageClass = JObj ([(''accessModes'', JArr [JStr ''ReadWriteOnce'']),
      (''resources'', JObj [(''requests'', JObj [(''storage'', JStr sz)])])] @
      (if storageClass \<noteq> [] then [(''storageClassName'', JStr storageClass)] else []))"

definition data_claim :: "obj_lib \<Rightarrow> string \<Rightarrow> StoragePersistenceSpec \<Rightarrow> PersistentVolumeClaim" where
  "data_claim L name p =
     \<lparr>pvc_Kind = [], pvc_APIVersion = [], pvc_Meta = \<lparr>pm_Name = name, pm_Namespace = [], pm_Labels = Map.empty,
        pm_Annotations = Map.empty, pm_Finalizers = None\<rparr>,
      pvc_Spec = claim_spec (if ol_IsZero L (stp_Size p) then ''1Gi'' else stp_Size p) (stp_StorageClass p),
      pvc_Status = JObj []\<rparr>"

definition claim_storage :: "json \<Rightarrow> quantity" where
  \<comment> \<open>\<open>Spec.Resources.Requests.Storage()\<close>; absent, it is the zero quantity\<close>
  "claim_storage spec =
     (case spec of
        JObj ob \<Rightarrow> (case nested_lookup ob [''resources'', ''requests'', ''storage''] of Some (JStr s) \<Rightarrow> s | _ \<Rightarrow> [])
      | _ \<Rightarrow> [])"

definition anti_affinity :: "strmap \<Rightarrow> (int \<times> string \<times> strmap) list" where
  "anti_affinity labels = [(100, ''topology.kubernetes.io/zone'', labels), (50, ''kubernetes.io/hostname'', labels)]"

subsection \<open>Names of volumes\<close>

fun to_lower :: "string \<Rightarrow> string" where
  \<comment> \<open>\<open>strings.ToLower\<close> on UTF-8 bytes. Two code points outside ASCII have an ASCII lower case: U+0130 and
      U+212A. The other bytes outside ASCII are kept, though Go may map them to other bytes outside ASCII.\<close>
  "to_lower [] = []"
| "to_lower [c] = [if 65 \<le> byte c \<and> byte c \<le> 90 then char_of (byte c + 32) else c]"
| "to_lower (c # d # cs) =
     (if c = CHR 0xC4 \<and> d = CHR 0xB0 then CHR ''i'' # to_lower cs
      else if c = CHR 0xE2 \<and> d = CHR 0x84 \<and> cs \<noteq> [] \<and> hd cs = CHR 0xAA then CHR ''k'' # to_lower (tl cs)
      else to_lower [c] @ to_lower (d # cs))"

definition label_char :: "char \<Rightarrow> bool" where
  \<comment> \<open>\<open>[a-z0-9-]\<close>\<close>
  "label_char c \<longleftrightarrow> 97 \<le> byte c \<and> byte c \<le> 122 \<or> 48 \<le> byte c \<and> byte c \<le> 57 \<or> c = CHR ''-''"

function dash_runs :: "string \<Rightarrow> string" where
  \<comment> \<open>\<open>invalidVolumeNameCharsRegex.ReplaceAllString(s, "-")\<close>: each maximal run of other characters is one dash\<close>
  "dash_runs [] = []"
| "dash_runs (c # cs) =
     (if label_char c then c # dash_runs cs else CHR ''-'' # dash_runs (dropWhile (\<lambda>d. \<not> label_char d) cs))"
  by pat_completeness auto
termination
  by (relation "measure length") (simp_all add: length_dropWhile_le le_imp_less_Suc)

definition trim_prefix :: "string \<Rightarrow> string \<Rightarrow> string" where
  "trim_prefix p s = (if has_prefix p s then drop (length p) s else s)"

definition trim_right :: "char \<Rightarrow> string \<Rightarrow> string" where
  "trim_right c s = rev (dropWhile (\<lambda>d. d = c) (rev s))"

definition trim_both :: "char \<Rightarrow> string \<Rightarrow> string" where
  "trim_both c s = trim_right c (dropWhile (\<lambda>d. d = c) s)"

definition pathToVolumeName :: "obj_lib \<Rightarrow> string \<Rightarrow> string" where
  "pathToVolumeName L path =
     (let trimmed = trim_prefix ''/'' path;
          simpleName = replace_all ''/'' ''-'' trimmed
      in if ol_IsDNS1123Label L simpleName then simpleName
         else
           (let name = trim_both (CHR ''-'') (dash_runs (to_lower trimmed));
                hash = take 5 (sha256_hex path);
                base = (if length name > 57 then trim_right (CHR ''-'') (take 57 name) else name)
            in if base = [] then hash else base @ ''-'' @ hash))"

subsection \<open>Certificates\<close>

definition cert_projection :: "CertificateRef \<Rightarrow> (string \<times> (string \<times> string) list) list" where
  \<comment> \<open>what one reference contributes to the projected volume; an unknown type contributes nothing\<close>
  "cert_projection cert =
     (let pair = (\<lambda>crt key. [(cr_Name cert, [(''tls.crt'', crt), (''tls.key'', key)])]) in
      if cr_Type cert = ''ca'' then pair ''ca.crt'' ''ca.key''
      else if cr_Type cert = ''sa'' then pair ''sa.pub'' ''sa.key''
      else if cr_Type cert = ''proxy'' then pair ''front-proxy-ca.crt'' ''front-proxy-ca.key''
      else if cr_Type cert = ''apiserver-etcd-client'' then pair ''apiserver-etcd-client.crt'' ''apiserver-etcd-client.key''
      else if cr_Type cert = ''etcd'' then pair ''etcd-ca.crt'' ''etcd-ca.key''
      else [])"

definition k0sDataVolumeName :: "Cluster \<Rightarrow> string" where
  "k0sDataVolumeName kmc =
     (case pers_PersistentVolumeClaim (sp_Persistence (kmc_Spec kmc)) of
        Some c \<Rightarrow> if pm_Name (pvc_Meta c) \<noteq> [] then pm_Name (pvc_Meta c) else GetVolumeName kmc
      | None \<Rightarrow> GetVolumeName kmc)"

definition mountSecrets :: "Cluster \<Rightarrow> stateful_set_spec \<Rightarrow> stateful_set_spec" where
  "mountSecrets kmc sp =
     upd_pod (\<lambda>p. p\<lparr>po_InitContainers := po_InitContainers p @
         [(plain_container ''certs-init'' (GetImage (kmc_Spec kmc)))\<lparr>
            ct_Command := [''sh'', ''-c'',
              ''mkdir -p /var/lib/k0s/pki && rm -rf /var/lib/k0s/pki/server.* && cp /certs-init/*.* /var/lib/k0s/pki/''],
            ct_VolumeMounts := [mount_at ''certs'' ''/certs-init'', mount_at (k0sDataVolumeName kmc) ''/var/lib/k0s'']\<rparr>]\<rparr>)
       (add_volumes [\<lparr>vol_Name = ''certs'', vol_Source = projected_secrets
          (concat (map cert_projection (elems (sp_CertificateRefs (kmc_Spec kmc)))))\<rparr>] sp)"

subsection \<open>Monitoring\<close>

definition monitoringAnnotations :: strmap where
  "monitoringAnnotations = [''prometheus.io/scrape'' \<mapsto> ''true'', ''prometheus.io/port'' \<mapsto> ''8090'', ''prometheus.io/path'' \<mapsto> ''/metrics'']"

definition monitoring_containers :: "Cluster \<Rightarrow> container list" where
  "monitoring_containers kmc =
     [(plain_container ''monitoring-agent'' (mon_PrometheusImage (sp_Monitoring (kmc_Spec kmc))))\<lparr>
        ct_ImagePullPolicy := ''IfNotPresent'',
        ct_Command := [''prometheus'', ''--config.file=/prometheus/prometheus.yml''],
        ct_Args := [''--storage.tsdb.retention.size=200MB''], ct_Ports := [(''prometheus'', 9090)],
        ct_VolumeMounts := [mount_at (GetVolumeName kmc) ''/var/lib/k0s'',
          mount_sub (GetMonitoringConfigMapName kmc) ''/prometheus/prometheus.yml'' ''prometheus.yml'']\<rparr>,
      (plain_container ''monitoring-proxy'' (mon_ProxyImage (sp_Monitoring (kmc_Spec kmc))))\<lparr>
        ct_ImagePullPolicy := ''IfNotPresent'', ct_Ports := [(''nginx'', 8090)],
        ct_VolumeMounts := [mount_sub (GetMonitoringNginxConfigMapName kmc) ''/etc/nginx/nginx.conf'' ''nginx.conf'']\<rparr>]"

definition monitoring_volumes :: "Cluster \<Rightarrow> volume list" where
  "monitoring_volumes kmc =
     [\<lparr>vol_Name = GetMonitoringConfigMapName kmc,
       vol_Source = configmap_items (GetMonitoringConfigMapName kmc) [(''prometheus.yml'', ''prometheus.yml'')]\<rparr>,
      \<lparr>vol_Name = GetMonitoringNginxConfigMapName kmc,
       vol_Source = configmap_items (GetMonitoringConfigMapName kmc) [(''nginx.conf'', ''nginx.conf'')]\<rparr>]"

definition addMonitoringStack :: "Cluster \<Rightarrow> stateful_set_spec \<Rightarrow> Cluster \<times> stateful_set_spec" where
  \<comment> \<open>the annotations of the template are the map of the cluster\<close>
  "addMonitoringStack kmc sp =
     (let sp1 = upd_pod (\<lambda>p. p\<lparr>po_Containers := po_Containers p @ monitoring_containers kmc\<rparr>) sp;
          kmc' = set_kmc_annotations (kmc_annotations kmc ++ monitoringAnnotations) kmc;
          sp2 = sp1\<lparr>ss_Template := (ss_Template sp1)\<lparr>te_Annotations := kmc_annotations kmc'\<rparr>\<rparr>
      in (kmc', add_volumes (monitoring_volumes kmc) sp2))"

subsection \<open>The control plane\<close>

definition statefulSetHashAnnotation :: string where "statefulSetHashAnnotation = ''k0smotron.io/statefulset-hash''"

definition without_spec_hash :: "Cluster \<Rightarrow> Cluster" where
  \<comment> \<open>\<open>delete(annotations, km.AnnotationKeyClusterSpecHash)\<close> on the map of the cluster\<close>
  "without_spec_hash kmc = set_kmc_annotations ((kmc_annotations kmc)(AnnotationKeyClusterSpecHash := None)) kmc"

definition control_plane_labels :: "Cluster \<Rightarrow> strmap" where
  "control_plane_labels kmc = (LabelsForK0smotronControlPlane kmc)(ComponentLabel \<mapsto> ComponentControlPlane)"

definition controller_container :: "Cluster \<Rightarrow> container" where
  "controller_container kmc =
     (plain_container ''controller'' (GetImage (kmc_Spec kmc)))\<lparr>
       ct_ImagePullPolicy := ''IfNotPresent'', ct_Args := [''/bin/sh'', ''-c'', ''/k0smotron-entrypoint.sh''],
       ct_Ports := [(''api'', int32 (svs_APIPort (sp_Service (kmc_Spec kmc)))),
                    (''konnectivity'', int32 (svs_KonnectivityPort (sp_Service (kmc_Spec kmc))))],
       ct_EnvFrom := [EnvConfigMap (GetConfigMapName kmc)], ct_Resources := sp_Resources (kmc_Spec kmc),
       ct_VolumeMounts := [mount_sub (GetEntrypointConfigMapName kmc) ''/k0smotron-entrypoint.sh'' ''k0smotron-entrypoint.sh'']\<rparr>"

definition control_plane_base :: "Cluster \<Rightarrow> stateful_set_spec" where
  \<comment> \<open>the composite literal; the annotations of the template are those the cluster has by then\<close>
  "control_plane_base kmc =
     \<lparr>ss_ServiceName = [], ss_Selector = LabelsForK0smotronControlPlane kmc, ss_Replicas = sp_Replicas (kmc_Spec kmc),
      ss_PodManagementPolicy = [],
      ss_Template = \<lparr>te_Labels = control_plane_labels kmc, te_Annotations = kmc_annotations kmc,
        te_Spec = \<lparr>po_AutomountServiceAccountToken = Some False,
          po_AntiAffinity = anti_affinity (DefaultK0smotronClusterLabels kmc),
          po_Volumes = [\<lparr>vol_Name = GetEntrypointConfigMapName kmc, vol_Source = configmap_items (GetEntrypointConfigMapName kmc)
             [(''k0smotron-entrypoint.sh'', ''k0smotron-entrypoint.sh'')]\<rparr>],
          po_InitContainers = [], po_Containers = [controller_container kmc],
          po_ServiceAccountName = sp_ServiceAccount (kmc_Spec kmc),
          po_TopologySpreadConstraints = None, po_FSGroup = None, po_RestartPolicy = []\<rparr>\<rparr>,
      ss_VolumeClaimTemplates = [], ss_WhenDeleted = None\<rparr>"

definition upd_persistence :: "(PersistenceSpec \<Rightarrow> PersistenceSpec) \<Rightarrow> Cluster \<Rightarrow> Cluster" where
  "upd_persistence f kmc = kmc\<lparr>kmc_Spec := (kmc_Spec kmc)\<lparr>sp_Persistence := f (sp_Persistence (kmc_Spec kmc))\<rparr>\<rparr>"

definition with_monitoring :: "Cluster \<times> stateful_set_spec \<Rightarrow> Cluster \<times> stateful_set_spec" where
  "with_monitoring x = (case x of (kmc, sp) \<Rightarrow>
     if mon_Enabled (sp_Monitoring (kmc_Spec kmc)) then
       addMonitoringStack (upd_persistence (\<lambda>p. if pers_Type p = [] then p\<lparr>pers_Type := ''emptyDir''\<rparr> else p) kmc) sp
     else (kmc, sp))"

definition nats_env :: "Cluster \<Rightarrow> (string \<times> env_value) list" where
  "nats_env kmc =
     [(''K0SMOTRON_NATS_TOKEN'', EnvSecretKey (GetNatsTokenSecretName kmc) ''token''),
      (''K0SMOTRON_NATS_STS_NAME'', EnvValue (GetStatefulSetName kmc)),
      (''K0SMOTRON_NATS_SVC_NAME'', EnvValue (GetNatsServiceName kmc)),
      (''K0SMOTRON_NATS_REPLICAS'', EnvValue (show_int (sint (sp_Replicas (kmc_Spec kmc))))),
      (''POD_NAMESPACE'', EnvField ''metadata.namespace'')]"

definition with_nats :: "obj_lib \<Rightarrow> Cluster \<Rightarrow> stateful_set_spec \<Rightarrow> stateful_set_spec" where
  "with_nats L kmc sp =
     (if sto_Type (sp_Storage (kmc_Spec kmc)) \<noteq> StorageTypeNATS then sp
      else
        upd_first (\<lambda>c. c\<lparr>ct_Ports := ct_Ports c @ [(''nats-cluster'', 6222)], ct_Env := ct_Env c @ nats_env kmc\<rparr>)
          (add_mounts [mount_at ''nats-data'' natsStoreDir]
            (add_claim (data_claim L ''nats-data'' (nats_Persistence (sto_NATS (sp_Storage (kmc_Spec kmc)))))
              (sp\<lparr>ss_ServiceName := GetNatsServiceName kmc, ss_PodManagementPolicy := ''Parallel''\<rparr>))))"

definition with_kine :: "Cluster \<Rightarrow> stateful_set_spec \<Rightarrow> stateful_set_spec" where
  "with_kine kmc sp =
     (let name = kine_DataSourceSecretName (sto_Kine (sp_Storage (kmc_Spec kmc))) in
      if name = [] then sp else upd_first (\<lambda>c. c\<lparr>ct_EnvFrom := ct_EnvFrom c @ [EnvSecret name]\<rparr>) sp)"

definition with_certificates :: "Cluster \<Rightarrow> stateful_set_spec \<Rightarrow> stateful_set_spec" where
  "with_certificates kmc sp = (if elems (sp_CertificateRefs (kmc_Spec kmc)) \<noteq> [] then mountSecrets kmc sp else sp)"

definition with_topology :: "Cluster \<Rightarrow> stateful_set_spec \<Rightarrow> stateful_set_spec" where
  "with_topology kmc sp =
     (case sp_TopologySpreadConstraints (kmc_Spec kmc) of
        None \<Rightarrow> sp
      | Some cs \<Rightarrow> upd_pod (\<lambda>p. p\<lparr>po_TopologySpreadConstraints := Some cs\<rparr>) sp)"

definition named_claim :: "Cluster \<Rightarrow> PersistentVolumeClaim \<Rightarrow> PersistentVolumeClaim" where
  "named_claim kmc c = (if pm_Name (pvc_Meta c) = [] then c\<lparr>pvc_Meta := (pvc_Meta c)\<lparr>pm_Name := GetVolumeName kmc\<rparr>\<rparr> else c)"

definition k0s_data :: "string \<Rightarrow> volume_mount" where
  "k0s_data name = mount_at name ''/var/lib/k0s''"

definition with_persistence :: "Cluster \<Rightarrow> stateful_set_spec \<Rightarrow> gerror + Cluster \<times> stateful_set_spec" where
  "with_persistence kmc sp =
     (let p = sp_Persistence (kmc_Spec kmc); vol = GetVolumeName kmc in
      if pers_Type p = ''hostPath'' then
        Inr (kmc, add_mounts [k0s_data vol] (add_volumes
          [\<lparr>vol_Name = vol, vol_Source = OtherSource (JObj [(''hostPath'', JObj [(''path'', JStr (pers_HostPath p))])])\<rparr>] sp))
      else if pers_Type p = ''pvc'' then
        (case pers_PersistentVolumeClaim p of
           None \<Rightarrow> Inl (Errorf ''persistence type is pvc but no pvc is defined'')
         | Some c0 \<Rightarrow>
             (let c = named_claim kmc c0;
                  sp1 = (if pers_AutoDeletePVCs p then sp\<lparr>ss_WhenDeleted := Some ''Delete''\<rparr> else sp)
              in Inr (upd_persistence (\<lambda>p. p\<lparr>pers_PersistentVolumeClaim := Some c\<rparr>) kmc,
                      add_mounts [k0s_data (pm_Name (pvc_Meta c))]
                        (add_claim \<lparr>pvc_Kind = [], pvc_APIVersion = [], pvc_Meta = pvc_Meta c, pvc_Spec = pvc_Spec c,
                           pvc_Status = JObj []\<rparr> sp1))))
      else
        Inr (kmc, add_mounts [k0s_data vol] (add_volumes
          [\<lparr>vol_Name = vol, vol_Source = OtherSource (JObj [(''emptyDir'', JObj [])])\<rparr>] sp)))"

definition with_manifests :: "volume list \<Rightarrow> stateful_set_spec \<Rightarrow> stateful_set_spec" where
  "with_manifests = fold (\<lambda>m sp. add_mounts [mount_ro (vol_Name m) (''/var/lib/k0s/manifests/'' @ vol_Name m)] (add_volumes [m] sp))"

definition read_only_source :: "volume_source \<Rightarrow> bool" where
  "read_only_source v = (case v of ConfigMapSource _ _ \<Rightarrow> True | SecretSource _ _ \<Rightarrow> True | OtherSource _ \<Rightarrow> False)"

definition with_mounts :: "obj_lib \<Rightarrow> Mount list \<Rightarrow> stateful_set_spec \<Rightarrow> stateful_set_spec" where
  "with_mounts L = fold (\<lambda>m sp. (let v = pathToVolumeName L (mnt_Path m) in
     add_mounts [(mount_at v (mnt_Path m))\<lparr>vm_ReadOnly := mnt_ReadOnly m \<or> read_only_source (mnt_Source m)\<rparr>]
       (add_volumes [\<lparr>vol_Name = v, vol_Source = mnt_Source m\<rparr>] sp)))"

definition control_plane_spec :: "obj_lib \<Rightarrow> Cluster \<Rightarrow> Cluster \<times> (gerror + stateful_set_spec)" where
  \<comment> \<open>\<open>generateStatefulSet\<close> up to the telemetry config map: the cluster as it is left, and the specification or an
      error\<close>
  "control_plane_spec L kmc0 =
     (let kmc1 = without_spec_hash (AnnotationsForK0smotronCluster kmc0) in
      case with_monitoring (kmc1, control_plane_base kmc1) of (kmc, sp1) \<Rightarrow>
      case with_persistence kmc (with_topology kmc (with_certificates kmc (with_kine kmc (with_nats L kmc sp1)))) of
        Inl e \<Rightarrow> (kmc, Inl e)
      | Inr (kmc', sp2) \<Rightarrow>
          (kmc', Inr (with_mounts L (elems (sp_Mounts (kmc_Spec kmc'))) (with_manifests (elems (sp_Manifests (kmc_Spec kmc'))) sp2))))"

definition telemetryConfigMapName :: "Cluster \<Rightarrow> string" where
  "telemetryConfigMapName kmc = ''kmc-'' @ kmc_Name kmc @ ''-telemetry-config''"

definition telemetry_config_map :: "Cluster \<Rightarrow> kobject" where
  \<comment> \<open>it has no annotations\<close>
  "telemetry_config_map kmc = KConfigMap
     ((kmc_object_meta kmc (telemetryConfigMapName kmc) (LabelsForK0smotronComponent kmc ComponentTelemetry))\<lparr>ob_Annotations := Map.empty\<rparr>)
     [''configmap.yaml'' \<mapsto> telemetry_manifest]"

definition status_probe :: "int \<Rightarrow> int \<Rightarrow> int \<Rightarrow> probe" where
  "status_probe delay period threshold = \<lparr>pro_InitialDelaySeconds = delay, pro_PeriodSeconds = period,
     pro_FailureThreshold = threshold, pro_Command = [''k0s'', ''status'']\<rparr>"

definition with_telemetry :: "Cluster \<Rightarrow> string \<Rightarrow> stateful_set_spec \<Rightarrow> stateful_set_spec" where
  \<comment> \<open>the rest of the specification, with the name of the telemetry config map as it was applied\<close>
  "with_telemetry kmc name sp =
     (let nats = (sto_Type (sp_Storage (kmc_Spec kmc)) = StorageTypeNATS) in
      upd_first (\<lambda>c. c\<lparr>
          ct_ReadinessProbe := Some (if nats then status_probe 0 5 15 else status_probe 60 10 15),
          ct_LivenessProbe := Some (if nats then status_probe 0 5 10 else status_probe 90 10 10)\<rparr>)
        (add_mounts [mount_ro name ''/var/lib/k0s/manifests/k0s-telemetry'']
          (add_volumes [configmap_volume name] sp)))"

definition versionRegex_match :: "string \<Rightarrow> bool" where
  \<comment> \<open>\<open>v\d+.\d+.\d+-k0s.\d+\<close> somewhere in the text; a dot stands for any character but a newline
      (the text is ASCII, as image references are)\<close>
  "versionRegex_match s =
     (let digit = (\<lambda>c. 48 \<le> byte c \<and> byte c \<le> 57);
          dot = (\<lambda>c. c \<noteq> CHR 0x0A);
          num = (\<lambda>k xs. list_ex (\<lambda>n. n > 0 \<and> n \<le> length xs \<and> list_all digit (take n xs) \<and> k (drop n xs)) [0..<Suc (length xs)]);
          any = (\<lambda>k xs. case xs of [] \<Rightarrow> False | c # r \<Rightarrow> dot c \<and> k r);
          lit = (\<lambda>w k xs. has_prefix w xs \<and> k (drop (length w) xs))
      in list_ex (\<lambda>i. lit ''v'' (num (any (num (any (num (lit ''-k0s'' (any (num (\<lambda>_. True))))))))) (drop i s)) [0..<Suc (length s)])"

definition detectAndSetCurrentClusterVersion :: "stateful_set \<Rightarrow> Cluster \<Rightarrow> Cluster res" where
  \<comment> \<open>a set without containers panics\<close>
  "detectAndSetCurrentClusterVersion found kmc =
     (if sp_Version (kmc_Spec kmc) \<noteq> [] then Ok kmc
      else (case po_Containers (te_Spec (ss_Template (sts_Spec found))) of
        [] \<Rightarrow> Panic
      | c # _ \<Rightarrow>
          (let imageParts = split_on (CHR '':'') (ct_Image c) in
           if length imageParts > 1 \<and> versionRegex_match (imageParts ! 1)
           then Ok (kmc\<lparr>kmc_Spec := (kmc_Spec kmc)\<lparr>sp_Version := imageParts ! 1\<rparr>\<rparr>)
           else Ok kmc)))"

subsection \<open>etcd\<close>

definition etcd_labels :: "Cluster \<Rightarrow> strmap" where
  "etcd_labels kmc = (LabelsForEtcdK0smotronCluster kmc)(ComponentLabel \<mapsto> ComponentEtcd)"

definition etcd_service :: "Cluster \<Rightarrow> Cluster \<times> kobject" where
  "etcd_service kmc0 =
     (let kmc = AnnotationsForK0smotronCluster kmc0 in
      (kmc, KService (kmc_object_meta kmc (GetEtcdServiceName kmc) (etcd_labels kmc))
         (headless_service [(''client'', 2379), (''peer'', 2380)] (LabelsForEtcdK0smotronCluster kmc))))"

definition etcd_certs :: "Cluster \<Rightarrow> (string \<times> string \<times> string) list \<Rightarrow> volume" where
  \<comment> \<open>the CA of etcd and other secrets, by purpose and paths\<close>
  "etcd_certs kmc others = \<lparr>vol_Name = ''certs'', vol_Source = projected_secrets
     (map (\<lambda>(purpose, crt, key). (secret_name (kmc_Name kmc) purpose, [(''tls.crt'', crt), (''tls.key'', key)]))
       ((''etcd'', ''ca.crt'', ''ca.key'') # others))\<rparr>"

definition etcd_certs_mount :: volume_mount where
  "etcd_certs_mount = mount_at ''certs'' ''/var/lib/k0s/pki/etcd/''"

definition etcd_defrag_job :: "Cluster \<Rightarrow> Cluster \<times> kobject" where
  "etcd_defrag_job kmc0 =
     (let kmc = AnnotationsForK0smotronCluster kmc0; dj = etcd_DefragJob (sto_Etcd (sp_Storage (kmc_Spec kmc))) in
      (kmc, KCronJob (kmc_object_meta kmc (GetEtcdDefragJobName kmc) (etcd_labels kmc))
         \<lparr>cj_Schedule = dj_Schedule dj, cj_ConcurrencyPolicy = ''Forbid'',
          cj_Template = \<lparr>te_Labels = etcd_labels kmc, te_Annotations = Map.empty,
            te_Spec = \<lparr>po_AutomountServiceAccountToken = None, po_AntiAffinity = [],
              po_Volumes = [etcd_certs kmc [(''etcd-server'', ''client.crt'', ''client.key'')]],
              po_InitContainers = [],
              po_Containers = [(plain_container ''etcd-defrag'' (dj_Image dj))\<lparr>
                ct_ImagePullPolicy := ''IfNotPresent'',
                ct_Args := [''--endpoints=https://'' @ GetEtcdServiceName kmc @ '':2379'',
                  ''--cacert=/var/lib/k0s/pki/etcd/ca.crt'', ''--cert=/var/lib/k0s/pki/etcd/client.crt'',
                  ''--key=/var/lib/k0s/pki/etcd/client.key'', ''--cluster'', ''--defrag-rule'', dj_Rule dj],
                ct_VolumeMounts := [etcd_certs_mount]\<rparr>],
              po_ServiceAccountName = [], po_TopologySpreadConstraints = None, po_FSGroup = None,
              po_RestartPolicy = ''OnFailure''\<rparr>\<rparr>\<rparr>))"

definition initialCluster :: "Cluster \<Rightarrow> 32 word \<Rightarrow> string" where
  "initialCluster kmc replicas =
     (let stsName = GetEtcdStatefulSetName kmc; svcName = GetEtcdServiceName kmc in
      join_with '','' (map (\<lambda>i. stsName @ ''-'' @ show_nat i @ ''=https://'' @ stsName @ ''-'' @ show_nat i @ ''.'' @ svcName @ '':2380'')
        [0..<nat (sint replicas)]))"

definition calculateDesiredReplicas :: "Cluster \<Rightarrow> 32 word \<Rightarrow> 32 word" where
  \<comment> \<open>of the cluster and \<open>Status.Replicas\<close> of the existing set, zero when there is none\<close>
  "calculateDesiredReplicas kmc existing =
     (let n = sp_Replicas (kmc_Spec kmc);
          desired = (if sint n > 1 then (if n mod 2 = 0 then n + 1 else n) else 1)
      in if sint existing > sint desired then existing else desired)"

definition etcdctl_env :: "(string \<times> env_value) list" where
  "etcdctl_env = [(''ETCDCTL_CACERT'', EnvValue ''/var/lib/k0s/pki/etcd/ca.crt''),
     (''ETCDCTL_CERT'', EnvValue ''/var/lib/k0s/pki/etcd/server.crt''), (''ETCDCTL_KEY'', EnvValue ''/var/lib/k0s/pki/etcd/server.key'')]"

definition etcd_mounts :: "volume_mount list" where
  "etcd_mounts = [etcd_certs_mount, mount_at ''etcd-data'' ''/var/lib/k0s/etcd'']"

definition generateEtcdInitContainers :: "Cluster \<Rightarrow> container list \<Rightarrow> container list" where
  \<comment> \<open>of the init containers of the existing set: the image of its check is kept\<close>
  "generateEtcdInitContainers kmc existing =
     (let checkImage = (case find (\<lambda>c. ct_Name c = ''dns-check'') existing of
            Some c \<Rightarrow> ct_Image c | None \<Rightarrow> GetImage (kmc_Spec kmc));
          svc = (''SVC_NAME'', EnvValue (GetEtcdServiceName kmc))
      in [(plain_container ''dns-check'' checkImage)\<lparr>
            ct_ImagePullPolicy := ''IfNotPresent'', ct_Command := [''/bin/sh'', ''-c''],
            ct_Args := [''getent ahostsv4 ${HOSTNAME}.${SVC_NAME}.'' @ om_Namespace (kmc_Meta kmc) @ ''.svc''],
            ct_Env := [svc]\<rparr>,
          (plain_container ''init'' (etcd_Image (sto_Etcd (sp_Storage (kmc_Spec kmc)))))\<lparr>
            ct_ImagePullPolicy := ''IfNotPresent'', ct_Command := [''/bin/bash''], ct_Args := [''-c'', initEntryScript],
            ct_Env := svc # (''ETCDCTL_API'', EnvValue ''3'') # etcdctl_env, ct_VolumeMounts := etcd_mounts\<rparr>])"

definition etcd_container :: "Cluster \<Rightarrow> 32 word \<Rightarrow> container" where
  "etcd_container kmc replicas =
     (let etcd = sto_Etcd (sp_Storage (kmc_Spec kmc)); svc = GetEtcdServiceName kmc in
      (plain_container ''etcd'' (etcd_Image etcd))\<lparr>
        ct_ImagePullPolicy := ''IfNotPresent'', ct_Command := [''/bin/bash''],
        ct_Args := [''-c'', etcd_entrypoint_script (elems (etcd_Args etcd))],
        ct_Env := [(''SVC_NAME'', EnvValue svc), (''ETCDCTL_ENDPOINTS'', EnvValue (''https://'' @ svc @ '':2379''))] @ etcdctl_env @
          [(''ETCD_INITIAL_CLUSTER'', EnvValue (initialCluster kmc replicas))],
        ct_Resources := etcd_Resources etcd,
        ct_ReadinessProbe := Some \<lparr>pro_InitialDelaySeconds = 0, pro_PeriodSeconds = 0, pro_FailureThreshold = 0,
          pro_Command = [''etcdctl'', ''endpoint'', ''health'']\<rparr>,
        ct_Ports := [(''client'', 2379), (''peer'', 2380)], ct_VolumeMounts := etcd_mounts\<rparr>)"

definition generateEtcdStatefulSet :: "obj_lib \<Rightarrow> Cluster \<Rightarrow> container list \<Rightarrow> 32 word \<Rightarrow> Cluster \<times> kobject" where
  "generateEtcdStatefulSet L kmc0 existing replicas =
     (let kmc = AnnotationsForK0smotronCluster kmc0; etcd = sto_Etcd (sp_Storage (kmc_Spec kmc)) in
      (kmc, KStatefulSet (kmc_object_meta kmc (GetEtcdStatefulSetName kmc) (etcd_labels kmc))
         \<lparr>ss_ServiceName = GetEtcdServiceName kmc, ss_Selector = LabelsForEtcdK0smotronCluster kmc, ss_Replicas = replicas,
          ss_PodManagementPolicy = ''Parallel'',
          ss_Template = \<lparr>te_Labels = etcd_labels kmc, te_Annotations = Map.empty,
            te_Spec = \<lparr>po_AutomountServiceAccountToken = Some False,
              po_AntiAffinity = anti_affinity (LabelsForEtcdK0smotronCluster kmc),
              po_Volumes = [etcd_certs kmc [(''etcd-server'', ''server.crt'', ''server.key''), (''etcd-peer'', ''peer.crt'', ''peer.key'')]],
              po_InitContainers = generateEtcdInitContainers kmc existing,
              po_Containers = [etcd_container kmc replicas],
              po_ServiceAccountName = sp_ServiceAccount (kmc_Spec kmc),
              po_TopologySpreadConstraints = sp_TopologySpreadConstraints (kmc_Spec kmc),
              po_FSGroup = Some 1001, po_RestartPolicy = []\<rparr>\<rparr>,
          ss_VolumeClaimTemplates = [data_claim L ''etcd-data'' (etcd_Persistence etcd)],
          ss_WhenDeleted = (if etcd_AutoDeletePVCs etcd then Some ''Delete'' else None)\<rparr>))"

subsection \<open>NATS\<close>

definition nats_service :: "Cluster \<Rightarrow> Cluster \<times> kobject" where
  "nats_service kmc0 =
     (let kmc = AnnotationsForK0smotronCluster kmc0; labels = LabelsForK0smotronControlPlane kmc in
      (kmc, KService (kmc_object_meta kmc (GetNatsServiceName kmc) labels) (headless_service [(''cluster'', 6222)] labels)))"

definition nats_token_secret :: "Cluster \<Rightarrow> string \<Rightarrow> Cluster \<times> kobject" where
  "nats_token_secret kmc0 token =
     (let kmc = AnnotationsForK0smotronCluster kmc0 in
      (kmc, KSecret (kmc_object_meta kmc (GetNatsTokenSecretName kmc) (LabelsForK0smotronControlPlane kmc)) [''token'' \<mapsto> token]))"

subsection \<open>Ingress\<close>

definition konnectivityDefaultImage :: string where "konnectivityDefaultImage = ''quay.io/k0sproject/apiserver-network-proxy-agent''"
definition konnectivityDefaultVersion :: string where "konnectivityDefaultVersion = ''v0.33.0''"

definition imageRegistryHost :: "string \<Rightarrow> string" where
  "imageRegistryHost imageName =
     (case cut_at (CHR ''/'') imageName of (host, _, found) \<Rightarrow>
        if \<not> found then []
        else if CHR ''.'' \<notin> set host \<and> CHR '':'' \<notin> set host \<and> host \<noteq> ''localhost'' then []
        else host)"

definition overrideImageRepository :: "string \<Rightarrow> string \<Rightarrow> string" where
  "overrideImageRepository repository originalImage =
     (if repository = [] then originalImage
      else if has_prefix repository originalImage then originalImage
      else
        (let host = imageRegistryHost originalImage in
         if host \<noteq> [] then replace_first host repository originalImage
         else repository @ ''/'' @ originalImage))"

definition nested_or_empty :: "json_lib \<Rightarrow> object \<Rightarrow> string list \<Rightarrow> string" where
  \<comment> \<open>the value of \<open>NestedString\<close> with found and error ignored\<close>
  "nested_or_empty J ob path = (case NestedString J ob path of Inr (Some v) \<Rightarrow> v | _ \<Rightarrow> [])"

definition getKonnectivityAgentImage :: "json_lib \<Rightarrow> Cluster \<Rightarrow> string" where
  "getKonnectivityAgentImage J kmc =
     (case sp_K0sConfig (kmc_Spec kmc) of
        None \<Rightarrow> konnectivityDefaultImage @ '':'' @ konnectivityDefaultVersion
      | Some ob \<Rightarrow>
          (let custom = nested_or_empty J ob [''spec'', ''images'', ''konnectivity'', ''image''];
               given = nested_or_empty J ob [''spec'', ''images'', ''konnectivity'', ''version''];
               img = overrideImageRepository (nested_or_empty J ob [''spec'', ''images'', ''repository''])
                       (if custom \<noteq> [] then custom else konnectivityDefaultImage);
               ver = (if given \<noteq> [] then given else if custom \<noteq> [] then [] else konnectivityDefaultVersion)
           in if custom \<noteq> [] \<and> ver = [] then img else img @ '':'' @ ver))"

definition getKonnectivityAgentPullPolicy :: "json_lib \<Rightarrow> Cluster \<Rightarrow> string" where
  "getKonnectivityAgentPullPolicy J kmc =
     (case sp_K0sConfig (kmc_Spec kmc) of
        None \<Rightarrow> ''IfNotPresent''
      | Some ob \<Rightarrow>
          (let v = nested_or_empty J ob [''spec'', ''images'', ''default_pull_policy''] in
           if v \<noteq> [] then v else ''IfNotPresent''))"

definition generateIngressManifestsConfigMap :: "string \<Rightarrow> IngressSpec \<Rightarrow> Cluster \<Rightarrow> Cluster \<times> kobject" where
  \<comment> \<open>the first argument is the address of the Kubernetes service\<close>
  "generateIngressManifestsConfigMap serviceIP i kmc =
     kmc_config_map kmc (GetIngressManifestsConfigMapName kmc) ComponentIngress
       [''0_temp-kubernetes-ep.yaml'' \<mapsto> temp_kubernetes_ep,
        ''1_haproxy-configmap.yaml'' \<mapsto> haproxy_configmap (ing_APIHost i) (ing_Port i),
        ''2_haproxy-ds.yaml'' \<mapsto> haproxy_ds,
        ''3_kube-service.yaml'' \<mapsto> kube_service serviceIP]"

definition generateKonnectivityIngressConfigMap :: "json_lib \<Rightarrow> IngressSpec \<Rightarrow> Cluster \<Rightarrow> Cluster \<times> kobject" where
  "generateKonnectivityIngressConfigMap J i kmc =
     kmc_config_map kmc (GetIngressManifestsConfigMapName kmc @ ''-konnectivity'') ComponentIngress
       [''konnectivity-agent.yaml'' \<mapsto> konnectivity_agent (getKonnectivityAgentImage J kmc) (getKonnectivityAgentPullPolicy J kmc)
          (ing_KonnectivityHost i) (ing_Port i)]"

definition ingress_manifests :: "bool \<Rightarrow> Cluster \<Rightarrow> volume list \<Rightarrow> volume list" where
  \<comment> \<open>the volumes after the filter: the bundle is there, and the konnectivity one exactly when k0s is not native\<close>
  "ingress_manifests native kmc ms =
     (let name = GetIngressManifestsConfigMapName kmc;
          kept = filter (\<lambda>m. \<not> (native \<and> vol_Name m \<noteq> name \<and> vol_Name m = ''konnectivity'')) ms;
          foundManifest = list_ex (\<lambda>m. vol_Name m = name) ms;
          foundKonnectivity = list_ex (\<lambda>m. vol_Name m \<noteq> name \<and> vol_Name m = ''konnectivity'') kept
      in kept @ (if foundManifest then [] else [configmap_volume name]) @
         (if \<not> native \<and> \<not> foundKonnectivity
          then [\<lparr>vol_Name = ''konnectivity'', vol_Source = ConfigMapSource (name @ ''-konnectivity'') (JObj [])\<rparr>] else []))"

definition generateIngress :: "IngressSpec \<Rightarrow> Cluster \<Rightarrow> (Cluster \<times> kobject) res" where
  \<comment> \<open>the annotations of the ingress are written to the map of the cluster; an unknown service type panics\<close>
  "generateIngress i kmc0 =
     (let kmc1 = AnnotationsForK0smotronCluster kmc0;
          kmc = set_kmc_annotations (kmc_annotations kmc1 ++ ing_Annotations i) kmc1;
          sv = sp_Service (kmc_Spec kmc)
      in case GetServiceName kmc of
           Ok svc \<Rightarrow> Ok (kmc, KIngress (kmc_object_meta kmc (GetIngressName kmc) (LabelsForK0smotronComponent kmc ComponentIngress))
             \<lparr>ig_ClassName = ing_ClassName i,
              ig_Rules = [(ing_APIHost i, svc, int32 (svs_APIPort sv)), (ing_KonnectivityHost i, svc, int32 (svs_KonnectivityPort sv))]\<rparr>)
         | Err e \<Rightarrow> Err e
         | Panic \<Rightarrow> Panic)"

end
