(* ===== verification/Feature_Gates.thy ===== *)
theory Feature_Gates
  imports Go_Effects "HOL-Library.AList" "HOL-Library.Multiset"
begin

text \<open>
  The package \<open>internal/featuregate\<close>: parsing the flag or environment variable that sets
  the gates, and the gates in effect. The gates are a map from a feature to its enabled state;
  the parsed settings are an association list with distinct keys, Go's map literal built by
  the parsing loop. Go iterates over that map in an order it does not fix: the order is the
  parameter \<open>ord\<close>, of which the theorems assume only that it permutes the entries. They
  show that a configuration that is accepted sets exactly the named gates, whatever the order.
\<close>

definition CloudInitVars :: string where "CloudInitVars = ''CloudInitVars''"
definition InPlaceUpdates :: string where "InPlaceUpdates = ''InPlaceUpdates''"

type_synonym gates = "string \<rightharpoonup> bool"

definition defaultFeatureMap :: gates where
  "defaultFeatureMap = [CloudInitVars \<mapsto> False, InPlaceUpdates \<mapsto> False]"

definition isEnabled :: "gates \<Rightarrow> string \<Rightarrow> bool" where
  "isEnabled fg feature = (case fg feature of Some enabled \<Rightarrow> enabled | None \<Rightarrow> False)"

fun parse_pairs :: "string list \<Rightarrow> (string \<times> bool) list \<Rightarrow> gerror + (string \<times> bool) list" where
  \<comment> \<open>the loop over the comma-separated pairs\<close>
  "parse_pairs [] acc = Inr acc"
| "parse_pairs (pair # rest) acc =
     (case cut_at (CHR ''='') pair of (key, value, found) \<Rightarrow>
        if \<not> found then Inl (Errorf (''invalid feature gate format '' @ pair @ '', expected key=value''))
        else if trim_space key = [] then Inl (Errorf (''empty feature gate key in '' @ pair))
        else (case parse_bool (trim_space value) of
           None \<Rightarrow> Inl (Errorf (''invalid feature gate value '' @ trim_space value @ '' for key '' @
                         trim_space key @ '', expected true or false''))
         | Some enabled \<Rightarrow> parse_pairs rest (AList.update (trim_space key) enabled acc)))"

definition parseFeatureGateFlags :: "string \<Rightarrow> gerror + (string \<times> bool) list" where
  "parseFeatureGateFlags flag = (if flag = [] then Inr [] else parse_pairs (split_on (CHR '','') flag) [])"

fun apply_gates :: "(string \<times> bool) list \<Rightarrow> gates \<Rightarrow> gerror option \<times> gates" where
  \<comment> \<open>the loop over the parsed settings, in iteration order\<close>
  "apply_gates [] fg = (None, fg)"
| "apply_gates ((feature, enabled) # rest) fg =
     (if fg feature = None then (Some (Errorf (''unknown feature gate '' @ feature)), fg)
      else apply_gates rest (fg(feature \<mapsto> enabled)))"

definition Configure :: "((string \<times> bool) list \<Rightarrow> (string \<times> bool) list) \<Rightarrow> string \<Rightarrow> string \<Rightarrow> gates
    \<Rightarrow> gerror option \<times> gates" where
  "Configure ord flag envVar fg =
     (let flag' = (if envVar \<noteq> [] then envVar else flag) in
      case parseFeatureGateFlags flag' of
        Inl e \<Rightarrow> (Some e, fg)
      | Inr settings \<Rightarrow> apply_gates (ord settings) fg)"

subsection \<open>Facts\<close>

lemma parse_pairs_distinct: "parse_pairs ps acc = Inr r \<Longrightarrow> distinct (map fst acc) \<Longrightarrow> distinct (map fst r)"
  by (induction ps acc rule: parse_pairs.induct)
    (auto split: prod.splits if_splits option.splits simp: distinct_update)

lemma apply_gates_ok:
  "apply_gates ps fg = (None, fg') \<Longrightarrow> distinct (map fst ps) \<Longrightarrow>
     fst ` set ps \<subseteq> dom fg \<and> fg' = fg ++ map_of ps"
proof (induction ps arbitrary: fg)
  case Nil
  then show ?case by simp
next
  case (Cons p rest)
  obtain feature enabled where p: "p = (feature, enabled)" by fastforce
  with Cons.prems have known: "fg feature \<noteq> None"
    and sub: "apply_gates rest (fg(feature \<mapsto> enabled)) = (None, fg')"
    by (auto split: if_splits)
  have "distinct (map fst rest)" and new: "feature \<notin> fst ` set rest"
    using Cons.prems(2) p by auto
  note IH = Cons.IH [OF sub this(1)]
  have upd: "fg ++ map_of (p # rest) = fg(feature \<mapsto> enabled) ++ map_of rest"
  proof
    fix x
    have "map_of rest feature = None"
      using new by (simp add: map_of_eq_None_iff)
    then show "(fg ++ map_of (p # rest)) x = (fg(feature \<mapsto> enabled) ++ map_of rest) x"
      by (cases "x = feature") (simp_all add: p map_add_def split: option.splits)
  qed
  have dom_upd: "dom (fg(feature \<mapsto> enabled)) = dom fg"
    using known by (simp add: insert_absorb domIff)
  from IH have "fst ` set (p # rest) \<subseteq> dom fg"
    using known unfolding dom_upd by (auto simp: p)
  with IH show ?case
    unfolding upd by blast
qed

lemma apply_gates_dom: "dom (snd (apply_gates ps fg)) = dom fg"
proof (induction ps arbitrary: fg)
  case (Cons p rest)
  obtain feature enabled where p: "p = (feature, enabled)" by fastforce
  show ?case
  proof (cases "fg feature = None")
    case False
    then have "dom (fg(feature \<mapsto> enabled)) = dom fg" by (simp add: insert_absorb domIff)
    with False show ?thesis using Cons.IH [of "fg(feature \<mapsto> enabled)"] by (simp only: p apply_gates.simps if_False)
  qed (simp add: p)
qed simp

lemma apply_gates_known: "fst ` set ps \<subseteq> dom fg \<Longrightarrow> fst (apply_gates ps fg) = None"
proof (induction ps arbitrary: fg)
  case (Cons p rest)
  obtain feature enabled where p: "p = (feature, enabled)" by fastforce
  have "fst ` set rest \<subseteq> dom (fg(feature \<mapsto> enabled))"
    using Cons.prems p by auto
  moreover have "fg feature \<noteq> None"
    using Cons.prems p by auto
  ultimately show ?case
    using Cons.IH [of "fg(feature \<mapsto> enabled)"] by (simp only: p apply_gates.simps if_False)
qed simp

text \<open>
  When a feature-gate string is accepted, the gates in effect are the old
  ones overridden by exactly the parsed settings, the same for every iteration order of Go's
  map, and no gate appears or disappears; a setting of an unknown gate is always refused.
\<close>
theorem Configure_accepted:
  assumes "mset (ord settings) = mset settings"
    and "parseFeatureGateFlags (if envVar \<noteq> [] then envVar else flag) = Inr settings"
  shows "(fst (Configure ord flag envVar fg) = None \<longleftrightarrow> fst ` set settings \<subseteq> dom fg) \<and>
     (fst (Configure ord flag envVar fg) = None \<longrightarrow>
        snd (Configure ord flag envVar fg) = fg ++ map_of settings) \<and>
     dom (snd (Configure ord flag envVar fg)) = dom fg"
proof (intro conjI)
  have set: "set (ord settings) = set settings"
    using assms(1) by (rule mset_eq_setD)
  have dist: "distinct (map fst settings)"
    using assms(2) parse_pairs_distinct [of _ "[]" settings]
    by (auto simp: parseFeatureGateFlags_def split: if_splits)
  then have dist': "distinct (map fst (ord settings))"
    using assms(1) by (metis mset_eq_imp_distinct_iff mset_map)
  have same: "map_of (ord settings) = map_of settings"
    using dist dist' set by (metis map_of_inject_set)
  have conf: "Configure ord flag envVar fg = apply_gates (ord settings) fg"
    using assms(2) by (simp add: Configure_def Let_def)
  show "fst (Configure ord flag envVar fg) = None \<longleftrightarrow> fst ` set settings \<subseteq> dom fg"
    unfolding conf set [symmetric]
    by (metis apply_gates_known apply_gates_ok dist' prod.collapse)
  show "fst (Configure ord flag envVar fg) = None \<longrightarrow>
      snd (Configure ord flag envVar fg) = fg ++ map_of settings"
    unfolding conf same [symmetric] using apply_gates_ok [OF _ dist', of fg] by (metis prod.collapse)
  show "dom (snd (Configure ord flag envVar fg)) = dom fg"
    unfolding conf by (rule apply_gates_dom)
qed

theorem Configure_accepted_witness:
  "fst (Configure rev ''InPlaceUpdates=true'' [] defaultFeatureMap) = None \<and>
   isEnabled (snd (Configure rev ''InPlaceUpdates=true'' [] defaultFeatureMap)) InPlaceUpdates \<and>
   \<not> isEnabled (snd (Configure rev ''InPlaceUpdates=true'' [] defaultFeatureMap)) CloudInitVars"
proof -
  let ?s = "[(''InPlaceUpdates'', True)]"
  have p: "parseFeatureGateFlags (if ([]::string) \<noteq> [] then [] else ''InPlaceUpdates=true'') = Inr ?s"
    by code_simp
  have o: "mset (rev ?s) = mset ?s" by simp
  note c = Configure_accepted [of rev ?s "[]" "''InPlaceUpdates=true''" defaultFeatureMap, OF o p]
  have k: "fst ` set ?s \<subseteq> dom defaultFeatureMap"
    by (simp add: defaultFeatureMap_def InPlaceUpdates_def)
  have g: "snd (Configure rev ''InPlaceUpdates=true'' [] defaultFeatureMap) = defaultFeatureMap ++ map_of ?s"
    using c k by simp
  show ?thesis
    using c k unfolding g
    by (simp add: isEnabled_def defaultFeatureMap_def InPlaceUpdates_def CloudInitVars_def)
qed

end
