(* ===== verification/Controller_Env.thy ===== *)
theory Controller_Env
  imports ControlPlane_API Cluster_Workloads Feature_Gates
begin

text \<open>
  The state of the \<open>K0sControlPlane\<close> controller and the world it talks to
  (\<open>internal/controller/controlplane\<close>).

  \<open>controlplane\<close> is the struct of that name in \<open>k0s_controlplane_controller.go\<close>. Go's
  collections of machines are maps from a name to a pointer. The machines behind
  \<open>activeMachines\<close> are kept once, in that list (in the order Go iterates over them, which is
  arbitrary), and \<open>upToDateMachines\<close> and \<open>notUpToDateMachines\<close> hold names, so that a
  machine changed through one collection is changed in all of them.

  Everything outside the process is the record \<open>env\<close>: one oracle per kind of request,
  whose answer may depend on the whole history of requests. Each request appends an event to
  the trace, so a theorem that quantifies over \<open>env\<close> covers every behaviour of the API
  server, of other controllers and of the clock. An object passed to a successful write is not
  changed by the model to what the server returns.
\<close>

subsection \<open>Third-party functions over the types of the program\<close>

record codec_lib =
  marshalSpec :: "K0sConfigSpec \<Rightarrow> gerror + string"
  probeKeys :: "string \<Rightarrow> gerror + string list" \<comment> \<open>the keys of the decoded JSON object\<close>
  unmarshalLegacy :: "string \<Rightarrow> gerror + K0sConfigSpec_v1"
  unmarshalSpec :: "string \<Rightarrow> gerror + K0sConfigSpec"
  cmpDiffEmpty :: "K0sConfigSpec \<Rightarrow> K0sConfigSpec \<Rightarrow> bool" \<comment> \<open>\<open>cmp.Diff(a, b) == ""\<close>\<close>
  fromUnstructured :: "unstructured \<Rightarrow> gerror + K0sControllerConfig"
  groupKindString :: "string \<Rightarrow> string \<Rightarrow> string" \<comment> \<open>of an API version and a kind\<close>
  formatValue :: "string \<Rightarrow> string" \<comment> \<open>\<open>format.MustFormatValue\<close>\<close>

record lib =
  vers :: ver_lib
  conds :: cond_lib
  colls :: coll_lib
  jsons :: json_lib
  codecs :: codec_lib

definition omitempty_slice :: "'a slice \<Rightarrow> 'a slice" where
  "omitempty_slice s = (if elems s = [] then None else s)"

definition omitempty :: "K0sConfigSpec \<Rightarrow> K0sConfigSpec" where
  \<comment> \<open>what is left of a specification after a trip through JSON: the slices are tagged
      \<open>omitempty\<close>, so an empty one comes back as nil\<close>
  "omitempty k = k\<lparr>k_Files := omitempty_slice (k_Files k), k_Args := omitempty_slice (k_Args k),
     k_PreK0sCommands := omitempty_slice (k_PreK0sCommands k),
     k_PostK0sCommands := omitempty_slice (k_PostK0sCommands k)\<rparr>"

definition codec_laws :: "codec_lib \<Rightarrow> bool" where
  \<comment> \<open>the provisioner is always serialized; decoding, where it succeeds, inverts encoding;
      a comparison reports no difference exactly for equal values\<close>
  "codec_laws J \<longleftrightarrow>
     (\<forall>k s. marshalSpec J k = Inr s \<longrightarrow> (\<exists>ks. probeKeys J s = Inr ks \<and> ''provisioner'' \<in> set ks)) \<and>
     (\<forall>k s k'. marshalSpec J k = Inr s \<longrightarrow> unmarshalSpec J s = Inr k' \<longrightarrow> k' = omitempty k) \<and>
     (\<forall>a b. cmpDiffEmpty J a b \<longleftrightarrow> a = b)"

subsection \<open>The scope of a reconciliation\<close>

record controlplane =
  cp_cluster :: cluster
  cp_kcp :: K0sControlPlane
  activeMachines :: "machine list"
  deletedMachines :: "machine list"
  upToDateMachines :: "string list"
  notUpToDateMachines :: "string list"
  controllerConfigs :: "string \<rightharpoonup> K0sControllerConfig"
  infraMachines :: "string \<rightharpoonup> unstructured"
  hasMachinesWithOnlyVersionOutdated :: bool
  availabilityUndecided :: bool

definition machines_named :: "machine list \<Rightarrow> string list \<Rightarrow> machine list" where
  "machines_named ms ns = filter (\<lambda>m. m_Name m \<in> set ns) ms"

definition upd_machine :: "machine \<Rightarrow> machine list \<Rightarrow> machine list" where
  \<comment> \<open>write a machine back through its pointer\<close>
  "upd_machine m ms = map (\<lambda>m'. if m_Name m' = m_Name m then m else m') ms"

definition desired_replicas :: "controlplane \<Rightarrow> int" where
  \<comment> \<open>\<open>int(scope.kcp.Spec.Replicas)\<close>\<close>
  "desired_replicas sc = sint (ks_Replicas (kcp_Spec (cp_kcp sc)))"

definition scope_wf :: "controlplane \<Rightarrow> bool" where
  \<comment> \<open>names are unique, no machine is both active and deleted, and the active machines are
      partitioned into those that are up to date and those that are not\<close>
  "scope_wf sc \<longleftrightarrow>
     distinct (map m_Name (activeMachines sc)) \<and> distinct (map m_Name (deletedMachines sc)) \<and>
     m_Name ` set (activeMachines sc) \<inter> m_Name ` set (deletedMachines sc) = {} \<and>
     distinct (upToDateMachines sc) \<and> distinct (notUpToDateMachines sc) \<and>
     set (upToDateMachines sc) \<inter> set (notUpToDateMachines sc) = {} \<and>
     set (upToDateMachines sc) \<union> set (notUpToDateMachines sc) = m_Name ` set (activeMachines sc)"

subsection \<open>Requests, events and the controller's state\<close>

datatype read_req =
    ReadClock | ReadName string | ReadUUID | ReadPatchHelper | ReadRotation | ReadKcp | ReadOwnerCluster | ReadPaused
  | ReadMachines | ReadReferenced objref | ReadObject string string
  | ReadSecret string string | ReadExtensionConfig string | ReadNodes
  | ReadRestConfig | ReadControlNode string | ReadEtcdMember string | ReadPlan
  | ReadKubeSystem | ReadHealthState | ReadServerResources string
  | ReadOther string string \<comment> \<open>any other read: what is read, and the name\<close>

record config_map =
  cm_Name :: string
  cm_Namespace :: string
  cm_Labels :: strmap
  cm_OwnerReferences :: "ownerref list"
  cm_Data :: strmap

record deployment =
  d_Name :: string
  d_Namespace :: string
  d_Labels :: strmap
  d_OwnerReferences :: "ownerref list"
  d_Selector :: strmap
  d_PodLabels :: strmap
  d_Volumes :: "(string \<times> string \<times> string \<times> string) list" \<comment> \<open>name, ConfigMap, key, path\<close>
  d_Container :: "string \<times> string" \<comment> \<open>name and image\<close>
  d_Ports :: "(string \<times> int) list"
  d_Mounts :: "(string \<times> string \<times> string) list" \<comment> \<open>name, mount path, sub path\<close>

record service =
  sv_Name :: string
  sv_Namespace :: string
  sv_Labels :: strmap
  sv_OwnerReferences :: "ownerref list"
  sv_Selector :: strmap
  sv_Ports :: "(string \<times> int \<times> int \<times> int) list" \<comment> \<open>name, port, target port, node port\<close>
  sv_Type :: string

record node =
  n_Name :: string
  n_Labels :: "strmap option" \<comment> \<open>\<open>None\<close> is the nil map, to which Go cannot write\<close>
  n_ProviderID :: string
  n_Addresses :: "string list"

datatype cluster_write = \<comment> \<open>the requests of the controller of k0smotron clusters\<close>
    ApplyObject kobject
  | UpdateCluster Cluster
  | ScaleStatefulSet string string "32 word" \<comment> \<open>the namespace, the name and the replicas\<close>
  | ResizeClaim string string quantity
  | DeletePod string string
  | OrphanStatefulSet string string \<comment> \<open>deleted, with its pods left behind\<close>
  | DeleteExternalOwner external_owner
  | DeleteJoinTokenRequest string string
  | GenerateCertificates "string list" string string ownerref \<comment> \<open>the purposes, and the key of the cluster\<close>
  | SaveCertificates "(string \<times> string \<times> string) list" string string ownerref \<comment> \<open>purpose, certificate and key\<close>
  | ApplyKubeconfigSecret obj_meta string
  | PatchClusterFinalizer Cluster

datatype write_req =
    DeleteMachine string string
  | ApplyMachine machine
  | PatchMachine machine machine \<comment> \<open>a merge patch: the object before and after\<close>
  | PatchMachineStatus machine
  | ApplyControllerConfig K0sControllerConfig
  | PatchControllerConfig K0sControllerConfig K0sControllerConfig
  | ApplyInfraMachine unstructured
  | PatchInfraMachine unstructured unstructured
  | MergePatchInfraSpec unstructured string object \<comment> \<open>the plural resource name and the spec\<close>
  | PatchInfraTemplate unstructured
  | CreateSecret secret
  | UpdateSecret secret
  | ApplySecret secret
  | ApplyConfigMap config_map
  | ApplyDeployment deployment
  | ApplyService service
  | EnsureCertificates cluster
  | PostPlan object
  | RemovePlan
  | PatchEtcdMemberLeave string
  | PatchControlNodeLeave string
  | DeleteControlNode string
  | DeleteEtcdMember string
  | PatchDynamicConfig object
  | CreateWorkloadSecret secret
  | UpdateNode node
  | PatchControllerConfigStatus K0sControllerConfig
  | PatchWorkerConfigStatus K0sWorkerConfig
  | PatchKcpFinalizer K0sControlPlane
  | PatchKcp K0sControlPlane
  | PatchCluster cluster
  | CreateKmc Cluster
  | PatchKmc Cluster Cluster \<comment> \<open>the object before and after\<close>
  | DeleteKmc string string
  | PatchHcpFinalizer K0smotronControlPlane
  | PatchHcp K0smotronControlPlane
  | UpdateInfraCluster unstructured
  | PatchInfraStatus unstructured string bool \<comment> \<open>the path of the field and its value\<close>
  | CreateNamespace string
  | CreateConfigMap config_map
  | EnsureHostedCertificates cluster ownerref
  | ClusterWrite mgmt_client cluster_write

datatype event =
    Read read_req
  | Wrote write_req "gerror option"
  | StartedUpdateLoop "string \<times> string" \<comment> \<open>the background goroutine of a control plane\<close>
  | CancelledUpdateLoop "string \<times> string"

datatype reader = CacheReader | APIReader

record kubeconfig =
  kc_Clusters :: "(string \<times> string \<times> string) list" \<comment> \<open>name, server, proxy URL\<close>
  kc_AuthInfo :: string

record rest_config =
  rc_Source :: string \<comment> \<open>the kubeconfig or cache connection it came from\<close>
  rc_Timeout :: int

record env =
  e_gates :: gates
  e_hasClusterCache :: bool
  e_injectedClient :: bool \<comment> \<open>the field \<open>workloadClusterKubeClient\<close> is set\<close>
  e_write :: "event list \<Rightarrow> write_req \<Rightarrow> gerror option"
  e_NewPatchHelper :: "event list \<Rightarrow> gerror option" \<comment> \<open>the error of \<open>patch.NewHelper\<close>\<close>
  e_Now :: "event list \<Rightarrow> int"
  e_GenerateName :: "event list \<Rightarrow> string \<Rightarrow> string"
  e_NewUUID :: "event list \<Rightarrow> string"
  e_GetKcp :: "event list \<Rightarrow> string \<times> string \<Rightarrow> gerror + K0sControlPlane"
  e_OwnerCluster :: "event list \<Rightarrow> objmeta \<Rightarrow> gerror + cluster option"
  e_EnsurePaused :: "event list \<Rightarrow> gerror + bool \<times> bool" \<comment> \<open>paused, requeue\<close>
  e_ListMachines :: "event list \<Rightarrow> cluster \<Rightarrow> gerror + machine list"
  e_GetReferenced :: "event list \<Rightarrow> reader \<Rightarrow> objref \<Rightarrow> string \<Rightarrow> gerror + unstructured"
  e_GetObject :: "event list \<Rightarrow> string \<Rightarrow> string \<Rightarrow> string \<times> string \<Rightarrow> gerror + unstructured"
  e_GetSecret :: "event list \<Rightarrow> string \<times> string \<Rightarrow> gerror + secret"
  e_GetExtensionConfig :: "event list \<Rightarrow> string \<Rightarrow> gerror option"
  e_ServerResources :: "event list \<Rightarrow> string \<Rightarrow> (string \<times> string) list option"
    \<comment> \<open>kind and resource name of a group version; \<open>None\<close> is the nil list\<close>
  e_ListNodes :: "event list \<Rightarrow> gerror + (string \<times> string) list list" \<comment> \<open>type and address\<close>
  e_CacheRestConfig :: "event list \<Rightarrow> string \<times> string \<Rightarrow> gerror + rest_config"
  e_ParseKubeconfig :: "string \<Rightarrow> gerror + rest_config"
  e_DecodeCert :: "string \<Rightarrow> gerror + string option"
  e_DecodeKey :: "string \<Rightarrow> gerror + string option"
  e_NewKubeconfig :: "event list \<Rightarrow> string \<Rightarrow> string \<Rightarrow> string \<Rightarrow> string \<Rightarrow> gerror + kubeconfig"
    \<comment> \<open>of the cluster name, the endpoint, the CA certificate and its key\<close>
  e_GenerateSecretWithOwner :: "string \<times> string \<Rightarrow> string \<Rightarrow> ownerref \<Rightarrow> secret"
  e_WriteKubeconfig :: "kubeconfig \<Rightarrow> gerror + string"
  e_LoadKubeconfig :: "string \<Rightarrow> gerror + kubeconfig"
  e_NeedsRotation :: "event list \<Rightarrow> secret option \<Rightarrow> bool res"
  e_NewClient :: "event list \<Rightarrow> rest_config \<Rightarrow> gerror option"
  e_GetControlNode :: "event list \<Rightarrow> string \<Rightarrow> gerror + int" \<comment> \<open>its creation time\<close>
  e_GetEtcdMember :: "event list \<Rightarrow> string \<Rightarrow> gerror + object"
  e_GetPlan :: "event list \<Rightarrow> gerror + object"
  e_GetKubeSystem :: "event list \<Rightarrow> gerror + string" \<comment> \<open>the UID of the namespace\<close>
  e_HealthState :: "event list \<Rightarrow> nat \<times> int option" \<comment> \<open>failures, last success\<close>

record availability_failure =
  af_since :: int
  af_seen :: nat

record ctl =
  trace :: "event list"
  scope :: controlplane
  availabilityFailures :: "string \<rightharpoonup> availability_failure"
  autopilotUpdateCancels :: "(string \<times> string) \<rightharpoonup> nat" \<comment> \<open>handle of the running loop\<close>

type_synonym 'a ctlM = "(ctl, 'a) gom"

definition log_event :: "event \<Rightarrow> ctl \<Rightarrow> ctl" where
  "log_event ev s = s\<lparr>trace := trace s @ [ev]\<rparr>"

definition readM :: "read_req \<Rightarrow> (event list \<Rightarrow> gerror + 'a) \<Rightarrow> 'a ctlM" where
  "readM rq f = (\<lambda>s. liftE (f (trace s)) (log_event (Read rq) s))"

definition nowM :: "env \<Rightarrow> int ctlM" where
  "nowM E = readM ReadClock (\<lambda>tr. Inr (e_Now E tr))"

definition writeM :: "env \<Rightarrow> write_req \<Rightarrow> unit ctlM" where
  "writeM E rq = (\<lambda>s. let r = e_write E (trace s) rq in
     ((case r of None \<Rightarrow> Ok () | Some e \<Rightarrow> Err e), log_event (Wrote rq r) s))"

definition newPatchHelper :: "env \<Rightarrow> unit ctlM" where
  "newPatchHelper E = readM ReadPatchHelper (\<lambda>tr. case e_NewPatchHelper E tr of None \<Rightarrow> Inr () | Some e \<Rightarrow> Inl e)"

definition scopeM :: "controlplane ctlM" where
  "scopeM = getM scope"

definition set_scopeM :: "(controlplane \<Rightarrow> controlplane) \<Rightarrow> unit ctlM" where
  "set_scopeM f = modM (\<lambda>s. s\<lparr>scope := f (scope s)\<rparr>)"

subsection \<open>What a computation appends to the trace\<close>

definition appends :: "(event \<Rightarrow> bool) \<Rightarrow> ctl \<Rightarrow> ctl \<Rightarrow> bool" where
  "appends P s s' \<longleftrightarrow> (\<exists>evs. trace s' = trace s @ evs \<and> list_all P evs)"

abbreviation emits :: "(event \<Rightarrow> bool) \<Rightarrow> 'a ctlM \<Rightarrow> bool" where
  "emits P m \<equiv> keeps (appends P) m"

definition new_events :: "ctl \<Rightarrow> ctl \<Rightarrow> event list" where
  "new_events s s' = drop (length (trace s)) (trace s')"

interpretation emits: frame_order "appends P" for P
proof
  show "appends P s s" for s
    by (simp add: appends_def)
  show "appends P s t \<Longrightarrow> appends P t u \<Longrightarrow> appends P s u" for s t u
    by (auto simp: appends_def)
qed

definition same_scope :: "ctl \<Rightarrow> ctl \<Rightarrow> bool" where
  "same_scope s s' \<longleftrightarrow> scope s' = scope s"

interpretation same_scope: frame_order same_scope
  by unfold_locales (simp_all add: same_scope_def)

lemma run_readM [simp]: "readM rq f s = liftE (f (trace s)) (log_event (Read rq) s)"
  by (simp add: readM_def)

lemma run_writeM [simp]: "writeM E rq s = ((case e_write E (trace s) rq of None \<Rightarrow> Ok () | Some e \<Rightarrow> Err e),
    log_event (Wrote rq (e_write E (trace s) rq)) s)"
  by (simp add: writeM_def Let_def)

lemma run_nowM [simp]: "nowM E s = (Ok (e_Now E (trace s)), log_event (Read ReadClock) s)"
  by (simp add: nowM_def)

lemma run_newPatchHelper [simp]: "newPatchHelper E s =
    ((case e_NewPatchHelper E (trace s) of None \<Rightarrow> Ok () | Some e \<Rightarrow> Err e), log_event (Read ReadPatchHelper) s)"
  by (simp add: newPatchHelper_def split: option.splits)

lemma run_scopeM [simp]: "scopeM s = (Ok (scope s), s)"
  by (simp add: scopeM_def)

lemma run_set_scopeM [simp]: "set_scopeM f s = (Ok (), s\<lparr>scope := f (scope s)\<rparr>)"
  by (simp add: set_scopeM_def)

lemma log_event_simps [simp]:
  "trace (log_event ev s) = trace s @ [ev]" "scope (log_event ev s) = scope s"
  "availabilityFailures (log_event ev s) = availabilityFailures s"
  "autopilotUpdateCancels (log_event ev s) = autopilotUpdateCancels s"
  by (simp_all add: log_event_def)

lemma snd_liftE [simp]: "snd (liftE r s) = s"
  by (cases r) simp_all

lemma emits_readM: "P (Read rq) \<Longrightarrow> emits P (readM rq f)"
  by (simp add: keeps_def appends_def)

lemma emits_nowM: "P (Read ReadClock) \<Longrightarrow> emits P (nowM E)"
  by (simp add: nowM_def emits_readM)

lemma emits_newPatchHelper: "P (Read ReadPatchHelper) \<Longrightarrow> emits P (newPatchHelper E)"
  by (simp add: newPatchHelper_def emits_readM)

lemma emits_writeM: "(\<And>e. P (Wrote rq e)) \<Longrightarrow> emits P (writeM E rq)"
  by (simp add: keeps_def appends_def)

lemma same_scope_readM: "keeps same_scope (readM rq f)"
  by (simp add: keeps_def same_scope_def)

lemma same_scope_writeM: "keeps same_scope (writeM E rq)"
  by (simp add: keeps_def same_scope_def)

lemma same_scope_newPatchHelper: "keeps same_scope (newPatchHelper E)"
  by (simp add: newPatchHelper_def same_scope_readM)

lemma same_scope_nowM: "keeps same_scope (nowM E)"
  by (simp add: keeps_def same_scope_def)

lemma same_scope_scopeM: "keeps same_scope scopeM"
  by (simp add: keeps_def same_scope_def)

lemmas same_scope_rules = same_scope.keeps_intros same_scope_readM same_scope_writeM
  same_scope_nowM same_scope_newPatchHelper same_scope_scopeM

lemma emits_scopeM: "emits P scopeM"
  by (simp add: keeps_def appends_def)

lemma emits_set_scopeM: "emits P (set_scopeM f)"
  by (simp add: keeps_def appends_def)

lemma emits_modM: "(\<And>s. trace (f s) = trace s) \<Longrightarrow> emits P (modM f)"
  by (simp add: keeps_def appends_def)

lemmas emits_rules [emits_intros] = emits.keeps_intros emits_readM emits_nowM emits_newPatchHelper emits_writeM
  emits_scopeM emits_set_scopeM emits_modM

lemma emits_mono: "emits P m \<Longrightarrow> (\<And>ev. P ev \<Longrightarrow> Q ev) \<Longrightarrow> emits Q m"
  unfolding keeps_def appends_def by (metis list.pred_mono_strong)

lemma emits_new_events: "emits P m \<Longrightarrow> m s = (r, s') \<Longrightarrow> ev \<in> set (new_events s s') \<Longrightarrow> P ev"
  by (drule keepsD, assumption) (auto simp: appends_def new_events_def list_all_iff)

lemma emits_extends: "emits P m \<Longrightarrow> m s = (r, s') \<Longrightarrow> trace s' = trace s @ new_events s s'"
  by (drule keepsD, assumption) (auto simp: appends_def new_events_def)

lemma scope_wf_names:
  "scope_wf sc \<Longrightarrow> set (upToDateMachines sc) \<union> set (notUpToDateMachines sc) = m_Name ` set (activeMachines sc)"
  by (simp add: scope_wf_def)

lemma scope_wf_counts:
  assumes "scope_wf sc"
  shows "length (activeMachines sc) = length (upToDateMachines sc) + length (notUpToDateMachines sc)"
proof -
  have "card (m_Name ` set (activeMachines sc)) = length (activeMachines sc)"
    using assms unfolding scope_wf_def by (metis distinct_card length_map set_map)
  moreover have "card (set (upToDateMachines sc) \<union> set (notUpToDateMachines sc)) =
      length (upToDateMachines sc) + length (notUpToDateMachines sc)"
    using assms by (metis List.finite_set card_Un_disjoint distinct_card scope_wf_def)
  ultimately show ?thesis
    using scope_wf_names [OF assms] by simp
qed

lemma upd_machine_names [simp]: "map m_Name (upd_machine m ms) = map m_Name ms"
  by (induction ms) (auto simp: upd_machine_def)

lemma length_upd_machine [simp]: "length (upd_machine m ms) = length ms"
  by (simp add: upd_machine_def)

lemma machines_named_Nil: "machines_named ms ns = [] \<longleftrightarrow> m_Name ` set ms \<inter> set ns = {}"
  by (auto simp: machines_named_def filter_empty_conv)

lemma machines_named_sub_Nil: "set ns \<subseteq> m_Name ` set ms \<Longrightarrow> machines_named ms ns = [] \<longleftrightarrow> ns = []"
  by (simp add: machines_named_Nil Int_absorb1)

lemma scope_wf_named_Nil:
  assumes "scope_wf sc"
  shows "machines_named (activeMachines sc) (notUpToDateMachines sc) = [] \<longleftrightarrow> notUpToDateMachines sc = []"
    and "machines_named (activeMachines sc) (upToDateMachines sc) = [] \<longleftrightarrow> upToDateMachines sc = []"
  by (rule machines_named_sub_Nil, use scope_wf_names [OF assms] in blast)+

end
