(* ===== verification/Reference_World.thy ===== *)
theory Reference_World
  imports Controller_Env
begin

text \<open>
  Concrete instances of the parameters of the model: a reference implementation of the
  third-party functions, small objects, and an API server. They show that the laws the
  theorems assume can hold, and the witnesses of the theorems are evaluated on them. Nothing
  in the model depends on them.
\<close>

subsection \<open>Third-party functions\<close>

definition ref_ver :: ver_lib where
  "ref_ver = \<lparr>ver_NewVersion = (\<lambda>v. if v = [] then Some (Errorf ''Malformed version'') else None),
     ver_GreaterThanOrEqual = (\<lambda>_ _. False), ver_Equal = (=), ver_LessThan = (<),
     ver_String = id, ver_CoreString = id, ver_Minor = (\<lambda>v. int (length v)), ver_Sort = sort\<rparr>"

definition ref_cond_set :: "int \<Rightarrow> condition list \<Rightarrow> condition \<Rightarrow> condition list" where
  "ref_cond_set now cs c =
     (case find (\<lambda>d. c_Type d = c_Type c) cs of
        Some d \<Rightarrow> c\<lparr>c_LastTransitionTime := (if c_Status d = c_Status c then c_LastTransitionTime d else now)\<rparr>
      | None \<Rightarrow> c\<lparr>c_LastTransitionTime := now\<rparr>) # filter (\<lambda>d. c_Type d \<noteq> c_Type c) cs"

definition ref_cond :: cond_lib where
  "ref_cond = \<lparr>cond_Get = (\<lambda>cs t. find (\<lambda>c. c_Type c = t) cs),
     cond_IsTrue = (\<lambda>cs t. case find (\<lambda>c. c_Type c = t) cs of Some c \<Rightarrow> c_Status c = ConditionTrue | None \<Rightarrow> False),
     cond_IsFalse = (\<lambda>cs t. case find (\<lambda>c. c_Type c = t) cs of Some c \<Rightarrow> c_Status c = ConditionFalse | None \<Rightarrow> False),
     cond_Set = ref_cond_set,
     cond_Delete = (\<lambda>cs t. filter (\<lambda>d. c_Type d \<noteq> t) cs)\<rparr>"

fun ref_oldest :: "machine list \<Rightarrow> machine option" where
  "ref_oldest [] = None"
| "ref_oldest (m # ms) =
     (case ref_oldest ms of
        None \<Rightarrow> Some m
      | Some n \<Rightarrow> if m_CreationTimestamp m \<le> m_CreationTimestamp n then Some m else Some n)"

fun ref_newest :: "machine list \<Rightarrow> machine option" where
  "ref_newest [] = None"
| "ref_newest (m # ms) =
     (case ref_newest ms of
        None \<Rightarrow> Some m
      | Some n \<Rightarrow> if m_CreationTimestamp n \<le> m_CreationTimestamp m then Some m else Some n)"

definition ref_coll :: coll_lib where
  "ref_coll = \<lparr>coll_Oldest = ref_oldest, coll_Newest = ref_newest,
     coll_SortedByCreationTimestamp = sort_key m_CreationTimestamp,
     coll_IsUnhealthyAndOwnerRemediated =
       (\<lambda>m. cond_IsFalse ref_cond (m_Conditions m) MachineHealthCheckSucceededCondition \<and>
            cond_IsFalse ref_cond (m_Conditions m) MachineOwnerRemediatedCondition),
     coll_ControlPlaneMachines = (\<lambda>cl m. m_ClusterName m = cl \<and> m_Labels m MachineControlPlaneLabel \<noteq> None),
     coll_ControlPlaneSelector = (\<lambda>cl. ClusterNameLabel @ ''='' @ cl),
     fd_PickFewest = (\<lambda>fds _ _. case fds of [] \<Rightarrow> [] | fd # _ \<Rightarrow> fd_Name fd)\<rparr>"

fun ref_insert :: "string \<Rightarrow> json \<Rightarrow> object \<Rightarrow> object" where
  "ref_insert k v [] = [(k, v)]"
| "ref_insert k v ((k', v') # ob) =
     (if k = k' then (k, v) # ob else if k < k' then (k, v) # (k', v') # ob
      else (k', v') # ref_insert k v ob)"

fun ref_set :: "object \<Rightarrow> json \<Rightarrow> string list \<Rightarrow> object" where
  "ref_set ob v [] = ob"
| "ref_set ob v [k] = ref_insert k v ob"
| "ref_set ob v (k # ks) =
     (case map_of ob k of
        Some (JObj ob') \<Rightarrow> ref_insert k (JObj (ref_set ob' v ks)) ob
      | _ \<Rightarrow> ref_insert k (JObj (ref_set [] v ks)) ob)"

fun ref_remove :: "object \<Rightarrow> string list \<Rightarrow> object" where
  "ref_remove ob [] = ob"
| "ref_remove ob [k] = filter (\<lambda>(k', v). k' \<noteq> k) ob"
| "ref_remove ob (k # ks) = map (\<lambda>(k', v). (k', if k' = k
     then (case v of JObj ob' \<Rightarrow> JObj (ref_remove ob' ks) | _ \<Rightarrow> v) else v)) ob"

definition ref_json :: json_lib where
  "ref_json = \<lparr>NestedString = (\<lambda>ob p. Inr (case nested_lookup ob p of Some (JStr s) \<Rightarrow> Some s | _ \<Rightarrow> None)),
     NestedBool = (\<lambda>ob p. Inr (case nested_lookup ob p of Some (JBool b) \<Rightarrow> Some b | _ \<Rightarrow> None)),
     NestedMap = (\<lambda>ob p. Inr (case nested_lookup ob p of Some (JObj m) \<Rightarrow> Some m | _ \<Rightarrow> None)),
     NestedSlice = (\<lambda>ob p. Inr (case nested_lookup ob p of Some (JArr xs) \<Rightarrow> Some xs | _ \<Rightarrow> None)),
     NestedStringSlice = (\<lambda>ob p. Inr (case nested_lookup ob p of
        Some (JArr xs) \<Rightarrow> Some (List.map_filter (\<lambda>x. case x of JStr s \<Rightarrow> Some s | _ \<Rightarrow> None) xs) | _ \<Rightarrow> None)),
     SetNestedField = (\<lambda>ob v p. Inr (ref_set ob v p)),
     SetNestedMap = (\<lambda>ob m p. Inr (ref_set ob (JObj m) p)),
     SetNestedStringSlice = (\<lambda>ob xs p. Inr (ref_set ob (JArr (map JStr xs)) p)),
     RemoveNestedField = ref_remove,
     MergoMerge = (\<lambda>dst src. Inr (foldr (\<lambda>(k, v) ob. if map_of ob k = None then ref_insert k v ob else ob) src dst)),
     MergoMergeSlices = (\<lambda>dst src. Inr dst),
     MarshalObject = (\<lambda>_. None)\<rparr>"

subsection \<open>Objects\<close>

definition ref_spec :: K0sConfigSpec where
  "ref_spec = \<lparr>k_Provisioner = \<lparr>p_Type = ''cloud-config'', p_Platform = ''linux'', p_Ignition = None,
                 p_CustomUserDataRef = None\<rparr>,
     k_K0sInstallDir = [], k_K0s = None, k_Files = None, k_UseSystemHostname = False,
     k_Args = Some [''--enable-worker''], k_PreK0sCommands = None, k_PostK0sCommands = None,
     k_PreInstalledK0s = False, k_DownloadURL = [],
     k_Tunneling = \<lparr>t_Enabled = False, t_ServerAddress = [], t_ServerNodePort = 0,
        t_TunnelingNodePort = 0, t_Mode = []\<rparr>,
     k_SecretMetadata = None, k_WorkingDir = []\<rparr>"

definition ref_codec :: codec_lib where
  "ref_codec = \<lparr>marshalSpec = (\<lambda>k. if k = ref_spec then Inr ''ref'' else Inl (Errorf ''unsupported'')),
     probeKeys = (\<lambda>s. Inr [''provisioner'']),
     unmarshalLegacy = (\<lambda>s. Inl (Errorf ''unsupported'')),
     unmarshalSpec = (\<lambda>s. if s = ''ref'' then Inr (omitempty ref_spec) else Inl (Errorf ''unsupported'')),
     cmpDiffEmpty = (=),
     fromUnstructured = (\<lambda>u. Inl (Errorf ''unsupported'')),
     groupKindString = (\<lambda>a k. k @ ''.'' @ a), formatValue = id\<rparr>"

definition ref_lib :: lib where
  "ref_lib = \<lparr>vers = ref_ver, conds = ref_cond, colls = ref_coll, jsons = ref_json, codecs = ref_codec\<rparr>"

definition ref_meta :: "string \<Rightarrow> objmeta" where
  "ref_meta n = \<lparr>om_Name = n, om_Namespace = ''default'', om_UID = ''uid-'' @ n, om_Labels = Map.empty,
     om_Annotations = Map.empty, om_OwnerReferences = [], om_Finalizers = [],
     om_CreationTimestamp = 0, om_DeletionTimestamp = None\<rparr>"

definition ref_kcp :: "int32 \<Rightarrow> K0sControlPlane" where
  "ref_kcp n = \<lparr>kcp_Meta = ref_meta ''cp'',
     kcp_Spec = \<lparr>ks_K0sConfigSpec = ref_spec,
       ks_MachineTemplate = \<lparr>mt_Labels = Map.empty, mt_Annotations = Map.empty,
         mt_InfraAPIVersion = ''infra/v1'', mt_InfraKind = ''DockerMachineTemplate'', mt_InfraName = ''tmpl''\<rparr>,
       ks_Replicas = n, ks_UpdateStrategy = UpdateRecreate, ks_Version = ''v1.30.0+k0s.0'',
       ks_KubeconfigSecretMetadata = \<lparr>sm_Labels = Map.empty, sm_Annotations = Map.empty\<rparr>\<rparr>,
     kcp_Status = \<lparr>kst_ControlPlaneInitialized = Some True, kst_ExternalManagedControlPlane = None,
       kst_Replicas = None, kst_Version = [], kst_Selector = [], kst_ReadyReplicas = None,
       kst_AvailableReplicas = None, kst_UpToDateReplicas = None, kst_Conditions = []\<rparr>\<rparr>"

definition ref_controller_config :: K0sControllerConfig where
  "ref_controller_config = \<lparr>kcc_Meta = ref_meta ''a'', kcc_Version = ''v1.30.0+k0s.0'',
     kcc_K0sConfigSpec = Some ref_spec,
     kcc_Status = \<lparr>st_DataSecretName = None, st_DataSecretCreated = None, st_Conditions = []\<rparr>\<rparr>"

definition ref_cluster :: cluster where
  "ref_cluster = \<lparr>cl_Name = ''c'', cl_Namespace = ''default'', cl_UID = ''uid-c'', cl_Annotations = Map.empty,
     cl_EndpointHost = ''10.0.0.1'', cl_EndpointPort = 6443, cl_EndpointIsZero = False, cl_EndpointString = ''10.0.0.1:6443'',
     cl_ControlPlaneRef = \<lparr>r_Kind = ''K0sControlPlane'', r_Name = ''cp'', r_APIGroup = ''controlplane.cluster.x-k8s.io''\<rparr>,
     cl_InfrastructureRef = \<lparr>r_Kind = ''DockerCluster'', r_Name = ''c'', r_APIGroup = ''infrastructure.cluster.x-k8s.io''\<rparr>,
     cl_Pods = [], cl_Services = [], cl_ServiceDomain = [], cl_FailureDomains = [], cl_Conditions = []\<rparr>"

definition ref_machine :: "string \<Rightarrow> int \<Rightarrow> machine" where
  "ref_machine n created = \<lparr>m_Name = n, m_Namespace = ''default'',
     m_Labels = [MachineControlPlaneLabel \<mapsto> ''true''], m_Annotations = Map.empty, m_OwnerReferences = [],
     m_CreationTimestamp = created, m_DeletionTimestamp = None, m_Version = ''v1.30.0+k0s.0'',
     m_ClusterName = ''c'', m_FailureDomain = [],
     m_ConfigRef = \<lparr>r_Kind = ''K0sControllerConfig'', r_Name = n, r_APIGroup = ''bootstrap.cluster.x-k8s.io''\<rparr>,
     m_InfrastructureRef = \<lparr>r_Kind = ''DockerMachine'', r_Name = n, r_APIGroup = ''infrastructure.cluster.x-k8s.io''\<rparr>,
     m_ProviderID = [], m_NodeRefName = [], m_Addresses = [], m_Phase = [], m_Conditions = []\<rparr>"

definition ref_infra :: "string \<Rightarrow> unstructured" where
  "ref_infra n = \<lparr>u_APIVersion = ''infra/v1'', u_Kind = ''DockerMachine'', u_Name = n, u_Namespace = ''default'',
     u_Labels = Map.empty,
     u_Annotations = [TemplateClonedFromNameAnnotation \<mapsto> ''tmpl'',
        TemplateClonedFromGroupKindAnnotation \<mapsto> ''DockerMachineTemplate.infra/v1''],
     u_Content = []\<rparr>"

definition not_found :: gerror where
  "not_found = ApiStatus NotFound ''not found''"

definition ref_scope :: "int32 \<Rightarrow> machine list \<Rightarrow> machine list \<Rightarrow> string list \<Rightarrow> controlplane" where
  \<comment> \<open>a scope with the given active and deleted machines, the named ones up to date\<close>
  "ref_scope n act del up = \<lparr>cp_cluster = ref_cluster, cp_kcp = ref_kcp n, activeMachines = act,
     deletedMachines = del, upToDateMachines = filter (\<lambda>x. x \<in> set up) (map m_Name act),
     notUpToDateMachines = filter (\<lambda>x. x \<notin> set up) (map m_Name act),
     controllerConfigs = Map.empty, infraMachines = (\<lambda>x. Some (ref_infra x)),
     hasMachinesWithOnlyVersionOutdated = False, availabilityUndecided = False\<rparr>"

definition ref_ctl :: "controlplane \<Rightarrow> ctl" where
  "ref_ctl sc = \<lparr>trace = [], scope = sc, availabilityFailures = Map.empty, autopilotUpdateCancels = Map.empty\<rparr>"

definition ref_env :: "machine list \<Rightarrow> env" where
  \<comment> \<open>a server that holds the given machines and their infrastructure and accepts every write\<close>
  "ref_env ms = \<lparr>e_gates = defaultFeatureMap, e_hasClusterCache = True, e_injectedClient = False,
     e_write = (\<lambda>_ _. None), e_NewPatchHelper = (\<lambda>_. None), e_Now = (\<lambda>_. 1000 * second), e_GenerateName = (\<lambda>_ p. p @ ''x7k2p''),
     e_NewUUID = (\<lambda>_. ''7c9e6679''),
     e_GetKcp = (\<lambda>_ _. Inr (ref_kcp 3)), e_OwnerCluster = (\<lambda>_ _. Inr (Some ref_cluster)),
     e_EnsurePaused = (\<lambda>_. Inr (False, False)),
     e_ListMachines = (\<lambda>_ _. Inr ms),
     e_GetReferenced = (\<lambda>_ _ r _.
       if r_Kind r = ''DockerMachine'' then Inr (ref_infra (r_Name r))
       else if r_Kind r = ''K0sControlPlane'' then Inr ((ref_infra (r_Name r))\<lparr>u_Kind := ''K0sControlPlane''\<rparr>)
       else Inl not_found),
     e_GetObject = (\<lambda>_ _ _ _. Inl not_found), e_GetSecret = (\<lambda>_ _. Inl not_found),
     e_GetExtensionConfig = (\<lambda>_ _. Some not_found),
     e_ServerResources = (\<lambda>_ _. Some []), e_ListNodes = (\<lambda>_. Inr []),
     e_CacheRestConfig = (\<lambda>_ _. Inr \<lparr>rc_Source = ''cache'', rc_Timeout = 0\<rparr>),
     e_ParseKubeconfig = (\<lambda>_. Inr \<lparr>rc_Source = ''kubeconfig'', rc_Timeout = 0\<rparr>),
     e_DecodeCert = (\<lambda>d. Inr (Some d)), e_DecodeKey = (\<lambda>d. Inr (Some d)),
     e_NewKubeconfig = (\<lambda>_ n ep _ _. Inr \<lparr>kc_Clusters = [(n, ep, [])], kc_AuthInfo = ''admin''\<rparr>),
     e_GenerateSecretWithOwner = (\<lambda>key data owner. \<lparr>s_Name = snd key @ ''-kubeconfig'', s_Namespace = fst key,
       s_Labels = Map.empty, s_Annotations = Map.empty, s_OwnerReferences = [owner], s_Data = [''value'' \<mapsto> data],
       s_Type = ''cluster.x-k8s.io/secret''\<rparr>),
     e_WriteKubeconfig = (\<lambda>k. Inr (kc_AuthInfo k)),
     e_LoadKubeconfig = (\<lambda>d. Inr \<lparr>kc_Clusters = [], kc_AuthInfo = d\<rparr>),
     e_NeedsRotation = (\<lambda>_ sec. case sec of None \<Rightarrow> Panic | Some _ \<Rightarrow> Ok False),
     e_NewClient = (\<lambda>_ _. None), e_GetControlNode = (\<lambda>_ _. Inr 0),
     e_GetEtcdMember = (\<lambda>_ _. Inl not_found), e_GetPlan = (\<lambda>_. Inl not_found),
     e_GetKubeSystem = (\<lambda>_. Inr ''uid''), e_HealthState = (\<lambda>_. (0, None))\<rparr>"

lemmas ref_defs = ref_lib_def ref_ver_def ref_cond_def ref_coll_def ref_json_def ref_codec_def
  ref_spec_def ref_kcp_def ref_meta_def ref_cluster_def ref_machine_def ref_infra_def ref_scope_def
  ref_ctl_def ref_env_def not_found_def

subsection \<open>The instances satisfy the laws\<close>

lemma ref_ver_laws: "ver_laws ref_ver"
proof -
  have "\<not> v < hd (sort vs)" if "v \<in> set vs" for v and vs :: "string list"
  proof -
    from that have ne: "sort vs \<noteq> []" by (metis empty_iff empty_set set_sort)
    have "sorted (hd (sort vs) # tl (sort vs))"
      using ne by (simp add: sorted_sort)
    moreover have "v \<in> set (hd (sort vs) # tl (sort vs))"
      using ne that by (metis list.collapse set_sort)
    ultimately show ?thesis by (metis leD set_ConsD sorted_simps(2) order_refl)
  qed
  then show ?thesis
    by (simp add: ver_laws_def ref_ver_def)
qed

lemma find_filter_neq: "find (\<lambda>c. c_Type c = t) (filter (\<lambda>d. c_Type d \<noteq> t') cs) =
    (if t = t' then None else find (\<lambda>c. c_Type c = t) cs)"
  by (induction cs) auto

lemma ref_cond_laws: "cond_laws ref_cond"
  unfolding cond_laws_def
  by (intro conjI allI impI)
    (auto simp: ref_cond_def ref_cond_set_def find_filter_neq split: option.splits)

lemma ref_oldest_None: "ref_oldest ms = None \<longleftrightarrow> ms = []"
  by (cases ms) (auto split: option.splits)

lemma ref_newest_None: "ref_newest ms = None \<longleftrightarrow> ms = []"
  by (cases ms) (auto split: option.splits)

lemma ref_oldest_Some: "ref_oldest ms = Some m \<Longrightarrow> m \<in> set ms \<and>
    (\<forall>m' \<in> set ms. m_CreationTimestamp m \<le> m_CreationTimestamp m')"
proof (induction ms arbitrary: m)
  case (Cons a ms)
  then show ?case
    by (cases "ref_oldest ms") (fastforce simp: ref_oldest_None split: if_splits)+
qed simp

lemma ref_newest_Some: "ref_newest ms = Some m \<Longrightarrow> m \<in> set ms \<and>
    (\<forall>m' \<in> set ms. m_CreationTimestamp m' \<le> m_CreationTimestamp m)"
proof (induction ms arbitrary: m)
  case (Cons a ms)
  then show ?case
    by (cases "ref_newest ms") (fastforce simp: ref_newest_None split: if_splits)+
qed simp

lemma ref_coll_laws: "coll_laws ref_coll"
  unfolding coll_laws_def
  using ref_oldest_Some ref_newest_Some ref_oldest_None ref_newest_None
  by (simp add: ref_coll_def)

lemma map_filter_JStr: "List.map_filter (\<lambda>x. case x of JStr s \<Rightarrow> Some s | _ \<Rightarrow> None) (map JStr xs) = xs"
  by (induction xs) (simp_all add: List.map_filter_def)

lemma map_of_filter_neq: "map_of (filter (\<lambda>(k', v). k' \<noteq> k) ob) q = (if q = k then None else map_of ob q)"
  by (induction ob) auto

lemma map_of_map_values: "map_of (map (\<lambda>(k', v). (k', g k' v)) ob) q = map_option (g q) (map_of ob q)"
  by (induction ob) auto

lemma nested_lookup_Cons: "nested_lookup ob (k # ks) = (if ks = [] then map_of ob k
    else (case map_of ob k of Some (JObj ob') \<Rightarrow> nested_lookup ob' ks | _ \<Rightarrow> None))"
  by (cases ks) (simp_all split: option.splits json.splits)

lemma ref_remove_Cons: "ref_remove ob (k # ks) = (if ks = [] then filter (\<lambda>(k', v). k' \<noteq> k) ob
    else map (\<lambda>(k', v). (k', if k' = k then (case v of JObj ob' \<Rightarrow> JObj (ref_remove ob' ks) | _ \<Rightarrow> v) else v)) ob)"
  by (cases ks) (simp_all, auto)

lemma ref_remove_gone: "p \<noteq> [] \<Longrightarrow> nested_lookup (ref_remove ob p) p = None"
proof (induction p arbitrary: ob)
  case (Cons k ks)
  then show ?case
    by (auto simp: nested_lookup_Cons ref_remove_Cons map_of_filter_neq map_of_map_values
        simp del: nested_lookup.simps ref_remove.simps split: option.splits json.splits)
qed simp

lemma ref_remove_adds_nothing: "nested_lookup ob q = None \<Longrightarrow> nested_lookup (ref_remove ob p) q = None"
proof (induction p arbitrary: ob q)
  case (Cons k ks)
  then show ?case
    by (cases q) (auto simp: nested_lookup_Cons ref_remove_Cons map_of_filter_neq map_of_map_values
        simp del: nested_lookup.simps(2-3) ref_remove.simps split: option.splits json.splits if_splits)
qed simp

lemma map_of_ref_insert: "map_of (ref_insert k v ob) k = Some v"
  by (induction k v ob rule: ref_insert.induct) auto

lemma ref_set_found: "p \<noteq> [] \<Longrightarrow> nested_lookup (ref_set ob v p) p = Some v"
  by (induction ob v p rule: ref_set.induct) (auto simp: map_of_ref_insert split: option.splits json.splits)

lemma map_of_ref_insert_neq: "k' \<noteq> k \<Longrightarrow> map_of (ref_insert k v ob) k' = map_of ob k'"
  by (induction k v ob rule: ref_insert.induct) auto

lemma ref_insert_new_keeps:
  assumes "map_of ob k = None" and found: "nested_lookup ob p = Some (JArr xs)"
  shows "nested_lookup (ref_insert k v ob) p = Some (JArr xs)"
proof (cases p)
  case (Cons a ks)
  have "map_of ob a \<noteq> None"
    using found Cons by (auto simp: nested_lookup_Cons simp del: nested_lookup.simps(2-3) split: if_splits option.splits)
  with assms(1) have "a \<noteq> k" by auto
  with found Cons show ?thesis
    by (auto simp: nested_lookup_Cons map_of_ref_insert_neq simp del: nested_lookup.simps(2-3) split: if_splits)
qed (use found in simp)

lemma ref_merge_keeps: "nested_lookup ob p = Some (JArr xs) \<Longrightarrow>
    nested_lookup (foldr (\<lambda>(k, v) ob. if map_of ob k = None then ref_insert k v ob else ob) src ob) p = Some (JArr xs)"
  by (induction src) (auto simp: ref_insert_new_keeps)

lemma ref_json_laws: "json_laws ref_json"
  by (simp add: json_laws_def ref_json_def map_filter_JStr ref_remove_gone ref_remove_adds_nothing ref_set_found
      ref_merge_keeps)

lemma ref_codec_laws: "codec_laws ref_codec"
  by (auto simp: codec_laws_def ref_codec_def split: if_splits)

lemma ref_lib_sel [simp]: "vers ref_lib = ref_ver" "conds ref_lib = ref_cond" "colls ref_lib = ref_coll"
  "jsons ref_lib = ref_json" "codecs ref_lib = ref_codec"
  by (simp_all add: ref_lib_def)

end
