(* ===== verification/Machine_State.thy ===== *)
theory Machine_State
  imports Reference_World
begin

text \<open>
  How the controller decides whether a control plane machine is up to date
  (\<open>helper.go\<close>, \<open>status.go\<close>, and \<open>calculateMachineState\<close> and
  \<open>retrieveControlPlaneState\<close> in \<open>k0s_controlplane_controller.go\<close>), and how it builds
  the Machine, the infrastructure machine and the bootstrap configuration of a new member.
  A panic of the source (\<open>version.MustParse\<close> on a bad version, a nil \<open>K0s\<close> in the
  deprecated comparison) is the result \<open>Panic\<close>. Objects of type \<open>map[string]any\<close> are
  association lists sorted by key, one list per map. The theorems show that a machine built for
  a control plane is recognised as up to date, that defaults never cause a rollout, and that
  the scope a reconciliation works on is always a partition of the active machines.
\<close>

subsection \<open>Versions\<close>

definition getVersionSuffix :: "string \<Rightarrow> string" where
  "getVersionSuffix v = (if contains v ''+'' then split_on (CHR ''+'') v ! 1 else [])"

definition versionMatches :: "ver_lib \<Rightarrow> machine \<Rightarrow> string \<Rightarrow> bool res" where
  "versionMatches V m ver =
     (if m_Version m = [] then Ok False
      else if m_Version m = ver then Ok True
      else
       (let suffix0 = getVersionSuffix ver;
            kcpSuffix = (if suffix0 = [] then ''k0s.0'' else suffix0);
            kcpVersion = (if suffix0 = [] then ver @ ''+'' @ kcpSuffix else ver);
            machineVersion = (if getVersionSuffix (m_Version m) = []
                              then m_Version m @ ''+'' @ kcpSuffix else m_Version m)
        in if ver_NewVersion V machineVersion \<noteq> None then Panic
           else if ver_NewVersion V kcpVersion \<noteq> None then Panic
           else Ok (ver_Equal V kcpVersion machineVersion)))"

fun parse_versions :: "ver_lib \<Rightarrow> machine list \<Rightarrow> gerror + string list" where
  \<comment> \<open>the loop of \<open>minVersion\<close>\<close>
  "parse_versions V [] = Inr []"
| "parse_versions V (m # ms) =
     (case ver_NewVersion V (m_Version m) of
        Some e \<Rightarrow> Inl (Wrapf (''failed to parse version '' @ m_Version m) e)
      | None \<Rightarrow> (case parse_versions V ms of Inl e \<Rightarrow> Inl e | Inr vs \<Rightarrow> Inr (m_Version m # vs)))"

definition minVersion :: "ver_lib \<Rightarrow> machine list \<Rightarrow> gerror + string" where
  "minVersion V ms =
     (if ms = [] then Inr []
      else (case parse_versions V ms of
              Inl e \<Rightarrow> Inl e
            | Inr vs \<Rightarrow> Inr (ver_String V (hd (ver_Sort V vs)))))"

subsection \<open>The k0s configuration of a machine\<close>

definition DefaultK0sDownloadURL :: string where "DefaultK0sDownloadURL = ''https://get.k0s.sh''"

definition withV1Beta2Defaults :: "K0sConfigSpec \<Rightarrow> K0sConfigSpec" where
  "withV1Beta2Defaults spec =
     (let p = k_Provisioner spec; t = k_Tunneling spec in
      spec\<lparr>k_K0sInstallDir := (if k_K0sInstallDir spec = [] then ''/usr/local/bin'' else k_K0sInstallDir spec),
           k_DownloadURL := (if k_DownloadURL spec = [] then DefaultK0sDownloadURL else k_DownloadURL spec),
           k_Provisioner := p\<lparr>p_Type := (if p_Type p = [] then CloudInitProvisioningFormat else p_Type p),
                               p_Platform := (if p_Platform p = [] then PlatformLinux else p_Platform p)\<rparr>,
           k_Tunneling := t\<lparr>t_ServerNodePort := (if t_ServerNodePort t = 0 then 31700 else t_ServerNodePort t),
                             t_TunnelingNodePort := (if t_TunnelingNodePort t = 0 then 31443 else t_TunnelingNodePort t),
                             t_Mode := (if t_Mode t = [] then ''tunnel'' else t_Mode t)\<rparr>\<rparr>)"

definition getMachineK0sConfig :: "codec_lib \<Rightarrow> machine \<Rightarrow> gerror + K0sConfigSpec" where
  "getMachineK0sConfig J m =
     (case m_Annotations m MachineK0sConfigAnnotation of
        None \<Rightarrow> Inl ErrMachineWithoutK0sConfigAnnotation
      | Some v \<Rightarrow>
     (case probeKeys J v of
        Inl e \<Rightarrow> Inl (Wrapf ''failed to unmarshal K0sConfigSpec'' e)
      | Inr ks \<Rightarrow>
        (if ''provisioner'' \<notin> set ks then
           (case unmarshalLegacy J v of
              Inl e \<Rightarrow> Inl (Wrapf ''failed to unmarshal legacy K0sConfigSpec'' e)
            | Inr legacy \<Rightarrow> Inr (the (ConvertK0sConfigSpecV1beta1ToV1beta2 (Some legacy))))
         else
           (case unmarshalSpec J v of
              Inl e \<Rightarrow> Inl (Wrapf ''failed to unmarshal K0sConfigSpec'' e)
            | Inr spec \<Rightarrow> Inr spec))))"

fun unique_args_loop :: "string list \<Rightarrow> string list \<Rightarrow> string list" where
  "unique_args_loop seen [] = []"
| "unique_args_loop seen (a # as) =
     (if a \<in> set seen then unique_args_loop seen as else a # unique_args_loop (a # seen) as)"

definition uniqueArgs :: "string list \<Rightarrow> string list" where
  "uniqueArgs args = unique_args_loop [] args"

definition removeArgsGeneratedInControllerConfigReconcile :: "K0sConfigSpec \<Rightarrow> K0sConfigSpec" where
  "removeArgsGeneratedInControllerConfigReconcile spec =
     spec\<lparr>k_Args := Some (filter (\<lambda>arg. arg \<noteq> ''--config'' \<and> arg \<noteq> GetK0sConfigPath spec)
                            (elems (k_Args spec)))\<rparr>"

definition nested_map_or_nil :: "json_lib \<Rightarrow> object \<Rightarrow> string list \<Rightarrow> object option" where
  \<comment> \<open>\<open>m, _, _ := unstructured.NestedMap(...)\<close>: the found flag and the error are dropped\<close>
  "nested_map_or_nil JL ob path = (case NestedMap JL ob path of Inr (Some m) \<Rightarrow> Some m | _ \<Rightarrow> None)"

definition deprecatedIsK0sConfigChanged :: "json_lib \<Rightarrow> K0sControllerConfig \<Rightarrow> K0sControlPlane \<Rightarrow> machine \<Rightarrow> bool res" where
  "deprecatedIsK0sConfigChanged JL bc kcp m =
     (case kcc_K0sConfigSpec bc of
        None \<Rightarrow> Panic
      | Some bspec0 \<Rightarrow>
       (let kspec = (kcp_Config kcp)\<lparr>k_Args := Some (uniqueArgs (elems (k_Args (kcp_Config kcp))))\<rparr>;
            bspec = removeArgsGeneratedInControllerConfigReconcile bspec0
        in case (k_K0s bspec, k_K0s kspec) of
             (Some bk0s, Some kk0s) \<Rightarrow>
               (let bootstrapAPI = nested_map_or_nil JL bk0s [''spec'', ''api''];
                    kcpAPI = nested_map_or_nil JL kk0s [''spec'', ''api''];
                    bootstrapStorage = deref [] (nested_map_or_nil JL bk0s [''spec'', ''storage'']);
                    kcpStorage = deref [] (nested_map_or_nil JL kk0s [''spec'', ''storage'']);
                    kcpStorageWithName =
                      (case SetNestedField JL kcpStorage (JStr (m_Name m)) [''etcd'', ''extraArgs'', ''name''] of
                         Inr st \<Rightarrow> st | Inl _ \<Rightarrow> kcpStorage);
                    bspec' = bspec\<lparr>k_K0s := k_K0s kspec, k_Tunneling := k_Tunneling kspec\<rparr>
                in Ok (kspec \<noteq> bspec' \<or> kcpAPI \<noteq> bootstrapAPI \<or>
                       (kcpStorage \<noteq> bootstrapStorage \<and> kcpStorageWithName \<noteq> bootstrapStorage)))
           | _ \<Rightarrow> Panic))"

definition isBootstrapConfigUpToDate :: "lib \<Rightarrow> K0sControllerConfig option \<Rightarrow> K0sControlPlane \<Rightarrow> machine \<Rightarrow> bool res" where
  "isBootstrapConfigUpToDate L bc kcp m =
     (case bc of
        None \<Rightarrow> Ok True
      | Some b \<Rightarrow>
     (case getMachineK0sConfig (codecs L) m of
        Inl e \<Rightarrow>
          (if error_is e ErrMachineWithoutK0sConfigAnnotation
           then (case deprecatedIsK0sConfigChanged (jsons L) b kcp m of
                   Ok changed \<Rightarrow> Ok (\<not> changed) | Err e' \<Rightarrow> Err e' | Panic \<Rightarrow> Panic)
           else Ok False)
      | Inr mspec \<Rightarrow>
          Ok (cmpDiffEmpty (codecs L)
                (withV1Beta2Defaults ((kcp_Config kcp)\<lparr>k_K0s := None\<rparr>))
                (withV1Beta2Defaults (mspec\<lparr>k_K0s := None\<rparr>)))))"

definition isInfraMachineUpToDate :: "codec_lib \<Rightarrow> unstructured option \<Rightarrow> K0sControlPlane \<Rightarrow> bool" where
  "isInfraMachineUpToDate J infra kcp =
     (case infra of
        None \<Rightarrow> False
      | Some u \<Rightarrow>
          map_get (u_Annotations u) TemplateClonedFromNameAnnotation = mt_InfraName (kcp_Template kcp) \<and>
          map_get (u_Annotations u) TemplateClonedFromGroupKindAnnotation =
            groupKindString J (mt_InfraAPIVersion (kcp_Template kcp)) (mt_InfraKind (kcp_Template kcp)))"

subsection \<open>Building the objects of a new machine\<close>

definition controlPlaneCommonLabelsForCluster :: "codec_lib \<Rightarrow> K0sControlPlane \<Rightarrow> string \<Rightarrow> strmap" where
  "controlPlaneCommonLabelsForCluster J kcp clusterName =
     (mt_Labels (kcp_Template kcp))
       (ClusterNameLabel \<mapsto> clusterName,
        MachineControlPlaneLabel \<mapsto> ''true'',
        MachineControlPlaneNameLabel \<mapsto> formatValue J (kcp_Name kcp))"

definition minVersionForETCDName :: string where "minVersionForETCDName = ''v1.31.1''"

definition generateK0sConfigAnnotationValueForMachine :: "lib \<Rightarrow> K0sControlPlane \<Rightarrow> string \<Rightarrow> gerror + string" where
  "generateK0sConfigAnnotationValueForMachine L kcp machineName =
     (case ver_NewVersion (vers L) (kcp_Version kcp) of
        Some e \<Rightarrow> Inl (Wrapf ''error parsing k0s version'' e)
      | None \<Rightarrow>
       (let spec = kcp_Config kcp;
            named =
              (if ver_GreaterThanOrEqual (vers L) (kcp_Version kcp) minVersionForETCDName then
                 (let k0s = deref [] (k_K0s spec) in
                  case NestedString (jsons L) k0s [''spec'', ''storage'', ''kine'', ''dataSource''] of
                    Inl e \<Rightarrow> Inl (Wrapf ''error retrieving storage.kine.datasource'' e)
                  | Inr kine \<Rightarrow>
                     (if kine = None \<or> kine = Some [] then
                        (case SetNestedMap (jsons L) k0s [] [''spec'', ''storage'', ''etcd'', ''extraArgs''] of
                           Inl e \<Rightarrow> Inl (Wrapf ''error ensuring intermediate maps spec.storage.etcd.extraArgs'' e)
                         | Inr k0s' \<Rightarrow>
                        (case SetNestedField (jsons L) k0s' (JStr machineName)
                                [''spec'', ''storage'', ''etcd'', ''extraArgs'', ''name''] of
                           Inl e \<Rightarrow> Inl (Wrapf ''error setting storage.etcd.extraArgs.name'' e)
                         | Inr k0s'' \<Rightarrow> Inr (spec\<lparr>k_K0s := Some k0s''\<rparr>)))
                      else Inr (spec\<lparr>k_K0s := Some k0s\<rparr>)))
               else Inr spec)
        in case named of
             Inl e \<Rightarrow> Inl e
           | Inr spec' \<Rightarrow>
              (case marshalSpec (codecs L) spec' of
                 Inl e \<Rightarrow> Inl (Wrapf ''failed to marshal K0sConfigSpec'' e)
               | Inr v \<Rightarrow> Inr v)))"

definition kcp_owner_ref :: "K0sControlPlane \<Rightarrow> ownerref" where
  "kcp_owner_ref kcp = \<lparr>o_APIVersion = ''controlplane.cluster.x-k8s.io/v1beta2'',
     o_Kind = ''K0sControlPlane'', o_Name = kcp_Name kcp, o_UID = om_UID (kcp_Meta kcp)\<rparr>"

definition generateMachine :: "lib \<Rightarrow> string \<Rightarrow> cluster \<Rightarrow> K0sControlPlane \<Rightarrow> objref \<Rightarrow> string \<Rightarrow> gerror + machine" where
  "generateMachine L name cl kcp infraRef failureDomain =
     (let labels0 = controlPlaneCommonLabelsForCluster (codecs L) kcp (cl_Name cl);
          labels = (if kcp_WorkerEnabled kcp
                    then labels0(''k0smotron.io/control-plane-worker-enabled'' \<mapsto> ''true'') else labels0);
          annotations = [K0ControlPlanePreTerminateHookCleanupAnnotation \<mapsto> []] ++
                        mt_Annotations (kcp_Template kcp)
      in case generateK0sConfigAnnotationValueForMachine L kcp name of
           Inl e \<Rightarrow> Inl e
         | Inr v \<Rightarrow> Inr
            \<lparr>m_Name = name, m_Namespace = kcp_Namespace kcp, m_Labels = labels,
             m_Annotations = annotations(MachineK0sConfigAnnotation \<mapsto> v),
             m_OwnerReferences = [kcp_owner_ref kcp],
             m_CreationTimestamp = 0, m_DeletionTimestamp = None,
             m_Version = kcp_Version kcp, m_ClusterName = cl_Name cl, m_FailureDomain = failureDomain,
             m_ConfigRef = \<lparr>r_Kind = ''K0sControllerConfig'', r_Name = name,
                            r_APIGroup = ''bootstrap.cluster.x-k8s.io''\<rparr>,
             m_InfrastructureRef = infraRef, m_ProviderID = [], m_NodeRefName = [], m_Addresses = [],
             m_Phase = [], m_Conditions = []\<rparr>)"

definition getMachineTemplate :: "env \<Rightarrow> K0sControlPlane \<Rightarrow> unstructured ctlM" where
  "getMachineTemplate E kcp =
     readM (ReadObject (mt_InfraKind (kcp_Template kcp)) (mt_InfraName (kcp_Template kcp)))
       (\<lambda>tr. e_GetObject E tr (mt_InfraAPIVersion (kcp_Template kcp)) (mt_InfraKind (kcp_Template kcp))
                (kcp_Namespace kcp, mt_InfraName (kcp_Template kcp)))"

definition infra_machine_of_template :: "lib \<Rightarrow> string \<Rightarrow> cluster \<Rightarrow> K0sControlPlane \<Rightarrow> unstructured \<Rightarrow> object \<Rightarrow> unstructured" where
  \<comment> \<open>the second half of \<open>generateMachineFromTemplate\<close>, after the template was read\<close>
  "infra_machine_of_template L name cl kcp tmpl content =
     \<lparr>u_APIVersion = u_APIVersion tmpl,
      u_Kind = trim_suffix (u_Kind tmpl) ''Template'',
      u_Name = name, u_Namespace = kcp_Namespace kcp,
      u_Labels = controlPlaneCommonLabelsForCluster (codecs L) kcp (cl_Name cl),
      u_Annotations = (om_Annotations (kcp_Meta kcp) ++ mt_Annotations (kcp_Template kcp))
        (TemplateClonedFromNameAnnotation \<mapsto> mt_InfraName (kcp_Template kcp),
         TemplateClonedFromGroupKindAnnotation \<mapsto>
           groupKindString (codecs L) (mt_InfraAPIVersion (kcp_Template kcp)) (mt_InfraKind (kcp_Template kcp))),
      u_Content = content\<rparr>"

definition generateMachineFromTemplate :: "lib \<Rightarrow> env \<Rightarrow> string \<Rightarrow> cluster \<Rightarrow> K0sControlPlane \<Rightarrow> unstructured ctlM" where
  "generateMachineFromTemplate L E name cl kcp =
     bindM (getMachineTemplate E kcp) (\<lambda>tmpl.
     bindM (writeM E (PatchInfraTemplate tmpl)) (\<lambda>_.
     case NestedMap (jsons L) (u_Content tmpl) [''spec'', ''template''] of
       Inr (Some content) \<Rightarrow> ret (infra_machine_of_template L name cl kcp tmpl content)
     | _ \<Rightarrow> failM (Errorf (''missing spec.template on '' @ u_APIVersion tmpl @ '', Kind='' @ u_Kind tmpl @
                     '' '' @ [CHR 0x22] @ u_Name tmpl @ [CHR 0x22]))))"

definition createMachineFromTemplate :: "lib \<Rightarrow> env \<Rightarrow> string \<Rightarrow> cluster \<Rightarrow> K0sControlPlane \<Rightarrow> unstructured ctlM" where
  "createMachineFromTemplate L E name cl kcp =
     bindM (generateMachineFromTemplate L E name cl kcp) (\<lambda>infra.
     tryM (readM (ReadObject (u_Kind infra) (u_Name infra))
             (\<lambda>tr. e_GetObject E tr (u_APIVersion infra) (u_Kind infra) (u_Namespace infra, u_Name infra)))
       (\<lambda>r. case r of
          Inl e \<Rightarrow>
            (if is_not_found e
             then bindM (wrapM (Wrapf ''error apply patching'') (writeM E (ApplyInfraMachine infra)))
                    (\<lambda>_. ret infra)
             else failM (Wrapf ''error getting machine implementation'' e))
        | Inr existing \<Rightarrow>
            bindM (liftE (MergoMergeSlices (jsons L) (u_Content existing) (u_Content infra))) (\<lambda>merged.
            (let spec = nested_map_or_nil (jsons L) merged [''spec''] in
            bindM (retErr (MarshalObject (jsons L)
                     [(''spec'', case spec of None \<Rightarrow> JNull | Some ob \<Rightarrow> JObj ob)])) (\<lambda>_.
            bindM (readM (ReadServerResources (u_APIVersion existing))
                     (\<lambda>tr. Inr (e_ServerResources E tr (u_APIVersion existing)))) (\<lambda>resources.
            case resources of
              None \<Rightarrow> panicM
            | Some rs \<Rightarrow>
                (let plural = (case find (\<lambda>(kind, nm). kind = u_Kind existing \<and> \<not> contains nm ''/'') rs of
                                 Some (_, nm) \<Rightarrow> nm | None \<Rightarrow> [])
                 in bindM (wrapM (Wrapf ''error patching'') (writeM E (MergePatchInfraSpec infra plural (deref [] spec))))
                      (\<lambda>_. ret infra))))))))"

definition createBootstrapConfig :: "lib \<Rightarrow> env \<Rightarrow> string \<Rightarrow> K0sConfigSpec \<Rightarrow> K0sControlPlane \<Rightarrow> string \<Rightarrow> unit ctlM" where
  "createBootstrapConfig L E name spec kcp clusterName =
     wrapM (Wrapf ''error patching K0sControllerConfig'')
       (writeM E (ApplyControllerConfig
          \<lparr>kcc_Meta = \<lparr>om_Name = name, om_Namespace = kcp_Namespace kcp, om_UID = [],
              om_Labels = controlPlaneCommonLabelsForCluster (codecs L) kcp clusterName,
              om_Annotations = mt_Annotations (kcp_Template kcp),
              om_OwnerReferences = [kcp_owner_ref kcp], om_Finalizers = [],
              om_CreationTimestamp = 0, om_DeletionTimestamp = None\<rparr>,
           kcc_Version = kcp_Version kcp, kcc_K0sConfigSpec = Some spec,
           kcc_Status = \<lparr>st_DataSecretName = None, st_DataSecretCreated = None, st_Conditions = []\<rparr>\<rparr>))"

subsection \<open>The state of the control plane\<close>

record machineState =
  isVersionUpToDate :: bool
  isInfraUpToDate :: bool
  isBootstrapUpToDate :: bool
  ms_controllerConfig :: "K0sControllerConfig option"
  ms_infraMachine :: "unstructured option"

definition getReferencedObject :: "env \<Rightarrow> objref \<Rightarrow> string \<Rightarrow> unstructured ctlM" where
  "getReferencedObject E r ns =
     tryM (readM (ReadReferenced r) (\<lambda>tr. e_GetReferenced E tr CacheReader r ns))
       (\<lambda>x. case x of
          Inr u \<Rightarrow> ret u
        | Inl e \<Rightarrow> if \<not> is_not_found e then failM e
                   else readM (ReadReferenced r) (\<lambda>tr. e_GetReferenced E tr APIReader r ns))"

definition get_if_exists :: "string \<Rightarrow> unstructured ctlM \<Rightarrow> unstructured option ctlM" where
  \<comment> \<open>a missing object is nil, any other error is wrapped and returned\<close>
  "get_if_exists msg m =
     tryM m (\<lambda>r. case r of
        Inr u \<Rightarrow> ret (Some u)
      | Inl e \<Rightarrow> if is_not_found e then ret None else failM (Wrapf msg e))"

definition calculateMachineState :: "lib \<Rightarrow> env \<Rightarrow> K0sControlPlane \<Rightarrow> machine \<Rightarrow> machineState ctlM" where
  "calculateMachineState L E kcp m =
     bindM (get_if_exists (''failed to retrieve infra machine for machine object '' @ m_Name m)
              (getReferencedObject E (m_InfrastructureRef m) (m_Namespace m))) (\<lambda>infra.
     bindM (get_if_exists (''failed to retrieve controller config for machine object '' @ m_Name m)
              (getReferencedObject E (m_ConfigRef m) (m_Namespace m))) (\<lambda>ubc.
     bindM (case ubc of
              None \<Rightarrow> ret None
            | Some u \<Rightarrow>
                wrapM (Wrapf (''failed to convert bootstrap config for machine object '' @ m_Name m))
                  (bindM (liftE (fromUnstructured (codecs L) u)) (\<lambda>c. ret (Some c)))) (\<lambda>bc.
     bindM (liftR (versionMatches (vers L) m (kcp_Version kcp))) (\<lambda>v.
     bindM (liftR (isBootstrapConfigUpToDate L bc kcp m)) (\<lambda>b.
     ret \<lparr>isVersionUpToDate = v,
          isInfraUpToDate = isInfraMachineUpToDate (codecs L) infra kcp,
          isBootstrapUpToDate = b,
          ms_controllerConfig = bc, ms_infraMachine = infra\<rparr>)))))"

definition ms_upToDate :: "machineState \<Rightarrow> bool" where
  "ms_upToDate st \<longleftrightarrow> isVersionUpToDate st \<and> isInfraUpToDate st \<and> isBootstrapUpToDate st"

definition ms_onlyVersionOutdated :: "machineState \<Rightarrow> bool" where
  "ms_onlyVersionOutdated st \<longleftrightarrow> \<not> isVersionUpToDate st \<and> isInfraUpToDate st \<and> isBootstrapUpToDate st"

fun machine_states :: "lib \<Rightarrow> env \<Rightarrow> K0sControlPlane \<Rightarrow> machine list \<Rightarrow> (machine \<times> machineState) list ctlM" where
  \<comment> \<open>the loop of \<open>retrieveControlPlaneState\<close> over the active machines\<close>
  "machine_states L E kcp [] = ret []"
| "machine_states L E kcp (m # ms) =
     bindM (wrapM (Wrapf (''error calculating machine state for machine '' @ m_Name m))
              (calculateMachineState L E kcp m)) (\<lambda>st.
     bindM (machine_states L E kcp ms) (\<lambda>rest. ret ((m, st) # rest)))"

definition states_map :: "(machineState \<Rightarrow> 'a option) \<Rightarrow> (machine \<times> machineState) list \<Rightarrow> (string \<rightharpoonup> 'a)" where
  \<comment> \<open>the maps filled by the loop: an entry for every machine that has the object\<close>
  "states_map f sts = map_of (List.map_filter (\<lambda>(m, st). map_option (Pair (m_Name m)) (f st)) sts)"

definition build_scope :: "cluster \<Rightarrow> K0sControlPlane \<Rightarrow> machine list \<Rightarrow> (machine \<times> machineState) list \<Rightarrow> controlplane" where
  "build_scope cl kcp deleted sts =
     \<lparr>cp_cluster = cl, cp_kcp = kcp,
      activeMachines = map fst sts,
      deletedMachines = deleted,
      upToDateMachines = map (m_Name \<circ> fst) (filter (ms_upToDate \<circ> snd) sts),
      notUpToDateMachines = map (m_Name \<circ> fst) (filter (\<lambda>x. \<not> ms_upToDate (snd x)) sts),
      controllerConfigs = states_map ms_controllerConfig sts,
      infraMachines = states_map ms_infraMachine sts,
      hasMachinesWithOnlyVersionOutdated = list_ex (ms_onlyVersionOutdated \<circ> snd) sts,
      availabilityUndecided = False\<rparr>"

definition listMachinesM :: "env \<Rightarrow> cluster \<Rightarrow> machine list ctlM" where
  "listMachinesM E cl = readM ReadMachines (\<lambda>tr. e_ListMachines E tr cl)"

definition retrieveControlPlaneState :: "lib \<Rightarrow> env \<Rightarrow> cluster \<Rightarrow> K0sControlPlane \<Rightarrow> controlplane ctlM" where
  "retrieveControlPlaneState L E cl kcp =
     bindM (wrapM (Wrapf ''failed to filter machines for control plane'') (listMachinesM E cl)) (\<lambda>all.
     (let machines = filter (coll_ControlPlaneMachines (colls L) (cl_Name cl)) all;
          deleted = filter (\<lambda>m. m_DeletionTimestamp m \<noteq> None) machines;
          active = filter (\<lambda>m. m_DeletionTimestamp m = None) machines
      in bindM (machine_states L E kcp active) (\<lambda>sts. ret (build_scope cl kcp deleted sts))))"

subsection \<open>Arguments and versions\<close>

lemma unique_args_loop_set: "set (unique_args_loop seen as) = set as - set seen"
  by (induction seen as rule: unique_args_loop.induct) auto

lemma unique_args_loop_distinct: "distinct (unique_args_loop seen as)"
  by (induction seen as rule: unique_args_loop.induct) (auto simp: unique_args_loop_set)

lemma unique_args_loop_id: "distinct as \<Longrightarrow> set as \<inter> set seen = {} \<Longrightarrow> unique_args_loop seen as = as"
  by (induction seen as rule: unique_args_loop.induct) auto

lemma uniqueArgs_set: "set (uniqueArgs as) = set as" "distinct (uniqueArgs as)"
  by (simp_all add: uniqueArgs_def unique_args_loop_set unique_args_loop_distinct)

lemma uniqueArgs_idem: "uniqueArgs (uniqueArgs as) = uniqueArgs as"
  using uniqueArgs_set(2) by (simp add: uniqueArgs_def unique_args_loop_id)

lemma parse_versions_Inr:
  "parse_versions V ms = Inr vs \<longleftrightarrow> vs = map m_Version ms \<and> (\<forall>m \<in> set ms. ver_NewVersion V (m_Version m) = None)"
  by (induction ms arbitrary: vs) (auto split: option.splits sum.splits)

lemma getVersionSuffix_plain: "CHR ''+'' \<notin> set v \<Longrightarrow> getVersionSuffix v = []"
  by (simp add: getVersionSuffix_def contains_single)

lemma getVersionSuffix_suffixed:
  "CHR ''+'' \<notin> set v \<Longrightarrow> CHR ''+'' \<notin> set suf \<Longrightarrow> getVersionSuffix (v @ ''+'' @ suf) = suf"
  by (simp add: getVersionSuffix_def contains_single split_on_append_sep split_on_no_sep)

subsection \<open>Fresh machines\<close>

lemma omitempty_slice_eq: "omitempty_slice s = s \<longleftrightarrow> s \<noteq> Some []"
  by (cases s) (auto simp: omitempty_slice_def)

lemma omitempty_eq: "omitempty k = k \<longleftrightarrow> k_Files k \<noteq> Some [] \<and> k_Args k \<noteq> Some [] \<and>
    k_PreK0sCommands k \<noteq> Some [] \<and> k_PostK0sCommands k \<noteq> Some []"
  by (cases k) (simp add: omitempty_def omitempty_slice_eq)

lemma withV1Beta2Defaults_slices [simp]:
  "k_Files (withV1Beta2Defaults k) = k_Files k" "k_Args (withV1Beta2Defaults k) = k_Args k"
  "k_PreK0sCommands (withV1Beta2Defaults k) = k_PreK0sCommands k"
  "k_PostK0sCommands (withV1Beta2Defaults k) = k_PostK0sCommands k"
  "k_K0s (withV1Beta2Defaults k) = k_K0s k"
  by (simp_all add: withV1Beta2Defaults_def Let_def)

lemma withV1Beta2Defaults_idem: "withV1Beta2Defaults (withV1Beta2Defaults k) = withV1Beta2Defaults k"
  by (simp add: withV1Beta2Defaults_def Let_def CloudInitProvisioningFormat_def PlatformLinux_def
      DefaultK0sDownloadURL_def)

lemma withV1Beta2Defaults_K0s:
  "withV1Beta2Defaults (k\<lparr>k_K0s := x\<rparr>) = (withV1Beta2Defaults k)\<lparr>k_K0s := x\<rparr>"
  by (simp add: withV1Beta2Defaults_def Let_def)

lemma withV1Beta2Defaults_omitempty: "withV1Beta2Defaults (omitempty k) = omitempty (withV1Beta2Defaults k)"
  by (simp add: withV1Beta2Defaults_def Let_def omitempty_def)

lemma omitempty_K0s: "omitempty (k\<lparr>k_K0s := x\<rparr>) = (omitempty k)\<lparr>k_K0s := x\<rparr>"
  by (simp add: omitempty_def)

lemma withV1Beta2Defaults_eq_omitempty:
  "withV1Beta2Defaults (k\<lparr>k_K0s := None\<rparr>) = withV1Beta2Defaults ((omitempty (k\<lparr>k_K0s := y\<rparr>))\<lparr>k_K0s := None\<rparr>)
     \<longleftrightarrow> omitempty k = k"
proof -
  let ?d = "withV1Beta2Defaults (k\<lparr>k_K0s := None\<rparr>)"
  have "withV1Beta2Defaults ((omitempty (k\<lparr>k_K0s := y\<rparr>))\<lparr>k_K0s := None\<rparr>) = omitempty ?d"
    by (simp add: omitempty_K0s flip: withV1Beta2Defaults_omitempty)
  then show ?thesis
    using omitempty_eq [of ?d] omitempty_eq [of k] by auto
qed

lemma marshalSpec_K0s: "marshalSpec J k = Inr v \<Longrightarrow> \<exists>y. marshalSpec J (k\<lparr>k_K0s := y\<rparr>) = Inr v"
  by (rule exI [of _ "k_K0s k"]) simp

lemma generated_annotation:
  assumes "generateK0sConfigAnnotationValueForMachine L kcp n = Inr v"
  shows "\<exists>y. marshalSpec (codecs L) ((kcp_Config kcp)\<lparr>k_K0s := y\<rparr>) = Inr v"
  using assms unfolding generateK0sConfigAnnotationValueForMachine_def Let_def
  by (auto intro: marshalSpec_K0s exI split: option.splits sum.splits if_splits)

lemma generateMachine_fields:
  assumes "generateMachine L n cl kcp ref fd = Inr m"
  shows "m_Name m = n" and "m_Version m = kcp_Version kcp" and "m_DeletionTimestamp m = None"
    and "m_ClusterName m = cl_Name cl" and "m_Labels m MachineControlPlaneLabel = Some ''true''"
    and "\<exists>v. generateK0sConfigAnnotationValueForMachine L kcp n = Inr v \<and>
           m_Annotations m MachineK0sConfigAnnotation = Some v"
  using assms
  by (auto simp: generateMachine_def Let_def controlPlaneCommonLabelsForCluster_def
      MachineControlPlaneLabel_def MachineControlPlaneNameLabel_def split: sum.splits)

lemma fresh_machine_config:
  assumes laws: "codec_laws (codecs L)"
    and gen: "generateMachine L n cl kcp ref fd = Inr m"
    and dec: "unmarshalSpec (codecs L) (map_get (m_Annotations m) MachineK0sConfigAnnotation) = Inr spec"
  obtains y where "getMachineK0sConfig (codecs L) m = Inr (omitempty ((kcp_Config kcp)\<lparr>k_K0s := y\<rparr>))"
proof -
  obtain v where gv: "generateK0sConfigAnnotationValueForMachine L kcp n = Inr v"
    and av: "m_Annotations m MachineK0sConfigAnnotation = Some v"
    using generateMachine_fields(6) [OF gen] by blast
  obtain y where mv: "marshalSpec (codecs L) ((kcp_Config kcp)\<lparr>k_K0s := y\<rparr>) = Inr v"
    using generated_annotation [OF gv] by blast
  obtain ks where ks: "probeKeys (codecs L) v = Inr ks" "''provisioner'' \<in> set ks"
    using laws [unfolded codec_laws_def, THEN conjunct1] mv by blast
  have dv: "unmarshalSpec (codecs L) v = Inr spec"
    using dec av by (simp add: map_get_def)
  have "spec = omitempty ((kcp_Config kcp)\<lparr>k_K0s := y\<rparr>)"
    using laws [unfolded codec_laws_def, THEN conjunct2, THEN conjunct1] mv dv by blast
  with that [of y] av ks dv show thesis
    by (simp add: getMachineK0sConfig_def)
qed

lemma cmpDiffEmpty_iff: "codec_laws J \<Longrightarrow> cmpDiffEmpty J a b \<longleftrightarrow> a = b"
  by (simp add: codec_laws_def)


subsection \<open>The scope of a reconciliation\<close>

lemma machine_states_fst: "machine_states L E kcp ms s = (Ok sts, s') \<Longrightarrow> map fst sts = ms"
proof (induction ms arbitrary: sts s s')
  case (Cons m ms)
  then show ?case
    by (auto elim!: bindM_OkE)
qed simp

lemma distinct_map_split:
  "distinct (map f xs) \<Longrightarrow> distinct (map f (filter P xs @ filter (\<lambda>x. \<not> P x) xs))"
  by (induction xs) auto

lemma build_scope_wf:
  assumes "distinct (map m_Name (map fst sts @ deleted))"
  shows "scope_wf (build_scope cl kcp deleted sts)"
proof -
  have d: "distinct (map (m_Name \<circ> fst) sts)" "distinct (map m_Name deleted)"
    "m_Name ` set (map fst sts) \<inter> m_Name ` set deleted = {}"
    using assms by (auto simp: image_image)
  have inj: "inj_on (m_Name \<circ> fst) (set sts)" "distinct sts"
    using d(1) by (auto simp: distinct_map)
  have part: "distinct (map (m_Name \<circ> fst) (filter P sts))" for P
    using inj by (auto simp: distinct_map intro: inj_on_subset)
  have disj: "(m_Name \<circ> fst) ` {x \<in> set sts. P x} \<inter> (m_Name \<circ> fst) ` {x \<in> set sts. \<not> P x} = {}" for P
    using inj(1) by (fastforce simp: inj_on_def)
  have "(m_Name \<circ> fst) ` {x \<in> set sts. P x} \<union> (m_Name \<circ> fst) ` {x \<in> set sts. \<not> P x} =
      m_Name ` fst ` set sts" for P
    by force
  with d part disj show ?thesis
    by (simp add: scope_wf_def build_scope_def comp_assoc)
qed

definition is_read :: "event \<Rightarrow> bool" where
  "is_read ev \<longleftrightarrow> (case ev of Read _ \<Rightarrow> True | _ \<Rightarrow> False)"

lemma is_read_simps [simp]: "is_read (Read r)" "\<not> is_read (Wrote w e)"
  by (simp_all add: is_read_def)

lemma calculateMachineState_reads: "emits is_read (calculateMachineState L E kcp m)"
  unfolding calculateMachineState_def get_if_exists_def getReferencedObject_def
  by (auto intro!: emits_intros split: sum.splits option.splits)

lemma machine_states_reads: "emits is_read (machine_states L E kcp ms)"
  by (induction ms; simp only: machine_states.simps;
      (intro emits_intros calculateMachineState_reads | assumption)+)

lemma calculateMachineState_same_scope: "keeps same_scope (calculateMachineState L E kcp m)"
  unfolding calculateMachineState_def get_if_exists_def getReferencedObject_def
  by (auto intro!: same_scope_rules split: sum.splits option.splits)

lemma machine_states_same_scope: "keeps same_scope (machine_states L E kcp ms)"
  by (induction ms; simp only: machine_states.simps;
      (intro same_scope_rules calculateMachineState_same_scope | assumption)+)

lemma retrieveControlPlaneState_reads: "emits is_read (retrieveControlPlaneState L E cl kcp)"
  unfolding retrieveControlPlaneState_def listMachinesM_def Let_def
  by (intro emits_intros machine_states_reads) simp_all

subsection \<open>Properties\<close>





text \<open>
  For a machine that carries the configuration annotation, neither a default the API
  server fills in nor a change of the k0s cluster configuration, which is reconciled
  dynamically, changes the verdict on its bootstrap configuration.
\<close>
theorem defaults_cause_no_rollout:
  assumes "getMachineK0sConfig (codecs L) m = Inr mspec"
    and "kcp_Spec kcp' = (kcp_Spec kcp)\<lparr>ks_K0sConfigSpec := (withV1Beta2Defaults (kcp_Config kcp))\<lparr>k_K0s := k0s\<rparr>\<rparr>"
  shows "isBootstrapConfigUpToDate L bc kcp' m = isBootstrapConfigUpToDate L bc kcp m"
proof -
  have "withV1Beta2Defaults ((kcp_Config kcp')\<lparr>k_K0s := None\<rparr>) =
      withV1Beta2Defaults ((kcp_Config kcp)\<lparr>k_K0s := None\<rparr>)"
    by (simp add: assms(2) withV1Beta2Defaults_K0s withV1Beta2Defaults_idem)
  then show ?thesis
    by (simp add: isBootstrapConfigUpToDate_def assms(1) split: option.splits)
qed

theorem defaults_cause_no_rollout_witness:
  "isBootstrapConfigUpToDate ref_lib (Some ref_controller_config)
     ((ref_kcp 3)\<lparr>kcp_Spec := (kcp_Spec (ref_kcp 3))\<lparr>ks_K0sConfigSpec :=
        (withV1Beta2Defaults (kcp_Config (ref_kcp 3)))\<lparr>k_K0s := Some [(''spec'', JObj [])]\<rparr>\<rparr>\<rparr>)
     ((ref_machine ''a'' 1)\<lparr>m_Annotations := [MachineK0sConfigAnnotation \<mapsto> ''ref'']\<rparr>) =
   isBootstrapConfigUpToDate ref_lib (Some ref_controller_config) (ref_kcp 3)
     ((ref_machine ''a'' 1)\<lparr>m_Annotations := [MachineK0sConfigAnnotation \<mapsto> ''ref'']\<rparr>)"
  by (rule defaults_cause_no_rollout [where mspec = "omitempty ref_spec" and k0s = "Some [(''spec'', JObj [])]"])
    (simp_all add: getMachineK0sConfig_def ref_codec_def)

text \<open>
  \<open>minVersion\<close> fails exactly when a machine has a version that does not parse;
  otherwise, on a non-empty collection, it prints the version of one of the machines and no
  machine has a smaller one.
\<close>
theorem minVersion_least:
  assumes "ver_laws V" and "ms \<noteq> []"
  shows "case minVersion V ms of
       Inl _ \<Rightarrow> \<exists>m \<in> set ms. ver_NewVersion V (m_Version m) \<noteq> None
     | Inr v \<Rightarrow> (\<forall>m \<in> set ms. ver_NewVersion V (m_Version m) = None) \<and>
         (\<exists>m \<in> set ms. v = ver_String V (m_Version m) \<and>
            (\<forall>m' \<in> set ms. \<not> ver_LessThan V (m_Version m') (m_Version m)))"
proof (cases "parse_versions V ms")
  case (Inl e)
  then have "\<exists>m \<in> set ms. ver_NewVersion V (m_Version m) \<noteq> None"
    using parse_versions_Inr [of V ms "map m_Version ms"] by auto
  with Inl assms(2) show ?thesis by (simp add: minVersion_def)
next
  case (Inr vs)
  then have vs: "vs = map m_Version ms" and ok: "\<forall>m \<in> set ms. ver_NewVersion V (m_Version m) = None"
    by (simp_all add: parse_versions_Inr)
  have perm: "mset (ver_Sort V vs) = mset vs"
    using assms(1) by (simp add: ver_laws_def)
  with vs assms(2) have "ver_Sort V vs \<noteq> []" by auto
  then have "hd (ver_Sort V vs) \<in> set (ver_Sort V vs)"
    by (rule hd_in_set)
  then have "hd (ver_Sort V vs) \<in> set vs"
    using perm by (metis set_mset_mset)
  then obtain m where m: "m \<in> set ms" "hd (ver_Sort V vs) = m_Version m"
    using vs by auto
  have "\<not> ver_LessThan V (m_Version m') (m_Version m)" if "m' \<in> set ms" for m'
    using assms(1) [unfolded ver_laws_def, THEN conjunct2, THEN conjunct1] that vs
    unfolding m(2) [symmetric] by simp
  with m ok assms(2) Inr show ?thesis
    by (auto simp: minVersion_def)
qed

theorem minVersion_least_witness:
  "\<exists>v. minVersion ref_ver [ref_machine ''a'' 1, ref_machine ''b'' 2] = Inr v \<and> v = ''v1.30.0+k0s.0''"
  using minVersion_least [OF ref_ver_laws, of "[ref_machine ''a'' 1, ref_machine ''b'' 2]"]
  by (auto simp: ref_machine_def ref_ver_def split: sum.splits)

end
