(* ===== verification/Workload_Client.thy ===== *)
theory Workload_Client
  imports Machine_State
begin

text \<open>
  How the controllers reach the API of a workload cluster
  (\<open>internal/controller/util/wc_client.go\<close>): through the cluster cache, through the
  kubeconfig secret when there is no cache, and through the proxied or tunneled kubeconfig
  secret when the control plane is tunneled and runs workers. A nil \<open>*rest.Config\<close> is
  \<open>None\<close>. Dialling the peer is the oracle \<open>e_NewClient\<close>; a client is represented by the
  configuration it was built from. The theorems say which secret is read in which mode and
  which failures are reported as "not ready".
\<close>

datatype clientset = InjectedClientset | ClientsetFor rest_config

definition workloadClusterTimeout :: int where "workloadClusterTimeout = 10 * second"

definition KubeconfigDataName :: string where "KubeconfigDataName = ''value''"

definition kubeconfig_secret_name :: "string \<Rightarrow> string" where
  \<comment> \<open>\<open>secret.Name(cluster, secret.Kubeconfig)\<close>\<close>
  "kubeconfig_secret_name n = n @ ''-kubeconfig''"

definition ErrClusterCacheNotConnected :: gerror where
  "ErrClusterCacheNotConnected = Wrapl ErrNotReady ''cluster cache is not connected''"

definition FindK0sControlPlane :: "env \<Rightarrow> cluster \<Rightarrow> K0sControlPlane option ctlM" where
  "FindK0sControlPlane E cl =
     (if r_Kind (cl_ControlPlaneRef cl) \<noteq> ''K0sControlPlane'' then ret None
      else
        bindM (readM (ReadReferenced (cl_ControlPlaneRef cl))
                 (\<lambda>tr. e_GetReferenced E tr CacheReader (cl_ControlPlaneRef cl) (cl_Namespace cl))) (\<lambda>u.
        bindM (readM ReadKcp (\<lambda>tr. e_GetKcp E tr (u_Namespace u, u_Name u))) (\<lambda>kcp.
        ret (Some kcp))))"

definition isTunneledRestConfigPossible :: "K0sControlPlane option \<Rightarrow> bool" where
  "isTunneledRestConfigPossible cp =
     (case cp of
        None \<Rightarrow> False
      | Some kcp \<Rightarrow> if \<not> t_Enabled (kcp_Tunneling kcp) then False
                    else if \<not> kcp_WorkerEnabled kcp then False else True)"

definition fromKubeconfigSecretToRestConfig :: "env \<Rightarrow> string \<times> string \<Rightarrow> rest_config ctlM" where
  "fromKubeconfigSecretToRestConfig E key =
     bindM (readM (ReadSecret (fst key) (snd key)) (\<lambda>tr. e_GetSecret E tr key)) (\<lambda>sec.
     case s_Data sec KubeconfigDataName of
       None \<Rightarrow> failM (Errorf (''missing '' @ KubeconfigDataName @ '' key in secret '' @ s_Namespace sec @ ''/'' @ s_Name sec))
     | Some data \<Rightarrow>
         bindM (wrapM (Wrapf ''failed to load kubeconfig'') (liftE (e_ParseKubeconfig E data))) (\<lambda>rc.
         ret (rc\<lparr>rc_Timeout := workloadClusterTimeout\<rparr>)))"

definition rest_config_error :: "string \<Rightarrow> gerror \<Rightarrow> gerror" where
  \<comment> \<open>how \<open>getRESTConfig\<close> reports a failed read of a kubeconfig secret\<close>
  "rest_config_error clusterName e =
     (if is_not_found e then Wrapl ErrNotReady (error_text e)
      else Wrapf (''error getting rest config for cluster '' @ clusterName) e)"

definition getRESTConfig :: "env \<Rightarrow> K0sControlPlane option \<Rightarrow> string \<times> string \<Rightarrow> rest_config option ctlM" where
  "getRESTConfig E kcp key =
     (let fromSecret = (\<lambda>n. bindM (wrapM (rest_config_error (snd key))
                         (fromKubeconfigSecretToRestConfig E (fst key, kubeconfig_secret_name n)))
                         (\<lambda>rc. ret (Some rc)))
      in if \<not> isTunneledRestConfigPossible kcp then
           (if \<not> e_hasClusterCache E then fromSecret (snd key)
            else
              bindM (wrapM (\<lambda>e. if error_is e ErrClusterNotConnected then ErrClusterCacheNotConnected else e)
                       (readM ReadRestConfig (\<lambda>tr. e_CacheRestConfig E tr key)))
                (\<lambda>rc. ret (Some rc)))
         else
           (let mode = t_Mode (kcp_Tunneling (the kcp)) in
            if mode = ''proxy'' then fromSecret (snd key @ ''-proxied'')
            else if mode = ''tunnel'' then fromSecret (snd key @ ''-tunneled'')
            else ret None))"

definition client_for :: "env \<Rightarrow> string \<Rightarrow> rest_config option \<Rightarrow> rest_config ctlM" where
  \<comment> \<open>the common end of the two constructors: a nil configuration is an error\<close>
  "client_for E clusterName rc =
     (case rc of
        None \<Rightarrow> failM (Errorf (''no rest config resolved for cluster '' @ clusterName))
      | Some c \<Rightarrow>
          bindM (readM ReadRestConfig (\<lambda>tr. case e_NewClient E tr c of None \<Rightarrow> Inr () | Some e \<Rightarrow> Inl e))
            (\<lambda>_. ret c))"

definition GetControllerRuntimeClient :: "env \<Rightarrow> K0sControlPlane option \<Rightarrow> string \<times> string \<Rightarrow> rest_config ctlM" where
  "GetControllerRuntimeClient E kcp key =
     bindM (getRESTConfig E kcp key) (client_for E (snd key))"

definition GetWorkloadClusterClientset :: "env \<Rightarrow> cluster \<Rightarrow> clientset ctlM" where
  "GetWorkloadClusterClientset E cl =
     bindM (wrapM (Wrapf ''failed to find K0sControlPlane'') (FindK0sControlPlane E cl)) (\<lambda>kcp.
     bindM (wrapM (Wrapf (''failed to get rest config for cluster '' @ cl_Name cl))
              (getRESTConfig E kcp (cl_Namespace cl, cl_Name cl))) (\<lambda>rc.
     bindM (client_for E (cl_Name cl) rc) (\<lambda>c. ret (ClientsetFor c))))"

definition getWorkloadClusterClientset :: "env \<Rightarrow> cluster \<Rightarrow> clientset ctlM" where
  "getWorkloadClusterClientset E cl =
     (if e_injectedClient E then ret InjectedClientset else GetWorkloadClusterClientset E cl)"

subsection \<open>Facts\<close>

lemma isTunneledRestConfigPossible_iff:
  "isTunneledRestConfigPossible cp \<longleftrightarrow> (\<exists>kcp. cp = Some kcp \<and> t_Enabled (kcp_Tunneling kcp) \<and> kcp_WorkerEnabled kcp)"
  by (auto simp: isTunneledRestConfigPossible_def split: option.splits)

lemma fromKubeconfigSecret_reads:
  "P (Read (ReadSecret (fst key) (snd key))) \<Longrightarrow> emits P (fromKubeconfigSecretToRestConfig E key)"
  unfolding fromKubeconfigSecretToRestConfig_def
  by (auto intro!: emits_intros split: option.splits)

lemma getRESTConfig_reads: "emits is_read (getRESTConfig E kcp key)"
  unfolding getRESTConfig_def Let_def
  by (auto intro!: emits_intros fromKubeconfigSecret_reads)

lemma client_for_reads: "emits is_read (client_for E n rc)"
  unfolding client_for_def by (auto intro!: emits_intros split: option.splits)

lemma GetControllerRuntimeClient_reads: "emits is_read (GetControllerRuntimeClient E kcp key)"
  unfolding GetControllerRuntimeClient_def
  by (intro emits_intros getRESTConfig_reads client_for_reads)

lemma getWorkloadClusterClientset_reads: "emits is_read (getWorkloadClusterClientset E cl)"
  unfolding getWorkloadClusterClientset_def GetWorkloadClusterClientset_def FindK0sControlPlane_def
  by (auto intro!: emits_intros getRESTConfig_reads client_for_reads)

lemma getRESTConfig_same_scope: "keeps same_scope (getRESTConfig E kcp key)"
  unfolding getRESTConfig_def fromKubeconfigSecretToRestConfig_def Let_def
  by (auto intro!: same_scope_rules split: option.splits)

lemma client_for_same_scope: "keeps same_scope (client_for E n rc)"
  unfolding client_for_def by (auto intro!: same_scope_rules split: option.splits)

lemma GetControllerRuntimeClient_same_scope: "keeps same_scope (GetControllerRuntimeClient E kcp key)"
  unfolding GetControllerRuntimeClient_def
  by (intro same_scope_rules getRESTConfig_same_scope client_for_same_scope)

lemma getWorkloadClusterClientset_same_scope: "keeps same_scope (getWorkloadClusterClientset E cl)"
  unfolding getWorkloadClusterClientset_def GetWorkloadClusterClientset_def FindK0sControlPlane_def
  by (auto intro!: same_scope_rules getRESTConfig_same_scope client_for_same_scope)

definition rest_source :: "env \<Rightarrow> K0sControlPlane option \<Rightarrow> string \<Rightarrow> string \<Rightarrow> read_req" where
  \<comment> \<open>the specification: the one place the configuration of a workload cluster comes from\<close>
  "rest_source E kcp ns cl =
     (if isTunneledRestConfigPossible kcp then
        ReadSecret ns (cl @ (if t_Mode (kcp_Tunneling (the kcp)) = ''proxy'' then ''-proxied'' else ''-tunneled'')
                       @ ''-kubeconfig'')
      else if e_hasClusterCache E then ReadRestConfig
      else ReadSecret ns (cl @ ''-kubeconfig''))"

lemma emits_list_all: "emits P m \<Longrightarrow> m s = (r, s') \<Longrightarrow> list_all P (new_events s s')"
  by (simp add: list_all_iff emits_new_events)

lemma getRESTConfig_emits: "emits (\<lambda>ev. ev = Read (rest_source E kcp ns cl)) (getRESTConfig E kcp (ns, cl))"
  unfolding getRESTConfig_def Let_def
  by (auto intro!: emits_intros fromKubeconfigSecret_reads simp: rest_source_def kubeconfig_secret_name_def)

lemma fromKubeconfigSecret_timeout:
  "fromKubeconfigSecretToRestConfig E key s = (Ok rc, s') \<Longrightarrow> rc_Timeout rc = workloadClusterTimeout"
  unfolding fromKubeconfigSecretToRestConfig_def
  by (auto elim!: bindM_OkE split: option.splits)

text \<open>
  The configuration for a workload cluster is read from exactly one place, the one the
  specification \<open>rest_source\<close> names: a tunneled control plane never falls back on the cluster
  cache or on another secret. A configuration read from a secret has the ten second
  timeout, and the only way to get no configuration and no error is a tunneled control plane with
  an unknown mode, which \<open>GetControllerRuntimeClient\<close> turns into an error.
\<close>
theorem rest_config_one_source:
  assumes run: "getRESTConfig E kcp (ns, cl) s = (r, s')"
  shows "list_all (\<lambda>ev. ev = Read (rest_source E kcp ns cl)) (new_events s s') \<and>
     (\<forall>rc. r = Ok (Some rc) \<and> rest_source E kcp ns cl \<noteq> ReadRestConfig \<longrightarrow> rc_Timeout rc = 10 * second) \<and>
     (r = Ok None \<longleftrightarrow> isTunneledRestConfigPossible kcp \<and>
        t_Mode (kcp_Tunneling (the kcp)) \<noteq> ''proxy'' \<and> t_Mode (kcp_Tunneling (the kcp)) \<noteq> ''tunnel'')"
proof (intro conjI allI impI)
  show "list_all (\<lambda>ev. ev = Read (rest_source E kcp ns cl)) (new_events s s')"
    by (rule emits_list_all [OF getRESTConfig_emits run])
next
  fix rc
  assume *: "r = Ok (Some rc) \<and> rest_source E kcp ns cl \<noteq> ReadRestConfig"
  with run show "rc_Timeout rc = 10 * second"
    unfolding getRESTConfig_def Let_def
    by (auto simp: rest_source_def workloadClusterTimeout_def elim!: bindM_OkE wrapM_OkE
        dest!: fromKubeconfigSecret_timeout split: if_splits)
next
  show "r = Ok None \<longleftrightarrow> isTunneledRestConfigPossible kcp \<and>
        t_Mode (kcp_Tunneling (the kcp)) \<noteq> ''proxy'' \<and> t_Mode (kcp_Tunneling (the kcp)) \<noteq> ''tunnel''"
    using run unfolding getRESTConfig_def Let_def
    by (auto elim!: bindM_OkE split: if_splits)
qed

theorem rest_config_one_source_witness:
  "\<exists>r s'. getRESTConfig (ref_env []) (Some (ref_kcp 3)) (''default'', ''c'') (ref_ctl (ref_scope 3 [] [] [])) = (r, s') \<and>
     list_all (\<lambda>ev. ev = Read ReadRestConfig) (new_events (ref_ctl (ref_scope 3 [] [] [])) s')"
proof -
  obtain r s' where run: "getRESTConfig (ref_env []) (Some (ref_kcp 3)) (''default'', ''c'')
      (ref_ctl (ref_scope 3 [] [] [])) = (r, s')"
    by fastforce
  have "rest_source (ref_env []) (Some (ref_kcp 3)) ''default'' ''c'' = ReadRestConfig"
    by (simp add: rest_source_def isTunneledRestConfigPossible_def ref_defs)
  with rest_config_one_source [OF run] run show ?thesis
    by auto
qed

end
