(* ===== verification/Node_Lifecycle.thy ===== *)
theory Node_Lifecycle
  imports Workload_Client
begin

text \<open>
  What the controller does to one member of the control plane: deleting its Machine, making its
  etcd member leave, deleting its control node, releasing the pre-terminate hook, and asking
  whether a new member has joined (\<open>helper.go\<close>, \<open>scale.go\<close>,
  \<open>k0s_controlplane_controller.go\<close>). The wait for the etcd member polls every ten seconds
  under a context of sixty; the model gives it one attempt per tick, so at most seven, and the
  clock of the environment may end it earlier. The theorems say that the hook is released only after
  the member has left, and that cleaning up keeps the scope a partition.
\<close>

definition ErrNewMachinesNotReady :: gerror where
  "ErrNewMachinesNotReady = Wrapf ''waiting for new machines'' ErrNotReady"

definition deleteMachine :: "env \<Rightarrow> string \<Rightarrow> K0sControlPlane \<Rightarrow> unit ctlM" where
  "deleteMachine E name kcp =
     tryM (writeM E (DeleteMachine (kcp_Namespace kcp) name))
       (\<lambda>r. case r of
          Inl e \<Rightarrow> if \<not> is_not_found e then failM (Wrapf ''error deleting machine'' e) else ret ()
        | Inr _ \<Rightarrow> ret ())"

subsection \<open>Leaving the etcd cluster\<close>

definition etcdMemberConditionTypeJoined :: string where "etcdMemberConditionTypeJoined = ''Joined''"

fun joined_false :: "json list \<Rightarrow> bool res" where
  \<comment> \<open>the loop of \<open>checkMachineLeft\<close>: a condition that is not an object panics\<close>
  "joined_false [] = Ok False"
| "joined_false (c # cs) =
     (case c of
        JObj ob \<Rightarrow> (if map_of ob ''type'' = Some (JStr etcdMemberConditionTypeJoined) \<and>
                       map_of ob ''status'' = Some (JStr ''False'')
                    then Ok True else joined_false cs)
      | _ \<Rightarrow> Panic)"

definition checkMachineLeft :: "lib \<Rightarrow> env \<Rightarrow> string \<Rightarrow> bool ctlM" where
  "checkMachineLeft L E name =
     tryM (readM (ReadEtcdMember name) (\<lambda>tr. e_GetEtcdMember E tr name))
       (\<lambda>r. case r of
          Inl e \<Rightarrow> if is_not_found e then ret True else failM (Wrapf ''error getting etcd member'' e)
        | Inr member \<Rightarrow>
            bindM (wrapM (Wrapf ''error getting etcd member conditions'')
                     (liftE (NestedSlice (jsons L) member [''status'', ''conditions'']))) (\<lambda>cs.
            bindM (liftR (joined_false (deref [] cs))) (\<lambda>left.
            if left then
              tryM (writeM E (DeleteEtcdMember name))
                (\<lambda>d. case d of
                   Inl e \<Rightarrow> if \<not> is_not_found e
                             then failM (Wrapf (''error deleting etcd member '' @ name) e) else ret True
                 | Inr _ \<Rightarrow> ret True)
            else ret False)))"

definition markChildControlNodeToLeave :: "env \<Rightarrow> string \<Rightarrow> clientset option \<Rightarrow> unit ctlM" where
  "markChildControlNodeToLeave E name client =
     (case client of
        None \<Rightarrow> ret ()
      | Some _ \<Rightarrow>
          tryM (writeM E (PatchEtcdMemberLeave name))
            (\<lambda>r. case r of
               Inr _ \<Rightarrow> ret ()
             | Inl _ \<Rightarrow>
                 tryM (writeM E (PatchControlNodeLeave name))
                   (\<lambda>q. case q of
                      Inl e \<Rightarrow> if \<not> is_not_found e
                                then failM (Wrapf ''error marking control node to leave'' e) else ret ()
                    | Inr _ \<Rightarrow> ret ())))"

definition deleteControlNode :: "env \<Rightarrow> string \<Rightarrow> clientset option \<Rightarrow> unit ctlM" where
  "deleteControlNode E name client =
     (case client of
        None \<Rightarrow> ret ()
      | Some _ \<Rightarrow>
          tryM (writeM E (DeleteControlNode name))
            (\<lambda>r. case r of
               Inl e \<Rightarrow> if \<not> is_not_found e then failM e else ret ()
             | Inr _ \<Rightarrow> ret ()))"

definition leave_member :: "lib \<Rightarrow> env \<Rightarrow> string \<Rightarrow> clientset \<Rightarrow> bool ctlM" where
  \<comment> \<open>one attempt of the poll\<close>
  "leave_member L E n client =
     bindM (wrapM (Wrapf ''error marking controlnode to leave'') (markChildControlNodeToLeave E n (Some client))) (\<lambda>_.
     checkMachineLeft L E n)"

fun poll_until :: "nat \<Rightarrow> env \<Rightarrow> int \<Rightarrow> bool ctlM \<Rightarrow> unit ctlM" where
  \<comment> \<open>\<open>wait.PollUntilContextCancel\<close>, immediate: try, then wait for a tick or for the deadline\<close>
  "poll_until 0 E deadline cond = failM (Errorf ''context deadline exceeded'')"
| "poll_until (Suc n) E deadline cond =
     bindM cond (\<lambda>done.
     if done then ret ()
     else bindM (nowM E) (\<lambda>now.
       if now \<ge> deadline then failM (Errorf ''context deadline exceeded'')
       else poll_until n E deadline cond))"

definition leave_attempts :: nat where
  \<comment> \<open>ticks of ten seconds in sixty seconds, and the immediate attempt\<close>
  "leave_attempts = 7"

definition without_hook :: "machine \<Rightarrow> machine" where
  "without_hook m = m\<lparr>m_Annotations := (m_Annotations m)(K0ControlPlanePreTerminateHookCleanupAnnotation := None)\<rparr>"

definition release_hook :: "env \<Rightarrow> machine \<Rightarrow> unit ctlM" where
  \<comment> \<open>the request of \<open>removePreTerminateHookAnnotationFromMachine\<close>\<close>
  "release_hook E m =
     (case m_Annotations m K0ControlPlanePreTerminateHookCleanupAnnotation of
        None \<Rightarrow> ret ()
      | Some _ \<Rightarrow> wrapM (Wrapf ''failed to remove pre-terminate hook from control plane Machine'')
                     (writeM E (PatchMachine m (without_hook m))))"

definition removePreTerminateHookAnnotationFromMachine :: "env \<Rightarrow> machine \<Rightarrow> unit ctlM" where
  \<comment> \<open>called with a pointer into the scope: the machine there loses the annotation first\<close>
  "removePreTerminateHookAnnotationFromMachine E m =
     bindM (if m_Annotations m K0ControlPlanePreTerminateHookCleanupAnnotation = None then ret ()
            else set_scopeM (\<lambda>sc. sc\<lparr>activeMachines := upd_machine (without_hook m) (activeMachines sc),
                                     deletedMachines := upd_machine (without_hook m) (deletedMachines sc)\<rparr>)) (\<lambda>_.
     release_hook E m)"

definition leave_control_plane :: "lib \<Rightarrow> env \<Rightarrow> controlplane \<Rightarrow> string \<Rightarrow> unit ctlM" where
  \<comment> \<open>the part of \<open>deleteK0sNodeResources\<close> that talks to an initialized control plane\<close>
  "leave_control_plane L E sc n =
     bindM (wrapM (Wrapf ''error getting cluster client set for deletion'')
              (getWorkloadClusterClientset E (cp_cluster sc))) (\<lambda>client.
     bindM (nowM E) (\<lambda>start.
     bindM (wrapM (Wrapf ''error checking machine left'')
              (poll_until leave_attempts E (start + 60 * second) (leave_member L E n client))) (\<lambda>_.
     wrapM (Wrapf ''error deleting controlnode'') (deleteControlNode E n (Some client)))))"

definition deleteK0sNodeResources :: "lib \<Rightarrow> env \<Rightarrow> machine \<Rightarrow> unit ctlM" where
  "deleteK0sNodeResources L E m =
     bindM scopeM (\<lambda>sc.
     bindM (if deref False (kst_ControlPlaneInitialized (kcp_Status (cp_kcp sc)))
            then leave_control_plane L E sc (m_Name m) else ret ()) (\<lambda>_.
     wrapM (Wrapf (''failed to remove pre-terminate hook from control plane Machine '' @ quoted (m_Name m)))
       (removePreTerminateHookAnnotationFromMachine E m)))"

subsection \<open>Machines deleted by hand\<close>

definition removeMachineFromScope :: "controlplane \<Rightarrow> string \<Rightarrow> controlplane" where
  "removeMachineFromScope sc n =
     sc\<lparr>activeMachines := filter (\<lambda>m. m_Name m \<noteq> n) (activeMachines sc),
        upToDateMachines := filter (\<lambda>x. x \<noteq> n) (upToDateMachines sc),
        notUpToDateMachines := filter (\<lambda>x. x \<noteq> n) (notUpToDateMachines sc),
        infraMachines := (infraMachines sc)(n := None),
        controllerConfigs := (controllerConfigs sc)(n := None),
        deletedMachines := filter (\<lambda>m. m_Name m \<noteq> n) (deletedMachines sc)\<rparr>"

definition errs_of :: "(gerror \<Rightarrow> gerror) \<Rightarrow> unit ctlM \<Rightarrow> gerror list ctlM" where
  \<comment> \<open>\<open>if err != nil \{ errs = append(errs, ...) \}\<close>\<close>
  "errs_of g m = tryM m (\<lambda>r. case r of Inl e \<Rightarrow> ret [g e] | Inr _ \<Rightarrow> ret [])"

definition manual_body :: "lib \<Rightarrow> env \<Rightarrow> machine \<Rightarrow> gerror list ctlM" where
  \<comment> \<open>the body of the second loop of \<open>reconcileManualDeletions\<close>\<close>
  "manual_body L E m = bindM scopeM (\<lambda>cur.
     case infraMachines cur (m_Name m) of
       Some _ \<Rightarrow> ret []
     | None \<Rightarrow>
         bindM (errs_of (Wrapf ''error deleting k0s node resources'') (deleteK0sNodeResources L E m)) (\<lambda>e1.
         bindM (errs_of (Wrapf ''error deleting machine'') (deleteMachine E (m_Name m) (cp_kcp cur))) (\<lambda>e2.
         bindM (set_scopeM (\<lambda>c. removeMachineFromScope c (m_Name m))) (\<lambda>_.
         ret (e1 @ e2)))))"

definition reconcileManualDeletions :: "lib \<Rightarrow> env \<Rightarrow> unit ctlM" where
  "reconcileManualDeletions L E =
     bindM scopeM (\<lambda>sc.
     bindM (collect_errs
              (\<lambda>m. errs_of (Wrapf (''error deleting k0s node resources for machine '' @ m_Name m))
                     (deleteK0sNodeResources L E m))
              (coll_SortedByCreationTimestamp (colls L) (deletedMachines sc))) (\<lambda>es.
     bindM (collect_errs
              (manual_body L E)
              (activeMachines sc)) (\<lambda>es'.
     retErr (new_aggregate (es @ es')))))"

subsection \<open>Has a new member joined?\<close>

definition checkMachineIsReady :: "env \<Rightarrow> string \<Rightarrow> cluster \<Rightarrow> unit ctlM" where
  "checkMachineIsReady E machineName cl =
     bindM (wrapM (Wrapf ''error getting cluster client set for machine update'')
              (getWorkloadClusterClientset E cl)) (\<lambda>_.
     tryM (readM (ReadControlNode machineName) (\<lambda>tr. e_GetControlNode E tr machineName))
       (\<lambda>r. case r of
          Inl e \<Rightarrow> if is_not_found e then failM ErrNewMachinesNotReady
                    else failM (Wrapf ''error getting controlnode'' e)
        | Inr joinedAt \<Rightarrow>
            bindM (nowM E) (\<lambda>now.
            if now - joinedAt < minute then failM ErrNewMachinesNotReady else ret ())))"

subsection \<open>The order of a removal\<close>

definition acked :: "gerror option \<Rightarrow> bool" where
  \<comment> \<open>a deletion is acknowledged when it succeeded or there was nothing to delete\<close>
  "acked d \<longleftrightarrow> (case d of None \<Rightarrow> True | Some e \<Rightarrow> is_not_found e)"

definition member_left :: "lib \<Rightarrow> env \<Rightarrow> event list \<Rightarrow> string \<Rightarrow> bool" where
  \<comment> \<open>at this point of the history the etcd member is gone or reports that it is not joined\<close>
  "member_left L E tr name \<longleftrightarrow>
     (case e_GetEtcdMember E tr name of
        Inl e \<Rightarrow> is_not_found e
      | Inr member \<Rightarrow> \<exists>cs. NestedSlice (jsons L) member [''status'', ''conditions''] = Inr cs \<and>
                          joined_false (deref [] cs) = Ok True)"

lemma checkMachineLeft_True:
  assumes "checkMachineLeft L E n s = (Ok True, s')"
  shows "member_left L E (trace s) n"
  using assms unfolding checkMachineLeft_def member_left_def
  by (auto simp: run_simps split: sum.splits res.splits if_splits)

lemma deleteControlNode_Ok:
  assumes "deleteControlNode E n (Some c) s = (Ok (), s')"
  shows "\<exists>d. trace s' = trace s @ [Wrote (DeleteControlNode n) d] \<and> acked d"
  using assms unfolding deleteControlNode_def acked_def
  by (auto simp: run_simps split: option.splits if_splits)

lemma poll_until_Ok:
  assumes "emits (\<lambda>_. True) cond" and "poll_until n E dl cond s = (Ok (), s')"
  shows "\<exists>s1 pre. trace s1 = trace s @ pre \<and> cond s1 = (Ok True, s')"
  using assms(2)
proof (induction n arbitrary: s)
  case (Suc n)
  from Suc.prems obtain d s1 where c: "cond s = (Ok d, s1)"
    and r: "(if d then ret () else bindM (nowM E) (\<lambda>now. if dl \<le> now then failM (Errorf ''context deadline exceeded'')
              else poll_until n E dl cond)) s1 = (Ok (), s')"
    by (auto elim!: bindM_OkE)
  show ?case
  proof (cases d)
    case True
    with c r show ?thesis by (intro exI [of _ s] exI [of _ "[]"]) simp
  next
    case False
    with r have "poll_until n E dl cond (log_event (Read ReadClock) s1) = (Ok (), s')"
      by (auto simp: run_bindM split: if_splits)
    from Suc.IH [OF this] obtain s2 pre where "trace s2 = trace s1 @ Read ReadClock # pre" "cond s2 = (Ok True, s')"
      by auto
    moreover have "trace s1 = trace s @ new_events s s1"
      by (rule emits_extends [OF assms(1) c])
    ultimately show ?thesis
      by (intro exI [of _ s2]) auto
  qed
qed simp

lemma poll_until_emits: "emits P cond \<Longrightarrow> P (Read ReadClock) \<Longrightarrow> emits P (poll_until n E dl cond)"
  by (induction n) (simp_all only: poll_until.simps, auto intro!: emits_intros)

definition is_machine_patch :: "event \<Rightarrow> bool" where
  "is_machine_patch ev \<longleftrightarrow> (case ev of Wrote (PatchMachine _ _) _ \<Rightarrow> True | _ \<Rightarrow> False)"

definition is_machine_request :: "event \<Rightarrow> bool" where
  \<comment> \<open>creating, deleting or patching a Machine\<close>
  "is_machine_request ev \<longleftrightarrow>
     (case ev of Wrote (ApplyMachine _) _ \<Rightarrow> True | Wrote (DeleteMachine _ _) _ \<Rightarrow> True | _ \<Rightarrow> is_machine_patch ev)"

lemma is_machine_request_simps [simp]:
  "\<not> is_machine_request (Read r)" "\<not> is_machine_patch (Read r)"
  "is_machine_patch (Wrote (PatchMachine a b) e)"
  "\<not> is_machine_request (Wrote (PatchEtcdMemberLeave n) e)"
  "\<not> is_machine_request (Wrote (PatchControlNodeLeave n) e)"
  "\<not> is_machine_request (Wrote (DeleteControlNode n) e)"
  "\<not> is_machine_request (Wrote (DeleteEtcdMember n) e)"
  "is_machine_request (Wrote (PatchMachine a b) e)"
  by (simp_all add: is_machine_request_def is_machine_patch_def)

lemma read_no_machine_request: "is_read ev \<Longrightarrow> \<not> is_machine_request ev"
  by (cases ev) (simp_all add: is_machine_request_def is_machine_patch_def is_read_def)

lemma patch_is_request: "is_machine_patch ev \<Longrightarrow> is_machine_request ev"
  by (auto simp: is_machine_request_def is_machine_patch_def split: event.splits write_req.splits)

lemmas clientset_no_request = emits_mono [OF getWorkloadClusterClientset_reads read_no_machine_request]

lemma leave_member_emits: "emits (\<lambda>ev. \<not> is_machine_request ev) (leave_member L E n client)"
  unfolding leave_member_def markChildControlNodeToLeave_def checkMachineLeft_def
  by (auto intro!: emits_intros split: option.splits sum.splits)

lemma leave_member_True:
  assumes "leave_member L E n client s = (Ok True, s')"
  shows "\<exists>pre. member_left L E (trace s @ pre) n \<and> (\<exists>mid. trace s' = trace s @ pre @ mid)"
proof -
  from assms obtain s1 where m: "wrapM (Wrapf ''error marking controlnode to leave'')
      (markChildControlNodeToLeave E n (Some client)) s = (Ok (), s1)"
    and c: "checkMachineLeft L E n s1 = (Ok True, s')"
    unfolding leave_member_def by (auto elim!: bindM_OkE)
  have e1: "emits (\<lambda>_. True) (wrapM (Wrapf ''error marking controlnode to leave'')
      (markChildControlNodeToLeave E n (Some client)))"
    unfolding markChildControlNodeToLeave_def by (auto intro!: emits_intros split: sum.splits)
  have e2: "emits (\<lambda>_. True) (checkMachineLeft L E n)"
    unfolding checkMachineLeft_def by (auto intro!: emits_intros split: sum.splits)
  show ?thesis
    using emits_extends [OF e1 m] emits_extends [OF e2 c] checkMachineLeft_True [OF c] by auto
qed

lemma leave_control_plane_emits: "emits (\<lambda>ev. \<not> is_machine_request ev) (leave_control_plane L E sc n)"
  unfolding leave_control_plane_def deleteControlNode_def
  by (auto intro!: emits_intros poll_until_emits leave_member_emits
      clientset_no_request split: sum.splits)

lemma leave_control_plane_Ok:
  assumes run: "leave_control_plane L E sc n s = (Ok (), s')"
  shows "\<exists>pre mid d. trace s' = trace s @ pre @ mid @ [Wrote (DeleteControlNode n) d] \<and>
     member_left L E (trace s @ pre) n \<and> acked d"
proof -
  from run obtain client s1 s2
    where g: "getWorkloadClusterClientset E (cp_cluster sc) s = (Ok client, s1)"
    and p: "poll_until leave_attempts E (e_Now E (trace s1) + 60 * second) (leave_member L E n client)
        (log_event (Read ReadClock) s1) = (Ok (), s2)"
    and d: "deleteControlNode E n (Some client) s2 = (Ok (), s')"
    unfolding leave_control_plane_def by (auto elim!: bindM_OkE wrapM_OkE)
  have any: "emits (\<lambda>_. True) (leave_member L E n client)"
    by (rule emits_mono [OF leave_member_emits]) simp
  from poll_until_Ok [OF any p] obtain s3 a where a: "trace s3 = trace (log_event (Read ReadClock) s1) @ a"
    and l: "leave_member L E n client s3 = (Ok True, s2)" by blast
  from leave_member_True [OF l] obtain b c where b: "member_left L E (trace s3 @ b) n"
    and c: "trace s2 = trace s3 @ b @ c" by blast
  from deleteControlNode_Ok [OF d] obtain x where x: "trace s' = trace s2 @ [Wrote (DeleteControlNode n) x]" "acked x"
    by blast
  have "trace s1 = trace s @ new_events s s1"
    by (rule emits_extends [OF getWorkloadClusterClientset_reads g])
  with a b c x show ?thesis
    by (intro exI [of _ "new_events s s1 @ [Read ReadClock] @ a @ b"] exI [of _ c] exI [of _ x]) simp
qed

lemma removeHook_trace:
  "trace (snd (removePreTerminateHookAnnotationFromMachine E m s)) = trace s \<or>
   (\<exists>m' e. trace (snd (removePreTerminateHookAnnotationFromMachine E m s)) =
      trace s @ [Wrote (PatchMachine m m') e])"
  by (auto simp: removePreTerminateHookAnnotationFromMachine_def release_hook_def run_simps split: option.splits)

text \<open>
  C3 (safety). On an initialized control plane the pre-terminate hook of a machine is released,
  that is, its Machine is patched, only as the very last step: before it the etcd member
  was seen gone or no longer joined, and then the deletion of its control node was
  acknowledged. Otherwise etcd would lose a member that is still counted in the quorum.
\<close>
theorem hook_released_after_member_left:
  assumes run: "deleteK0sNodeResources L E m s = (r, s')"
    and init: "kst_ControlPlaneInitialized (kcp_Status (cp_kcp (scope s))) = Some True"
    and patched: "list_ex is_machine_patch (new_events s s')"
  shows "\<exists>pre mid d m' e. new_events s s' = pre @ mid @
       [Wrote (DeleteControlNode (m_Name m)) d, Wrote (PatchMachine m m') e] \<and>
     member_left L E (trace s @ pre) (m_Name m) \<and> acked d"
proof -
  obtain q s1 where lv: "leave_control_plane L E (scope s) (m_Name m) s = (q, s1)"
    by fastforce
  note ext = emits_extends [OF leave_control_plane_emits lv]
  have clean: "\<not> list_ex is_machine_patch (new_events s s1)"
  proof -
    have "\<not> is_machine_request ev" if "ev \<in> set (new_events s s1)" for ev
      using emits_new_events [OF leave_control_plane_emits lv that] .
    then show ?thesis
      using patch_is_request by (auto simp: list_ex_iff)
  qed
  show ?thesis
  proof (cases q)
    case (Ok u)
    then have lv': "leave_control_plane L E (scope s) (m_Name m) s = (Ok (), s1)" using lv by simp
    from leave_control_plane_Ok [OF lv'] obtain pre mid d where pm: "trace s1 = trace s @ pre @ mid @
        [Wrote (DeleteControlNode (m_Name m)) d]" "member_left L E (trace s @ pre) (m_Name m)" "acked d"
      by blast
    have fin: "s' = snd (removePreTerminateHookAnnotationFromMachine E m s1)"
      using run init lv' unfolding deleteK0sNodeResources_def
      by (auto simp: run_bindM run_wrapM split: prod.splits)
    with removeHook_trace [of E m s1] clean patched obtain m' e
      where "trace s' = trace s1 @ [Wrote (PatchMachine m m') e]"
      by (auto simp: new_events_def)
    with pm show ?thesis
      by (intro exI [of _ pre] exI [of _ mid] exI [of _ d] exI [of _ m'] exI [of _ e]) (simp add: new_events_def)
  next
    case (Err x)
    then have "s' = s1"
      using run init lv unfolding deleteK0sNodeResources_def by (auto simp: run_bindM)
    with patched clean show ?thesis by simp
  next
    case Panic
    then have "s' = s1"
      using run init lv unfolding deleteK0sNodeResources_def by (auto simp: run_bindM)
    with patched clean show ?thesis by simp
  qed
qed

definition ref_hooked :: machine where
  "ref_hooked = (ref_machine ''a'' 1)\<lparr>m_Annotations := [K0ControlPlanePreTerminateHookCleanupAnnotation \<mapsto> []]\<rparr>"

theorem hook_released_after_member_left_witness:
  "\<exists>r s'. deleteK0sNodeResources ref_lib (ref_env [ref_hooked]) ref_hooked (ref_ctl (ref_scope 3 [ref_hooked] [] [])) = (r, s') \<and>
     (\<exists>d m' e. [Wrote (DeleteControlNode ''a'') d, Wrote (PatchMachine ref_hooked m') e] =
        drop (length (new_events (ref_ctl (ref_scope 3 [ref_hooked] [] [])) s') - 2)
          (new_events (ref_ctl (ref_scope 3 [ref_hooked] [] [])) s'))"
proof -
  let ?s = "ref_ctl (ref_scope 3 [ref_hooked] [] [])"
  obtain r s' where run: "deleteK0sNodeResources ref_lib (ref_env [ref_hooked]) ref_hooked ?s = (r, s')"
    by fastforce
  have init: "kst_ControlPlaneInitialized (kcp_Status (cp_kcp (scope ?s))) = Some True"
    by (simp add: ref_defs)
  have "list_ex is_machine_patch (new_events ?s s')"
    using run
    by (auto simp: deleteK0sNodeResources_def leave_control_plane_def getWorkloadClusterClientset_def
        GetWorkloadClusterClientset_def FindK0sControlPlane_def getRESTConfig_def client_for_def
        isTunneledRestConfigPossible_def leave_attempts_def numeral_eq_Suc leave_member_def
        markChildControlNodeToLeave_def checkMachineLeft_def deleteControlNode_def
        removePreTerminateHookAnnotationFromMachine_def release_hook_def without_hook_def Let_def run_simps ref_defs ref_hooked_def new_events_def)
  from hook_released_after_member_left [OF run init this] obtain pre mid d m' e
    where "new_events ?s s' = (pre @ mid) @ [Wrote (DeleteControlNode ''a'') d, Wrote (PatchMachine ref_hooked m') e]"
    by (auto simp: ref_hooked_def ref_machine_def)
  with run show ?thesis
    by (auto simp del: append_assoc)
qed

subsection \<open>Cleaning up the scope\<close>

definition same_names :: "controlplane \<Rightarrow> controlplane \<Rightarrow> bool" where
  \<comment> \<open>equal but for the contents of the machines\<close>
  "same_names sc sc' \<longleftrightarrow>
     map m_Name (activeMachines sc') = map m_Name (activeMachines sc) \<and>
     map m_Name (deletedMachines sc') = map m_Name (deletedMachines sc) \<and>
     upToDateMachines sc' = upToDateMachines sc \<and> notUpToDateMachines sc' = notUpToDateMachines sc \<and>
     infraMachines sc' = infraMachines sc \<and> controllerConfigs sc' = controllerConfigs sc \<and>
     cp_kcp sc' = cp_kcp sc \<and> cp_cluster sc' = cp_cluster sc"

definition names_kept :: "ctl \<Rightarrow> ctl \<Rightarrow> bool" where
  "names_kept s s' \<longleftrightarrow> same_names (scope s) (scope s')"

lemma same_names_refl [simp]: "same_names sc sc"
  by (simp add: same_names_def)

lemma same_names_trans: "same_names a b \<Longrightarrow> same_names b c \<Longrightarrow> same_names a c"
  by (simp add: same_names_def)

interpretation names_kept: frame_order names_kept
  by unfold_locales (auto simp: names_kept_def intro: same_names_trans)

lemma same_names_fields:
  assumes "same_names sc sc'"
  shows "infraMachines sc' = infraMachines sc" "cp_kcp sc' = cp_kcp sc"
    "m_Name ` set (activeMachines sc') = m_Name ` set (activeMachines sc)"
    "m_Name ` set (deletedMachines sc') = m_Name ` set (deletedMachines sc)"
    "length (activeMachines sc') = length (activeMachines sc)"
  using assms unfolding same_names_def by (metis set_map length_map)+

lemma same_names_wf: "same_names sc sc' \<Longrightarrow> scope_wf sc' \<longleftrightarrow> scope_wf sc"
  unfolding scope_wf_def using same_names_fields(3,4) [of sc sc'] by (simp add: same_names_def)

lemma filter_names: "map m_Name xs = map m_Name ys \<Longrightarrow>
    map m_Name (filter (\<lambda>m. P (m_Name m)) xs) = map m_Name (filter (\<lambda>m. P (m_Name m)) ys)"
proof (induction xs arbitrary: ys)
  case (Cons x xs)
  then show ?case by (cases ys) auto
qed simp

lemma same_names_remove: "same_names sc sc' \<Longrightarrow> same_names (removeMachineFromScope sc n) (removeMachineFromScope sc' n)"
  using filter_names [of "activeMachines sc'" "activeMachines sc" "\<lambda>x. x \<noteq> n"]
    filter_names [of "deletedMachines sc'" "deletedMachines sc" "\<lambda>x. x \<noteq> n"]
  by (simp add: same_names_def removeMachineFromScope_def)

lemma removeMachineFromScope_wf: "scope_wf sc \<Longrightarrow> scope_wf (removeMachineFromScope sc n)"
  unfolding scope_wf_def removeMachineFromScope_def
  by (auto simp: distinct_map_filter)

lemma names_kept_of_same_scope: "keeps same_scope m \<Longrightarrow> keeps names_kept m"
  by (simp add: keeps_def same_scope_def names_kept_def)

lemma poll_until_same_scope: "keeps same_scope cond \<Longrightarrow> keeps same_scope (poll_until n E dl cond)"
  by (induction n) (simp_all only: poll_until.simps, auto intro!: same_scope_rules)

lemma leave_control_plane_same_scope: "keeps same_scope (leave_control_plane L E sc n)"
  unfolding leave_control_plane_def leave_member_def markChildControlNodeToLeave_def checkMachineLeft_def
    deleteControlNode_def
  by (auto intro!: same_scope_rules poll_until_same_scope getWorkloadClusterClientset_same_scope
      split: sum.splits)

lemma deleteK0sNodeResources_names: "keeps names_kept (deleteK0sNodeResources L E m)"
proof -
  have "keeps names_kept (removePreTerminateHookAnnotationFromMachine E m)"
    unfolding removePreTerminateHookAnnotationFromMachine_def release_hook_def
    by (auto simp: keeps_def names_kept_def same_names_def without_hook_def run_simps split: option.splits)
  then show ?thesis
    unfolding deleteK0sNodeResources_def
    by (auto intro!: names_kept.keeps_intros names_kept_of_same_scope [OF leave_control_plane_same_scope]
        names_kept_of_same_scope [OF same_scope_scopeM])
qed

lemma deleteMachine_same_scope: "keeps same_scope (deleteMachine E n kcp)"
  unfolding deleteMachine_def by (auto intro!: same_scope_rules split: sum.splits)

definition drop_gone :: "machine list \<Rightarrow> controlplane \<Rightarrow> controlplane" where
  \<comment> \<open>the specification of the second loop: machines whose infrastructure is gone leave the scope\<close>
  "drop_gone ms sc = fold (\<lambda>m c. if infraMachines c (m_Name m) = None then removeMachineFromScope c (m_Name m) else c) ms sc"

lemma drop_gone_wf: "scope_wf sc \<Longrightarrow> scope_wf (drop_gone ms sc)"
  unfolding drop_gone_def by (induction ms arbitrary: sc) (simp_all add: removeMachineFromScope_wf)

lemma drop_gone_infra: "infraMachines (drop_gone ms sc) = infraMachines sc"
  unfolding drop_gone_def
  by (induction ms arbitrary: sc) (auto simp: removeMachineFromScope_def fun_upd_idem)

lemma drop_gone_active: "activeMachines (drop_gone ms sc) =
    filter (\<lambda>m. infraMachines sc (m_Name m) \<noteq> None \<or> m_Name m \<notin> m_Name ` set ms) (activeMachines sc)"
  unfolding drop_gone_def
proof (induction ms arbitrary: sc)
  case (Cons x ms)
  show ?case
    by (cases "infraMachines sc (m_Name x) = None")
      (auto simp: Cons.IH removeMachineFromScope_def fun_upd_idem intro!: filter_cong)
qed simp

lemma drop_gone_same_names: "same_names sc sc' \<Longrightarrow> same_names (drop_gone ms sc) (drop_gone ms sc')"
  unfolding drop_gone_def
  by (induction ms arbitrary: sc sc') (auto simp: same_names_fields(1) same_names_remove)

lemma errs_of_not_Err: "errs_of g m s = (r, s') \<Longrightarrow> r \<noteq> Err e"
  by (auto simp: errs_of_def run_tryM split: prod.splits res.splits)

lemma errs_of_names: "keeps names_kept m \<Longrightarrow> keeps names_kept (errs_of g m)"
  unfolding errs_of_def by (auto intro!: names_kept.keeps_intros split: sum.splits)

lemma manual_body_Ok:
  assumes "manual_body L E m s = (Ok es, s')"
  shows "same_names (drop_gone [m] (scope s)) (scope s')"
proof (cases "infraMachines (scope s) (m_Name m)")
  case None
  with assms obtain a b s1 s2
    where 1: "errs_of (Wrapf ''error deleting k0s node resources'') (deleteK0sNodeResources L E m) s = (Ok a, s1)"
      and 2: "errs_of (Wrapf ''error deleting machine'') (deleteMachine E (m_Name m) (cp_kcp (scope s))) s1 = (Ok b, s2)"
      and 3: "scope s' = removeMachineFromScope (scope s2) (m_Name m)"
    unfolding manual_body_def by (auto elim!: bindM_OkE)
  have "names_kept s s1"
    using keepsD [OF errs_of_names [OF deleteK0sNodeResources_names] 1] .
  moreover have "names_kept s1 s2"
    using keepsD [OF errs_of_names [OF names_kept_of_same_scope [OF deleteMachine_same_scope]] 2] .
  ultimately show ?thesis
    using None 3 by (auto simp: drop_gone_def names_kept_def intro: same_names_remove same_names_trans)
next
  case (Some u)
  with assms show ?thesis
    by (simp add: manual_body_def run_bindM drop_gone_def)
qed

lemma manual_loop_Ok:
  "collect_errs (manual_body L E) ms s = (Ok es, s') \<Longrightarrow> same_names (drop_gone ms (scope s)) (scope s')"
proof (induction ms arbitrary: s es)
  case Nil
  then show ?case by (simp add: drop_gone_def)
next
  case (Cons m ms)
  then obtain a b s1 where 1: "manual_body L E m s = (Ok a, s1)" and 2: "collect_errs (manual_body L E) ms s1 = (Ok b, s')"
    by (auto elim!: bindM_OkE)
  have "same_names (drop_gone ms (drop_gone [m] (scope s))) (drop_gone ms (scope s1))"
    by (rule drop_gone_same_names [OF manual_body_Ok [OF 1]])
  moreover note Cons.IH [OF 2]
  moreover have "drop_gone (m # ms) (scope s) = drop_gone ms (drop_gone [m] (scope s))"
    by (simp add: drop_gone_def)
  ultimately show ?case by (metis same_names_trans)
qed

lemma collect_errs_not_Err:
  assumes "\<And>x s r s'. f x s = (r, s') \<Longrightarrow> \<forall>e. r \<noteq> Err e"
  shows "collect_errs f xs s = (r, s') \<Longrightarrow> r \<noteq> Err e"
proof (induction xs arbitrary: s r)
  case (Cons x xs)
  show ?case
    using Cons.prems assms [of x s] Cons.IH
    by (auto simp: run_bindM split: prod.splits res.splits)
qed simp

lemma manual_body_not_Err: "manual_body L E m s = (r, s') \<Longrightarrow> r \<noteq> Err e"
  unfolding manual_body_def
  by (auto simp: run_bindM split: option.splits prod.splits res.splits dest: errs_of_not_Err)

lemma reconcileManualDeletions_scope:
  assumes run: "reconcileManualDeletions L E s = (r, s')" and "r \<noteq> Panic"
  shows "same_names (drop_gone (activeMachines (scope s)) (scope s)) (scope s')"
proof -
  let ?ms = "coll_SortedByCreationTimestamp (colls L) (deletedMachines (scope s))"
  let ?f = "\<lambda>m. errs_of (Wrapf (''error deleting k0s node resources for machine '' @ m_Name m)) (deleteK0sNodeResources L E m)"
  obtain r1 s1 where 1: "collect_errs ?f ?ms s = (r1, s1)" by fastforce
  have ne1: "r1 \<noteq> Err e" for e
    by (rule collect_errs_not_Err [OF _ 1]) (auto dest: errs_of_not_Err)
  have "keeps names_kept (collect_errs ?f ?ms)"
    by (intro names_kept.keeps_collect_errs errs_of_names deleteK0sNodeResources_names)
  then have k1: "names_kept s s1"
    using 1 by (rule keepsD)
  obtain r2 s2 where 2: "collect_errs (manual_body L E) (activeMachines (scope s)) s1 = (r2, s2)" by fastforce
  have ne2: "r2 \<noteq> Err e" for e
    by (rule collect_errs_not_Err [OF _ 2]) (auto dest: manual_body_not_Err)
  have "s' = s2" and "\<exists>es. r2 = Ok es"
    using run assms(2) 1 2 ne1 ne2 unfolding reconcileManualDeletions_def
    by (cases r1; cases r2; auto simp: run_bindM retErr_def split: option.splits)+
  then have "same_names (drop_gone (activeMachines (scope s)) (scope s1)) (scope s')"
    using 2 manual_loop_Ok by blast
  moreover have "same_names (drop_gone (activeMachines (scope s)) (scope s)) (drop_gone (activeMachines (scope s)) (scope s1))"
    using k1 unfolding names_kept_def by (rule drop_gone_same_names)
  ultimately show ?thesis
    by (rule same_names_trans [rotated])
qed

text \<open>
  Whatever the workload cluster and the API server answer, and whichever errors are
  collected, \<open>reconcileManualDeletions\<close> leaves a well-formed scope in which exactly the
  machines whose infrastructure still exists are active, so the scaling decisions
  that follow never count a machine that is gone.
\<close>
theorem manual_deletions_keep_partition:
  assumes "reconcileManualDeletions L E s = (r, s')" and "r \<noteq> Panic" and "scope_wf (scope s)"
  shows "scope_wf (scope s') \<and>
     map m_Name (activeMachines (scope s')) =
       map m_Name (filter (\<lambda>m. infraMachines (scope s) (m_Name m) \<noteq> None) (activeMachines (scope s))) \<and>
     infraMachines (scope s') = infraMachines (scope s)"
proof -
  let ?d = "drop_gone (activeMachines (scope s)) (scope s)"
  have sn: "same_names ?d (scope s')"
    using assms(1,2) by (rule reconcileManualDeletions_scope)
  have "activeMachines ?d = filter (\<lambda>m. infraMachines (scope s) (m_Name m) \<noteq> None) (activeMachines (scope s))"
    unfolding drop_gone_active by (intro filter_cong) auto
  then show ?thesis
    using sn same_names_wf [OF sn] drop_gone_wf [OF assms(3)] same_names_fields(1) [OF sn]
    by (simp add: same_names_def drop_gone_infra)
qed

theorem manual_deletions_keep_partition_witness:
  "\<exists>r s'. reconcileManualDeletions ref_lib (ref_env [])
       (ref_ctl ((ref_scope 3 [ref_machine ''a'' 1, ref_machine ''b'' 2] [] [''a''])
          \<lparr>infraMachines := [''a'' \<mapsto> ref_infra ''a'']\<rparr>)) = (r, s') \<and>
     map m_Name (activeMachines (scope s')) = [''a'']"
proof -
  let ?s = "ref_ctl ((ref_scope 3 [ref_machine ''a'' 1, ref_machine ''b'' 2] [] [''a''])
          \<lparr>infraMachines := [''a'' \<mapsto> ref_infra ''a'']\<rparr>)"
  obtain r s' where run: "reconcileManualDeletions ref_lib (ref_env []) ?s = (r, s')"
    by fastforce
  have "r \<noteq> Panic"
    using run
    by (auto simp: reconcileManualDeletions_def manual_body_def errs_of_def deleteMachine_def
        deleteK0sNodeResources_def leave_control_plane_def getWorkloadClusterClientset_def
        GetWorkloadClusterClientset_def FindK0sControlPlane_def getRESTConfig_def client_for_def
        isTunneledRestConfigPossible_def leave_attempts_def numeral_eq_Suc leave_member_def
        markChildControlNodeToLeave_def checkMachineLeft_def deleteControlNode_def new_aggregate_def
        removePreTerminateHookAnnotationFromMachine_def release_hook_def without_hook_def Let_def run_simps ref_defs)
  moreover have "scope_wf (scope ?s)"
    by (simp add: scope_wf_def ref_defs insert_commute)
  ultimately show ?thesis
    using manual_deletions_keep_partition [OF run] run by (auto simp: ref_defs)
qed

text \<open>
  A new member counts as ready exactly when its control node can be read and was created
  at least a minute ago by the controller's clock: until then the error is
  \<open>ErrNewMachinesNotReady\<close>, which callers recognise as \<open>ErrNotReady\<close>.
\<close>
theorem checkMachineIsReady_cooldown:
  assumes "getWorkloadClusterClientset E cl s = (Ok client, s1)"
    and "e_GetControlNode E (trace s1) n = Inr joinedAt"
    and "r = fst (checkMachineIsReady E n cl s)"
  shows "if e_Now E (trace s1 @ [Read (ReadControlNode n)]) \<ge> joinedAt + 60 * second then r = Ok ()
     else \<exists>e. r = Err e \<and> error_is e ErrNotReady"
  using assms
  by (auto simp: checkMachineIsReady_def run_simps minute_def ErrNewMachinesNotReady_def)

theorem checkMachineIsReady_cooldown_witness:
  "fst (checkMachineIsReady (ref_env []) ''a'' ref_cluster (ref_ctl (ref_scope 3 [] [] []))) = Ok ()"
proof -
  let ?s = "ref_ctl (ref_scope 3 [] [] [])"
  obtain c s1 where "getWorkloadClusterClientset (ref_env []) ref_cluster ?s = (Ok c, s1)"
    by (simp add: getWorkloadClusterClientset_def GetWorkloadClusterClientset_def FindK0sControlPlane_def
        getRESTConfig_def client_for_def isTunneledRestConfigPossible_def Let_def run_simps ref_defs)
  from checkMachineIsReady_cooldown [OF this, of "''a''" 0] show ?thesis
    by (simp add: ref_env_def second_def)
qed

end
