(* ===== verification/Autopilot.thy ===== *)
theory Autopilot
  imports Node_Lifecycle
begin

text \<open>
  The autopilot plans that upgrade k0s in place (\<open>internal/autopilot/autopilot.go\<close>).
  \<open>CreatePlan\<close> splices its parameters into a JSON text; the model is the value of that text
  for parameters that need no escaping, which Kubernetes names, versions and URLs are. In
  particular an empty list of nodes is spliced as a list with one empty string. Ranging over a
  Go map is ranging over the association list, in its order. A failed type assertion without
  the second result is a panic.
\<close>

definition ControllersTarget :: string where "ControllersTarget = ''controllers''"
definition WorkersTarget :: string where "WorkersTarget = ''workers''"

record PlanParameters =
  pl_ID :: string
  pl_Timestamp :: string
  pl_Version :: string
  pl_DownloadURL :: string
  pl_Target :: string
  pl_Nodes :: "string list"

definition GetPlan :: "env \<Rightarrow> object ctlM" where
  "GetPlan E = wrapM (Wrapf ''error getting autopilot plan'') (readM ReadPlan (e_GetPlan E))"

definition DeletePlan :: "env \<Rightarrow> unit ctlM" where
  "DeletePlan E = writeM E RemovePlan"

definition plan_url :: "PlanParameters \<Rightarrow> string \<Rightarrow> string" where
  \<comment> \<open>the download URL for an architecture\<close>
  "plan_url p arch =
     (let url = (if pl_DownloadURL p = [] then DefaultK0sDownloadURL else pl_DownloadURL p) in
      if url \<noteq> DefaultK0sDownloadURL then url
      else ''https://get.k0sproject.io/'' @ pl_Version p @ ''/k0s-'' @ pl_Version p @ ''-'' @ arch)"

definition plan_nodes :: "PlanParameters \<Rightarrow> string list" where
  \<comment> \<open>\<open>["` + strings.Join(params.Nodes, `","`) + `"]\<close>\<close>
  "plan_nodes p = (if pl_Nodes p = [] then [[]] else pl_Nodes p)"

definition plan_object :: "PlanParameters \<Rightarrow> object" where
  "plan_object p =
     [(''apiVersion'', JStr ''autopilot.k0sproject.io/v1beta2''),
      (''kind'', JStr ''Plan''),
      (''metadata'', JObj [(''name'', JStr ''autopilot'')]),
      (''spec'', JObj
        [(''id'', JStr (pl_ID p)),
         (''timestamp'', JStr (pl_Timestamp p)),
         (''commands'', JArr [JObj [(''k0supdate'', JObj
            [(''version'', JStr (pl_Version p)),
             (''platforms'', JObj
               [(''linux-amd64'', JObj [(''url'', JStr (plan_url p ''amd64''))]),
                (''linux-arm64'', JObj [(''url'', JStr (plan_url p ''arm64''))]),
                (''linux-arm'', JObj [(''url'', JStr (plan_url p ''arm''))])]),
             (''targets'', JObj
               [(pl_Target p, JObj [(''discovery'', JObj [(''static'', JObj
                  [(''nodes'', JArr (map JStr (plan_nodes p)))])])])])])]])])]"

definition CreatePlan :: "env \<Rightarrow> PlanParameters \<Rightarrow> unit ctlM" where
  "CreatePlan E p = writeM E (PostPlan (plan_object p))"

definition IsPlanCompleted :: "json_lib \<Rightarrow> object \<Rightarrow> gerror + bool" where
  "IsPlanCompleted J plan =
     (case NestedString J plan [''status'', ''state''] of
        Inl e \<Rightarrow> Inl (Wrapf (''error getting autopilot plan'' @ [CHR 0x27] @ ''s state'') e)
      | Inr None \<Rightarrow> Inl (Errorf ''autopilot plan state not found'')
      | Inr (Some state) \<Rightarrow>
          (if state = ''Completed'' then Inr True
           else if state \<in> set [''NewPlan'', ''Schedulable'', ''SchedulableWait''] then Inr False
           else Inl (Wrapl ErrUnexpectedPlanState state)))"

fun target_nodes :: "json_lib \<Rightarrow> object \<Rightarrow> gerror + string list" where
  \<comment> \<open>the loop of \<open>GetPlanTargetNodes\<close>\<close>
  "target_nodes J [] = Inr []"
| "target_nodes J ((targetName, targetValue) # rest) =
     (case targetValue of
        JObj targetMap \<Rightarrow>
          (case NestedStringSlice J targetMap [''discovery'', ''static'', ''nodes''] of
             Inl e \<Rightarrow> Inl (Wrapf (''error reading nodes for target '' @ targetName) e)
           | Inr None \<Rightarrow> target_nodes J rest
           | Inr (Some ns) \<Rightarrow> (case target_nodes J rest of Inl e \<Rightarrow> Inl e | Inr ms \<Rightarrow> Inr (ns @ ms)))
      | _ \<Rightarrow> target_nodes J rest)"

definition GetPlanTargetNodes :: "json_lib \<Rightarrow> object \<Rightarrow> gerror + string list" where
  "GetPlanTargetNodes J plan =
     (case NestedSlice J plan [''spec'', ''commands''] of
        Inl e \<Rightarrow> Inl (Wrapf ''error reading spec.commands'' e)
      | Inr None \<Rightarrow> Inl (Errorf ''no commands found in plan'')
      | Inr (Some []) \<Rightarrow> Inl (Errorf ''no commands found in plan'')
      | Inr (Some (JObj firstCommand # _)) \<Rightarrow>
          (case NestedMap J firstCommand [''k0supdate'', ''targets''] of
             Inl e \<Rightarrow> Inl (Wrapf ''error reading k0supdate.targets'' e)
           | Inr None \<Rightarrow> Inl (Errorf ''no targets found in plan'')
           | Inr (Some targets) \<Rightarrow> target_nodes J targets)
      | Inr (Some _) \<Rightarrow> Inl (Errorf ''unexpected type for command''))"

definition nil_wrapped :: "string \<Rightarrow> gerror" where
  \<comment> \<open>\<open>fmt.Errorf("msg: %w", nil)\<close>\<close>
  "nil_wrapped msg = Errorf (msg @ '': %!w(<nil>)'')"

definition GetPlanTargetVersion :: "json_lib \<Rightarrow> object \<Rightarrow> string res" where
  "GetPlanTargetVersion J plan =
     (let cmsg = ''error getting current autopilot plan'' @ [CHR 0x27] @ ''s commands'';
          vmsg = ''error getting current autopilot plan'' @ [CHR 0x27] @ ''s version''
      in case NestedSlice J plan [''spec'', ''commands''] of
           Inl e \<Rightarrow> Err (Wrapf cmsg e)
         | Inr None \<Rightarrow> Err (nil_wrapped cmsg)
         | Inr (Some []) \<Rightarrow> Err (nil_wrapped cmsg)
         | Inr (Some (JObj firstCommand # _)) \<Rightarrow>
             (case NestedString J firstCommand [''k0supdate'', ''version''] of
                Inl e \<Rightarrow> Err (Wrapf vmsg e)
              | Inr None \<Rightarrow> Err (nil_wrapped vmsg)
              | Inr (Some v) \<Rightarrow> Ok v)
         | Inr (Some _) \<Rightarrow> Panic)"

subsection \<open>Properties\<close>

lemma plan_command:
  assumes "json_laws J"
  shows "\<exists>c rest. NestedSlice J (plan_object p) [''spec'', ''commands''] = Inr (Some (JObj c # rest)) \<and>
     NestedMap J c [''k0supdate'', ''targets''] = Inr (Some
       [(pl_Target p, JObj [(''discovery'', JObj [(''static'', JObj [(''nodes'', JArr (map JStr (plan_nodes p)))])])])]) \<and>
     NestedString J c [''k0supdate'', ''version''] = Inr (Some (pl_Version p))"
proof -
  obtain c where s: "nested_lookup (plan_object p) [''spec'', ''commands''] = Some (JArr [JObj c])"
    and t: "nested_lookup c [''k0supdate'', ''targets''] = Some (JObj
       [(pl_Target p, JObj [(''discovery'', JObj [(''static'', JObj [(''nodes'', JArr (map JStr (plan_nodes p)))])])])])"
    and v: "nested_lookup c [''k0supdate'', ''version''] = Some (JStr (pl_Version p))"
    by (simp add: plan_object_def)
  show ?thesis
    using json_lawsD(1) [OF assms s] json_lawsD(2) [OF assms t] json_lawsD(3) [OF assms v] by auto
qed

text \<open>
  Reading back the plan \<open>CreatePlan\<close> posts gives the version it was created
  for and, for a non-empty list of nodes, exactly those nodes; a plan for no node at all reads back
  as a plan for one node with an empty name.
\<close>
theorem plan_roundtrip:
  assumes "json_laws J"
  shows "GetPlanTargetVersion J (plan_object p) = Ok (pl_Version p) \<and>
     GetPlanTargetNodes J (plan_object p) = Inr (if pl_Nodes p = [] then [[]] else pl_Nodes p)"
proof -
  obtain c rest where s: "NestedSlice J (plan_object p) [''spec'', ''commands''] = Inr (Some (JObj c # rest))"
    and t: "NestedMap J c [''k0supdate'', ''targets''] = Inr (Some
       [(pl_Target p, JObj [(''discovery'', JObj [(''static'', JObj [(''nodes'', JArr (map JStr (plan_nodes p)))])])])])"
    and v: "NestedString J c [''k0supdate'', ''version''] = Inr (Some (pl_Version p))"
    using plan_command [OF assms] by blast
  have "NestedStringSlice J [(''discovery'', JObj [(''static'', JObj [(''nodes'', JArr (map JStr (plan_nodes p)))])])]
      [''discovery'', ''static'', ''nodes''] = Inr (Some (plan_nodes p))"
    by (rule json_lawsD(4) [OF assms]) simp
  with s t v show ?thesis
    by (simp add: GetPlanTargetVersion_def GetPlanTargetNodes_def plan_nodes_def)
qed

theorem plan_roundtrip_witness:
  "GetPlanTargetNodes ref_json (plan_object \<lparr>pl_ID = ''id-cp-1'', pl_Timestamp = ''1'', pl_Version = ''v1.31.2+k0s.0'',
     pl_DownloadURL = [], pl_Target = ControllersTarget, pl_Nodes = [''a'', ''b'']\<rparr>) = Inr [''a'', ''b'']"
  using plan_roundtrip [OF ref_json_laws, of "\<lparr>pl_ID = ''id-cp-1'', pl_Timestamp = ''1'', pl_Version = ''v1.31.2+k0s.0'',
     pl_DownloadURL = [], pl_Target = ControllersTarget, pl_Nodes = [''a'', ''b'']\<rparr>"]
  by simp

end
