(* ===== verification/Remediation.thy ===== *)
theory Remediation
  imports Node_Lifecycle
begin

text \<open>
  Remediation of unhealthy control plane machines (\<open>remediation.go\<close>). A machine the health
  check marked is deleted so that scaling up replaces it. The function has a deferred status patch
  that writes the named result \<open>retErr\<close>; it wraps the variable \<open>err\<close>, which is nil
  there, so the model keeps that variable. The theorems give the conditions under which a
  machine is deleted, and show that a failed status patch is lost.
\<close>

definition WaitingForRemediationReason :: string where "WaitingForRemediationReason = ''WaitingForRemediation''"
definition K0sControlPlaneMachineRemediationFailedReason :: string where
  "K0sControlPlaneMachineRemediationFailedReason = ''RemediationFailed''"

definition isHealthy :: "lib \<Rightarrow> machine \<Rightarrow> bool" where
  "isHealthy L m = cond_IsTrue (conds L) (m_Conditions m) MachineHealthCheckSucceededCondition"

definition hasNode :: "machine \<Rightarrow> bool" where
  "hasNode m \<longleftrightarrow> m_NodeRefName m \<noteq> []"

definition isProvisioningHealthyMachine :: "machine list \<Rightarrow> bool" where
  "isProvisioningHealthyMachine ms \<longleftrightarrow> length (filter (\<lambda>m. \<not> hasNode m) ms) > 0"

definition set_machine :: "machine \<Rightarrow> unit ctlM" where
  \<comment> \<open>write through the pointer of an active machine\<close>
  "set_machine m = set_scopeM (\<lambda>sc. sc\<lparr>activeMachines := upd_machine m (activeMachines sc)\<rparr>)"

definition sanitize_one :: "lib \<Rightarrow> env \<Rightarrow> machine \<Rightarrow> gerror list ctlM" where
  "sanitize_one L E m =
     (if cond_IsFalse (conds L) (m_Conditions m) MachineOwnerRemediatedCondition \<and> m_DeletionTimestamp m = None then
        (let m' = m\<lparr>m_Conditions := cond_Delete (conds L) (m_Conditions m) MachineOwnerRemediatedCondition\<rparr>
         in bindM (set_machine m') (\<lambda>_.
            errs_of (Wrapf (''failed to patch control plane Machine '' @ m_Name m @
                            '' to clean machine'' @ [CHR 0x27] @ ''s unhelthy condition''))
              (writeM E (PatchMachineStatus m'))))
      else ret [])"

definition sanitizeHealthyMachines :: "lib \<Rightarrow> env \<Rightarrow> machine list \<Rightarrow> unit ctlM" where
  "sanitizeHealthyMachines L E ms =
     bindM (collect_errs (sanitize_one L E) ms) (\<lambda>errList. retErr (new_aggregate errList))"

definition current_machine :: "controlplane \<Rightarrow> machine \<Rightarrow> machine" where
  \<comment> \<open>what the pointer of an active machine points at now\<close>
  "current_machine sc m =
     (case find (\<lambda>x. m_Name x = m_Name m) (activeMachines sc) of Some x \<Rightarrow> x | None \<Rightarrow> m)"

definition not_remediated :: "lib \<Rightarrow> env \<Rightarrow> machine \<Rightarrow> string \<Rightarrow> string \<Rightarrow> unit ctlM" where
  \<comment> \<open>\<open>conditions.Set(machineToBeRemediated, ...)\<close> with status False\<close>
  "not_remediated L E m rsn msg =
     bindM (nowM E) (\<lambda>now.
     set_machine (m\<lparr>m_Conditions := cond_Set (conds L) now (m_Conditions m)
        (mk_condition MachineOwnerRemediatedCondition ConditionFalse rsn msg)\<rparr>))"

definition remediate :: "lib \<Rightarrow> env \<Rightarrow> machine list \<Rightarrow> machine \<Rightarrow> unit ctlM" where
  \<comment> \<open>\<open>reconcileUnhealthyMachines\<close> from the checks on\<close>
  "remediate L E healthyMachines m =
     bindM scopeM (\<lambda>sc.
     if deref False (kst_ControlPlaneInitialized (kcp_Status (cp_kcp sc))) \<and> length (activeMachines sc) \<le> 1 then
       not_remediated L E m WaitingForRemediationReason
         (''KCP can'' @ [CHR 0x27] @ ''t remediate if current replicas are less or equal to 1'')
     else if deref False (kst_ControlPlaneInitialized (kcp_Status (cp_kcp sc))) \<and>
             isProvisioningHealthyMachine healthyMachines then
       not_remediated L E m WaitingForRemediationReason
         ''KCP waiting for control plane machine provisioning to complete before triggering remediation''
     else if deref False (kst_ControlPlaneInitialized (kcp_Status (cp_kcp sc))) \<and>
             length (deletedMachines sc) > 0 then
       not_remediated L E m WaitingForRemediationReason
         ''KCP waiting for control plane machine deletion to complete before triggering remediation''
     else
       tryM (deleteMachine E (m_Name m) (cp_kcp sc))
         (\<lambda>r. case r of
            Inl e \<Rightarrow>
              bindM (not_remediated L E m K0sControlPlaneMachineRemediationFailedReason (error_text e)) (\<lambda>_.
              failM (Wrapf (''failed to delete unhealthy machine '' @ m_Name m) e))
          | Inr _ \<Rightarrow>
              set_scopeM (\<lambda>c. c\<lparr>cp_kcp := (cp_kcp c)\<lparr>kcp_Meta := (kcp_Meta (cp_kcp c))\<lparr>om_Annotations :=
                (om_Annotations (kcp_Meta (cp_kcp c)))(RemediationInProgressAnnotation \<mapsto> ''true'')\<rparr>\<rparr>\<rparr>)))"

definition pkg_wrapf :: "gerror option \<Rightarrow> string \<Rightarrow> gerror option" where
  \<comment> \<open>\<open>errors.Wrapf\<close> of \<open>github.com/pkg/errors\<close>: nil for a nil error\<close>
  "pkg_wrapf e msg = map_option (Wrapf msg) e"

definition patch_remediated :: "lib \<Rightarrow> env \<Rightarrow> gerror option \<Rightarrow> machine \<Rightarrow> unit res \<Rightarrow> unit ctlM" where
  \<comment> \<open>the deferred closure: \<open>err\<close> is the variable of the enclosing function\<close>
  "patch_remediated L E err m result =
     bindM scopeM (\<lambda>sc.
     tryM (writeM E (PatchMachineStatus (current_machine sc m)))
       (\<lambda>r. case r of
          Inr _ \<Rightarrow> liftR result
        | Inl derr \<Rightarrow>
            (case result of
               Ok _ \<Rightarrow> (case pkg_wrapf err (''failed to patch control plane Machine '' @ m_Name m) of
                          None \<Rightarrow> ret () | Some e \<Rightarrow> failM e)
             | _ \<Rightarrow> liftR result)))"

definition reconcileUnhealthyMachines :: "lib \<Rightarrow> env \<Rightarrow> unit ctlM" where
  "reconcileUnhealthyMachines L E =
     bindM scopeM (\<lambda>sc0.
     (let healthyMachines = filter (isHealthy L) (activeMachines sc0) in
      bindM (sanitizeHealthyMachines L E healthyMachines) (\<lambda>_.
      bindM scopeM (\<lambda>sc.
      if om_Annotations (kcp_Meta (cp_kcp sc)) RemediationInProgressAnnotation \<noteq> None then ret ()
      else
       (let unhealthyMachines = filter (coll_IsUnhealthyAndOwnerRemediated (colls L)) (activeMachines sc) in
        case coll_Oldest (colls L) unhealthyMachines of
          None \<Rightarrow> ret ()
        | Some m \<Rightarrow>
            if m_DeletionTimestamp m \<noteq> None then ret ()
            else deferNamedM (remediate L E healthyMachines m) (patch_remediated L E None m))))))"

subsection \<open>When a machine is remediated\<close>

definition is_delete :: "event \<Rightarrow> bool" where
  "is_delete ev \<longleftrightarrow> (case ev of Wrote (DeleteMachine _ _) _ \<Rightarrow> True | _ \<Rightarrow> False)"

lemma is_delete_simps [simp]: "\<not> is_delete (Read r)" "is_delete (Wrote (DeleteMachine ns n) e)"
  "\<not> is_delete (Wrote (PatchMachineStatus m) e)"
  by (simp_all add: is_delete_def)

definition deletions :: "ctl \<Rightarrow> ctl \<Rightarrow> event list" where
  "deletions s s' = filter is_delete (new_events s s')"

lemma deletions_none: "emits (\<lambda>ev. \<not> is_delete ev) m \<Longrightarrow> m s = (r, s') \<Longrightarrow> deletions s s' = []"
  by (auto simp: deletions_def filter_empty_conv dest: emits_new_events)

lemma new_events_append:
  "trace s1 = trace s @ xs \<Longrightarrow> trace s2 = trace s1 @ ys \<Longrightarrow> new_events s s2 = xs @ ys"
  by (simp add: new_events_def)

lemma deletions_trans:
  assumes "appends P s s1" and "appends Q s1 s2"
  shows "deletions s s2 = deletions s s1 @ deletions s1 s2"
  using assms by (auto simp: appends_def deletions_def new_events_def)

definition remediation_allowed :: "lib \<Rightarrow> controlplane \<Rightarrow> bool" where
  \<comment> \<open>the specification: none is in progress, and an initialized control plane is stable and has a
      machine to spare\<close>
  "remediation_allowed L sc \<longleftrightarrow>
     om_Annotations (kcp_Meta (cp_kcp sc)) RemediationInProgressAnnotation = None \<and>
     (kst_ControlPlaneInitialized (kcp_Status (cp_kcp sc)) = Some True \<longrightarrow>
        1 < length (activeMachines sc) \<and> deletedMachines sc = [] \<and>
        list_all hasNode (filter (isHealthy L) (activeMachines sc)))"

lemma sanitize_emits: "emits (\<lambda>ev. \<not> is_delete ev) (sanitizeHealthyMachines L E ms)"
  unfolding sanitizeHealthyMachines_def sanitize_one_def errs_of_def set_machine_def Let_def
  by (auto intro!: emits_intros split: sum.splits)

lemma sanitize_names: "keeps names_kept (sanitizeHealthyMachines L E ms)"
proof -
  have "keeps names_kept (set_machine m)" for m
    by (simp add: set_machine_def keeps_def names_kept_def same_names_def)
  then show ?thesis
    unfolding sanitizeHealthyMachines_def sanitize_one_def Let_def
    by (auto intro!: names_kept.keeps_intros errs_of_names names_kept_of_same_scope [OF same_scope_writeM])
qed

lemma not_remediated_emits: "emits (\<lambda>ev. \<not> is_delete ev) (not_remediated L E m rsn msg)"
  unfolding not_remediated_def set_machine_def by (auto intro!: emits_intros)

lemma not_remediated_run: "\<exists>s1. not_remediated L E m rsn msg s = (Ok (), s1)"
  by (simp add: not_remediated_def set_machine_def run_bindM)

lemma patch_remediated_emits: "emits (\<lambda>ev. \<not> is_delete ev) (patch_remediated L E err m r)"
  unfolding patch_remediated_def pkg_wrapf_def
  by (auto intro!: emits_intros split: sum.splits res.splits option.splits)

lemma patch_remediated_result: "fst (patch_remediated L E None m r s) = r"
  by (cases r) (auto simp: patch_remediated_def pkg_wrapf_def run_simps split: option.splits)

lemma isProvisioning_iff: "isProvisioningHealthyMachine ms \<longleftrightarrow> \<not> list_all hasNode ms"
  by (auto simp: isProvisioningHealthyMachine_def list_all_iff filter_empty_conv)

lemma deref_False [simp]: "deref False b \<longleftrightarrow> b = Some True"
  by (cases b) auto

lemma remediate_deletions:
  assumes run: "remediate L E hs m s = (r, s')"
  shows "deletions s s' = [] \<or>
     ((kst_ControlPlaneInitialized (kcp_Status (cp_kcp (scope s))) = Some True \<longrightarrow>
         1 < length (activeMachines (scope s)) \<and> deletedMachines (scope s) = [] \<and> list_all hasNode hs) \<and>
      (\<exists>e. deletions s s' = [Wrote (DeleteMachine (kcp_Namespace (cp_kcp (scope s))) (m_Name m)) e]))"
proof -
  let ?blocked = "kst_ControlPlaneInitialized (kcp_Status (cp_kcp (scope s))) = Some True \<and>
      (length (activeMachines (scope s)) \<le> 1 \<or> \<not> list_all hasNode hs \<or> deletedMachines (scope s) \<noteq> [])"
  show ?thesis
  proof (cases ?blocked)
    case True
    then have "\<exists>rsn msg. remediate L E hs m s = not_remediated L E m rsn msg s"
      by (auto simp: remediate_def run_bindM isProvisioning_iff)
    with run deletions_none [OF not_remediated_emits] show ?thesis by metis
  next
    case False
    have "\<exists>e. deletions s s' = [Wrote (DeleteMachine (kcp_Namespace (cp_kcp (scope s))) (m_Name m)) e]"
      using run False
      by (auto simp: remediate_def deleteMachine_def not_remediated_def set_machine_def isProvisioning_iff
          deletions_def new_events_def run_simps not_le split: option.splits if_splits)
    with False show ?thesis by auto
  qed
qed

lemma remediate_emits: "emits (\<lambda>_. True) (remediate L E hs m)"
  unfolding remediate_def deleteMachine_def not_remediated_def set_machine_def
  by (auto intro!: emits_intros split: sum.splits)

lemma defer_patch_deletions:
  assumes run: "deferNamedM (remediate L E hs m) (patch_remediated L E None m) s = (r, s')"
  shows "\<exists>s1. remediate L E hs m s = (r, s1) \<and> deletions s s' = deletions s s1"
proof -
  obtain q s1 where 1: "remediate L E hs m s = (q, s1)" by fastforce
  with run have 2: "patch_remediated L E None m q s1 = (r, s')"
    by (simp add: run_deferNamedM)
  from patch_remediated_result [of L E m q s1] 2 have "q = r" by simp
  moreover have "deletions s s' = deletions s s1"
    using deletions_trans [OF keepsD [OF remediate_emits 1] keepsD [OF patch_remediated_emits 2]]
      deletions_none [OF patch_remediated_emits 2] by simp
  ultimately show ?thesis using 1 by blast
qed

text \<open>
  C22 (safety). Remediation deletes at most one machine, an active one, and only when none is in
  progress and, once the control plane is initialized, when another member remains, no member is
  being deleted and every healthy machine already has its node.
\<close>
theorem remediation_deletes_one:
  assumes laws: "coll_laws (colls L)" and run: "reconcileUnhealthyMachines L E s = (r, s')"
  shows "deletions s s' = [] \<or>
     (remediation_allowed L (scope s) \<and>
      (\<exists>m e. m \<in> set (activeMachines (scope s)) \<and>
         deletions s s' = [Wrote (DeleteMachine (kcp_Namespace (cp_kcp (scope s))) (m_Name m)) e]))"
proof -
  let ?hs = "filter (isHealthy L) (activeMachines (scope s))"
  obtain q s1 where 1: "sanitizeHealthyMachines L E ?hs s = (q, s1)" by fastforce
  note none1 = deletions_none [OF sanitize_emits 1]
  have names: "same_names (scope s) (scope s1)"
    using keepsD [OF sanitize_names 1] by (simp add: names_kept_def)
  have ap1: "appends (\<lambda>ev. \<not> is_delete ev) s s1"
    by (rule keepsD [OF sanitize_emits 1])
  show ?thesis
  proof (cases "s' = s1")
    case True
    with none1 show ?thesis by simp
  next
    case False
    with run 1 obtain m where ok: "q = Ok ()"
      and ann: "om_Annotations (kcp_Meta (cp_kcp (scope s1))) RemediationInProgressAnnotation = None"
      and old: "coll_Oldest (colls L) (filter (coll_IsUnhealthyAndOwnerRemediated (colls L)) (activeMachines (scope s1))) = Some m"
      and rem: "deferNamedM (remediate L E ?hs m) (patch_remediated L E None m) s1 = (r, s')"
      unfolding reconcileUnhealthyMachines_def Let_def
      by (cases q) (auto simp: run_bindM split: if_splits option.splits)
    from defer_patch_deletions [OF rem] obtain s2 where r2: "remediate L E ?hs m s1 = (r, s2)"
      and d2: "deletions s1 s' = deletions s1 s2" by blast
    have "emits (\<lambda>_. True) (deferNamedM (remediate L E ?hs m) (patch_remediated L E None m))"
      by (intro emits.keeps_deferNamedM remediate_emits emits_mono [OF patch_remediated_emits]) simp
    then have "appends (\<lambda>_. True) s1 s'"
      using rem by (rule keepsD)
    from deletions_trans [OF ap1 this] none1 d2 have d: "deletions s s' = deletions s1 s2" by simp
    have mem: "m_Name m \<in> m_Name ` set (activeMachines (scope s))"
      using coll_Oldest_SomeD(1) [OF laws old] same_names_fields(3) [OF names] by auto
    have dm: "deletedMachines (scope s1) = [] \<longleftrightarrow> deletedMachines (scope s) = []"
      using names unfolding same_names_def by (metis map_is_Nil_conv)
    show ?thesis
      using remediate_deletions [OF r2] mem ann unfolding d remediation_allowed_def
      by (auto simp: same_names_fields(2,5) [OF names] dm)
  qed
qed

definition ref_unhealthy :: "string \<Rightarrow> int \<Rightarrow> machine" where
  "ref_unhealthy n created = (ref_machine n created)\<lparr>m_NodeRefName := n, m_Conditions :=
     [mk_condition MachineHealthCheckSucceededCondition ConditionFalse ''Timeout'' [],
      mk_condition MachineOwnerRemediatedCondition ConditionFalse ''WaitingForRemediation'' []]\<rparr>"

lemmas remediation_run = reconcileUnhealthyMachines_def sanitizeHealthyMachines_def sanitize_one_def
  remediate_def patch_remediated_def pkg_wrapf_def not_remediated_def set_machine_def deleteMachine_def
  new_aggregate_def current_machine_def isHealthy_def isProvisioningHealthyMachine_def hasNode_def errs_of_def

lemmas remediation_names = MachineHealthCheckSucceededCondition_def MachineOwnerRemediatedCondition_def

theorem remediation_deletes_one_witness:
  "\<exists>r s'. reconcileUnhealthyMachines ref_lib (ref_env [])
       (ref_ctl (ref_scope 3 [ref_machine ''a'' 1, ref_unhealthy ''b'' 2] [] [''a'', ''b''])) = (r, s') \<and>
     deletions (ref_ctl (ref_scope 3 [ref_machine ''a'' 1, ref_unhealthy ''b'' 2] [] [''a'', ''b''])) s' \<noteq> [] \<and>
     remediation_allowed ref_lib (ref_scope 3 [ref_machine ''a'' 1, ref_unhealthy ''b'' 2] [] [''a'', ''b''])"
proof -
  let ?sc = "ref_scope 3 [ref_machine ''a'' 1, ref_unhealthy ''b'' 2] [] [''a'', ''b'']"
  obtain r s' where run: "reconcileUnhealthyMachines ref_lib (ref_env []) (ref_ctl ?sc) = (r, s')"
    by fastforce
  have "deletions (ref_ctl ?sc) s' \<noteq> []"
    using run
    by (auto simp: remediation_run run_simps ref_defs ref_unhealthy_def mk_condition_def remediation_names
        deletions_def new_events_def)
  with remediation_deletes_one [OF _ run] ref_coll_laws run show ?thesis
    by (auto simp: ref_ctl_def)
qed

text \<open>
  The failure of the final status patch is lost: when no machine has to be sanitized,
  every status patch fails and the deletion succeeds, the function still reports success, for the
  closure wraps the nil error of the enclosing function instead of the patch's.
\<close>
theorem remediation_patch_failure_lost:
  assumes fails: "\<forall>tr m. e_write E tr (PatchMachineStatus m) = Some e"
    and deletes: "\<forall>tr ns n. e_write E tr (DeleteMachine ns n) = None"
    and healthy: "filter (isHealthy L) (activeMachines (scope s)) = []"
    and free: "om_Annotations (kcp_Meta (cp_kcp (scope s))) RemediationInProgressAnnotation = None"
    and old: "coll_Oldest (colls L) (filter (coll_IsUnhealthyAndOwnerRemediated (colls L)) (activeMachines (scope s))) = Some m"
    and alive: "m_DeletionTimestamp m = None"
  shows "\<exists>s' m'. reconcileUnhealthyMachines L E s = (Ok (), s') \<and>
     last (new_events s s') = Wrote (PatchMachineStatus m') (Some e)"
proof -
  have "fst (remediate L E [] m s) = Ok ()"
    using deletes
    by (simp add: remediate_def deleteMachine_def not_remediated_def set_machine_def run_simps)
  then obtain s1 where 1: "remediate L E [] m s = (Ok (), s1)"
    by (metis prod.collapse)
  have ext: "trace s1 = trace s @ new_events s s1"
    by (rule emits_extends [OF remediate_emits 1])
  have "sanitizeHealthyMachines L E [] s = (Ok (), s)"
    by (simp add: sanitizeHealthyMachines_def new_aggregate_def run_bindM)
  then have "reconcileUnhealthyMachines L E s = patch_remediated L E None m (Ok ()) s1"
    using free old alive 1
    by (simp add: reconcileUnhealthyMachines_def healthy run_bindM run_deferNamedM)
  also have "\<dots> = (Ok (), log_event (Wrote (PatchMachineStatus (current_machine (scope s1) m)) (Some e)) s1)"
    using fails by (simp add: patch_remediated_def pkg_wrapf_def run_simps)
  finally show ?thesis
    using new_events_append [OF ext, of _ "[Wrote (PatchMachineStatus (current_machine (scope s1) m)) (Some e)]"]
    by auto
qed

theorem remediation_patch_failure_lost_witness:
  "\<exists>s'. reconcileUnhealthyMachines ref_lib
       ((ref_env [])\<lparr>e_write := (\<lambda>_ rq. case rq of PatchMachineStatus _ \<Rightarrow> Some not_found | _ \<Rightarrow> None)\<rparr>)
       (ref_ctl (ref_scope 3 [ref_unhealthy ''b'' 2] [] [''b''])) = (Ok (), s')"
proof -
  have "coll_Oldest (colls ref_lib) (filter (coll_IsUnhealthyAndOwnerRemediated (colls ref_lib))
      [ref_unhealthy ''b'' 2]) = Some (ref_unhealthy ''b'' 2)"
    by (simp add: ref_coll_def ref_cond_def ref_unhealthy_def mk_condition_def remediation_names)
  moreover have "filter (isHealthy ref_lib) [ref_unhealthy ''b'' 2] = []"
    by (simp add: isHealthy_def ref_cond_def ref_unhealthy_def mk_condition_def remediation_names)
  ultimately show ?thesis
    using remediation_patch_failure_lost [where e = not_found and m = "ref_unhealthy ''b'' 2" and L = ref_lib
        and s = "ref_ctl (ref_scope 3 [ref_unhealthy ''b'' 2] [] [''b''])"
        and E = "(ref_env [])\<lparr>e_write := (\<lambda>_ rq. case rq of PatchMachineStatus _ \<Rightarrow> Some not_found | _ \<Rightarrow> None)\<rparr>"]
    by (auto simp: ref_ctl_def ref_scope_def ref_kcp_def ref_meta_def ref_unhealthy_def ref_machine_def)
qed

end
