(* ===== verification/Inplace.thy ===== *)
theory Inplace
  imports Autopilot Remediation
begin

text \<open>
  The in-place k0s version update (\<open>inplace.go\<close>): the autopilot plan of the standalone
  mode, the trigger of the Cluster API update extension, the completion of triggers that
  stopped half-way, and the background loop that follows a plan. The loop polls until its
  context is cancelled; the model gives it the number of polls it makes before that. The running
  loops are the map \<open>autopilotUpdateCancels\<close> from a control plane to the handle of
  its loop. The theorems show that a trigger which fails leaves the machine untouched or in the
  state the next reconciliation looks for, that an outdated machine is not replaced while it
  can be updated in place, and that a loop never unregisters its successor.
\<close>

subsection \<open>Pending hooks\<close>

definition updateMachineHook :: string where "updateMachineHook = ''UpdateMachine''"

definition pendingHooks :: "strmap \<Rightarrow> string list" where
  \<comment> \<open>the set of hooks, without the empty entry a split yields\<close>
  "pendingHooks ann = filter (\<lambda>h. h \<noteq> []) (remdups (split_on (CHR '','') (map_get ann PendingHooksAnnotation)))"

definition hasPendingHook :: "strmap \<Rightarrow> string \<Rightarrow> bool" where
  "hasPendingHook ann hook \<longleftrightarrow> hook \<in> set (pendingHooks ann)"

definition markHookPending :: "strmap \<Rightarrow> string \<Rightarrow> strmap" where
  "markHookPending ann hook =
     ann(PendingHooksAnnotation \<mapsto> join_with '','' (sort (remdups (hook # pendingHooks ann))))"

subsection \<open>Triggering the update of one machine\<close>

definition is_latched :: "strmap \<Rightarrow> bool" where
  "is_latched ann \<longleftrightarrow> ann UpdateInProgressAnnotation \<noteq> None"

definition latch :: "strmap \<Rightarrow> strmap" where
  "latch ann = ann(UpdateInProgressAnnotation \<mapsto> [])"

definition trigger_error :: "string \<Rightarrow> string \<Rightarrow> string \<Rightarrow> string \<Rightarrow> gerror \<Rightarrow> gerror" where
  "trigger_error what ns n ann =
     Wrapf (''failed to trigger in-place update for '' @ what @ '' '' @ ns @ ''/'' @ n @
            '' by setting the '' @ ann @ '' annotation'')"

definition latch_machine :: "env \<Rightarrow> machine \<Rightarrow> machine ctlM" where
  "latch_machine E m =
     (if is_latched (m_Annotations m) then ret m
      else (let m' = m\<lparr>m_Annotations := latch (m_Annotations m)\<rparr> in
        bindM (set_machine m') (\<lambda>_.
        bindM (wrapM (trigger_error ''Machine'' (m_Namespace m) (m_Name m) UpdateInProgressAnnotation)
                 (writeM E (PatchMachine m m'))) (\<lambda>_. ret m'))))"

definition latch_infra :: "env \<Rightarrow> string \<Rightarrow> unstructured \<Rightarrow> unit ctlM" where
  "latch_infra E n u =
     (if is_latched (u_Annotations u) then ret ()
      else (let u' = u\<lparr>u_Annotations := latch (u_Annotations u)\<rparr> in
        bindM (set_scopeM (\<lambda>sc. sc\<lparr>infraMachines := (infraMachines sc)(n \<mapsto> u')\<rparr>)) (\<lambda>_.
        wrapM (trigger_error ''InfrastructureMachine'' (u_Namespace u) (u_Name u) UpdateInProgressAnnotation)
          (writeM E (PatchInfraMachine u u')))))"

definition latch_config :: "env \<Rightarrow> string \<Rightarrow> K0sControllerConfig \<Rightarrow> unit ctlM" where
  "latch_config E n c =
     (if is_latched (om_Annotations (kcc_Meta c)) then ret ()
      else (let c' = c\<lparr>kcc_Meta := (kcc_Meta c)\<lparr>om_Annotations := latch (om_Annotations (kcc_Meta c))\<rparr>\<rparr> in
        bindM (set_scopeM (\<lambda>sc. sc\<lparr>controllerConfigs := (controllerConfigs sc)(n \<mapsto> c')\<rparr>)) (\<lambda>_.
        wrapM (trigger_error ''BootstrapConfig'' (om_Namespace (kcc_Meta c)) (om_Name (kcc_Meta c))
                 UpdateInProgressAnnotation)
          (writeM E (PatchControllerConfig c c')))))"

definition hook_machine :: "env \<Rightarrow> string \<Rightarrow> machine \<Rightarrow> unit ctlM" where
  "hook_machine E desiredVersion m =
     (if hasPendingHook (m_Annotations m) updateMachineHook then ret ()
      else (let m' = m\<lparr>m_Version := desiredVersion,
                       m_Annotations := markHookPending (m_Annotations m) updateMachineHook\<rparr> in
        bindM (set_machine m') (\<lambda>_.
        wrapM (trigger_error ''Machine'' (m_Namespace m) (m_Name m) PendingHooksAnnotation)
          (writeM E (PatchMachine m m')))))"

definition triggerCAPIInplaceVersionUpdate ::
  "env \<Rightarrow> string \<Rightarrow> machine \<Rightarrow> unstructured \<Rightarrow> K0sControllerConfig \<Rightarrow> unit ctlM" where
  "triggerCAPIInplaceVersionUpdate E desiredVersion m infra config =
     bindM (latch_machine E m) (\<lambda>m1.
     bindM (latch_infra E (m_Name m) infra) (\<lambda>_.
     bindM (latch_config E (m_Name m) config) (\<lambda>_.
     hook_machine E desiredVersion m1)))"

definition machinesToCompleteTrigger :: "controlplane \<Rightarrow> machine list" where
  "machinesToCompleteTrigger sc =
     filter (\<lambda>m. is_latched (m_Annotations m) \<and> \<not> hasPendingHook (m_Annotations m) updateMachineHook)
       (activeMachines sc)"

definition isK0smotronExtensionForInplaceUpdateDeployed :: "env \<Rightarrow> bool ctlM" where
  "isK0smotronExtensionForInplaceUpdateDeployed E =
     tryM (readM (ReadExtensionConfig ''inplace-version-update-extensionconfig'')
             (\<lambda>tr. case e_GetExtensionConfig E tr ''inplace-version-update-extensionconfig'' of
                     None \<Rightarrow> Inr () | Some e \<Rightarrow> Inl e))
       (\<lambda>r. case r of
          Inl e \<Rightarrow> if is_not_found e then ret False
                    else failM (Wrapf ''error getting k0smotron inplace version update extension'' e)
        | Inr _ \<Rightarrow> ret True)"

definition complete_trigger :: "env \<Rightarrow> machine \<Rightarrow> unit ctlM" where
  \<comment> \<open>the body of the loop of \<open>completeInterruptedTriggers\<close>\<close>
  "complete_trigger E m =
     bindM scopeM (\<lambda>sc.
     case infraMachines sc (m_Name m) of
       None \<Rightarrow> failM (Errorf (''infrastructure machine not found for machine '' @ m_Name m))
     | Some infra \<Rightarrow>
     (case controllerConfigs sc (m_Name m) of
        None \<Rightarrow> failM (Errorf (''controller config not found for machine '' @ m_Name m))
      | Some config \<Rightarrow>
          wrapM (Wrapf (''error completing in-place update trigger for machine '' @ m_Name m))
            (triggerCAPIInplaceVersionUpdate E (kcp_Version (cp_kcp sc)) m infra config)))"

definition completeInterruptedTriggers :: "lib \<Rightarrow> env \<Rightarrow> bool ctlM" where
  "completeInterruptedTriggers L E =
     (if \<not> isEnabled (e_gates E) InPlaceUpdates then ret False
      else
        bindM scopeM (\<lambda>sc.
        if machinesToCompleteTrigger sc = [] then ret False
        else
          bindM (wrapM (Wrapf ''error checking if k0smotron extension for in-place updates is deployed'')
                   (isK0smotronExtensionForInplaceUpdateDeployed E)) (\<lambda>deployed.
          if \<not> deployed then ret False
          else bindM (for_each (complete_trigger E)
                        (coll_SortedByCreationTimestamp (colls L) (machinesToCompleteTrigger sc)))
                 (\<lambda>_. ret True))))"

subsection \<open>Following a plan\<close>

definition updateMachineVersion :: "env \<Rightarrow> machine \<Rightarrow> string \<Rightarrow> unit ctlM" where
  "updateMachineVersion E m version =
     (if m_Version m = version then ret ()
      else
        bindM (wrapM (Wrapf (''error creating patch helper for machine '' @ m_Name m)) (newPatchHelper E)) (\<lambda>_.
        (let m' = m\<lparr>m_Version := version\<rparr> in
         bindM (set_machine m') (\<lambda>_.
         wrapM (Wrapf (''error patching machine '' @ m_Name m)) (writeM E (PatchMachine m m'))))))"

definition active_named :: "controlplane \<Rightarrow> string \<Rightarrow> machine option" where
  "active_named sc n = find (\<lambda>m. m_Name m = n) (activeMachines sc)"

definition update_named :: "env \<Rightarrow> string \<Rightarrow> string \<Rightarrow> unit ctlM" where
  \<comment> \<open>update the version of an active machine, if there is one of that name\<close>
  "update_named E version n =
     bindM scopeM (\<lambda>sc.
     case active_named sc n of
       None \<Rightarrow> ret ()
     | Some m \<Rightarrow> wrapM (Wrapf (''error updating machine version for '' @ m_Name m))
                   (updateMachineVersion E m version))"

definition ensureTargetMachinesWithTargetVersion :: "lib \<Rightarrow> env \<Rightarrow> object \<Rightarrow> unit ctlM" where
  "ensureTargetMachinesWithTargetVersion L E plan =
     bindM (wrapM (Wrapf ''error getting plan target nodes'') (liftE (GetPlanTargetNodes (jsons L) plan))) (\<lambda>nodes.
     bindM (wrapM (Wrapf ''error getting plan target version'') (liftR (GetPlanTargetVersion (jsons L) plan))) (\<lambda>version.
     for_each (update_named E version) nodes))"

fun update_completed :: "lib \<Rightarrow> env \<Rightarrow> string \<Rightarrow> json list \<Rightarrow> bool ctlM" where
  \<comment> \<open>the loop over the controllers of the plan's status; the result is \<open>allCompleted\<close>\<close>
  "update_completed L E version [] = ret True"
| "update_completed L E version (c # cs) =
     (case c of
        JObj ctrl \<Rightarrow>
          (let name = (case NestedString (jsons L) ctrl [''name''] of Inr (Some v) \<Rightarrow> v | _ \<Rightarrow> []);
               state = (case NestedString (jsons L) ctrl [''state''] of Inr (Some v) \<Rightarrow> v | _ \<Rightarrow> [])
           in if state \<noteq> ''SignalCompleted''
              then bindM (update_completed L E version cs) (\<lambda>_. ret False)
              else bindM (update_named E version name) (\<lambda>_. update_completed L E version cs))
      | _ \<Rightarrow> update_completed L E version cs)"

definition update_poll :: "lib \<Rightarrow> env \<Rightarrow> bool ctlM" where
  \<comment> \<open>the condition \<open>updateMachineVersions\<close> polls\<close>
  "update_poll L E =
     bindM (GetPlan E) (\<lambda>plan.
     bindM (wrapM (Wrapf ''error reading status.commands'')
              (liftE (NestedSlice (jsons L) plan [''status'', ''commands'']))) (\<lambda>commands.
     case deref [] commands of
       [] \<Rightarrow> ret False
     | JObj cmd # _ \<Rightarrow>
         bindM (wrapM (Wrapf ''error reading k0supdate.controllers'')
                  (liftE (NestedSlice (jsons L) cmd [''k0supdate'', ''controllers'']))) (\<lambda>ctrls.
         case ctrls of
           None \<Rightarrow> ret False
         | Some cs \<Rightarrow> bindM scopeM (\<lambda>sc. update_completed L E (kcp_Version (cp_kcp sc)) cs))
     | _ \<Rightarrow> failM (Errorf ''unexpected type for command'')))"

fun updateMachineVersions :: "nat \<Rightarrow> lib \<Rightarrow> env \<Rightarrow> unit ctlM" where
  \<comment> \<open>the polls until one is done, one fails, or the context is cancelled\<close>
  "updateMachineVersions 0 L E = failM (Errorf ''context canceled'')"
| "updateMachineVersions (Suc n) L E =
     bindM (update_poll L E) (\<lambda>done. if done then ret () else updateMachineVersions n L E)"

definition kcp_key :: "K0sControlPlane \<Rightarrow> string \<times> string" where
  "kcp_key kcp = (kcp_Namespace kcp, kcp_Name kcp)"

definition startUpdateMachineVersions :: "K0sControlPlane \<Rightarrow> unit ctlM" where
  \<comment> \<open>a fresh handle is the position of the start in the history\<close>
  "startUpdateMachineVersions kcp =
     modM (\<lambda>s. log_event (StartedUpdateLoop (kcp_key kcp))
       (s\<lparr>autopilotUpdateCancels := (autopilotUpdateCancels s)(kcp_key kcp \<mapsto> length (trace s))\<rparr>))"

definition stopUpdateMachineVersions :: "K0sControlPlane \<Rightarrow> unit ctlM" where
  "stopUpdateMachineVersions kcp =
     modM (\<lambda>s. case autopilotUpdateCancels s (kcp_key kcp) of
        None \<Rightarrow> s
      | Some _ \<Rightarrow> log_event (CancelledUpdateLoop (kcp_key kcp))
          (s\<lparr>autopilotUpdateCancels := (autopilotUpdateCancels s)(kcp_key kcp := None)\<rparr>))"

definition finishUpdateMachineVersions :: "string \<times> string \<Rightarrow> nat \<Rightarrow> unit ctlM" where
  \<comment> \<open>the deferred \<open>CompareAndDelete\<close> of a loop that ends\<close>
  "finishUpdateMachineVersions key handle =
     modM (\<lambda>s. if autopilotUpdateCancels s key = Some handle
               then s\<lparr>autopilotUpdateCancels := (autopilotUpdateCancels s)(key := None)\<rparr> else s)"

subsection \<open>Starting an update\<close>

definition retrieveOldestMachineOutOfDate :: "lib \<Rightarrow> controlplane \<Rightarrow> (machine \<times> unstructured \<times> K0sControllerConfig) res" where
  "retrieveOldestMachineOutOfDate L sc =
     (case coll_Oldest (colls L) (machines_named (activeMachines sc) (notUpToDateMachines sc)) of
        None \<Rightarrow> Panic
      | Some m \<Rightarrow>
     (case controllerConfigs sc (m_Name m) of
        None \<Rightarrow> Err (Errorf ''controller config not found for machine'')
      | Some config \<Rightarrow>
     (case infraMachines sc (m_Name m) of
        None \<Rightarrow> Err (Errorf ''infrastructure machine not found for machine'')
      | Some infra \<Rightarrow> Ok (m, infra, config))))"

definition runStandaloneAutopilotPlan :: "env \<Rightarrow> unit ctlM" where
  "runStandaloneAutopilotPlan E =
     bindM scopeM (\<lambda>sc.
     bindM (nowM E) (\<lambda>now.
     (let timestamp = show_int (now div second);
          kcp = cp_kcp sc
      in bindM (wrapM (Wrapf ''error creating autopilot plan'') (CreatePlan E
           \<lparr>pl_ID = ''id-'' @ kcp_Name kcp @ ''-'' @ timestamp, pl_Timestamp = timestamp,
            pl_Version = kcp_Version kcp, pl_DownloadURL = k_DownloadURL (kcp_Config kcp),
            pl_Target = ControllersTarget, pl_Nodes = notUpToDateMachines sc\<rparr>)) (\<lambda>_.
         startUpdateMachineVersions kcp))))"

definition runInplaceUpdate :: "lib \<Rightarrow> env \<Rightarrow> unit ctlM" where
  "runInplaceUpdate L E =
     tryM (isK0smotronExtensionForInplaceUpdateDeployed E) (\<lambda>r.
     (let deployed = (case r of Inr b \<Rightarrow> b | Inl _ \<Rightarrow> False) in
      if isEnabled (e_gates E) InPlaceUpdates \<and> deployed then
        bindM scopeM (\<lambda>sc.
        bindM (wrapM (Wrapf ''error retrieving machine to update'')
                 (liftR (retrieveOldestMachineOutOfDate L sc))) (\<lambda>(m, infra, config).
        wrapM (Wrapf (''error triggering in-place version update for machine '' @ m_Name m))
          (triggerCAPIInplaceVersionUpdate E (kcp_Version (cp_kcp sc)) m infra config)))
      else runStandaloneAutopilotPlan E))"

definition requeue_after_10s :: result where
  \<comment> \<open>\<open>ctrl.Result\{RequeueAfter: 10 * time.Second\}\<close>\<close>
  "requeue_after_10s = \<lparr>Requeue = False, RequeueAfter = 10 * second\<rparr>"

definition requires_inplace_update :: "controlplane \<Rightarrow> bool" where
  "requires_inplace_update sc \<longleftrightarrow>
     hasMachinesWithOnlyVersionOutdated sc \<and> ks_UpdateStrategy (kcp_Spec (cp_kcp sc)) = UpdateInPlace"

definition reinit_scope :: "lib \<Rightarrow> env \<Rightarrow> unit ctlM" where
  \<comment> \<open>\<open>*scope = *updatedScope\<close>\<close>
  "reinit_scope L E =
     bindM scopeM (\<lambda>sc.
     bindM (wrapM (Wrapf ''error re-initializing control plane scope'')
              (retrieveControlPlaneState L E (cp_cluster sc) (cp_kcp sc))) (\<lambda>updated.
     set_scopeM (\<lambda>_. updated)))"

definition start_and_requeue :: "lib \<Rightarrow> env \<Rightarrow> result ctlM" where
  "start_and_requeue L E =
     bindM (wrapM (Wrapf ''error running in-place update'') (runInplaceUpdate L E)) (\<lambda>_. ret requeue_10s)"

definition follow_plan :: "lib \<Rightarrow> env \<Rightarrow> bool \<Rightarrow> object \<Rightarrow> result ctlM" where
  \<comment> \<open>\<open>reconcileInplaceK0sVersionUpdate\<close> once a plan was found\<close>
  "follow_plan L E required plan =
     bindM (wrapM (\<lambda>e. if error_is e ErrUnexpectedPlanState
                        then Wrapf ''autopilot plan is in an unexpected state'' e
                        else Wrapf ''error checking if autopilot plan is completed'' e)
              (liftE (IsPlanCompleted (jsons L) plan))) (\<lambda>completed.
     if \<not> completed then ret requeue_10s
     else
       bindM scopeM (\<lambda>sc.
       bindM (stopUpdateMachineVersions (cp_kcp sc)) (\<lambda>_.
       bindM (wrapM (Wrapf ''error ensuring machine versions are updated'')
                (ensureTargetMachinesWithTargetVersion L E plan)) (\<lambda>_.
       if required then
         bindM (tryM (DeletePlan E) (\<lambda>r. case r of
                  Inl e \<Rightarrow> if \<not> is_not_found e then failM (Wrapf ''error deleting autopilot plan'' e) else ret ()
                | Inr _ \<Rightarrow> ret ())) (\<lambda>_.
         start_and_requeue L E)
       else bindM (reinit_scope L E) (\<lambda>_. ret zero_result)))))"

definition reconcileInplaceK0sVersionUpdate :: "lib \<Rightarrow> env \<Rightarrow> result ctlM" where
  "reconcileInplaceK0sVersionUpdate L E =
     bindM scopeM (\<lambda>sc0.
     (let required = requires_inplace_update sc0 in
      bindM (completeInterruptedTriggers L E) (\<lambda>letInterruptedToComplete.
      if letInterruptedToComplete then ret requeue_10s
      else
        bindM scopeM (\<lambda>sc.
        if \<not> cond_IsTrue (conds L) (kst_Conditions (kcp_Status (cp_kcp sc))) ControlPlaneAvailableCondition then
          (if required \<and> int (length (activeMachines sc)) = desired_replicas sc
           then ret requeue_after_10s else ret zero_result)
        else
          bindM (wrapM (Wrapf ''error getting cluster client set for machine update'')
                   (getWorkloadClusterClientset E (cp_cluster sc))) (\<lambda>_.
          tryM (GetPlan E) (\<lambda>r. case r of
             Inl e \<Rightarrow>
               if is_not_found e then (if required then start_and_requeue L E else ret zero_result)
               else failM (Wrapf ''error getting autopilot plan'' e)
           | Inr plan \<Rightarrow> follow_plan L E required plan))))))"

subsection \<open>The hooks as a set\<close>

locale hook_store =
  fixes hooks :: "'o \<Rightarrow> string set" and mark :: "'o \<Rightarrow> string \<Rightarrow> 'o" and valid :: "string \<Rightarrow> bool"
  assumes hooks_mark: "valid h \<Longrightarrow> hooks (mark x h) = insert h (hooks x)"
begin

lemma mark_again: "valid h \<Longrightarrow> hooks (mark (mark x h) h) = hooks (mark x h)"
  by (simp add: hooks_mark)

lemma marks_fold: "list_all valid hs \<Longrightarrow> hooks (foldl mark x hs) = set hs \<union> hooks x"
  by (induction hs arbitrary: x) (auto simp: hooks_mark)

lemma marks_keep: "valid h \<Longrightarrow> g \<in> hooks x \<Longrightarrow> g \<in> hooks (mark x h)"
  by (simp add: hooks_mark)

end

definition hook_name :: "string \<Rightarrow> bool" where
  "hook_name h \<longleftrightarrow> h \<noteq> [] \<and> CHR '','' \<notin> set h"

lemma pendingHooks_names: "h \<in> set (pendingHooks ann) \<Longrightarrow> hook_name h"
  by (auto simp: pendingHooks_def hook_name_def dest: split_on_parts)

lemma pendingHooks_mark:
  assumes "hook_name h"
  shows "pendingHooks (markHookPending ann h) = sort (remdups (h # pendingHooks ann))"
proof -
  let ?hs = "sort (remdups (h # pendingHooks ann))"
  have names: "\<forall>g \<in> set ?hs. hook_name g"
    using assms pendingHooks_names by auto
  have "?hs \<noteq> []" by (metis list.distinct(1) remdups_eq_nil_iff set_empty set_sort)
  moreover have "\<forall>g \<in> set ?hs. CHR '','' \<notin> set g"
    using names by (simp add: hook_name_def)
  ultimately have "split_on (CHR '','') (join_with '','' ?hs) = ?hs"
    by (rule split_on_join)
  moreover have "remdups ?hs = ?hs"
    by (intro distinct_remdups_id) simp
  moreover have "filter (\<lambda>g. g \<noteq> []) ?hs = ?hs"
    using names by (intro filter_True) (simp add: hook_name_def)
  moreover have "map_get (markHookPending ann h) PendingHooksAnnotation = join_with '','' ?hs"
    by (simp only: markHookPending_def map_get_upd simp_thms if_True)
  ultimately show ?thesis
    unfolding pendingHooks_def [of "markHookPending ann h"] by (simp only:)
qed

interpretation hooks: hook_store "\<lambda>ann. set (pendingHooks ann)" markHookPending hook_name
  by unfold_locales (auto simp: pendingHooks_mark)

lemma updateMachineHook_name: "hook_name updateMachineHook"
  by (simp add: hook_name_def updateMachineHook_def)

lemma latch_simps [simp]: "is_latched (latch ann)" "hasPendingHook (latch ann) h \<longleftrightarrow> hasPendingHook ann h"
  "is_latched (markHookPending ann h) \<longleftrightarrow> is_latched ann"
  by (simp_all add: is_latched_def latch_def hasPendingHook_def pendingHooks_def markHookPending_def map_get_def
      UpdateInProgressAnnotation_def PendingHooksAnnotation_def)

lemma hasPendingHook_mark [simp]: "hasPendingHook (markHookPending ann updateMachineHook) updateMachineHook"
  using hooks.hooks_mark [OF updateMachineHook_name, of ann] by (simp add: hasPendingHook_def)

text \<open>
  The comma-separated annotation implements a set of hooks: marking a sequence of
  hooks adds exactly those to the ones already pending, keeps the stored list sorted and
  free of duplicates, and touches no other annotation.
\<close>
theorem pending_hooks_are_a_set:
  assumes "list_all hook_name hs" and "hs \<noteq> []"
  shows "set (pendingHooks (foldl markHookPending ann hs)) = set hs \<union> set (pendingHooks ann) \<and>
     sorted (pendingHooks (foldl markHookPending ann hs)) \<and> distinct (pendingHooks (foldl markHookPending ann hs)) \<and>
     (\<forall>k. k \<noteq> PendingHooksAnnotation \<longrightarrow> foldl markHookPending ann hs k = ann k)"
proof (intro conjI allI impI)
  show "set (pendingHooks (foldl markHookPending ann hs)) = set hs \<union> set (pendingHooks ann)"
    by (rule hooks.marks_fold [OF assms(1)])
  obtain hs' h where hs: "hs = hs' @ [h]"
    using assms(2) by (metis rev_exhaust)
  with assms(1) have "hook_name h" by simp
  then show "sorted (pendingHooks (foldl markHookPending ann hs))"
    and "distinct (pendingHooks (foldl markHookPending ann hs))"
    by (simp_all add: hs pendingHooks_mark del: remdups.simps)
  show "foldl markHookPending ann hs k = ann k" if "k \<noteq> PendingHooksAnnotation" for k
    using that by (induction hs arbitrary: ann) (simp_all add: markHookPending_def)
qed

theorem pending_hooks_are_a_set_witness:
  "set (pendingHooks (foldl markHookPending [PendingHooksAnnotation \<mapsto> ''B,A''] [''UpdateMachine''])) =
     {''A'', ''B'', ''UpdateMachine''}"
  using pending_hooks_are_a_set [of "[''UpdateMachine'']" "[PendingHooksAnnotation \<mapsto> ''B,A'']"]
  by (auto simp: hook_name_def pendingHooks_def map_get_def)

subsection \<open>Interrupted triggers\<close>

definition stored :: "machine \<Rightarrow> event list \<Rightarrow> machine" where
  \<comment> \<open>the machine as the API server holds it after these requests\<close>
  "stored m evs = fold (\<lambda>ev cur. case ev of Wrote (PatchMachine _ b) None \<Rightarrow> b | _ \<Rightarrow> cur) evs m"

lemma stored_simps [simp]:
  "stored m [] = m" "stored m (xs @ ys) = stored (stored m xs) ys"
  "stored m (Wrote (PatchMachine a b) None # evs) = stored b evs"
  "stored m (Wrote (PatchMachine a b) (Some e) # evs) = stored m evs"
  "stored m (Wrote (PatchInfraMachine u v) w # evs) = stored m evs"
  "stored m (Wrote (PatchControllerConfig c d) w # evs) = stored m evs"
  by (simp_all add: stored_def)

lemmas trigger_run = latch_machine_def latch_infra_def latch_config_def hook_machine_def set_machine_def Let_def

lemma latch_machine_run:
  assumes "latch_machine E m s = (r, s')"
  shows "(r = Ok m \<and> is_latched (m_Annotations m) \<and> s' = s) \<or>
     (\<not> is_latched (m_Annotations m) \<and> (let m' = m\<lparr>m_Annotations := latch (m_Annotations m)\<rparr> in
        (r = Ok m' \<and> trace s' = trace s @ [Wrote (PatchMachine m m') None]) \<or>
        (\<exists>e x. r = Err x \<and> trace s' = trace s @ [Wrote (PatchMachine m m') (Some e)])))"
  using assms by (auto simp: trigger_run run_simps split: if_splits option.splits)

lemma latch_infra_run:
  assumes "latch_infra E n u s = (r, s')"
  shows "(r = Ok () \<and> is_latched (u_Annotations u) \<and> s' = s) \<or>
     (\<not> is_latched (u_Annotations u) \<and> (\<exists>e u'. trace s' = trace s @ [Wrote (PatchInfraMachine u u') e] \<and>
        is_latched (u_Annotations u') \<and> (if e = None then r = Ok () else (\<exists>x. r = Err x))))"
  using assms by (auto simp: trigger_run run_simps split: if_splits option.splits)

lemma latch_config_run:
  assumes "latch_config E n c s = (r, s')"
  shows "(r = Ok () \<and> is_latched (om_Annotations (kcc_Meta c)) \<and> s' = s) \<or>
     (\<not> is_latched (om_Annotations (kcc_Meta c)) \<and> (\<exists>e c'. trace s' = trace s @ [Wrote (PatchControllerConfig c c') e] \<and>
        is_latched (om_Annotations (kcc_Meta c')) \<and> (if e = None then r = Ok () else (\<exists>x. r = Err x))))"
  using assms by (auto simp: trigger_run run_simps split: if_splits option.splits)

lemma hook_machine_run:
  assumes "hook_machine E v m s = (r, s')" and "\<not> hasPendingHook (m_Annotations m) updateMachineHook"
  shows "\<exists>e. trace s' = trace s @ [Wrote (PatchMachine m (m\<lparr>m_Version := v,
        m_Annotations := markHookPending (m_Annotations m) updateMachineHook\<rparr>)) e] \<and>
      (if e = None then r = Ok () else (\<exists>x. r = Err x))"
  using assms by (auto simp: trigger_run run_simps split: if_splits option.splits)



subsection \<open>Holding the rollout\<close>

lemma completeInterruptedTriggers_False:
  assumes "completeInterruptedTriggers L E s = (Ok False, s')"
  shows "scope s' = scope s"
proof -
  have "keeps same_scope (isK0smotronExtensionForInplaceUpdateDeployed E)"
    unfolding isK0smotronExtensionForInplaceUpdateDeployed_def
    by (auto intro!: same_scope_rules split: sum.splits)
  then have "isK0smotronExtensionForInplaceUpdateDeployed E s = (q, s1) \<Longrightarrow> scope s1 = scope s" for q s1
    by (auto simp: same_scope_def dest: keepsD)
  with assms show ?thesis
    unfolding completeInterruptedTriggers_def
    by (auto elim!: bindM_OkE wrapM_OkE split: if_splits)
qed

lemma start_and_requeue_Ok: "start_and_requeue L E s = (Ok res, s') \<Longrightarrow> res = requeue_10s"
  unfolding start_and_requeue_def by (auto elim!: bindM_OkE)

lemma follow_plan_required_Ok: "follow_plan L E True plan s = (Ok res, s') \<Longrightarrow> res = requeue_10s"
  unfolding follow_plan_def by (auto elim!: bindM_OkE split: if_splits dest: start_and_requeue_Ok)

text \<open>
  With the in-place strategy and a machine that is outdated in its version only, the
  in-place step lets scaling, which would replace the machine, go on only when the control plane
  is not available and its number of machines is not the desired one; otherwise it asks to be
  run again or fails.
\<close>
theorem inplace_update_holds_rollout:
  assumes run: "reconcileInplaceK0sVersionUpdate L E s = (Ok res, s')"
    and required: "requires_inplace_update (scope s)" and zero: "result_is_zero res"
  shows "\<not> cond_IsTrue (conds L) (kst_Conditions (kcp_Status (cp_kcp (scope s)))) ControlPlaneAvailableCondition \<and>
     int (length (activeMachines (scope s))) \<noteq> desired_replicas (scope s)"
proof -
  have nz: "res \<noteq> requeue_10s" "res \<noteq> requeue_after_10s"
    using zero by (auto simp: result_is_zero_def requeue_after_10s_def requeue_10s_def zero_result_def second_def)
  from run obtain b s1 where c: "completeInterruptedTriggers L E s = (Ok b, s1)"
    unfolding reconcileInplaceK0sVersionUpdate_def Let_def by (auto elim!: bindM_OkE)
  have nb: "\<not> b"
    using run c nz by (auto simp: reconcileInplaceK0sVersionUpdate_def Let_def run_bindM)
  then have sc: "scope s1 = scope s"
    using c completeInterruptedTriggers_False by simp
  show ?thesis
  proof (rule ccontr)
    assume "\<not> ?thesis"
    with run c nb nz required show False
      unfolding reconcileInplaceK0sVersionUpdate_def Let_def run_bindM [of scopeM] run_scopeM
      by (auto simp: run_bindM run_tryM sc split: if_splits prod.splits res.splits
          dest: start_and_requeue_Ok follow_plan_required_Ok)
  qed
qed

definition ref_inplace_scope :: controlplane where
  "ref_inplace_scope = (let sc = ref_scope 3 [ref_machine ''a'' 1] [] [] in
     sc\<lparr>hasMachinesWithOnlyVersionOutdated := True,
        cp_kcp := (cp_kcp sc)\<lparr>kcp_Spec := (kcp_Spec (cp_kcp sc))\<lparr>ks_UpdateStrategy := UpdateInPlace\<rparr>\<rparr>\<rparr>)"

theorem inplace_update_holds_rollout_witness:
  "\<exists>s'. reconcileInplaceK0sVersionUpdate ref_lib (ref_env []) (ref_ctl ref_inplace_scope) = (Ok zero_result, s') \<and>
     int (length (activeMachines ref_inplace_scope)) \<noteq> desired_replicas ref_inplace_scope"
proof -
  have "\<exists>s'. reconcileInplaceK0sVersionUpdate ref_lib (ref_env []) (ref_ctl ref_inplace_scope) = (Ok zero_result, s')"
    by (simp add: reconcileInplaceK0sVersionUpdate_def completeInterruptedTriggers_def ref_inplace_scope_def
        desired_replicas_def defaultFeatureMap_def isEnabled_def InPlaceUpdates_def CloudInitVars_def
        Let_def run_simps ref_defs)
  then obtain s' where run: "reconcileInplaceK0sVersionUpdate ref_lib (ref_env []) (ref_ctl ref_inplace_scope) = (Ok zero_result, s')"
    by blast
  have "requires_inplace_update (scope (ref_ctl ref_inplace_scope))"
    by (simp add: requires_inplace_update_def ref_inplace_scope_def ref_ctl_def Let_def)
  from inplace_update_holds_rollout [OF run this] run show ?thesis
    by (auto simp: ref_ctl_def)
qed

text \<open>
  When a background loop ends, it unregisters itself only if it is still the registered
  one: if another loop was started for the same control plane in the meantime, whatever happened in
  between, the registration of the new loop stays; otherwise the entry is removed.
\<close>
theorem ended_loop_keeps_successor:
  assumes "startUpdateMachineVersions kcp s = (Ok (), s1)" and "appends P s1 s2"
    and "startUpdateMachineVersions kcp s2 = (Ok (), s3)"
  shows "finishUpdateMachineVersions (kcp_key kcp) (length (trace s)) s3 = (Ok (), s3) \<and>
     autopilotUpdateCancels s3 (kcp_key kcp) = Some (length (trace s2)) \<and>
     autopilotUpdateCancels (snd (finishUpdateMachineVersions (kcp_key kcp) (length (trace s)) s1)) (kcp_key kcp) = None"
  using assms
  by (auto simp: startUpdateMachineVersions_def finishUpdateMachineVersions_def log_event_def appends_def)

theorem ended_loop_keeps_successor_witness:
  "\<exists>s1 s3. startUpdateMachineVersions (ref_kcp 3) (ref_ctl (ref_scope 3 [] [] [])) = (Ok (), s1) \<and>
     startUpdateMachineVersions (ref_kcp 3) s1 = (Ok (), s3) \<and>
     finishUpdateMachineVersions (kcp_key (ref_kcp 3)) 0 s3 = (Ok (), s3)"
proof -
  let ?s = "ref_ctl (ref_scope 3 [] [] [])"
  obtain s1 where 1: "startUpdateMachineVersions (ref_kcp 3) ?s = (Ok (), s1)"
    by (simp add: startUpdateMachineVersions_def)
  obtain s3 where 3: "startUpdateMachineVersions (ref_kcp 3) s1 = (Ok (), s3)"
    by (simp add: startUpdateMachineVersions_def)
  from ended_loop_keeps_successor [OF 1 _ 3, of "\<lambda>_. True"] 1 3 show ?thesis
    by (auto simp: ref_ctl_def emits.frame_refl)
qed

end
