(* ===== verification/Scaling.thy ===== *)
theory Scaling
  imports Inplace
begin

text \<open>
  Scaling and rolling out the control plane machines (\<open>scale.go\<close>): the decisions, creating
  and deleting one machine, the checks that come before, and \<open>reconcileMachines\<close>, which
  composes them. The theorems bound what one reconciliation may do: how many machines it
  creates, which machine it deletes, in which order the objects of a new machine are written.
\<close>

subsection \<open>Decisions\<close>

definition isDesiredStateReached :: "controlplane \<Rightarrow> bool" where
  "isDesiredStateReached sc =
     (if int (length (upToDateMachines sc)) \<noteq> desired_replicas sc then False
      else if length (notUpToDateMachines sc) > 0 then False
      else length (deletedMachines sc) = 0)"

definition isNeededScaleDown :: "controlplane \<Rightarrow> bool" where
  "isNeededScaleDown sc =
     (let potentialMachinesCount = int (length (activeMachines sc)) - 1; minimumAllowedMachines = 1 in
      if potentialMachinesCount < minimumAllowedMachines then False
      else if int (length (activeMachines sc)) > desired_replicas sc then True
      else length (notUpToDateMachines sc) > 0)"

definition calculateMaxSurge :: "controlplane \<Rightarrow> int" where
  "calculateMaxSurge sc =
     (if ks_UpdateStrategy (kcp_Spec (cp_kcp sc)) = UpdateRecreateDeleteFirst \<and> desired_replicas sc \<ge> 3
      then desired_replicas sc else desired_replicas sc + 1)"

definition isNeededScaleUp :: "controlplane \<Rightarrow> bool" where
  "isNeededScaleUp sc =
     (let potentialMachinesCount =
            int (length (activeMachines sc)) + int (length (deletedMachines sc)) + 1;
          maxSurge = calculateMaxSurge sc
      in if potentialMachinesCount > maxSurge then False
         else int (length (upToDateMachines sc)) < desired_replicas sc)"

definition filterControlPlaneFailureDomains :: "cluster \<Rightarrow> failure_domain list" where
  "filterControlPlaneFailureDomains cl = filter (\<lambda>fd. deref False (fd_ControlPlane fd)) (cl_FailureDomains cl)"

definition nextFailureDomain :: "lib \<Rightarrow> controlplane \<Rightarrow> string" where
  "nextFailureDomain L sc =
     fd_PickFewest (colls L) (filterControlPlaneFailureDomains (cp_cluster sc))
       (activeMachines sc @ deletedMachines sc)
       (machines_named (activeMachines sc) (upToDateMachines sc))"

subsection \<open>One step up, one step down\<close>

definition clear_remediation :: "controlplane \<Rightarrow> controlplane" where
  "clear_remediation sc = sc\<lparr>cp_kcp := (cp_kcp sc)\<lparr>kcp_Meta := (kcp_Meta (cp_kcp sc))\<lparr>om_Annotations :=
     (om_Annotations (kcp_Meta (cp_kcp sc)))(RemediationInProgressAnnotation := None)\<rparr>\<rparr>\<rparr>"

definition create_machine :: "lib \<Rightarrow> env \<Rightarrow> controlplane \<Rightarrow> string \<Rightarrow> unstructured \<Rightarrow> unit ctlM" where
  \<comment> \<open>\<open>scaleUp\<close> once the infrastructure machine exists\<close>
  "create_machine L E sc newMachineName infraMachine =
     (let infraRef = \<lparr>r_Kind = u_Kind infraMachine, r_Name = u_Name infraMachine,
                      r_APIGroup = ''infrastructure.cluster.x-k8s.io''\<rparr>
      in bindM (wrapM (Wrapf ''error generating machine'')
                  (liftE (generateMachine L newMachineName (cp_cluster sc) (cp_kcp sc) infraRef
                            (nextFailureDomain L sc)))) (\<lambda>m.
         bindM (wrapM (Wrapf ''error getting machine k0s config'')
                  (liftE (getMachineK0sConfig (codecs L) m))) (\<lambda>machineK0sConfig.
         bindM (wrapM (Wrapf ''error creating bootstrap config'')
                  (createBootstrapConfig L E (m_Name m) machineK0sConfig (cp_kcp sc) (cl_Name (cp_cluster sc)))) (\<lambda>_.
         bindM (wrapM (Wrapf ''error patching machine'') (writeM E (ApplyMachine m))) (\<lambda>_.
         set_scopeM clear_remediation)))))"

definition scaleUp :: "lib \<Rightarrow> env \<Rightarrow> unit ctlM" where
  "scaleUp L E =
     bindM scopeM (\<lambda>sc.
     bindM (readM (ReadName (kcp_Name (cp_kcp sc) @ ''-''))
              (\<lambda>tr. Inr (e_GenerateName E tr (kcp_Name (cp_kcp sc) @ ''-'')))) (\<lambda>newMachineName.
     bindM (wrapM (Wrapf ''error creating machine from template'')
              (createMachineFromTemplate L E newMachineName (cp_cluster sc) (cp_kcp sc))) (\<lambda>infraMachine.
     create_machine L E sc newMachineName infraMachine)))"

definition machine_to_delete :: "lib \<Rightarrow> controlplane \<Rightarrow> machine option" where
  \<comment> \<open>the first half of \<open>scaleDown\<close>\<close>
  "machine_to_delete L sc =
     (case coll_Oldest (colls L) (machines_named (activeMachines sc) (notUpToDateMachines sc)) of
        Some m \<Rightarrow> Some m
      | None \<Rightarrow> coll_Oldest (colls L) (machines_named (activeMachines sc) (upToDateMachines sc)))"

definition scaleDown :: "lib \<Rightarrow> env \<Rightarrow> unit ctlM" where
  "scaleDown L E =
     bindM scopeM (\<lambda>sc.
     case machine_to_delete L sc of
       None \<Rightarrow> failM (Errorf ''no machine found to delete'')
     | Some m \<Rightarrow> deleteMachine E (m_Name m) (cp_kcp sc))"

subsection \<open>Checks and conditions\<close>

definition isAnyMachineUpdating :: "lib \<Rightarrow> controlplane \<Rightarrow> bool" where
  "isAnyMachineUpdating L sc =
     list_ex (\<lambda>m. cond_IsTrue (conds L) (m_Conditions m) MachineUpdatingCondition) (activeMachines sc)"

definition isLatestMachineReady :: "lib \<Rightarrow> env \<Rightarrow> bool ctlM" where
  "isLatestMachineReady L E =
     bindM scopeM (\<lambda>sc.
     case coll_Newest (colls L) (activeMachines sc) of
       None \<Rightarrow> ret True
     | Some latest \<Rightarrow>
         (let useControlNode = (case controllerConfigs sc (m_Name latest) of
                None \<Rightarrow> True | Some c \<Rightarrow> \<not> WorkerEnabled (kcc_K0sConfigSpec c))
          in if useControlNode then
               tryM (checkMachineIsReady E (m_Name latest) (cp_cluster sc))
                 (\<lambda>r. case r of Inl _ \<Rightarrow> ret False | Inr _ \<Rightarrow> ret True)
             else ret (cond_IsTrue (conds L) (m_Conditions latest) MachineAvailableCondition)))"

definition preflightChecks :: "lib \<Rightarrow> env \<Rightarrow> result ctlM" where
  "preflightChecks L E =
     bindM (reconcileUnhealthyMachines L E) (\<lambda>_.
     bindM (wrapM (Wrapf ''error reconciling manual deletions'') (reconcileManualDeletions L E)) (\<lambda>_.
     bindM (isLatestMachineReady L E) (\<lambda>ready.
     if \<not> ready then ret requeue_10s
     else bindM scopeM (\<lambda>sc.
       if isAnyMachineUpdating L sc then ret requeue_10s else ret zero_result))))"

definition up_to_date_condition :: "controlplane \<Rightarrow> machine \<Rightarrow> condition" where
  "up_to_date_condition sc m =
     (if m_Name m \<in> set (upToDateMachines sc)
      then mk_condition MachineUpToDateCondition ConditionTrue ''UpToDate'' []
      else mk_condition MachineUpToDateCondition ConditionFalse ''NotUpToDate'' [])"

definition set_up_to_date :: "lib \<Rightarrow> env \<Rightarrow> machine \<Rightarrow> gerror list ctlM" where
  "set_up_to_date L E m =
     tryM (newPatchHelper E) (\<lambda>r. case r of
       Inl e \<Rightarrow> ret [e]
     | Inr _ \<Rightarrow>
         bindM (nowM E) (\<lambda>now.
         bindM scopeM (\<lambda>sc.
         (let m' = m\<lparr>m_Conditions := cond_Set (conds L) now (m_Conditions m) (up_to_date_condition sc m)\<rparr> in
          bindM (set_machine m') (\<lambda>_. errs_of id (writeM E (PatchMachine m m')))))))"

definition setUpToDateMachineCondition :: "lib \<Rightarrow> env \<Rightarrow> unit ctlM" where
  "setUpToDateMachineCondition L E =
     bindM scopeM (\<lambda>sc.
     bindM (collect_errs (set_up_to_date L E) (activeMachines sc)) (\<lambda>errs. retErr (new_aggregate errs)))"

subsection \<open>Reconciling the machines\<close>

datatype decision = ScaleUp | ScaleDown | Stay

definition decide :: "controlplane \<Rightarrow> decision" where
  \<comment> \<open>the switch of \<open>reconcileMachines\<close>\<close>
  "decide sc = (if isNeededScaleUp sc then ScaleUp else if isNeededScaleDown sc then ScaleDown else Stay)"

definition scale_step :: "lib \<Rightarrow> env \<Rightarrow> result ctlM" where
  \<comment> \<open>\<open>reconcileMachines\<close> after the checks\<close>
  "scale_step L E =
     bindM scopeM (\<lambda>sc.
     bindM (case decide sc of
              ScaleUp \<Rightarrow> bindM (wrapM (Wrapf ''error scaling up control plane'') (scaleUp L E)) (\<lambda>_. reinit_scope L E)
            | ScaleDown \<Rightarrow> bindM (wrapM (Wrapf ''error scaling down control plane'') (scaleDown L E)) (\<lambda>_. reinit_scope L E)
            | Stay \<Rightarrow> ret ()) (\<lambda>_.
     bindM scopeM (\<lambda>sc'.
     if \<not> isDesiredStateReached sc' then ret requeue_10s else ret zero_result)))"

definition reconcileMachines :: "lib \<Rightarrow> env \<Rightarrow> result ctlM" where
  "reconcileMachines L E =
     deferM
       (bindM (preflightChecks L E) (\<lambda>res.
        if \<not> result_is_zero res then ret res
        else bindM (reconcileInplaceK0sVersionUpdate L E) (\<lambda>res'.
          if \<not> result_is_zero res' then ret res'
          else scale_step L E)))
       (tryM (setUpToDateMachineCondition L E) (\<lambda>_. ret ()))"

subsection \<open>Creating a machine\<close>

lemma machine_request_infra [simp]:
  "\<not> is_machine_request (Wrote (ApplyInfraMachine u) e)" "\<not> is_machine_request (Wrote (PatchInfraTemplate u) e)"
  "\<not> is_machine_request (Wrote (MergePatchInfraSpec u p ob) e)"
  "\<not> is_machine_request (Wrote (ApplyControllerConfig c) e)"
  "is_machine_request (Wrote (ApplyMachine m) e)" "is_machine_request (Wrote (DeleteMachine ns n) e)"
  by (simp_all add: is_machine_request_def is_machine_patch_def)

lemma createMachineFromTemplate_emits:
  "emits (\<lambda>ev. \<not> is_machine_request ev) (createMachineFromTemplate L E n cl kcp)"
  unfolding createMachineFromTemplate_def generateMachineFromTemplate_def getMachineTemplate_def Let_def
  by (auto intro!: emits_intros split: sum.splits option.splits)

lemma createMachineFromTemplate_same_scope: "keeps same_scope (createMachineFromTemplate L E n cl kcp)"
  unfolding createMachineFromTemplate_def generateMachineFromTemplate_def getMachineTemplate_def Let_def
  by (auto intro!: same_scope_rules split: sum.splits option.splits)

definition new_name :: "env \<Rightarrow> ctl \<Rightarrow> string" where
  "new_name E s = e_GenerateName E (trace s) (kcp_Name (cp_kcp (scope s)) @ ''-'')"

lemma create_machine_run:
  assumes "create_machine L E sc n infra s = (r, s')"
  shows "(\<exists>evs. trace s' = trace s @ evs \<and> (\<exists>x. r = Err x) \<and> list_all (\<lambda>ev. \<not> is_machine_request ev) evs \<and>
        scope s' = scope s) \<or>
     (\<exists>c m e ref. trace s' = trace s @ [Wrote (ApplyControllerConfig c) None, Wrote (ApplyMachine m) e] \<and>
        om_Name (kcc_Meta c) = m_Name m \<and>
        generateMachine L n (cp_cluster sc) (cp_kcp sc) ref (nextFailureDomain L sc) = Inr m \<and>
        (if e = None then r = Ok () \<and> scope s' = clear_remediation (scope s)
         else (\<exists>x. r = Err x) \<and> scope s' = scope s))"
proof (cases "generateMachine L n (cp_cluster sc) (cp_kcp sc) \<lparr>r_Kind = u_Kind infra, r_Name = u_Name infra,
      r_APIGroup = ''infrastructure.cluster.x-k8s.io''\<rparr> (nextFailureDomain L sc)")
  case (Inl e)
  with assms show ?thesis
    by (auto simp: create_machine_def run_bindM run_wrapM intro: exI [of _ "[]"])
next
  case g: (Inr m)
  show ?thesis
  proof (cases "getMachineK0sConfig (codecs L) m")
    case (Inl e)
    with assms g show ?thesis
      by (auto simp: create_machine_def run_bindM run_wrapM intro: exI [of _ "[]"])
  next
    case (Inr cfg)
    obtain c where c: "createBootstrapConfig L E (m_Name m) cfg (cp_kcp sc) (cl_Name (cp_cluster sc)) =
        wrapM (Wrapf ''error patching K0sControllerConfig'') (writeM E (ApplyControllerConfig c))"
      and cn: "om_Name (kcc_Meta c) = m_Name m"
      by (simp add: createBootstrapConfig_def)
    let ?w1 = "Wrote (ApplyControllerConfig c)" and ?w2 = "Wrote (ApplyMachine m)"
    show ?thesis
    proof (cases "e_write E (trace s) (ApplyControllerConfig c)")
      case None
      with assms g Inr c have "trace s' = trace s @ [?w1 None, ?w2 (e_write E (trace s @ [?w1 None]) (ApplyMachine m))]"
        "if e_write E (trace s @ [?w1 None]) (ApplyMachine m) = None then r = Ok () \<and> scope s' = clear_remediation (scope s)
         else (\<exists>x. r = Err x) \<and> scope s' = scope s"
        by (auto simp: create_machine_def run_bindM run_wrapM split: option.splits)
      with cn g show ?thesis by blast
    next
      case (Some e)
      with assms g Inr c show ?thesis
        by (auto simp: create_machine_def run_bindM run_wrapM intro: exI [of _ "[?w1 (Some e)]"])
    qed
  qed
qed

lemma scaleUp_prefix:
  assumes run: "scaleUp L E s = (r, s')"
  obtains s1 evs where "trace s1 = trace s @ evs" and "list_all (\<lambda>ev. \<not> is_machine_request ev) evs"
    and "scope s1 = scope s"
    and "(r \<noteq> Ok () \<and> s' = s1) \<or> (\<exists>infra. create_machine L E (scope s) (new_name E s) infra s1 = (r, s'))"
proof -
  let ?rd = "Read (ReadName (kcp_Name (cp_kcp (scope s)) @ ''-''))"
  let ?s0 = "log_event ?rd s"
  let ?c = "createMachineFromTemplate L E (new_name E s) (cp_cluster (scope s)) (cp_kcp (scope s))"
  obtain q s1 where c: "?c ?s0 = (q, s1)" by fastforce
  have "trace s1 = trace s @ (?rd # new_events ?s0 s1)"
    using emits_extends [OF createMachineFromTemplate_emits c] by simp
  moreover have "list_all (\<lambda>ev. \<not> is_machine_request ev) (?rd # new_events ?s0 s1)"
    using emits_list_all [OF createMachineFromTemplate_emits c] by simp
  moreover have "scope s1 = scope s"
    using keepsD [OF createMachineFromTemplate_same_scope c] by (simp add: same_scope_def)
  moreover have "(r \<noteq> Ok () \<and> s' = s1) \<or> (\<exists>infra. create_machine L E (scope s) (new_name E s) infra s1 = (r, s'))"
    using run c by (cases q) (auto simp: scaleUp_def run_bindM run_wrapM new_name_def)
  ultimately show thesis using that by blast
qed


definition ref_template :: unstructured where
  "ref_template = \<lparr>u_APIVersion = ''infra/v1'', u_Kind = ''DockerMachineTemplate'', u_Name = ''tmpl'',
     u_Namespace = ''default'', u_Labels = Map.empty, u_Annotations = Map.empty,
     u_Content = [(''spec'', JObj [(''template'', JObj [])])]\<rparr>"

definition ref_full_env :: "machine list \<Rightarrow> env" where
  \<comment> \<open>the reference server with a machine template\<close>
  "ref_full_env ms = (ref_env ms)\<lparr>e_GetObject := (\<lambda>_ _ k _.
     if k = ''DockerMachineTemplate'' then Inr ref_template else Inl not_found)\<rparr>"

lemma ref_annotation: "generateK0sConfigAnnotationValueForMachine ref_lib (ref_kcp n) name = Inr ''ref''"
  by (simp add: generateK0sConfigAnnotationValueForMachine_def ref_codec_def ref_kcp_def ref_ver_def)

lemma ref_scaleUp_Ok: "\<exists>s'. scaleUp ref_lib (ref_full_env ms) (ref_ctl (ref_scope n act del up)) = (Ok (), s')"
proof -
  obtain m where m: "generateMachine ref_lib ''cp-x7k2p'' ref_cluster (ref_kcp n)
      \<lparr>r_Kind = ''DockerMachine'', r_Name = ''cp-x7k2p'', r_APIGroup = ''infrastructure.cluster.x-k8s.io''\<rparr>
      (nextFailureDomain ref_lib (ref_scope n act del up)) = Inr m" "m_Annotations m MachineK0sConfigAnnotation = Some ''ref''"
    by (simp add: generateMachine_def Let_def ref_annotation)
  have "getMachineK0sConfig ref_codec m = Inr (omitempty ref_spec)"
    by (simp add: getMachineK0sConfig_def m(2) ref_codec_def)
  moreover have "kcp_Name (cp_kcp (ref_scope n act del up)) = ''cp''" "cp_cluster (ref_scope n act del up) = ref_cluster"
    "cp_kcp (ref_scope n act del up) = ref_kcp n"
    by (simp_all add: ref_scope_def ref_kcp_def ref_meta_def)
  moreover have "mt_InfraKind (kcp_Template (ref_kcp n)) = ''DockerMachineTemplate''"
    by (simp add: ref_kcp_def)
  ultimately show ?thesis
    using m(1)
    by (simp add: scaleUp_def create_machine_def createMachineFromTemplate_def generateMachineFromTemplate_def
        getMachineTemplate_def infra_machine_of_template_def createBootstrapConfig_def ref_full_env_def
        ref_env_def ref_ctl_def ref_template_def ref_json_def trim_suffix_def not_found_def run_simps Let_def)
qed


subsection \<open>Deleting a machine\<close>

text \<open>
  On a well-formed scope with an active machine, \<open>scaleDown\<close> asks for the
  deletion of exactly one machine: the oldest outdated one if there is any, and otherwise the oldest of
  all; it succeeds when the deletion succeeds or the machine is already gone.
\<close>
theorem scaleDown_deletes_oldest_outdated:
  assumes laws: "coll_laws (colls L)" and wf: "scope_wf (scope s)" and ne: "activeMachines (scope s) \<noteq> []"
    and run: "scaleDown L E s = (r, s')"
  shows "\<exists>m e. m \<in> set (activeMachines (scope s)) \<and>
     new_events s s' = [Wrote (DeleteMachine (kcp_Namespace (cp_kcp (scope s))) (m_Name m)) e] \<and>
     (r = Ok () \<longleftrightarrow> acked e) \<and>
     (if notUpToDateMachines (scope s) \<noteq> []
      then m_Name m \<in> set (notUpToDateMachines (scope s)) \<and>
        (\<forall>m' \<in> set (activeMachines (scope s)). m_Name m' \<in> set (notUpToDateMachines (scope s)) \<longrightarrow>
           m_CreationTimestamp m \<le> m_CreationTimestamp m')
      else \<forall>m' \<in> set (activeMachines (scope s)). m_CreationTimestamp m \<le> m_CreationTimestamp m')"
proof -
  let ?sc = "scope s"
  let ?old = "machines_named (activeMachines ?sc) (notUpToDateMachines ?sc)"
  let ?new = "machines_named (activeMachines ?sc) (upToDateMachines ?sc)"
  have all: "notUpToDateMachines ?sc = [] \<Longrightarrow> set ?new = set (activeMachines ?sc)"
    using scope_wf_names [OF wf] by (auto simp: machines_named_def)
  obtain m where m: "machine_to_delete L ?sc = Some m" and
    props: "m \<in> set (activeMachines ?sc)"
      "if notUpToDateMachines ?sc \<noteq> []
       then m_Name m \<in> set (notUpToDateMachines ?sc) \<and>
         (\<forall>m' \<in> set (activeMachines ?sc). m_Name m' \<in> set (notUpToDateMachines ?sc) \<longrightarrow>
            m_CreationTimestamp m \<le> m_CreationTimestamp m')
       else \<forall>m' \<in> set (activeMachines ?sc). m_CreationTimestamp m \<le> m_CreationTimestamp m'"
  proof (cases "notUpToDateMachines ?sc = []")
    case True
    then have "?old = []" by (simp add: machines_named_def)
    moreover have "?new \<noteq> []" using all [OF True] ne by (metis set_empty)
    then obtain m where m: "coll_Oldest (colls L) ?new = Some m"
      using coll_Oldest_ex [OF laws] by blast
    moreover have "coll_Oldest (colls L) ?old = None"
      using \<open>?old = []\<close> coll_Oldest_None [OF laws] by blast
    ultimately have "machine_to_delete L ?sc = Some m" by (simp add: machine_to_delete_def)
    with m that True all coll_Oldest_SomeD [OF laws, of ?new m] show thesis by simp
  next
    case False
    then have "?old \<noteq> []" using scope_wf_named_Nil [OF wf] by simp
    then obtain m where "coll_Oldest (colls L) ?old = Some m"
      using coll_Oldest_ex [OF laws] by blast
    moreover from this have "machine_to_delete L ?sc = Some m" by (simp add: machine_to_delete_def)
    ultimately show thesis
      using that False coll_Oldest_SomeD [OF laws, of ?old m] by (auto simp: machines_named_def)
  qed
  have "\<exists>e. new_events s s' = [Wrote (DeleteMachine (kcp_Namespace (cp_kcp ?sc)) (m_Name m)) e] \<and>
      (r = Ok () \<longleftrightarrow> acked e)"
    using run m by (auto simp: scaleDown_def deleteMachine_def run_simps new_events_def acked_def
        split: option.splits if_splits)
  with props show ?thesis by blast
qed

theorem scaleDown_deletes_oldest_outdated_witness:
  "\<exists>r s' e. scaleDown ref_lib (ref_env []) (ref_ctl (ref_scope 3 [ref_machine ''b'' 2, ref_machine ''a'' 1, ref_machine ''c'' 0] [] [''c''])) = (r, s') \<and>
     new_events (ref_ctl (ref_scope 3 [ref_machine ''b'' 2, ref_machine ''a'' 1, ref_machine ''c'' 0] [] [''c''])) s' =
       [Wrote (DeleteMachine ''default'' ''a'') e]"
proof -
  let ?sc = "ref_scope 3 [ref_machine ''b'' 2, ref_machine ''a'' 1, ref_machine ''c'' 0] [] [''c'']"
  obtain r s' where run: "scaleDown ref_lib (ref_env []) (ref_ctl ?sc) = (r, s')" by fastforce
  have "coll_laws (colls ref_lib)" by (simp add: ref_coll_laws)
  moreover have "scope_wf (scope (ref_ctl ?sc))"
    by (auto simp: scope_wf_def ref_ctl_def ref_scope_def ref_machine_def)
  moreover have "activeMachines (scope (ref_ctl ?sc)) \<noteq> []"
    by (simp add: ref_ctl_def ref_scope_def)
  ultimately show ?thesis
    using scaleDown_deletes_oldest_outdated [OF _ _ _ run] run
    by (auto simp: ref_ctl_def ref_scope_def ref_machine_def ref_kcp_def ref_meta_def)
qed

subsection \<open>What the checks do not rule out\<close>

definition ref_healthy :: "string \<Rightarrow> int \<Rightarrow> machine" where
  "ref_healthy n created = (ref_machine n created)\<lparr>m_NodeRefName := n, m_Conditions :=
     [mk_condition MachineHealthCheckSucceededCondition ConditionTrue ''Ok'' []]\<rparr>"

lemmas readiness_run = isLatestMachineReady_def checkMachineIsReady_def getWorkloadClusterClientset_def
  GetWorkloadClusterClientset_def FindK0sControlPlane_def getRESTConfig_def client_for_def
  isTunneledRestConfigPossible_def isAnyMachineUpdating_def minute_def second_def

lemmas leave_run = reconcileManualDeletions_def manual_body_def deleteK0sNodeResources_def leave_control_plane_def
  leave_attempts_def numeral_eq_Suc leave_member_def markChildControlNodeToLeave_def checkMachineLeft_def
  deleteControlNode_def removePreTerminateHookAnnotationFromMachine_def release_hook_def without_hook_def

lemmas inplace_run = reconcileInplaceK0sVersionUpdate_def completeInterruptedTriggers_def requires_inplace_update_def
  defaultFeatureMap_def isEnabled_def InPlaceUpdates_def CloudInitVars_def

lemmas decision_defs = decide_def isNeededScaleUp_def isNeededScaleDown_def calculateMaxSurge_def
  isDesiredStateReached_def desired_replicas_def

lemmas reconcile_run = reconcileMachines_def preflightChecks_def remediation_run leave_run readiness_run
  ref_healthy_def ref_unhealthy_def mk_condition_def remediation_names MachineUpdatingCondition_def
  RemediationInProgressAnnotation_def deletions_def is_delete_def new_events_def upd_machine_def inplace_run
  scale_step_def decision_defs UpdateRecreate_def UpdateRecreateDeleteFirst_def scaleDown_def machine_to_delete_def
  machines_named_def reinit_scope_def retrieveControlPlaneState_def listMachinesM_def build_scope_def
  setUpToDateMachineCondition_def ControlPlaneAvailableCondition_def

text \<open>
  The guard that keeps the last machine is evaluated on the scope read at the start of
  the reconciliation, from which remediation does not take the machine it deletes. A control plane that
  is being scaled from two machines to one and whose newer machine is unhealthy therefore loses
  both in one reconciliation: remediation deletes the unhealthy one, and scaling down, which still
  counts two, deletes the other.
\<close>
theorem remediation_then_scale_down_deletes_all:
  "\<exists>r s'. reconcileMachines ref_lib (ref_env [])
       (ref_ctl (ref_scope 1 [ref_healthy ''b'' 1, ref_unhealthy ''a'' 2] [] [''a'', ''b''])) = (Ok r, s') \<and>
     activeMachines (ref_scope 1 [ref_healthy ''b'' 1, ref_unhealthy ''a'' 2] [] [''a'', ''b'']) =
       [ref_healthy ''b'' 1, ref_unhealthy ''a'' 2] \<and>
     deletions (ref_ctl (ref_scope 1 [ref_healthy ''b'' 1, ref_unhealthy ''a'' 2] [] [''a'', ''b''])) s' =
       [Wrote (DeleteMachine ''default'' ''a'') None, Wrote (DeleteMachine ''default'' ''b'') None]"
  by (simp add: reconcile_run run_simps Let_def ref_defs)

text \<open>
  Machines that are still being deleted do not hold back the next deletion: with one
  new machine, two outdated ones and one already on its way out, a reconciliation of a control
  plane of three deletes another outdated machine, so a rollout may retire every old machine before
  any replacement for it exists.
\<close>
theorem deleting_machine_does_not_block_scale_down:
  "\<exists>r s'. reconcileMachines ref_lib (ref_env [])
       (ref_ctl (ref_scope 3 [ref_healthy ''new'' 9, ref_healthy ''b'' 1, ref_healthy ''c'' 2] [ref_machine ''a'' 0] [''new''])) = (Ok r, s') \<and>
     deletions (ref_ctl (ref_scope 3 [ref_healthy ''new'' 9, ref_healthy ''b'' 1, ref_healthy ''c'' 2] [ref_machine ''a'' 0] [''new''])) s' =
       [Wrote (DeleteMachine ''default'' ''b'') None]"
  by (simp add: reconcile_run run_simps Let_def ref_defs)

subsection \<open>At most one new machine\<close>

definition is_create :: "event \<Rightarrow> bool" where
  "is_create ev \<longleftrightarrow> (case ev of Wrote (ApplyMachine _) _ \<Rightarrow> True | _ \<Rightarrow> False)"

lemma is_create_simps [simp]:
  "\<not> is_create (Read r)" "is_create (Wrote w e) \<longleftrightarrow> (case w of ApplyMachine _ \<Rightarrow> True | _ \<Rightarrow> False)"
  "\<not> is_create (StartedUpdateLoop k)" "\<not> is_create (CancelledUpdateLoop k)"
  by (simp_all add: is_create_def)

definition creations :: "ctl \<Rightarrow> ctl \<Rightarrow> event list" where
  "creations s s' = filter is_create (new_events s s')"

abbreviation creates_none :: "'a ctlM \<Rightarrow> bool" where
  "creates_none m \<equiv> emits (\<lambda>ev. \<not> is_create ev) m"

lemma read_no_create: "is_read ev \<Longrightarrow> \<not> is_create ev"
  by (cases ev) (simp_all add: is_create_def is_read_def)

lemma request_no_create: "\<not> is_machine_request ev \<Longrightarrow> \<not> is_create ev"
  by (auto simp: is_machine_request_def is_create_def split: event.splits write_req.splits)

lemmas creates_none_reads = emits_mono [OF _ read_no_create]

lemma creates_none_parts:
  "creates_none (errs_of g m) \<longleftrightarrow> creates_none (tryM m (\<lambda>r. case r of Inl e \<Rightarrow> ret [g e] | Inr _ \<Rightarrow> ret []))"
  "creates_none (set_machine x)"
  "creates_none (deleteMachine E n kcp)"
  "creates_none (getWorkloadClusterClientset E cl)"
  "creates_none (retrieveControlPlaneState L E cl kcp)"
  "creates_none (removePreTerminateHookAnnotationFromMachine E m')"
  "creates_none (leave_control_plane L E sc n)"
  subgoal by (simp add: errs_of_def)
  subgoal unfolding set_machine_def by (intro emits_intros)
  subgoal unfolding deleteMachine_def by (auto intro!: emits_intros split: sum.splits)
  subgoal by (rule creates_none_reads [OF getWorkloadClusterClientset_reads])
  subgoal by (rule creates_none_reads [OF retrieveControlPlaneState_reads])
  subgoal unfolding removePreTerminateHookAnnotationFromMachine_def release_hook_def
    by (auto intro!: emits_intros split: option.splits)
  subgoal by (rule emits_mono [OF leave_control_plane_emits request_no_create])
  done

lemma creates_none_errs_of: "creates_none m \<Longrightarrow> creates_none (errs_of g m)"
  unfolding errs_of_def by (auto intro!: emits_intros split: sum.splits)

lemmas creates_none_rules = emits_rules creates_none_errs_of creates_none_parts(2-7)

lemma remediation_creates_none: "creates_none (reconcileUnhealthyMachines L E)"
  unfolding reconcileUnhealthyMachines_def sanitizeHealthyMachines_def sanitize_one_def remediate_def
    patch_remediated_def pkg_wrapf_def not_remediated_def Let_def
  by (auto intro!: creates_none_rules split: sum.splits option.splits res.splits)

lemma manual_creates_none: "creates_none (reconcileManualDeletions L E)"
  unfolding reconcileManualDeletions_def manual_body_def deleteK0sNodeResources_def
  by (auto intro!: creates_none_rules split: option.splits)

lemma preflight_creates_none: "creates_none (preflightChecks L E)"
  unfolding preflightChecks_def isLatestMachineReady_def checkMachineIsReady_def Let_def
  by (auto intro!: creates_none_rules remediation_creates_none manual_creates_none split: option.splits sum.splits)

lemma reinit_creates_none: "creates_none (reinit_scope L E)"
  unfolding reinit_scope_def by (intro creates_none_rules)

lemma scaleDown_creates_none: "creates_none (scaleDown L E)"
  unfolding scaleDown_def by (auto intro!: creates_none_rules split: option.splits)

lemma set_up_to_date_creates_none: "creates_none (setUpToDateMachineCondition L E)"
  unfolding setUpToDateMachineCondition_def set_up_to_date_def Let_def
  by (auto intro!: creates_none_rules split: sum.splits)

lemma trigger_creates_none: "creates_none (triggerCAPIInplaceVersionUpdate E v m infra config)"
  unfolding triggerCAPIInplaceVersionUpdate_def latch_machine_def latch_infra_def latch_config_def
    hook_machine_def Let_def
  by (auto intro!: creates_none_rules)

lemma extension_creates_none: "creates_none (isK0smotronExtensionForInplaceUpdateDeployed E)"
  unfolding isK0smotronExtensionForInplaceUpdateDeployed_def
  by (auto intro!: creates_none_rules split: sum.splits)

lemma interrupted_creates_none: "creates_none (completeInterruptedTriggers L E)"
  unfolding completeInterruptedTriggers_def complete_trigger_def
  by (auto intro!: creates_none_rules trigger_creates_none extension_creates_none split: option.splits)

lemma start_creates_none: "creates_none (start_and_requeue L E)"
proof -
  have "creates_none (startUpdateMachineVersions kcp)" for kcp
    by (simp add: startUpdateMachineVersions_def keeps_def appends_def log_event_def)
  then show ?thesis
    unfolding start_and_requeue_def runInplaceUpdate_def runStandaloneAutopilotPlan_def CreatePlan_def Let_def
    by (auto intro!: creates_none_rules trigger_creates_none extension_creates_none split: prod.splits)
qed

lemma follow_creates_none: "creates_none (follow_plan L E b plan)"
proof -
  have "creates_none (stopUpdateMachineVersions kcp)" for kcp
    by (auto simp: stopUpdateMachineVersions_def keeps_def appends_def log_event_def split: option.splits)
  then show ?thesis
    unfolding follow_plan_def ensureTargetMachinesWithTargetVersion_def update_named_def updateMachineVersion_def
      DeletePlan_def Let_def
    by (auto intro!: creates_none_rules start_creates_none reinit_creates_none split: option.splits sum.splits)
qed

lemma inplace_creates_none: "creates_none (reconcileInplaceK0sVersionUpdate L E)"
  unfolding reconcileInplaceK0sVersionUpdate_def GetPlan_def Let_def
  by (auto intro!: creates_none_rules interrupted_creates_none start_creates_none follow_creates_none
      split: sum.splits)

definition creates_le :: "nat \<Rightarrow> 'a ctlM \<Rightarrow> bool" where
  "creates_le n m \<longleftrightarrow> (\<forall>s. \<exists>evs. trace (snd (m s)) = trace s @ evs \<and> length (filter is_create evs) \<le> n)"

lemma creates_le_none: "creates_none m \<Longrightarrow> creates_le n m"
  unfolding creates_le_def keeps_def appends_def by (auto simp: list_all_iff filter_empty_conv) (metis filter_False list.size(3) le0)

lemma creates_le_bindM: "creates_le a m \<Longrightarrow> (\<And>x. creates_le b (f x)) \<Longrightarrow> creates_le (a + b) (bindM m f)"
  unfolding creates_le_def
proof (intro allI)
  fix s
  assume m: "\<forall>s. \<exists>evs. trace (snd (m s)) = trace s @ evs \<and> length (filter is_create evs) \<le> a"
    and f: "\<And>x. \<forall>s. \<exists>evs. trace (snd (f x s)) = trace s @ evs \<and> length (filter is_create evs) \<le> b"
  obtain r s1 where ms: "m s = (r, s1)" by fastforce
  with m [rule_format, of s] obtain ev1 where 1: "trace s1 = trace s @ ev1" "length (filter is_create ev1) \<le> a" by auto
  show "\<exists>evs. trace (snd (bindM m f s)) = trace s @ evs \<and> length (filter is_create evs) \<le> a + b"
  proof (cases r)
    case (Ok x)
    with f [of x, rule_format, of s1] obtain ev2 where 2: "trace (snd (f x s1)) = trace s1 @ ev2"
      "length (filter is_create ev2) \<le> b" by auto
    with 1 ms Ok show ?thesis by (intro exI [of _ "ev1 @ ev2"]) (simp add: run_bindM)
  qed (use 1 ms in \<open>auto simp: run_bindM intro: exI [of _ ev1]\<close>)
qed

lemma creates_le_wrapM: "creates_le n m \<Longrightarrow> creates_le n (wrapM g m)"
  unfolding creates_le_def run_wrapM by (auto split: prod.splits) (metis snd_conv)

lemma creates_le_deferM:
  assumes "creates_le n m" and "creates_none d"
  shows "creates_le n (deferM m d)"
  unfolding creates_le_def
proof
  fix s
  obtain r s1 where ms: "m s = (r, s1)" by fastforce
  obtain q s2 where ds: "d s1 = (q, s2)" by fastforce
  from assms(1) ms obtain ev1 where 1: "trace s1 = trace s @ ev1" "length (filter is_create ev1) \<le> n"
    unfolding creates_le_def by (metis snd_conv)
  from assms(2) ds obtain ev2 where 2: "trace s2 = trace s1 @ ev2" "list_all (\<lambda>ev. \<not> is_create ev) ev2"
    unfolding keeps_def appends_def by (metis snd_conv)
  have "filter is_create ev2 = []" using 2(2) by (auto simp: list_all_iff filter_empty_conv)
  with 1 2 ms ds show "\<exists>evs. trace (snd (deferM m d s)) = trace s @ evs \<and> length (filter is_create evs) \<le> n"
    by (intro exI [of _ "ev1 @ ev2"]) (simp add: run_deferM)
qed

lemma scaleUp_creates_le: "creates_le 1 (scaleUp L E)"
  unfolding creates_le_def
proof
  fix s
  obtain r s' where run: "scaleUp L E s = (r, s')" by fastforce
  obtain s1 evs where ev: "trace s1 = trace s @ evs" "list_all (\<lambda>ev. \<not> is_machine_request ev) evs"
    and c: "(r \<noteq> Ok () \<and> s' = s1) \<or> (\<exists>infra. create_machine L E (scope s) (new_name E s) infra s1 = (r, s'))"
    using scaleUp_prefix [OF run] .
  have none: "list_all (\<lambda>ev. \<not> is_machine_request ev) xs \<Longrightarrow> filter is_create xs = []" for xs
    using request_no_create by (auto simp: list_all_iff filter_empty_conv)
  from c ev have "\<exists>xs. trace s' = trace s @ xs \<and> length (filter is_create xs) \<le> 1"
    by (auto dest!: create_machine_run simp: none)
  with run show "\<exists>xs. trace (snd (scaleUp L E s)) = trace s @ xs \<and> length (filter is_create xs) \<le> 1"
    by simp
qed

lemma scale_step_creates_le: "creates_le 1 (scale_step L E)"
proof -
  have "creates_le (1 + 0) (bindM (wrapM g (scaleUp L E)) (\<lambda>_. reinit_scope L E))" for g
    by (intro creates_le_bindM creates_le_wrapM scaleUp_creates_le creates_le_none [OF reinit_creates_none])
  moreover have "creates_none (bindM (wrapM g (scaleDown L E)) (\<lambda>_. reinit_scope L E))" for g
    by (intro creates_none_rules scaleDown_creates_none reinit_creates_none)
  ultimately have "creates_le 1 (case decide sc of
      ScaleUp \<Rightarrow> bindM (wrapM (Wrapf ''error scaling up control plane'') (scaleUp L E)) (\<lambda>_. reinit_scope L E)
    | ScaleDown \<Rightarrow> bindM (wrapM (Wrapf ''error scaling down control plane'') (scaleDown L E)) (\<lambda>_. reinit_scope L E)
    | Stay \<Rightarrow> ret ())" for sc
    by (cases "decide sc") (auto intro: creates_le_none simp: emits.keeps_pure)
  then have "creates_le (0 + (1 + 0)) (scale_step L E)"
    unfolding scale_step_def
    by (intro creates_le_bindM) (auto intro!: creates_le_none creates_none_rules)
  then show ?thesis by simp
qed

text \<open>
  One reconciliation of the machines requests the creation of at most one Machine,
  whatever the API server, the workload cluster and the clock answer.
\<close>
theorem reconcile_creates_at_most_one:
  "length (creations s (snd (reconcileMachines L E s))) \<le> 1"
proof -
  have inner: "creates_le 1 (if \<not> result_is_zero res' then ret res' else scale_step L E)" for res'
    using scale_step_creates_le by (simp add: creates_le_none emits.keeps_pure(1))
  have outer: "creates_le 1 (if \<not> result_is_zero res then ret res
        else bindM (reconcileInplaceK0sVersionUpdate L E) (\<lambda>res'.
          if \<not> result_is_zero res' then ret res' else scale_step L E))" for res
    using creates_le_bindM [OF creates_le_none [OF inplace_creates_none [of L E], where n = 0] inner]
    by (simp add: creates_le_none emits.keeps_pure(1))
  have "creates_le 1 (bindM (preflightChecks L E) (\<lambda>res.
        if \<not> result_is_zero res then ret res
        else bindM (reconcileInplaceK0sVersionUpdate L E) (\<lambda>res'.
          if \<not> result_is_zero res' then ret res'
          else scale_step L E)))"
    using creates_le_bindM [OF creates_le_none [OF preflight_creates_none [of L E], where n = 0] outer] by simp
  then have "creates_le 1 (reconcileMachines L E)"
    unfolding reconcileMachines_def
    by (intro creates_le_deferM) (auto intro!: creates_none_rules set_up_to_date_creates_none)
  then show ?thesis
    unfolding creates_le_def creations_def new_events_def by (metis append_eq_conv_conj)
qed

end
