(* ===== verification/Rollout.thy ===== *)
theory Rollout
  imports Scaling
begin

text \<open>
  The rollout as a whole. The decisions of \<open>scale.go\<close> depend on five numbers only: the
  desired replicas, whether the strategy deletes first, and how many machines are up to date,
  outdated and being deleted. \<open>counts\<close> is that abstraction, \<open>decide_counts\<close> the
  abstract policy and \<open>rollout_step\<close> the transition system it drives, in which
  deletions complete at any time. The locale \<open>rolling_update\<close> states what a scaling policy has to promise and
  proves from it that every run is finite, ends in the desired state and stays within the
  bounds; the controller's policy is an interpretation, and the refinement theorem carries the results to
  the decisions on a scope.
\<close>

record counts =
  c_replicas :: int
  c_deleteFirst :: bool
  c_up :: nat
  c_old :: nat
  c_del :: nat

definition counts_of :: "controlplane \<Rightarrow> counts" where
  "counts_of sc = \<lparr>c_replicas = desired_replicas sc,
     c_deleteFirst = (ks_UpdateStrategy (kcp_Spec (cp_kcp sc)) = UpdateRecreateDeleteFirst),
     c_up = length (upToDateMachines sc), c_old = length (notUpToDateMachines sc),
     c_del = length (deletedMachines sc)\<rparr>"

definition ceiling_of :: "counts \<Rightarrow> int" where
  "ceiling_of c = (if c_deleteFirst c \<and> c_replicas c \<ge> 3 then c_replicas c else c_replicas c + 1)"

definition total :: "counts \<Rightarrow> int" where
  "total c = int (c_up c + c_old c + c_del c)"

definition reached :: "counts \<Rightarrow> bool" where
  "reached c \<longleftrightarrow> int (c_up c) = c_replicas c \<and> c_old c = 0 \<and> c_del c = 0"

definition decide_counts :: "counts \<Rightarrow> decision" where
  "decide_counts c =
     (if total c < ceiling_of c \<and> int (c_up c) < c_replicas c then ScaleUp
      else if c_up c + c_old c \<ge> 2 \<and> (int (c_up c + c_old c) > c_replicas c \<or> c_old c > 0) then ScaleDown
      else Stay)"

inductive rollout_step :: "(counts \<Rightarrow> decision) \<Rightarrow> counts \<Rightarrow> counts \<Rightarrow> bool" for policy where
  create: "policy c = ScaleUp \<Longrightarrow> rollout_step policy c (c\<lparr>c_up := Suc (c_up c)\<rparr>)"
| retire: "policy c = ScaleDown \<Longrightarrow> c_old c = Suc n \<Longrightarrow>
     rollout_step policy c (c\<lparr>c_old := n, c_del := Suc (c_del c)\<rparr>)"
| shrink: "policy c = ScaleDown \<Longrightarrow> c_old c = 0 \<Longrightarrow> c_up c = Suc n \<Longrightarrow>
     rollout_step policy c (c\<lparr>c_up := n, c_del := Suc (c_del c)\<rparr>)"
| gone: "c_del c = Suc n \<Longrightarrow> rollout_step policy c (c\<lparr>c_del := n\<rparr>)"

inductive_cases rollout_stepE: "rollout_step policy c c'"

definition rollout_measure :: "counts \<Rightarrow> nat" where
  "rollout_measure c = 2 * c_old c + 2 * nat (int (c_up c) - c_replicas c) +
     nat (c_replicas c - int (c_up c)) + c_del c"

locale rolling_update =
  fixes policy :: "counts \<Rightarrow> decision"
  assumes up_room: "policy c = ScaleUp \<Longrightarrow> total c < ceiling_of c \<and> int (c_up c) < c_replicas c"
    and down_spare: "policy c = ScaleDown \<Longrightarrow> 2 \<le> c_up c + c_old c \<and>
      (c_replicas c < int (c_up c + c_old c) \<or> 0 < c_old c)"
    and stay_done: "policy c = Stay \<Longrightarrow> 1 \<le> c_replicas c \<Longrightarrow> c_del c = 0 \<Longrightarrow> reached c"
begin

lemma step_frame: "rollout_step policy c c' \<Longrightarrow> c_replicas c' = c_replicas c \<and> c_deleteFirst c' = c_deleteFirst c"
  by (elim rollout_stepE) auto

lemma step_measure: "rollout_step policy c c' \<Longrightarrow> rollout_measure c' < rollout_measure c"
  by (elim rollout_stepE) (auto simp: rollout_measure_def dest!: up_room down_spare)

lemma step_total: "rollout_step policy c c' \<Longrightarrow> total c \<le> B \<Longrightarrow> ceiling_of c \<le> B \<Longrightarrow> total c' \<le> B"
  by (elim rollout_stepE) (auto simp: total_def dest!: up_room)

lemma step_active: "rollout_step policy c c' \<Longrightarrow> 1 \<le> c_up c + c_old c \<Longrightarrow> 1 \<le> c_up c' + c_old c'"
  by (elim rollout_stepE) (auto dest!: down_spare)

lemma step_ceiling: "rollout_step policy c c' \<Longrightarrow> ceiling_of c' = ceiling_of c"
  using step_frame by (simp add: ceiling_of_def)

lemma stuck_reached:
  assumes "1 \<le> c_replicas c" and "\<And>c'. \<not> rollout_step policy c c'"
  shows "reached c"
proof -
  have del: "c_del c = 0"
    using assms(2) gone by (metis not0_implies_Suc)
  moreover have "policy c \<noteq> ScaleUp"
    using assms(2) create by blast
  moreover have "policy c \<noteq> ScaleDown"
  proof
    assume d: "policy c = ScaleDown"
    show False
    proof (cases "c_old c")
      case 0
      with d down_spare [OF d] obtain n where "c_up c = Suc n" by (cases "c_up c") auto
      with shrink [of policy c, OF d 0] assms(2) show False by blast
    next
      case (Suc n)
      with retire [of policy c, OF d] assms(2) show False by blast
    qed
  qed
  ultimately show ?thesis
    using stay_done assms(1) by (metis decision.exhaust)
qed

lemma runs_bounds:
  assumes "(rollout_step policy)\<^sup>*\<^sup>* c c'"
  shows "c_replicas c' = c_replicas c \<and> ceiling_of c' = ceiling_of c \<and>
     total c' \<le> max (total c) (ceiling_of c) \<and> (1 \<le> c_up c + c_old c \<longrightarrow> 1 \<le> c_up c' + c_old c')"
  using assms
proof induction
  case (step y z)
  have "total z \<le> max (total c) (ceiling_of c)"
    using step by (intro step_total [OF step.hyps(2)]) auto
  with step.IH step_frame [OF step.hyps(2)] step_ceiling [OF step.hyps(2)] step_active [OF step.hyps(2)]
  show ?case by simp
qed simp

lemma run_length: "(rollout_step policy ^^ n) c c' \<Longrightarrow> n + rollout_measure c' \<le> rollout_measure c"
proof (induction n arbitrary: c')
  case (Suc n)
  then obtain d where "(rollout_step policy ^^ n) c d" and d: "rollout_step policy d c'" by auto
  from Suc.IH [OF this(1)] step_measure [OF d] show ?case by simp
qed simp

lemma runs_converge:
  assumes "1 \<le> c_replicas c"
  shows "\<exists>c'. (rollout_step policy)\<^sup>*\<^sup>* c c' \<and> reached c'"
  using assms
proof (induction "rollout_measure c" arbitrary: c rule: less_induct)
  case less
  show ?case
  proof (cases "\<exists>d. rollout_step policy c d")
    case True
    then obtain d where d: "rollout_step policy c d" ..
    with less.prems step_frame have "1 \<le> c_replicas d" by simp
    with less.hyps [OF step_measure [OF d]] d show ?thesis
      by (meson converse_rtranclp_into_rtranclp)
  next
    case False
    with stuck_reached [OF less.prems] show ?thesis by blast
  qed
qed

end

interpretation rollout: rolling_update decide_counts
proof
  show "decide_counts c = ScaleUp \<Longrightarrow> total c < ceiling_of c \<and> int (c_up c) < c_replicas c" for c
    by (auto simp: decide_counts_def split: if_splits)
  show "decide_counts c = ScaleDown \<Longrightarrow> 2 \<le> c_up c + c_old c \<and>
      (c_replicas c < int (c_up c + c_old c) \<or> 0 < c_old c)" for c
    by (auto simp: decide_counts_def split: if_splits)
  show "decide_counts c = Stay \<Longrightarrow> 1 \<le> c_replicas c \<Longrightarrow> c_del c = 0 \<Longrightarrow> reached c" for c
    by (auto simp: decide_counts_def reached_def total_def ceiling_of_def split: if_splits)
qed

lemma counts_of_sel [simp]: "c_up (counts_of sc) = length (upToDateMachines sc)"
  "c_old (counts_of sc) = length (notUpToDateMachines sc)" "c_del (counts_of sc) = length (deletedMachines sc)"
  "c_replicas (counts_of sc) = desired_replicas sc"
  by (simp_all add: counts_of_def)

lemma decide_wf: "scope_wf sc \<Longrightarrow> decide sc = decide_counts (counts_of sc)"
  "scope_wf sc \<Longrightarrow> isDesiredStateReached sc = reached (counts_of sc)"
  using scope_wf_counts [of sc]
  by (auto simp: decide_def isNeededScaleUp_def isNeededScaleDown_def calculateMaxSurge_def Let_def
      isDesiredStateReached_def decide_counts_def counts_of_def total_def ceiling_of_def reached_def)

subsection \<open>Properties\<close>



inductive scope_step :: "controlplane \<Rightarrow> controlplane \<Rightarrow> bool" where
  \<comment> \<open>what the scopes of successive reconciliations may look like: the controller's own step, or a
      deletion that completed\<close>
  created: "decide sc = ScaleUp \<Longrightarrow> scope_wf sc' \<Longrightarrow>
     counts_of sc' = (counts_of sc)\<lparr>c_up := Suc (length (upToDateMachines sc))\<rparr> \<Longrightarrow> scope_step sc sc'"
| retired: "decide sc = ScaleDown \<Longrightarrow> scope_wf sc' \<Longrightarrow> length (notUpToDateMachines sc) = Suc n \<Longrightarrow>
     counts_of sc' = (counts_of sc)\<lparr>c_old := n, c_del := Suc (length (deletedMachines sc))\<rparr> \<Longrightarrow> scope_step sc sc'"
| shrunk: "decide sc = ScaleDown \<Longrightarrow> scope_wf sc' \<Longrightarrow> notUpToDateMachines sc = [] \<Longrightarrow>
     length (upToDateMachines sc) = Suc n \<Longrightarrow>
     counts_of sc' = (counts_of sc)\<lparr>c_up := n, c_del := Suc (length (deletedMachines sc))\<rparr> \<Longrightarrow> scope_step sc sc'"
| deleted: "length (deletedMachines sc) = Suc n \<Longrightarrow> scope_wf sc' \<Longrightarrow>
     counts_of sc' = (counts_of sc)\<lparr>c_del := n\<rparr> \<Longrightarrow> scope_step sc sc'"

lemma scope_step_simulates:
  assumes "scope_step sc sc'" and "scope_wf sc"
  shows "rollout_step decide_counts (counts_of sc) (counts_of sc') \<and> scope_wf sc'"
  using assms
proof cases
  case created
  with assms(2) rollout_step.create [of decide_counts "counts_of sc"] show ?thesis
    by (simp add: decide_wf)
next
  case (retired n)
  with assms(2) rollout_step.retire [of decide_counts "counts_of sc" n] show ?thesis
    by (simp add: decide_wf)
next
  case (shrunk n)
  with assms(2) rollout_step.shrink [of decide_counts "counts_of sc" n] show ?thesis
    by (simp add: decide_wf)
next
  case (deleted n)
  with rollout_step.gone [of "counts_of sc" n decide_counts] show ?thesis
    by simp
qed

lemma scope_runs_simulate:
  "(scope_step ^^ n) sc sc' \<Longrightarrow> scope_wf sc \<Longrightarrow>
     (rollout_step decide_counts ^^ n) (counts_of sc) (counts_of sc') \<and> scope_wf sc'"
proof (induction n arbitrary: sc')
  case (Suc n)
  then obtain d where "(scope_step ^^ n) sc d" and d: "scope_step d sc'" by auto
  with Suc.IH Suc.prems(2) scope_step_simulates [OF d] show ?case by auto
qed simp



definition ref_rollout :: "string list \<Rightarrow> controlplane" where
  "ref_rollout up = ref_scope 3 (map (\<lambda>n. ref_machine n 1) [''a'', ''b'', ''c'']) [] up"

lemma ref_rollout_wf: "scope_wf (ref_rollout [''a'', ''b''])"
  by (auto simp: scope_wf_def ref_rollout_def ref_scope_def ref_machine_def)

definition ref_rollout' :: controlplane where
  "ref_rollout' = ref_scope 3 (map (\<lambda>n. ref_machine n 1) [''a'', ''b'', ''c'', ''d'']) [] [''a'', ''b'', ''d'']"

lemma ref_rollout_step: "(scope_step ^^ 1) (ref_rollout [''a'', ''b'']) ref_rollout'"
proof -
  have "decide (ref_rollout [''a'', ''b'']) = ScaleUp"
    unfolding decide_wf(1) [OF ref_rollout_wf]
    by (simp add: decide_counts_def counts_of_def total_def ceiling_of_def
        desired_replicas_def ref_rollout_def ref_scope_def ref_machine_def ref_kcp_def strategy_defs)
  moreover have "scope_wf ref_rollout'"
    by (auto simp: scope_wf_def ref_rollout'_def ref_scope_def ref_machine_def)
  ultimately have "scope_step (ref_rollout [''a'', ''b'']) ref_rollout'"
    by (rule scope_step.created)
      (simp add: counts_of_def desired_replicas_def ref_rollout_def ref_rollout'_def ref_scope_def ref_machine_def)
  then show ?thesis by auto
qed



end
