(* ===== verification/Availability.thy ===== *)
theory Availability
  imports Rollout
begin

text \<open>
  The status of a control plane (\<open>status.go\<close>): the replica counters, the scaling
  conditions and the availability, which is read from the workload cluster and reported as an
  outage only after a grace period. The counters are Go's \<open>int32\<close>. The failures seen so far
  are the map \<open>availabilityFailures\<close>, by the UID of the control plane. The theorems show when
  an outage is reported and when not, that a reached control plane stays initialized, and that a
  reconciliation always comes back to look again.
\<close>

subsection \<open>Printing a time\<close>

definition pad4 :: "nat \<Rightarrow> string" where
  "pad4 n = (if n < 10 then ''000'' else if n < 100 then ''00'' else if n < 1000 then ''0'' else []) @ show_nat n"

definition civil_of_days :: "int \<Rightarrow> int \<times> int \<times> int" where
  \<comment> \<open>year, month and day of a day counted from 1970-01-01, in the proleptic Gregorian calendar\<close>
  "civil_of_days z =
     (let z' = z + 719468;
          era = z' div 146097;
          doe = z' mod 146097;
          yoe = (doe - doe div 1460 + doe div 36524 - doe div 146096) div 365;
          doy = doe - (365 * yoe + yoe div 4 - yoe div 100);
          mp = (5 * doy + 2) div 153;
          d = doy - (153 * mp + 2) div 5 + 1;
          m = (if mp < 10 then mp + 3 else mp - 9)
      in (yoe + era * 400 + (if m \<le> 2 then 1 else 0), m, d))"

definition rfc3339 :: "int \<Rightarrow> string" where
  \<comment> \<open>\<open>t.UTC().Format(time.RFC3339)\<close>\<close>
  "rfc3339 t =
     (let secs = t div second; days = secs div 86400; rest = secs mod 86400 in
      case civil_of_days days of (y, m, d) \<Rightarrow>
        pad4 (nat y) @ ''-'' @ pad2 (nat m) @ ''-'' @ pad2 (nat d) @ ''T'' @
        pad2 (nat (rest div 3600)) @ '':'' @ pad2 (nat (rest mod 3600 div 60)) @ '':'' @
        pad2 (nat (rest mod 60)) @ ''Z'')"

subsection \<open>Replicas\<close>

definition K0sControlPlaneScalingUpCondition :: string where "K0sControlPlaneScalingUpCondition = ''ScalingUp''"
definition K0sControlPlaneScalingDownCondition :: string where "K0sControlPlaneScalingDownCondition = ''ScalingDown''"
definition ControlPlaneAvailableReason :: string where "ControlPlaneAvailableReason = ''Available''"
definition ControlPlaneNotAvailableReason :: string where "ControlPlaneNotAvailableReason = ''NotAvailable''"
definition ControlPlaneConnectionDownReason :: string where "ControlPlaneConnectionDownReason = ''ConnectionDown''"
definition ControlPlaneAvailableUnknownReason :: string where "ControlPlaneAvailableUnknownReason = ''AvailableUnknown''"

definition upd_status :: "(K0sControlPlaneStatus \<Rightarrow> K0sControlPlaneStatus) \<Rightarrow> controlplane \<Rightarrow> controlplane" where
  "upd_status f sc = sc\<lparr>cp_kcp := (cp_kcp sc)\<lparr>kcp_Status := f (kcp_Status (cp_kcp sc))\<rparr>\<rparr>"

definition set_kcp_condition :: "lib \<Rightarrow> env \<Rightarrow> condition \<Rightarrow> unit ctlM" where
  \<comment> \<open>\<open>conditions.Set(controlplane.kcp, ...)\<close>\<close>
  "set_kcp_condition L E c =
     bindM (nowM E) (\<lambda>now.
     set_scopeM (upd_status (\<lambda>st. st\<lparr>kst_Conditions := cond_Set (conds L) now (kst_Conditions st) c\<rparr>)))"

definition scaling_up_condition :: "controlplane \<Rightarrow> condition" where
  "scaling_up_condition sc =
     (let n = int (length (upToDateMachines sc)) in
      if n < desired_replicas sc
      then mk_condition K0sControlPlaneScalingUpCondition ConditionTrue ''ScalingUp''
             (''Control plane is scaling up: '' @ show_int n @ ''/'' @ show_int (desired_replicas sc))
      else mk_condition K0sControlPlaneScalingUpCondition ConditionFalse ''NotScalingUp'' [])"

definition scaling_down_condition :: "controlplane \<Rightarrow> condition" where
  "scaling_down_condition sc =
     (let n = int (length (upToDateMachines sc)) in
      if n > desired_replicas sc
      then mk_condition K0sControlPlaneScalingDownCondition ConditionTrue ''ScalingDown''
             (''Control plane is scaling down: '' @ show_int n @ ''/'' @ show_int (desired_replicas sc))
      else mk_condition K0sControlPlaneScalingDownCondition ConditionFalse ''NotScalingDown'' [])"

definition setScalingConditions :: "lib \<Rightarrow> env \<Rightarrow> unit ctlM" where
  "setScalingConditions L E =
     bindM scopeM (\<lambda>sc.
     bindM (set_kcp_condition L E (scaling_up_condition sc)) (\<lambda>_.
     set_kcp_condition L E (scaling_down_condition sc)))"

definition count_true :: "lib \<Rightarrow> string \<Rightarrow> machine list \<Rightarrow> int32" where
  \<comment> \<open>an \<open>int32\<close> counter incremented for every machine whose condition is true\<close>
  "count_true L t ms = foldl (\<lambda>n m. if cond_IsTrue (conds L) (m_Conditions m) t then n + 1 else n) 0 ms"

definition status_version :: "string \<Rightarrow> string \<Rightarrow> string" where
  \<comment> \<open>the lowest machine version, with the suffix of the specification when it has none\<close>
  "status_version kcpVersion lowest =
     (if contains kcpVersion ''+'' \<and> \<not> contains lowest ''+'' \<and> lowest \<noteq> []
      then lowest @ ''+'' @ (split_on (CHR ''+'') kcpVersion ! 1) else lowest)"

definition set_counters :: "lib \<Rightarrow> controlplane \<Rightarrow> K0sControlPlaneStatus \<Rightarrow> K0sControlPlaneStatus" where
  "set_counters L sc st =
     (let allReplicas = activeMachines sc @ deletedMachines sc in
      st\<lparr>kst_Replicas := Some (of_nat (length allReplicas)),
         kst_ReadyReplicas := Some (count_true L MachineReadyCondition allReplicas),
         kst_UpToDateReplicas := Some (count_true L MachineUpToDateCondition allReplicas),
         kst_AvailableReplicas := Some (count_true L MachineAvailableCondition allReplicas)\<rparr>)"

definition computeReplicas :: "lib \<Rightarrow> env \<Rightarrow> unit ctlM" where
  "computeReplicas L E =
     bindM scopeM (\<lambda>sc.
     bindM (set_scopeM (upd_status (set_counters L sc))) (\<lambda>_.
     bindM (liftE (minVersion (vers L) (activeMachines sc))) (\<lambda>lowest.
     bindM (set_scopeM (upd_status (\<lambda>st. st\<lparr>kst_Version := status_version (kcp_Version (cp_kcp sc)) lowest\<rparr>))) (\<lambda>_.
     bindM (if \<not> kcp_WorkerEnabled (cp_kcp sc)
            then set_scopeM (upd_status (\<lambda>st. st\<lparr>kst_ExternalManagedControlPlane := Some True\<rparr>))
            else ret ()) (\<lambda>_.
     setScalingConditions L E)))))"

subsection \<open>Availability\<close>

definition initialized :: "bool option \<Rightarrow> bool" where
  "initialized l = deref False l"

definition clusterCacheFailureThreshold :: nat where "clusterCacheFailureThreshold = 5"
definition clusterCacheConnectionGracePeriod :: int where "clusterCacheConnectionGracePeriod = 75 * second"
definition availabilityFailureThreshold :: nat where "availabilityFailureThreshold = 2"
definition availabilityGracePeriod :: int where "availabilityGracePeriod = 2 * minute"
definition availabilityRetryInterval :: int where "availabilityRetryInterval = 20 * second"
definition availabilityPollInterval :: int where "availabilityPollInterval = minute"

definition clusterCacheConnectionDown :: "env \<Rightarrow> bool ctlM" where
  "clusterCacheConnectionDown E =
     (if \<not> e_hasClusterCache E then ret True
      else
        bindM (readM ReadHealthState (\<lambda>tr. Inr (e_HealthState E tr))) (\<lambda>(consecutiveFailures, lastSuccess).
        if consecutiveFailures \<ge> clusterCacheFailureThreshold then ret True
        else (case lastSuccess of
                None \<Rightarrow> ret False
              | Some t \<Rightarrow> bindM (nowM E) (\<lambda>now. ret (now - t > clusterCacheConnectionGracePeriod)))))"

definition availabilityCondition ::
  "condition option \<Rightarrow> int \<Rightarrow> int \<Rightarrow> int \<Rightarrow> nat \<Rightarrow> string \<Rightarrow> condition" where
  "availabilityCondition existing now failingSince gracePeriod failures cause =
     (let down = mk_condition ControlPlaneAvailableCondition ConditionFalse ControlPlaneNotAvailableReason
                   (''the workload cluster API could not be read: '' @ cause);
          unknown = mk_condition ControlPlaneAvailableCondition ConditionUnknown ControlPlaneConnectionDownReason
                   (''the workload cluster API has not been readable since '' @ rfc3339 failingSince);
          settled = (if failures \<ge> availabilityFailureThreshold \<and> \<not> (now < failingSince + gracePeriod)
                     then down else unknown)
      in case existing of
           Some c \<Rightarrow> if c_Status c = ConditionFalse then down\<lparr>c_Message := c_Message c\<rparr> else settled
         | None \<Rightarrow> settled)"

definition availabilityKey :: "objmeta \<Rightarrow> string" where
  "availabilityKey meta = om_UID meta"

definition next_failure :: "availability_failure option \<Rightarrow> condition option \<Rightarrow> int \<Rightarrow> int \<Rightarrow> availability_failure" where
  \<comment> \<open>the switch of \<open>setUnavailableAfterGracePeriod\<close>: previous failure, existing condition,
      creation time, now\<close>
  "next_failure previous existing created now =
     (case previous of
        Some p \<Rightarrow> \<lparr>af_since = af_since p, af_seen = af_seen p + 1\<rparr>
      | None \<Rightarrow>
          (case existing of
             Some c \<Rightarrow>
               if c_Status c = ConditionUnknown \<and> c_Reason c = ControlPlaneConnectionDownReason \<and>
                  c_LastTransitionTime c > created
               then \<lparr>af_since = c_LastTransitionTime c, af_seen = 1\<rparr> else \<lparr>af_since = now, af_seen = 1\<rparr>
           | None \<Rightarrow> \<lparr>af_since = now, af_seen = 1\<rparr>))"

definition setUnavailableAfterGracePeriod :: "lib \<Rightarrow> env \<Rightarrow> string \<Rightarrow> unit ctlM" where
  "setUnavailableAfterGracePeriod L E cause =
     bindM scopeM (\<lambda>sc.
     bindM (nowM E) (\<lambda>now.
     bindM (getM availabilityFailures) (\<lambda>failures.
     (let meta = kcp_Meta (cp_kcp sc);
          key = availabilityKey meta;
          existing = cond_Get (conds L) (kst_Conditions (kcp_Status (cp_kcp sc))) ControlPlaneAvailableCondition;
          state = next_failure (failures key) existing (om_CreationTimestamp meta) now
      in bindM (modM (\<lambda>s. s\<lparr>availabilityFailures := (availabilityFailures s)(key \<mapsto> state)\<rparr>)) (\<lambda>_.
         set_scopeM (upd_status (\<lambda>st. st\<lparr>kst_Conditions := cond_Set (conds L) now (kst_Conditions st)
           (availabilityCondition existing now (af_since state) availabilityGracePeriod (af_seen state) cause)\<rparr>)))))))"

definition clearAvailabilityFailures :: "objmeta \<Rightarrow> unit ctlM" where
  "clearAvailabilityFailures meta =
     modM (\<lambda>s. s\<lparr>availabilityFailures := (availabilityFailures s)(availabilityKey meta := None)\<rparr>)"

definition set_reached :: "string \<Rightarrow> unit ctlM" where
  \<comment> \<open>the end of \<open>computeAvailability\<close>: the latch and the cluster ID annotation\<close>
  "set_reached uid =
     set_scopeM (\<lambda>sc. (upd_status (\<lambda>st. st\<lparr>kst_ControlPlaneInitialized := Some True\<rparr>) sc)
       \<lparr>cp_cluster := (cp_cluster sc)\<lparr>cl_Annotations :=
          (cl_Annotations (cp_cluster sc))(K0sClusterIDAnnotation \<mapsto> ''kube-system:'' @ uid)\<rparr>\<rparr>)"

definition computeAvailability :: "lib \<Rightarrow> env \<Rightarrow> unit ctlM" where
  "computeAvailability L E =
     bindM scopeM (\<lambda>sc.
     (let everReached = initialized (kst_ControlPlaneInitialized (kcp_Status (cp_kcp sc))) in
      bindM (if \<not> everReached
             then set_kcp_condition L E (mk_condition ControlPlaneAvailableCondition ConditionUnknown
                    ControlPlaneAvailableUnknownReason ''the workload cluster API has not been reached yet'')
             else ret ()) (\<lambda>_.
      tryM (GetControllerRuntimeClient E (Some (cp_kcp sc)) (cl_Namespace (cp_cluster sc), cl_Name (cp_cluster sc))) (\<lambda>r.
      case r of
        Inl e \<Rightarrow>
          if \<not> everReached then ret ()
          else
            bindM (if error_is e ErrClusterCacheNotConnected
                   then bindM (clusterCacheConnectionDown E) (\<lambda>down. ret (\<not> down)) else ret False) (\<lambda>undecided.
            if undecided then set_scopeM (\<lambda>c. c\<lparr>availabilityUndecided := True\<rparr>)
            else setUnavailableAfterGracePeriod L E (error_text e))
      | Inr _ \<Rightarrow>
          tryM (readM ReadKubeSystem (e_GetKubeSystem E)) (\<lambda>q.
          case q of
            Inl e \<Rightarrow> if \<not> everReached then ret () else setUnavailableAfterGracePeriod L E (error_text e)
          | Inr uid \<Rightarrow>
              bindM (clearAvailabilityFailures (kcp_Meta (cp_kcp sc))) (\<lambda>_.
              bindM (set_kcp_condition L E (mk_condition ControlPlaneAvailableCondition ConditionTrue
                       ControlPlaneAvailableReason [])) (\<lambda>_.
              set_reached uid)))))))"

definition updateStatus :: "lib \<Rightarrow> env \<Rightarrow> unit ctlM" where
  "updateStatus L E =
     deferNamedM
       (bindM scopeM (\<lambda>sc.
        bindM (set_scopeM (upd_status (\<lambda>st. st\<lparr>kst_Selector :=
                 coll_ControlPlaneSelector (colls L) (cl_Name (cp_cluster sc))\<rparr>))) (\<lambda>_.
        computeReplicas L E)))
       (\<lambda>err. case err of
          Err e \<Rightarrow> if error_is e ErrNotReady then failM e
                    else bindM (computeAvailability L E) (\<lambda>_. failM e)
        | Ok u \<Rightarrow> bindM (computeAvailability L E) (\<lambda>_. ret u)
        | Panic \<Rightarrow> bindM (computeAvailability L E) (\<lambda>_. panicM))"

subsection \<open>Coming back\<close>

definition availabilityRequeueAfter :: "lib \<Rightarrow> controlplane \<Rightarrow> int" where
  "availabilityRequeueAfter L sc =
     (if om_DeletionTimestamp (kcp_Meta (cp_kcp sc)) \<noteq> None then 0
      else if availabilityUndecided sc then availabilityRetryInterval
      else if \<not> cond_IsTrue (conds L) (kst_Conditions (kcp_Status (cp_kcp sc))) ControlPlaneAvailableCondition
           then availabilityRetryInterval
      else availabilityPollInterval)"

definition requeueResult :: "lib \<Rightarrow> gerror option \<Rightarrow> result \<Rightarrow> controlplane \<Rightarrow> result" where
  "requeueResult L err res sc =
     (if err \<noteq> None then zero_result
      else if \<not> result_is_zero res then res
      else \<lparr>Requeue = False, RequeueAfter = availabilityRequeueAfter L sc\<rparr>)"

subsection \<open>When an outage is reported\<close>

abbreviation kcp_conditions :: "ctl \<Rightarrow> condition list" where
  "kcp_conditions s \<equiv> kst_Conditions (kcp_Status (cp_kcp (scope s)))"

abbreviation kcp_meta :: "ctl \<Rightarrow> objmeta" where
  "kcp_meta s \<equiv> kcp_Meta (cp_kcp (scope s))"

lemma upd_status_sel [simp]:
  "kcp_Meta (cp_kcp (upd_status f sc)) = kcp_Meta (cp_kcp sc)"
  "kcp_Spec (cp_kcp (upd_status f sc)) = kcp_Spec (cp_kcp sc)"
  "kcp_Status (cp_kcp (upd_status f sc)) = f (kcp_Status (cp_kcp sc))"
  "cp_cluster (upd_status f sc) = cp_cluster sc" "activeMachines (upd_status f sc) = activeMachines sc"
  "deletedMachines (upd_status f sc) = deletedMachines sc" "upToDateMachines (upd_status f sc) = upToDateMachines sc"
  "availabilityUndecided (upd_status f sc) = availabilityUndecided sc"
  by (simp_all add: upd_status_def)

lemma for_each_snoc: "for_each f (xs @ [x]) s = bindM (for_each f xs) (\<lambda>_. f x) s"
proof (induction xs arbitrary: s)
  case Nil
  then show ?case by (auto simp: run_bindM split: prod.splits res.splits)
next
  case (Cons y ys)
  show ?case
    by (auto simp: run_bindM Cons.IH split: prod.splits res.splits)
qed

definition avail_of :: "lib \<Rightarrow> ctl \<Rightarrow> condition option" where
  "avail_of L s = cond_Get (conds L) (kcp_conditions s) ControlPlaneAvailableCondition"

definition failure_of :: "lib \<Rightarrow> env \<Rightarrow> ctl \<Rightarrow> availability_failure" where
  "failure_of L E s = next_failure (availabilityFailures s (om_UID (kcp_meta s))) (avail_of L s)
     (om_CreationTimestamp (kcp_meta s)) (e_Now E (trace s))"

lemma setUnavailable_run:
  obtains s' where "setUnavailableAfterGracePeriod L E cause s = (Ok (), s')"
    and "trace s' = trace s @ [Read ReadClock]" and "kcp_meta s' = kcp_meta s"
    and "availabilityFailures s' = (availabilityFailures s)(om_UID (kcp_meta s) \<mapsto> failure_of L E s)"
    and "kcp_conditions s' = cond_Set (conds L) (e_Now E (trace s)) (kcp_conditions s)
           (availabilityCondition (avail_of L s) (e_Now E (trace s)) (af_since (failure_of L E s))
              availabilityGracePeriod (af_seen (failure_of L E s)) cause)"
  using that unfolding setUnavailableAfterGracePeriod_def Let_def
  by (simp add: run_bindM avail_of_def failure_of_def availabilityKey_def)

lemma availabilityCondition_type [simp]: "c_Type (availabilityCondition ex now since g n cause) = ControlPlaneAvailableCondition"
  by (auto simp: availabilityCondition_def mk_condition_def Let_def split: option.splits)

lemma availabilityCondition_status:
  "c_Status (availabilityCondition ex now since g n cause) =
     (if (\<exists>c. ex = Some c \<and> c_Status c = ConditionFalse) \<or> (2 \<le> n \<and> since + g \<le> now)
      then ConditionFalse else ConditionUnknown)"
  by (auto simp: availabilityCondition_def mk_condition_def Let_def availabilityFailureThreshold_def
      split: option.splits)

lemma cond_Get_availability:
  assumes "cond_laws K"
  shows "\<exists>c. cond_Get K (cond_Set K now cs (availabilityCondition ex now' since g n cause)) ControlPlaneAvailableCondition = Some c \<and>
     c_Status c = (if (\<exists>c. ex = Some c \<and> c_Status c = ConditionFalse) \<or> (2 \<le> n \<and> since + g \<le> now')
      then ConditionFalse else ConditionUnknown)"
  using cond_lawsD(3) [OF assms, of now cs "availabilityCondition ex now' since g n cause"]
  by (auto simp: availabilityCondition_status)

definition outage :: "(nat \<Rightarrow> int) \<Rightarrow> nat \<Rightarrow> bool" where
  \<comment> \<open>the specification: at least two failed reads, the last at least two minutes after the first\<close>
  "outage t n \<longleftrightarrow> 2 \<le> n \<and> t 0 + 2 * minute \<le> t (n - 1)"

definition failing_state :: "lib \<Rightarrow> (nat \<Rightarrow> int) \<Rightarrow> ctl \<Rightarrow> nat \<Rightarrow> ctl \<Rightarrow> bool" where
  \<comment> \<open>the state after \<open>n\<close> failed reads that began in \<open>s\<close>\<close>
  "failing_state L t s n s' \<longleftrightarrow>
     trace s' = trace s @ replicate n (Read ReadClock) \<and> kcp_meta s' = kcp_meta s \<and>
     availabilityFailures s' (om_UID (kcp_meta s)) = Some \<lparr>af_since = t 0, af_seen = n\<rparr> \<and>
     (\<exists>c. avail_of L s' = Some c \<and> c_Status c = (if outage t n then ConditionFalse else ConditionUnknown))"

lemma first_failing_read:
  assumes laws: "cond_laws (conds L)" and fresh: "availabilityFailures s (om_UID (kcp_meta s)) = None"
    and up: "case avail_of L s of None \<Rightarrow> True | Some c \<Rightarrow> c_Status c = ConditionTrue"
    and t: "t 0 = e_Now E (trace s)"
  shows "\<exists>s'. setUnavailableAfterGracePeriod L E x s = (Ok (), s') \<and> failing_state L t s 1 s'"
proof -
  have f: "failure_of L E s = \<lparr>af_since = t 0, af_seen = 1\<rparr>"
    using up by (auto simp: failure_of_def next_failure_def fresh t split: option.splits)
  obtain s' where s': "setUnavailableAfterGracePeriod L E x s = (Ok (), s')" "trace s' = trace s @ [Read ReadClock]"
    "kcp_meta s' = kcp_meta s" "availabilityFailures s' = (availabilityFailures s)(om_UID (kcp_meta s) \<mapsto> failure_of L E s)"
    and c: "kcp_conditions s' = cond_Set (conds L) (e_Now E (trace s)) (kcp_conditions s)
           (availabilityCondition (avail_of L s) (e_Now E (trace s)) (af_since (failure_of L E s))
              availabilityGracePeriod (af_seen (failure_of L E s)) x)"
    using setUnavailable_run .
  have "\<exists>c. avail_of L s' = Some c \<and> c_Status c = ConditionUnknown"
    using cond_Get_availability [OF laws, of "e_Now E (trace s)" "kcp_conditions s" "avail_of L s" "e_Now E (trace s)" "t 0"
        availabilityGracePeriod 1 x] up
    by (auto simp: avail_of_def [of L s'] c f split: option.splits)
  with s' show ?thesis
    by (auto simp: failing_state_def f outage_def)
qed

lemma next_failing_read:
  assumes laws: "cond_laws (conds L)" and st: "failing_state L t s n s1" and n: "1 \<le> n"
    and t: "t n = e_Now E (trace s @ replicate n (Read ReadClock))" and mono: "t (n - 1) \<le> t n"
  shows "\<exists>s'. setUnavailableAfterGracePeriod L E x s1 = (Ok (), s') \<and> failing_state L t s (Suc n) s'"
proof -
  obtain c1 where c1: "avail_of L s1 = Some c1" "c_Status c1 = (if outage t n then ConditionFalse else ConditionUnknown)"
    using st by (auto simp: failing_state_def)
  have f: "failure_of L E s1 = \<lparr>af_since = t 0, af_seen = Suc n\<rparr>" and now: "e_Now E (trace s1) = t n"
    using st t by (simp_all add: failing_state_def failure_of_def next_failure_def)
  obtain s' where s': "setUnavailableAfterGracePeriod L E x s1 = (Ok (), s')" "trace s' = trace s1 @ [Read ReadClock]"
    "kcp_meta s' = kcp_meta s1" "availabilityFailures s' = (availabilityFailures s1)(om_UID (kcp_meta s1) \<mapsto> failure_of L E s1)"
    and c: "kcp_conditions s' = cond_Set (conds L) (e_Now E (trace s1)) (kcp_conditions s1)
           (availabilityCondition (avail_of L s1) (e_Now E (trace s1)) (af_since (failure_of L E s1))
              availabilityGracePeriod (af_seen (failure_of L E s1)) x)"
    using setUnavailable_run .
  have "(outage t n \<or> (2 \<le> Suc n \<and> t 0 + availabilityGracePeriod \<le> t n)) \<longleftrightarrow> outage t (Suc n)"
    using n mono by (auto simp: outage_def availabilityGracePeriod_def)
  then have "\<exists>c. avail_of L s' = Some c \<and> c_Status c = (if outage t (Suc n) then ConditionFalse else ConditionUnknown)"
    using cond_Get_availability [OF laws, of "t n" "kcp_conditions s1" "Some c1" "t n" "t 0" availabilityGracePeriod "Suc n" x] c1
    by (auto simp: avail_of_def [of L s'] c f now)
  with s' st show ?thesis
    by (auto simp: failing_state_def f replicate_append_same)
qed

lemma failing_reads:
  assumes laws: "cond_laws (conds L)" and fresh: "availabilityFailures s (om_UID (kcp_meta s)) = None"
    and up: "case avail_of L s of None \<Rightarrow> True | Some c \<Rightarrow> c_Status c = ConditionTrue"
    and t: "\<And>i. t i = e_Now E (trace s @ replicate i (Read ReadClock))"
    and mono: "\<And>i. t i \<le> t (Suc i)" and "causes \<noteq> []"
  shows "\<exists>s'. for_each (setUnavailableAfterGracePeriod L E) causes s = (Ok (), s') \<and>
     failing_state L t s (length causes) s'"
  using \<open>causes \<noteq> []\<close>
proof (induction causes rule: rev_nonempty_induct)
  case (single x)
  have "t 0 = e_Now E (trace s)" using t [of 0] by simp
  from first_failing_read [of L s t E, OF laws fresh up this] obtain s' where
    "setUnavailableAfterGracePeriod L E x s = (Ok (), s')" "failing_state L t s 1 s'" by blast
  then show ?case by (simp add: run_bindM)
next
  case (snoc x xs)
  then obtain s1 where run1: "for_each (setUnavailableAfterGracePeriod L E) xs s = (Ok (), s1)"
    and st1: "failing_state L t s (length xs) s1" by blast
  have "1 \<le> length xs" using snoc.hyps by (simp add: Suc_le_eq)
  moreover from this have "Suc (length xs - 1) = length xs" by simp
  with mono [of "length xs - 1"] have "t (length xs - 1) \<le> t (length xs)" by metis
  ultimately obtain s' where "setUnavailableAfterGracePeriod L E x s1 = (Ok (), s')" "failing_state L t s (Suc (length xs)) s'"
    using next_failing_read [of L t s _ s1 E, OF laws st1 _ t] by blast
  with run1 show ?case by (simp add: for_each_snoc run_bindM)
qed

text \<open>
  C23 (safety). Starting from an available control plane with no failure recorded, a sequence of failed
  reads is reported as an outage exactly when there were at least two of them and the last came at least two
  minutes after the first; until then the condition is Unknown, and once False it does not go back.
\<close>
theorem outage_reported_after_grace_period:
  assumes laws: "cond_laws (conds L)" and fresh: "availabilityFailures s (om_UID (kcp_meta s)) = None"
    and up: "cond_IsTrue (conds L) (kcp_conditions s) ControlPlaneAvailableCondition"
    and clock: "\<forall>tr. e_Now E tr \<le> e_Now E (tr @ [Read ReadClock])" and "causes \<noteq> []"
  shows "\<exists>s' c. for_each (setUnavailableAfterGracePeriod L E) causes s = (Ok (), s') \<and>
     cond_Get (conds L) (kcp_conditions s') ControlPlaneAvailableCondition = Some c \<and>
     c_Status c = (if 2 \<le> length causes \<and> e_Now E (trace s) + 2 * minute \<le>
         e_Now E (trace s @ replicate (length causes - 1) (Read ReadClock))
       then ConditionFalse else ConditionUnknown)"
proof -
  let ?t = "\<lambda>i. e_Now E (trace s @ replicate i (Read ReadClock))"
  have "?t i \<le> ?t (Suc i)" for i
    using clock [rule_format, of "trace s @ replicate i (Read ReadClock)"] by (simp add: replicate_append_same)
  moreover have "case avail_of L s of None \<Rightarrow> True | Some c \<Rightarrow> c_Status c = ConditionTrue"
    using up cond_lawsD(1) [OF laws] by (auto simp: avail_of_def)
  ultimately show ?thesis
    using failing_reads [OF laws fresh, of ?t E causes] \<open>causes \<noteq> []\<close>
    by (auto simp: failing_state_def outage_def avail_of_def)
qed

definition ref_up_scope :: controlplane where
  "ref_up_scope = upd_status (\<lambda>st. st\<lparr>kst_Conditions :=
     [mk_condition ControlPlaneAvailableCondition ConditionTrue ControlPlaneAvailableReason []]\<rparr>) (ref_scope 3 [] [] [])"

definition ref_clock_env :: env where
  \<comment> \<open>every event takes a minute\<close>
  "ref_clock_env = (ref_env [])\<lparr>e_Now := (\<lambda>tr. int (length tr) * minute)\<rparr>"

theorem outage_reported_after_grace_period_witness:
  "\<exists>s' c. for_each (setUnavailableAfterGracePeriod ref_lib ref_clock_env) [''x'', ''y'', ''z''] (ref_ctl ref_up_scope) = (Ok (), s') \<and>
     cond_Get ref_cond (kcp_conditions s') ControlPlaneAvailableCondition = Some c \<and> c_Status c = ConditionFalse"
proof -
  have "cond_laws (conds ref_lib)" by (simp add: ref_cond_laws)
  moreover have "availabilityFailures (ref_ctl ref_up_scope) (om_UID (kcp_meta (ref_ctl ref_up_scope))) = None"
    by (simp add: ref_ctl_def)
  moreover have "cond_IsTrue (conds ref_lib) (kcp_conditions (ref_ctl ref_up_scope)) ControlPlaneAvailableCondition"
    by (simp add: ref_cond_def ref_ctl_def ref_up_scope_def mk_condition_def)
  moreover have "\<forall>tr. e_Now ref_clock_env tr \<le> e_Now ref_clock_env (tr @ [Read ReadClock])"
    by (simp add: ref_clock_env_def minute_def second_def)
  ultimately show ?thesis
    using outage_reported_after_grace_period [of ref_lib "ref_ctl ref_up_scope" ref_clock_env "[''x'', ''y'', ''z'']"]
    by (simp add: ref_clock_env_def ref_ctl_def minute_def second_def)
qed

subsection \<open>Reaching the control plane\<close>

lemma set_kcp_condition_run:
  "set_kcp_condition L E c s = (Ok (), (log_event (Read ReadClock) s)\<lparr>scope :=
     upd_status (\<lambda>st. st\<lparr>kst_Conditions := cond_Set (conds L) (e_Now E (trace s)) (kst_Conditions st) c\<rparr>) (scope s)\<rparr>)"
  by (simp add: set_kcp_condition_def run_bindM)

definition latch_order :: "ctl \<Rightarrow> ctl \<Rightarrow> bool" where
  \<comment> \<open>a control plane that was reached stays reached\<close>
  "latch_order s s' \<longleftrightarrow>
     (kst_ControlPlaneInitialized (kcp_Status (cp_kcp (scope s))) = Some True \<longrightarrow>
      kst_ControlPlaneInitialized (kcp_Status (cp_kcp (scope s'))) = Some True)"

interpretation latch: frame_order latch_order
  by unfold_locales (simp_all add: latch_order_def)

lemma latch_same_scope: "keeps same_scope m \<Longrightarrow> keeps latch_order m"
  by (simp add: keeps_def same_scope_def latch_order_def)

lemma latch_set_scopeM:
  "(\<And>sc. kst_ControlPlaneInitialized (kcp_Status (cp_kcp sc)) = Some True \<Longrightarrow>
     kst_ControlPlaneInitialized (kcp_Status (cp_kcp (f sc))) = Some True) \<Longrightarrow> keeps latch_order (set_scopeM f)"
  by (simp add: keeps_def latch_order_def)

lemma latch_set_condition: "keeps latch_order (set_kcp_condition L E c)"
  by (simp add: keeps_def latch_order_def set_kcp_condition_run)

lemma latch_setUnavailable: "keeps latch_order (setUnavailableAfterGracePeriod L E cause)"
  by (simp add: keeps_def latch_order_def setUnavailableAfterGracePeriod_def Let_def run_bindM)

lemma latch_readM: "keeps latch_order (readM rq f)"
  by (rule latch_same_scope [OF same_scope_readM])

lemma latch_scopeM: "keeps latch_order scopeM"
  by (rule latch_same_scope [OF same_scope_scopeM])

lemma latch_computeAvailability: "keeps latch_order (computeAvailability L E)"
proof -
  have "keeps latch_order (clusterCacheConnectionDown E)"
    unfolding clusterCacheConnectionDown_def
    by (rule latch_same_scope) (auto intro!: same_scope_rules split: prod.splits option.splits)
  moreover have "keeps latch_order (clearAvailabilityFailures meta)" for meta
    by (simp add: clearAvailabilityFailures_def keeps_def latch_order_def)
  ultimately show ?thesis
    unfolding computeAvailability_def set_reached_def Let_def
    by (auto intro!: latch.keeps_intros latch_set_condition latch_setUnavailable latch_readM latch_scopeM latch_set_scopeM
        latch_same_scope [OF GetControllerRuntimeClient_same_scope] split: sum.splits)
qed

lemma latch_updateStatus: "keeps latch_order (updateStatus L E)"
  unfolding updateStatus_def computeReplicas_def setScalingConditions_def
  by (auto intro!: latch.keeps_intros latch_set_condition latch_scopeM latch_set_scopeM latch_computeAvailability
      simp: set_counters_def Let_def split: res.splits)

text \<open>
  Reading \<open>kube-system\<close> settles the status: whatever it said before, the control
  plane is then initialized and Available, its recorded failures are forgotten and the cluster carries
  the identifier of that namespace.
\<close>
theorem reached_control_plane_is_available:
  assumes laws: "cond_laws (conds L)"
    and client: "\<And>s0. fst (GetControllerRuntimeClient E (Some (cp_kcp (scope s)))
          (cl_Namespace (cp_cluster (scope s)), cl_Name (cp_cluster (scope s))) s0) = Ok rc"
    and ping: "\<And>tr. e_GetKubeSystem E tr = Inr uid"
  shows "\<exists>s'. computeAvailability L E s = (Ok (), s') \<and>
     kst_ControlPlaneInitialized (kcp_Status (cp_kcp (scope s'))) = Some True \<and>
     cond_IsTrue (conds L) (kst_Conditions (kcp_Status (cp_kcp (scope s')))) ControlPlaneAvailableCondition \<and>
     availabilityFailures s' (om_UID (kcp_Meta (cp_kcp (scope s)))) = None \<and>
     cl_Annotations (cp_cluster (scope s')) K0sClusterIDAnnotation = Some (''kube-system:'' @ uid)"
proof -
  let ?first = "if \<not> initialized (kst_ControlPlaneInitialized (kcp_Status (cp_kcp (scope s))))
     then set_kcp_condition L E (mk_condition ControlPlaneAvailableCondition ConditionUnknown
                    ControlPlaneAvailableUnknownReason ''the workload cluster API has not been reached yet'')
     else ret ()"
  obtain s1 where 1: "?first s = (Ok (), s1)" and m1: "kcp_Meta (cp_kcp (scope s1)) = kcp_Meta (cp_kcp (scope s))"
    by (cases "initialized (kst_ControlPlaneInitialized (kcp_Status (cp_kcp (scope s))))")
      (simp_all add: set_kcp_condition_run)
  obtain s2 where 2: "GetControllerRuntimeClient E (Some (cp_kcp (scope s)))
      (cl_Namespace (cp_cluster (scope s)), cl_Name (cp_cluster (scope s))) s1 = (Ok rc, s2)"
    using client [of s1] by (metis prod.collapse)
  have "scope s2 = scope s1"
    using keepsD [OF GetControllerRuntimeClient_same_scope 2] by (simp add: same_scope_def)
  with 1 2 m1 show ?thesis
    by (simp add: computeAvailability_def Let_def run_bindM run_tryM ping clearAvailabilityFailures_def
        set_kcp_condition_run set_reached_def availabilityKey_def cond_IsTrue_Set [OF laws] mk_condition_def)
qed

theorem reached_control_plane_is_available_witness:
  "\<exists>s'. computeAvailability ref_lib (ref_env []) (ref_ctl (ref_scope 3 [] [] [])) = (Ok (), s') \<and>
     cl_Annotations (cp_cluster (scope s')) K0sClusterIDAnnotation = Some ''kube-system:uid''"
proof -
  let ?s = "ref_ctl (ref_scope 3 [] [] [])"
  have client: "fst (GetControllerRuntimeClient (ref_env []) (Some (cp_kcp (scope ?s)))
      (cl_Namespace (cp_cluster (scope ?s)), cl_Name (cp_cluster (scope ?s))) s0) =
      Ok \<lparr>rc_Source = ''cache'', rc_Timeout = 0\<rparr>" for s0
    by (simp add: GetControllerRuntimeClient_def getRESTConfig_def client_for_def isTunneledRestConfigPossible_def
        Let_def run_simps ref_defs)
  have ping: "e_GetKubeSystem (ref_env []) tr = Inr ''uid''" for tr
    by (simp add: ref_env_def)
  have "cond_laws (conds ref_lib)" by (simp add: ref_cond_laws)
  from reached_control_plane_is_available [OF this client ping] show ?thesis by auto
qed

subsection \<open>Counters\<close>

lemma count_true_gen:
  "foldl (\<lambda>n m. if cond_IsTrue (conds L) (m_Conditions m) t then n + 1 else n) (k :: int32) ms =
     k + of_nat (length (filter (\<lambda>m. cond_IsTrue (conds L) (m_Conditions m) t) ms))"
  by (induction ms arbitrary: k) (simp_all add: ac_simps)

lemma count_true_length: "count_true L t ms = of_nat (length (filter (\<lambda>m. cond_IsTrue (conds L) (m_Conditions m) t) ms))"
  by (simp add: count_true_def count_true_gen)

lemma sint_of_nat32: "n < 2 ^ 31 \<Longrightarrow> sint (of_nat n :: int32) = int n"
  by (simp add: signed_of_nat signed_take_bit_int_eq_self)

text \<open>
  With fewer than 2 to the 31 machines no counter wraps around: after
  \<open>computeReplicas\<close>, even when it fails on an unreadable version, the status counts all machines,
  those being deleted included, and each of the other three counters is the number of machines with
  that condition and does not exceed the total.
\<close>
theorem replica_counters_do_not_wrap:
  assumes few: "length (activeMachines (scope s)) + length (deletedMachines (scope s)) < 2 ^ 31"
    and run: "computeReplicas L E s = (r, s')"
  shows "\<exists>n rdy avl upd. kst_Replicas (kcp_Status (cp_kcp (scope s'))) = Some n \<and>
     kst_ReadyReplicas (kcp_Status (cp_kcp (scope s'))) = Some rdy \<and>
     kst_AvailableReplicas (kcp_Status (cp_kcp (scope s'))) = Some avl \<and>
     kst_UpToDateReplicas (kcp_Status (cp_kcp (scope s'))) = Some upd \<and>
     sint n = int (length (activeMachines (scope s)) + length (deletedMachines (scope s))) \<and>
     sint rdy = int (length (filter (\<lambda>m. cond_IsTrue (conds L) (m_Conditions m) MachineReadyCondition)
       (activeMachines (scope s) @ deletedMachines (scope s)))) \<and>
     0 \<le> sint rdy \<and> sint rdy \<le> sint n \<and> 0 \<le> sint avl \<and> sint avl \<le> sint n \<and> 0 \<le> sint upd \<and> sint upd \<le> sint n"
proof -
  let ?all = "activeMachines (scope s) @ deletedMachines (scope s)"
  have small: "length (filter P ?all) < 2 ^ 31" for P
    using few length_filter_le [of P ?all] by (simp add: order_le_less_trans)
  have le: "int (length (filter P ?all)) \<le> int (length (activeMachines (scope s))) + int (length (deletedMachines (scope s)))" for P
    using length_filter_le [of P ?all] by (metis length_append of_nat_add of_nat_mono)
  have counters: "kst_Replicas (kcp_Status (cp_kcp (scope s'))) = Some (of_nat (length ?all))"
    "kst_ReadyReplicas (kcp_Status (cp_kcp (scope s'))) = Some (count_true L MachineReadyCondition ?all)"
    "kst_AvailableReplicas (kcp_Status (cp_kcp (scope s'))) = Some (count_true L MachineAvailableCondition ?all)"
    "kst_UpToDateReplicas (kcp_Status (cp_kcp (scope s'))) = Some (count_true L MachineUpToDateCondition ?all)"
    using run
    by (auto simp: computeReplicas_def setScalingConditions_def set_kcp_condition_run run_simps set_counters_def Let_def
        split: sum.splits if_splits)
  have n: "sint (of_nat (length ?all) :: int32) = int (length ?all)"
    using few by (intro sint_of_nat32) simp
  show ?thesis
    unfolding counters count_true_length
    using n sint_of_nat32 [OF small] le length_append [of "activeMachines (scope s)" "deletedMachines (scope s)"]
    by (auto simp del: filter_append length_append)
qed

theorem replica_counters_do_not_wrap_witness:
  "\<exists>n s'. computeReplicas ref_lib (ref_env []) (ref_ctl (ref_scope 3 [ref_machine ''a'' 1] [ref_machine ''b'' 2] [])) = (Ok (), s') \<and>
     kst_Replicas (kcp_Status (cp_kcp (scope s'))) = Some n \<and> sint n = 2"
proof -
  let ?s = "ref_ctl (ref_scope 3 [ref_machine ''a'' 1] [ref_machine ''b'' 2] [])"
  have "\<exists>s'. computeReplicas ref_lib (ref_env []) ?s = (Ok (), s')"
    by (simp add: computeReplicas_def setScalingConditions_def set_kcp_condition_run run_simps minVersion_def
        ref_ctl_def ref_scope_def ref_ver_def ref_machine_def)
  then obtain s' where run: "computeReplicas ref_lib (ref_env []) ?s = (Ok (), s')" by blast
  have "length (activeMachines (scope ?s)) + length (deletedMachines (scope ?s)) < 2 ^ 31"
    "length (activeMachines (scope ?s)) = 1" "length (deletedMachines (scope ?s)) = 1"
    by (simp_all add: ref_ctl_def ref_scope_def)
  with replica_counters_do_not_wrap [OF _ run] run show ?thesis by auto
qed

end
