(* ===== verification/Workload_Config.thy ===== *)
theory Workload_Config
  imports Availability
begin

text \<open>
  What a reconciliation prepares before it looks at machines: the k0s configuration and its
  dynamic copy in the workload cluster (\<open>reconcileConfig\<close>, \<open>enrichK0sConfigWithClusterData\<close>,
  \<open>internal/util/dynamic_config.go\<close>), the kubeconfig secrets (\<open>reconcileKubeconfig\<close> and
  \<open>util.go\<close>) and the tunneling server (\<open>reconcileTunneling\<close>, \<open>createFRPToken\<close>). PEM
  decoding, the kubeconfig format and the rotation check are third-party and enter as oracles of
  the environment. The configuration object is shared between the control plane and these
  functions, so every change is a change of the scope. The theorems say which fields never reach
  the dynamic configuration, that no subject alternative name is lost, and that a failed creation
  of the main kubeconfig secret is not reported.
\<close>

subsection \<open>Helpers of internal/controller/util\<close>

definition AddToExistingSans :: "string list \<Rightarrow> string list \<Rightarrow> string list" where
  \<comment> \<open>the keys of the map \<open>uniques\<close>, sorted\<close>
  "AddToExistingSans existing newSan = sort (remdups (existing @ newSan))"

fun node_addresses :: "string \<Rightarrow> (string \<times> string) list \<Rightarrow> string \<times> string option" where
  \<comment> \<open>the inner loop of \<open>FindNodeAddress\<close>: the internal address so far, and an early return\<close>
  "node_addresses internal [] = (internal, None)"
| "node_addresses internal ((typ, addr) # as) =
     (let internal' = (if internal = [] \<and> typ = ''InternalIP'' then addr else internal) in
      if typ = ''ExternalDNS'' \<or> typ = ''ExternalIP'' then (internal', Some addr)
      else node_addresses internal' as)"

fun find_address :: "string \<Rightarrow> (string \<times> string) list list \<Rightarrow> string" where
  \<comment> \<open>the outer loop\<close>
  "find_address internal [] = internal"
| "find_address internal (n # ns) =
     (case node_addresses internal n of
        (_, Some addr) \<Rightarrow> addr
      | (internal', None) \<Rightarrow> find_address internal' ns)"

definition FindNodeAddress :: "env \<Rightarrow> string ctlM" where
  "FindNodeAddress E = bindM (readM ReadNodes (e_ListNodes E)) (\<lambda>nodes. ret (find_address [] nodes))"

subsection \<open>The k0s configuration\<close>

definition upd_config :: "(K0sConfigSpec \<Rightarrow> K0sConfigSpec) \<Rightarrow> controlplane \<Rightarrow> controlplane" where
  "upd_config f sc = sc\<lparr>cp_kcp := (cp_kcp sc)\<lparr>kcp_Spec := (kcp_Spec (cp_kcp sc))
     \<lparr>ks_K0sConfigSpec := f (kcp_Config (cp_kcp sc))\<rparr>\<rparr>\<rparr>"

definition set_k0s :: "object \<Rightarrow> unit ctlM" where
  "set_k0s ob = set_scopeM (upd_config (\<lambda>k. k\<lparr>k_K0s := Some ob\<rparr>))"

definition verb_v :: "string \<Rightarrow> gerror \<Rightarrow> gerror" where
  \<comment> \<open>\<open>fmt.Errorf("msg: %v", err)\<close>: the text only, nothing to unwrap\<close>
  "verb_v msg e = Errorf (msg @ '': '' @ error_text e)"

definition cluster_network_values :: "cluster \<Rightarrow> object" where
  "cluster_network_values cl =
     (if cl_ServiceDomain cl \<noteq> [] then [(''clusterDomain'', JStr (cl_ServiceDomain cl))] else []) @
     (if cl_Pods cl \<noteq> [] then [(''podCIDR'', JStr (cl_Pods cl))] else []) @
     (if cl_Services cl \<noteq> [] then [(''serviceCIDR'', JStr (cl_Services cl))] else [])"

definition enrichK0sConfigWithClusterData ::
  "json_lib \<Rightarrow> cluster \<Rightarrow> object option \<Rightarrow> gerror + object option" where
  "enrichK0sConfigWithClusterData J cl k0sConfig =
     (let clusterNetworkValues = cluster_network_values cl in
      if clusterNetworkValues = [] then Inr k0sConfig
      else
        (let ob = deref [] k0sConfig;
             clusterValues = [(''apiVersion'', JStr ''k0s.k0sproject.io/v1beta1''),
                              (''kind'', JStr ''ClusterConfig''),
                              (''spec'', JObj [(''network'', JObj clusterNetworkValues)])]
         in case MergoMerge J ob clusterValues of Inl e \<Rightarrow> Inl e | Inr ob' \<Rightarrow> Inr (Some ob')))"

definition set_field :: "json_lib \<Rightarrow> object \<Rightarrow> string \<Rightarrow> string list \<Rightarrow> object" where
  \<comment> \<open>\<open>SetName\<close> and \<open>SetNamespace\<close> drop the error of \<open>SetNestedField\<close>\<close>
  "set_field J ob v p = (case SetNestedField J ob (JStr v) p of Inl _ \<Rightarrow> ob | Inr ob' \<Rightarrow> ob')"

definition dynamic_config :: "json_lib \<Rightarrow> object \<Rightarrow> object" where
  "dynamic_config J u =
     (let named = set_field J u ''k0s'' [''metadata'', ''name''];
          placed = set_field J named ''kube-system'' [''metadata'', ''namespace''];
          noStorage = RemoveNestedField J placed [''spec'', ''storage'']
      in RemoveNestedField J noStorage [''spec'', ''network'', ''controlPlaneLoadBalancing''])"

definition ReconcileDynamicConfig :: "lib \<Rightarrow> env \<Rightarrow> object \<Rightarrow> unit ctlM" where
  "ReconcileDynamicConfig L E u0 =
     (let u = dynamic_config (jsons L) u0; patch = writeM E (PatchDynamicConfig u) in
      case MarshalObject (jsons L) u of
        Some e \<Rightarrow> failM (Wrapf ''failed to marshal unstructured config'' e)
      | None \<Rightarrow> wrapM (Wrapf ''failed to patch k0s config'')
                  (tryM patch (\<lambda>r. case r of Inr _ \<Rightarrow> ret () | Inl _ \<Rightarrow> patch)))"

definition config_endpoint :: "json_lib \<Rightarrow> cluster \<Rightarrow> object \<Rightarrow> gerror + object" where
  \<comment> \<open>\<open>reconcileConfig\<close>: the external address, or the endpoint among the SANs\<close>
  "config_endpoint J cl ob =
     (case NestedBool J ob [''spec'', ''network'', ''nodeLocalLoadBalancing'', ''enabled''] of
        Inl e \<Rightarrow> Inl (verb_v ''error getting nodeLocalLoadBalancing'' e)
      | Inr nllbEnabled \<Rightarrow>
          if nllbEnabled \<noteq> Some True then
            (case SetNestedField J ob (JStr (cl_EndpointHost cl)) [''spec'', ''api'', ''externalAddress''] of
               Inl e \<Rightarrow> Inl (verb_v ''error setting control plane endpoint'' e)
             | Inr ob' \<Rightarrow> Inr ob')
          else if cl_EndpointHost cl \<noteq> [] then
            (let sans = (case NestedStringSlice J ob [''spec'', ''api'', ''sans''] of
                           Inr (Some existingSANs) \<Rightarrow> AddToExistingSans existingSANs [cl_EndpointHost cl]
                         | _ \<Rightarrow> [cl_EndpointHost cl])
             in case SetNestedStringSlice J ob sans [''spec'', ''api'', ''sans''] of
                  Inl e \<Rightarrow> Inl (verb_v ''error setting sans'' e)
                | Inr ob' \<Rightarrow> Inr ob')
          else Inr ob)"

definition config_tunnel_sans :: "json_lib \<Rightarrow> TunnelingSpec \<Rightarrow> object \<Rightarrow> gerror + object" where
  \<comment> \<open>\<open>reconcileConfig\<close>: the address of the tunneling server among the SANs\<close>
  "config_tunnel_sans J tun ob =
     (if t_ServerAddress tun = [] then Inr ob
      else
        (case NestedStringSlice J ob [''spec'', ''api'', ''sans''] of
           Inl e \<Rightarrow> Inl (verb_v ''error getting sans from config'' e)
         | Inr sans \<Rightarrow>
             (case SetNestedStringSlice J ob (AddToExistingSans (deref [] sans) [t_ServerAddress tun])
                     [''spec'', ''api'', ''sans''] of
                Inl e \<Rightarrow> Inl (verb_v ''error setting sans to the config'' e)
              | Inr ob' \<Rightarrow> Inr ob')))"

definition push_dynamic_config :: "lib \<Rightarrow> env \<Rightarrow> unit ctlM" where
  \<comment> \<open>the end of \<open>reconcileConfig\<close>: a failed update is logged and left to the next reconciliation\<close>
  "push_dynamic_config L E =
     bindM scopeM (\<lambda>sc.
     tryM (GetControllerRuntimeClient E (Some (cp_kcp sc)) (cl_Namespace (cp_cluster sc), cl_Name (cp_cluster sc))) (\<lambda>r.
     case r of
       Inl e \<Rightarrow> if error_is e ErrNotReady then ret ()
                 else failM (Wrapf ''error getting workload cluster client'' e)
     | Inr _ \<Rightarrow>
         (case k_K0s (kcp_Config (cp_kcp sc)) of
            None \<Rightarrow> panicM
          | Some ob \<Rightarrow> tryM (ReconcileDynamicConfig L E ob) (\<lambda>_. ret ()))))"

definition reconcileConfig :: "lib \<Rightarrow> env \<Rightarrow> unit ctlM" where
  "reconcileConfig L E =
     bindM scopeM (\<lambda>sc.
     case k_K0s (kcp_Config (cp_kcp sc)) of
       None \<Rightarrow> ret ()
     | Some ob \<Rightarrow>
         bindM (liftE (config_endpoint (jsons L) (cp_cluster sc) ob)) (\<lambda>ob1.
         bindM (set_k0s ob1) (\<lambda>_.
         bindM (liftE (config_tunnel_sans (jsons L) (kcp_Tunneling (cp_kcp sc)) ob1)) (\<lambda>ob2.
         bindM (set_k0s ob2) (\<lambda>_.
         bindM (liftE (enrichK0sConfigWithClusterData (jsons L) (cp_cluster sc) (Some ob2))) (\<lambda>k0s.
         bindM (set_scopeM (upd_config (\<lambda>k. k\<lparr>k_K0s := k0s\<rparr>))) (\<lambda>_.
         push_dynamic_config L E)))))))"

subsection \<open>Kubeconfig secrets\<close>

definition ca_secret_name :: "string \<Rightarrow> string" where
  \<comment> \<open>\<open>secret.Name(cluster, secret.ClusterCA)\<close>\<close>
  "ca_secret_name n = n @ ''-ca''"

definition with_proxy :: "string \<Rightarrow> kubeconfig \<Rightarrow> kubeconfig" where
  "with_proxy url kc = kc\<lparr>kc_Clusters := map (\<lambda>(n, server, _). (n, server, url)) (kc_Clusters kc)\<rparr>"

definition generateKubeconfig :: "env \<Rightarrow> string \<times> string \<Rightarrow> string \<Rightarrow> kubeconfig ctlM" where
  "generateKubeconfig E clusterKey endpoint =
     bindM (wrapM (\<lambda>e. if is_not_found e then ErrDependentCertificateNotFound else e)
              (readM (ReadSecret (fst clusterKey) (ca_secret_name (snd clusterKey)))
                 (\<lambda>tr. e_GetSecret E tr (fst clusterKey, ca_secret_name (snd clusterKey))))) (\<lambda>clusterCA.
     bindM (wrapM (Wrapf ''failed to decode CA Cert'') (liftE (e_DecodeCert E (map_get (s_Data clusterCA) ''tls.crt'')))) (\<lambda>cert.
     case cert of
       None \<Rightarrow> failM (nil_wrapped ''certificate not found in config'')
     | Some crt \<Rightarrow>
         bindM (wrapM (Wrapf ''failed to decode private key'') (liftE (e_DecodeKey E (map_get (s_Data clusterCA) ''tls.key'')))) (\<lambda>key.
         case key of
           None \<Rightarrow> failM (nil_wrapped ''CA private key not found'')
         | Some k \<Rightarrow>
             bindM (getM trace) (\<lambda>tr.
             wrapM (Wrapf ''failed to generate a kubeconfig'')
               (liftE (e_NewKubeconfig E tr (snd clusterKey) endpoint crt k))))))"

definition createKubeconfigSecret ::
  "env \<Rightarrow> kubeconfig \<Rightarrow> cluster \<Rightarrow> string \<Rightarrow> SecretMetadata \<Rightarrow> secret ctlM" where
  "createKubeconfigSecret E cfg cl secretName secretMetadata =
     bindM (wrapM (Wrapf ''failed to serialize config to yaml'') (liftE (e_WriteKubeconfig E cfg))) (\<lambda>cfgBytes.
     (let owner = \<lparr>o_APIVersion = ''cluster.x-k8s.io/v1beta2'', o_Kind = ''Cluster'', o_Name = cl_Name cl, o_UID = cl_UID cl\<rparr>;
          generated = e_GenerateSecretWithOwner E (cl_Namespace cl, cl_Name cl) cfgBytes owner;
          kcSecret = generated\<lparr>s_Name := secretName,
                       s_Labels := s_Labels generated ++ sm_Labels secretMetadata,
                       s_Annotations := s_Annotations generated ++ sm_Annotations secretMetadata\<rparr>
      in bindM (writeM E (CreateSecret kcSecret)) (\<lambda>_. ret kcSecret)))"

definition regenerateKubeconfigSecret :: "env \<Rightarrow> secret \<Rightarrow> string \<Rightarrow> unit ctlM" where
  \<comment> \<open>a kubeconfig without an entry for the cluster is a nil dereference\<close>
  "regenerateKubeconfigSecret E kubeconfigSecret clusterName =
     (case s_Data kubeconfigSecret KubeconfigDataName of
        None \<Rightarrow> failM (Errorf (''missing key '' @ [CHR 0x22] @ KubeconfigDataName @ [CHR 0x22] @ '' in secret data''))
      | Some data \<Rightarrow>
          bindM (wrapM (Wrapf ''failed to convert kubeconfig Secret into a clientcmdapi.Config'')
                   (liftE (e_LoadKubeconfig E data))) (\<lambda>oldConfig.
          case map_of (kc_Clusters oldConfig) clusterName of
            None \<Rightarrow> panicM
          | Some (endpoint, proxyURL) \<Rightarrow>
              bindM (generateKubeconfig E (s_Namespace kubeconfigSecret, clusterName) endpoint) (\<lambda>newConfig.
              bindM (wrapM (Wrapf ''failed to serialize config to yaml'')
                       (liftE (e_WriteKubeconfig E (with_proxy proxyURL newConfig)))) (\<lambda>out.
              writeM E (UpdateSecret (kubeconfigSecret\<lparr>s_Data :=
                (s_Data kubeconfigSecret)(KubeconfigDataName \<mapsto> out)\<rparr>))))))"

definition needsRotation :: "env \<Rightarrow> secret option \<Rightarrow> bool ctlM" where
  \<comment> \<open>\<open>kubeconfig.NeedsClientCertRotation\<close> of a possibly nil secret\<close>
  "needsRotation E kc = (\<lambda>s. (e_NeedsRotation E (trace s) kc, log_event (Read ReadRotation) s))"

fun rotate_kubeconfigs :: "env \<Rightarrow> string \<Rightarrow> secret option list \<Rightarrow> unit ctlM" where
  \<comment> \<open>the deferred loop of \<open>reconcileKubeconfig\<close>: it stops at the first error, which is only logged\<close>
  "rotate_kubeconfigs E clusterName [] = ret ()"
| "rotate_kubeconfigs E clusterName (kc # kcs) =
     tryM (needsRotation E kc) (\<lambda>r.
     case r of
       Inl _ \<Rightarrow> ret ()
     | Inr needed \<Rightarrow>
         if \<not> needed then rotate_kubeconfigs E clusterName kcs
         else (case kc of
                 None \<Rightarrow> panicM
               | Some sec \<Rightarrow>
                   tryM (regenerateKubeconfigSecret E sec clusterName) (\<lambda>q.
                   case q of Inl _ \<Rightarrow> ret () | Inr _ \<Rightarrow> rotate_kubeconfigs E clusterName kcs)))"

definition main_kubeconfig :: "env \<Rightarrow> controlplane \<Rightarrow> secret option ctlM" where
  \<comment> \<open>the secret of the cluster, created when it is missing; the error of the creation goes into a
      shadowed variable, so that a failure leaves the pointer nil\<close>
  "main_kubeconfig E sc =
     (let cl = cp_cluster sc; key = (cl_Namespace cl, cl_Name cl); name = kubeconfig_secret_name (cl_Name cl) in
      tryM (readM (ReadSecret (fst key) name) (\<lambda>tr. e_GetSecret E tr (fst key, name))) (\<lambda>r.
      case r of
        Inr sec \<Rightarrow> ret (Some sec)
      | Inl e \<Rightarrow>
          if is_not_found e then
            bindM (generateKubeconfig E key (''https://'' @ cl_EndpointString cl)) (\<lambda>kc.
            tryM (createKubeconfigSecret E kc cl name (ks_KubeconfigSecretMetadata (kcp_Spec (cp_kcp sc)))) (\<lambda>c.
            case c of Inl _ \<Rightarrow> ret None | Inr sec \<Rightarrow> ret (Some sec)))
          else failM e))"

definition extra_kubeconfig :: "env \<Rightarrow> controlplane \<Rightarrow> string \<Rightarrow> string \<Rightarrow> string option \<Rightarrow> secret ctlM" where
  \<comment> \<open>the proxied or tunneled secret: its name, endpoint and proxy URL\<close>
  "extra_kubeconfig E sc name endpoint proxy =
     (let cl = cp_cluster sc; key = (cl_Namespace cl, cl_Name cl) in
      tryM (readM (ReadSecret (fst key) name) (\<lambda>tr. e_GetSecret E tr (fst key, name))) (\<lambda>r.
      case r of
        Inr sec \<Rightarrow> ret sec
      | Inl e \<Rightarrow>
          if is_not_found e then
            bindM (generateKubeconfig E key endpoint) (\<lambda>kc.
            createKubeconfigSecret E (case proxy of None \<Rightarrow> kc | Some url \<Rightarrow> with_proxy url kc) cl name
              (ks_KubeconfigSecretMetadata (kcp_Spec (cp_kcp sc))))
          else failM e))"

definition tunnel_kubeconfig :: "env \<Rightarrow> controlplane \<Rightarrow> secret ctlM" where
  "tunnel_kubeconfig E sc =
     (let cl = cp_cluster sc; tun = kcp_Tunneling (cp_kcp sc);
          peer = t_ServerAddress tun @ '':'' @ show_int (t_TunnelingNodePort tun)
      in if t_Mode tun = ''proxy''
         then extra_kubeconfig E sc (kubeconfig_secret_name (cl_Name cl @ ''-proxied''))
                (''https://'' @ cl_EndpointString cl) (Some (''http://'' @ peer))
         else extra_kubeconfig E sc (kubeconfig_secret_name (cl_Name cl @ ''-tunneled'')) (''https://'' @ peer) None)"

definition reconcileKubeconfig :: "env \<Rightarrow> unit ctlM" where
  "reconcileKubeconfig E =
     bindM scopeM (\<lambda>sc.
     if cl_EndpointIsZero (cp_cluster sc) then failM (Wrapf ''control plane endpoint is not set'' ErrNotReady)
     else
       (let rotate = rotate_kubeconfigs E (cl_Name (cp_cluster sc)) in
        tryM (main_kubeconfig E sc) (\<lambda>m.
        case m of
          Inl e \<Rightarrow> bindM (rotate []) (\<lambda>_. failM e)
        | Inr sec \<Rightarrow>
            if \<not> t_Enabled (kcp_Tunneling (cp_kcp sc)) then rotate [sec]
            else tryM (tunnel_kubeconfig E sc) (\<lambda>t.
              case t of
                Inl e \<Rightarrow> bindM (rotate [sec]) (\<lambda>_. failM e)
              | Inr extra \<Rightarrow> rotate [sec, Some extra]))))"

subsection \<open>The tunneling server\<close>

definition ComponentTunneling :: string where "ComponentTunneling = ''tunneling''"

definition ensureCertificates :: "env \<Rightarrow> unit ctlM" where
  "ensureCertificates E = bindM scopeM (\<lambda>sc. writeM E (EnsureCertificates (cp_cluster sc)))"

definition createFRPToken :: "env \<Rightarrow> cluster \<Rightarrow> K0sControlPlane \<Rightarrow> string ctlM" where
  "createFRPToken E cl kcp =
     (let secretName = cl_Name cl @ ''-frp-token'' in
      tryM (readM (ReadSecret (cl_Namespace cl) secretName) (\<lambda>tr. e_GetSecret E tr (cl_Namespace cl, secretName))) (\<lambda>r.
      case r of
        Inr existing \<Rightarrow> ret (map_get (s_Data existing) ''value'')
      | Inl e \<Rightarrow>
          if \<not> is_not_found e then failM e
          else
            bindM (readM ReadUUID (\<lambda>tr. Inr (e_NewUUID E tr))) (\<lambda>frpToken.
            bindM (writeM E (ApplySecret
              \<lparr>s_Name = secretName, s_Namespace = cl_Namespace cl, s_Labels = [ClusterNameLabel \<mapsto> cl_Name cl],
               s_Annotations = Map.empty, s_OwnerReferences = [kcp_owner_ref kcp], s_Data = [''value'' \<mapsto> frpToken],
               s_Type = ''cluster.x-k8s.io/secret''\<rparr>)) (\<lambda>_.
            ret frpToken))))"

definition frps_config :: "string \<Rightarrow> string \<Rightarrow> string" where
  \<comment> \<open>the file \<open>frps.ini\<close> for a mode and a token\<close>
  "frps_config mode token =
     concat (map (\<lambda>l. l @ [CHR 0x0A])
       ([[], ''[common]'', ''bind_port = 7000''] @
        (if mode = ''proxy'' then [''tcpmux_httpconnect_port = 6443''] else []) @
        [''authentication_method = token'', ''token = '' @ token]))"

definition frps_config_map :: "K0sControlPlane \<Rightarrow> string \<Rightarrow> config_map" where
  "frps_config_map kcp token =
     \<lparr>cm_Name = kcp_Name kcp @ ''-frps-config'', cm_Namespace = kcp_Namespace kcp,
      cm_Labels = [ComponentLabel \<mapsto> ComponentTunneling], cm_OwnerReferences = [kcp_owner_ref kcp],
      cm_Data = [''frps.ini'' \<mapsto> frps_config (t_Mode (kcp_Tunneling kcp)) token]\<rparr>"

definition frps_selector :: "K0sControlPlane \<Rightarrow> strmap" where
  "frps_selector kcp = [''k0smotron_cluster'' \<mapsto> kcp_Name kcp, ''app'' \<mapsto> ''frps'']"

definition frps_deployment :: "K0sControlPlane \<Rightarrow> deployment" where
  "frps_deployment kcp =
     (let cm = kcp_Name kcp @ ''-frps-config'' in
      \<lparr>d_Name = kcp_Name kcp @ ''-frps'', d_Namespace = kcp_Namespace kcp,
       d_Labels = (frps_selector kcp)(ComponentLabel \<mapsto> ComponentTunneling),
       d_OwnerReferences = [kcp_owner_ref kcp], d_Selector = frps_selector kcp,
       d_PodLabels = (frps_selector kcp)(ComponentLabel \<mapsto> ComponentTunneling),
       d_Volumes = [(cm, cm, ''frps.ini'', ''frps.ini'')],
       d_Container = (''frps'', ''snowdreamtech/frps:0.51.3''),
       d_Ports = [(''api'', 7000), (''tunnel'', 6443)],
       d_Mounts = [(cm, ''/etc/frp/frps.ini'', ''frps.ini'')]\<rparr>)"

definition frps_service :: "K0sControlPlane \<Rightarrow> service" where
  "frps_service kcp =
     \<lparr>sv_Name = kcp_Name kcp @ ''-frps'', sv_Namespace = kcp_Namespace kcp,
      sv_Labels = (frps_selector kcp)(ComponentLabel \<mapsto> ComponentTunneling),
      sv_OwnerReferences = [kcp_owner_ref kcp], sv_Selector = frps_selector kcp,
      sv_Ports = [(''api'', 7000, 7000, t_ServerNodePort (kcp_Tunneling kcp)),
                  (''tunnel'', 6443, 6443, t_TunnelingNodePort (kcp_Tunneling kcp))],
      sv_Type = ''NodePort''\<rparr>"

definition reconcileTunneling :: "env \<Rightarrow> unit ctlM" where
  "reconcileTunneling E =
     bindM scopeM (\<lambda>sc0.
     if \<not> t_Enabled (kcp_Tunneling (cp_kcp sc0)) then ret ()
     else
       bindM (if t_ServerAddress (kcp_Tunneling (cp_kcp sc0)) = []
              then bindM (wrapM (Wrapf ''error detecting node IP'') (FindNodeAddress E)) (\<lambda>ip.
                   set_scopeM (upd_config (\<lambda>k. k\<lparr>k_Tunneling := (k_Tunneling k)\<lparr>t_ServerAddress := ip\<rparr>\<rparr>)))
              else ret ()) (\<lambda>_.
       bindM scopeM (\<lambda>sc.
       bindM (wrapM (Wrapf ''error creating FRP token secret'') (createFRPToken E (cp_cluster sc) (cp_kcp sc))) (\<lambda>frpToken.
       bindM (wrapM (Wrapf ''error creating ConfigMap'') (writeM E (ApplyConfigMap (frps_config_map (cp_kcp sc) frpToken)))) (\<lambda>_.
       bindM (wrapM (Wrapf ''error creating Deployment'') (writeM E (ApplyDeployment (frps_deployment (cp_kcp sc))))) (\<lambda>_.
       wrapM (Wrapf ''error creating Service'') (writeM E (ApplyService (frps_service (cp_kcp sc))))))))))"

subsection \<open>What reaches the workload cluster\<close>

lemma AddToExistingSans_props:
  "set (AddToExistingSans a b) = set a \<union> set b" "sorted (AddToExistingSans a b)" "distinct (AddToExistingSans a b)"
  by (simp_all add: AddToExistingSans_def)

lemma new_events_log [simp]:
  "new_events s (log_event ev s) = [ev]" "new_events s (log_event ev2 (log_event ev s)) = [ev, ev2]" "new_events s s = []"
  by (simp_all add: new_events_def)

text \<open>
  Updating the dynamic configuration sends one and the same object at most twice, the second
  time only if the first was refused, and succeeds exactly when the last request did; the object never
  carries the storage settings or the control plane load balancing, which belong to the local
  configuration of a node.
\<close>
theorem dynamic_config_is_filtered:
  assumes laws: "json_laws (jsons L)" and run: "ReconcileDynamicConfig L E ob s = (r, s')"
  shows "\<exists>u. (new_events s s' = [] \<or> new_events s s' = [Wrote (PatchDynamicConfig u) None] \<or>
       (\<exists>e x. new_events s s' = [Wrote (PatchDynamicConfig u) (Some e), Wrote (PatchDynamicConfig u) x])) \<and>
     nested_lookup u [''spec'', ''storage''] = None \<and>
     nested_lookup u [''spec'', ''network'', ''controlPlaneLoadBalancing''] = None \<and>
     (r = Ok () \<longleftrightarrow> new_events s s' \<noteq> [] \<and> last (new_events s s') = Wrote (PatchDynamicConfig u) None)"
proof (intro exI conjI)
  let ?u = "dynamic_config (jsons L) ob"
  show "nested_lookup ?u [''spec'', ''storage''] = None"
    using json_lawsD(6) [OF laws] json_lawsD(5) [OF laws] by (simp add: dynamic_config_def Let_def del: nested_lookup.simps)
  show "nested_lookup ?u [''spec'', ''network'', ''controlPlaneLoadBalancing''] = None"
    using json_lawsD(5) [OF laws] by (simp add: dynamic_config_def Let_def del: nested_lookup.simps)
  show "new_events s s' = [] \<or> new_events s s' = [Wrote (PatchDynamicConfig ?u) None] \<or>
       (\<exists>e x. new_events s s' = [Wrote (PatchDynamicConfig ?u) (Some e), Wrote (PatchDynamicConfig ?u) x])"
    and "r = Ok () \<longleftrightarrow> new_events s s' \<noteq> [] \<and> last (new_events s s') = Wrote (PatchDynamicConfig ?u) None"
    using run by (auto simp: ReconcileDynamicConfig_def Let_def run_simps split: option.splits res.splits)
qed

definition ref_config :: object where
  "ref_config = [(''spec'', JObj [(''api'', JObj [(''sans'', JArr [JStr ''b'', JStr ''a''])]),
     (''network'', JObj [(''nodeLocalLoadBalancing'', JObj [(''enabled'', JBool True)])]),
     (''storage'', JObj [(''type'', JStr ''etcd'')])])]"

theorem dynamic_config_is_filtered_witness:
  "\<exists>u. new_events (ref_ctl (ref_scope 1 [] [] [])) (snd (ReconcileDynamicConfig ref_lib (ref_env []) ref_config
       (ref_ctl (ref_scope 1 [] [] [])))) = [Wrote (PatchDynamicConfig u) None] \<and>
     nested_lookup u [''spec'', ''storage''] = None \<and> nested_lookup ref_config [''spec'', ''storage''] \<noteq> None"
proof -
  let ?s = "ref_ctl (ref_scope 1 [] [] [])"
  obtain s' where run: "ReconcileDynamicConfig ref_lib (ref_env []) ref_config ?s = (Ok (), s')"
    by (simp add: ReconcileDynamicConfig_def Let_def run_simps ref_defs)
  have "json_laws (jsons ref_lib)" by (simp add: ref_json_laws)
  from dynamic_config_is_filtered [OF this run] obtain u where
    u: "new_events ?s s' = [] \<or> new_events ?s s' = [Wrote (PatchDynamicConfig u) None] \<or>
       (\<exists>e x. new_events ?s s' = [Wrote (PatchDynamicConfig u) (Some e), Wrote (PatchDynamicConfig u) x])"
    "nested_lookup u [''spec'', ''storage''] = None" "new_events ?s s' \<noteq> []" by auto
  have "\<not> (\<exists>e x. new_events ?s s' = [Wrote (PatchDynamicConfig u) (Some e), Wrote (PatchDynamicConfig u) x])"
    using run by (auto simp: ReconcileDynamicConfig_def Let_def run_simps ref_lib_def ref_json_def ref_env_def)
  with u run show ?thesis by (auto simp: ref_config_def)
qed

subsection \<open>Subject alternative names\<close>

lemma upd_config_sel [simp]:
  "kcp_Config (cp_kcp (upd_config f sc)) = f (kcp_Config (cp_kcp sc))" "cp_cluster (upd_config f sc) = cp_cluster sc"
  "kcp_Meta (cp_kcp (upd_config f sc)) = kcp_Meta (cp_kcp sc)" "kcp_Status (cp_kcp (upd_config f sc)) = kcp_Status (cp_kcp sc)"
  by (simp_all add: upd_config_def)

lemma push_dynamic_config_same_scope: "keeps same_scope (push_dynamic_config L E)"
  unfolding push_dynamic_config_def ReconcileDynamicConfig_def Let_def
  by (auto intro!: same_scope_rules GetControllerRuntimeClient_same_scope split: sum.splits option.splits)

abbreviation sans_path :: "string list" where "sans_path \<equiv> [''spec'', ''api'', ''sans'']"

lemma config_endpoint_sans:
  assumes laws: "json_laws J" and ob: "nested_lookup ob sans_path = Some (JArr (map JStr sans))"
    and nllb: "NestedBool J ob [''spec'', ''network'', ''nodeLocalLoadBalancing'', ''enabled''] = Inr (Some True)"
    and "cl_EndpointHost cl \<noteq> []" and "config_endpoint J cl ob = Inr ob'"
  shows "nested_lookup ob' sans_path = Some (JArr (map JStr (AddToExistingSans sans [cl_EndpointHost cl])))"
  using assms json_lawsD(4) [OF laws ob] json_lawsD(7) [OF laws, of sans_path]
  by (auto simp: config_endpoint_def Let_def simp del: nested_lookup.simps split: sum.splits)

lemma config_tunnel_sans_run:
  assumes laws: "json_laws J" and ob: "nested_lookup ob sans_path = Some (JArr (map JStr sans))"
    and "t_ServerAddress tun \<noteq> []" and "config_tunnel_sans J tun ob = Inr ob'"
  shows "nested_lookup ob' sans_path = Some (JArr (map JStr (AddToExistingSans sans [t_ServerAddress tun])))"
  using assms json_lawsD(4) [OF laws ob] json_lawsD(7) [OF laws, of sans_path]
  by (auto simp: config_tunnel_sans_def deref_def simp del: nested_lookup.simps split: sum.splits)

lemma enrich_keeps_list:
  assumes laws: "json_laws J" and "nested_lookup ob p = Some (JArr (x # xs))"
    and "enrichK0sConfigWithClusterData J cl (Some ob) = Inr k"
  shows "\<exists>ob'. k = Some ob' \<and> nested_lookup ob' p = Some (JArr (x # xs))"
  using assms json_lawsD(8) [OF laws]
  by (auto simp: enrichK0sConfigWithClusterData_def Let_def deref_def simp del: nested_lookup.simps
      split: if_splits sum.splits)

text \<open>
  Behind node-local load balancing a successful \<open>reconcileConfig\<close> adds the control plane
  endpoint and the address of the tunneling server to the subject alternative names of the configuration:
  none of the names listed before is lost, and the list is sorted and without duplicates.
\<close>
theorem config_keeps_sans:
  assumes laws: "json_laws (jsons L)" and run: "reconcileConfig L E s = (Ok (), s')"
    and k0s: "k_K0s (kcp_Config (cp_kcp (scope s))) = Some ob"
    and ob: "nested_lookup ob [''spec'', ''api'', ''sans''] = Some (JArr (map JStr sans))"
    and nllb: "NestedBool (jsons L) ob [''spec'', ''network'', ''nodeLocalLoadBalancing'', ''enabled''] = Inr (Some True)"
    and host: "cl_EndpointHost (cp_cluster (scope s)) \<noteq> []"
    and addr: "t_ServerAddress (kcp_Tunneling (cp_kcp (scope s))) \<noteq> []"
  shows "\<exists>ob' sans'. k_K0s (kcp_Config (cp_kcp (scope s'))) = Some ob' \<and>
     NestedStringSlice (jsons L) ob' [''spec'', ''api'', ''sans''] = Inr (Some sans') \<and> sorted sans' \<and> distinct sans' \<and>
     set sans' = set sans \<union> {cl_EndpointHost (cp_cluster (scope s)), t_ServerAddress (kcp_Tunneling (cp_kcp (scope s)))}"
proof -
  let ?cl = "cp_cluster (scope s)" and ?tun = "kcp_Tunneling (cp_kcp (scope s))"
  let ?sans = "AddToExistingSans (AddToExistingSans sans [cl_EndpointHost ?cl]) [t_ServerAddress ?tun]"
  obtain ob1 ob2 k s1 where 1: "config_endpoint (jsons L) ?cl ob = Inr ob1" and 2: "config_tunnel_sans (jsons L) ?tun ob1 = Inr ob2"
    and 3: "enrichK0sConfigWithClusterData (jsons L) ?cl (Some ob2) = Inr k"
    and 4: "push_dynamic_config L E s1 = (Ok (), s')" and s1: "k_K0s (kcp_Config (cp_kcp (scope s1))) = k"
    using run by (auto simp: reconcileConfig_def k0s set_k0s_def run_simps split: sum.splits)
  have "nested_lookup ob2 sans_path = Some (JArr (map JStr ?sans))"
    using config_tunnel_sans_run [OF laws config_endpoint_sans [OF laws ob nllb host 1] addr 2] .
  moreover obtain x xs where "map JStr ?sans = x # xs"
    by (cases "map JStr ?sans") (auto simp: AddToExistingSans_def dest: arg_cong [where f = length])
  ultimately obtain ob' where ob': "k = Some ob'" "nested_lookup ob' sans_path = Some (JArr (map JStr ?sans))"
    using enrich_keeps_list [OF laws _ 3] by metis
  have "scope s' = scope s1"
    using keepsD [OF push_dynamic_config_same_scope 4] by (simp add: same_scope_def)
  with ob' s1 json_lawsD(4) [OF laws ob'(2)] show ?thesis
    by (auto simp: AddToExistingSans_props)
qed

definition ref_config_scope :: controlplane where
  "ref_config_scope = upd_config (\<lambda>k. k\<lparr>k_K0s := Some ref_config,
     k_Tunneling := (k_Tunneling k)\<lparr>t_ServerAddress := ''frp''\<rparr>\<rparr>) (ref_scope 1 [] [] [])"

lemma ref_config_scope_sel [simp]:
  "k_K0s (kcp_Config (cp_kcp ref_config_scope)) = Some ref_config" "cp_cluster ref_config_scope = ref_cluster"
  "t_ServerAddress (kcp_Tunneling (cp_kcp ref_config_scope)) = ''frp''"
  "t_Enabled (kcp_Tunneling (cp_kcp ref_config_scope)) = False"
  by (simp_all add: ref_config_scope_def ref_scope_def ref_kcp_def ref_spec_def)

lemma ref_client: "\<not> t_Enabled (kcp_Tunneling kcp) \<Longrightarrow>
    \<exists>s'. GetControllerRuntimeClient (ref_env ms) (Some kcp) key s = (Ok \<lparr>rc_Source = ''cache'', rc_Timeout = 0\<rparr>, s')"
  by (simp add: GetControllerRuntimeClient_def getRESTConfig_def client_for_def isTunneledRestConfigPossible_def
      Let_def run_simps ref_env_def)

lemma ref_push: "\<not> t_Enabled (kcp_Tunneling (cp_kcp (scope s))) \<Longrightarrow> k_K0s (kcp_Config (cp_kcp (scope s))) = Some ob \<Longrightarrow>
    \<exists>s'. push_dynamic_config ref_lib (ref_env ms) s = (Ok (), s')"
  using ref_client [of "cp_kcp (scope s)" ms "(cl_Namespace (cp_cluster (scope s)), cl_Name (cp_cluster (scope s)))" s]
  by (auto simp: push_dynamic_config_def run_simps ReconcileDynamicConfig_def Let_def ref_json_def ref_env_def)

theorem config_keeps_sans_witness:
  "\<exists>s' ob'. reconcileConfig ref_lib (ref_env []) (ref_ctl ref_config_scope) = (Ok (), s') \<and>
     k_K0s (kcp_Config (cp_kcp (scope s'))) = Some ob' \<and>
     (\<exists>sans. NestedStringSlice ref_json ob' [''spec'', ''api'', ''sans''] = Inr (Some sans) \<and>
        set sans = {''a'', ''b'', ''10.0.0.1'', ''frp''})"
proof -
  let ?s = "ref_ctl ref_config_scope"
  have sc: "scope ?s = ref_config_scope" by (simp add: ref_ctl_def)
  have enrich: "enrichK0sConfigWithClusterData ref_json ref_cluster k = Inr k" for k
    by (simp add: enrichK0sConfigWithClusterData_def cluster_network_values_def Let_def ref_cluster_def)
  have total: "NestedBool ref_json ob p \<noteq> Inl e" "SetNestedField ref_json ob v p \<noteq> Inl e"
    "SetNestedStringSlice ref_json ob xs p \<noteq> Inl e" "NestedStringSlice ref_json ob p \<noteq> Inl e" for ob p e v xs
    by (simp_all add: ref_json_def)
  have "\<exists>ob'. config_endpoint ref_json cl ob = Inr ob'" "\<exists>ob'. config_tunnel_sans ref_json tun ob = Inr ob'" for cl tun ob
    by (simp_all add: config_endpoint_def config_tunnel_sans_def Let_def total split: sum.split)
  then obtain ob1 ob2 where ob1: "config_endpoint ref_json ref_cluster ref_config = Inr ob1"
    and ob2: "config_tunnel_sans ref_json (kcp_Tunneling (cp_kcp ref_config_scope)) ob1 = Inr ob2" by meson
  have "\<exists>s'. reconcileConfig ref_lib (ref_env []) ?s = (Ok (), s')"
    by (simp add: reconcileConfig_def run_simps sc set_k0s_def ob1 ob2 enrich) (rule ref_push, simp_all)
  then obtain s' where run: "reconcileConfig ref_lib (ref_env []) ?s = (Ok (), s')" by blast
  have laws: "json_laws (jsons ref_lib)" by (simp add: ref_json_laws)
  have k0s: "k_K0s (kcp_Config (cp_kcp (scope ?s))) = Some ref_config" by (simp add: sc)
  have ob: "nested_lookup ref_config [''spec'', ''api'', ''sans''] = Some (JArr (map JStr [''b'', ''a'']))"
    and nllb: "NestedBool (jsons ref_lib) ref_config [''spec'', ''network'', ''nodeLocalLoadBalancing'', ''enabled''] = Inr (Some True)"
    by (simp_all add: ref_config_def ref_json_def)
  have host: "cl_EndpointHost (cp_cluster (scope ?s)) \<noteq> []"
    and addr: "t_ServerAddress (kcp_Tunneling (cp_kcp (scope ?s))) \<noteq> []"
    by (simp_all add: sc ref_cluster_def)
  obtain ob' sans' where k: "k_K0s (kcp_Config (cp_kcp (scope s'))) = Some ob'"
    and n: "NestedStringSlice (jsons ref_lib) ob' [''spec'', ''api'', ''sans''] = Inr (Some sans')"
    and set: "set sans' = set [''b'', ''a''] \<union> {cl_EndpointHost (cp_cluster (scope ?s)),
      t_ServerAddress (kcp_Tunneling (cp_kcp (scope ?s)))}"
    using config_keeps_sans [OF laws run k0s ob nllb host addr] by (elim exE conjE)
  have "set sans' = {''a'', ''b'', ''10.0.0.1'', ''frp''}"
    unfolding set sc by (simp add: ref_cluster_def insert_commute)
  with run k n show ?thesis
    unfolding ref_lib_sel by (intro exI conjI)
qed

subsection \<open>The main kubeconfig secret\<close>

text \<open>
  The error of creating the main kubeconfig secret is lost: when the secret is missing and its
  creation is refused, \<open>reconcileKubeconfig\<close> goes on with a nil secret and never returns an error; its outcome
  is what the rotation check makes of a nil pointer, success or a panic.
\<close>
theorem kubeconfig_creation_failure_lost:
  assumes ready: "\<not> cl_EndpointIsZero (cp_cluster (scope s))" "\<not> t_Enabled (kcp_Tunneling (cp_kcp (scope s)))"
    and missing: "e_GetSecret E (trace s) (cl_Namespace (cp_cluster (scope s)),
       kubeconfig_secret_name (cl_Name (cp_cluster (scope s)))) = Inl e" "is_not_found e"
    and generated: "\<And>s0. \<exists>kc s1. generateKubeconfig E (cl_Namespace (cp_cluster (scope s)), cl_Name (cp_cluster (scope s)))
        (''https://'' @ cl_EndpointString (cp_cluster (scope s))) s0 = (Ok kc, s1)"
    and refused: "\<And>tr sec. e_write E tr (CreateSecret sec) = Some x"
  shows "\<exists>tr. fst (reconcileKubeconfig E s) = (case e_NeedsRotation E tr None of
       Ok needed \<Rightarrow> if needed then Panic else Ok () | Err _ \<Rightarrow> Ok () | Panic \<Rightarrow> Panic)"
proof -
  let ?sc = "scope s"
  have "\<exists>x. fst (createKubeconfigSecret E kc cl n meta s0) = Err x" for kc cl n meta s0
    by (auto simp: createKubeconfigSecret_def Let_def run_simps refused split: sum.splits)
  then have created: "\<exists>x s1. createKubeconfigSecret E kc cl n meta s0 = (Err x, s1)" for kc cl n meta s0
    by (metis prod.collapse)
  let ?key = "(cl_Namespace (cp_cluster ?sc), cl_Name (cp_cluster ?sc))" and ?name = "kubeconfig_secret_name (cl_Name (cp_cluster ?sc))"
  obtain kc s0 where gen: "generateKubeconfig E ?key (''https://'' @ cl_EndpointString (cp_cluster ?sc))
      (log_event (Read (ReadSecret (cl_Namespace (cp_cluster ?sc)) ?name)) s) = (Ok kc, s0)" using generated by blast
  obtain y s1 where "createKubeconfigSecret E kc (cp_cluster ?sc) ?name
      (ks_KubeconfigSecretMetadata (kcp_Spec (cp_kcp ?sc))) s0 = (Err y, s1)" using created by blast
  with missing gen have main: "main_kubeconfig E ?sc s = (Ok None, s1)"
    by (simp add: main_kubeconfig_def Let_def run_simps)
  show ?thesis
    by (rule exI [of _ "trace s1"])
      (simp add: reconcileKubeconfig_def Let_def run_simps ready main needsRotation_def split: res.splits)
qed

definition ref_ca_env :: env where
  \<comment> \<open>a server that has the certificate authority of the cluster and refuses new secrets\<close>
  "ref_ca_env = (ref_env [])\<lparr>e_GetSecret := (\<lambda>_ key. if snd key = ''c-ca''
       then Inr \<lparr>s_Name = ''c-ca'', s_Namespace = ''default'', s_Labels = Map.empty, s_Annotations = Map.empty,
                 s_OwnerReferences = [], s_Data = Map.empty, s_Type = []\<rparr>
       else Inl not_found),
     e_write := (\<lambda>_ rq. case rq of CreateSecret _ \<Rightarrow> Some (ApiStatus Forbidden ''quota'') | _ \<Rightarrow> None)\<rparr>"

theorem kubeconfig_creation_failure_lost_witness:
  "fst (reconcileKubeconfig ref_ca_env (ref_ctl (ref_scope 1 [] [] []))) = Panic"
proof -
  let ?s = "ref_ctl (ref_scope 1 [] [] [])"
  have sc: "cp_cluster (scope ?s) = ref_cluster" by (simp add: ref_ctl_def ref_scope_def)
  have 1: "\<not> cl_EndpointIsZero (cp_cluster (scope ?s))" "\<not> t_Enabled (kcp_Tunneling (cp_kcp (scope ?s)))"
    by (simp_all add: ref_ctl_def ref_scope_def ref_cluster_def ref_kcp_def ref_spec_def)
  have 2: "e_GetSecret ref_ca_env (trace ?s) (cl_Namespace (cp_cluster (scope ?s)),
       kubeconfig_secret_name (cl_Name (cp_cluster (scope ?s)))) = Inl not_found" "is_not_found not_found"
    by (simp_all add: ref_ca_env_def sc ref_cluster_def kubeconfig_secret_name_def not_found_def)
  have 3: "\<exists>kc s1. generateKubeconfig ref_ca_env (cl_Namespace (cp_cluster (scope ?s)), cl_Name (cp_cluster (scope ?s)))
      (''https://'' @ cl_EndpointString (cp_cluster (scope ?s))) s0 = (Ok kc, s1)" for s0
    by (simp add: generateKubeconfig_def sc run_simps ref_ca_env_def ref_env_def ca_secret_name_def ref_cluster_def)
  have 4: "e_write ref_ca_env tr (CreateSecret sec) = Some (ApiStatus Forbidden ''quota'')" for tr sec
    by (simp add: ref_ca_env_def)
  have "e_NeedsRotation ref_ca_env tr None = Panic" for tr
    by (simp add: ref_ca_env_def ref_env_def)
  with kubeconfig_creation_failure_lost [OF 1 2 3 4] show ?thesis by simp
qed

end
