(* ===== verification/Reconcile.thy ===== *)
theory Reconcile
  imports Workload_Config
begin

text \<open>
  The reconciler of \<open>K0sControlPlane\<close> as a whole (\<open>Reconcile\<close>, \<open>reconcileDelete\<close>,
  \<open>clusterToK0sControlPlane\<close> in \<open>k0s_controlplane_controller.go\<close>, \<open>EnsureFinalizer\<close> in
  \<open>internal/controller/util/util.go\<close>): the gates at its beginning, its body, and the deferred closure
  that writes the status and decides when to come back. The theorems show what a reconciliation
  that is gated does not do, that the finalizer goes last, and that a control plane that is not being
  deleted is always looked at again.
\<close>

subsection \<open>Gates\<close>

definition EnsureFinalizer :: "env \<Rightarrow> K0sControlPlane \<Rightarrow> string \<Rightarrow> bool ctlM" where
  \<comment> \<open>for a \<open>K0sControlPlane\<close>; whether the finalizer was added\<close>
  "EnsureFinalizer E kcp finalizer =
     (if om_DeletionTimestamp (kcp_Meta kcp) \<noteq> None then ret False
      else if finalizer \<in> set (om_Finalizers (kcp_Meta kcp)) then ret False
      else
        bindM (newPatchHelper E) (\<lambda>_.
        bindM (writeM E (PatchKcpFinalizer (kcp\<lparr>kcp_Meta := (kcp_Meta kcp)\<lparr>om_Finalizers :=
                 om_Finalizers (kcp_Meta kcp) @ [finalizer]\<rparr>\<rparr>))) (\<lambda>_.
        ret True)))"

definition defaultK0sSuffix :: string where "defaultK0sSuffix = ''k0s.0''"
definition defaultK0sVersion :: string where "defaultK0sVersion = ''v1.27.9+k0s.0''"

definition default_version :: "string \<Rightarrow> string" where
  \<comment> \<open>the version a reconciliation works with\<close>
  "default_version v =
     (let v' = (if v = [] then defaultK0sVersion else v) in
      if \<not> contains v' ''+k0s.'' then v' @ ''+'' @ defaultK0sSuffix else v')"

definition with_default_version :: "K0sControlPlane \<Rightarrow> K0sControlPlane" where
  "with_default_version kcp = kcp\<lparr>kcp_Spec := (kcp_Spec kcp)\<lparr>ks_Version := default_version (kcp_Version kcp)\<rparr>\<rparr>"

definition clusterToK0sControlPlane :: "cluster option \<Rightarrow> (string \<times> string) list" where
  \<comment> \<open>\<open>None\<close> is an object of another type\<close>
  "clusterToK0sControlPlane ob =
     (case ob of
        None \<Rightarrow> []
      | Some cl \<Rightarrow>
          (let ref = cl_ControlPlaneRef cl in
           if r_Kind ref \<noteq> ''K0sControlPlane'' \<or> r_Name ref = [] then []
           else [(cl_Namespace cl, r_Name ref)]))"

subsection \<open>Deletion\<close>

definition remove_finalizer :: "controlplane \<Rightarrow> controlplane" where
  "remove_finalizer sc = sc\<lparr>cp_kcp := (cp_kcp sc)\<lparr>kcp_Meta := (kcp_Meta (cp_kcp sc))\<lparr>om_Finalizers :=
     filter (\<lambda>f. f \<noteq> K0sControlPlaneFinalizer) (om_Finalizers (kcp_Meta (cp_kcp sc)))\<rparr>\<rparr>\<rparr>"

definition delete_cp_machine :: "env \<Rightarrow> machine \<Rightarrow> gerror list ctlM" where
  \<comment> \<open>the body of the loop of \<open>reconcileDelete\<close>\<close>
  "delete_cp_machine E m =
     (let hook = errs_of (Wrapf (''failed to remove pre-terminate hook from control plane Machine '' @ quoted (m_Name m)))
                   (release_hook E m)
      in if m_DeletionTimestamp m \<noteq> None then ret []
         else tryM (writeM E (DeleteMachine (m_Namespace m) (m_Name m))) (\<lambda>r.
           case r of
             Inl e \<Rightarrow> if \<not> is_not_found e
                       then ret [Wrapf (''failed to delete control plane Machine '' @ quoted (m_Name m)) e] else hook
           | Inr _ \<Rightarrow> hook))"

definition reconcileDelete :: "lib \<Rightarrow> env \<Rightarrow> result ctlM" where
  "reconcileDelete L E =
     bindM scopeM (\<lambda>sc.
     bindM (clearAvailabilityFailures (kcp_Meta (cp_kcp sc))) (\<lambda>_.
     bindM (wrapM (Wrapf ''failed to get machines'') (listMachinesM E (cp_cluster sc))) (\<lambda>allMachines.
     (let cpMachines = filter (coll_ControlPlaneMachines (colls L) (cl_Name (cp_cluster sc))) allMachines in
      if length cpMachines = 0 then bindM (set_scopeM remove_finalizer) (\<lambda>_. ret zero_result)
      else if length allMachines \<noteq> length cpMachines then ret requeue_after_10s
      else
        bindM (collect_errs (delete_cp_machine E) cpMachines) (\<lambda>errs.
        case new_aggregate errs of None \<Rightarrow> ret requeue_after_10s | Some e \<Rightarrow> failM e)))))"

subsection \<open>The reconciler\<close>

definition finish_reconcile :: "lib \<Rightarrow> env \<Rightarrow> bool \<Rightarrow> result res \<Rightarrow> result ctlM" where
  \<comment> \<open>the deferred closure: whether the control plane is being deleted, and the named results so far\<close>
  "finish_reconcile L E deleting outcome =
     bindM (if deleting then ret () else tryM (updateStatus L E) (\<lambda>_. ret ())) (\<lambda>_.
     bindM scopeM (\<lambda>sc.
     tryM (writeM E (PatchKcp (cp_kcp sc))) (\<lambda>p.
     case p of
       Inl derr \<Rightarrow> (case outcome of Panic \<Rightarrow> panicM | _ \<Rightarrow> failM derr)
     | Inr _ \<Rightarrow>
         bindM (if deref False (kst_ControlPlaneInitialized (kcp_Status (cp_kcp sc)))
                then tryM (writeM E (PatchCluster (cp_cluster sc)))
                       (\<lambda>q. case q of Inl perr \<Rightarrow> ret (Some (Wrapf ''failed to patch cluster'' perr)) | Inr _ \<Rightarrow> ret None)
                else ret None) (\<lambda>perr.
         case outcome of
           Panic \<Rightarrow> panicM
         | Err e \<Rightarrow> failM (deref e perr)
         | Ok res \<Rightarrow> (case perr of Some e \<Rightarrow> failM e | None \<Rightarrow> ret (requeueResult L None res sc))))))"

definition reconcile_body :: "lib \<Rightarrow> env \<Rightarrow> result ctlM" where
  \<comment> \<open>\<open>Reconcile\<close> after the deferred closure was registered\<close>
  "reconcile_body L E =
     bindM scopeM (\<lambda>sc.
     if om_DeletionTimestamp (kcp_Meta (cp_kcp sc)) \<noteq> None then reconcileDelete L E
     else
       bindM (ensureCertificates E) (\<lambda>_.
       bindM (reconcileTunneling E) (\<lambda>_.
       bindM (reconcileConfig L E) (\<lambda>_.
       bindM (wrapM (Wrapf ''error reconciling kubeconfig secret'') (reconcileKubeconfig E)) (\<lambda>_.
       reconcileMachines L E)))))"

definition reconcile_with_cluster :: "lib \<Rightarrow> env \<Rightarrow> K0sControlPlane \<Rightarrow> cluster \<Rightarrow> result ctlM" where
  \<comment> \<open>\<open>Reconcile\<close> once the owner is known\<close>
  "reconcile_with_cluster L E kcp cl =
     bindM (newPatchHelper E) (\<lambda>_.
     bindM (readM ReadPaused (e_EnsurePaused E)) (\<lambda>(isPaused, requeue).
     if isPaused \<or> requeue then ret zero_result
     else
       bindM (wrapM (Wrapf ''error getting machines state'') (retrieveControlPlaneState L E cl kcp)) (\<lambda>controlplane.
       bindM (set_scopeM (\<lambda>_. controlplane)) (\<lambda>_.
       deferNamedM (reconcile_body L E)
         (finish_reconcile L E (om_DeletionTimestamp (kcp_Meta kcp) \<noteq> None))))))"

definition Reconcile :: "lib \<Rightarrow> env \<Rightarrow> string \<times> string \<Rightarrow> result ctlM" where
  "Reconcile L E key =
     tryM (readM ReadKcp (\<lambda>tr. e_GetKcp E tr key)) (\<lambda>g.
     case g of
       Inl e \<Rightarrow> if is_not_found e then ret zero_result else failM e
     | Inr kcp0 \<Rightarrow>
         bindM (EnsureFinalizer E kcp0 K0sControlPlaneFinalizer) (\<lambda>finalizerAdded.
         if finalizerAdded then ret zero_result
         else
           bindM (newPatchHelper E) (\<lambda>_.
           (let kcp = with_default_version kcp0 in
            bindM (readM ReadOwnerCluster (\<lambda>tr. e_OwnerCluster E tr (kcp_Meta kcp))) (\<lambda>owner.
            case owner of None \<Rightarrow> ret zero_result | Some cl \<Rightarrow> reconcile_with_cluster L E kcp cl)))))"

subsection \<open>The finalizer goes last\<close>

lemma collect_errs_blocks:
  assumes "\<And>x s. \<exists>es s1 evs. f x s = (Ok es, s1) \<and> trace s1 = trace s @ evs \<and> P x evs \<and> scope s1 = scope s"
  shows "\<exists>es s' blocks. collect_errs f xs s = (Ok es, s') \<and> trace s' = trace s @ concat blocks \<and>
     list_all2 P xs blocks \<and> scope s' = scope s"
proof (induction xs arbitrary: s)
  case (Cons x xs)
  obtain es s1 evs where 1: "f x s = (Ok es, s1)" "trace s1 = trace s @ evs" "P x evs" "scope s1 = scope s"
    using assms by metis
  obtain es' s' blocks where "collect_errs f xs s1 = (Ok es', s')" "trace s' = trace s1 @ concat blocks"
    "list_all2 P xs blocks" "scope s' = scope s1"
    using Cons.IH by metis
  with 1 show ?case
    by (intro exI [of _ "es @ es'"] exI [of _ s'] exI [of _ "evs # blocks"]) (simp add: run_bindM)
qed simp

definition deletes_machine :: "machine \<Rightarrow> event list \<Rightarrow> bool" where
  \<comment> \<open>what the loop sends for one machine\<close>
  "deletes_machine m evs \<longleftrightarrow>
     (if m_DeletionTimestamp m \<noteq> None then evs = []
      else \<exists>x rest. evs = Wrote (DeleteMachine (m_Namespace m) (m_Name m)) x # rest \<and> list_all is_machine_patch rest)"

lemma delete_cp_machine_run:
  "\<exists>es s1 evs. delete_cp_machine E m s = (Ok es, s1) \<and> trace s1 = trace s @ evs \<and> deletes_machine m evs \<and> scope s1 = scope s"
proof (cases "m_DeletionTimestamp m")
  case None
  have hook: "\<exists>es s1 rest. errs_of g (release_hook E m) s0 = (Ok es, s1) \<and> trace s1 = trace s0 @ rest \<and>
      list_all is_machine_patch rest \<and> scope s1 = scope s0" for g s0
    by (auto simp: errs_of_def release_hook_def run_simps is_machine_patch_def split: option.splits)
  let ?w = "Wrote (DeleteMachine (m_Namespace m) (m_Name m)) (e_write E (trace s) (DeleteMachine (m_Namespace m) (m_Name m)))"
  obtain es s1 rest where h: "errs_of (Wrapf (''failed to remove pre-terminate hook from control plane Machine '' @ quoted (m_Name m)))
      (release_hook E m) (log_event ?w s) = (Ok es, s1)" "trace s1 = trace s @ ?w # rest" "list_all is_machine_patch rest" "scope s1 = scope s"
    using hook [of "Wrapf (''failed to remove pre-terminate hook from control plane Machine '' @ quoted (m_Name m))" "log_event ?w s"]
    by auto
  show ?thesis
  proof (cases "\<exists>e. e_write E (trace s) (DeleteMachine (m_Namespace m) (m_Name m)) = Some e \<and> \<not> is_not_found e")
    case True
    then show ?thesis
      by (auto simp: delete_cp_machine_def Let_def run_tryM None deletes_machine_def)
  next
    case False
    with h None have "delete_cp_machine E m s = (Ok es, s1)"
      by (auto simp: delete_cp_machine_def Let_def run_tryM split: option.splits)
    with h None show ?thesis by (auto simp: deletes_machine_def)
  qed
qed (auto simp: delete_cp_machine_def deletes_machine_def)

text \<open>
  C4 (safety). When a control plane is deleted, its finalizer is removed exactly when the API server lists no
  control plane machine any more. While there are other machines, the workers, nothing is deleted; after that the
  deletion of every control plane machine that is not already being deleted is requested, before the hook on it is
  released. As long as a control plane machine is left, success means being called again.
\<close>
theorem finalizer_removed_last:
  assumes run: "reconcileDelete L E s = (r, s')"
    and listed: "e_ListMachines E (trace s) (cp_cluster (scope s)) = Inr ms"
    and cp: "cp = filter (coll_ControlPlaneMachines (colls L) (cl_Name (cp_cluster (scope s)))) ms"
  shows "if cp = []
     then r = Ok zero_result \<and> new_events s s' = [Read ReadMachines] \<and>
       K0sControlPlaneFinalizer \<notin> set (om_Finalizers (kcp_Meta (cp_kcp (scope s'))))
     else om_Finalizers (kcp_Meta (cp_kcp (scope s'))) = om_Finalizers (kcp_Meta (cp_kcp (scope s))) \<and>
       (\<forall>res. r = Ok res \<longrightarrow> \<not> result_is_zero res) \<and>
       (if length ms \<noteq> length cp then new_events s s' = [Read ReadMachines]
        else \<exists>blocks. new_events s s' = Read ReadMachines # concat blocks \<and> list_all2 deletes_machine cp blocks)"
proof -
  let ?s0 = "log_event (Read ReadMachines) (s\<lparr>availabilityFailures :=
      (availabilityFailures s)(availabilityKey (kcp_Meta (cp_kcp (scope s))) := None)\<rparr>)"
  have nz: "\<not> result_is_zero requeue_after_10s"
    by (simp add: result_is_zero_def requeue_after_10s_def zero_result_def second_def)
  obtain es s1 blocks where loop: "collect_errs (delete_cp_machine E) cp ?s0 = (Ok es, s1)"
    "trace s1 = trace ?s0 @ concat blocks" "list_all2 deletes_machine cp blocks" "scope s1 = scope ?s0"
    using collect_errs_blocks [of "delete_cp_machine E" deletes_machine cp ?s0] delete_cp_machine_run by blast
  have "reconcileDelete L E s = (if length cp = 0 then bindM (set_scopeM remove_finalizer) (\<lambda>_. ret zero_result) ?s0
      else if length ms \<noteq> length cp then (Ok requeue_after_10s, ?s0)
      else (case new_aggregate es of None \<Rightarrow> (Ok requeue_after_10s, s1) | Some e \<Rightarrow> (Err e, s1)))"
    using loop(1) unfolding cp
    by (simp add: reconcileDelete_def Let_def run_simps clearAvailabilityFailures_def listMachinesM_def listed
        split: option.split)
  with run nz loop(2-4) show ?thesis
    by (auto simp: run_bindM remove_finalizer_def new_events_def split: if_splits option.splits)
qed

theorem finalizer_removed_last_witness:
  "\<exists>s'. reconcileDelete ref_lib (ref_env []) (ref_ctl (ref_scope 1 [] [] [])) = (Ok zero_result, s') \<and>
     K0sControlPlaneFinalizer \<notin> set (om_Finalizers (kcp_Meta (cp_kcp (scope s'))))"
proof -
  let ?s = "ref_ctl (ref_scope 1 [] [] [])"
  obtain r s' where run: "reconcileDelete ref_lib (ref_env []) ?s = (r, s')" by fastforce
  have "e_ListMachines (ref_env []) (trace ?s) (cp_cluster (scope ?s)) = Inr []"
    by (simp add: ref_env_def)
  from finalizer_removed_last [OF run this refl] run show ?thesis by simp
qed

subsection \<open>Gated reconciliations\<close>

definition is_kcp_finalizer_patch :: "event \<Rightarrow> bool" where
  "is_kcp_finalizer_patch ev \<longleftrightarrow> (case ev of Wrote (PatchKcpFinalizer _) _ \<Rightarrow> True | _ \<Rightarrow> False)"

definition harmless :: "event \<Rightarrow> bool" where
  "harmless ev \<longleftrightarrow> is_read ev \<or> is_kcp_finalizer_patch ev"

lemma harmless_simps [simp]: "harmless (Read rq)" "harmless (Wrote (PatchKcpFinalizer k) e)"
  by (simp_all add: harmless_def is_read_def is_kcp_finalizer_patch_def)

definition untouched :: "ctl \<Rightarrow> ctl \<Rightarrow> bool" where
  "untouched s s' \<longleftrightarrow> appends harmless s s' \<and> scope s' = scope s \<and>
     availabilityFailures s' = availabilityFailures s \<and> autopilotUpdateCancels s' = autopilotUpdateCancels s"

interpretation untouched: frame_order untouched
  by unfold_locales (auto simp: untouched_def emits.frame_refl intro: emits.frame_trans)

lemma untouched_reads: "keeps untouched (readM rq f)" "keeps untouched (newPatchHelper E)"
  "keeps untouched (writeM E (PatchKcpFinalizer k))"
  by (simp_all add: keeps_def untouched_def appends_def)

lemma untouched_EnsureFinalizer: "keeps untouched (EnsureFinalizer E kcp f)"
  unfolding EnsureFinalizer_def by (auto intro!: untouched.keeps_intros untouched_reads)

lemma untouched_paused:
  assumes "\<forall>tr. \<exists>q. e_EnsurePaused E tr = Inr (True, q)"
  shows "keeps untouched (reconcile_with_cluster L E kcp cl)"
proof -
  have paused: "keeps untouched (bindM (readM ReadPaused (e_EnsurePaused E)) (\<lambda>(p, q). if p \<or> q then ret zero_result else m))" for m
    unfolding keeps_def
  proof
    fix s :: ctl
    obtain q where "e_EnsurePaused E (trace s) = Inr (True, q)" using assms by blast
    then show "untouched s (snd (bindM (readM ReadPaused (e_EnsurePaused E)) (\<lambda>(p, q). if p \<or> q then ret zero_result else m) s))"
      by (simp add: run_bindM untouched_def appends_def)
  qed
  show ?thesis
    unfolding reconcile_with_cluster_def by (rule untouched.keeps_bindM [OF untouched_reads(2) paused])
qed

lemma untouched_owner:
  assumes "(\<forall>tr meta. e_OwnerCluster E tr meta = Inr None) \<or> (\<forall>tr. \<exists>q. e_EnsurePaused E tr = Inr (True, q))"
  shows "keeps untouched (bindM (readM ReadOwnerCluster (\<lambda>tr. e_OwnerCluster E tr meta))
     (\<lambda>owner. case owner of None \<Rightarrow> ret zero_result | Some cl \<Rightarrow> reconcile_with_cluster L E kcp cl))"
  using assms
proof
  assume "\<forall>tr meta. e_OwnerCluster E tr meta = Inr None"
  then show ?thesis by (simp add: keeps_def run_bindM untouched_def appends_def)
next
  assume "\<forall>tr. \<exists>q. e_EnsurePaused E tr = Inr (True, q)"
  then show ?thesis
    by (auto intro!: untouched.keeps_intros untouched_reads untouched_paused split: option.split)
qed

text \<open>
  A control plane that is paused, or whose Cluster has not adopted it, is left alone: the
  reconciliation sends no request that changes anything but, when it was missing, its finalizer, and the
  controller's own state is not touched either.
\<close>
theorem gated_reconcile_changes_nothing:
  assumes run: "Reconcile L E key s = (r, s')"
    and gate: "(\<forall>tr meta. e_OwnerCluster E tr meta = Inr None) \<or> (\<forall>tr. \<exists>q. e_EnsurePaused E tr = Inr (True, q))"
  shows "(\<forall>ev \<in> set (new_events s s'). harmless ev) \<and> scope s' = scope s \<and>
     availabilityFailures s' = availabilityFailures s \<and> autopilotUpdateCancels s' = autopilotUpdateCancels s"
proof -
  have "keeps untouched (Reconcile L E key)"
    unfolding Reconcile_def Let_def
    by (auto intro!: untouched.keeps_bindM untouched.keeps_tryM untouched.keeps_pure untouched_reads untouched_EnsureFinalizer
        untouched_owner [OF gate] split: sum.split)
  from keepsD [OF this run] show ?thesis
    by (auto simp: untouched_def appends_def new_events_def list_all_iff)
qed

definition ref_paused_env :: env where
  "ref_paused_env = (ref_env [])\<lparr>e_EnsurePaused := (\<lambda>_. Inr (True, False))\<rparr>"

theorem gated_reconcile_changes_nothing_witness:
  "\<exists>r s'. Reconcile ref_lib ref_paused_env (''default'', ''cp'') (ref_ctl (ref_scope 1 [] [] [])) = (r, s') \<and>
     (\<forall>ev \<in> set (new_events (ref_ctl (ref_scope 1 [] [] [])) s'). harmless ev) \<and> scope s' = ref_scope 1 [] [] []"
proof -
  let ?s = "ref_ctl (ref_scope 1 [] [] [])"
  obtain r s' where run: "Reconcile ref_lib ref_paused_env (''default'', ''cp'') ?s = (r, s')" by fastforce
  have "(\<forall>tr meta. e_OwnerCluster ref_paused_env tr meta = Inr None) \<or> (\<forall>tr. \<exists>q. e_EnsurePaused ref_paused_env tr = Inr (True, q))"
    by (rule disjI2) (auto simp: ref_paused_env_def)
  from gated_reconcile_changes_nothing [OF run this] run show ?thesis by (simp add: ref_ctl_def)
qed

subsection \<open>A reconciliation does not change what is being reconciled\<close>

definition identity :: "controlplane \<Rightarrow> string \<times> string \<times> string \<times> int option" where
  "identity sc = (let m = kcp_Meta (cp_kcp sc) in (om_Namespace m, om_Name m, om_UID m, om_DeletionTimestamp m))"

definition same_identity :: "ctl \<Rightarrow> ctl \<Rightarrow> bool" where
  "same_identity s s' \<longleftrightarrow> identity (scope s') = identity (scope s)"

interpretation ident: frame_order same_identity
  by unfold_locales (simp_all add: same_identity_def)

lemma ident_same_scope: "keeps same_scope m \<Longrightarrow> keeps same_identity m"
  by (simp add: keeps_def same_scope_def same_identity_def)

lemma ident_names_kept: "keeps names_kept m \<Longrightarrow> keeps same_identity m"
  by (simp add: keeps_def names_kept_def same_names_def same_identity_def identity_def)

lemma ident_set_scopeM: "(\<And>sc. identity (f sc) = identity sc) \<Longrightarrow> keeps same_identity (set_scopeM f)"
  by (simp add: keeps_def same_identity_def)

lemma identity_simps [simp]:
  "identity (upd_config f sc) = identity sc" "identity (upd_status g sc) = identity sc"
  "identity (clear_remediation sc) = identity sc" "identity (removeMachineFromScope sc n) = identity sc"
  "identity (sc\<lparr>activeMachines := ms\<rparr>) = identity sc" "identity (sc\<lparr>availabilityUndecided := b\<rparr>) = identity sc"
  "identity (sc\<lparr>cp_cluster := c\<rparr>) = identity sc"
  by (simp_all add: identity_def Let_def upd_config_def upd_status_def clear_remediation_def removeMachineFromScope_def)

lemma ident_modM: "(\<And>s. scope (f s) = scope s) \<Longrightarrow> keeps same_identity (modM f)"
  by (simp add: keeps_def same_identity_def)

lemma ident_errs_of: "keeps same_identity m \<Longrightarrow> keeps same_identity (errs_of g m)"
  unfolding errs_of_def by (auto intro!: ident.keeps_intros split: sum.splits)

lemma ident_set_machine: "keeps same_identity (set_machine m)"
  unfolding set_machine_def by (rule ident_set_scopeM) simp

lemma retrieve_same_kcp:
  assumes "retrieveControlPlaneState L E cl kcp s = (Ok sc, s')"
  shows "cp_kcp sc = kcp"
  using assms by (auto simp: retrieveControlPlaneState_def Let_def build_scope_def elim!: bindM_OkE)

lemma retrieve_same_scope: "keeps same_scope (retrieveControlPlaneState L E cl kcp)"
  unfolding retrieveControlPlaneState_def listMachinesM_def Let_def
  by (intro same_scope_rules machine_states_same_scope)

lemma ident_reinit: "keeps same_identity (reinit_scope L E)"
  unfolding keeps_def
proof
  fix s :: ctl
  obtain r s1 where ret: "retrieveControlPlaneState L E (cp_cluster (scope s)) (cp_kcp (scope s)) s = (r, s1)" by fastforce
  have "scope s1 = scope s" using keepsD [OF retrieve_same_scope ret] by (simp add: same_scope_def)
  with ret retrieve_same_kcp show "same_identity s (snd (reinit_scope L E s))"
    by (cases r) (auto simp: reinit_scope_def run_simps same_identity_def identity_def)
qed

lemmas ident_rules = ident.keeps_intros ident_errs_of ident_set_machine ident_reinit ident_set_scopeM
  ident_same_scope [OF same_scope_readM] ident_same_scope [OF same_scope_writeM] ident_same_scope [OF same_scope_nowM]
  ident_same_scope [OF same_scope_newPatchHelper] ident_same_scope [OF same_scope_scopeM]
  ident_same_scope [OF getWorkloadClusterClientset_same_scope] ident_same_scope [OF GetControllerRuntimeClient_same_scope]
  ident_same_scope [OF deleteMachine_same_scope] ident_same_scope [OF createMachineFromTemplate_same_scope]
  ident_names_kept [OF deleteK0sNodeResources_names]

lemma ident_remediation: "keeps same_identity (reconcileUnhealthyMachines L E)"
  unfolding reconcileUnhealthyMachines_def sanitizeHealthyMachines_def sanitize_one_def remediate_def
    patch_remediated_def pkg_wrapf_def not_remediated_def Let_def
  by (auto intro!: ident_rules simp: identity_def Let_def split: sum.splits option.splits res.splits)

lemma ident_preflight: "keeps same_identity (preflightChecks L E)"
  unfolding preflightChecks_def isLatestMachineReady_def checkMachineIsReady_def reconcileManualDeletions_def manual_body_def Let_def
  by (auto intro!: ident_rules ident_remediation split: option.splits sum.splits)

lemma ident_trigger: "keeps same_identity (triggerCAPIInplaceVersionUpdate E v m infra config)"
  unfolding triggerCAPIInplaceVersionUpdate_def latch_machine_def latch_infra_def latch_config_def hook_machine_def Let_def
  by (auto intro!: ident_rules simp: identity_def Let_def)

lemma ident_extension: "keeps same_identity (isK0smotronExtensionForInplaceUpdateDeployed E)"
  unfolding isK0smotronExtensionForInplaceUpdateDeployed_def by (auto intro!: ident_rules split: sum.splits)

lemma ident_loops: "keeps same_identity (startUpdateMachineVersions kcp)" "keeps same_identity (stopUpdateMachineVersions kcp)"
  unfolding startUpdateMachineVersions_def stopUpdateMachineVersions_def
  by (auto intro!: ident_modM simp: log_event_def split: option.splits)

lemma ident_start: "keeps same_identity (start_and_requeue L E)"
  unfolding start_and_requeue_def runInplaceUpdate_def runStandaloneAutopilotPlan_def CreatePlan_def Let_def
  by (auto intro!: ident_rules ident_trigger ident_extension ident_loops split: prod.splits)

lemma ident_inplace: "keeps same_identity (reconcileInplaceK0sVersionUpdate L E)"
  unfolding reconcileInplaceK0sVersionUpdate_def completeInterruptedTriggers_def complete_trigger_def follow_plan_def
    ensureTargetMachinesWithTargetVersion_def update_named_def updateMachineVersion_def DeletePlan_def GetPlan_def Let_def
  by (auto intro!: ident_rules ident_trigger ident_extension ident_loops ident_start split: option.splits sum.splits)

lemma ident_machines: "keeps same_identity (reconcileMachines L E)"
  unfolding reconcileMachines_def scale_step_def scaleUp_def create_machine_def createBootstrapConfig_def scaleDown_def
    setUpToDateMachineCondition_def set_up_to_date_def Let_def
  by (auto intro!: ident_rules ident_preflight ident_inplace split: option.splits sum.splits decision.splits)

lemma ident_updateStatus: "keeps same_identity (updateStatus L E)"
  unfolding updateStatus_def computeReplicas_def setScalingConditions_def set_kcp_condition_def computeAvailability_def
    clusterCacheConnectionDown_def setUnavailableAfterGracePeriod_def clearAvailabilityFailures_def set_reached_def Let_def
  by (auto intro!: ident_rules ident_modM split: res.splits sum.splits option.splits prod.splits)

lemma generateKubeconfig_same_scope: "keeps same_scope (generateKubeconfig E key ep)"
  unfolding generateKubeconfig_def by (auto intro!: same_scope_rules split: option.splits)

lemma createKubeconfigSecret_same_scope: "keeps same_scope (createKubeconfigSecret E cfg cl n meta)"
  unfolding createKubeconfigSecret_def Let_def by (intro same_scope_rules)

lemma rotate_same_scope: "keeps same_scope (rotate_kubeconfigs E n kcs)"
proof (induction kcs)
  case (Cons kc kcs)
  have "keeps same_scope (needsRotation E kc)"
    by (simp add: needsRotation_def keeps_def same_scope_def)
  moreover have "keeps same_scope (regenerateKubeconfigSecret E sec n)" for sec
    unfolding regenerateKubeconfigSecret_def
    by (auto intro!: same_scope_rules generateKubeconfig_same_scope split: option.splits)
  ultimately show ?case
    using Cons by (auto intro!: same_scope_rules split: sum.splits option.splits)
qed (simp add: keeps_def same_scope_def)

lemma reconcileKubeconfig_same_scope: "keeps same_scope (reconcileKubeconfig E)"
  unfolding reconcileKubeconfig_def main_kubeconfig_def tunnel_kubeconfig_def extra_kubeconfig_def Let_def
  by (auto intro!: same_scope_rules rotate_same_scope generateKubeconfig_same_scope createKubeconfigSecret_same_scope
      simp del: rotate_kubeconfigs.simps split: sum.splits option.splits)

lemma ident_prepare: "keeps same_identity (ensureCertificates E)" "keeps same_identity (reconcileTunneling E)"
  "keeps same_identity (reconcileConfig L E)"
  unfolding ensureCertificates_def reconcileTunneling_def createFRPToken_def FindNodeAddress_def reconcileConfig_def set_k0s_def Let_def
  by (auto intro!: ident_rules ident_same_scope [OF push_dynamic_config_same_scope] split: sum.splits option.splits)

lemma ident_body: "keeps same_identity (reconcile_body L E)"
  unfolding reconcile_body_def reconcileDelete_def delete_cp_machine_def release_hook_def clearAvailabilityFailures_def
    listMachinesM_def Let_def
  by (auto intro!: ident_rules ident_modM ident_prepare ident_machines ident_same_scope [OF reconcileKubeconfig_same_scope]
      simp: remove_finalizer_def identity_def Let_def split: sum.splits option.splits)

subsection \<open>Coming back\<close>

definition yields :: "('a \<Rightarrow> bool) \<Rightarrow> ('s, 'a) gom \<Rightarrow> bool" where
  \<comment> \<open>every value a computation returns satisfies the predicate\<close>
  "yields P m \<longleftrightarrow> (\<forall>s x s'. m s = (Ok x, s') \<longrightarrow> P x)"

lemma yields_rules:
  "P x \<Longrightarrow> yields P (ret x)" "yields P (failM e)" "yields P panicM"
  "(\<And>x. yields P (f x)) \<Longrightarrow> yields P (bindM m f)" "(\<And>r. yields P (h r)) \<Longrightarrow> yields P (tryM m' h)"
  "yields P m0 \<Longrightarrow> yields P (wrapM g m0)" "yields P m0 \<Longrightarrow> yields P (deferM m0 d)"
  unfolding yields_def
  by (auto simp: run_simps split: prod.splits res.splits)

definition prompt :: "result \<Rightarrow> bool" where
  "prompt res \<longleftrightarrow> result_is_zero res \<or> 0 < RequeueAfter res \<and> RequeueAfter res \<le> 10 * second"

lemma prompt_simps [simp]: "prompt zero_result" "prompt requeue_10s" "prompt requeue_after_10s"
  by (simp_all add: prompt_def requeue_10s_def requeue_after_10s_def second_def)

lemma yields_bindM: "yields Q m \<Longrightarrow> (\<And>x. Q x \<Longrightarrow> yields P (f x)) \<Longrightarrow> yields P (bindM m f)"
  unfolding yields_def by (blast elim: bindM_OkE)

lemma yields_preflight: "yields prompt (preflightChecks L E)"
  unfolding preflightChecks_def by (auto intro!: yields_rules)

lemma yields_inplace: "yields prompt (reconcileInplaceK0sVersionUpdate L E)"
  unfolding reconcileInplaceK0sVersionUpdate_def follow_plan_def start_and_requeue_def Let_def
  by (auto intro!: yields_rules split: sum.splits)

lemma yields_machines: "yields prompt (reconcileMachines L E)"
  unfolding reconcileMachines_def scale_step_def
  by (auto intro!: yields_rules yields_bindM [OF yields_preflight] yields_bindM [OF yields_inplace])

lemma yields_body: "yields prompt (reconcile_body L E)"
  unfolding reconcile_body_def reconcileDelete_def Let_def
  by (auto intro!: yields_rules yields_machines split: option.splits)

lemma finish_comes_back:
  assumes run: "finish_reconcile L E False outcome s = (Ok res, s')"
    and alive: "om_DeletionTimestamp (kcp_meta s) = None"
    and prompt: "\<And>x. outcome = Ok x \<Longrightarrow> prompt x"
  shows "0 < RequeueAfter res \<and> RequeueAfter res \<le> minute"
proof -
  obtain x s1 where st: "updateStatus L E s = (x, s1)" by fastforce
  have alive1: "om_DeletionTimestamp (kcp_meta s1) = None"
    using keepsD [OF ident_updateStatus st] alive by (simp add: same_identity_def identity_def Let_def)
  have "x \<noteq> Panic" using run st by (auto simp: finish_reconcile_def run_simps)
  then obtain y where "outcome = Ok y" and res: "res = requeueResult L None y (scope s1)"
    using run st by (cases outcome; cases x)
      (auto simp: finish_reconcile_def run_simps deref_def split: option.splits if_splits)
  with prompt [of y] show ?thesis
    using alive1
    by (auto simp: requeueResult_def prompt_def availabilityRequeueAfter_def availabilityRetryInterval_def
        availabilityPollInterval_def minute_def second_def)
qed

text \<open>
  C5 (liveness). A control plane that is not being deleted is always looked at again: a reconciliation of one that
  carries the finalizer, is owned and is not paused, if it succeeds at all, asks to be run again after a
  positive time of at most a minute; a settled control plane causes no events that would do so.
\<close>
theorem reconcile_comes_back:
  assumes run: "Reconcile L E key s = (Ok res, s')"
    and kcp: "e_GetKcp E (trace s) key = Inr kcp" "om_DeletionTimestamp (kcp_Meta kcp) = None"
      "K0sControlPlaneFinalizer \<in> set (om_Finalizers (kcp_Meta kcp))"
    and owned: "\<And>tr meta. e_OwnerCluster E tr meta = Inr (Some cl)"
    and active: "\<And>tr. e_EnsurePaused E tr = Inr (False, False)"
  shows "0 < RequeueAfter res \<and> RequeueAfter res \<le> minute"
proof -
  let ?kcp = "with_default_version kcp"
  have meta: "kcp_Meta ?kcp = kcp_Meta kcp" by (simp add: with_default_version_def)
  obtain s0 where "reconcile_with_cluster L E ?kcp cl s0 = (Ok res, s')"
    using run by (auto simp: Reconcile_def EnsureFinalizer_def Let_def run_simps kcp owned split: option.splits)
  then obtain sc s1 s2 where scope: "retrieveControlPlaneState L E cl ?kcp s1 = (Ok sc, s2)"
    and fin: "deferNamedM (reconcile_body L E) (finish_reconcile L E False) (s2\<lparr>scope := sc\<rparr>) = (Ok res, s')"
    by (auto simp: reconcile_with_cluster_def run_readM active meta kcp elim!: bindM_OkE wrapM_OkE)
  obtain r s3 where body: "reconcile_body L E (s2\<lparr>scope := sc\<rparr>) = (r, s3)" by fastforce
  have "om_DeletionTimestamp (kcp_meta s3) = None"
    using keepsD [OF ident_body body] retrieve_same_kcp [OF scope] meta kcp(2)
    by (simp add: same_identity_def identity_def Let_def)
  moreover have "r = Ok x \<Longrightarrow> prompt x" for x
    using yields_body [of L E, unfolded yields_def, rule_format] body by blast
  ultimately show ?thesis
    using finish_comes_back [of L E r s3 res s'] fin body by (simp add: run_deferNamedM)
qed

definition ref_settled_kcp :: K0sControlPlane where
  "ref_settled_kcp = (ref_kcp 0)\<lparr>kcp_Meta := (ref_meta ''cp'')\<lparr>om_Finalizers := [K0sControlPlaneFinalizer]\<rparr>\<rparr>"

definition ref_settled_env :: env where
  \<comment> \<open>a control plane of no replicas with its kubeconfig secret\<close>
  "ref_settled_env = (ref_env [])\<lparr>e_GetKcp := (\<lambda>_ _. Inr ref_settled_kcp),
     e_GetSecret := (\<lambda>_ key. Inr \<lparr>s_Name = snd key, s_Namespace = fst key, s_Labels = Map.empty, s_Annotations = Map.empty,
       s_OwnerReferences = [], s_Data = Map.empty, s_Type = []\<rparr>)\<rparr>"

definition no_panic :: "('s, 'a) gom \<Rightarrow> bool" where
  "no_panic m \<longleftrightarrow> (\<forall>s. fst (m s) \<noteq> Panic)"

lemma no_panic_rules:
  "no_panic (ret x)" "no_panic (failM e)" "no_panic (getM f)" "no_panic (modM g)" "no_panic (liftE r)"
  "no_panic m \<Longrightarrow> (\<And>x. no_panic (h x)) \<Longrightarrow> no_panic (bindM m h)"
  "no_panic m \<Longrightarrow> (\<And>x. no_panic (h' x)) \<Longrightarrow> no_panic (tryM m h')" "no_panic m \<Longrightarrow> no_panic (wrapM w m)"
  unfolding no_panic_def by (auto simp: run_simps split: prod.splits res.splits sum.splits) (metis fst_conv)+

lemma no_panic_ctl: "no_panic (readM rq f)" "no_panic (nowM E)" "no_panic scopeM" "no_panic (set_scopeM f')"
  unfolding readM_def nowM_def scopeM_def set_scopeM_def by (auto simp: no_panic_def liftE_def split: sum.splits)

lemma no_panic_computeAvailability: "no_panic (computeAvailability L E)"
  unfolding computeAvailability_def set_kcp_condition_def clusterCacheConnectionDown_def setUnavailableAfterGracePeriod_def
    clearAvailabilityFailures_def set_reached_def GetControllerRuntimeClient_def getRESTConfig_def client_for_def
    fromKubeconfigSecretToRestConfig_def Let_def
  by (auto intro!: no_panic_rules no_panic_ctl split: sum.splits option.splits prod.splits)

lemma no_panic_updateStatus: "fst (updateStatus L E s) \<noteq> Panic"
proof -
  have "no_panic (computeReplicas L E)"
    unfolding computeReplicas_def setScalingConditions_def set_kcp_condition_def
    by (auto intro!: no_panic_rules no_panic_ctl)
  then have "fst (computeReplicas L E s0) \<noteq> Panic" for s0 by (simp add: no_panic_def)
  moreover have "fst (computeAvailability L E s0) \<noteq> Panic" for s0
    using no_panic_computeAvailability [of L E] by (simp add: no_panic_def)
  ultimately show ?thesis
    by (auto simp: updateStatus_def run_simps split: prod.splits res.splits) (metis fst_conv)+
qed

lemma finish_accepted:
  assumes "\<And>tr rq. e_write E tr rq = None"
  shows "\<exists>res s'. finish_reconcile L E False (Ok r) s = (Ok res, s')"
proof -
  obtain x s1 where st: "updateStatus L E s = (x, s1)" by fastforce
  moreover from st have "x \<noteq> Panic" using no_panic_updateStatus [of L E s] by auto
  ultimately show ?thesis
    by (cases x) (auto simp: finish_reconcile_def run_simps assms)
qed

lemma ref_settled_run: "\<exists>res s'. Reconcile ref_lib ref_settled_env (''default'', ''cp'') (ref_ctl (ref_scope 0 [] [] [])) = (Ok res, s')"
  by (simp add: Reconcile_def EnsureFinalizer_def reconcile_with_cluster_def retrieveControlPlaneState_def listMachinesM_def
      build_scope_def reconcile_body_def ensureCertificates_def reconcileTunneling_def reconcileConfig_def reconcileKubeconfig_def
      main_kubeconfig_def needsRotation_def reconcileMachines_def preflightChecks_def reconcileUnhealthyMachines_def
      sanitizeHealthyMachines_def reconcileManualDeletions_def isLatestMachineReady_def isAnyMachineUpdating_def inplace_run
      scale_step_def decide_def isNeededScaleUp_def isNeededScaleDown_def calculateMaxSurge_def isDesiredStateReached_def
      desired_replicas_def setUpToDateMachineCondition_def new_aggregate_def Let_def
      ref_settled_env_def ref_settled_kcp_def with_default_version_def run_simps ref_defs)
    (rule finish_accepted, simp)

theorem reconcile_comes_back_witness:
  "\<exists>res s'. Reconcile ref_lib ref_settled_env (''default'', ''cp'') (ref_ctl (ref_scope 0 [] [] [])) = (Ok res, s') \<and>
     0 < RequeueAfter res \<and> RequeueAfter res \<le> minute"
proof -
  let ?s = "ref_ctl (ref_scope 0 [] [] [])"
  obtain res s' where run: "Reconcile ref_lib ref_settled_env (''default'', ''cp'') ?s = (Ok res, s')"
    using ref_settled_run by blast
  have 1: "e_GetKcp ref_settled_env (trace ?s) (''default'', ''cp'') = Inr ref_settled_kcp"
    "om_DeletionTimestamp (kcp_Meta ref_settled_kcp) = None"
    "K0sControlPlaneFinalizer \<in> set (om_Finalizers (kcp_Meta ref_settled_kcp))"
    by (simp_all add: ref_settled_env_def ref_settled_kcp_def ref_meta_def)
  have 2: "e_OwnerCluster ref_settled_env tr meta = Inr (Some ref_cluster)" "e_EnsurePaused ref_settled_env tr = Inr (False, False)" for tr meta
    by (simp_all add: ref_settled_env_def ref_env_def)
  from reconcile_comes_back [OF run 1 2] run show ?thesis by blast
qed

end
