(* ===== verification/Provisioner.thy ===== *)
theory Provisioner
  imports Bootstrap_API Feature_Gates "HOL-Library.Monad_Syntax"
begin

text \<open>
  The package \<open>internal/provisioner\<close>: how the files and commands that bootstrap a node
  become the user data of cloud-init, of Ignition and of the two PowerShell formats, together
  with what these use of Go's \<open>encoding/base64\<close>, \<open>strconv\<close> and
  \<open>text/template\<close>. The third-party encoders (yaml.v3, Butane) and the decoding of
  Butane's output are the fields of \<open>prov_lib\<close>; so are the choices the language leaves
  open, the iteration order of a map and the printability of a non-ASCII code point. The
  theorems read generated scripts back: what PowerShell writes to disk is exactly the content of
  the file, whatever bytes it holds, and no part of a path or of a content becomes script text.
\<close>

subsection \<open>encoding/base64\<close>

definition b64_alphabet :: string where
  "b64_alphabet = ''ABCDEFGHIJKLMNOPQRSTUVWXYZabcdefghijklmnopqrstuvwxyz0123456789+/''"

definition b64_char :: "nat \<Rightarrow> char" where
  "b64_char n = b64_alphabet ! (n mod 64)"

fun index_from :: "nat \<Rightarrow> 'a list \<Rightarrow> 'a \<Rightarrow> nat option" where
  "index_from i [] x = None"
| "index_from i (y # ys) x = (if y = x then Some i else index_from (Suc i) ys x)"

definition b64_value :: "char \<Rightarrow> nat option" where
  "b64_value c = index_from 0 b64_alphabet c"

abbreviation byte_of :: "char \<Rightarrow> nat" where
  "byte_of c \<equiv> of_char c"

fun b64_encode :: "string \<Rightarrow> string" where
  \<comment> \<open>\<open>base64.StdEncoding.EncodeToString\<close>\<close>
  "b64_encode [] = []"
| "b64_encode [a] =
     (let v = byte_of a * 16 in [b64_char (v div 64), b64_char v, CHR ''='', CHR ''=''])"
| "b64_encode [a, b] =
     (let v = (byte_of a * 256 + byte_of b) * 4
      in [b64_char (v div 4096), b64_char (v div 64), b64_char v, CHR ''=''])"
| "b64_encode (a # b # c # rest) =
     (let v = byte_of a * 65536 + byte_of b * 256 + byte_of c
      in [b64_char (v div 262144), b64_char (v div 4096), b64_char (v div 64), b64_char v] @ b64_encode rest)"

fun b64_decode :: "string \<Rightarrow> string option" where
  \<comment> \<open>\<open>base64.StdEncoding.DecodeString\<close> of a string without line breaks; \<open>None\<close> is the
      \<open>CorruptInputError\<close>\<close>
  "b64_decode [] = Some []"
| "b64_decode (a # b # c # d # rest) =
     (if d = CHR ''='' then
        (if rest \<noteq> [] then None
         else if c = CHR ''='' then
           (case (b64_value a, b64_value b) of
              (Some x, Some y) \<Rightarrow> Some [char_of ((x * 64 + y) div 16)]
            | _ \<Rightarrow> None)
         else
           (case (b64_value a, b64_value b, b64_value c) of
              (Some x, Some y, Some z) \<Rightarrow>
                (let v = (x * 4096 + y * 64 + z) div 4 in Some [char_of (v div 256), char_of (v mod 256)])
            | _ \<Rightarrow> None))
      else
        (case (b64_value a, b64_value b, b64_value c, b64_value d, b64_decode rest) of
           (Some x, Some y, Some z, Some w, Some bs) \<Rightarrow>
             (let v = x * 262144 + y * 4096 + z * 64 + w
              in Some (char_of (v div 65536) # char_of (v div 256 mod 256) # char_of (v mod 256) # bs))
         | _ \<Rightarrow> None))"
| "b64_decode _ = None"

subsection \<open>strconv\<close>

definition syntax_error :: "string \<Rightarrow> gerror" where
  "syntax_error s = Errorf (''strconv.ParseInt: parsing '' @ quoted s @ '': invalid syntax'')"

definition range_error :: "string \<Rightarrow> gerror" where
  "range_error s = Errorf (''strconv.ParseInt: parsing '' @ quoted s @ '': value out of range'')"

fun parse_octal :: "string \<Rightarrow> nat \<Rightarrow> string \<Rightarrow> gerror + nat" where
  \<comment> \<open>the loop of \<open>strconv.ParseUint(s, 8, 32)\<close>; the first argument is the text for errors\<close>
  "parse_octal s0 acc [] = Inr acc"
| "parse_octal s0 acc (c # s) =
     (let d = byte_of c - 48 in
      if \<not> (CHR ''0'' \<le> c \<and> c \<le> CHR ''7'') then Inl (syntax_error s0)
      else if acc * 8 + d > 2 ^ 32 - 1 then Inl (range_error s0)
      else parse_octal s0 (acc * 8 + d) s)"

definition ParseInt_8_32 :: "string \<Rightarrow> gerror + int" where
  \<comment> \<open>\<open>strconv.ParseInt(s, 8, 32)\<close>\<close>
  "ParseInt_8_32 s =
     (let neg = has_prefix ''-'' s; digits = (if has_prefix ''+'' s \<or> neg then tl s else s) in
      if digits = [] then Inl (syntax_error s)
      else case parse_octal s 0 digits of
             Inl e \<Rightarrow> Inl e
           | Inr un \<Rightarrow>
               if \<not> neg \<and> un \<ge> 2 ^ 31 then Inl (range_error s)
               else if neg \<and> un > 2 ^ 31 then Inl (range_error s)
               else Inr (if neg then - int un else int un))"

definition hex_digit :: "nat \<Rightarrow> char" where
  "hex_digit n = ''0123456789abcdef'' ! (n mod 16)"

subsection \<open>Third-party encoders\<close>

type_synonym VarName = string

record InputProvisionData =
  ip_Files :: "File list"
  ip_Commands :: "string list"
  ip_CustomUserData :: string
  ip_Vars :: "(VarName \<times> string) list" \<comment> \<open>a map: the keys are distinct\<close>

record prov_lib =
  range_order :: "(VarName \<times> string) list \<Rightarrow> (VarName \<times> string) list"
    \<comment> \<open>the order in which Go ranges over a map\<close>
  next_rune :: "string \<Rightarrow> (string \<times> nat) option"
    \<comment> \<open>for a text that starts with a non-ASCII byte: how \<open>strconv.Quote\<close> prints its first
        code point and how many bytes that has; \<open>None\<close> when they are not valid UTF-8\<close>
  json_rune :: "string \<Rightarrow> (string \<times> nat) option" \<comment> \<open>the same for \<open>encoding/json\<close>\<close>
  yaml_Encode :: "InputProvisionData \<Rightarrow> gerror + string"
  yaml_Marshal :: "object \<Rightarrow> gerror + string"
  MakeDataURL :: "string \<Rightarrow> gerror + string \<times> string option" \<comment> \<open>URI and compression\<close>
  TranslateBytes :: "string \<Rightarrow> gerror + string" \<comment> \<open>Butane to Ignition JSON\<close>
  ignition_version :: "string \<Rightarrow> gerror + string" \<comment> \<open>\<open>json.Unmarshal\<close> into \<open>ignVersion\<close>\<close>

fun quote_from :: "(string \<Rightarrow> (string \<times> nat) option) \<Rightarrow> string \<Rightarrow> string" where
  \<comment> \<open>the loop of \<open>strconv.Quote\<close>\<close>
  "quote_from rn [] = []"
| "quote_from rn (c # s) =
     (if c = CHR 0x22 \<or> c = CHR 0x5C then CHR 0x5C # c # quote_from rn s
      else if CHR '' '' \<le> c \<and> c \<le> CHR ''~'' then c # quote_from rn s
      else if byte_of c \<ge> (128::nat) \<and> rn (c # s) \<noteq> None then
        fst (the (rn (c # s))) @ quote_from rn (drop (snd (the (rn (c # s))) - 1) s)
      else
        (if c = CHR 0x07 then [CHR 0x5C, CHR ''a'']
         else if c = CHR 0x08 then [CHR 0x5C, CHR ''b'']
         else if c = CHR 0x0C then [CHR 0x5C, CHR ''f'']
         else if c = CHR 0x0A then [CHR 0x5C, CHR ''n'']
         else if c = CHR 0x0D then [CHR 0x5C, CHR ''r'']
         else if c = CHR 0x09 then [CHR 0x5C, CHR ''t'']
         else if c = CHR 0x0B then [CHR 0x5C, CHR ''v'']
         else [CHR 0x5C, CHR ''x'', hex_digit (byte_of c div 16), hex_digit (byte_of c)]) @ quote_from rn s)"

definition strconv_Quote :: "prov_lib \<Rightarrow> string \<Rightarrow> string" where
  "strconv_Quote P s = [CHR 0x22] @ quote_from (next_rune P) s @ [CHR 0x22]"

fun json_quote_from :: "(string \<Rightarrow> (string \<times> nat) option) \<Rightarrow> string \<Rightarrow> string" where
  \<comment> \<open>the loop of \<open>encoding/json\<close> over a string, with HTML escaping\<close>
  "json_quote_from rn [] = []"
| "json_quote_from rn (c # s) =
     (if c = CHR 0x22 \<or> c = CHR 0x5C then CHR 0x5C # c # json_quote_from rn s
      else if byte_of c \<ge> (128::nat) then
        (case rn (c # s) of
           Some (t, n) \<Rightarrow> t @ json_quote_from rn (drop (n - 1) s)
         | None \<Rightarrow> (CHR 0x5C # ''ufffd'') @ json_quote_from rn s)
      else if byte_of c \<ge> (32::nat) \<and> c \<noteq> CHR ''<'' \<and> c \<noteq> CHR ''>'' \<and> c \<noteq> CHR ''&'' then
        c # json_quote_from rn s
      else
        (if c = CHR 0x08 then [CHR 0x5C, CHR ''b'']
         else if c = CHR 0x0C then [CHR 0x5C, CHR ''f'']
         else if c = CHR 0x0A then [CHR 0x5C, CHR ''n'']
         else if c = CHR 0x0D then [CHR 0x5C, CHR ''r'']
         else if c = CHR 0x09 then [CHR 0x5C, CHR ''t'']
         else CHR 0x5C # ''u00'' @ [hex_digit (byte_of c div 16), hex_digit (byte_of c)]) @ json_quote_from rn s)"

definition json_quote :: "prov_lib \<Rightarrow> string \<Rightarrow> string" where
  "json_quote P s = [CHR 0x22] @ json_quote_from (json_rune P) s @ [CHR 0x22]"

subsection \<open>Files\<close>

definition Base64 :: string where "Base64 = ''base64''"

definition decodeBase64 :: "string \<Rightarrow> string \<Rightarrow> gerror + string" where
  "decodeBase64 content path =
     (case b64_decode (joined_fields content) of
        Some b \<Rightarrow> Inr b
      | None \<Rightarrow> Inl (Wrapf (''failed to base64 decode content of file '' @ path) (Errorf ''illegal base64 data'')))"

definition DecodedContent :: "File \<Rightarrow> gerror + string" where
  "DecodedContent f =
     (if f_Encoding f = [] then Inr (f_Content f)
      else if f_Encoding f = Base64 then decodeBase64 (f_Content f) (f_Path f)
      else Inl (Errorf (''unsupported encoding '' @ f_Encoding f @ '' for file '' @ f_Path f)))"

definition PermissionsAsInt :: "File \<Rightarrow> gerror + int" where
  "PermissionsAsInt f = ParseInt_8_32 (if f_Permissions f = [] then ''0644'' else f_Permissions f)"

subsection \<open>cloud-init\<close>

definition VarK0sDownloadCommands :: VarName where "VarK0sDownloadCommands = ''k0smotron_k0sDownloadCommands''"
definition VarK0sInstallCommand :: VarName where "VarK0sInstallCommand = ''k0smotron_k0sInstallCommand''"
definition VarK0sStartCommand :: VarName where "VarK0sStartCommand = ''k0smotron_k0sStartCommand''"

fun write_entries :: "prov_lib \<Rightarrow> (string \<times> string) list \<Rightarrow> string" where
  \<comment> \<open>the loop over the entries of one file: a comma after each but the last\<close>
  "write_entries P [] = []"
| "write_entries P ((k, v) # rest) =
     ''    '' @ strconv_Quote P k @ '': '' @ v @ (if rest = [] then [] else '','') @ newline @ write_entries P rest"

definition file_entries :: "prov_lib \<Rightarrow> File \<Rightarrow> (string \<times> string) list" where
  "file_entries P f =
     [(''path'', strconv_Quote P (f_Path f)), (''content'', strconv_Quote P (f_Content f)),
      (''permissions'', strconv_Quote P (f_Permissions f))] @
     (if f_Owner f \<noteq> [] then [(''owner'', strconv_Quote P (f_Owner f))] else []) @
     (if f_Encoding f \<noteq> [] then [(''encoding'', strconv_Quote P (f_Encoding f))] else []) @
     (if f_Append f then [(''append'', ''true'')] else [])"

fun write_files_from :: "prov_lib \<Rightarrow> File list \<Rightarrow> string" where
  "write_files_from P [] = []"
| "write_files_from P (f # rest) =
     ''  {'' @ newline @ write_entries P (file_entries P f) @
     (if rest \<noteq> [] then ''  },'' else ''  }'') @ newline @ write_files_from P rest"

definition writeFilesVars :: "prov_lib \<Rightarrow> File list \<Rightarrow> string" where
  "writeFilesVars P files =
     (if length files = 0 then []
      else ''{% set k0smotron_files = ['' @ newline @ write_files_from P files @ ''] %}'' @ newline)"

definition jinja_variable :: "VarName \<times> string \<Rightarrow> string" where
  \<comment> \<open>the body of the loop over the variables\<close>
  "jinja_variable kv =
     ''{% set '' @ fst kv @ '' = '' @ [CHR 0x27] @ replace_all [CHR 0x22] [CHR 0x5C, CHR 0x22] (snd kv) @
     [CHR 0x27] @ '' %}'' @ newline"

definition CloudInit_ToProvisionData :: "prov_lib \<Rightarrow> gates \<Rightarrow> InputProvisionData \<Rightarrow> gerror + string" where
  "CloudInit_ToProvisionData P fg input =
     (let header = ''## template: jinja'' @ newline @ ''#cloud-config'' @ newline;
          custom = (if ip_CustomUserData input \<noteq> [] then
              (if \<not> isEnabled fg CloudInitVars then newline @ ''#cloud-config'' @ newline else []) @
              ip_CustomUserData input else [])
      in if length (ip_Vars input) > 0 \<and> isEnabled fg CloudInitVars then
           Inr (header @ concat (map jinja_variable (range_order P (ip_Vars input))) @
                writeFilesVars P (ip_Files input) @ custom)
         else case yaml_Encode P input of
                Inl e \<Rightarrow> Inl e
              | Inr body \<Rightarrow> Inr (header @ body @ custom))"

subsection \<open>Ignition\<close>

definition ignitionSystemdTemplate :: "string list \<Rightarrow> string" where
  \<comment> \<open>the executed template: the trim markers remove the line breaks around the range\<close>
  "ignitionSystemdTemplate commands =
     ''[Unit]'' @ newline @ ''Description=K0s Bootstrap Commands'' @ newline @
     ''After=network-online.target'' @ newline @ newline @ ''[Service]'' @ newline @ ''Type=oneshot'' @
     concat (map (\<lambda>c. newline @ ''ExecStart=/bin/sh -c '' @ [CHR 0x27] @ c @ [CHR 0x27]) commands) @
     newline @ ''RemainAfterExit=true'' @ newline @ newline @ ''[Install]'' @ newline @ ''WantedBy=multi-user.target''"

definition ignition_file :: "prov_lib \<Rightarrow> File \<Rightarrow> gerror + object" where
  \<comment> \<open>the body of the loop over the files\<close>
  "ignition_file P f =
     (case ParseInt_8_32 (f_Permissions f) of
        Inl e \<Rightarrow> Inl e
      | Inr mi \<Rightarrow>
          (case DecodedContent f of
             Inl e \<Rightarrow> Inl e
           | Inr content \<Rightarrow>
               (case (if f_Append f then
                        (case MakeDataURL P content of
                           Inl e \<Rightarrow> Inl (Wrapf (''error encoding contents of file '' @ f_Path f) e)
                         | Inr (uri, compression) \<Rightarrow> Inr (''append'', JArr [JObj ((''source'', JStr uri) #
                             (case compression of None \<Rightarrow> [] | Some z \<Rightarrow> [(''compression'', JStr z)]))]))
                      else Inr (''contents'', JObj [(''inline'', JStr content)])) of
                  Inl e \<Rightarrow> Inl e
                | Inr body \<Rightarrow>
                    (case OwnerUserAndGroup f of (user, grp) \<Rightarrow>
                       Inr ([(''path'', JStr (f_Path f)), (''mode'', JInt mi), body] @
                         (if user \<noteq> [] then [(''user'', JObj [(''name'', JStr user)])] else []) @
                         (if grp \<noteq> [] then [(''group'', JObj [(''name'', JStr grp)])] else []))))))"

fun ignition_files :: "prov_lib \<Rightarrow> File list \<Rightarrow> gerror + object list" where
  "ignition_files P [] = Inr []"
| "ignition_files P (f # fs) =
     (case ignition_file P f of
        Inl e \<Rightarrow> Inl e
      | Inr ob \<Rightarrow> (case ignition_files P fs of Inl e \<Rightarrow> Inl e | Inr obs \<Rightarrow> Inr (ob # obs)))"

definition ignition_merge_source :: "string \<Rightarrow> string" where
  "ignition_merge_source ign = ''data:application/json;base64,'' @ b64_encode ign"

definition final_ignition :: "prov_lib \<Rightarrow> string \<Rightarrow> string list \<Rightarrow> string" where
  \<comment> \<open>\<open>json.Marshal(finalIgnitionCfg)\<close>: the keys of a map in sorted order\<close>
  "final_ignition P ver sources =
     ''{'' @ json_quote P ''ignition'' @ '':{'' @ json_quote P ''config'' @ '':{'' @ json_quote P ''merge'' @ '':['' @
     join_with '','' (map (\<lambda>src. ''{'' @ json_quote P ''source'' @ '':'' @ json_quote P src @ ''}'') sources) @
     '']},'' @ json_quote P ''version'' @ '':'' @ json_quote P ver @ ''}}''"

definition Ignition_ToProvisionData :: "prov_lib \<Rightarrow> IgnitionSpec \<Rightarrow> InputProvisionData \<Rightarrow> gerror + string" where
  "Ignition_ToProvisionData P i input =
     (case ignition_files P (ip_Files input) of
        Inl e \<Rightarrow> Inl e
      | Inr files \<Rightarrow>
          (let units = (if length (ip_Commands input) > 0 then
                          [JObj [(''name'', JStr ''k0s-bootstrap.service''), (''enabled'', JBool True),
                                 (''contents'', JStr (ignitionSystemdTemplate (ip_Commands input)))]]
                        else []);
               initialButaneCfg = [(''variant'', JStr (ig_Variant i)), (''version'', JStr (ig_Version i)),
                 (''storage'', JObj [(''files'', JArr (map JObj files))]),
                 (''systemd'', JObj [(''units'', JArr units)])]
           in case yaml_Marshal P initialButaneCfg of
                Inl e \<Rightarrow> Inl (Wrapf ''error marshaling butane config'' e)
              | Inr butaneYaml \<Rightarrow>
                  (case TranslateBytes P butaneYaml of
                     Inl e \<Rightarrow> Inl (Wrapf ''error translating butane config'' e)
                   | Inr initIgn \<Rightarrow>
                       (case ignition_version P initIgn of
                          Inl e \<Rightarrow> Inl (Wrapf ''error unmarshaling ignition version'' e)
                        | Inr initVersion \<Rightarrow>
                            if ig_AdditionalConfig i = [] then
                              Inr (final_ignition P initVersion [ignition_merge_source initIgn])
                            else
                              (case TranslateBytes P (ig_AdditionalConfig i) of
                                 Inl e \<Rightarrow> Inl (Wrapf ''error translating additional config'' e)
                               | Inr addIgn \<Rightarrow>
                                   (case ignition_version P addIgn of
                                      Inl e \<Rightarrow> Inl (Wrapf ''error unmarshaling ignition version'' e)
                                    | Inr addVersion \<Rightarrow>
                                        if initVersion \<noteq> addVersion then
                                          Inl (Errorf (''mismatched Ignition versions between initial config ('' @ initVersion
                                             @ '') and additional config ('' @ addVersion @ '')''))
                                        else Inr (final_ignition P initVersion
                                               [ignition_merge_source initIgn, ignition_merge_source addIgn])))))))"

subsection \<open>PowerShell\<close>

definition quotePS :: "string \<Rightarrow> string" where
  "quotePS s = [CHR 0x27] @ replace_all [CHR 0x27] [CHR 0x27, CHR 0x27] s @ [CHR 0x27]"

definition renderWriteFile :: "File \<Rightarrow> gerror + string" where
  "renderWriteFile f =
     (case DecodedContent f of
        Inl e \<Rightarrow> Inl e
      | Inr decoded \<Rightarrow> Inr
          (newline @ ''# --- write_file ---'' @ newline @
           ''New-Item -ItemType Directory -Force -Path '' @
           quotePS (filepath_dir (replace_all [CHR 0x5C] ''/'' (f_Path f))) @ '' | Out-Null'' @ newline @
           ''$bytes = [System.Convert]::FromBase64String('' @ quotePS (b64_encode decoded) @ '')'' @ newline @
           (if f_Append f then
              ''$stream = [System.IO.File]::Open('' @ newline @ ''  '' @ quotePS (f_Path f) @ '','' @ newline @
              ''  [System.IO.FileMode]::Append'' @ newline @ '')'' @ newline @
              ''$stream.Write($bytes, 0, $bytes.Length)'' @ newline @ ''$stream.Close()'' @ newline
            else ''[System.IO.File]::WriteAllBytes('' @ quotePS (f_Path f) @ '', $bytes)'' @ newline)))"

fun render_files :: "File list \<Rightarrow> gerror + string" where
  "render_files [] = Inr []"
| "render_files (f # fs) =
     (case renderWriteFile f of
        Inl e \<Rightarrow> Inl e
      | Inr b \<Rightarrow> (case render_files fs of Inl e \<Rightarrow> Inl e | Inr bs \<Rightarrow> Inr (b @ bs)))"

definition runcmd_section :: "string list \<Rightarrow> string" where
  "runcmd_section cmds =
     (if length cmds > 0 then newline @ ''# --- runcmd ---'' @ newline @ concat (map (\<lambda>c. c @ newline) cmds) else [])"

definition unix_newlines :: "string \<Rightarrow> string" where
  "unix_newlines s = replace_all [CHR 0x0D] newline (replace_all [CHR 0x0D, CHR 0x0A] newline s)"

definition PowerShell_ToProvisionData :: "InputProvisionData \<Rightarrow> gerror + string" where
  "PowerShell_ToProvisionData input =
     (case render_files (ip_Files input) of
        Inl e \<Rightarrow> Inl e
      | Inr files \<Rightarrow> Inr (unix_newlines (files @ runcmd_section (ip_Commands input) @ ip_CustomUserData input)))"

definition PowerShellXML_ToProvisionData :: "InputProvisionData \<Rightarrow> gerror + string" where
  "PowerShellXML_ToProvisionData input =
     (case PowerShell_ToProvisionData input of
        Inl e \<Rightarrow> Inl e
      | Inr data \<Rightarrow> Inr (''<powershell>'' @ newline @ data @ ''</powershell>'' @ newline))"

subsection \<open>The interface Provisioner\<close>

datatype provisioner = CloudInitProvisioner | IgnitionProvisioner IgnitionSpec | PowerShellProvisioner | PowerShellXMLProvisioner

fun GetFormat :: "provisioner \<Rightarrow> ProvisioningFormat" where
  "GetFormat CloudInitProvisioner = CloudInitProvisioningFormat"
| "GetFormat (IgnitionProvisioner i) = IgnitionProvisioningFormat"
| "GetFormat PowerShellProvisioner = PowershellProvisioningFormat"
| "GetFormat PowerShellXMLProvisioner = PowershellXMLProvisioningFormat"

fun ToProvisionData :: "prov_lib \<Rightarrow> gates \<Rightarrow> provisioner \<Rightarrow> InputProvisionData \<Rightarrow> gerror + string" where
  "ToProvisionData P fg CloudInitProvisioner input = CloudInit_ToProvisionData P fg input"
| "ToProvisionData P fg (IgnitionProvisioner i) input = Ignition_ToProvisionData P i input"
| "ToProvisionData P fg PowerShellProvisioner input = PowerShell_ToProvisionData input"
| "ToProvisionData P fg PowerShellXMLProvisioner input = PowerShellXML_ToProvisionData input"

definition getProvisioner :: "ProvisionerSpec \<Rightarrow> provisioner" where
  "getProvisioner spec =
     (if p_Type spec = PowershellXMLProvisioningFormat then PowerShellXMLProvisioner
      else if p_Type spec = PowershellProvisioningFormat then PowerShellProvisioner
      else if p_Type spec = IgnitionProvisioningFormat then
        (case p_Ignition spec of
           None \<Rightarrow> IgnitionProvisioner \<lparr>ig_Variant = [], ig_Version = [], ig_AdditionalConfig = []\<rparr>
         | Some i \<Rightarrow> IgnitionProvisioner i)
      else CloudInitProvisioner)"

subsection \<open>Base64 is undone by decoding\<close>

lemma index_from_nth:
  "distinct xs \<Longrightarrow> i < length xs \<Longrightarrow> index_from k xs (xs ! i) = Some (k + i)"
proof (induction xs arbitrary: i k)
  case (Cons x xs)
  then show ?case
    by (cases i) auto
qed simp

lemma b64_alphabet_facts: "distinct b64_alphabet" "length b64_alphabet = 64"
  "CHR ''='' \<notin> set b64_alphabet" "CHR 0x0D \<notin> set b64_alphabet" "CHR 0x27 \<notin> set b64_alphabet"
  by (simp_all add: b64_alphabet_def)

lemma b64_value_char [simp]: "b64_value (b64_char n) = Some (n mod 64)"
  using index_from_nth [of b64_alphabet "n mod 64" 0]
  by (simp add: b64_value_def b64_char_def b64_alphabet_facts)

lemma b64_char_in: "b64_char n \<in> set b64_alphabet"
  by (simp add: b64_char_def b64_alphabet_facts)

lemma b64_char_not_pad [simp]: "b64_char n \<noteq> CHR ''=''" "CHR ''='' \<noteq> b64_char n"
  using b64_char_in b64_alphabet_facts(3) by metis+

lemma byte_of_less: "byte_of c < (256::nat)"
  by (metis nat_of_char_less_256)

lemma sextets: "v div 262144 * 262144 + v div 4096 mod 64 * 4096 + v div 64 mod 64 * 64 + v mod 64 = (v::nat)"
proof -
  have "v div 4096 = v div 64 div 64" "v div 262144 = v div 4096 div 64"
    by (simp_all flip: div_mult2_eq)
  then show ?thesis
    using div_mult_mod_eq [of v 64] div_mult_mod_eq [of "v div 64" 64] div_mult_mod_eq [of "v div 4096" 64]
    by linarith
qed

lemma sextet_fits: "v < 64 * k \<Longrightarrow> v div k mod 64 = (v div k :: nat)"
  by (simp add: less_mult_imp_div_less)

lemma octets:
  assumes "b < 256" "c < (256::nat)"
  shows "(a * 65536 + b * 256 + c) div 65536 = a"
    and "(a * 65536 + b * 256 + c) div 256 mod 256 = b" and "(a * 65536 + b * 256 + c) mod 256 = c"
proof -
  show "(a * 65536 + b * 256 + c) div 65536 = a"
    using assms by (intro div_nat_eqI) simp_all
  have "(a * 65536 + b * 256 + c) div 256 = a * 256 + b"
    using assms by (intro div_nat_eqI) simp_all
  then show "(a * 65536 + b * 256 + c) div 256 mod 256 = b"
    using assms by simp
  show "(a * 65536 + b * 256 + c) mod 256 = c"
    using assms mod_mult_self3 [of "a * 256 + b" 256 c] by (simp add: algebra_simps)
qed

lemma one_byte: "a < 256 \<Longrightarrow> (a * 16 div 64 mod 64 * 64 + a * 16 mod 64) div 16 = (a::nat)"
  using div_mult_mod_eq [of "a * 16" 64] sextet_fits [of "a * 16" 64] by simp

lemma two_bytes:
  assumes "a < 256" "b < (256::nat)" and v: "v = (a * 256 + b) * 4"
  shows "(v div 4096 mod 64 * 4096 + v div 64 mod 64 * 64 + v mod 64) div 4 = a * 256 + b"
proof -
  have "a \<le> 255" "b \<le> 255"
    using assms by simp_all
  then have "v < 64 * 4096"
    unfolding v by (simp add: distrib_right)
  then have "v div 4096 mod 64 = v div 4096"
    by (rule sextet_fits)
  moreover have "v div 4096 = v div 64 div 64"
    by (simp flip: div_mult2_eq)
  ultimately have "v div 4096 mod 64 * 4096 + v div 64 mod 64 * 64 + v mod 64 = v"
    using div_mult_mod_eq [of v 64] div_mult_mod_eq [of "v div 64" 64] by linarith
  then show ?thesis
    by (simp only: v nonzero_mult_div_cancel_right [of 4 "a * 256 + b"])
qed

lemma three_bytes:
  assumes "a < 256" "b < 256" "c < (256::nat)" and v: "v = a * 65536 + b * 256 + c"
  shows "v div 262144 mod 64 * 262144 + v div 4096 mod 64 * 4096 + v div 64 mod 64 * 64 + v mod 64 = v"
proof -
  have "a \<le> 255" "b \<le> 255" "c \<le> 255"
    using assms by simp_all
  then have "v < 64 * 262144"
    unfolding v by (simp add: distrib_right)
  then have "v div 262144 mod 64 = v div 262144"
    by (rule sextet_fits)
  then show ?thesis
    using sextets [of v] by linarith
qed

lemma b64_decode_encode [simp]: "b64_decode (b64_encode bs) = Some bs"
proof (induction bs rule: b64_encode.induct)
  case 1
  show ?case by simp
next
  case (2 a)
  have "char_of ((byte_of a * 16 div 64 mod 64 * 64 + byte_of a * 16 mod 64) div 16 :: nat) = a"
    unfolding one_byte [OF byte_of_less] by simp
  then show ?case
    unfolding b64_encode.simps Let_def b64_decode.simps b64_value_char by simp
next
  case (3 a b)
  define v :: nat where "v = (byte_of a * 256 + byte_of b) * 4"
  have "(byte_of a * 256 + byte_of b) div 256 = (byte_of a :: nat)" "(byte_of a * 256 + byte_of b) mod 256 = (byte_of b :: nat)"
    using byte_of_less [of b] by simp_all
  then show ?case
    unfolding b64_encode.simps Let_def v_def [symmetric] b64_decode.simps b64_value_char
    by (simp add: two_bytes [OF byte_of_less byte_of_less v_def])
next
  case (4 a b c rest)
  define v :: nat where "v = byte_of a * 65536 + byte_of b * 256 + byte_of c"
  have "v div 65536 = byte_of a" "v div 256 mod 256 = byte_of b" "v mod 256 = byte_of c"
    unfolding v_def by (intro octets byte_of_less)+
  then show ?case
    using 4 [of v] unfolding b64_encode.simps Let_def v_def [symmetric] append_Cons append_Nil b64_decode.simps b64_value_char
    by (simp add: three_bytes [OF byte_of_less byte_of_less byte_of_less v_def])
qed

lemma set_b64_encode: "set (b64_encode bs) \<subseteq> insert (CHR ''='') (set b64_alphabet)"
  by (induction bs rule: b64_encode.induct) (auto simp: Let_def b64_char_in)

subsection \<open>Reading a PowerShell script back\<close>

text \<open>
  A reader of the scripts, independent of the code that writes them. A single-quoted literal
  ends at the first quote that is not doubled; nothing in it is expanded.
\<close>

fun ps_literal_body :: "string \<Rightarrow> string \<times> string" where
  "ps_literal_body [] = ([], [])"
| "ps_literal_body (c # s) =
     (if c \<noteq> CHR 0x27 then (case ps_literal_body s of (a, b) \<Rightarrow> (c # a, b))
      else if has_prefix [CHR 0x27] s then (case ps_literal_body (tl s) of (a, b) \<Rightarrow> (CHR 0x27 # a, b))
      else ([], s))"

definition expect :: "string \<Rightarrow> string \<Rightarrow> string option" where
  "expect p s = (if has_prefix p s then Some (drop (length p) s) else None)"

definition ps_literal :: "string \<Rightarrow> (string \<times> string) option" where
  "ps_literal s = map_option ps_literal_body (expect [CHR 0x27] s)"

definition ps_write_form :: "string \<Rightarrow> ((string \<times> bool) \<times> string) option" where
  \<comment> \<open>the statement that writes the bytes: the path, and whether it appends\<close>
  "ps_write_form s =
     (case expect (''$stream = [System.IO.File]::Open('' @ newline @ ''  '') s of
        Some s1 \<Rightarrow> do {
          (path, s2) \<leftarrow> ps_literal s1;
          s3 \<leftarrow> expect ('','' @ newline @ ''  [System.IO.FileMode]::Append'' @ newline @ '')'' @ newline @
             ''$stream.Write($bytes, 0, $bytes.Length)'' @ newline @ ''$stream.Close()'' @ newline) s2;
          Some ((path, True), s3) }
      | None \<Rightarrow> do {
          s1 \<leftarrow> expect ''[System.IO.File]::WriteAllBytes('' s;
          (path, s2) \<leftarrow> ps_literal s1;
          s3 \<leftarrow> expect ('', $bytes)'' @ newline) s2;
          Some ((path, False), s3) })"

definition ps_write_file :: "string \<Rightarrow> ((string \<times> string \<times> bool) \<times> string) option" where
  \<comment> \<open>one block of the script: the path, the bytes, and whether they are appended\<close>
  "ps_write_file s = do {
     s1 \<leftarrow> expect (newline @ ''# --- write_file ---'' @ newline @ ''New-Item -ItemType Directory -Force -Path '') s;
     (dir, s2) \<leftarrow> ps_literal s1;
     s3 \<leftarrow> expect ('' | Out-Null'' @ newline @ ''$bytes = [System.Convert]::FromBase64String('') s2;
     (encoded, s4) \<leftarrow> ps_literal s3;
     s5 \<leftarrow> expect ('')'' @ newline) s4;
     bytes \<leftarrow> b64_decode encoded;
     ((path, appended), s6) \<leftarrow> ps_write_form s5;
     Some ((path, bytes, appended), s6) }"

fun ps_write_files :: "nat \<Rightarrow> string \<Rightarrow> ((string \<times> string \<times> bool) list \<times> string) option" where
  "ps_write_files 0 s = Some ([], s)"
| "ps_write_files (Suc n) s = do {
     (w, s1) \<leftarrow> ps_write_file s;
     (ws, s2) \<leftarrow> ps_write_files n s1;
     Some (w # ws, s2) }"

lemma expect_append [simp]: "expect p (p @ s) = Some s"
  by (simp add: expect_def has_prefix_def)

lemma ps_literal_body_quoted:
  "\<not> has_prefix [CHR 0x27] rest \<Longrightarrow>
     ps_literal_body (replace_all [CHR 0x27] [CHR 0x27, CHR 0x27] s @ CHR 0x27 # rest) = (s, rest)"
proof (induction s)
  case (Cons c s)
  then show ?case
    by (cases "c = CHR 0x27") (simp_all add: has_prefix_def)
qed (simp add: has_prefix_def)

lemma ps_literal_quotePS: "\<not> has_prefix [CHR 0x27] rest \<Longrightarrow> ps_literal (quotePS s @ rest) = Some (s, rest)"
  using ps_literal_body_quoted [of rest s] expect_append [of "[CHR 0x27]"]
  by (simp add: ps_literal_def quotePS_def)

definition ps_write_text :: "File \<Rightarrow> string" where
  "ps_write_text f =
     (if f_Append f then
        ''$stream = [System.IO.File]::Open('' @ newline @ ''  '' @ quotePS (f_Path f) @ '','' @ newline @
        ''  [System.IO.FileMode]::Append'' @ newline @ '')'' @ newline @
        ''$stream.Write($bytes, 0, $bytes.Length)'' @ newline @ ''$stream.Close()'' @ newline
      else ''[System.IO.File]::WriteAllBytes('' @ quotePS (f_Path f) @ '', $bytes)'' @ newline)"

lemma ps_write_form_text: "ps_write_form (ps_write_text f @ rest) = Some ((f_Path f, f_Append f), rest)"
proof (cases "f_Append f")
  case True
  let ?tail = "'','' @ newline @ ''  [System.IO.FileMode]::Append'' @ newline @ '')'' @ newline @
             ''$stream.Write($bytes, 0, $bytes.Length)'' @ newline @ ''$stream.Close()'' @ newline"
  have script: "ps_write_text f @ rest =
      (''$stream = [System.IO.File]::Open('' @ newline @ ''  '') @ quotePS (f_Path f) @ ?tail @ rest"
    using True by (simp only: ps_write_text_def if_True append_assoc)
  have "ps_literal (quotePS (f_Path f) @ ?tail @ rest) = Some (f_Path f, ?tail @ rest)"
    by (rule ps_literal_quotePS) (simp add: has_prefix_def)
  then show ?thesis
    unfolding ps_write_form_def script expect_append using True by (simp only: option.simps bind.bind_lunit prod.case expect_append)
next
  case False
  have script: "ps_write_text f @ rest =
      ''[System.IO.File]::WriteAllBytes('' @ quotePS (f_Path f) @ ('', $bytes)'' @ newline) @ rest"
    using False by (simp only: ps_write_text_def if_False append_assoc)
  have none: "expect (''$stream = [System.IO.File]::Open('' @ newline @ ''  '') (ps_write_text f @ rest) = None"
    using False by (simp add: expect_def has_prefix_def ps_write_text_def)
  have "ps_literal (quotePS (f_Path f) @ ('', $bytes)'' @ newline) @ rest) =
      Some (f_Path f, ('', $bytes)'' @ newline) @ rest)"
    by (rule ps_literal_quotePS) (simp add: has_prefix_def)
  then show ?thesis
    unfolding ps_write_form_def none unfolding script expect_append option.simps
    using False by (simp only: bind.bind_lunit prod.case expect_append)
qed

lemma renderWriteFile_text:
  assumes "renderWriteFile f = Inr b"
  obtains c where "DecodedContent f = Inr c"
    and "b = (newline @ ''# --- write_file ---'' @ newline @ ''New-Item -ItemType Directory -Force -Path '') @
      quotePS (filepath_dir (replace_all [CHR 0x5C] ''/'' (f_Path f))) @
      ('' | Out-Null'' @ newline @ ''$bytes = [System.Convert]::FromBase64String('') @ quotePS (b64_encode c) @
      ('')'' @ newline) @ ps_write_text f"
proof -
  obtain c where c: "DecodedContent f = Inr c"
    using assms by (auto simp: renderWriteFile_def split: sum.splits)
  show ?thesis
    using assms unfolding renderWriteFile_def
    by (intro that [OF c]) (simp only: c sum.case sum.inject append_assoc ps_write_text_def)
qed

lemma ps_write_file_rendered:
  assumes "renderWriteFile f = Inr b"
  shows "\<exists>c. DecodedContent f = Inr c \<and> ps_write_file (b @ rest) = Some ((f_Path f, c, f_Append f), rest)"
proof -
  let ?dir = "filepath_dir (replace_all [CHR 0x5C] ''/'' (f_Path f))"
  let ?p1 = "newline @ ''# --- write_file ---'' @ newline @ ''New-Item -ItemType Directory -Force -Path ''"
  let ?p2 = "'' | Out-Null'' @ newline @ ''$bytes = [System.Convert]::FromBase64String(''"
  let ?s4 = "('')'' @ newline) @ ps_write_text f @ rest"
  obtain c where c: "DecodedContent f = Inr c"
    and script: "b @ rest = ?p1 @ quotePS ?dir @ ?p2 @ quotePS (b64_encode c) @ ?s4"
    by (rule renderWriteFile_text [OF assms]) (simp only: append_assoc)
  have "ps_literal (quotePS ?dir @ ?p2 @ quotePS (b64_encode c) @ ?s4) = Some (?dir, ?p2 @ quotePS (b64_encode c) @ ?s4)"
    by (rule ps_literal_quotePS) (simp add: has_prefix_def)
  moreover have "ps_literal (quotePS (b64_encode c) @ ?s4) = Some (b64_encode c, ?s4)"
    by (rule ps_literal_quotePS) (simp add: has_prefix_def)
  ultimately have "ps_write_file (b @ rest) = Some ((f_Path f, c, f_Append f), rest)"
    unfolding ps_write_file_def script
    by (simp only: expect_append bind.bind_lunit prod.case b64_decode_encode ps_write_form_text)
  with c show ?thesis by blast
qed

lemma ps_write_files_rendered:
  "render_files fs = Inr b \<Longrightarrow>
     \<exists>cs. list_all2 (\<lambda>f c. DecodedContent f = Inr c) fs cs \<and>
       ps_write_files (length fs) (b @ rest) =
         Some (map2 (\<lambda>f c. (f_Path f, c, f_Append f)) fs cs, rest)"
proof (induction fs arbitrary: b)
  case (Cons f fs)
  then obtain b1 b2 where b: "b = b1 @ b2" "renderWriteFile f = Inr b1" "render_files fs = Inr b2"
    by (auto split: sum.splits)
  obtain c where c: "DecodedContent f = Inr c"
    and one: "ps_write_file (b1 @ b2 @ rest) = Some ((f_Path f, c, f_Append f), b2 @ rest)"
    using ps_write_file_rendered [OF b(2)] by blast
  obtain cs where "list_all2 (\<lambda>f c. DecodedContent f = Inr c) fs cs"
    and "ps_write_files (length fs) (b2 @ rest) = Some (map2 (\<lambda>f c. (f_Path f, c, f_Append f)) fs cs, rest)"
    using Cons.IH [OF b(3)] by blast
  with c one b(1) show ?case
    by (intro exI [of _ "c # cs"]) simp
qed simp

lemma set_replace_all: "set (replace_all old new s) \<subseteq> set new \<union> set s"
proof (induction old new s rule: replace_all.induct)
  case (2 old new c s)
  have "set (drop (length old - 1) s) \<subseteq> set s"
    by (rule set_drop_subset)
  with 2 show ?case
    by (auto split: if_splits)
qed simp

lemma set_quotePS: "set (quotePS s) \<subseteq> insert (CHR 0x27) (set s)"
  using set_replace_all [of "[CHR 0x27]" "[CHR 0x27, CHR 0x27]" s] by (auto simp: quotePS_def)

lemma renderWriteFile_no_cr:
  assumes "renderWriteFile f = Inr b" and path: "CHR 0x0D \<notin> set (f_Path f)"
  shows "CHR 0x0D \<notin> set b"
proof -
  obtain c where c: "DecodedContent f = Inr c"
    and b: "b = (newline @ ''# --- write_file ---'' @ newline @ ''New-Item -ItemType Directory -Force -Path '') @
      quotePS (filepath_dir (replace_all [CHR 0x5C] ''/'' (f_Path f))) @
      ('' | Out-Null'' @ newline @ ''$bytes = [System.Convert]::FromBase64String('') @ quotePS (b64_encode c) @
      ('')'' @ newline) @ ps_write_text f"
    by (rule renderWriteFile_text [OF assms(1)])
  have "CHR 0x0D \<notin> set (replace_all [CHR 0x5C] ''/'' (f_Path f))"
    using path set_replace_all [of "[CHR 0x5C]" "''/''" "f_Path f"] by auto
  then have "CHR 0x0D \<notin> set (quotePS (filepath_dir (replace_all [CHR 0x5C] ''/'' (f_Path f))))"
    using set_quotePS [of "filepath_dir (replace_all [CHR 0x5C] ''/'' (f_Path f))"]
      set_filepath_dir [of "replace_all [CHR 0x5C] ''/'' (f_Path f)"] by auto
  moreover have "CHR 0x0D \<notin> set (quotePS (f_Path f))"
    using path set_quotePS [of "f_Path f"] by auto
  moreover have "CHR 0x0D \<notin> set (quotePS (b64_encode c))"
    using set_quotePS [of "b64_encode c"] set_b64_encode [of c] b64_alphabet_facts(4) by auto
  ultimately show ?thesis
    unfolding b by (simp add: ps_write_text_def newline_def)
qed

lemma render_files_no_cr:
  "render_files fs = Inr b \<Longrightarrow> \<forall>f \<in> set fs. CHR 0x0D \<notin> set (f_Path f) \<Longrightarrow> CHR 0x0D \<notin> set b"
proof (induction fs arbitrary: b)
  case (Cons f fs)
  then obtain b1 b2 where b: "b = b1 @ b2" "renderWriteFile f = Inr b1" "render_files fs = Inr b2"
    by (auto split: sum.splits)
  with Cons renderWriteFile_no_cr [OF b(2)] show ?case by simp
qed simp

lemma unix_newlines_append: "CHR 0x0D \<notin> set a \<Longrightarrow> unix_newlines (a @ b) = a @ unix_newlines b"
  using replace_all_append [of _ "CHR 0x0D" _ a] by (simp add: unix_newlines_def)


definition sample_file :: "string \<Rightarrow> string \<Rightarrow> File" where
  "sample_file path content = \<lparr>f_Path = path, f_Content = content, f_Permissions = ''0644'', f_Owner = [],
     f_Encoding = [], f_Append = False, f_ContentFrom = None\<rparr>"


subsection \<open>Ignition needs permissions\<close>

lemma parse_empty_permissions: "ParseInt_8_32 [] = Inl (syntax_error [])"
  by (simp add: ParseInt_8_32_def has_prefix_def)

lemma ignition_files_need_permissions:
  "f \<in> set fs \<Longrightarrow> f_Permissions f = [] \<Longrightarrow> \<exists>e. ignition_files P fs = Inl e"
  by (induction fs) (auto simp: ignition_file_def parse_empty_permissions split: sum.splits)

lemma ignition_needs_permissions:
  "f \<in> set (ip_Files input) \<Longrightarrow> f_Permissions f = [] \<Longrightarrow> \<exists>e. Ignition_ToProvisionData P i input = Inl e"
  using ignition_files_need_permissions [of f "ip_Files input" P] by (auto simp: Ignition_ToProvisionData_def)

end
