(* ===== verification/Bootstrap_Commands.thy ===== *)
theory Bootstrap_Commands
  imports Provisioner Cluster_API
begin

text \<open>
  What runs on a node to make it a member of the cluster: the download commands
  (\<open>internal/controller/util/download.go\<close>), the arguments and commands of
  \<open>internal/controller/bootstrap\<close> for controllers and for Linux and Windows workers, the
  files that let an old k0s leave etcd at shutdown, the manifest of the tunnel client, and join
  tokens (\<open>internal/util/token.go\<close>, \<open>internal/util/random.go\<close>). Everything here is a
  pure function of the specification. The functions of \<open>net/url\<close>, \<open>net/netip\<close>,
  \<open>compress/gzip\<close>, \<open>clientcmd\<close> and kubeadm that it calls are the fields of
  \<open>boot_lib\<close>. The theorems: no argument of the user is lost or reordered and the kubelet gets
  one argument list, except that a flag given in the form with a space loses its name.
\<close>

record join_kubeconfig =
  jk_Server :: string
  jk_CertificateAuthorityData :: string
  jk_AuthInfo :: string \<comment> \<open>the user name, also of the only context\<close>
  jk_Token :: string

record boot_lib =
  bl_lib :: "json_lib"
  bl_vers :: ver_lib
  bl_prov :: prov_lib
  url_Parse :: "string \<Rightarrow> (string \<times> string \<times> string) option"
    \<comment> \<open>\<open>url.Parse\<close>: scheme, host and path; \<open>None\<close> is an error\<close>
  ParseAddr :: "string \<Rightarrow> (bool \<times> string) option"
    \<comment> \<open>\<open>netip.ParseAddr\<close>: whether it is an IPv4 address, and its text without the zone;
        an address is either IPv4 or IPv6\<close>
  APIServerVirtualIP :: "string \<Rightarrow> gerror + string"
  gzip_best :: "string \<Rightarrow> gerror + string"
  clientcmd_Write :: "join_kubeconfig \<Rightarrow> gerror + string"
  bl_MarshalJSON :: "object \<Rightarrow> gerror + string"
  NestedInt64 :: "object \<Rightarrow> string list \<Rightarrow> gerror + int option"

definition defaultK0sSuffix :: string where "defaultK0sSuffix = ''k0s.0''"
definition machineNameNodeLabel :: string where "machineNameNodeLabel = ''k0smotron.io/machine-name''"

subsection \<open>Join tokens\<close>

definition letters :: string where "letters = ''abcdefghijklmnopqrstuvwxyz0123456789''"

definition RandomString :: "string \<Rightarrow> string" where
  \<comment> \<open>of the bytes that \<open>rand.Read\<close> filled in\<close>
  "RandomString bs = map (\<lambda>b. letters ! (byte_of b mod length letters)) bs"

definition joinEncode :: "boot_lib \<Rightarrow> string \<Rightarrow> gerror + string" where
  "joinEncode B data = (case gzip_best B data of Inl e \<Rightarrow> Inl e | Inr z \<Rightarrow> Inr (b64_encode z))"

definition CreateK0sJoinToken :: "boot_lib \<Rightarrow> string \<Rightarrow> string \<Rightarrow> string \<Rightarrow> string \<Rightarrow> gerror + string" where
  "CreateK0sJoinToken B caCert token joinURL userName =
     (case clientcmd_Write B \<lparr>jk_Server = joinURL, jk_CertificateAuthorityData = caCert, jk_AuthInfo = userName,
                              jk_Token = token\<rparr> of
        Inl e \<Rightarrow> Inl e
      | Inr kubeconfig \<Rightarrow> joinEncode B kubeconfig)"

subsection \<open>Downloading k0s\<close>

definition DefaultK0sDownloadURL :: string where "DefaultK0sDownloadURL = ''https://get.k0s.sh''"

definition DownloadCommands :: "boot_lib \<Rightarrow> bool \<Rightarrow> string \<Rightarrow> string \<Rightarrow> string \<Rightarrow> gerror + string list" where
  "DownloadCommands B preInstalledK0s downloadURL ver k0sInstallPath =
     (if preInstalledK0s then Inr []
      else
        (let path = (if k0sInstallPath = [] then ''/usr/local/bin'' else k0sInstallPath);
             k0sBinPath = path @ ''/k0s'';
             dl = (if downloadURL = [] then DefaultK0sDownloadURL else downloadURL)
         in if dl \<noteq> DefaultK0sDownloadURL then
              (case url_Parse B dl of
                 None \<Rightarrow> Inr [''echo '' @ quoted (''Invalid download URL: '' @ dl)]
               | Some (scheme, host, upath) \<Rightarrow>
                   if scheme = ''https'' \<or> scheme = ''http'' then
                     Inr [''curl -sSfL --retry 5 '' @ dl @ '' -o '' @ k0sBinPath, ''chmod +x '' @ k0sBinPath]
                   else if scheme = ''oci'' then
                     Inr [''export HOME=/root'', ''oras blob fetch --output '' @ k0sBinPath @ '' '' @ host @ upath,
                          ''chmod +x '' @ k0sBinPath]
                   else Inl (Errorf (''unsupported URL scheme '' @ quoted scheme)))
            else
              (let scriptVars = [''K0S_INSTALL_PATH='' @ path] @ (if ver \<noteq> [] then [''K0S_VERSION='' @ ver] else []);
                   cmd = ''curl -sSfL --retry 5 '' @ DefaultK0sDownloadURL
               in Inr [if length scriptVars > 0 then cmd @ '' | '' @ join_with '' '' scriptVars @ '' sh''
                       else cmd @ '' | sh''])))"

subsection \<open>Arguments of k0s\<close>

definition kubelet_arg :: "string \<Rightarrow> string" where
  \<comment> \<open>what an argument \<open>--kubelet-extra-args\<close> contributes\<close>
  "kubelet_arg arg =
     (case cut_at (CHR ''='') arg of (_, after, ok) \<Rightarrow>
        if ok then trim_chars [CHR 0x22, CHR 0x27] after
        else (case cut_at (CHR '' '') arg of (_, after2, ok2) \<Rightarrow>
                if \<not> ok2 then arg else trim_chars [CHR 0x22, CHR 0x27] after2))"

fun merge_args :: "string list \<Rightarrow> string list \<Rightarrow> string list \<Rightarrow> string list \<times> string list" where
  \<comment> \<open>the loop over the arguments: the arguments and the kubelet arguments so far\<close>
  "merge_args args kubelet [] = (args, kubelet)"
| "merge_args args kubelet (arg # rest) =
     (if has_prefix ''--kubelet-extra-args'' arg then merge_args args (kubelet @ [kubelet_arg arg]) rest
      else merge_args (args @ [arg]) kubelet rest)"

definition mergeExtraArgs :: "string list \<Rightarrow> string \<Rightarrow> bool \<Rightarrow> bool \<Rightarrow> string list" where
  "mergeExtraArgs configArgs ownerName isWorker useSystemHostname =
     (let args0 = (if isWorker then [''--labels='' @ machineNameNodeLabel @ ''='' @ ownerName] else []);
          kubelet0 = (if isWorker \<and> \<not> useSystemHostname then [''--hostname-override='' @ ownerName] else [])
      in case merge_args args0 kubelet0 configArgs of (args, kubelet) \<Rightarrow>
           if length kubelet > 0
           then args @ [''--kubelet-extra-args='' @ [CHR 0x22] @ join_with '' '' kubelet @ [CHR 0x22]]
           else args)"

subsection \<open>Controllers\<close>

record ControllerScope =
  cs_Config :: K0sControllerConfig
  cs_Spec :: K0sConfigSpec \<comment> \<open>the dereferenced pointer \<open>Config.Spec.K0sConfigSpec\<close>\<close>
  cs_OwnerName :: string
  cs_Cluster :: cluster
  cs_WorkerEnabled :: bool
  cs_currentKCPVersion :: string
  cs_machines :: "machine list"
  cs_provisioner :: provisioner
  cs_installArgs :: "string list"

definition cs_Name :: "ControllerScope \<Rightarrow> string" where
  "cs_Name sc = om_Name (kcc_Meta (cs_Config sc))"

definition minVersionForETCDMemberCRD :: string where "minVersionForETCDMemberCRD = ''v1.31.6''"

definition mergeControllerExtraArgs :: "ControllerScope \<Rightarrow> string list" where
  "mergeControllerExtraArgs sc =
     mergeExtraArgs (cs_installArgs sc) (cs_OwnerName sc) (cs_WorkerEnabled sc) (k_UseSystemHostname (cs_Spec sc))"

definition createCPInstallCmd :: "ControllerScope \<Rightarrow> string" where
  "createCPInstallCmd sc =
     join_with '' '' ([filepath_join (k_K0sInstallDir (cs_Spec sc)) ''k0s'' @ '' install controller'', ''--force'',
       ''--enable-dynamic-config'', ''--env AUTOPILOT_HOSTNAME='' @ cs_Name sc] @ mergeControllerExtraArgs sc)"

definition createCPInstallCmdWithJoinToken :: "ControllerScope \<Rightarrow> string \<Rightarrow> string" where
  "createCPInstallCmdWithJoinToken sc tokenPath =
     join_with '' '' ([filepath_join (k_K0sInstallDir (cs_Spec sc)) ''k0s'' @ '' install controller'', ''--force'',
       ''--enable-dynamic-config'', ''--env AUTOPILOT_HOSTNAME='' @ cs_Name sc] @ mergeControllerExtraArgs sc @
       [''--token-file'', tokenPath])"

definition getShutdownFilesDir :: "string \<Rightarrow> string" where
  "getShutdownFilesDir configuredWorkingDir =
     (if configuredWorkingDir = [] then ''/etc/k0s'' else configuredWorkingDir)"

definition shutdown_commands :: "string \<Rightarrow> string list" where
  \<comment> \<open>the commands that register the leave service with systemd, OpenRC and SysV\<close>
  "shutdown_commands dir =
     [''(command -v systemctl > /dev/null 2>&1 && (cp '' @ dir @ ''/k0sleave.service /etc/systemd/system/k0sleave.service && systemctl daemon-reload && systemctl enable k0sleave.service && systemctl start --no-block k0sleave.service) || true)'',
      ''(command -v rc-service > /dev/null 2>&1 && (cp '' @ dir @ ''/k0sleave-openrc /etc/init.d/k0sleave && rc-update add k0sleave shutdown) || true)'',
      ''(command -v service > /dev/null 2>&1 && (cp '' @ dir @ ''/k0sleave-sysv /etc/init.d/k0sleave && update-rc.d k0sleave defaults && service k0sleave start) || true)'']"

definition genK0sCommands ::
  "boot_lib \<Rightarrow> ControllerScope \<Rightarrow> string \<Rightarrow> gerror + string list \<times> (VarName \<times> string) list" where
  "genK0sCommands B sc installCmd =
     (let spec = cs_Spec sc in
      case DownloadCommands B (k_PreInstalledK0s spec) (k_DownloadURL spec) (kcc_Version (cs_Config sc))
             (k_K0sInstallDir spec) of
        Inl e \<Rightarrow> Inl (Wrapf ''error generating download commands'' e)
      | Inr downloadCommands \<Rightarrow>
          (let startCmd = filepath_join (k_K0sInstallDir spec) ''k0s'' @ '' start'' in
           Inr (elems (k_PreK0sCommands spec) @ downloadCommands @
                  (if ver_LessThan (bl_vers B) (cs_currentKCPVersion sc) minVersionForETCDMemberCRD
                   then shutdown_commands (getShutdownFilesDir (k_WorkingDir spec)) else []) @
                  [installCmd, startCmd] @ elems (k_PostK0sCommands spec),
                [(VarK0sDownloadCommands, join_with '' && '' downloadCommands), (VarK0sInstallCommand, installCmd),
                 (VarK0sStartCommand, startCmd)])))"

definition plain_file :: "string \<Rightarrow> string \<Rightarrow> string \<Rightarrow> File" where
  \<comment> \<open>a composite literal with a path, permissions and a content\<close>
  "plain_file path perms content = \<lparr>f_Path = path, f_Content = content, f_Permissions = perms, f_Owner = [],
     f_Encoding = [], f_Append = False, f_ContentFrom = None\<rparr>"

definition k0sleave_script :: "string \<Rightarrow> string" where
  \<comment> \<open>\<open>/etc/bin/k0sleave.sh\<close>; the parameter is the path of k0s\<close>
  \<open>k0sleave_script k0sPath = lines_of
    [''#!/bin/sh'',
     [],
     ''PID=$('' @ k0sPath @ raw '' status | grep "Process ID" | awk `{print $3}`)'',
     raw ''AUTOPILOT_HOSTNAME=$(tr `^0` `^n` < /proc/$PID/environ | grep AUTOPILOT_HOSTNAME)'',
     ''MACHINE_NAME=${AUTOPILOT_HOSTNAME#"AUTOPILOT_HOSTNAME="}'',
     [],
     ''IS_LEAVING=$('' @ k0sPath @ raw '' kc get controlnodes $MACHINE_NAME -o jsonpath=`{.metadata.annotations.k0smotron^.io/leave}`)'',
     [],
     ''if [ $IS_LEAVING = "true" ]; then'',
     ''    until '' @ k0sPath @ '' etcd leave; do'',
     ''        sleep 1'',
     ''    done'',
     ''fi'']\<close>

definition k0sleave_unit :: "string" where
  \<comment> \<open>the systemd unit\<close>
  \<open>k0sleave_unit = lines_of
    [''[Unit]'',
     ''Description=k0s etcd leave service'',
     ''After=multi-user.target'',
     [],
     ''[Service]'',
     ''Type=simple'',
     ''ExecStart=/bin/true'',
     ''ExecStop=/etc/bin/k0sleave.sh'',
     ''TimeoutStartSec=0'',
     ''TimeoutStopSec=180'',
     ''RemainAfterExit=yes'',
     [],
     ''[Install]'',
     ''WantedBy=multi-user.target'']\<close>

definition k0sleave_openrc :: "string" where
  \<comment> \<open>the OpenRC script\<close>
  \<open>k0sleave_openrc = lines_of
    [''#!/sbin/openrc-run'',
     [],
     ''name="k0sleave"'',
     ''description="k0s etcd leave service"'',
     ''command="/etc/bin/k0sleave.sh"''] @ raw ''~~''\<close>

definition k0sleave_sysv :: "string" where
  \<comment> \<open>the SysV script\<close>
  \<open>k0sleave_sysv = lines_of
    [''#!/bin/sh'',
     ''# For RedHat and cousins:'',
     ''# chkconfig: - 99 01'',
     ''# description: k0s etcd leave service'',
     ''# processname: k0sleave'',
     [],
     ''### BEGIN INIT INFO'',
     ''# Provides:          k0sleave'',
     ''# Required-Start:'',
     ''# Required-Stop:'',
     ''# Default-Start:     2 3 4 5'',
     ''# Default-Stop:      0 1 6'',
     ''# Short-Description: k0s etcd leave service'',
     ''# Description:       Handles etcd leave operations for k0s.'',
     ''### END INIT INFO'',
     [],
     ''cmd="/etc/bin/k0sleave.sh"'',
     [],
     ''name="k0sleave"'',
     ''pid_file="/var/run/$name.pid"'',
     ''stdout_log="/var/log/$name.log"'',
     ''stderr_log="/var/log/$name.err"'',
     [],
     ''get_pid() {'',
     ''    [ -f "$pid_file" ] && cat "$pid_file"'',
     ''}'',
     [],
     ''is_running() {'',
     ''    [ -f "$pid_file" ] && ps $(get_pid) > /dev/null 2>&1'',
     ''}'',
     [],
     ''case "$1" in'',
     ''    start)'',
     ''        if is_running; then'',
     ''            echo "Already started"'',
     ''        else'',
     ''            echo "Starting $name"'',
     ''            $cmd >> "$stdout_log" 2>> "$stderr_log" &'',
     ''            echo $! > "$pid_file"'',
     ''            if ! is_running; then'',
     ''                echo "Unable to start, see $stdout_log and $stderr_log"'',
     ''                exit 1'',
     ''            fi'',
     ''        fi'',
     ''    ;;'',
     ''    stop)'',
     ''        if is_running; then'',
     ''            echo -n "Stopping $name.."'',
     ''            kill $(get_pid)'',
     ''            for i in $(seq 1 10)'',
     ''            do'',
     ''                if ! is_running; then'',
     ''                    break'',
     ''                fi'',
     ''                echo -n "."'',
     ''                sleep 1'',
     ''            done'',
     ''            echo'',
     ''            if is_running; then'',
     ''                echo "Not stopped; may still be shutting down or shutdown may have failed"'',
     ''                exit 1'',
     ''            else'',
     ''                echo "Stopped"'',
     ''                if [ -f "$pid_file" ]; then'',
     ''                    rm "$pid_file"'',
     ''                fi'',
     ''            fi'',
     ''        else'',
     ''            echo "Not running"'',
     ''        fi'',
     ''    ;;'',
     ''    restart)'',
     ''        $0 stop'',
     ''        if is_running; then'',
     ''            echo "Unable to stop, will not attempt to start"'',
     ''            exit 1'',
     ''        fi'',
     ''        $0 start'',
     ''    ;;'',
     ''    status)'',
     ''        if is_running; then'',
     ''            echo "Running"'',
     ''        else'',
     ''            echo "Stopped"'',
     ''            exit 1'',
     ''        fi'',
     ''    ;;'',
     ''    *)'',
     ''        echo "Usage: $0 {start|stop|restart|status}"'',
     ''        exit 1'',
     ''    ;;'',
     ''esac''] @ ''exit 0''\<close>

definition genShutdownServiceFiles :: "string \<Rightarrow> string \<Rightarrow> File list" where
  "genShutdownServiceFiles workingDir k0sInstallDir =
     [plain_file ''/etc/bin/k0sleave.sh'' ''0777'' (k0sleave_script (filepath_join k0sInstallDir ''k0s'')),
      plain_file (workingDir @ ''/k0sleave.service'') ''0644'' k0sleave_unit,
      plain_file (workingDir @ ''/k0sleave-openrc'') ''0644'' k0sleave_openrc,
      plain_file (workingDir @ ''/k0sleave-sysv'') ''0644'' k0sleave_sysv]"

definition frpc_proxy_mode :: "string \<Rightarrow> string" where
  \<comment> \<open>\<open>modeConfig\<close> in the mode proxy\<close>
  \<open>frpc_proxy_mode host = lines_of
    [[],
     ''    type = tcpmux'',
     ''    custom_domains = '' @ host,
     ''    multiplexer = httpconnect'']\<close>

definition frpc_tunnel_mode :: "string" where
  \<comment> \<open>\<open>modeConfig\<close> in the other mode\<close>
  \<open>frpc_tunnel_mode = lines_of
    [[],
     ''    remote_port = 6443'']\<close>

definition tunneling_resources :: "string \<Rightarrow> string \<Rightarrow> string \<Rightarrow> string \<Rightarrow> string \<Rightarrow> string" where
  \<comment> \<open>the manifest of the tunnel client\<close>
  \<open>tunneling_resources serverAddress serverPort frpToken localIP modeConfig = lines_of
    [[],
     ''---'',
     ''apiVersion: v1'',
     ''kind: ConfigMap'',
     ''metadata:'',
     ''  name: frpc-config'',
     ''  namespace: kube-system'',
     ''data:'',
     ''  frpc.ini: |'',
     ''    [common]'',
     ''    authentication_method = token'',
     ''    server_addr = '' @ serverAddress,
     ''    server_port = '' @ serverPort,
     ''    token = '' @ frpToken,
     [],
     ''    [kube-apiserver]'',
     ''    type = tcp'',
     ''    local_ip = '' @ localIP,
     ''    local_port = 443'',
     ''    '' @ modeConfig,
     ''---'',
     ''apiVersion: apps/v1'',
     ''kind: Deployment'',
     ''metadata:'',
     ''  name: frpc'',
     ''  namespace: kube-system'',
     ''spec:'',
     ''  replicas: 1'',
     ''  selector:'',
     ''    matchLabels:'',
     ''      app: frpc'',
     ''  template:'',
     ''    metadata:'',
     ''      labels:'',
     ''        app: frpc'',
     ''    spec:'',
     ''      containers:'',
     ''        - name: frpc'',
     ''          image: snowdreamtech/frpc:0.51.3'',
     ''          imagePullPolicy: "IfNotPresent"'',
     ''          volumeMounts:'',
     ''            - name: frpc-config'',
     ''              mountPath: /etc/frp/frpc.ini'',
     ''              subPath: frpc.ini'',
     ''      tolerations:'',
     ''      - key: "node-role.kubernetes.io/master"'',
     ''        operator: "Exists"'',
     ''        effect: "NoSchedule"'',
     ''      volumes:'',
     ''        - name: frpc-config'',
     ''          configMap:'',
     ''            name: frpc-config'',
     ''            items:'',
     ''              - key: frpc.ini'',
     ''                path: frpc.ini'',
     []]\<close>

definition sentinel_command :: string where
  "sentinel_command = ''mkdir -p /run/cluster-api && touch /run/cluster-api/bootstrap-success.complete''"

subsection \<open>Workers\<close>

record Scope =
  sw_Config :: K0sWorkerConfig
  sw_OwnerName :: string
  sw_Cluster :: cluster
  sw_ingressSpec :: "IngressSpec option"
  sw_client :: mgmt_client
  sw_provisioner :: provisioner

definition sw_Spec :: "Scope \<Rightarrow> K0sWorkerConfigSpec" where
  "sw_Spec sc = kwc_Spec (sw_Config sc)"

definition worker_GetJoinTokenPath :: "K0sWorkerConfigSpec \<Rightarrow> string" where
  "worker_GetJoinTokenPath spec =
     (if w_WorkingDir spec = [] then ''/etc/k0s.token'' else filepath_join (w_WorkingDir spec) ''k0s.token'')"

definition createInstallCmd :: "Scope \<Rightarrow> string" where
  "createInstallCmd sc =
     join_with '' '' ([filepath_join (w_K0sInstallDir (sw_Spec sc)) ''k0s'' @ '' install worker --token-file '' @
         worker_GetJoinTokenPath (sw_Spec sc)] @
       mergeExtraArgs (elems (w_Args (sw_Spec sc))) (sw_OwnerName sc) True (w_UseSystemHostname (sw_Spec sc)))"

definition createIngressCommands :: "Scope \<Rightarrow> string list" where
  "createIngressCommands sc =
     (if sw_ingressSpec sc = None then []
      else [''mkdir -p /etc/haproxy/certs'',
            ''cat /etc/haproxy/certs/server.crt /etc/haproxy/certs/server.key > /etc/haproxy/certs/server.pem'',
            ''chmod 666 /etc/haproxy/certs/server.pem''])"

definition worker_start_command :: string where
  \<open>worker_start_command =
     ''(command -v systemctl > /dev/null 2>&1 && systemctl start k0sworker) || '' @
     ''(command -v rc-service > /dev/null 2>&1 && rc-service k0sworker start) || '' @
     ''(command -v service > /dev/null 2>&1 && service k0sworker start) || '' @
     ''(echo "Not a supported init system"; false)''\<close>

definition getLinuxCommands :: "boot_lib \<Rightarrow> Scope \<Rightarrow> gerror + string list \<times> (VarName \<times> string) list" where
  "getLinuxCommands B sc =
     (let spec = sw_Spec sc in
      case DownloadCommands B (w_PreInstalledK0s spec) (w_DownloadURL spec) (w_Version spec) (w_K0sInstallDir spec) of
        Inl e \<Rightarrow> Inl (Wrapf ''error generating download commands'' e)
      | Inr downloadCommands \<Rightarrow> Inr
          (elems (w_PreK0sCommands spec) @ downloadCommands @ createIngressCommands sc @
             [createInstallCmd sc, worker_start_command] @ elems (w_PostK0sCommands spec) @ [sentinel_command],
           [(VarK0sDownloadCommands, join_with '' && '' downloadCommands), (VarK0sInstallCommand, createInstallCmd sc),
            (VarK0sStartCommand, worker_start_command)]))"

definition windows_install_script :: "string \<Rightarrow> string \<Rightarrow> string \<Rightarrow> string" where
  \<comment> \<open>the first part of \<open>installScript\<close>\<close>
  \<open>windows_install_script ver k0sPath installDir = lines_of
    [''$ErrorActionPreference = "Stop"'',
     raw ''Start-Transcript -Path C:^bootstrap.log -Append'',
     [],
     raw ''if (Test-Path C:^run^cluster-api^bootstrap-success.complete) {'',
     ''    Write-Host "Bootstrap already completed, skipping."'',
     ''    exit 0'',
     ''}'',
     [],
     ''Write-Host "=== Register ScheduledTask to continue execution after reboot ==="'',
     [],
     ''$taskName = "k0s-bootstrap"'',
     [],
     ''if (-not (Get-ScheduledTask -TaskName $taskName -ErrorAction SilentlyContinue)) {'',
     raw ''    $action = New-ScheduledTaskAction -Execute "PowerShell.exe" -Argument "-NoProfile -ExecutionPolicy Bypass -File C:^bootstrap^k0s_install.ps1"'',
     raw ''~$trigger = New-ScheduledTaskTrigger -AtStartup'',
     raw ''~$principal = New-ScheduledTaskPrincipal -UserId "SYSTEM" -LogonType ServiceAccount -RunLevel Highest'',
     ''    $settings = New-ScheduledTaskSettingsSet -AllowStartIfOnBatteries -DontStopIfGoingOnBatteries -StartWhenAvailable -ExecutionTimeLimit (New-TimeSpan -Hours 2)'',
     [],
     ''    Register-ScheduledTask -TaskName $taskName -Action $action -Trigger $trigger -Principal $principal -Settings $settings -Force'',
     ''}'',
     [],
     ''Write-Host "=== Checking Windows Containers feature using DISM ==="'',
     [],
     ''function Is-FeatureEnabled {'',
     ''  param([string]$Name)'',
     ''  $output = dism.exe /online /Get-Features'',
     raw ''  return $output -match "$Name^s+:^s+Enabled"'',
     ''}'',
     [],
     ''$featureName = "Containers"'',
     [],
     ''if (Is-FeatureEnabled $featureName) {'',
     ''  Write-Host "$featureName is already enabled. Nothing to do."'',
     ''} else {'',
     ''  Write-Host "$featureName is not enabled. Installing..."'',
     ''  $result = dism.exe /online /Enable-Feature /FeatureName:$featureName /All /NoRestart'',
     ''  $exitCode = $LASTEXITCODE'',
     ''  Write-Host "DISM exit code: $exitCode"'',
     [],
     ''  if ($exitCode -eq 0) {'',
     raw ''~  Write-Host "Feature installed successfully, no reboot required."'',
     ''  } elseif ($exitCode -eq 3010) {'',
     raw ''~  Write-Host "Feature installed successfully, reboot required."'',
     raw ''~  Restart-Computer -Force'',
     ''  } else {'',
     raw ''~  throw "DISM failed with exit code $exitCode"'',
     ''  }'',
     ''}'',
     [],
     ''# --- "Waiting for network..." ---'',
     [],
     raw ''while (-not (Get-NetAdapter | Where-Object Status -eq `Up`)) {'',
     ''    Start-Sleep -Seconds 5'',
     ''}'',
     [],
     ''Write-Host "Network is up"'',
     [],
     ''# --- Download and run k0s ---'',
     ''Write-Host "=== Downloading k0s binary ==="'',
     [],
     ''$k0sUrl = "https://get.k0sproject.io/'' @ ver @ ''/k0s-'' @ ver @ ''-amd64.exe"  # PoC supporting only amd64'',
     ''$dest = "'' @ k0sPath @ ''"'',
     ''New-Item -ItemType Directory -Force -Path "'' @ installDir @ ''" | Out-Null'',
     ''Invoke-WebRequest -Uri $k0sUrl -OutFile $dest -UseBasicParsing'',
     [],
     ''Write-Host "=== Executing k0s to check version ==="'',
     ''& $dest --version'']\<close>

definition windows_install_end :: "string" where
  \<comment> \<open>what is appended to \<open>installScript\<close>\<close>
  \<open>windows_install_end = lines_of
    [[],
     ''Unregister-ScheduledTask -TaskName "k0s-bootstrap" -Confirm:$false -ErrorAction SilentlyContinue'',
     raw ''New-Item -Path `C:^run^cluster-api` -ItemType Directory -Force | Out-Null'',
     raw ''New-Item C:^run^cluster-api^bootstrap-success.complete -ItemType File -Force'',
     ''Stop-Transcript'']\<close>

definition getWindowsCommands :: "Scope \<Rightarrow> string list \<times> File list" where
  "getWindowsCommands sc =
     (let spec = sw_Spec sc;
          k0sPath = filepath_join (w_K0sInstallDir spec) ''k0s.exe'';
          installCmdParts = [k0sPath @ '' install worker --token-file '' @ worker_GetJoinTokenPath spec] @
            mergeExtraArgs (elems (w_Args spec)) (sw_OwnerName sc) True (w_UseSystemHostname spec);
          inlineCommands = elems (w_PreK0sCommands spec) @ [join_with '' '' installCmdParts, ''& '' @ k0sPath @ '' start''] @
            elems (w_PostK0sCommands spec);
          installScript = windows_install_script (w_Version spec) k0sPath (w_K0sInstallDir spec) @
            newline @ join_with (newline @ newline) inlineCommands @ newline @ windows_install_end
      in ([''powershell.exe -NoProfile -NonInteractive -File '' @ [CHR 0x22] @ raw ''C:^bootstrap^k0s_install.ps1'' @ [CHR 0x22]],
          [plain_file (raw ''C:^bootstrap^k0s_install.ps1'') ''0644'' installScript]))"

subsection \<open>Arguments\<close>

abbreviation is_kubelet_args :: "string \<Rightarrow> bool" where
  "is_kubelet_args \<equiv> has_prefix ''--kubelet-extra-args''"

lemma merge_args_filter: "merge_args args kubelet as =
    (args @ filter (Not \<circ> is_kubelet_args) as, kubelet @ map kubelet_arg (filter is_kubelet_args as))"
  by (induction as arbitrary: args kubelet) simp_all

text \<open>
  The arguments a node's k0s is installed with are those of the user, all of them and in
  their order, after the label with the name of the machine, and the arguments for the
  kubelet are collected in one argument at the end, after the host name. There is
  no such argument exactly when there is nothing to pass on.
\<close>
theorem user_arguments_kept_in_order:
  "mergeExtraArgs as owner isWorker useSystemHostname =
     (if isWorker then [''--labels=k0smotron.io/machine-name='' @ owner] else []) @
     filter (\<lambda>a. \<not> has_prefix ''--kubelet-extra-args'' a) as @
     (let kubelet = (if isWorker \<and> \<not> useSystemHostname then [''--hostname-override='' @ owner] else []) @
            map kubelet_arg (filter (has_prefix ''--kubelet-extra-args'') as)
      in if kubelet = [] then []
         else [''--kubelet-extra-args='' @ [CHR 0x22] @ join_with '' '' kubelet @ [CHR 0x22]])"
  by (simp add: mergeExtraArgs_def merge_args_filter Let_def machineNameNodeLabel_def comp_def)

lemma trim_quoted:
  assumes "CHR 0x22 \<notin> set v" and "CHR 0x27 \<notin> set v"
  shows "trim_chars [CHR 0x22, CHR 0x27] (v @ [CHR 0x22]) = v"
proof -
  have keep: "dropWhile (\<lambda>c. c = CHR 0x22 \<or> c = CHR 0x27) xs = xs" if "set xs \<subseteq> set v" for xs
    using that assms by (cases xs) auto
  show ?thesis
  proof (cases v)
    case (Cons c cs)
    with assms have "dropWhile (\<lambda>c. c = CHR 0x22 \<or> c = CHR 0x27) (v @ [CHR 0x22]) = v @ [CHR 0x22]"
      by auto
    then show ?thesis
      using keep [of "rev v"] by (simp add: trim_chars_def)
  qed (simp add: trim_chars_def)
qed

lemma kubelet_arg_spaced:
  assumes "CHR ''='' \<notin> set flag" and "CHR 0x22 \<notin> set v" and "CHR 0x27 \<notin> set v"
  shows "kubelet_arg (''--kubelet-extra-args '' @ [CHR 0x22] @ flag @ ''='' @ v @ [CHR 0x22]) = v"
proof -
  have "cut_at (CHR ''='') ((''--kubelet-extra-args '' @ [CHR 0x22] @ flag) @ CHR ''='' # v @ [CHR 0x22]) =
      (''--kubelet-extra-args '' @ [CHR 0x22] @ flag, v @ [CHR 0x22], True)"
    by (rule cut_at_append) (use assms(1) in simp)
  then show ?thesis
    unfolding kubelet_arg_def using trim_quoted [OF assms(2,3)] by simp
qed

text \<open>
  When the argument list of the kubelet is given after a space, a form the code
  handles, the first equals sign in it is taken for the separator: the name of the first flag is dropped
  and the kubelet is started with the bare value.
\<close>
theorem spaced_kubelet_flag_loses_its_name:
  assumes "CHR ''='' \<notin> set flag" and "CHR 0x22 \<notin> set v" and "CHR 0x27 \<notin> set v"
  shows "mergeExtraArgs [''--kubelet-extra-args '' @ [CHR 0x22] @ flag @ ''='' @ v @ [CHR 0x22]] owner True True =
     [''--labels=k0smotron.io/machine-name='' @ owner, ''--kubelet-extra-args='' @ [CHR 0x22] @ v @ [CHR 0x22]]"
proof -
  have "has_prefix ''--kubelet-extra-args'' (''--kubelet-extra-args '' @ [CHR 0x22] @ flag @ ''='' @ v @ [CHR 0x22])"
    by (simp add: has_prefix_def)
  then show ?thesis
    using kubelet_arg_spaced [OF assms] by (simp add: mergeExtraArgs_def machineNameNodeLabel_def)
qed

theorem spaced_kubelet_flag_loses_its_name_witness:
  "mergeExtraArgs [''--kubelet-extra-args '' @ [CHR 0x22] @ ''--cloud-provider'' @ ''='' @ ''external'' @ [CHR 0x22]] ''w'' True True =
     [''--labels=k0smotron.io/machine-name='' @ ''w'', ''--kubelet-extra-args='' @ [CHR 0x22] @ ''external'' @ [CHR 0x22]]"
  by (rule spaced_kubelet_flag_loses_its_name) simp_all

end
