(* ===== verification/Controller_Bootstrap.thy ===== *)
theory Controller_Bootstrap
  imports Bootstrap_Commands Workload_Config
begin

text \<open>
  The bootstrap controller of control plane machines
  (\<open>internal/controller/bootstrap/controlplane_bootstrap_controller.go\<close>, with the helpers of
  \<open>common.go\<close>): it renders the bootstrap data of a \<open>K0sControllerConfig\<close>, for the
  initial controller or for one that joins, and stores it in a secret.

  The state of a run is the trace of requests (\<open>ctl\<close>) and the configuration object the
  handler mutates, which its deferred closure patches. \<open>boot_env\<close> extends the world of
  \<open>Controller_Env\<close> by the requests only the bootstrap controllers make. The conditions and
  the owner of an object are those of the third-party types. A nil \<open>Spec.K0sConfigSpec\<close> or
  \<open>Spec.K0s\<close> is \<open>None\<close>, and dereferencing it is a panic.

  The theorems: the status says that the data secret exists exactly when this run stored it,
  once it does nothing is written again, the join credential is the last thing created on the way
  to the join files, and only a machine that is not the oldest one gets a credential.
\<close>

subsection \<open>The world of the bootstrap controllers\<close>

record config_owner =
  co_Kind :: string
  co_Name :: string
  co_Namespace :: string
  co_ClusterName :: string
  co_KubernetesVersion :: string

record certs =
  ce_CA :: "string option" \<comment> \<open>the certificate of the key pair of \<open>GetByPurpose(ClusterCA)\<close>, if it has one\<close>
  ce_AsFiles :: "(string \<times> string) list res" \<comment> \<open>path and content\<close>

record boot_env =
  be_env :: env
  be_GetControllerConfig :: "event list \<Rightarrow> string \<times> string \<Rightarrow> gerror + K0sControllerConfig"
  be_GetWorkerConfig :: "event list \<Rightarrow> string \<times> string \<Rightarrow> gerror + K0sWorkerConfig"
  be_ConfigOwner :: "event list \<Rightarrow> objmeta \<Rightarrow> gerror + config_owner option"
  be_ClusterByName :: "event list \<Rightarrow> string \<Rightarrow> string \<Rightarrow> gerror + cluster"
  be_GetConfigMap :: "event list \<Rightarrow> string \<times> string \<Rightarrow> gerror + config_map"
  be_SetSummaryCondition :: "event list \<Rightarrow> condition list \<Rightarrow> gerror + condition list"
  be_RandRead :: "event list \<Rightarrow> nat \<Rightarrow> gerror + string"
  be_Expiration :: "event list \<Rightarrow> string" \<comment> \<open>a day from now, in RFC 3339\<close>
  be_LookupCached :: "event list \<Rightarrow> mgmt_client \<Rightarrow> cluster \<Rightarrow> gerror + certs"
  be_AppendCertsFromPEM :: "string \<Rightarrow> bool"
  be_HttpGet :: "event list \<Rightarrow> string \<Rightarrow> bool" \<comment> \<open>whether \<open>httpClient.Get\<close> returned no error\<close>
  be_GetKmcp :: "event list \<Rightarrow> string \<times> string \<Rightarrow> gerror + K0smotronControlPlane"
  be_NewForConfig :: "event list \<Rightarrow> rest_config \<Rightarrow> gerror option" \<comment> \<open>the error of \<open>kubernetes.NewForConfig\<close>\<close>
  be_workloadClusterClient :: bool \<comment> \<open>the injected client is set\<close>

record 'c bstate =
  bs_ctl :: ctl
  bs_config :: 'c

type_synonym ('c, 'a) bootM = "('c bstate, 'a) gom"

definition liftC :: "'a ctlM \<Rightarrow> ('c, 'a) bootM" where
  "liftC m = (\<lambda>s. case m (bs_ctl s) of (r, t) \<Rightarrow> (r, s\<lparr>bs_ctl := t\<rparr>))"

definition configM :: "('c, 'c) bootM" where
  "configM = getM bs_config"

definition set_configM :: "('c \<Rightarrow> 'c) \<Rightarrow> ('c, unit) bootM" where
  "set_configM f = modM (\<lambda>s. s\<lparr>bs_config := f (bs_config s)\<rparr>)"

definition bread :: "string \<Rightarrow> string \<Rightarrow> (event list \<Rightarrow> gerror + 'a) \<Rightarrow> ('c, 'a) bootM" where
  "bread what name f = liftC (readM (ReadOther what name) f)"

definition bwrite :: "boot_env \<Rightarrow> write_req \<Rightarrow> ('c, unit) bootM" where
  "bwrite E rq = liftC (writeM (be_env E) rq)"

subsection \<open>Files with contents from elsewhere\<close>

definition errExtractingFileContent :: gerror where
  "errExtractingFileContent = Sentinel ''failed to get file content from source''"

definition resolveContentFromFile :: "boot_env \<Rightarrow> cluster \<Rightarrow> ContentSource \<Rightarrow> ('c, string) bootM" where
  "resolveContentFromFile E cl contentFrom =
     (case cs_SecretRef contentFrom of
        Some r \<Rightarrow>
          bindM (wrapM (\<lambda>e. Wrapl errExtractingFileContent (error_text e))
                   (liftC (readM (ReadSecret (cl_Namespace cl) (csr_Name r))
                             (\<lambda>tr. e_GetSecret (be_env E) tr (cl_Namespace cl, csr_Name r))))) (\<lambda>sec.
          case s_Data sec (csr_Key r) of
            None \<Rightarrow> failM (Wrapl errExtractingFileContent ''key not found in secret'')
          | Some content \<Rightarrow> ret content)
      | None \<Rightarrow>
          (case cs_ConfigMapRef contentFrom of
             Some r \<Rightarrow>
               bindM (wrapM (\<lambda>e. Wrapl errExtractingFileContent (error_text e))
                        (bread ''configmap'' (csr_Name r)
                           (\<lambda>tr. be_GetConfigMap E tr (cl_Namespace cl, csr_Name r)))) (\<lambda>cfg.
               case cm_Data cfg (csr_Key r) of
                 None \<Rightarrow> failM (Wrapl errExtractingFileContent ''key not found in configmap'')
               | Some content \<Rightarrow> ret content)
           | None \<Rightarrow> failM (Wrapl errExtractingFileContent ''no source specified'')))"

fun resolveFiles :: "boot_env \<Rightarrow> cluster \<Rightarrow> File list \<Rightarrow> ('c, File list) bootM" where
  "resolveFiles E cl [] = ret []"
| "resolveFiles E cl (file # rest) =
     bindM (case f_ContentFrom file of
              None \<Rightarrow> ret file
            | Some cf \<Rightarrow>
                bindM (wrapM (Wrapf ''failed to resolve file content'') (resolveContentFromFile E cl cf)) (\<lambda>content.
                ret (file\<lparr>f_Content := content, f_ContentFrom := None\<rparr>))) (\<lambda>f.
     bindM (resolveFiles E cl rest) (\<lambda>fs. ret (f # fs)))"

subsection \<open>Certificates, random strings and join hosts\<close>

definition errInitialControllerMachineNotInitialize :: gerror where
  "errInitialControllerMachineNotInitialize =
     Sentinel ''initial controller machine has not completed its initialization''"

definition random_string :: "boot_env \<Rightarrow> nat \<Rightarrow> ('c, string) bootM" where
  \<comment> \<open>\<open>kutil.RandomString(n)\<close>, which panics when there is no randomness\<close>
  "random_string E n =
     tryM (bread ''random'' [] (\<lambda>tr. be_RandRead E tr n)) (\<lambda>r.
     case r of Inl _ \<Rightarrow> panicM | Inr bs \<Rightarrow> ret (RandomString bs))"

definition getCerts :: "boot_env \<Rightarrow> ControllerScope \<Rightarrow> ('c, File list \<times> string option) bootM" where
  "getCerts E sc =
     bindM (wrapM (\<lambda>e. if is_not_found e then Errorf (''cluster'' @ [CHR 0x27] @ ''s kubeconfig secret not found, waiting for secret'')
                       else e)
              (liftC (readM (ReadSecret (cl_Namespace (cs_Cluster sc)) (kubeconfig_secret_name (cl_Name (cs_Cluster sc))))
                 (\<lambda>tr. e_GetSecret (be_env E) tr (cl_Namespace (cs_Cluster sc),
                    kubeconfig_secret_name (cl_Name (cs_Cluster sc))))))) (\<lambda>_.
     bindM (bread ''certificates'' (cl_Name (cs_Cluster sc))
              (\<lambda>tr. be_LookupCached E tr ManagementClient (cs_Cluster sc))) (\<lambda>certificates.
     bindM (liftR (ce_AsFiles certificates)) (\<lambda>certFiles.
     ret (map (\<lambda>(path, content). plain_file path ''0644'' content) certFiles, ce_CA certificates))))"

definition createTokenSecret :: "string \<Rightarrow> string \<Rightarrow> string \<Rightarrow> secret" where
  \<comment> \<open>of the token, its secret and the time it expires; \<open>s_Data\<close> holds the \<open>StringData\<close>\<close>
  "createTokenSecret tokenID tokenSecret expiration =
     \<lparr>s_Name = ''bootstrap-token-'' @ tokenID, s_Namespace = ''kube-system'', s_Labels = Map.empty,
      s_Annotations = Map.empty, s_OwnerReferences = [],
      s_Data = [''token-id'' \<mapsto> tokenID, ''token-secret'' \<mapsto> tokenSecret, ''expiration'' \<mapsto> expiration,
        ''description'' \<mapsto> ''Controller bootstrap token generated by k0smotron'',
        ''usage-bootstrap-api-auth'' \<mapsto> ''true'', ''usage-bootstrap-authentication'' \<mapsto> ''false'',
        ''usage-bootstrap-signing'' \<mapsto> ''false'', ''usage-controller-join'' \<mapsto> ''true''],
      s_Type = ''bootstrap.kubernetes.io/token''\<rparr>"

definition MachinePhasePending :: string where "MachinePhasePending = ''Pending''"

definition getFirstRunningMachineExcludingMachineToBootstrap :: "lib \<Rightarrow> ControllerScope \<Rightarrow> machine option" where
  "getFirstRunningMachineExcludingMachineToBootstrap L sc =
     coll_Oldest (colls L) (filter (\<lambda>m. m_Name m \<noteq> cs_Name sc \<and> m_Phase m \<noteq> MachinePhasePending) (cs_machines sc))"

record addrs =
  ad_ext :: string
  ad_ipv4 :: string
  ad_ipv6 :: string

definition no_addrs :: addrs where
  "no_addrs = \<lparr>ad_ext = [], ad_ipv4 = [], ad_ipv6 = []\<rparr>"

fun pick_addresses :: "boot_lib \<Rightarrow> addrs \<Rightarrow> (string \<times> string) list \<Rightarrow> addrs" where
  \<comment> \<open>the loop over the addresses of the machine: it stops at an external or an IPv4 address\<close>
  "pick_addresses B a [] = a"
| "pick_addresses B a ((ty, addr) # rest) =
     (if ty = ''ExternalIP'' then a\<lparr>ad_ext := addr\<rparr>
      else if ty = ''InternalIP'' then
        (case ParseAddr B addr of
           None \<Rightarrow> pick_addresses B a rest
         | Some (True, ip) \<Rightarrow> a\<lparr>ad_ipv4 := ip\<rparr>
         | Some (False, ip) \<Rightarrow> pick_addresses B (a\<lparr>ad_ipv6 := ''['' @ ip @ '']''\<rparr>) rest)
      else pick_addresses B a rest)"

definition address_entry :: "json \<Rightarrow> json option \<times> string option" where
  \<comment> \<open>\<open>addrMap["type"]\<close>, and \<open>addrMap["address"].(string)\<close> where that does not panic\<close>
  "address_entry v =
     (case v of
        JObj ob \<Rightarrow> (map_of ob ''type'', case map_of ob ''address'' of Some (JStr s) \<Rightarrow> Some s | _ \<Rightarrow> None)
      | _ \<Rightarrow> (None, None))"

fun pick_infra_addresses :: "boot_lib \<Rightarrow> addrs \<Rightarrow> json list \<Rightarrow> addrs res" where
  \<comment> \<open>the same loop over the addresses of the infrastructure machine\<close>
  "pick_infra_addresses B a [] = Ok a"
| "pick_infra_addresses B a (v # rest) =
     (case address_entry v of (ty, addr) \<Rightarrow>
        if ty = Some (JStr ''ExternalIP'') then
          (case addr of None \<Rightarrow> Panic | Some s \<Rightarrow> Ok (a\<lparr>ad_ext := s\<rparr>))
        else if ty = Some (JStr ''InternalIP'') then
          (case addr of
             None \<Rightarrow> Panic
           | Some s \<Rightarrow>
               (case ParseAddr B s of
                  None \<Rightarrow> pick_infra_addresses B a rest
                | Some (True, ip) \<Rightarrow> Ok (a\<lparr>ad_ipv4 := ip\<rparr>)
                | Some (False, ip) \<Rightarrow> pick_infra_addresses B (a\<lparr>ad_ipv6 := ''['' @ ip @ '']''\<rparr>) rest))
        else pick_infra_addresses B a rest)"

definition infra_addresses :: "boot_lib \<Rightarrow> boot_env \<Rightarrow> machine \<Rightarrow> ('c, addrs) bootM" where
  "infra_addresses B E m =
     bindM (wrapM (Wrapf ''error getting machine implementation'')
              (liftC (readM (ReadReferenced (m_InfrastructureRef m))
                 (\<lambda>tr. e_GetReferenced (be_env E) tr CacheReader (m_InfrastructureRef m) (m_Namespace m))))) (\<lambda>machineImpl.
     bindM (liftE (NestedSlice (bl_lib B) (u_Content machineImpl) [''status'', ''addresses''])) (\<lambda>found.
     case found of
       None \<Rightarrow> ret no_addrs
     | Some addresses \<Rightarrow> liftR (pick_infra_addresses B no_addrs addresses)))"

definition findFirstControllerIP :: "lib \<Rightarrow> boot_lib \<Rightarrow> boot_env \<Rightarrow> ControllerScope \<Rightarrow> ('c, string) bootM" where
  "findFirstControllerIP L B E sc =
     (case getFirstRunningMachineExcludingMachineToBootstrap L sc of
        None \<Rightarrow> failM (Wrapf ''no running controller machine to join'' errInitialControllerMachineNotInitialize)
      | Some m \<Rightarrow>
          bindM (let a = pick_addresses B no_addrs (m_Addresses m) in
                 if ad_ext a = [] \<and> ad_ipv6 a = [] \<and> ad_ipv4 a = [] then infra_addresses B E m else ret a) (\<lambda>a.
          if ad_ext a \<noteq> [] then ret (ad_ext a)
          else if ad_ipv4 a \<noteq> [] then ret (ad_ipv4 a)
          else if ad_ipv6 a \<noteq> [] then ret (ad_ipv6 a)
          else failM (Wrapf (''no address found for machine '' @ m_Name m) errInitialControllerMachineNotInitialize)))"

definition detectJoinHost :: "lib \<Rightarrow> boot_lib \<Rightarrow> boot_env \<Rightarrow> ControllerScope \<Rightarrow> string option \<Rightarrow> ('c, string) bootM" where
  "detectJoinHost L B E sc ca =
     (case ca of
        None \<Rightarrow> failM (Errorf ''failed to load cluster CA certificate for join host detection'')
      | Some cert \<Rightarrow>
          if \<not> be_AppendCertsFromPEM E cert
          then failM (Errorf ''failed to load cluster CA certificate for join host detection'')
          else
            (case k_K0s (cs_Spec sc) of
               None \<Rightarrow> panicM
             | Some k0s \<Rightarrow>
                 bindM (wrapM (Wrapf ''error retrieving k0sAPIPort'')
                          (liftE (NestedInt64 B k0s [''spec'', ''api'', ''k0sApiPort'']))) (\<lambda>k0sAPIPort.
                 (let port = (case k0sAPIPort of Some p \<Rightarrow> if p > 0 then show_int p else ''9443'' | None \<Rightarrow> ''9443'');
                      host = ''https://'' @ cl_EndpointHost (cs_Cluster sc) @ '':'' @ port
                  in bindM (bread ''http'' host (\<lambda>tr. Inr (be_HttpGet E tr (host @ ''/v1beta1/ca'')))) (\<lambda>reached.
                     if reached then ret host
                     else
                       bindM (wrapM (Wrapf ''failed to get first controller IP'') (findFirstControllerIP L B E sc)) (\<lambda>ip.
                       ret (''https://'' @ ip @ '':'' @ port)))))))"

subsection \<open>Files of a controller\<close>

definition genInitialControlPlaneFiles :: "boot_env \<Rightarrow> ControllerScope \<Rightarrow> File list \<Rightarrow> ('c, File list) bootM" where
  "genInitialControlPlaneFiles E sc files = bindM (getCerts E sc) (\<lambda>(certFiles, _). ret (files @ certFiles))"

definition genControlPlaneJoinFiles ::
  "lib \<Rightarrow> boot_lib \<Rightarrow> boot_env \<Rightarrow> ControllerScope \<Rightarrow> File list \<Rightarrow> ('c, File list) bootM" where
  "genControlPlaneJoinFiles L B E sc files =
     bindM (getCerts E sc) (\<lambda>(_, ca).
     bindM (random_string E 6) (\<lambda>tokenID.
     bindM (random_string E 16) (\<lambda>tokenSecret.
     bindM (bread ''clock'' [] (\<lambda>tr. Inr (be_Expiration E tr))) (\<lambda>expiration.
     bindM (wrapM (Wrapf ''failed to get K0sControlPlane resource'')
              (liftC (FindK0sControlPlane (be_env E) (cs_Cluster sc)))) (\<lambda>cp.
     bindM (liftC (GetControllerRuntimeClient (be_env E) cp
              (cl_Namespace (cs_Cluster sc), cl_Name (cs_Cluster sc)))) (\<lambda>_.
     bindM (detectJoinHost L B E sc ca) (\<lambda>host.
     bindM (wrapM (Wrapf ''failed to create join token'')
              (liftE (CreateK0sJoinToken B (deref [] ca) (tokenID @ ''.'' @ tokenSecret) host ''controller-bootstrap''))) (\<lambda>joinToken.
     bindM (bwrite E (CreateWorkloadSecret (createTokenSecret tokenID tokenSecret expiration))) (\<lambda>_.
     ret (files @ [plain_file (GetJoinTokenPath (cs_Spec sc)) ''0600'' joinToken]))))))))))"

definition genTunnelingFiles :: "boot_lib \<Rightarrow> boot_env \<Rightarrow> ControllerScope \<Rightarrow> ('c, File list) bootM" where
  "genTunnelingFiles B E sc =
     (let cl = cs_Cluster sc; tun = k_Tunneling (cs_Spec sc) in
      bindM (wrapM (Wrapf ''failed to get frp secret'')
               (liftC (readM (ReadSecret (cl_Namespace cl) (cl_Name cl @ ''-frp-token''))
                  (\<lambda>tr. e_GetSecret (be_env E) tr (cl_Namespace cl, cl_Name cl @ ''-frp-token''))))) (\<lambda>frpSecret.
      bindM (liftE (APIServerVirtualIP B (cl_Services cl))) (\<lambda>localIP.
      ret [plain_file ''/var/lib/k0s/manifests/k0smotron-tunneling/manifest.yaml'' ''0644''
             (tunneling_resources (t_ServerAddress tun) (show_int (t_ServerNodePort tun))
                (map_get (s_Data frpSecret) ''value'') localIP
                (if t_Mode tun = ''proxy'' then frpc_proxy_mode (cl_EndpointHost cl) else frpc_tunnel_mode))])))"

definition with_k0s_config :: "boot_lib \<Rightarrow> ControllerScope \<Rightarrow> gerror + File list \<times> ControllerScope" where
  \<comment> \<open>the k0s configuration file and the install argument that names it\<close>
  "with_k0s_config B sc =
     (case k_K0s (cs_Spec sc) of
        None \<Rightarrow> Inr ([], sc)
      | Some k0s \<Rightarrow>
          (case bl_MarshalJSON B k0s of
             Inl e \<Rightarrow> Inl (Errorf (''error marshalling k0s config: '' @ error_text e))
           | Inr bytes \<Rightarrow> Inr ([plain_file (GetK0sConfigPath (cs_Spec sc)) ''0644'' bytes],
               sc\<lparr>cs_installArgs := cs_installArgs sc @ [''--config'', GetK0sConfigPath (cs_Spec sc)]\<rparr>)))"

definition member_files ::
  "lib \<Rightarrow> boot_lib \<Rightarrow> boot_env \<Rightarrow> ControllerScope \<Rightarrow> File list \<Rightarrow> ('c, File list \<times> string) bootM" where
  \<comment> \<open>the files of the initial controller or of one that joins, with its install command\<close>
  "member_files L B E sc files =
     (case coll_Oldest (colls L) (cs_machines sc) of
        None \<Rightarrow> panicM
      | Some oldest \<Rightarrow>
          if m_Name oldest = cs_Name sc then
            bindM (wrapM (\<lambda>e. Errorf (''error generating initial control plane files: '' @ error_text e))
                     (genInitialControlPlaneFiles E sc files)) (\<lambda>fs.
            ret (fs, createCPInstallCmd sc))
          else
            bindM (genControlPlaneJoinFiles L B E sc files) (\<lambda>fs.
            ret (fs, createCPInstallCmdWithJoinToken sc (GetJoinTokenPath (cs_Spec sc)))))"

definition custom_user_data ::
  "boot_env \<Rightarrow> string \<Rightarrow> cluster \<Rightarrow> ContentSource option \<Rightarrow> (VarName \<times> string) list \<Rightarrow> ('c, string \<times> (VarName \<times> string) list) bootM" where
  \<comment> \<open>the custom user data and the variables, both empty when there is no reference\<close>
  "custom_user_data E what cl src commandsMap =
     (case src of
        None \<Rightarrow> ret ([], [])
      | Some cf \<Rightarrow>
          bindM (wrapM (Wrapf (''error extracting the contents of the provided custom '' @ what @ '' user data''))
                   (resolveContentFromFile E cl cf)) (\<lambda>content. ret (content, commandsMap)))"

definition generateBootstrapDataForController ::
  "lib \<Rightarrow> boot_lib \<Rightarrow> boot_env \<Rightarrow> ControllerScope \<Rightarrow> ('c, string) bootM" where
  "generateBootstrapDataForController L B E sc0 =
     bindM (liftE (with_k0s_config B sc0)) (\<lambda>(files0, sc).
     bindM (member_files L B E sc files0) (\<lambda>(files1, installCmd).
     bindM (if t_Enabled (k_Tunneling (cs_Spec sc))
            then wrapM (\<lambda>e. Errorf (''error generating tunneling files: '' @ error_text e)) (genTunnelingFiles B E sc)
            else ret []) (\<lambda>tunnelingFiles.
     bindM (wrapM (Wrapf ''error extracting the contents of the provided extra files'')
              (resolveFiles E (cs_Cluster sc) (elems (k_Files (cs_Spec sc))))) (\<lambda>resolvedFiles.
     (let shutdownFiles = (if ver_LessThan (bl_vers B) (cs_currentKCPVersion sc) minVersionForETCDMemberCRD
            then genShutdownServiceFiles (getShutdownFilesDir (k_WorkingDir (cs_Spec sc))) (k_K0sInstallDir (cs_Spec sc))
            else [])
      in bindM (wrapM (Wrapf ''error generating k0s commands'') (liftE (genK0sCommands B sc installCmd))) (\<lambda>(commands, commandsMap).
         bindM (custom_user_data E ''controller'' (cs_Cluster sc) (p_CustomUserDataRef (k_Provisioner (cs_Spec sc))) commandsMap)
           (\<lambda>(customUserData, vars).
         liftE (ToProvisionData (bl_prov B) (e_gates (be_env E)) (cs_provisioner sc)
           \<lparr>ip_Files = files1 @ tunnelingFiles @ resolvedFiles @ shutdownFiles,
            ip_Commands = commands @ [sentinel_command], ip_CustomUserData = customUserData, ip_Vars = vars\<rparr>))))))))"

subsection \<open>The handler\<close>

definition DataSecretAvailableCondition :: string where "DataSecretAvailableCondition = ''DataSecretAvailable''"
definition WaitingForControlPlaneInitializationReason :: string where
  "WaitingForControlPlaneInitializationReason = ''WaitingForControlPlaneInitialization''"
definition WaitingForInfrastructureInitializationReason :: string where
  "WaitingForInfrastructureInitializationReason = ''WaitingForInfrastructureInitialization''"
definition DataSecretGenerationFailedReason :: string where
  "DataSecretGenerationFailedReason = ''DataSecretGenerationFailed''"
definition InternalErrorReason :: string where "InternalErrorReason = ''InternalError''"
definition ConfigSecretAvailableReason :: string where "ConfigSecretAvailableReason = ''Available''"
definition ErrNoCluster :: gerror where "ErrNoCluster = Sentinel ''no cluster name label present''"
definition ComponentBootstrap :: string where "ComponentBootstrap = ''bootstrap''"
definition ClusterSecretType :: string where "ClusterSecretType = ''cluster.x-k8s.io/secret''"

definition set_status :: "(ConfigStatus \<Rightarrow> ConfigStatus) \<Rightarrow> K0sControllerConfig \<Rightarrow> K0sControllerConfig" where
  "set_status f c = c\<lparr>kcc_Status := f (kcc_Status c)\<rparr>"

definition set_data_condition :: "lib \<Rightarrow> boot_env \<Rightarrow> ((ConfigStatus \<Rightarrow> ConfigStatus) \<Rightarrow> 'c \<Rightarrow> 'c) \<Rightarrow>
    cstatus \<Rightarrow> string \<Rightarrow> string \<Rightarrow> ('c, unit) bootM" where
  \<comment> \<open>\<open>conditions.Set(config, ...)\<close> of the condition on the data secret; the function updates the
      status of a configuration\<close>
  "set_data_condition L E upd st reason msg =
     bindM (liftC (nowM (be_env E))) (\<lambda>now.
     set_configM (upd (\<lambda>s. s\<lparr>st_Conditions := cond_Set (conds L) now (st_Conditions s)
       (mk_condition DataSecretAvailableCondition st reason msg)\<rparr>)))"

definition with_default_suffix :: "string \<Rightarrow> string" where
  "with_default_suffix v = (if v \<noteq> [] \<and> \<not> contains v ''+k0s.'' then v @ ''+'' @ defaultK0sSuffix else v)"

definition bootstrap_secret :: "string \<Rightarrow> objmeta \<Rightarrow> strmap \<Rightarrow> strmap \<Rightarrow> string \<Rightarrow> ProvisioningFormat \<Rightarrow> secret" where
  "bootstrap_secret kind meta lbls annots data format =
     \<lparr>s_Name = om_Name meta, s_Namespace = om_Namespace meta, s_Labels = lbls, s_Annotations = annots,
      s_OwnerReferences = [\<lparr>o_APIVersion = ''bootstrap.cluster.x-k8s.io/v1beta2'', o_Kind = kind,
        o_Name = om_Name meta, o_UID = om_UID meta\<rparr>],
      s_Data = [''value'' \<mapsto> data, ''format'' \<mapsto> format], s_Type = ClusterSecretType\<rparr>"

definition secret_stored :: "lib \<Rightarrow> boot_env \<Rightarrow> ((ConfigStatus \<Rightarrow> ConfigStatus) \<Rightarrow> 'c \<Rightarrow> 'c) \<Rightarrow> secret \<Rightarrow> ('c, result) bootM" where
  \<comment> \<open>storing the bootstrap data, and the end of the handlers\<close>
  "secret_stored L E upd sec =
     tryM (bwrite E (ApplySecret sec)) (\<lambda>r.
     case r of
       Inl e \<Rightarrow> bindM (set_data_condition L E upd ConditionFalse InternalErrorReason (error_text e)) (\<lambda>_. failM e)
     | Inr _ \<Rightarrow>
         bindM (set_data_condition L E upd ConditionTrue ConfigSecretAvailableReason ''Bootstrap secret created'') (\<lambda>_.
         bindM (set_configM (upd (\<lambda>s. s\<lparr>st_DataSecretCreated := Some True, st_DataSecretName := Some (s_Name sec)\<rparr>))) (\<lambda>_.
         ret zero_result)))"

definition controller_body :: "lib \<Rightarrow> boot_lib \<Rightarrow> boot_env \<Rightarrow> ControllerScope \<Rightarrow> (K0sControllerConfig, result) bootM" where
  \<comment> \<open>\<open>Reconcile\<close> after the deferred closure is set up\<close>
  "controller_body L B E sc =
     (if cl_EndpointIsZero (cs_Cluster sc) then
        bindM (set_data_condition L E set_status ConditionFalse WaitingForControlPlaneInitializationReason
                 ''Control plane endpoint is not set'') (\<lambda>_.
        ret \<lparr>Requeue = True, RequeueAfter = 30 * second\<rparr>)
      else
        tryM (liftC (listMachinesM (be_env E) (cs_Cluster sc))) (\<lambda>r.
        case r of
          Inl e0 \<Rightarrow>
            (let e = Wrapf ''error collecting machines'' e0 in
             bindM (set_data_condition L E set_status ConditionFalse InternalErrorReason (error_text e)) (\<lambda>_. failM e))
        | Inr all \<Rightarrow>
            (let machines = filter (\<lambda>m. coll_ControlPlaneMachines (colls L) (cl_Name (cs_Cluster sc)) m \<and>
                   m_DeletionTimestamp m = None) all
             in if length machines = 0 then
                  bindM (set_data_condition L E set_status ConditionFalse WaitingForInfrastructureInitializationReason
                           ''No control plane machines found, waiting for machines to be created'') (\<lambda>_.
                  ret \<lparr>Requeue = True, RequeueAfter = 0\<rparr>)
                else
                  tryM (generateBootstrapDataForController L B E (sc\<lparr>cs_machines := machines\<rparr>)) (\<lambda>d.
                  case d of
                    Inl e \<Rightarrow>
                      if error_is e errInitialControllerMachineNotInitialize then
                        bindM (set_data_condition L E set_status ConditionFalse WaitingForInfrastructureInitializationReason
                                 (error_text e)) (\<lambda>_.
                        ret \<lparr>Requeue = False, RequeueAfter = 30 * second\<rparr>)
                      else
                        bindM (set_data_condition L E set_status ConditionFalse InternalErrorReason (error_text e)) (\<lambda>_. failM e)
                  | Inr data \<Rightarrow>
                      secret_stored L E set_status
                        (bootstrap_secret ''K0sControllerConfig'' (kcc_Meta (cs_Config sc))
                           [ClusterNameLabel \<mapsto> cl_Name (cs_Cluster sc), ComponentLabel \<mapsto> ComponentBootstrap] Map.empty
                           data (GetFormat (cs_provisioner sc)))))))"

definition report_status :: "boot_env \<Rightarrow> ('c \<Rightarrow> ConfigStatus) \<Rightarrow> ((ConfigStatus \<Rightarrow> ConfigStatus) \<Rightarrow> 'c \<Rightarrow> 'c) \<Rightarrow>
    ('c \<Rightarrow> 'c) \<Rightarrow> ('c \<Rightarrow> write_req) \<Rightarrow> ('c, unit) bootM" where
  \<comment> \<open>the deferred closure: the summary condition, the specification put back, the patch; failures
      are only logged\<close>
  "report_status E status upd restore patch =
     bindM configM (\<lambda>c.
     bindM (tryM (bread ''summary'' [] (\<lambda>tr. be_SetSummaryCondition E tr (st_Conditions (status c)))) (\<lambda>r.
              case r of Inl _ \<Rightarrow> ret () | Inr cs \<Rightarrow> set_configM (upd (\<lambda>s. s\<lparr>st_Conditions := cs\<rparr>)))) (\<lambda>_.
     bindM (set_configM restore) (\<lambda>_.
     bindM configM (\<lambda>c'.
     tryM (bwrite E (patch c')) (\<lambda>_. ret ())))))"

definition controller_scope :: "K0sControllerConfig \<Rightarrow> K0sConfigSpec \<Rightarrow> config_owner \<Rightarrow> cluster \<Rightarrow> ControllerScope" where
  "controller_scope config spec owner cl =
     \<lparr>cs_Config = config, cs_Spec = spec, cs_OwnerName = co_Name owner, cs_Cluster = cl,
      cs_WorkerEnabled = WorkerEnabled (Some spec), cs_currentKCPVersion = kcc_Version config, cs_machines = [],
      cs_provisioner = getProvisioner (k_Provisioner spec), cs_installArgs = elems (k_Args spec)\<rparr>"

definition controller_reconcile_with_cluster ::
  "lib \<Rightarrow> boot_lib \<Rightarrow> boot_env \<Rightarrow> config_owner \<Rightarrow> cluster \<Rightarrow> (K0sControllerConfig, result) bootM" where
  "controller_reconcile_with_cluster L B E owner cl =
     bindM (liftC (readM ReadPaused (e_EnsurePaused (be_env E)))) (\<lambda>(isPaused, requeue).
     if isPaused \<or> requeue then ret zero_result
     else
       bindM configM (\<lambda>config.
       bindM (wrapM (Wrapf ''error parsing k0s version'')
                (retErr (ver_NewVersion (vers L) (kcc_Version config)))) (\<lambda>_.
       case kcc_K0sConfigSpec config of
         None \<Rightarrow> panicM
       | Some spec \<Rightarrow>
           if st_DataSecretCreated (kcc_Status config) = Some True then ret zero_result
           else
             bindM (liftC (newPatchHelper (be_env E))) (\<lambda>_.
             deferM (controller_body L B E (controller_scope config spec owner cl))
               (report_status E kcc_Status set_status
                  (\<lambda>c. c\<lparr>kcc_Version := kcc_Version config, kcc_K0sConfigSpec := kcc_K0sConfigSpec config\<rparr>)
                  PatchControllerConfigStatus)))))"

definition bootstrap_gates ::
  "boot_env \<Rightarrow> objmeta \<Rightarrow> (config_owner \<Rightarrow> ('c, unit) bootM) \<Rightarrow> (config_owner \<Rightarrow> cluster \<Rightarrow> ('c, result) bootM) \<Rightarrow> ('c, result) bootM" where
  \<comment> \<open>the common start of the two handlers: the owner, the version, the cluster\<close>
  "bootstrap_gates E meta setVersion cont =
     tryM (bread ''owner'' (om_Name meta) (\<lambda>tr. be_ConfigOwner E tr meta)) (\<lambda>r.
     case r of
       Inl e \<Rightarrow> if is_not_found e then ret zero_result else failM e
     | Inr None \<Rightarrow> ret zero_result
     | Inr (Some owner) \<Rightarrow>
         bindM (setVersion owner) (\<lambda>_.
         tryM (bread ''cluster'' (co_ClusterName owner)
                 (\<lambda>tr. be_ClusterByName E tr (co_Namespace owner) (co_ClusterName owner))) (\<lambda>c.
         case c of
           Inl e \<Rightarrow> if error_is e ErrNoCluster \<or> is_not_found e then ret zero_result else failM e
         | Inr cl \<Rightarrow> cont owner cl)))"

definition ControlPlaneController_Reconcile ::
  "lib \<Rightarrow> boot_lib \<Rightarrow> boot_env \<Rightarrow> string \<times> string \<Rightarrow> (K0sControllerConfig, result) bootM" where
  "ControlPlaneController_Reconcile L B E key =
     tryM (bread ''config'' (snd key) (\<lambda>tr. be_GetControllerConfig E tr key)) (\<lambda>r.
     case r of
       Inl e \<Rightarrow> if is_not_found e then ret zero_result else failM e
     | Inr config \<Rightarrow>
         bindM (set_configM (\<lambda>_. config)) (\<lambda>_.
         bootstrap_gates E (kcc_Meta config)
           (\<lambda>_. set_configM (\<lambda>c. c\<lparr>kcc_Version := with_default_suffix (kcc_Version c)\<rparr>))
           (controller_reconcile_with_cluster L B E)))"

subsection \<open>Frames\<close>

definition b_appends :: "(event \<Rightarrow> bool) \<Rightarrow> 'c bstate \<Rightarrow> 'c bstate \<Rightarrow> bool" where
  "b_appends P s s' \<longleftrightarrow> appends P (bs_ctl s) (bs_ctl s')"

definition b_events :: "'c bstate \<Rightarrow> 'c bstate \<Rightarrow> event list" where
  "b_events s s' = new_events (bs_ctl s) (bs_ctl s')"

interpretation b_emits: frame_order "b_appends P" for P
  unfolding b_appends_def by unfold_locales (auto intro: emits.frame_refl emits.frame_trans)

definition same_config :: "'c bstate \<Rightarrow> 'c bstate \<Rightarrow> bool" where
  "same_config s s' \<longleftrightarrow> bs_config s' = bs_config s"

interpretation same_config: frame_order same_config
  by unfold_locales (simp_all add: same_config_def)

lemma run_liftC: "liftC m s = (case m (bs_ctl s) of (r, t) \<Rightarrow> (r, s\<lparr>bs_ctl := t\<rparr>))"
  by (simp add: liftC_def)

lemma run_configM [simp]: "configM s = (Ok (bs_config s), s)"
  by (simp add: configM_def)

lemma run_set_configM [simp]: "set_configM f s = (Ok (), s\<lparr>bs_config := f (bs_config s)\<rparr>)"
  by (simp add: set_configM_def)

lemma run_bread [simp]: "bread what n f s =
    liftE (f (trace (bs_ctl s))) (s\<lparr>bs_ctl := log_event (Read (ReadOther what n)) (bs_ctl s)\<rparr>)"
  by (simp add: bread_def run_liftC run_liftE_case split: sum.splits)

lemma run_bwrite [simp]: "bwrite E rq s =
    ((case e_write (be_env E) (trace (bs_ctl s)) rq of None \<Rightarrow> Ok () | Some e \<Rightarrow> Err e),
     s\<lparr>bs_ctl := log_event (Wrote rq (e_write (be_env E) (trace (bs_ctl s)) rq)) (bs_ctl s)\<rparr>)"
  by (simp add: bwrite_def run_liftC)

lemma b_emits_liftC: "emits P m \<Longrightarrow> keeps (b_appends P) (liftC m)"
  by (simp add: keeps_def b_appends_def run_liftC split: prod.splits) (metis snd_conv)

lemma same_config_liftC: "keeps same_config (liftC m)"
  by (simp add: keeps_def same_config_def run_liftC split: prod.splits)

lemma b_emits_bread: "P (Read (ReadOther what n)) \<Longrightarrow> keeps (b_appends P) (bread what n f)"
  unfolding bread_def by (intro b_emits_liftC emits_readM)

lemma b_emits_bwrite: "(\<And>e. P (Wrote rq e)) \<Longrightarrow> keeps (b_appends P) (bwrite E rq)"
  unfolding bwrite_def by (intro b_emits_liftC emits_writeM)

lemma b_emits_configM: "keeps (b_appends P) configM" "keeps (b_appends P) (set_configM f)"
  by (simp_all add: keeps_def b_emits.frame_refl b_appends_def emits.frame_refl)

lemma same_config_reads: "keeps same_config (bread what n f)" "keeps same_config (bwrite E rq)" "keeps same_config configM"
  unfolding bread_def bwrite_def by (rule same_config_liftC, rule same_config_liftC)
    (simp add: keeps_def same_config_def)

lemma b_appends_mono: "b_appends P s s' \<Longrightarrow> (\<And>ev. P ev \<Longrightarrow> Q ev) \<Longrightarrow> b_appends Q s s'"
  unfolding b_appends_def appends_def by (metis list.pred_mono_strong)

lemma b_events_of: "b_appends P s s' \<Longrightarrow> list_all P (b_events s s') \<and> trace (bs_ctl s') = trace (bs_ctl s) @ b_events s s'"
  by (auto simp: b_appends_def appends_def b_events_def new_events_def)

lemmas b_emits_rules = b_emits.keeps_intros b_emits_liftC b_emits_bread b_emits_bwrite b_emits_configM
lemmas same_config_rules = same_config.keeps_intros same_config_liftC same_config_reads

subsection \<open>What rendering the bootstrap data requests\<close>

lemma resolveContentFromFile_reads: "keeps (b_appends is_read) (resolveContentFromFile E cl cf)"
  unfolding resolveContentFromFile_def
  by (auto intro!: b_emits_rules emits_intros split: option.splits)

lemma resolveFiles_reads: "keeps (b_appends is_read) (resolveFiles E cl fs)"
proof (induction fs)
  case Nil
  show ?case by (simp add: keeps_def b_emits.frame_refl)
next
  case (Cons f fs)
  then show ?case
    unfolding resolveFiles.simps by (auto intro!: b_emits_rules resolveContentFromFile_reads split: option.splits)
qed

lemma resolve_same_config: "keeps same_config (resolveContentFromFile E cl cf)"
  unfolding resolveContentFromFile_def by (auto intro!: same_config_rules split: option.splits)

lemma resolveFiles_same_config: "keeps same_config (resolveFiles E cl fs)"
proof (induction fs)
  case Nil
  show ?case by (simp add: keeps_def same_config.frame_refl)
next
  case (Cons f fs)
  then show ?case
    unfolding resolveFiles.simps by (auto intro!: same_config_rules resolve_same_config split: option.splits)
qed

lemma getCerts_reads: "keeps (b_appends is_read) (getCerts E sc)"
  unfolding getCerts_def by (auto intro!: b_emits_rules emits_intros)

lemma random_string_reads: "keeps (b_appends is_read) (random_string E n)"
  unfolding random_string_def by (auto intro!: b_emits_rules split: sum.splits)

lemma findFirstControllerIP_reads: "keeps (b_appends is_read) (findFirstControllerIP L B E sc)"
  unfolding findFirstControllerIP_def infra_addresses_def Let_def
  by (auto intro!: b_emits_rules emits_intros split: option.splits)

lemma detectJoinHost_reads: "keeps (b_appends is_read) (detectJoinHost L B E sc ca)"
  unfolding detectJoinHost_def Let_def
  by (auto intro!: b_emits_rules findFirstControllerIP_reads split: option.splits)

lemma FindK0sControlPlane_reads: "emits is_read (FindK0sControlPlane E cl)"
  unfolding FindK0sControlPlane_def by (auto intro!: emits_intros)

lemma custom_user_data_reads: "keeps (b_appends is_read) (custom_user_data E what cl src vars)"
  unfolding custom_user_data_def by (auto intro!: b_emits_rules resolveContentFromFile_reads split: option.splits)

lemma genTunnelingFiles_reads: "keeps (b_appends is_read) (genTunnelingFiles B E sc)"
  unfolding genTunnelingFiles_def Let_def by (auto intro!: b_emits_rules emits_intros)

lemmas render_reads = resolveContentFromFile_reads resolveFiles_reads getCerts_reads random_string_reads
  detectJoinHost_reads custom_user_data_reads genTunnelingFiles_reads


subsection \<open>The interface of a configuration with a status\<close>

text \<open>
  Both bootstrap controllers end the same way: they store the data, set the status of the
  configuration, and their deferred closure patches it. The locale states what that needs of the
  configuration object, a status that can be read and updated, and proves once what the
  status reports.
\<close>

definition is_report :: "event \<Rightarrow> bool" where
  \<comment> \<open>a patch of the status of a configuration\<close>
  "is_report ev \<longleftrightarrow> (case ev of Wrote rq _ \<Rightarrow>
     (case rq of PatchControllerConfigStatus _ \<Rightarrow> True | PatchWorkerConfigStatus _ \<Rightarrow> True | _ \<Rightarrow> False) | _ \<Rightarrow> False)"

definition stored_secrets :: "event list \<Rightarrow> secret set" where
  \<comment> \<open>the secrets whose application was accepted\<close>
  "stored_secrets evs = {sec. Wrote (ApplySecret sec) None \<in> set evs}"

definition is_store :: "event \<Rightarrow> bool" where
  "is_store ev \<longleftrightarrow> (case ev of Wrote rq _ \<Rightarrow> (case rq of ApplySecret _ \<Rightarrow> True | _ \<Rightarrow> False) | _ \<Rightarrow> False)"

definition quiet_event :: "event \<Rightarrow> bool" where
  "quiet_event ev \<longleftrightarrow> \<not> is_report ev \<and> \<not> is_store ev"

lemma quiet_event_simps [simp]: "quiet_event (Read r)" "quiet_event (Wrote (CreateWorkloadSecret sec) e)"
  "\<not> is_report (Read r)" "\<not> is_report (Wrote (ApplySecret sec) e)" "is_report (Wrote (PatchControllerConfigStatus c) e)"
  "is_report (Wrote (PatchWorkerConfigStatus w) e)" "\<not> is_report (Wrote (CreateWorkloadSecret sec) e)"
  "\<not> quiet_event (Wrote (ApplySecret sec) e)"
  by (simp_all add: quiet_event_def is_report_def is_store_def)

lemma read_is_quiet: "is_read ev \<Longrightarrow> quiet_event ev"
  by (cases ev) (simp_all add: is_read_def)

lemma stored_secrets_simps [simp]: "stored_secrets [] = {}" "stored_secrets (es @ es') = stored_secrets es \<union> stored_secrets es'"
  "stored_secrets (Wrote (ApplySecret sec) None # es) = insert sec (stored_secrets es)"
  "stored_secrets (Wrote (ApplySecret sec) (Some e) # es) = stored_secrets es"
  "stored_secrets (Read r # es) = stored_secrets es"
  by (auto simp: stored_secrets_def)

lemma quiet_stores_nothing: "list_all quiet_event evs \<Longrightarrow> stored_secrets evs = {}"
  by (auto simp: stored_secrets_def list_all_iff quiet_event_def is_store_def)

definition created :: "('c \<Rightarrow> ConfigStatus) \<Rightarrow> 'c bstate \<Rightarrow> bool option" where
  "created status s = st_DataSecretCreated (status (bs_config s))"

definition quiet :: "('c \<Rightarrow> ConfigStatus) \<Rightarrow> 'c bstate \<Rightarrow> 'c bstate \<Rightarrow> bool" where
  "quiet status s s' \<longleftrightarrow> b_appends quiet_event s s' \<and> created status s' = created status s"

definition reports :: "('c \<Rightarrow> ConfigStatus) \<Rightarrow> ('c \<Rightarrow> write_req) \<Rightarrow> 'c bstate \<Rightarrow> 'c bstate \<Rightarrow> bool" where
  \<comment> \<open>either nothing was stored or reported, or the last request is the only report, and it says that
      the data secret was created exactly when one was stored\<close>
  "reports status patch s s' \<longleftrightarrow> b_appends quiet_event s s' \<or>
     (\<exists>evs c x. b_appends (\<lambda>_. True) s s' \<and> b_events s s' = evs @ [Wrote (patch c) x] \<and>
        list_all (\<lambda>ev. \<not> is_report ev) evs \<and>
        (st_DataSecretCreated (status c) = Some True \<longleftrightarrow> stored_secrets evs \<noteq> {}) \<and>
        (\<forall>sec \<in> stored_secrets evs. st_DataSecretName (status c) = Some (s_Name sec)))"

definition settled :: "('c \<Rightarrow> ConfigStatus) \<Rightarrow> 'c bstate \<Rightarrow> 'c bstate \<Rightarrow> bool" where
  \<comment> \<open>either nothing was stored and the status is as it was, or one secret was stored and the status names it\<close>
  "settled status s s' \<longleftrightarrow> b_appends (\<lambda>ev. \<not> is_report ev) s s' \<and>
     (stored_secrets (b_events s s') = {} \<and> created status s' = created status s \<or>
      (\<exists>sec. stored_secrets (b_events s s') = {sec} \<and> created status s' = Some True \<and>
         st_DataSecretName (status (bs_config s')) = Some (s_Name sec)))"

interpretation quiet: frame_order "quiet status" for status
  unfolding quiet_def by unfold_locales (auto intro: b_emits.frame_refl b_emits.frame_trans)

lemma b_events_trans: "b_appends P s t \<Longrightarrow> b_appends Q t u \<Longrightarrow> b_events s u = b_events s t @ b_events t u"
  by (auto simp: b_appends_def appends_def b_events_def new_events_def)

lemma quiet_settled: "quiet status s s' \<Longrightarrow> settled status s s'"
  unfolding quiet_def settled_def
  by (intro conjI disjI1) (auto intro: b_appends_mono simp: quiet_event_def dest: b_events_of quiet_stores_nothing)

lemma quiet_then_settled:
  assumes "quiet status s t" and "settled status t u"
  shows "settled status s u"
proof -
  have b1: "b_appends quiet_event s t" and c: "created status t = created status s"
    using assms(1) by (simp_all add: quiet_def)
  have b2: "b_appends (\<lambda>ev. \<not> is_report ev) t u"
    using assms(2) by (simp add: settled_def)
  have "b_appends (\<lambda>ev. \<not> is_report ev) s t"
    using b1 by (rule b_appends_mono) (simp add: quiet_event_def)
  then have app: "b_appends (\<lambda>ev. \<not> is_report ev) s u"
    by (rule b_emits.frame_trans) (rule b2)
  have "stored_secrets (b_events s u) = stored_secrets (b_events t u)"
    using b_events_trans [OF b1 b2] quiet_stores_nothing b_events_of [OF b1] by simp
  with app assms(2) c show ?thesis
    by (auto simp: settled_def)
qed

lemma settled_bindM: "keeps (quiet status) m \<Longrightarrow> (\<And>x. keeps (settled status) (f x)) \<Longrightarrow> keeps (settled status) (bindM m f)"
  unfolding keeps_def run_bindM
  by (auto split: prod.splits res.splits intro: quiet_settled) (metis quiet_settled quiet_then_settled snd_conv)+

lemma settled_tryM: "keeps (quiet status) m \<Longrightarrow> (\<And>x. keeps (settled status) (h x)) \<Longrightarrow> keeps (settled status) (tryM m h)"
  unfolding keeps_def run_tryM
  by (auto split: prod.splits res.splits intro: quiet_settled) (metis quiet_settled quiet_then_settled snd_conv)+

lemma settled_quiet: "keeps (quiet status) m \<Longrightarrow> keeps (settled status) m"
  by (simp add: keeps_def quiet_settled)

lemma quiet_reads: "keeps (b_appends is_read) m \<Longrightarrow> keeps same_config m \<Longrightarrow> keeps (quiet status) m"
  unfolding keeps_def quiet_def created_def same_config_def by (metis b_appends_mono read_is_quiet)

lemma quiet_liftC: "emits is_read m \<Longrightarrow> keeps (quiet status) (liftC m)"
  by (intro quiet_reads b_emits_liftC same_config_liftC)

lemma quiet_bread: "keeps (quiet status) (bread what n f)"
  by (intro quiet_reads b_emits_bread same_config_reads) simp

lemma quiet_configM: "keeps (quiet status) configM"
  by (simp add: keeps_def quiet.frame_refl)

lemma quiet_workload_secret: "keeps (quiet status) (bwrite E (CreateWorkloadSecret sec))"
  by (simp add: keeps_def quiet_def b_appends_def appends_def created_def)

lemma b_events_eq: "trace (bs_ctl s') = trace (bs_ctl s) @ evs \<Longrightarrow> b_events s s' = evs"
  by (simp add: b_events_def new_events_def)

lemma quiet_then_reports:
  assumes st: "b_appends quiet_event s t" and "reports status patch t u"
  shows "reports status patch s u"
proof -
  from assms(2) consider "b_appends quiet_event t u"
    | evs c x where "b_appends (\<lambda>_. True) t u" and "b_events t u = evs @ [Wrote (patch c) x]"
      and "list_all (\<lambda>ev. \<not> is_report ev) evs"
      and "st_DataSecretCreated (status c) = Some True \<longleftrightarrow> stored_secrets evs \<noteq> {}"
      and "\<forall>sec \<in> stored_secrets evs. st_DataSecretName (status c) = Some (s_Name sec)"
    unfolding reports_def by blast
  then show ?thesis
  proof cases
    case 1
    then show ?thesis
      unfolding reports_def using b_emits.frame_trans [OF st] by blast
  next
    case 2
    have st2: "b_appends (\<lambda>_. True) s t"
      using st by (rule b_appends_mono) simp
    have none: "stored_secrets (b_events s t) = {}" and quiet: "list_all (\<lambda>ev. \<not> is_report ev) (b_events s t)"
      using b_events_of [OF st] quiet_stores_nothing by (auto simp: list_all_iff quiet_event_def)
    have "b_appends (\<lambda>_. True) s u" and "b_events s u = (b_events s t @ evs) @ [Wrote (patch c) x]"
      using b_emits.frame_trans [OF st2 2(1)] b_events_trans [OF st2 2(1)] 2(2) by simp_all
    with 2 none quiet show ?thesis
      unfolding reports_def
      by (intro disjI2 exI [of _ "b_events s t @ evs"] exI [of _ c] exI [of _ x]) simp
  qed
qed

lemma reports_refl: "reports status patch s s"
  by (simp add: reports_def b_emits.frame_refl)

lemma reports_bindM: "keeps (b_appends quiet_event) m \<Longrightarrow> (\<And>y. keeps (reports status patch) (f y)) \<Longrightarrow>
    keeps (reports status patch) (bindM m f)"
  unfolding keeps_def run_bindM
  by (auto split: prod.splits res.splits) (metis quiet_then_reports reports_refl snd_conv)+

lemma reports_tryM: "keeps (b_appends quiet_event) m \<Longrightarrow> (\<And>y. keeps (reports status patch) (h y)) \<Longrightarrow>
    keeps (reports status patch) (tryM m h)"
  unfolding keeps_def run_tryM
  by (auto split: prod.splits res.splits) (metis quiet_then_reports reports_refl snd_conv)+

lemma reports_pure: "keeps (reports status patch) (ret x)" "keeps (reports status patch) (failM e)"
  "keeps (reports status patch) panicM"
  by (simp_all add: keeps_def reports_refl)

lemma reports_configM: "(\<And>s. reports status patch s (snd (g (bs_config s) s))) \<Longrightarrow>
    keeps (reports status patch) (bindM configM g)"
  by (simp add: keeps_def run_bindM)

lemma quiet_appends: "keeps (quiet status) m \<Longrightarrow> keeps (b_appends quiet_event) m"
  by (simp add: keeps_def quiet_def)

locale config_status =
  fixes status :: "'c \<Rightarrow> ConfigStatus" and upd :: "(ConfigStatus \<Rightarrow> ConfigStatus) \<Rightarrow> 'c \<Rightarrow> 'c"
  assumes status_upd: "status (upd f c) = f (status c)"
begin

lemma quiet_set_configM: "(\<And>s. st_DataSecretCreated (f s) = st_DataSecretCreated s) \<Longrightarrow>
    keeps (quiet status) (set_configM (upd f))"
  by (simp add: keeps_def quiet_def created_def status_upd b_appends_def emits.frame_refl)

lemma quiet_condition: "keeps (quiet status) (set_data_condition L E upd st reason msg)"
  unfolding set_data_condition_def
  by (intro quiet.keeps_bindM quiet_liftC quiet_set_configM emits_nowM) simp_all

lemma stored_settles: "keeps (settled status) (secret_stored L E upd sec)"
  unfolding keeps_def
proof
  fix s :: "'c bstate"
  let ?w = "e_write (be_env E) (trace (bs_ctl s)) (ApplySecret sec)"
  show "settled status s (snd (secret_stored L E upd sec s))"
    by (cases ?w)
      (auto simp: secret_stored_def set_data_condition_def run_simps run_liftC settled_def b_appends_def appends_def
        b_events_def new_events_def created_def status_upd)
qed

lemma report_run:
  assumes "report_status E status upd restore patch s = (r, s')" and "\<And>c. status (restore c) = status c"
  obtains evs c x where "r = Ok ()" and "trace (bs_ctl s') = trace (bs_ctl s) @ evs @ [Wrote (patch c) x]"
    and "list_all is_read evs" and "st_DataSecretCreated (status c) = created status s"
    and "st_DataSecretName (status c) = st_DataSecretName (status (bs_config s))"
  using assms
  by (cases "be_SetSummaryCondition E (trace (bs_ctl s)) (st_Conditions (status (bs_config s)))")
    (auto simp: report_status_def run_simps created_def status_upd split: option.splits)

lemma deferred_report:
  assumes body: "keeps (settled status) m" and new: "created status s \<noteq> Some True"
    and restore: "\<And>c. status (restore c) = status c"
  shows "reports status patch s (snd (deferM m (report_status E status upd restore patch) s))"
proof -
  obtain r t where m: "m s = (r, t)" by fastforce
  obtain q u where d: "report_status E status upd restore patch t = (q, u)" by fastforce
  have st: "settled status s t"
    by (rule keepsD [OF body m])
  then have app: "b_appends (\<lambda>ev. \<not> is_report ev) s t"
    by (simp add: settled_def)
  obtain evs c x where u: "trace (bs_ctl u) = trace (bs_ctl t) @ evs @ [Wrote (patch c) x]"
    and reads: "list_all is_read evs" and c: "st_DataSecretCreated (status c) = created status t"
      "st_DataSecretName (status c) = st_DataSecretName (status (bs_config t))"
    by (rule report_run [OF d restore])
  have tr: "trace (bs_ctl t) = trace (bs_ctl s) @ b_events s t" and no: "list_all (\<lambda>ev. \<not> is_report ev) (b_events s t)"
    using b_events_of [OF app] by auto
  have ev: "b_events s u = (b_events s t @ evs) @ [Wrote (patch c) x]"
    by (rule b_events_eq) (simp add: u tr)
  have none: "stored_secrets evs = {}" and "list_all (\<lambda>ev. \<not> is_report ev) evs"
    using reads quiet_stores_nothing read_is_quiet by (auto simp: list_all_iff quiet_event_def)
  moreover have "b_appends (\<lambda>_. True) s u"
    using tr u by (simp add: b_appends_def appends_def list_all_iff)
  moreover have "st_DataSecretCreated (status c) = Some True \<longleftrightarrow> stored_secrets (b_events s t) \<noteq> {}"
    and "\<forall>sec \<in> stored_secrets (b_events s t). st_DataSecretName (status c) = Some (s_Name sec)"
    using st new c by (auto simp: settled_def)
  ultimately have "reports status patch s u"
    unfolding reports_def using ev no
    by (intro disjI2 exI [of _ "b_events s t @ evs"] exI [of _ c] exI [of _ x]) simp
  then show ?thesis
    by (simp add: run_deferM m d)
qed

end

interpretation ccs: config_status kcc_Status set_status
  by unfold_locales (simp add: set_status_def)

subsection \<open>What the handler reports\<close>

lemma member_files_quiet: "keeps (quiet status) (member_files L B E sc files)"
proof -
  have certs: "keeps (quiet status) (getCerts E sc)"
    by (rule quiet_reads [OF getCerts_reads]) (auto simp: getCerts_def intro!: same_config_rules)
  have random: "keeps (quiet status) (random_string E n)" for n
    by (rule quiet_reads [OF random_string_reads]) (auto simp: random_string_def intro!: same_config_rules split: sum.splits)
  have host: "keeps (quiet status) (detectJoinHost L B E sc ca)" for ca
    by (rule quiet_reads [OF detectJoinHost_reads])
      (auto simp: detectJoinHost_def findFirstControllerIP_def infra_addresses_def Let_def
        intro!: same_config_rules split: option.splits)
  show ?thesis
    unfolding member_files_def genInitialControlPlaneFiles_def genControlPlaneJoinFiles_def
    by (auto intro!: quiet.keeps_intros certs random host quiet_bread quiet_workload_secret
        quiet_liftC [OF FindK0sControlPlane_reads] quiet_liftC [OF GetControllerRuntimeClient_reads] split: option.splits)
qed

lemma generate_quiet: "keeps (quiet status) (generateBootstrapDataForController L B E sc)"
proof -
  have files: "keeps (quiet status) (resolveFiles E cl fs)" for cl fs
    by (rule quiet_reads [OF resolveFiles_reads resolveFiles_same_config])
  have custom: "keeps (quiet status) (custom_user_data E what cl src vars)" for what cl src vars
    by (rule quiet_reads [OF custom_user_data_reads])
      (auto simp: custom_user_data_def intro!: same_config_rules resolve_same_config split: option.splits)
  have tunnel: "keeps (quiet status) (genTunnelingFiles B E sc)" for sc
    by (rule quiet_reads [OF genTunnelingFiles_reads]) (auto simp: genTunnelingFiles_def Let_def intro!: same_config_rules)
  show ?thesis
    unfolding generateBootstrapDataForController_def Let_def
    by (auto intro!: quiet.keeps_intros member_files_quiet files custom tunnel split: prod.splits)
qed

lemma controller_body_settles: "keeps (settled kcc_Status) (controller_body L B E sc)"
  unfolding controller_body_def Let_def listMachinesM_def
  by (auto intro!: settled_tryM ccs.stored_settles generate_quiet quiet_liftC emits_readM
      settled_quiet [OF quiet.keeps_bindM [OF ccs.quiet_condition]] quiet.keeps_intros split: sum.splits)

lemma controller_deferred_reports:
  assumes "st_DataSecretCreated (kcc_Status (bs_config t)) \<noteq> Some True"
  shows "reports kcc_Status PatchControllerConfigStatus t (snd (bindM (liftC (newPatchHelper (be_env E)))
    (\<lambda>_. deferM (controller_body L B E sc) (report_status E kcc_Status set_status
       (\<lambda>c. c\<lparr>kcc_Version := v, kcc_K0sConfigSpec := spec\<rparr>) PatchControllerConfigStatus)) t))"
proof -
  obtain q u where helper: "liftC (newPatchHelper (be_env E)) t = (q, u)" by fastforce
  have tu: "b_appends quiet_event t u" and c: "created kcc_Status u \<noteq> Some True"
    using keepsD [OF quiet_liftC [OF emits_newPatchHelper, of kcc_Status] helper] assms
    by (simp_all add: quiet_def created_def)
  have "reports kcc_Status PatchControllerConfigStatus u (snd (deferM (controller_body L B E sc)
      (report_status E kcc_Status set_status (\<lambda>c. c\<lparr>kcc_Version := v, kcc_K0sConfigSpec := spec\<rparr>) PatchControllerConfigStatus) u))"
    by (rule ccs.deferred_report [OF controller_body_settles c]) simp
  from quiet_then_reports [OF tu this] quiet_then_reports [OF tu reports_refl] show ?thesis
    by (cases q) (simp_all add: run_bindM helper)
qed

lemma controller_with_cluster_reports:
  "keeps (reports kcc_Status PatchControllerConfigStatus) (controller_reconcile_with_cluster L B E owner cl)"
proof -
  have parsed: "reports kcc_Status PatchControllerConfigStatus s (snd (bindM (wrapM g (retErr e)) (\<lambda>_. m) s))"
    if "reports kcc_Status PatchControllerConfigStatus s (snd (m s))" for s g e and m :: "(K0sControllerConfig, result) bootM"
    using that by (cases e) (simp_all add: run_bindM run_wrapM reports_refl)
  show ?thesis
    unfolding controller_reconcile_with_cluster_def
    by (auto intro!: reports_bindM reports_pure reports_configM parsed controller_deferred_reports
        quiet_appends [OF quiet_liftC [where status = kcc_Status]] emits_readM reports_refl split: option.splits)
qed

lemma gates_report:
  assumes "\<And>owner. keeps (b_appends quiet_event) (setVersion owner)"
    and "\<And>owner cl. keeps (reports status patch) (cont owner cl)"
  shows "keeps (reports status patch) (bootstrap_gates E meta setVersion cont)"
  unfolding bootstrap_gates_def
  by (auto intro!: reports_tryM reports_bindM reports_pure assms quiet_appends [OF quiet_bread]
      split: sum.splits option.splits)

lemma controller_reports:
  "keeps (reports kcc_Status PatchControllerConfigStatus) (ControlPlaneController_Reconcile L B E key)"
  unfolding ControlPlaneController_Reconcile_def
  by (auto intro!: reports_tryM reports_bindM reports_pure gates_report controller_with_cluster_reports
      quiet_appends [OF quiet_bread] b_emits_configM split: sum.splits)

lemma reports_events:
  assumes "reports status patch s s'" and rep: "\<And>c x. is_report (Wrote (patch c) x)" and inj: "inj patch"
  shows "sec \<in> stored_secrets (b_events s s') \<Longrightarrow>
      \<exists>c x. last (b_events s s') = Wrote (patch c) x \<and> st_DataSecretCreated (status c) = Some True \<and>
        st_DataSecretName (status c) = Some (s_Name sec)"
    and "Wrote (patch c) x \<in> set (b_events s s') \<Longrightarrow> st_DataSecretCreated (status c) = Some True \<Longrightarrow>
      stored_secrets (b_events s s') \<noteq> {}"
proof -
  consider (quiet) "list_all quiet_event (b_events s s')"
    | (rep) evs d y where "b_events s s' = evs @ [Wrote (patch d) y]" and "list_all (\<lambda>ev. \<not> is_report ev) evs"
      and "st_DataSecretCreated (status d) = Some True \<longleftrightarrow> stored_secrets evs \<noteq> {}"
      and "\<forall>sec \<in> stored_secrets evs. st_DataSecretName (status d) = Some (s_Name sec)"
    using assms(1) b_events_of unfolding reports_def by blast
  note cases = this
  have last: "stored_secrets [Wrote (patch d) y] = {}" for d y
  proof -
    have "ApplySecret sec \<noteq> patch d" for sec
      using rep [of d y] by (metis quiet_event_simps(4))
    then show ?thesis by (auto simp: stored_secrets_def)
  qed
  show "\<exists>c x. last (b_events s s') = Wrote (patch c) x \<and> st_DataSecretCreated (status c) = Some True \<and>
        st_DataSecretName (status c) = Some (s_Name sec)" if "sec \<in> stored_secrets (b_events s s')"
    using cases
  proof cases
    case quiet
    with that show ?thesis by (simp add: quiet_stores_nothing)
  next
    case (rep evs d y)
    with that last show ?thesis by (intro exI [of _ d] exI [of _ y]) auto
  qed
  show "stored_secrets (b_events s s') \<noteq> {}"
    if w: "Wrote (patch c) x \<in> set (b_events s s')" and "st_DataSecretCreated (status c) = Some True"
    using cases
  proof cases
    case quiet
    with w rep [of c x] show ?thesis by (auto simp: list_all_iff quiet_event_def)
  next
    case (rep evs d y)
    then have "Wrote (patch c) x = Wrote (patch d) y"
      using w assms(2) [of c x] by (auto simp: list_all_iff)
    then have "c = d"
      using inj by (simp add: inj_eq)
    with rep that last show ?thesis by simp
  qed
qed

text \<open>
  C28 (invariant). The status of a \<open>K0sControllerConfig\<close> tells the truth about the bootstrap
  data. In every run of the handler, whatever the API server answers: when the data secret was
  stored, the last request is a patch that reports it as created and names it; and a patch that
  reports it as created is only sent when this run stored it.
\<close>
theorem controller_status_reports_stored_secret:
  assumes "ControlPlaneController_Reconcile L B E key s = (r, s')"
  shows "(\<forall>sec. Wrote (ApplySecret sec) None \<in> set (b_events s s') \<longrightarrow>
      (\<exists>c x. last (b_events s s') = Wrote (PatchControllerConfigStatus c) x \<and>
         st_DataSecretCreated (kcc_Status c) = Some True \<and> st_DataSecretName (kcc_Status c) = Some (s_Name sec))) \<and>
    (\<forall>c x. Wrote (PatchControllerConfigStatus c) x \<in> set (b_events s s') \<longrightarrow>
      st_DataSecretCreated (kcc_Status c) = Some True \<longrightarrow>
      (\<exists>sec. Wrote (ApplySecret sec) None \<in> set (b_events s s')))"
proof -
  have "inj PatchControllerConfigStatus" by (simp add: inj_def)
  then show ?thesis
    using reports_events [OF keepsD [OF controller_reports assms], simplified] by (auto simp: stored_secrets_def)
qed

subsection \<open>Join credentials\<close>

definition credential :: "event \<Rightarrow> bool" where
  "credential ev \<longleftrightarrow> (\<exists>sec. ev = Wrote (CreateWorkloadSecret sec) None)"

definition credential_last :: "('c, 'a) bootM \<Rightarrow> bool" where
  \<comment> \<open>a computation that succeeds has created a credential as its last request, after reads only; one
      that fails has created none\<close>
  "credential_last m \<longleftrightarrow> (\<forall>s r s'. m s = (r, s') \<longrightarrow> b_appends (\<lambda>_. True) s s' \<and>
     (case r of
        Ok _ \<Rightarrow> \<exists>pre sec. b_events s s' = pre @ [Wrote (CreateWorkloadSecret sec) None] \<and> list_all is_read pre
      | _ \<Rightarrow> list_all (\<lambda>ev. \<not> credential ev) (b_events s s')))"

lemma read_no_credential: "is_read ev \<Longrightarrow> \<not> credential ev"
  by (auto simp: credential_def)

lemma b_events_log [simp]: "b_events s (s\<lparr>bs_ctl := log_event ev (bs_ctl s)\<rparr>) = [ev]"
  by (intro b_events_eq) simp

lemma credential_lastI:
  "credential_last (bindM (bwrite E (CreateWorkloadSecret sec)) (\<lambda>_. ret x))"
  unfolding credential_last_def
  by (auto simp: run_bindM b_appends_def appends_def credential_def split: option.splits)

lemma credential_last_bindM:
  assumes m: "keeps (b_appends is_read) m" and f: "\<And>x. credential_last (f x)"
  shows "credential_last (bindM m f)"
  unfolding credential_last_def
proof (intro allI impI)
  fix s r s'
  assume run: "bindM m f s = (r, s')"
  obtain q t where q: "m s = (q, t)" by fastforce
  have st: "b_appends is_read s t" by (rule keepsD [OF m q])
  then have reads: "list_all is_read (b_events s t)"
    using b_events_of by blast
  have all: "b_appends (\<lambda>_. True) s t"
    using st by (rule b_appends_mono) simp
  have none: "list_all (\<lambda>ev. \<not> credential ev) (b_events s t)"
    using reads read_no_credential by (auto simp: list_all_iff)
  show "b_appends (\<lambda>_. True) s s' \<and>
     (case r of
        Ok _ \<Rightarrow> \<exists>pre sec. b_events s s' = pre @ [Wrote (CreateWorkloadSecret sec) None] \<and> list_all is_read pre
      | _ \<Rightarrow> list_all (\<lambda>ev. \<not> credential ev) (b_events s s'))"
  proof (cases q)
    case (Ok x)
    then have fx: "f x t = (r, s')" using run q by (simp add: run_bindM)
    then have ts: "b_appends (\<lambda>_. True) t s'" using f [of x] by (auto simp: credential_last_def)
    have "b_events s s' = b_events s t @ b_events t s'"
      by (rule b_events_trans [OF st ts])
    with fx f [of x] reads none b_emits.frame_trans [OF all ts] show ?thesis
      by (cases r) (fastforce simp: credential_last_def)+
  qed (use run q none all in \<open>auto simp: run_bindM\<close>)
qed

lemma genControlPlaneJoinFiles_credential: "credential_last (genControlPlaneJoinFiles L B E sc files)"
  unfolding genControlPlaneJoinFiles_def
  by (auto intro!: credential_last_bindM credential_lastI render_reads b_emits_rules FindK0sControlPlane_reads
      GetControllerRuntimeClient_reads split: prod.splits)

text \<open>
  A join credential is made for a controller that joins, and only as the last request on the
  way to its files. The initial controller, the oldest machine, gets its files by reads alone.
  For any other, success means that the last request created the token secret in the workload
  cluster, after reads only, and that the token file is readable by root alone; a failure leaves
  no credential behind.
\<close>
theorem join_credential_created_last:
  assumes "member_files L B E sc files s = (r, s')"
    and "coll_Oldest (colls L) (cs_machines sc) = Some oldest"
  shows "if m_Name oldest = cs_Name sc then list_all is_read (b_events s s')
    else (case r of
        Ok (fs, _) \<Rightarrow> (\<exists>token. fs = files @ [plain_file (GetJoinTokenPath (cs_Spec sc)) ''0600'' token]) \<and>
          (\<exists>pre sec. b_events s s' = pre @ [Wrote (CreateWorkloadSecret sec) None] \<and> list_all is_read pre)
      | _ \<Rightarrow> \<forall>sec. Wrote (CreateWorkloadSecret sec) None \<notin> set (b_events s s'))"
proof (cases "m_Name oldest = cs_Name sc")
  case True
  have "keeps (b_appends is_read) (member_files L B E sc files)"
    using assms(2) True unfolding member_files_def genInitialControlPlaneFiles_def
    by (auto intro!: b_emits_rules render_reads)
  from b_events_of [OF keepsD [OF this assms(1)]] True show ?thesis by simp
next
  case False
  obtain q t where run: "genControlPlaneJoinFiles L B E sc files s = (q, t)" by fastforce
  have s': "s' = t" and r: "r = (case q of Ok fs \<Rightarrow> Ok (fs, createCPInstallCmdWithJoinToken sc (GetJoinTokenPath (cs_Spec sc)))
      | Err e \<Rightarrow> Err e | Panic \<Rightarrow> Panic)"
    using assms False run by (auto simp: member_files_def run_bindM split: res.splits)
  have cred: "case q of
        Ok _ \<Rightarrow> \<exists>pre sec. b_events s t = pre @ [Wrote (CreateWorkloadSecret sec) None] \<and> list_all is_read pre
      | _ \<Rightarrow> list_all (\<lambda>ev. \<not> credential ev) (b_events s t)"
    using genControlPlaneJoinFiles_credential run unfolding credential_last_def by blast
  show ?thesis
  proof (cases q)
    case (Ok fs)
    have "\<exists>token. fs = files @ [plain_file (GetJoinTokenPath (cs_Spec sc)) ''0600'' token]"
      using run Ok unfolding genControlPlaneJoinFiles_def
      by (auto elim!: bindM_OkE split: prod.splits)
    with cred Ok False show ?thesis unfolding s' r by simp
  qed (use cred False in \<open>auto simp: s' r list_all_iff credential_def\<close>)
qed

definition idle :: "('c \<Rightarrow> ConfigStatus) \<Rightarrow> 'c bstate \<Rightarrow> 'c bstate \<Rightarrow> bool" where
  \<comment> \<open>once the data secret was created, nothing is written\<close>
  "idle status s s' \<longleftrightarrow> (created status s = Some True \<longrightarrow> b_appends is_read s s' \<and> created status s' = Some True)"

interpretation idle: frame_order "idle status" for status
  unfolding idle_def by unfold_locales (auto intro: b_emits.frame_refl b_emits.frame_trans)

lemma idle_reads: "keeps (b_appends is_read) m \<Longrightarrow> keeps same_config m \<Longrightarrow> keeps (idle status) m"
  by (simp add: keeps_def idle_def created_def same_config_def)

lemma idle_liftC: "emits is_read m \<Longrightarrow> keeps (idle status) (liftC m)"
  by (intro idle_reads b_emits_liftC same_config_liftC)

lemma idle_bread: "keeps (idle status) (bread what n f)"
  by (intro idle_reads b_emits_bread same_config_reads) simp

lemma idle_configM: "(\<And>s. idle status s (snd (g (bs_config s) s))) \<Longrightarrow> keeps (idle status) (bindM configM g)"
  by (simp add: keeps_def run_bindM)

lemma idle_gates:
  assumes "\<And>owner. keeps (idle status) (setVersion owner)" and "\<And>owner cl. keeps (idle status) (cont owner cl)"
  shows "keeps (idle status) (bootstrap_gates E meta setVersion cont)"
  unfolding bootstrap_gates_def
  by (auto intro!: idle.keeps_intros idle_bread assms split: sum.splits option.splits)

lemma idle_run: "keeps (idle status) m \<Longrightarrow> m s = (r, s') \<Longrightarrow> created status s = Some True \<Longrightarrow> b_appends is_read s s'"
  by (drule keepsD, assumption) (simp add: idle_def)

lemma controller_with_cluster_idle: "keeps (idle kcc_Status) (controller_reconcile_with_cluster L B E owner cl)"
proof -
  have "idle kcc_Status s (snd (bindM (wrapM g (retErr e)) (\<lambda>_. case kcc_K0sConfigSpec (bs_config s) of
        None \<Rightarrow> panicM
      | Some spec \<Rightarrow> if st_DataSecretCreated (kcc_Status (bs_config s)) = Some True then ret zero_result else m spec) s))"
    for s g e and m :: "K0sConfigSpec \<Rightarrow> (K0sControllerConfig, result) bootM"
    by (cases e) (auto simp: run_bindM run_wrapM idle_def created_def b_emits.frame_refl split: option.splits)
  then show ?thesis
    unfolding controller_reconcile_with_cluster_def
    by (auto intro!: idle.keeps_intros idle_configM idle_liftC emits_readM)
qed

text \<open>
  Bootstrap data is rendered once: when the configuration reports that its data
  secret was created, the handler writes nothing, neither the secret nor a credential nor the
  status.
\<close>
theorem created_bootstrap_data_is_final:
  assumes "\<And>tr c. be_GetControllerConfig E tr key = Inr c \<Longrightarrow> st_DataSecretCreated (kcc_Status c) = Some True"
    and "ControlPlaneController_Reconcile L B E key s = (r, s')"
  shows "list_all is_read (b_events s s')"
proof -
  let ?t = "s\<lparr>bs_ctl := log_event (Read (ReadOther ''config'' (snd key))) (bs_ctl s)\<rparr>"
  have st: "b_appends is_read s ?t"
    by (simp add: b_appends_def appends_def)
  have "b_appends is_read s s'"
  proof (cases "be_GetControllerConfig E (trace (bs_ctl s)) key")
    case (Inl e)
    with assms(2) st show ?thesis
      by (auto simp: ControlPlaneController_Reconcile_def run_simps split: if_splits)
  next
    case (Inr config)
    let ?u = "?t\<lparr>bs_config := config\<rparr>"
    have run: "bootstrap_gates E (kcc_Meta config) (\<lambda>_. set_configM (\<lambda>c. c\<lparr>kcc_Version := with_default_suffix (kcc_Version c)\<rparr>))
        (controller_reconcile_with_cluster L B E) ?u = (r, s')"
      using assms(2) Inr by (simp add: ControlPlaneController_Reconcile_def run_simps)
    have "keeps (idle kcc_Status) (set_configM (\<lambda>c. c\<lparr>kcc_Version := with_default_suffix (kcc_Version c)\<rparr>))"
      by (simp add: keeps_def idle_def created_def b_appends_def emits.frame_refl)
    then have "keeps (idle kcc_Status) (bootstrap_gates E (kcc_Meta config)
        (\<lambda>_. set_configM (\<lambda>c. c\<lparr>kcc_Version := with_default_suffix (kcc_Version c)\<rparr>)) (controller_reconcile_with_cluster L B E))"
      by (intro idle_gates controller_with_cluster_idle)
    from idle_run [OF this run] have "b_appends is_read ?u s'"
      using assms(1) [OF Inr] by (simp add: created_def)
    with st show ?thesis
      by (auto simp: b_appends_def intro: emits.frame_trans)
  qed
  then show ?thesis
    using b_events_of by blast
qed

subsection \<open>A reference world for the bootstrap controllers\<close>

definition ref_prov :: prov_lib where
  "ref_prov = \<lparr>range_order = id, next_rune = (\<lambda>_. None), json_rune = (\<lambda>_. None),
     yaml_Encode = (\<lambda>i. Inr (concat (ip_Commands i))), yaml_Marshal = (\<lambda>_. Inr ''butane''),
     MakeDataURL = (\<lambda>d. Inr (d, None)), TranslateBytes = (\<lambda>b. Inr b), ignition_version = (\<lambda>_. Inr ''3.4.0'')\<rparr>"

definition ref_boot :: boot_lib where
  "ref_boot = \<lparr>bl_lib = ref_json, bl_vers = ref_ver, bl_prov = ref_prov, url_Parse = (\<lambda>u. Some (''https'', u, [])),
     ParseAddr = (\<lambda>a. Some (True, a)), APIServerVirtualIP = (\<lambda>_. Inr ''10.96.0.1''), gzip_best = (\<lambda>d. Inr d),
     clientcmd_Write = (\<lambda>k. Inr (jk_Token k)), bl_MarshalJSON = (\<lambda>_. Inr ''{}''), NestedInt64 = (\<lambda>_ _. Inr None)\<rparr>"

definition ref_config :: "string \<Rightarrow> bool option \<Rightarrow> K0sControllerConfig" where
  "ref_config n done = \<lparr>kcc_Meta = ref_meta n, kcc_Version = ''v1.32.0'',
     kcc_K0sConfigSpec = Some (ref_spec\<lparr>k_K0s := Some []\<rparr>),
     kcc_Status = \<lparr>st_DataSecretName = None, st_DataSecretCreated = done, st_Conditions = []\<rparr>\<rparr>"

definition ref_secret :: "string \<Rightarrow> secret" where
  "ref_secret n = \<lparr>s_Name = n, s_Namespace = ''default'', s_Labels = Map.empty, s_Annotations = Map.empty,
     s_OwnerReferences = [], s_Data = (\<lambda>_. Some ''data''), s_Type = ''Opaque''\<rparr>"

definition ref_boot_env :: "K0sControllerConfig \<Rightarrow> boot_env" where
  \<comment> \<open>a server that holds the machines a and b, with every secret, and accepts every write\<close>
  "ref_boot_env config = \<lparr>be_env = (ref_env [ref_machine ''a'' 1, ref_machine ''b'' 2])
       \<lparr>e_GetSecret := (\<lambda>_ (_, n). Inr (ref_secret n))\<rparr>,
     be_GetControllerConfig = (\<lambda>_ _. Inr config), be_GetWorkerConfig = (\<lambda>_ _. Inl not_found),
     be_ConfigOwner = (\<lambda>_ meta. Inr (Some \<lparr>co_Kind = ''Machine'', co_Name = om_Name meta, co_Namespace = ''default'',
        co_ClusterName = ''c'', co_KubernetesVersion = []\<rparr>)),
     be_ClusterByName = (\<lambda>_ _ _. Inr ref_cluster), be_GetConfigMap = (\<lambda>_ _. Inl not_found),
     be_SetSummaryCondition = (\<lambda>_ cs. Inr cs), be_RandRead = (\<lambda>_ n. Inr (replicate n (CHR ''a''))),
     be_Expiration = (\<lambda>_. ''tomorrow''),
     be_LookupCached = (\<lambda>_ _ _. Inr \<lparr>ce_CA = Some ''ca'', ce_AsFiles = Ok [(''/var/lib/k0s/pki/ca.crt'', ''ca'')]\<rparr>),
     be_AppendCertsFromPEM = (\<lambda>_. True), be_HttpGet = (\<lambda>_ _. True), be_GetKmcp = (\<lambda>_ _. Inl not_found),
     be_NewForConfig = (\<lambda>_ _. None), be_workloadClusterClient = False\<rparr>"

definition ref_bstate :: "'c \<Rightarrow> 'c bstate" where
  "ref_bstate c = \<lparr>bs_ctl = ref_ctl (ref_scope 1 [] [] []), bs_config = c\<rparr>"

lemmas boot_ref_defs = ref_boot_def ref_prov_def ref_config_def ref_secret_def ref_boot_env_def ref_bstate_def

lemma with_default_suffix_Nil: "with_default_suffix v = [] \<longleftrightarrow> v = []"
  by (simp add: with_default_suffix_def)

lemma ref_getCerts: "\<exists>t. getCerts (ref_boot_env c) sc s = (Ok ([plain_file ''/var/lib/k0s/pki/ca.crt'' ''0644'' ''ca''], Some ''ca''), t)"
  by (simp add: getCerts_def run_simps run_liftC ref_boot_env_def ref_env_def)

lemma ref_generate_initial:
  assumes "k_K0s (cs_Spec sc) = None" and "coll_Oldest (colls L) (cs_machines sc) = Some m" and "m_Name m = cs_Name sc"
    and "\<not> t_Enabled (k_Tunneling (cs_Spec sc))" and "k_Files (cs_Spec sc) = None" and "k_PreInstalledK0s (cs_Spec sc)"
    and "p_CustomUserDataRef (k_Provisioner (cs_Spec sc)) = None" and "cs_provisioner sc = CloudInitProvisioner"
  shows "\<exists>data t. generateBootstrapDataForController L ref_boot (ref_boot_env c) sc s = (Ok data, t)"
proof -
  obtain t where "getCerts (ref_boot_env c) sc s = (Ok ([plain_file ''/var/lib/k0s/pki/ca.crt'' ''0644'' ''ca''], Some ''ca''), t)"
    using ref_getCerts by blast
  with assms show ?thesis
    by (simp add: generateBootstrapDataForController_def with_k0s_config_def member_files_def genInitialControlPlaneFiles_def
        genK0sCommands_def DownloadCommands_def custom_user_data_def CloudInit_ToProvisionData_def Let_def run_simps
        ref_boot_def ref_prov_def)
qed

definition ref_initial_config :: K0sControllerConfig where
  "ref_initial_config = (ref_config ''a'' None)\<lparr>kcc_K0sConfigSpec := Some (ref_spec\<lparr>k_PreInstalledK0s := True\<rparr>)\<rparr>"

lemma ref_body_stores:
  assumes "sc = controller_scope c (ref_spec\<lparr>k_PreInstalledK0s := True\<rparr>) owner ref_cluster" and "om_Name (kcc_Meta c) = ''a''"
  shows "\<exists>t evs sec. controller_body ref_lib ref_boot (ref_boot_env served) sc s = (Ok zero_result, t) \<and>
    trace (bs_ctl t) = trace (bs_ctl s) @ evs \<and> Wrote (ApplySecret sec) None \<in> set evs"
proof -
  let ?E = "ref_boot_env served"
  let ?ms = "[ref_machine ''a'' 1, ref_machine ''b'' 2]"
  let ?s1 = "s\<lparr>bs_ctl := log_event (Read ReadMachines) (bs_ctl s)\<rparr>"
  have sc: "k_K0s (cs_Spec (sc\<lparr>cs_machines := ?ms\<rparr>)) = None" "\<not> t_Enabled (k_Tunneling (cs_Spec (sc\<lparr>cs_machines := ?ms\<rparr>)))"
    "k_Files (cs_Spec (sc\<lparr>cs_machines := ?ms\<rparr>)) = None" "k_PreInstalledK0s (cs_Spec (sc\<lparr>cs_machines := ?ms\<rparr>))"
    "p_CustomUserDataRef (k_Provisioner (cs_Spec (sc\<lparr>cs_machines := ?ms\<rparr>))) = None"
    "cs_provisioner (sc\<lparr>cs_machines := ?ms\<rparr>) = CloudInitProvisioner"
    "coll_Oldest (colls ref_lib) (cs_machines (sc\<lparr>cs_machines := ?ms\<rparr>)) = Some (ref_machine ''a'' 1)"
    "m_Name (ref_machine ''a'' 1) = cs_Name (sc\<lparr>cs_machines := ?ms\<rparr>)"
    using assms by (simp_all add: controller_scope_def ref_spec_def getProvisioner_def format_defs ref_coll_def ref_machine_def cs_Name_def)
  obtain data s2 where gen: "generateBootstrapDataForController ref_lib ref_boot ?E (sc\<lparr>cs_machines := ?ms\<rparr>) ?s1 = (Ok data, s2)"
    using ref_generate_initial [OF sc(1) sc(7,8) sc(2-6)] by blast
  obtain evs where evs: "trace (bs_ctl s2) = trace (bs_ctl ?s1) @ evs"
    using keepsD [OF generate_quiet gen, of kcc_Status] b_events_of unfolding quiet_def by blast
  have cl: "cs_Cluster sc = ref_cluster" using assms by (simp add: controller_scope_def)
  show ?thesis
    using gen evs
    by (simp add: controller_body_def cl listMachinesM_def run_simps run_liftC Let_def secret_stored_def set_data_condition_def
        ref_boot_env_def ref_env_def ref_coll_def ref_cluster_def ref_machine_def MachineControlPlaneLabel_def)
     (intro exI conjI, auto)
qed

lemma ref_controller_run:
  "\<exists>s' sec. ControlPlaneController_Reconcile ref_lib ref_boot (ref_boot_env ref_initial_config) (''default'', ''a'')
      (ref_bstate ref_initial_config) = (Ok zero_result, s') \<and>
    Wrote (ApplySecret sec) None \<in> set (b_events (ref_bstate ref_initial_config) s')"
proof -
  let ?E = "ref_boot_env ref_initial_config" and ?s = "ref_bstate ref_initial_config"
  let ?spec = "ref_spec\<lparr>k_PreInstalledK0s := True\<rparr>"
  let ?c = "ref_initial_config\<lparr>kcc_Version := with_default_suffix (kcc_Version ref_initial_config)\<rparr>"
  let ?owner = "\<lparr>co_Kind = ''Machine'', co_Name = ''a'', co_Namespace = ''default'', co_ClusterName = ''c'', co_KubernetesVersion = []\<rparr>"
  let ?pre = "[Read (ReadOther ''config'' ''a''), Read (ReadOther ''owner'' ''a''), Read (ReadOther ''cluster'' ''c''), Read ReadPaused, Read ReadPatchHelper]"
  let ?s1 = "\<lparr>bs_ctl = (bs_ctl ?s)\<lparr>trace := ?pre\<rparr>, bs_config = ?c\<rparr>"
  let ?sc = "controller_scope ?c ?spec ?owner ref_cluster"
  have "om_Name (kcc_Meta ?c) = ''a''"
    by (simp add: ref_initial_config_def ref_config_def ref_meta_def)
  from ref_body_stores [OF refl this, where served = ref_initial_config and owner = ?owner and s = ?s1]
  obtain t evs sec where body: "controller_body ref_lib ref_boot ?E ?sc ?s1 = (Ok zero_result, t)"
    and tr: "trace (bs_ctl t) = trace (bs_ctl ?s1) @ evs" and stored: "Wrote (ApplySecret sec) None \<in> set evs"
    by blast
  have evs: "trace (bs_ctl t) = ?pre @ evs"
    using tr by simp
  have run: "ControlPlaneController_Reconcile ref_lib ref_boot ?E (''default'', ''a'') ?s =
      deferM (controller_body ref_lib ref_boot ?E ?sc) (report_status ?E kcc_Status set_status
        (\<lambda>c. c\<lparr>kcc_Version := kcc_Version ?c, kcc_K0sConfigSpec := kcc_K0sConfigSpec ?c\<rparr>) PatchControllerConfigStatus) ?s1"
    by (simp add: ControlPlaneController_Reconcile_def bootstrap_gates_def controller_reconcile_with_cluster_def run_simps run_liftC
       ref_boot_env_def ref_env_def ref_bstate_def ref_ctl_def log_event_def ref_initial_config_def ref_config_def ref_meta_def ref_ver_def with_default_suffix_Nil)
  obtain evs2 t2 where d: "report_status ?E kcc_Status set_status
        (\<lambda>c. c\<lparr>kcc_Version := kcc_Version ?c, kcc_K0sConfigSpec := kcc_K0sConfigSpec ?c\<rparr>) PatchControllerConfigStatus t = (Ok (), t2)"
     and t2: "trace (bs_ctl t2) = trace (bs_ctl t) @ evs2"
    by (simp add: report_status_def run_simps ref_boot_env_def ref_env_def)
  have "b_events ?s t2 = ?pre @ evs @ evs2"
    by (intro b_events_eq) (simp add: t2 evs ref_bstate_def ref_ctl_def)
  with stored d show ?thesis
    unfolding run by (intro exI [of _ t2] exI [of _ sec]) (simp add: run_deferM body)
qed

text \<open>
  Witness: the initial controller of a reference cluster gets its data secret.
\<close>
theorem controller_status_reports_stored_secret_witness:
  "\<exists>s' c x. ControlPlaneController_Reconcile ref_lib ref_boot (ref_boot_env ref_initial_config) (''default'', ''a'')
      (ref_bstate ref_initial_config) = (Ok zero_result, s') \<and>
    last (b_events (ref_bstate ref_initial_config) s') = Wrote (PatchControllerConfigStatus c) x \<and>
    st_DataSecretCreated (kcc_Status c) = Some True"
proof -
  obtain s' sec where run: "ControlPlaneController_Reconcile ref_lib ref_boot (ref_boot_env ref_initial_config) (''default'', ''a'')
      (ref_bstate ref_initial_config) = (Ok zero_result, s')"
    and "Wrote (ApplySecret sec) None \<in> set (b_events (ref_bstate ref_initial_config) s')"
    using ref_controller_run by blast
  with controller_status_reports_stored_secret [OF run] show ?thesis by blast
qed

definition ref_join_scope :: ControllerScope where
  "ref_join_scope = (controller_scope (ref_config ''b'' None) (ref_spec\<lparr>k_K0s := Some []\<rparr>)
     \<lparr>co_Kind = ''Machine'', co_Name = ''b'', co_Namespace = ''default'', co_ClusterName = ''c'', co_KubernetesVersion = []\<rparr> ref_cluster)
     \<lparr>cs_machines := [ref_machine ''a'' 1, ref_machine ''b'' 2]\<rparr>"

lemma ref_join_run: "\<exists>s' fs. member_files ref_lib ref_boot (ref_boot_env (ref_config ''b'' None)) ref_join_scope []
    (ref_bstate (ref_config ''b'' None)) = (Ok fs, s')"
  by (simp add: member_files_def genControlPlaneJoinFiles_def getCerts_def random_string_def run_simps run_liftC
    FindK0sControlPlane_def GetControllerRuntimeClient_def getRESTConfig_def client_for_def isTunneledRestConfigPossible_def
    detectJoinHost_def CreateK0sJoinToken_def joinEncode_def ref_join_scope_def controller_scope_def cs_Name_def
    boot_ref_defs ref_defs Let_def)

text \<open>
  Witness: the second machine of the reference cluster joins.
\<close>
theorem join_credential_created_last_witness:
  "\<exists>fs cmd s' pre sec. member_files ref_lib ref_boot (ref_boot_env (ref_config ''b'' None)) ref_join_scope []
      (ref_bstate (ref_config ''b'' None)) = (Ok (fs, cmd), s') \<and>
    b_events (ref_bstate (ref_config ''b'' None)) s' = pre @ [Wrote (CreateWorkloadSecret sec) None] \<and> list_all is_read pre"
proof -
  obtain s' fs cmd where run: "member_files ref_lib ref_boot (ref_boot_env (ref_config ''b'' None)) ref_join_scope []
      (ref_bstate (ref_config ''b'' None)) = (Ok (fs, cmd), s')"
    using ref_join_run by fast
  have old: "coll_Oldest (colls ref_lib) (cs_machines ref_join_scope) = Some (ref_machine ''a'' 1)"
    and ne: "m_Name (ref_machine ''a'' 1) \<noteq> cs_Name ref_join_scope"
    by (simp_all add: ref_join_scope_def controller_scope_def cs_Name_def ref_coll_def ref_machine_def ref_config_def ref_meta_def)
  from join_credential_created_last [OF run old] ne run show ?thesis
    by simp
qed

text \<open>
  Witness: a configuration whose data secret exists.
\<close>
theorem created_bootstrap_data_is_final_witness:
  "list_all is_read (b_events (ref_bstate (ref_config ''a'' (Some True)))
     (snd (ControlPlaneController_Reconcile ref_lib ref_boot (ref_boot_env (ref_config ''a'' (Some True))) (''default'', ''a'')
       (ref_bstate (ref_config ''a'' (Some True))))))"
proof -
  have "st_DataSecretCreated (kcc_Status c) = Some True"
    if "be_GetControllerConfig (ref_boot_env (ref_config ''a'' (Some True))) tr (''default'', ''a'') = Inr c" for tr c
    using that by (auto simp: ref_boot_env_def ref_config_def)
  from created_bootstrap_data_is_final [OF this surjective_pairing] show ?thesis .
qed

end
