(* ===== verification/Worker_Bootstrap.thy ===== *)
theory Worker_Bootstrap
  imports Controller_Bootstrap
begin

text \<open>
  The bootstrap controller of workers
  (\<open>internal/controller/bootstrap/worker_bootstrap_controller.go\<close>, with the client of a
  hosting cluster from \<open>internal/controller/util/hostingcluster.go\<close>): it makes a join token,
  renders the bootstrap data of a \<open>K0sWorkerConfig\<close> and stores it in a secret. The state and
  the world are those of \<open>Controller_Bootstrap\<close>. The theorems: the status reports exactly what
  was stored, the version that is installed always names a k0s release, and two behaviours of
  the code that its authors did not intend, a worker behind an ingress that Ignition never
  accepts, and a join token that every retry leaves behind.
\<close>

subsection \<open>Versions\<close>

definition normalize_version :: "string \<Rightarrow> string \<Rightarrow> string" where
  \<comment> \<open>of the version of the configuration and of its owner\<close>
  "normalize_version v ownerVersion =
     (let v1 = (if v = [] then ownerVersion else v) in
      if v1 \<noteq> [] then
        (let v2 = replace_first ''-k0s.'' ''+k0s.'' v1 in
         if \<not> contains v2 ''+k0s.'' then v2 @ ''+'' @ defaultK0sSuffix else v2)
      else v1)"

subsection \<open>Clients\<close>

definition GetKmcClientFromClusterKubeconfigSecret :: "boot_env \<Rightarrow> KubeconfigRef \<Rightarrow> ('c, rest_config) bootM" where
  "GetKmcClientFromClusterKubeconfigSecret E kr =
     bindM (liftC (readM (ReadSecret (kr_Namespace kr) (kr_Name kr))
              (\<lambda>tr. e_GetSecret (be_env E) tr (kr_Namespace kr, kr_Name kr)))) (\<lambda>sec.
     case s_Data sec (kr_Key kr) of
       None \<Rightarrow> failM (Errorf (''missing '' @ kr_Key kr @ '' key in secret '' @ s_Namespace sec @ ''/'' @ s_Name sec))
     | Some data \<Rightarrow>
         bindM (wrapM (Wrapf ''failed to load kubeconfig'') (liftE (e_ParseKubeconfig (be_env E) data))) (\<lambda>rc.
         bindM (wrapM (Wrapf ''failed to create clientset'')
                  (bread ''clientset'' [] (\<lambda>tr. case be_NewForConfig E tr rc of None \<Rightarrow> Inr () | Some e \<Rightarrow> Inl e))) (\<lambda>_.
         bindM (wrapM (Wrapf ''failed to create client'')
                  (bread ''client'' [] (\<lambda>tr. case e_NewClient (be_env E) tr rc of None \<Rightarrow> Inr () | Some e \<Rightarrow> Inl e))) (\<lambda>_.
         ret rc))))"

definition setClientScope :: "boot_env \<Rightarrow> Scope \<Rightarrow> ('c, Scope) bootM" where
  "setClientScope E sc0 =
     (let cl = sw_Cluster sc0; sc = sc0\<lparr>sw_client := ManagementClient\<rparr> in
      bindM (liftC (readM (ReadReferenced (cl_ControlPlaneRef cl))
               (\<lambda>tr. e_GetReferenced (be_env E) tr CacheReader (cl_ControlPlaneRef cl) (cl_Namespace cl)))) (\<lambda>uControlPlane.
      if u_Kind uControlPlane = ''K0smotronControlPlane'' then
        bindM (bread ''kmcp'' (u_Name uControlPlane)
                 (\<lambda>tr. be_GetKmcp E tr (u_Namespace uControlPlane, u_Name uControlPlane))) (\<lambda>kcp.
        (let sc1 = sc\<lparr>sw_ingressSpec := sp_Ingress (hcp_Spec kcp)\<rparr> in
         case hosting_kubeconfig (hcp_Spec kcp) of
           Some kr \<Rightarrow>
             bindM (GetKmcClientFromClusterKubeconfigSecret E kr) (\<lambda>_. ret (sc1\<lparr>sw_client := HostingClusterClient\<rparr>))
         | None \<Rightarrow> ret sc1))
      else ret sc))"

subsection \<open>The join token\<close>

definition worker_token_secret :: "string \<Rightarrow> string \<Rightarrow> string \<Rightarrow> secret" where
  "worker_token_secret tokenID tokenSecret expiration =
     \<lparr>s_Name = ''bootstrap-token-'' @ tokenID, s_Namespace = ''kube-system'', s_Labels = Map.empty,
      s_Annotations = Map.empty, s_OwnerReferences = [],
      s_Data = [''token-id'' \<mapsto> tokenID, ''token-secret'' \<mapsto> tokenSecret, ''expiration'' \<mapsto> expiration,
        ''usage-bootstrap-api-auth'' \<mapsto> ''true'', ''description'' \<mapsto> ''Worker bootstrap token generated by k0smotron'',
        ''usage-bootstrap-authentication'' \<mapsto> ''true'', ''usage-bootstrap-api-worker-calls'' \<mapsto> ''true''],
      s_Type = ''bootstrap.kubernetes.io/token''\<rparr>"

definition join_url :: "Scope \<Rightarrow> string" where
  "join_url sc =
     (case sw_ingressSpec sc of
        None \<Rightarrow> ''https://'' @ cl_EndpointHost (sw_Cluster sc) @ '':'' @ show_int (cl_EndpointPort (sw_Cluster sc))
      | Some ing \<Rightarrow> ''https://'' @ ing_APIHost ing @ '':'' @ show_int (ing_Port ing))"

definition workload_client :: "boot_env \<Rightarrow> cluster \<Rightarrow> ('c, unit) bootM" where
  \<comment> \<open>the injected client, or one for the workload cluster\<close>
  "workload_client E cl =
     (if be_workloadClusterClient E then ret ()
      else
        bindM (wrapM (Wrapf ''failed to get K0sControlPlane resource'')
                 (liftC (FindK0sControlPlane (be_env E) cl))) (\<lambda>cp.
        bindM (wrapM (Wrapf ''failed to create child cluster client'')
                 (liftC (GetControllerRuntimeClient (be_env E) cp (cl_Namespace cl, cl_Name cl)))) (\<lambda>_.
        ret ())))"

definition getK0sToken :: "boot_lib \<Rightarrow> boot_env \<Rightarrow> Scope \<Rightarrow> ('c, string) bootM" where
  "getK0sToken B E sc =
     bindM (workload_client E (sw_Cluster sc)) (\<lambda>_.
     bindM (random_string E 6) (\<lambda>tokenID.
     bindM (random_string E 16) (\<lambda>tokenSecret.
     bindM (wrapM (Wrapf ''failed to lookup CA certificates'')
              (bread ''certificates'' (cl_Name (sw_Cluster sc))
                 (\<lambda>tr. be_LookupCached E tr (sw_client sc) (sw_Cluster sc)))) (\<lambda>certificates.
     case ce_CA certificates of
       None \<Rightarrow> failM (Errorf ''failed to get CA certificate key pair'')
     | Some cert \<Rightarrow>
         bindM (wrapM (Wrapf ''failed to create join token'')
                  (liftE (CreateK0sJoinToken B cert (tokenID @ ''.'' @ tokenSecret) (join_url sc) ''kubelet-bootstrap''))) (\<lambda>joinToken.
         bindM (bread ''clock'' [] (\<lambda>tr. Inr (be_Expiration E tr))) (\<lambda>expiration.
         bindM (wrapM (Wrapf ''failed to create token secret'')
                  (bwrite E (CreateWorkloadSecret (worker_token_secret tokenID tokenSecret expiration)))) (\<lambda>_.
         ret joinToken)))))))"

subsection \<open>Bootstrap data\<close>

definition ingress_file :: "string \<Rightarrow> string \<Rightarrow> string \<Rightarrow> File" where
  "ingress_file path name key = \<lparr>f_Path = path, f_Content = [], f_Permissions = [], f_Owner = [], f_Encoding = [],
     f_Append = False, f_ContentFrom = Some \<lparr>cs_SecretRef = Some \<lparr>csr_Name = name, csr_Key = key\<rparr>, cs_ConfigMapRef = None\<rparr>\<rparr>"

definition resolveFilesForIngress :: "boot_env \<Rightarrow> Scope \<Rightarrow> ('c, File list) bootM" where
  "resolveFilesForIngress E sc =
     (let n = cl_Name (sw_Cluster sc) in
      wrapM (Wrapf ''failed to resolve files for ingress integration'')
        (resolveFiles E (sw_Cluster sc)
           [ingress_file ''/etc/haproxy/certs/ca.crt'' (n @ ''-ca'') ''tls.crt'',
            ingress_file ''/etc/haproxy/certs/server.crt'' (n @ ''-ingress-haproxy'') ''tls.crt'',
            ingress_file ''/etc/haproxy/certs/server.key'' (n @ ''-ingress-haproxy'') ''tls.key'']))"

definition platform_commands ::
  "boot_lib \<Rightarrow> Scope \<Rightarrow> gerror + string list \<times> (VarName \<times> string) list \<times> File list" where
  \<comment> \<open>the switch on the platform: commands, variables and further files\<close>
  "platform_commands B sc =
     (if p_Platform (w_Provisioner (sw_Spec sc)) = PlatformWindows then
        (case getWindowsCommands sc of (commands, winFiles) \<Rightarrow> Inr (commands, [], winFiles))
      else
        (case getLinuxCommands B sc of
           Inl e \<Rightarrow> Inl (Wrapf ''error generating linux commands'' e)
         | Inr (commands, commandsMap) \<Rightarrow> Inr (commands, commandsMap, [])))"

definition worker_provision_data :: "boot_lib \<Rightarrow> boot_env \<Rightarrow> Scope \<Rightarrow> string \<Rightarrow> ('c, string) bootM" where
  \<comment> \<open>\<open>generateBootstrapDataForWorker\<close> once the token exists\<close>
  "worker_provision_data B E sc token =
     bindM (resolveFiles E (sw_Cluster sc) (elems (w_Files (sw_Spec sc)))) (\<lambda>resolvedFiles.
     bindM (if sw_ingressSpec sc \<noteq> None then resolveFilesForIngress E sc else ret []) (\<lambda>ingressFiles.
     bindM (liftE (platform_commands B sc)) (\<lambda>(commands, commandsMap, winFiles).
     bindM (custom_user_data E ''worker'' (sw_Cluster sc) (p_CustomUserDataRef (w_Provisioner (sw_Spec sc))) commandsMap)
       (\<lambda>(customUserData, vars).
     liftE (ToProvisionData (bl_prov B) (e_gates (be_env E)) (sw_provisioner sc)
       \<lparr>ip_Files = [plain_file (worker_GetJoinTokenPath (sw_Spec sc)) ''0600'' token] @ resolvedFiles @ ingressFiles @ winFiles,
        ip_Commands = commands, ip_CustomUserData = customUserData, ip_Vars = vars\<rparr>)))))"

definition generateBootstrapDataForWorker :: "boot_lib \<Rightarrow> boot_env \<Rightarrow> Scope \<Rightarrow> ('c, string) bootM" where
  "generateBootstrapDataForWorker B E sc = bindM (getK0sToken B E sc) (worker_provision_data B E sc)"

definition createBootstrapSecret :: "Scope \<Rightarrow> string \<Rightarrow> ProvisioningFormat \<Rightarrow> secret" where
  "createBootstrapSecret sc data format =
     (let base = [ClusterNameLabel \<mapsto> cl_Name (sw_Cluster sc), ComponentLabel \<mapsto> ComponentBootstrap] in
      case w_SecretMetadata (sw_Spec sc) of
        None \<Rightarrow> bootstrap_secret ''K0sWorkerConfig'' (kwc_Meta (sw_Config sc)) base Map.empty data format
      | Some md \<Rightarrow> bootstrap_secret ''K0sWorkerConfig'' (kwc_Meta (sw_Config sc)) (base ++ sm_Labels md)
                     (sm_Annotations md) data format)"

subsection \<open>The handler\<close>

definition set_worker_status :: "(ConfigStatus \<Rightarrow> ConfigStatus) \<Rightarrow> K0sWorkerConfig \<Rightarrow> K0sWorkerConfig" where
  "set_worker_status f c = c\<lparr>kwc_Status := f (kwc_Status c)\<rparr>"

definition ClusterControlPlaneInitializedCondition :: string where
  "ClusterControlPlaneInitializedCondition = ''ControlPlaneInitialized''"

definition worker_ready :: "lib \<Rightarrow> boot_lib \<Rightarrow> boot_env \<Rightarrow> Scope \<Rightarrow> (K0sWorkerConfig, result) bootM" where
  \<comment> \<open>\<open>Reconcile\<close> once the clients are known\<close>
  "worker_ready L B E sc =
     (if cl_EndpointIsZero (sw_Cluster sc) \<or>
         \<not> cond_IsTrue (conds L) (cl_Conditions (sw_Cluster sc)) ClusterControlPlaneInitializedCondition then
        bindM (set_data_condition L E set_worker_status ConditionFalse WaitingForControlPlaneInitializationReason
                 ''Control plane is not ready yet'') (\<lambda>_.
        ret \<lparr>Requeue = True, RequeueAfter = 5 * second\<rparr>)
      else
        tryM (generateBootstrapDataForWorker B E sc) (\<lambda>d.
        case d of
          Inl e \<Rightarrow>
            bindM (set_data_condition L E set_worker_status ConditionFalse DataSecretGenerationFailedReason (error_text e)) (\<lambda>_. failM e)
        | Inr data \<Rightarrow>
            secret_stored L E set_worker_status (createBootstrapSecret sc data (GetFormat (sw_provisioner sc)))))"

definition worker_body :: "lib \<Rightarrow> boot_lib \<Rightarrow> boot_env \<Rightarrow> Scope \<Rightarrow> (K0sWorkerConfig, result) bootM" where
  \<comment> \<open>\<open>Reconcile\<close> after the deferred closure is set up\<close>
  "worker_body L B E sc =
     tryM (setClientScope E sc) (\<lambda>r.
     case r of
       Inl e \<Rightarrow> bindM (set_data_condition L E set_worker_status ConditionFalse InternalErrorReason (error_text e)) (\<lambda>_. failM e)
     | Inr sc' \<Rightarrow> worker_ready L B E sc')"

definition worker_scope :: "K0sWorkerConfig \<Rightarrow> config_owner \<Rightarrow> cluster \<Rightarrow> Scope" where
  "worker_scope config owner cl =
     \<lparr>sw_Config = config, sw_OwnerName = co_Name owner, sw_Cluster = cl, sw_ingressSpec = None,
      sw_client = ManagementClient, sw_provisioner = getProvisioner (w_Provisioner (kwc_Spec config))\<rparr>"

definition worker_reconcile_with_cluster ::
  "lib \<Rightarrow> boot_lib \<Rightarrow> boot_env \<Rightarrow> config_owner \<Rightarrow> cluster \<Rightarrow> (K0sWorkerConfig, result) bootM" where
  "worker_reconcile_with_cluster L B E owner cl =
     bindM (liftC (readM ReadPaused (e_EnsurePaused (be_env E)))) (\<lambda>(isPaused, requeue).
     if isPaused \<or> requeue then ret zero_result
     else
       bindM configM (\<lambda>config.
       if st_DataSecretCreated (kwc_Status config) = Some True then ret zero_result
       else
         bindM (liftC (newPatchHelper (be_env E))) (\<lambda>_.
         deferM (worker_body L B E (worker_scope config owner cl))
           (report_status E kwc_Status set_worker_status id PatchWorkerConfigStatus))))"

definition Controller_Reconcile ::
  "lib \<Rightarrow> boot_lib \<Rightarrow> boot_env \<Rightarrow> string \<times> string \<Rightarrow> (K0sWorkerConfig, result) bootM" where
  "Controller_Reconcile L B E key =
     tryM (bread ''config'' (snd key) (\<lambda>tr. be_GetWorkerConfig E tr key)) (\<lambda>r.
     case r of
       Inl e \<Rightarrow> if is_not_found e then ret zero_result else failM e
     | Inr config \<Rightarrow>
         bindM (set_configM (\<lambda>_. config)) (\<lambda>_.
         bootstrap_gates E (kwc_Meta config)
           (\<lambda>owner. set_configM (\<lambda>c. c\<lparr>kwc_Spec := (kwc_Spec c)\<lparr>w_Version :=
              normalize_version (w_Version (kwc_Spec c)) (co_KubernetesVersion owner)\<rparr>\<rparr>))
           (worker_reconcile_with_cluster L B E)))"

subsection \<open>What the handler reports\<close>

interpretation wcs: config_status kwc_Status set_worker_status
  by unfold_locales (simp add: set_worker_status_def)

lemma worker_token_quiet: "keeps (quiet status) (getK0sToken B E sc)"
proof -
  have random: "keeps (quiet status) (random_string E n)" for n
    by (rule quiet_reads [OF random_string_reads]) (auto simp: random_string_def intro!: same_config_rules split: sum.splits)
  show ?thesis
    unfolding getK0sToken_def workload_client_def
    by (auto intro!: quiet.keeps_intros random quiet_bread quiet_workload_secret
        quiet_liftC [OF FindK0sControlPlane_reads] quiet_liftC [OF GetControllerRuntimeClient_reads] split: option.splits)
qed

lemma worker_generate_quiet: "keeps (quiet status) (generateBootstrapDataForWorker B E sc)"
proof -
  have files: "keeps (quiet status) (resolveFiles E cl fs)" for cl fs
    by (rule quiet_reads [OF resolveFiles_reads resolveFiles_same_config])
  have custom: "keeps (quiet status) (custom_user_data E what cl src vars)" for what cl src vars
    by (rule quiet_reads [OF custom_user_data_reads])
      (auto simp: custom_user_data_def intro!: same_config_rules resolve_same_config split: option.splits)
  show ?thesis
    unfolding generateBootstrapDataForWorker_def worker_provision_data_def resolveFilesForIngress_def Let_def
    by (auto simp del: resolveFiles.simps intro!: quiet.keeps_intros worker_token_quiet files custom split: prod.splits)
qed

lemma setClientScope_quiet: "keeps (quiet status) (setClientScope E sc)"
  unfolding setClientScope_def GetKmcClientFromClusterKubeconfigSecret_def Let_def
  by (auto intro!: quiet.keeps_intros quiet_bread quiet_liftC emits_readM split: option.splits)

lemma worker_body_settles: "keeps (settled kwc_Status) (worker_body L B E sc)"
  unfolding worker_body_def worker_ready_def
  by (auto intro!: settled_tryM wcs.stored_settles worker_generate_quiet setClientScope_quiet
      settled_quiet [OF quiet.keeps_bindM [OF wcs.quiet_condition]] quiet.keeps_intros split: sum.splits)

lemma worker_deferred_reports:
  assumes "st_DataSecretCreated (kwc_Status (bs_config t)) \<noteq> Some True"
  shows "reports kwc_Status PatchWorkerConfigStatus t (snd (bindM (liftC (newPatchHelper (be_env E)))
    (\<lambda>_. deferM (worker_body L B E sc) (report_status E kwc_Status set_worker_status id PatchWorkerConfigStatus)) t))"
proof -
  obtain q u where helper: "liftC (newPatchHelper (be_env E)) t = (q, u)" by fastforce
  have tu: "b_appends quiet_event t u" and c: "created kwc_Status u \<noteq> Some True"
    using keepsD [OF quiet_liftC [OF emits_newPatchHelper, of kwc_Status] helper] assms
    by (simp_all add: quiet_def created_def)
  have "reports kwc_Status PatchWorkerConfigStatus u (snd (deferM (worker_body L B E sc)
      (report_status E kwc_Status set_worker_status id PatchWorkerConfigStatus) u))"
    by (rule wcs.deferred_report [OF worker_body_settles c]) simp
  from quiet_then_reports [OF tu this] quiet_then_reports [OF tu reports_refl] show ?thesis
    by (cases q) (simp_all add: run_bindM helper)
qed

lemma worker_reports: "keeps (reports kwc_Status PatchWorkerConfigStatus) (Controller_Reconcile L B E key)"
proof -
  have "keeps (reports kwc_Status PatchWorkerConfigStatus) (worker_reconcile_with_cluster L B E owner cl)" for owner cl
    unfolding worker_reconcile_with_cluster_def
    by (auto intro!: reports_bindM reports_pure reports_configM worker_deferred_reports
        quiet_appends [OF quiet_liftC [where status = kwc_Status]] emits_readM reports_refl)
  then show ?thesis
    unfolding Controller_Reconcile_def
    by (auto intro!: reports_tryM reports_bindM reports_pure gates_report
        quiet_appends [OF quiet_bread] b_emits_configM split: sum.splits)
qed

text \<open>
  The status of a \<open>K0sWorkerConfig\<close> tells the truth about the bootstrap
  data: when a run of the handler stored the data secret, its last request is a patch that
  reports the secret as created and names it, and a patch that reports it as created is only
  sent when this run stored it.
\<close>
theorem worker_status_reports_stored_secret:
  assumes "Controller_Reconcile L B E key s = (r, s')"
  shows "(\<forall>sec. Wrote (ApplySecret sec) None \<in> set (b_events s s') \<longrightarrow>
      (\<exists>c x. last (b_events s s') = Wrote (PatchWorkerConfigStatus c) x \<and>
         st_DataSecretCreated (kwc_Status c) = Some True \<and> st_DataSecretName (kwc_Status c) = Some (s_Name sec))) \<and>
    (\<forall>c x. Wrote (PatchWorkerConfigStatus c) x \<in> set (b_events s s') \<longrightarrow>
      st_DataSecretCreated (kwc_Status c) = Some True \<longrightarrow>
      (\<exists>sec. Wrote (ApplySecret sec) None \<in> set (b_events s s')))"
proof -
  have "inj PatchWorkerConfigStatus" by (simp add: inj_def)
  then show ?thesis
    using reports_events [OF keepsD [OF worker_reports assms], simplified] by (auto simp: stored_secrets_def)
qed

subsection \<open>Ignition behind an ingress\<close>

lemma resolveFiles_permissions:
  "resolveFiles E cl fs s = (Ok fs', t) \<Longrightarrow> map f_Permissions fs' = map f_Permissions fs"
proof (induction fs arbitrary: s t fs')
  case (Cons f fs)
  from Cons.prems obtain g gs s1 s2 where "fs' = g # gs"
    and g: "(case f_ContentFrom f of None \<Rightarrow> ret f | Some cf \<Rightarrow>
      bindM (wrapM (Wrapf ''failed to resolve file content'') (resolveContentFromFile E cl cf)) (\<lambda>content.
        ret (f\<lparr>f_Content := content, f_ContentFrom := None\<rparr>))) s = (Ok g, s1)"
    and gs: "resolveFiles E cl fs s1 = (Ok gs, s2)"
    by (auto elim!: bindM_OkE)
  moreover have "f_Permissions g = f_Permissions f"
    using g by (auto elim!: bindM_OkE split: option.splits)
  ultimately show ?case
    using Cons.IH [OF gs] by simp
qed auto

lemma ingress_files_without_permissions:
  assumes "resolveFilesForIngress E sc s = (Ok fs, t)"
  shows "\<exists>f \<in> set fs. f_Permissions f = []"
proof -
  have "map f_Permissions fs = [[], [], []]"
    using assms unfolding resolveFilesForIngress_def Let_def
    by (auto elim!: wrapM_OkE dest!: resolveFiles_permissions simp: ingress_file_def simp del: resolveFiles.simps)
  then show ?thesis
    by (cases fs) auto
qed

lemma getK0sToken_credential: "credential_last (getK0sToken B E sc)"
proof -
  have client: "keeps (b_appends is_read) (workload_client E cl)" for cl
    unfolding workload_client_def
    by (auto intro!: b_emits_rules FindK0sControlPlane_reads GetControllerRuntimeClient_reads)
  have failed: "credential_last (failM e)" for e
    by (simp add: credential_last_def b_appends_def emits.frame_refl b_events_def new_events_def)
  have created: "credential_last (bindM (wrapM g (bwrite E (CreateWorkloadSecret sec))) (\<lambda>_. ret x))" for g sec x
    unfolding credential_last_def
    by (auto simp: run_bindM run_wrapM b_appends_def appends_def credential_def split: option.splits)
  show ?thesis
    unfolding getK0sToken_def
    by (auto intro!: credential_last_bindM created failed client render_reads b_emits_rules split: option.splits)
qed

lemma worker_provision_data_reads: "keeps (b_appends is_read) (worker_provision_data B E sc token)"
  unfolding worker_provision_data_def resolveFilesForIngress_def Let_def
  by (auto simp del: resolveFiles.simps intro!: b_emits_rules render_reads split: prod.splits)

lemma worker_ignition_ingress_fails:
  fixes s t :: "'c bstate"
  assumes "sw_ingressSpec sc \<noteq> None" and "sw_provisioner sc = IgnitionProvisioner i"
  shows "worker_provision_data B E sc token s \<noteq> (Ok data, t)"
proof
  assume "worker_provision_data B E sc token s = (Ok data, t)"
  then obtain resolved ingress commands commandsMap win custom vars and s1 s2 s3 s4 :: "'c bstate" where
    ingress: "resolveFilesForIngress E sc s1 = (Ok ingress, s2)"
    and data: "liftE (ToProvisionData (bl_prov B) (e_gates (be_env E)) (sw_provisioner sc)
       \<lparr>ip_Files = [plain_file (worker_GetJoinTokenPath (sw_Spec sc)) ''0600'' token] @ resolved @ ingress @ win,
        ip_Commands = commands, ip_CustomUserData = custom, ip_Vars = vars\<rparr>) s3 = (Ok data, s4)"
    using assms(1) unfolding worker_provision_data_def
    by (auto elim!: bindM_OkE simp del: resolveFiles.simps append.simps split: prod.splits)
  obtain f where "f \<in> set ingress" and "f_Permissions f = []"
    using ingress_files_without_permissions [OF ingress] by blast
  then obtain e where "Ignition_ToProvisionData (bl_prov B) i
      \<lparr>ip_Files = [plain_file (worker_GetJoinTokenPath (sw_Spec sc)) ''0600'' token] @ resolved @ ingress @ win,
       ip_Commands = commands, ip_CustomUserData = custom, ip_Vars = vars\<rparr> = Inl e"
    using ignition_needs_permissions [of f] by fastforce
  with data assms(2) show False by simp
qed

text \<open>
  A worker of a hosted control plane with an ingress cannot be bootstrapped with Ignition:
  the three certificate files the code adds for the ingress have no permissions, and the Ignition
  provisioner rejects a file whose permissions do not parse, so rendering never succeeds. Each attempt
  that gets as far as the join token leaves that token behind in the workload cluster.
\<close>
theorem ignition_worker_behind_ingress_never_bootstraps:
  assumes "sw_ingressSpec sc \<noteq> None" and "sw_provisioner sc = IgnitionProvisioner i"
    and run: "generateBootstrapDataForWorker B E sc s = (r, t)"
  shows "(\<nexists>data. r = Ok data) \<and>
    (\<forall>token u. getK0sToken B E sc s = (Ok token, u) \<longrightarrow>
       (\<exists>sec. Wrote (CreateWorkloadSecret sec) None \<in> set (b_events s t)))"
proof (intro conjI allI impI)
  show "\<nexists>data. r = Ok data"
  proof
    assume "\<exists>data. r = Ok data"
    then obtain data where "bindM (getK0sToken B E sc) (worker_provision_data B E sc) s = (Ok data, t)"
      using run unfolding generateBootstrapDataForWorker_def by blast
    then obtain token u where "worker_provision_data B E sc token u = (Ok data, t)"
      by (rule bindM_OkE)
    then show False
      using worker_ignition_ingress_fails [OF assms(1,2)] by (rule notE [rotated])
  qed
next
  fix token u
  assume tok: "getK0sToken B E sc s = (Ok token, u)"
  then have ut: "worker_provision_data B E sc token u = (r, t)"
    using run by (simp add: generateBootstrapDataForWorker_def run_bindM)
  from getK0sToken_credential tok obtain pre sec where
    su: "b_appends (\<lambda>_. True) s u" and "b_events s u = pre @ [Wrote (CreateWorkloadSecret sec) None]"
    unfolding credential_last_def by fastforce
  with b_events_trans [OF su keepsD [OF worker_provision_data_reads ut]]
  have "Wrote (CreateWorkloadSecret sec) None \<in> set (b_events s t)" by simp
  then show "\<exists>sec. Wrote (CreateWorkloadSecret sec) None \<in> set (b_events s t)" by blast
qed

subsection \<open>Reference runs\<close>

definition ref_worker_config :: K0sWorkerConfig where
  "ref_worker_config = \<lparr>kwc_Meta = ref_meta ''w'',
     kwc_Spec = \<lparr>w_Provisioner = k_Provisioner ref_spec, w_K0sInstallDir = [], w_Version = [], w_UseSystemHostname = True,
       w_Files = None, w_Args = None, w_PreK0sCommands = None, w_PostK0sCommands = None, w_PreInstalledK0s = True,
       w_DownloadURL = [], w_SecretMetadata = None, w_WorkingDir = []\<rparr>,
     kwc_Status = \<lparr>st_DataSecretName = None, st_DataSecretCreated = None, st_Conditions = []\<rparr>\<rparr>"

definition ref_ready_cluster :: cluster where
  "ref_ready_cluster = ref_cluster\<lparr>cl_Conditions :=
     [mk_condition ClusterControlPlaneInitializedCondition ConditionTrue ''Initialized'' []]\<rparr>"

definition ref_worker_env :: boot_env where
  "ref_worker_env = (ref_boot_env (ref_config ''a'' None))\<lparr>be_GetWorkerConfig := (\<lambda>_ _. Inr ref_worker_config),
     be_ClusterByName := (\<lambda>_ _ _. Inr ref_ready_cluster), be_workloadClusterClient := True\<rparr>"

lemma ref_worker_env_sel: "e_write (be_env ref_worker_env) tr rq = None" "be_workloadClusterClient ref_worker_env"
  "be_RandRead ref_worker_env tr n = Inr (replicate n (CHR ''a''))" "be_Expiration ref_worker_env tr = ''tomorrow''"
  "be_LookupCached ref_worker_env tr cli cl = Inr \<lparr>ce_CA = Some ''ca'', ce_AsFiles = Ok [(''/var/lib/k0s/pki/ca.crt'', ''ca'')]\<rparr>"
  "be_SetSummaryCondition ref_worker_env tr cs = Inr cs" "e_Now (be_env ref_worker_env) tr = 1000 * second"
  by (simp_all add: ref_worker_env_def ref_boot_env_def ref_env_def)

lemma ref_token: "\<exists>token t. getK0sToken ref_boot ref_worker_env sc s = (Ok token, t)"
  by (simp add: getK0sToken_def workload_client_def random_string_def run_simps ref_worker_env_sel CreateK0sJoinToken_def
      joinEncode_def ref_boot_def)

lemma ref_worker_generate:
  assumes "sw_ingressSpec sc = None" and "sw_provisioner sc = CloudInitProvisioner" and "w_Files (sw_Spec sc) = None"
    and "w_PreInstalledK0s (sw_Spec sc)" and "p_CustomUserDataRef (w_Provisioner (sw_Spec sc)) = None"
    and "p_Platform (w_Provisioner (sw_Spec sc)) \<noteq> PlatformWindows"
  shows "\<exists>data t. generateBootstrapDataForWorker ref_boot ref_worker_env sc s = (Ok data, t)"
proof -
  obtain token t where "getK0sToken ref_boot ref_worker_env sc s = (Ok token, t)"
    using ref_token by blast
  with assms show ?thesis
    by (simp add: generateBootstrapDataForWorker_def worker_provision_data_def run_simps platform_commands_def getLinuxCommands_def
        DownloadCommands_def custom_user_data_def CloudInit_ToProvisionData_def Let_def ref_boot_def ref_prov_def)
qed

lemma ref_worker_body_stores:
  assumes "sc = worker_scope c owner ref_ready_cluster" and "kwc_Spec c = (kwc_Spec ref_worker_config)\<lparr>w_Version := v\<rparr>"
  shows "\<exists>t evs sec. worker_body ref_lib ref_boot ref_worker_env sc s = (Ok zero_result, t) \<and>
    trace (bs_ctl t) = trace (bs_ctl s) @ evs \<and> Wrote (ApplySecret sec) None \<in> set evs"
proof -
  have fields: "sw_ingressSpec sc = None" "sw_provisioner sc = CloudInitProvisioner" "w_Files (sw_Spec sc) = None"
    "w_PreInstalledK0s (sw_Spec sc)" "p_CustomUserDataRef (w_Provisioner (sw_Spec sc)) = None"
    "p_Platform (w_Provisioner (sw_Spec sc)) \<noteq> PlatformWindows"
    using assms by (simp_all add: worker_scope_def sw_Spec_def ref_worker_config_def ref_spec_def getProvisioner_def format_defs)
  have same: "sc\<lparr>sw_client := ManagementClient\<rparr> = sc"
    using assms by (simp add: worker_scope_def)
  let ?s1 = "s\<lparr>bs_ctl := log_event (Read (ReadReferenced (cl_ControlPlaneRef ref_cluster))) (bs_ctl s)\<rparr>"
  have cl: "sw_Cluster sc = ref_ready_cluster" using assms by (simp add: worker_scope_def)
  have client: "setClientScope ref_worker_env sc s = (Ok sc, ?s1)"
    by (simp add: setClientScope_def Let_def same cl run_simps run_liftC ref_ready_cluster_def ref_worker_env_def ref_boot_env_def
        ref_env_def ref_cluster_def ref_infra_def)
  obtain data s2 where gen: "generateBootstrapDataForWorker ref_boot ref_worker_env sc ?s1 = (Ok data, s2)"
    using ref_worker_generate [OF fields] by blast
  obtain evs where evs: "trace (bs_ctl s2) = trace (bs_ctl ?s1) @ evs"
    using keepsD [OF worker_generate_quiet gen, of kwc_Status] b_events_of unfolding quiet_def by blast
  have ready: "\<not> cl_EndpointIsZero ref_ready_cluster"
    "cond_IsTrue ref_cond (cl_Conditions ref_ready_cluster) ClusterControlPlaneInitializedCondition"
    by (simp_all add: ref_ready_cluster_def ref_cluster_def ref_cond_def mk_condition_def)
  show ?thesis
    using gen evs
    by (simp add: worker_body_def worker_ready_def client cl ready run_simps run_liftC secret_stored_def set_data_condition_def
        ref_worker_env_sel)
     (intro exI conjI, auto)
qed

lemma ref_worker_run:
  "\<exists>s' sec. Controller_Reconcile ref_lib ref_boot ref_worker_env (''default'', ''w'') (ref_bstate ref_worker_config) = (Ok zero_result, s') \<and>
    Wrote (ApplySecret sec) None \<in> set (b_events (ref_bstate ref_worker_config) s')"
proof -
  let ?E = ref_worker_env and ?s = "ref_bstate ref_worker_config"
  let ?c = "ref_worker_config\<lparr>kwc_Spec := (kwc_Spec ref_worker_config)\<lparr>w_Version := normalize_version [] []\<rparr>\<rparr>"
  let ?owner = "\<lparr>co_Kind = ''Machine'', co_Name = ''w'', co_Namespace = ''default'', co_ClusterName = ''c'', co_KubernetesVersion = []\<rparr>"
  let ?pre = "[Read (ReadOther ''config'' ''w''), Read (ReadOther ''owner'' ''w''), Read (ReadOther ''cluster'' ''c''), Read ReadPaused, Read ReadPatchHelper]"
  let ?s1 = "\<lparr>bs_ctl = (bs_ctl ?s)\<lparr>trace := ?pre\<rparr>, bs_config = ?c\<rparr>"
  let ?sc = "worker_scope ?c ?owner ref_ready_cluster"
  have "kwc_Spec ?c = (kwc_Spec ref_worker_config)\<lparr>w_Version := normalize_version [] []\<rparr>"
    by simp
  from ref_worker_body_stores [OF refl this, where owner = ?owner and s = ?s1]
  obtain t evs sec where body: "worker_body ref_lib ref_boot ?E ?sc ?s1 = (Ok zero_result, t)"
    and tr: "trace (bs_ctl t) = trace (bs_ctl ?s1) @ evs" and stored: "Wrote (ApplySecret sec) None \<in> set evs"
    by blast
  have evs: "trace (bs_ctl t) = ?pre @ evs"
    using tr by simp
  have run: "Controller_Reconcile ref_lib ref_boot ?E (''default'', ''w'') ?s =
      deferM (worker_body ref_lib ref_boot ?E ?sc) (report_status ?E kwc_Status set_worker_status id PatchWorkerConfigStatus) ?s1"
    by (simp add: Controller_Reconcile_def bootstrap_gates_def worker_reconcile_with_cluster_def run_simps run_liftC
        ref_worker_env_def ref_boot_env_def ref_env_def ref_bstate_def ref_ctl_def log_event_def ref_worker_config_def ref_meta_def)
  obtain evs2 t2 where d: "report_status ?E kwc_Status set_worker_status id PatchWorkerConfigStatus t = (Ok (), t2)"
     and t2: "trace (bs_ctl t2) = trace (bs_ctl t) @ evs2"
    by (simp add: report_status_def run_simps ref_worker_env_sel)
  have "b_events ?s t2 = ?pre @ evs @ evs2"
    by (intro b_events_eq) (simp add: t2 evs ref_bstate_def ref_ctl_def)
  with stored d show ?thesis
    unfolding run by (intro exI [of _ t2] exI [of _ sec]) (simp add: run_deferM body)
qed

text \<open>
  Witness: a worker of the reference cluster gets its data secret.
\<close>
theorem worker_status_reports_stored_secret_witness:
  "\<exists>s' c x. Controller_Reconcile ref_lib ref_boot ref_worker_env (''default'', ''w'') (ref_bstate ref_worker_config) = (Ok zero_result, s') \<and>
    last (b_events (ref_bstate ref_worker_config) s') = Wrote (PatchWorkerConfigStatus c) x \<and>
    st_DataSecretCreated (kwc_Status c) = Some True"
proof -
  obtain s' sec where run: "Controller_Reconcile ref_lib ref_boot ref_worker_env (''default'', ''w'') (ref_bstate ref_worker_config) = (Ok zero_result, s')"
    and "Wrote (ApplySecret sec) None \<in> set (b_events (ref_bstate ref_worker_config) s')"
    using ref_worker_run by blast
  with worker_status_reports_stored_secret [OF run] show ?thesis by blast
qed

definition ref_ignition_scope :: Scope where
  "ref_ignition_scope = (worker_scope ref_worker_config \<lparr>co_Kind = ''Machine'', co_Name = ''w'', co_Namespace = ''default'',
      co_ClusterName = ''c'', co_KubernetesVersion = []\<rparr> ref_ready_cluster)
    \<lparr>sw_ingressSpec := Some \<lparr>ing_Deploy = None, ing_Port = 443, ing_APIHost = ''api.example.com'', ing_KonnectivityHost = [],
       ing_ClassName = None, ing_Annotations = Map.empty\<rparr>,
     sw_provisioner := IgnitionProvisioner \<lparr>ig_Variant = ''fcos'', ig_Version = ''1.5.0'', ig_AdditionalConfig = []\<rparr>\<rparr>"

text \<open>
  Witness: a worker behind an ingress on a server that accepts every write and has every secret.
\<close>
theorem ignition_worker_behind_ingress_never_bootstraps_witness:
  "\<exists>r t sec. generateBootstrapDataForWorker ref_boot ref_worker_env ref_ignition_scope (ref_bstate ref_worker_config) = (r, t) \<and>
    \<not> (\<exists>data. r = Ok data) \<and> Wrote (CreateWorkloadSecret sec) None \<in> set (b_events (ref_bstate ref_worker_config) t)"
proof -
  obtain r t where run: "generateBootstrapDataForWorker ref_boot ref_worker_env ref_ignition_scope (ref_bstate ref_worker_config) = (r, t)"
    by fastforce
  obtain token u where "getK0sToken ref_boot ref_worker_env ref_ignition_scope (ref_bstate ref_worker_config) = (Ok token, u)"
    using ref_token by blast
  with ignition_worker_behind_ingress_never_bootstraps [OF _ _ run, of "\<lparr>ig_Variant = ''fcos'', ig_Version = ''1.5.0'', ig_AdditionalConfig = []\<rparr>"]
  show ?thesis
    using run by (auto simp: ref_ignition_scope_def)
qed

end
