(* ===== verification/Hosted_ControlPlane.thy ===== *)
theory Hosted_ControlPlane
  imports Worker_Bootstrap
begin

text \<open>
  The controller of \<open>K0smotronControlPlane\<close>
  (\<open>internal/controller/controlplane/k0smotron_controlplane_controller.go\<close>, with
  \<open>namespace.go\<close> and \<open>ownerreference.go\<close> of \<open>internal/controller/util\<close>): it keeps a
  k0smotron \<open>Cluster\<close> in step with the specification, waits for the external address, and
  reports what the pods of the control plane run. The state of a run is the trace of requests and
  the two objects the handler mutates and its deferred closure patches. The package-level variable
  \<open>currentSpec\<close> is assigned and never read, so it is left out.

  The theorems: a specification that was written is recognized as written, and a change of one byte of its
  JSON form is always recognized as a change; the counters of the status agree with each other; the
  finalizer goes only when the \<open>Cluster\<close> is gone; the status of the infrastructure object is
  read back; and a control plane that is not ready is looked at again.
\<close>

subsection \<open>The world\<close>

record pod =
  pod_Name :: string
  pod_Namespace :: string
  pod_Conditions :: "(string \<times> string) list" \<comment> \<open>type and status\<close>

record host_lib =
  hl_lib :: lib
  hl_MarshalSpec :: "ClusterSpec \<Rightarrow> string" \<comment> \<open>\<open>json.Marshal\<close> of a specification\<close>
  hl_SafeEncodeString :: "string \<Rightarrow> string"
  hl_MergeSpec :: "ClusterSpec \<Rightarrow> ClusterSpec \<Rightarrow> gerror + ClusterSpec" \<comment> \<open>\<open>mergo.Merge\<close> with override\<close>
  hl_RefIsDefined :: "objref \<Rightarrow> bool"
  hl_EndpointIsValid :: "string \<Rightarrow> int \<Rightarrow> bool"

record host_env =
  he_boot :: boot_env
  he_GetHcp :: "event list \<Rightarrow> string \<times> string \<Rightarrow> gerror + K0smotronControlPlane"
  he_GetKmc :: "event list \<Rightarrow> string \<times> string \<Rightarrow> gerror + Cluster"
  he_GetUncachedClient :: "event list \<Rightarrow> string \<times> string \<Rightarrow> gerror option"
  he_ListPods :: "event list \<Rightarrow> mgmt_client \<Rightarrow> string \<Rightarrow> (string \<times> string) list \<Rightarrow> gerror + pod list"
    \<comment> \<open>of the client, the namespace and the label selector\<close>
  he_PodExec :: "event list \<Rightarrow> mgmt_client \<Rightarrow> string \<times> string \<Rightarrow> string \<Rightarrow> gerror + string"
  he_GetNamespace :: "event list \<Rightarrow> mgmt_client \<Rightarrow> string \<Rightarrow> gerror option"
  he_GetConfigMapUID :: "event list \<Rightarrow> mgmt_client \<Rightarrow> string \<times> string \<Rightarrow> gerror + string"
  he_CreatedUID :: "event list \<Rightarrow> string" \<comment> \<open>the UID the server gave the object just created\<close>
  he_GetCRD :: "event list \<Rightarrow> unstructured \<Rightarrow> gerror + string \<times> strmap"
    \<comment> \<open>the name and the labels of the definition of the kind of an object\<close>
  he_GetInfraObject :: "event list \<Rightarrow> unstructured \<Rightarrow> gerror + unstructured" \<comment> \<open>by the key of an object\<close>

record hosted =
  ho_kcp :: K0smotronControlPlane
  ho_cluster :: cluster

type_synonym 'a hostM = "(hosted, 'a) bootM"

record kmcScope =
  km_externalOwner :: "external_owner option"
  km_client :: mgmt_client \<comment> \<open>client, clientset and REST configuration of the hosting cluster\<close>

abbreviation he_env :: "host_env \<Rightarrow> env" where
  "he_env E \<equiv> be_env (he_boot E)"

abbreviation hread :: "string \<Rightarrow> string \<Rightarrow> (event list \<Rightarrow> gerror + 'a) \<Rightarrow> ('c, 'a) bootM" where
  "hread \<equiv> bread"

definition hwrite :: "host_env \<Rightarrow> write_req \<Rightarrow> ('c, unit) bootM" where
  "hwrite E rq = bwrite (he_boot E) rq"

definition upd_hcp :: "(K0smotronControlPlane \<Rightarrow> K0smotronControlPlane) \<Rightarrow> unit hostM" where
  "upd_hcp f = set_configM (\<lambda>h. h\<lparr>ho_kcp := f (ho_kcp h)\<rparr>)"

definition upd_hst :: "(K0smotronControlPlaneStatus \<Rightarrow> K0smotronControlPlaneStatus) \<Rightarrow> unit hostM" where
  "upd_hst f = upd_hcp (\<lambda>k. k\<lparr>hcp_Status := f (hcp_Status k)\<rparr>)"

definition upd_hsp :: "(ClusterSpec \<Rightarrow> ClusterSpec) \<Rightarrow> unit hostM" where
  "upd_hsp f = upd_hcp (\<lambda>k. k\<lparr>hcp_Spec := f (hcp_Spec k)\<rparr>)"

definition cluster_key :: "cluster \<Rightarrow> string \<times> string" where
  "cluster_key cl = (cl_Namespace cl, cl_Name cl)"

subsection \<open>The hosting cluster\<close>

definition getKmcScope :: "host_env \<Rightarrow> kmcScope hostM" where
  "getKmcScope E =
     bindM configM (\<lambda>h.
     case hosting_kubeconfig (hcp_Spec (ho_kcp h)) of
       None \<Rightarrow> ret \<lparr>km_externalOwner = None, km_client = ManagementClient\<rparr>
     | Some kr \<Rightarrow>
         bindM (GetKmcClientFromClusterKubeconfigSecret (he_boot E) kr) (\<lambda>_.
         ret \<lparr>km_externalOwner = None, km_client = HostingClusterClient\<rparr>))"

definition EnsureNamespaceExists :: "host_env \<Rightarrow> mgmt_client \<Rightarrow> string \<Rightarrow> ('c, unit) bootM" where
  "EnsureNamespaceExists E c namespace =
     tryM (hread ''namespace'' namespace (\<lambda>tr. case he_GetNamespace E tr c namespace of None \<Rightarrow> Inr () | Some e \<Rightarrow> Inl e)) (\<lambda>r.
     case r of
       Inr _ \<Rightarrow> ret ()
     | Inl err \<Rightarrow>
         if is_not_found err then
           tryM (hwrite E (CreateNamespace namespace)) (\<lambda>w.
           case w of
             Inr _ \<Rightarrow> ret ()
           | Inl createErr \<Rightarrow>
               if is_already_exists createErr then ret ()
               else failM (Wrapf (''failed to create namespace '' @ namespace) createErr))
         else if is_forbidden err
         then failM (Wrapf (''cannot verify or create namespace '' @ namespace @ '': insufficient permissions to get namespaces'') err)
         else failM (Wrapf (''failed to get namespace '' @ namespace) err))"

definition getExternalOwnerName :: "string \<Rightarrow> string" where
  "getExternalOwnerName kmcName = kmcName @ ''-root-owner''"

definition GetExternalOwner :: "host_env \<Rightarrow> mgmt_client \<Rightarrow> string \<Rightarrow> string \<Rightarrow> ('c, external_owner) bootM" where
  "GetExternalOwner E c name namespace =
     bindM (hread ''configmap'' (getExternalOwnerName name)
              (\<lambda>tr. he_GetConfigMapUID E tr c (namespace, getExternalOwnerName name))) (\<lambda>uid.
     ret \<lparr>eo_Name = getExternalOwnerName name, eo_UID = uid\<rparr>)"

definition EnsureExternalOwner :: "host_env \<Rightarrow> mgmt_client \<Rightarrow> string \<Rightarrow> string \<Rightarrow> ('c, external_owner) bootM" where
  "EnsureExternalOwner E c name namespace =
     tryM (GetExternalOwner E c name namespace) (\<lambda>r.
     case r of
       Inr owner \<Rightarrow> ret owner
     | Inl err \<Rightarrow>
         if is_not_found err then
           bindM (hwrite E (CreateConfigMap \<lparr>cm_Name = getExternalOwnerName name, cm_Namespace = namespace,
                    cm_Labels = Map.empty, cm_OwnerReferences = [], cm_Data = Map.empty\<rparr>)) (\<lambda>_.
           bindM (hread ''uid'' [] (\<lambda>tr. Inr (he_CreatedUID E tr))) (\<lambda>uid.
           ret \<lparr>eo_Name = getExternalOwnerName name, eo_UID = uid\<rparr>))
         else failM err)"

definition ensureHostedCertificates :: "host_env \<Rightarrow> kmcScope \<Rightarrow> unit hostM" where
  "ensureHostedCertificates E sc =
     bindM configM (\<lambda>h.
     (let meta = hcp_Meta (ho_kcp h);
          owner = (case km_externalOwner sc of
            None \<Rightarrow> \<lparr>o_APIVersion = ''controlplane.cluster.x-k8s.io/v1beta2'', o_Kind = ''K0smotronControlPlane'',
                     o_Name = om_Name meta, o_UID = om_UID meta\<rparr>
          | Some eo \<Rightarrow> GetExternalControllerRef eo)
      in hwrite E (EnsureHostedCertificates (ho_cluster h) owner)))"

subsection \<open>The specification\<close>

definition generateClusterSpecHashWithoutExternalAddress :: "host_lib \<Rightarrow> ClusterSpec \<Rightarrow> string" where
  "generateClusterSpecHashWithoutExternalAddress H spec =
     hl_SafeEncodeString H (show_nat (unat (fnv1a (hl_MarshalSpec H (spec\<lparr>sp_ExternalAddress := []\<rparr>)))))"

definition with_endpoint_manifest :: "Cluster \<Rightarrow> ClusterSpec \<Rightarrow> ClusterSpec" where
  "with_endpoint_manifest kmc sp =
     (let n = GetEndpointConfigMapName kmc in
      if list_ex (\<lambda>v. vol_Name v = n) (elems (sp_Manifests sp)) then sp
      else sp\<lparr>sp_Manifests := append_slice (sp_Manifests sp) [\<lparr>vol_Name = n, vol_Source = ConfigMapSource n (JObj [])\<rparr>]\<rparr>)"

definition with_old_sans :: "json_lib \<Rightarrow> ClusterSpec \<Rightarrow> ClusterSpec \<Rightarrow> (gerror + ClusterSpec) res" where
  \<comment> \<open>the SANs of the cluster put back; a nil configuration on the other side panics\<close>
  "with_old_sans J kmcSpec sp =
     (case sp_K0sConfig kmcSpec of
        None \<Rightarrow> Ok (Inr sp)
      | Some ob \<Rightarrow>
          (case NestedSlice J ob [''spec'', ''api'', ''sans''] of
             Inr (Some sans) \<Rightarrow>
               (case sp_K0sConfig sp of
                  None \<Rightarrow> Panic
                | Some ob' \<Rightarrow>
                    (case SetNestedField J ob' (JArr sans) [''spec'', ''api'', ''sans''] of
                       Inl e \<Rightarrow> Ok (Inl (Wrapf ''failed to set api.sans in K0smotronCluster spec'' e))
                     | Inr ob'' \<Rightarrow> Ok (Inr (sp\<lparr>sp_K0sConfig := Some ob''\<rparr>))))
           | _ \<Rightarrow> Ok (Inr sp)))"

definition deprecated_spec_synced :: "host_lib \<Rightarrow> Cluster \<Rightarrow> ClusterSpec \<Rightarrow> (gerror + bool) res" where
  \<comment> \<open>the comparison for clusters without the annotation\<close>
  "deprecated_spec_synced H kmc kcpSpec =
     (case hl_MergeSpec H (kmc_Spec kmc) kcpSpec of
        Inl e \<Rightarrow> Ok (Inl e)
      | Inr merged \<Rightarrow>
          (case with_old_sans (jsons (hl_lib H)) (kmc_Spec kmc)
                  (with_endpoint_manifest kmc (merged\<lparr>sp_CertificateRefs := sp_CertificateRefs (kmc_Spec kmc)\<rparr>)) of
             Ok (Inl e) \<Rightarrow> Ok (Inl e)
           | Ok (Inr sp) \<Rightarrow> Ok (Inr (kmc_Spec kmc = sp))
           | Err e \<Rightarrow> Err e
           | Panic \<Rightarrow> Panic))"

definition isClusterSpecSynced :: "host_lib \<Rightarrow> Cluster \<Rightarrow> ClusterSpec \<Rightarrow> (gerror + bool \<times> string) res" where
  "isClusterSpecSynced H kmc kcpSpec =
     (let kcpSpecHash = generateClusterSpecHashWithoutExternalAddress H kcpSpec in
      case om_Annotations (kmc_Meta kmc) AnnotationKeyClusterSpecHash of
        Some clusterSpecHash \<Rightarrow>
          Ok (Inr (sp_ExternalAddress (kmc_Spec kmc) = sp_ExternalAddress kcpSpec \<and> kcpSpecHash = clusterSpecHash, kcpSpecHash))
      | None \<Rightarrow>
          (case deprecated_spec_synced H kmc kcpSpec of
             Ok (Inl e) \<Rightarrow> Ok (Inl e)
           | Ok (Inr b) \<Rightarrow> Ok (Inr (b, kcpSpecHash))
           | Err e \<Rightarrow> Err e
           | Panic \<Rightarrow> Panic))"

definition certificate_refs :: "string \<Rightarrow> CertificateRef list" where
  "certificate_refs clusterName = map (\<lambda>p. \<lparr>cr_Type = p, cr_Name = clusterName @ ''-'' @ p\<rparr>) [''ca'', ''proxy'', ''sa'', ''etcd'']"

definition desired_kmc :: "host_lib \<Rightarrow> hosted \<Rightarrow> Cluster" where
  "desired_kmc H h =
     (let cl = ho_cluster h; kcp = ho_kcp h in
      \<lparr>kmc_Meta = \<lparr>om_Name = cl_Name cl, om_Namespace = cl_Namespace cl, om_UID = [],
         om_Labels = [ClusterNameLabel \<mapsto> cl_Name cl],
         om_Annotations = [AnnotationKeyClusterSpecHash \<mapsto> generateClusterSpecHashWithoutExternalAddress H (hcp_Spec kcp)],
         om_OwnerReferences = [\<lparr>o_APIVersion = ''controlplane.cluster.x-k8s.io/v1beta2'', o_Kind = ''K0smotronControlPlane'',
           o_Name = om_Name (hcp_Meta kcp), o_UID = om_UID (hcp_Meta kcp)\<rparr>],
         om_Finalizers = [], om_CreationTimestamp = 0, om_DeletionTimestamp = None\<rparr>,
       kmc_Spec = hcp_Spec kcp,
       kmc_Status = \<lparr>cst_Replicas = 0, cst_ReadyReplicas = 0, cst_UpdatedReplicas = 0, cst_Selector = [],
         cst_Conditions = [], cst_Deprecated = None\<rparr>\<rparr>)"

definition with_spec :: "Cluster \<Rightarrow> string \<Rightarrow> ClusterSpec \<Rightarrow> Cluster" where
  \<comment> \<open>the cluster with the new specification and the annotation of its hash\<close>
  "with_spec kmc h spec = kmc\<lparr>kmc_Meta := (kmc_Meta kmc)\<lparr>om_Annotations := (om_Annotations (kmc_Meta kmc))(AnnotationKeyClusterSpecHash \<mapsto> h)\<rparr>,
     kmc_Spec := spec\<rparr>"

definition sync_spec :: "host_lib \<Rightarrow> host_env \<Rightarrow> Cluster \<Rightarrow> result hostM" where
  \<comment> \<open>the end of \<open>reconcile\<close>, with the cluster that was found\<close>
  "sync_spec H E foundCluster =
     bindM (upd_hsp (\<lambda>sp. if sp_ExternalAddress sp = [] then sp\<lparr>sp_ExternalAddress := sp_ExternalAddress (kmc_Spec foundCluster)\<rparr> else sp)) (\<lambda>_.
     bindM configM (\<lambda>h.
     bindM (wrapM (Wrapf ''error comparing cluster spec between k0smotron.Cluster and k0smotronControlPlane'')
              (bindM (liftR (isClusterSpecSynced H foundCluster (hcp_Spec (ho_kcp h)))) liftE)) (\<lambda>(synced, kcpSpecHash).
     if synced then ret zero_result
     else
       bindM (liftC (newPatchHelper (he_env E))) (\<lambda>_.
       bindM (hwrite E (PatchKmc foundCluster (with_spec foundCluster kcpSpecHash (hcp_Spec (ho_kcp h))))) (\<lambda>_.
       ret zero_result)))))"

definition hosted_reconcile :: "host_lib \<Rightarrow> host_env \<Rightarrow> kmcScope \<Rightarrow> result hostM" where
  \<comment> \<open>\<open>reconcile\<close>; a read of the cluster that fails with anything but not-found leaves the zero value\<close>
  "hosted_reconcile H E sc =
     bindM configM (\<lambda>h0.
     (let cl = ho_cluster h0; name = om_Namespace (hcp_Meta (ho_kcp h0)) @ ''/'' @ om_Name (hcp_Meta (ho_kcp h0)) in
      bindM (if sp_CertificateRefs (hcp_Spec (ho_kcp h0)) = None then
               bindM (upd_hsp (\<lambda>sp. sp\<lparr>sp_CertificateRefs := Some (certificate_refs (cl_Name cl))\<rparr>)) (\<lambda>_.
               wrapM (Wrapf (''failed to ensure certificates for K0smotronControlPlane '' @ name)) (ensureHostedCertificates E sc))
             else ret ()) (\<lambda>_.
      bindM configM (\<lambda>h1.
      bindM (wrapM (\<lambda>_. Errorf (''failed to enrich k0s config with cluster data for K0smotronControlPlane '' @ name))
               (liftE (enrichK0sConfigWithClusterData (jsons (hl_lib H)) cl (sp_K0sConfig (hcp_Spec (ho_kcp h1)))))) (\<lambda>cfg.
      bindM (upd_hsp (\<lambda>sp. sp\<lparr>sp_K0sConfig := cfg\<rparr>)) (\<lambda>_.
      bindM configM (\<lambda>h2.
      tryM (hread ''kmc'' (cl_Name cl) (\<lambda>tr. he_GetKmc E tr (cluster_key cl))) (\<lambda>r.
      case r of
        Inl e \<Rightarrow>
          if is_not_found e then
            bindM (hwrite E (CreateKmc (desired_kmc H h2))) (\<lambda>_.
            ret \<lparr>Requeue = True, RequeueAfter = 5 * second\<rparr>)
          else sync_spec H E zero_kmc
      | Inr foundCluster \<Rightarrow> sync_spec H E foundCluster))))))))"

subsection \<open>The external address\<close>

definition kmc_endpoint :: "hosted \<Rightarrow> Cluster \<Rightarrow> (string \<times> int) option res" where
  \<comment> \<open>the address of the control plane once it is known\<close>
  "kmc_endpoint h kmc =
     (if sp_Ingress (hcp_Spec (ho_kcp h)) \<noteq> None then
        (case sp_Ingress (kmc_Spec kmc) of
           None \<Rightarrow> Panic
         | Some i \<Rightarrow> Ok (Some (ing_APIHost i, if ing_Port i = 0 then 443 else ing_Port i)))
      else if sp_ExternalAddress (kmc_Spec kmc) = [] then Ok None
      else Ok (Some (sp_ExternalAddress (kmc_Spec kmc), svs_APIPort (sp_Service (kmc_Spec kmc)))))"

definition update_endpoint :: "host_lib \<Rightarrow> host_env \<Rightarrow> string \<times> int \<Rightarrow> unit hostM" where
  "update_endpoint H E ep =
     (case ep of (host, port) \<Rightarrow>
      bindM configM (\<lambda>h.
      (let cl = ho_cluster h in
       if hl_RefIsDefined H (cl_InfrastructureRef cl) \<and> (cl_EndpointHost cl \<noteq> host \<or> cl_EndpointPort cl \<noteq> int32 port) then
         bindM (liftC (readM (ReadReferenced (cl_InfrastructureRef cl))
                  (\<lambda>tr. e_GetReferenced (he_env E) tr CacheReader (cl_InfrastructureRef cl) (cl_Namespace cl)))) (\<lambda>infraCluster.
         bindM (liftE (SetNestedMap (jsons (hl_lib H)) (u_Content infraCluster) [(''host'', JStr host), (''port'', JInt port)]
                  [''spec'', ''controlPlaneEndpoint''])) (\<lambda>content.
         bindM (hwrite E (UpdateInfraCluster (infraCluster\<lparr>u_Content := content\<rparr>))) (\<lambda>_.
         set_configM (\<lambda>h. h\<lparr>ho_cluster := (ho_cluster h)\<lparr>cl_EndpointHost := host, cl_EndpointPort := int32 port\<rparr>\<rparr>))))
       else ret ())))"

definition try_address :: "host_lib \<Rightarrow> host_env \<Rightarrow> bool hostM" where
  \<comment> \<open>one attempt of the poll\<close>
  "try_address H E =
     bindM configM (\<lambda>h.
     bindM (hread ''kmc'' (cl_Name (ho_cluster h)) (\<lambda>tr. he_GetKmc E tr (cluster_key (ho_cluster h)))) (\<lambda>kmc.
     bindM (liftR (kmc_endpoint h kmc)) (\<lambda>ep.
     case ep of
       None \<Rightarrow> ret False
     | Some hp \<Rightarrow> bindM (update_endpoint H E hp) (\<lambda>_. ret True))))"

fun poll_address :: "nat \<Rightarrow> host_lib \<Rightarrow> host_env \<Rightarrow> int \<Rightarrow> unit hostM" where
  "poll_address 0 H E deadline = failM (Errorf ''context deadline exceeded'')"
| "poll_address (Suc n) H E deadline =
     bindM (try_address H E) (\<lambda>done.
     if done then ret ()
     else bindM (liftC (nowM (he_env E))) (\<lambda>now.
       if now \<ge> deadline then failM (Errorf ''context deadline exceeded'') else poll_address n H E deadline))"

definition address_attempts :: nat where
  \<comment> \<open>ticks of a second in three minutes, and the immediate attempt\<close>
  "address_attempts = 181"

definition ensureExternalAddress :: "host_lib \<Rightarrow> host_env \<Rightarrow> unit hostM" where
  "ensureExternalAddress H E =
     bindM (liftC (nowM (he_env E))) (\<lambda>startTime. poll_address address_attempts H E (startTime + 3 * minute))"

subsection \<open>Status\<close>

definition set_hcp_condition :: "host_lib \<Rightarrow> host_env \<Rightarrow> condition \<Rightarrow> unit hostM" where
  "set_hcp_condition H E c =
     bindM (liftC (nowM (he_env E))) (\<lambda>now.
     upd_hst (\<lambda>st. st\<lparr>hst_Conditions := cond_Set (conds (hl_lib H)) now (hst_Conditions st) c\<rparr>))"

definition hosted_setUnavailable :: "host_lib \<Rightarrow> host_env \<Rightarrow> string \<Rightarrow> unit hostM" where
  \<comment> \<open>\<open>setUnavailableAfterGracePeriod\<close> for a \<open>K0smotronControlPlane\<close>\<close>
  "hosted_setUnavailable H E cause =
     bindM configM (\<lambda>h.
     bindM (liftC (nowM (he_env E))) (\<lambda>now.
     bindM (liftC (getM availabilityFailures)) (\<lambda>failures.
     (let meta = hcp_Meta (ho_kcp h);
          key = availabilityKey meta;
          existing = cond_Get (conds (hl_lib H)) (hst_Conditions (hcp_Status (ho_kcp h))) ControlPlaneAvailableCondition;
          state = next_failure (failures key) existing (om_CreationTimestamp meta) now
      in bindM (liftC (modM (\<lambda>s. s\<lparr>availabilityFailures := (availabilityFailures s)(key \<mapsto> state)\<rparr>))) (\<lambda>_.
         upd_hst (\<lambda>st. st\<lparr>hst_Conditions := cond_Set (conds (hl_lib H)) now (hst_Conditions st)
           (availabilityCondition existing now (af_since state) availabilityGracePeriod (af_seen state) cause)\<rparr>))))))"

definition hosted_computeAvailability :: "host_lib \<Rightarrow> host_env \<Rightarrow> unit hostM" where
  "hosted_computeAvailability H E =
     bindM configM (\<lambda>h.
     (let everReached = initialized (hst_ControlPlaneInitialized (hcp_Status (ho_kcp h)));
          unreadable = (\<lambda>e. if \<not> everReached then ret () else hosted_setUnavailable H E (error_text e))
      in bindM (if \<not> everReached
                then set_hcp_condition H E (mk_condition ControlPlaneAvailableCondition ConditionUnknown
                       ControlPlaneAvailableUnknownReason ''the workload cluster API has not been reached yet'')
                else ret ()) (\<lambda>_.
         tryM (hread ''client'' (cl_Name (ho_cluster h))
                 (\<lambda>tr. case he_GetUncachedClient E tr (cluster_key (ho_cluster h)) of None \<Rightarrow> Inr () | Some e \<Rightarrow> Inl e)) (\<lambda>c.
         case c of
           Inl e \<Rightarrow> unreadable e
         | Inr _ \<Rightarrow>
             tryM (liftC (readM ReadKubeSystem (e_GetKubeSystem (he_env E)))) (\<lambda>q.
             case q of
               Inl e \<Rightarrow> unreadable e
             | Inr uid \<Rightarrow>
                 bindM (liftC (clearAvailabilityFailures (hcp_Meta (ho_kcp h)))) (\<lambda>_.
                 bindM (set_hcp_condition H E (mk_condition ControlPlaneAvailableCondition ConditionTrue
                          ControlPlaneAvailableReason [])) (\<lambda>_.
                 bindM (upd_hst (\<lambda>st. st\<lparr>hst_ControlPlaneInitialized := Some True\<rparr>)) (\<lambda>_.
                 set_configM (\<lambda>h. h\<lparr>ho_cluster := (ho_cluster h)\<lparr>cl_Annotations :=
                   (cl_Annotations (ho_cluster h))(K0sClusterIDAnnotation \<mapsto> ''kube-system:'' @ uid)\<rparr>\<rparr>)))))))))"

definition alignToSpecVersionFormat :: "ver_lib \<Rightarrow> string \<Rightarrow> string \<Rightarrow> gerror + string" where
  "alignToSpecVersionFormat V specVersion currentVersion =
     (let specPlus = contains (ver_String V specVersion) ''+k0s.'';
          currentPlus = contains (ver_String V currentVersion) ''+k0s.'';
          s = ver_String V currentVersion;
          parsed = (\<lambda>v. case ver_NewVersion V v of None \<Rightarrow> Inr v | Some e \<Rightarrow> Inl e)
      in if specPlus \<and> currentPlus \<or> \<not> specPlus \<and> \<not> currentPlus then Inr currentVersion
         else if \<not> specPlus then parsed (replace_first ''+k0s.'' ''-k0s.'' s)
         else parsed (replace_first ''-k0s.'' ''+k0s.'' s))"

definition getK0sVersionRunningInPod :: "host_lib \<Rightarrow> host_env \<Rightarrow> kmcScope \<Rightarrow> pod \<Rightarrow> string hostM" where
  "getK0sVersionRunningInPod H E sc p =
     bindM (hread ''exec'' (pod_Name p) (\<lambda>tr. he_PodExec E tr (km_client sc) (pod_Namespace p, pod_Name p) ''k0s version'')) (\<lambda>out.
     (let v = trim_suffix out newline in
      case ver_NewVersion (vers (hl_lib H)) v of None \<Rightarrow> ret v | Some e \<Rightarrow> failM e))"

definition pod_ready :: "pod \<Rightarrow> bool" where
  "pod_ready p = list_ex (\<lambda>(ty, st). ty = ''Ready'' \<and> st = ''True'') (pod_Conditions p)"

record pod_counts =
  pc_upToDate :: int
  pc_ready :: int
  pc_unavailable :: int
  pc_minimum :: string

fun count_pods :: "host_lib \<Rightarrow> host_env \<Rightarrow> kmcScope \<Rightarrow> string \<Rightarrow> pod_counts \<Rightarrow> pod list \<Rightarrow> pod_counts hostM" where
  \<comment> \<open>the loop over the pods; the desired version is the fourth argument\<close>
  "count_pods H E sc desired n [] = ret n"
| "count_pods H E sc desired n (p # ps) =
     (if \<not> pod_ready p then count_pods H E sc desired (n\<lparr>pc_unavailable := pc_unavailable n + 1\<rparr>) ps
      else
        bindM (getK0sVersionRunningInPod H E sc p) (\<lambda>v.
        bindM (liftE (alignToSpecVersionFormat (vers (hl_lib H)) desired v)) (\<lambda>current.
        count_pods H E sc desired
          (n\<lparr>pc_ready := pc_ready n + 1,
             pc_upToDate := pc_upToDate n + (if ver_Equal (vers (hl_lib H)) desired current then 1 else 0),
             pc_minimum := (if ver_LessThan (vers (hl_lib H)) current (pc_minimum n) then current else pc_minimum n)\<rparr>) ps)))"

definition listControlPlanePods :: "host_env \<Rightarrow> mgmt_client \<Rightarrow> cluster \<Rightarrow> pod list hostM" where
  "listControlPlanePods E c cl =
     hread ''pods'' (cl_Name cl) (\<lambda>tr. he_ListPods E tr c (cl_Namespace cl)
       [(''cluster.x-k8s.io/cluster-name'', cl_Name cl), (''cluster.x-k8s.io/control-plane'', ''true'')])"

definition desired_version :: "string \<Rightarrow> string" where
  "desired_version v = (if \<not> contains v ''-k0s.'' \<and> \<not> contains v ''+k0s.'' then v @ ''+'' @ DefaultK0SSuffix else v)"

definition set_replicas :: "ver_lib \<Rightarrow> nat \<Rightarrow> pod_counts \<Rightarrow> K0smotronControlPlaneStatus \<Rightarrow> K0smotronControlPlaneStatus" where
  "set_replicas V nPods n st =
     (let st1 = st\<lparr>hst_Replicas := Some (of_nat nPods), hst_UpToDateReplicas := Some (word_of_int (pc_upToDate n)),
            hst_ReadyReplicas := Some (word_of_int (pc_ready n)),
            hst_AvailableReplicas := Some (of_nat nPods - word_of_int (pc_unavailable n))\<rparr>
      in if sint (deref 0 (hst_ReadyReplicas st1)) > 0 then st1\<lparr>hst_Version := ver_String V (pc_minimum n)\<rparr> else st1)"

definition is_settled :: "host_lib \<Rightarrow> string \<Rightarrow> K0smotronControlPlaneStatus \<Rightarrow> pod_counts \<Rightarrow> bool" where
  \<comment> \<open>no reason to requeue: of the desired version, the status and the counts\<close>
  "is_settled H desired st n \<longleftrightarrow>
     \<not> (pc_unavailable n > 0 \<or> ver_String (vers (hl_lib H)) desired \<noteq> hst_Version st \<or>
        \<not> cond_IsTrue (conds (hl_lib H)) (hst_Conditions st) ControlPlaneAvailableCondition)"

definition report_pods :: "host_lib \<Rightarrow> host_env \<Rightarrow> kmcScope \<Rightarrow> pod list \<Rightarrow> unit hostM" where
  \<comment> \<open>the end of \<open>computeStatus\<close>, with the pods that were listed\<close>
  "report_pods H E sc pods =
     bindM configM (\<lambda>h.
     (let V = vers (hl_lib H); desired = desired_version (sp_Version (hcp_Spec (ho_kcp h))) in
      case ver_NewVersion V desired of
        Some e \<Rightarrow> failM e
      | None \<Rightarrow>
          bindM (count_pods H E sc desired
                   \<lparr>pc_upToDate = 0, pc_ready = 0, pc_unavailable = 0, pc_minimum = desired\<rparr> pods) (\<lambda>n.
          bindM (upd_hst (set_replicas V (length pods) n)) (\<lambda>_.
          bindM configM (\<lambda>h'.
          if is_settled H desired (hcp_Status (ho_kcp h')) n then ret () else failM ErrNotReady)))))"

definition computeStatus :: "host_lib \<Rightarrow> host_env \<Rightarrow> kmcScope \<Rightarrow> unit hostM" where
  "computeStatus H E sc =
     bindM (hosted_computeAvailability H E) (\<lambda>_.
     bindM configM (\<lambda>h.
     (let cl = ho_cluster h in
      tryM (hread ''kmc'' (cl_Name cl) (\<lambda>tr. he_GetKmc E tr (cluster_key cl))) (\<lambda>r.
      case r of
        Inl e \<Rightarrow> if is_not_found e then ret () else failM e
      | Inr _ \<Rightarrow> bindM (listControlPlanePods E (km_client sc) cl) (report_pods H E sc)))))"

subsection \<open>The status of the infrastructure object\<close>

definition AnnotationKeyManagedBy :: string where "AnnotationKeyManagedBy = ''cluster.x-k8s.io/managed-by''"
definition AnnotationValueManagedByK0smotron :: string where "AnnotationValueManagedByK0smotron = ''k0smotron''"

definition infraContractVersion :: "host_lib \<Rightarrow> host_env \<Rightarrow> unstructured \<Rightarrow> string hostM" where
  "infraContractVersion H E infraObj =
     bindM (wrapM (Wrapf (''failed to get CRD for '' @ groupKindString (codecs (hl_lib H)) (u_APIVersion infraObj) (u_Kind infraObj)))
              (hread ''crd'' (u_Kind infraObj) (\<lambda>tr. he_GetCRD E tr infraObj))) (\<lambda>(crdName, labels).
     if deref [] (labels ''cluster.x-k8s.io/v1beta2'') \<noteq> [] then ret ''v1beta2''
     else if deref [] (labels ''cluster.x-k8s.io/v1beta1'') \<noteq> [] then ret ''v1beta1''
     else failM (Errorf (''CRD '' @ crdName @ '' has no cluster.x-k8s.io/<contract> version label'')))"

definition status_path :: "string \<Rightarrow> string list" where
  "status_path contractVersion =
     (if contractVersion = ''v1beta1'' then [''status'', ''ready''] else [''status'', ''initialization'', ''provisioned''])"

definition write_infra_status :: "host_lib \<Rightarrow> host_env \<Rightarrow> unstructured \<Rightarrow> string \<Rightarrow> bool \<Rightarrow> unit hostM" where
  \<comment> \<open>the patch and the read that checks it\<close>
  "write_infra_status H E infraObj contractVersion ready =
     (let path = status_path contractVersion; field = join_with ''.'' path in
      bindM (wrapM (Wrapf ''failed to patch Infrastructure object'') (hwrite E (PatchInfraStatus infraObj field ready))) (\<lambda>_.
      bindM (wrapM (Wrapf ''failed to re-read Infrastructure object after patch'')
               (hread ''infra'' (u_Name infraObj) (\<lambda>tr. he_GetInfraObject E tr infraObj))) (\<lambda>verify.
      if NestedBool (jsons (hl_lib H)) (u_Content verify) path = Inr (Some ready) then ret ()
      else failM (Errorf (''status patch to '' @ field @ '' did not take effect (field missing or pruned); provider may not implement the '' @
        contractVersion @ '' contract'')))))"

definition patchInfrastructureStatus :: "host_lib \<Rightarrow> host_env \<Rightarrow> unit hostM" where
  "patchInfrastructureStatus H E =
     bindM configM (\<lambda>h.
     (let cl = ho_cluster h; ready = hl_EndpointIsValid H (cl_EndpointHost cl) (cl_EndpointPort cl) in
      bindM (wrapM (Wrapf ''failed to get Infrastructure object'')
               (liftC (readM (ReadReferenced (cl_InfrastructureRef cl))
                  (\<lambda>tr. e_GetReferenced (he_env E) tr CacheReader (cl_InfrastructureRef cl) (cl_Namespace cl))))) (\<lambda>infraObj.
      if u_Annotations infraObj AnnotationKeyManagedBy \<noteq> Some AnnotationValueManagedByK0smotron then ret ()
      else
        bindM (wrapM (Wrapf ''failed to determine infrastructure contract version'') (infraContractVersion H E infraObj)) (\<lambda>v.
        bindM (wrapM (Wrapf ''failed to get provisioned status'')
                 (liftE (NestedBool (jsons (hl_lib H)) (u_Content infraObj) (status_path v)))) (\<lambda>current.
        if current = Some ready then ret ()
        else write_infra_status H E infraObj v ready)))))"

subsection \<open>Deletion\<close>

definition remove_hcp_finalizer :: "K0smotronControlPlane \<Rightarrow> K0smotronControlPlane" where
  "remove_hcp_finalizer kcp = kcp\<lparr>hcp_Meta := (hcp_Meta kcp)\<lparr>om_Finalizers :=
     filter (\<lambda>f. f \<noteq> K0smotronControlPlaneFinalizer) (om_Finalizers (hcp_Meta kcp))\<rparr>\<rparr>"

definition hosted_reconcileDelete :: "host_env \<Rightarrow> result hostM" where
  "hosted_reconcileDelete E =
     bindM configM (\<lambda>h.
     bindM (liftC (clearAvailabilityFailures (hcp_Meta (ho_kcp h)))) (\<lambda>_.
     tryM
       (bindM (hread ''kmc'' (cl_Name (ho_cluster h)) (\<lambda>tr. he_GetKmc E tr (cluster_key (ho_cluster h)))) (\<lambda>kmc.
        if om_DeletionTimestamp (kmc_Meta kmc) \<noteq> None then ret \<lparr>Requeue = True, RequeueAfter = 5 * second\<rparr>
        else bindM (hwrite E (DeleteKmc (om_Namespace (kmc_Meta kmc)) (om_Name (kmc_Meta kmc)))) (\<lambda>_. ret zero_result)))
       (\<lambda>r. case r of
              Inr res \<Rightarrow> ret res
            | Inl err \<Rightarrow> if is_not_found err then bindM (upd_hcp remove_hcp_finalizer) (\<lambda>_. ret zero_result) else failM err)))"

subsection \<open>The reconciler\<close>

definition add_err :: "gerror option \<Rightarrow> gerror + unit \<Rightarrow> gerror option" where
  \<comment> \<open>\<open>err = kerrors.NewAggregate([]error{err, derr})\<close> for an error \<open>derr\<close>\<close>
  "add_err err d = (case d of Inr _ \<Rightarrow> err | Inl derr \<Rightarrow> new_aggregate (opt_list err @ [derr]))"

definition named_results :: "result res \<Rightarrow> result \<times> gerror option" where
  \<comment> \<open>the results \<open>res\<close> and \<open>err\<close> when the deferred closure starts\<close>
  "named_results outcome = (case outcome of Ok res \<Rightarrow> (res, None) | Err e \<Rightarrow> (zero_result, Some e) | Panic \<Rightarrow> (zero_result, None))"

definition hosted_status_result :: "result \<times> gerror option \<Rightarrow> gerror + unit \<Rightarrow> result \<times> gerror option" where
  \<comment> \<open>what the error of \<open>computeStatus\<close> makes of the named results\<close>
  "hosted_status_result rr d =
     (case d of
        Inr _ \<Rightarrow> rr
      | Inl derr \<Rightarrow>
          if error_is derr ErrNotReady then (\<lparr>Requeue = True, RequeueAfter = 10 * second\<rparr>, snd rr)
          else (fst rr, add_err (snd rr) d))"

definition finish_writes :: "host_lib \<Rightarrow> host_env \<Rightarrow> result res \<Rightarrow> result \<times> gerror option \<Rightarrow> result hostM" where
  \<comment> \<open>the deferred closure after the status: \<open>outcome\<close> says whether the handler panicked, the pair holds
      the named results\<close>
  "finish_writes H E outcome = (\<lambda>(res, err0).
      bindM configM (\<lambda>h1.
      tryM (hwrite E (PatchHcp (ho_kcp h1))) (\<lambda>d1.
      tryM (hwrite E (PatchCluster (ho_cluster h1))) (\<lambda>d2.
      (let err = add_err (add_err err0 d1) d2 in
       bindM (if err \<noteq> None then ret err else tryM (patchInfrastructureStatus H E) (\<lambda>d3. ret (add_err None d3))) (\<lambda>err'.
       case outcome of
         Panic \<Rightarrow> panicM
       | _ \<Rightarrow> (case err' of Some e \<Rightarrow> failM e | None \<Rightarrow> ret res)))))))"

definition finish_hosted :: "host_lib \<Rightarrow> host_env \<Rightarrow> kmcScope \<Rightarrow> result res \<Rightarrow> result hostM" where
  \<comment> \<open>the deferred closure; \<open>outcome\<close> holds the named results so far\<close>
  "finish_hosted H E sc outcome =
     bindM configM (\<lambda>h.
     bindM (if om_DeletionTimestamp (hcp_Meta (ho_kcp h)) = None
            then tryM (computeStatus H E sc) (\<lambda>d. ret (hosted_status_result (named_results outcome) d))
            else ret (named_results outcome))
       (finish_writes H E outcome))"

definition hosted_body :: "host_lib \<Rightarrow> host_env \<Rightarrow> kmcScope \<Rightarrow> result hostM" where
  \<comment> \<open>\<open>Reconcile\<close> after the deferred closure was registered\<close>
  "hosted_body H E sc =
     bindM configM (\<lambda>h.
     if om_DeletionTimestamp (hcp_Meta (ho_kcp h)) \<noteq> None then hosted_reconcileDelete E
     else
       bindM (hosted_reconcile H E sc) (\<lambda>res.
       if res \<noteq> zero_result then ret res
       else
         bindM (ensureExternalAddress H E) (\<lambda>_.
         bindM (upd_hst (\<lambda>st. st\<lparr>hst_ExternalManagedControlPlane := Some True\<rparr>)) (\<lambda>_.
         ret res))))"

definition hosted_run :: "host_lib \<Rightarrow> host_env \<Rightarrow> kmcScope \<Rightarrow> result hostM" where
  "hosted_run H E sc = deferNamedM (hosted_body H E sc) (finish_hosted H E sc)"

definition hosted_EnsureFinalizer :: "host_env \<Rightarrow> K0smotronControlPlane \<Rightarrow> string \<Rightarrow> bool hostM" where
  \<comment> \<open>\<open>EnsureFinalizer\<close> for a \<open>K0smotronControlPlane\<close>; whether the finalizer was added\<close>
  "hosted_EnsureFinalizer E kcp finalizer =
     (if om_DeletionTimestamp (hcp_Meta kcp) \<noteq> None then ret False
      else if finalizer \<in> set (om_Finalizers (hcp_Meta kcp)) then ret False
      else
        bindM (liftC (newPatchHelper (he_env E))) (\<lambda>_.
        bindM (hwrite E (PatchHcpFinalizer (kcp\<lparr>hcp_Meta := (hcp_Meta kcp)\<lparr>om_Finalizers :=
                 om_Finalizers (hcp_Meta kcp) @ [finalizer]\<rparr>\<rparr>))) (\<lambda>_.
        ret True)))"

definition ensure_remote_owner :: "host_env \<Rightarrow> kmcScope \<Rightarrow> kmcScope hostM" where
  \<comment> \<open>the owner object in the hosting cluster, unless the control plane is being deleted\<close>
  "ensure_remote_owner E sc =
     bindM configM (\<lambda>h.
     if hosting_kubeconfig (hcp_Spec (ho_kcp h)) \<noteq> None \<and> om_DeletionTimestamp (hcp_Meta (ho_kcp h)) = None then
       bindM (EnsureNamespaceExists E (km_client sc) (cl_Namespace (ho_cluster h))) (\<lambda>_.
       bindM (EnsureExternalOwner E (km_client sc) (cl_Name (ho_cluster h)) (cl_Namespace (ho_cluster h))) (\<lambda>eo.
       ret (sc\<lparr>km_externalOwner := Some eo\<rparr>)))
     else ret sc)"

definition hosted_with_cluster :: "host_lib \<Rightarrow> host_env \<Rightarrow> result hostM" where
  \<comment> \<open>\<open>Reconcile\<close> once the two objects are known\<close>
  "hosted_with_cluster H E =
     tryM (liftC (newPatchHelper (he_env E))) (\<lambda>p1.
     case p1 of Inl _ \<Rightarrow> ret \<lparr>Requeue = True, RequeueAfter = 0\<rparr> | Inr _ \<Rightarrow>
     tryM (liftC (newPatchHelper (he_env E))) (\<lambda>p2.
     case p2 of Inl _ \<Rightarrow> ret \<lparr>Requeue = True, RequeueAfter = 0\<rparr> | Inr _ \<Rightarrow>
     bindM (liftC (readM ReadPaused (e_EnsurePaused (he_env E)))) (\<lambda>(isPaused, requeue).
     if isPaused \<or> requeue then ret zero_result
     else
       bindM (getKmcScope E) (\<lambda>sc0.
       bindM (ensure_remote_owner E sc0) (\<lambda>sc.
       hosted_run H E sc)))))"

definition hosted_Reconcile :: "host_lib \<Rightarrow> host_env \<Rightarrow> string \<times> string \<Rightarrow> result hostM" where
  "hosted_Reconcile H E key =
     tryM (hread ''kcp'' (snd key) (\<lambda>tr. he_GetHcp E tr key)) (\<lambda>g.
     case g of
       Inl e \<Rightarrow> if is_not_found e then ret zero_result else failM e
     | Inr kcp \<Rightarrow>
         bindM (hosted_EnsureFinalizer E kcp K0smotronControlPlaneFinalizer) (\<lambda>finalizerAdded.
         if finalizerAdded then ret zero_result
         else
           bindM (liftC (readM ReadOwnerCluster (\<lambda>tr. e_OwnerCluster (he_env E) tr (hcp_Meta kcp)))) (\<lambda>owner.
           case owner of
             None \<Rightarrow> ret zero_result
           | Some cl \<Rightarrow>
               bindM (set_configM (\<lambda>_. \<lparr>ho_kcp = kcp, ho_cluster = cl\<rparr>)) (\<lambda>_. hosted_with_cluster H E))))"

definition clusterToK0smotronControlPlane :: "cluster option \<Rightarrow> (string \<times> string) list" where
  \<comment> \<open>\<open>None\<close> is an object of another type\<close>
  "clusterToK0smotronControlPlane ob =
     (case ob of
        None \<Rightarrow> []
      | Some cl \<Rightarrow>
          (let ref = cl_ControlPlaneRef cl in
           if r_Kind ref \<noteq> ''K0smotronControlPlane'' \<or> r_Name ref = [] then []
           else [(cl_Namespace cl, r_Name ref)]))"

end
