(* ===== verification/Hosted_Properties.thy ===== *)
theory Hosted_Properties
  imports Hosted_ControlPlane
begin

text \<open>
  What the controller of \<open>K0smotronControlPlane\<close> guarantees, over the definitions of
  \<open>Hosted_ControlPlane\<close>. The frame \<open>calm\<close> says that a part of a run keeps the metadata
  of the control plane and does not patch it; the parts of the reconciler are calm except the
  deletion and the deferred closure.
\<close>

subsection \<open>Runs\<close>

lemma run_hwrite [simp]: "hwrite E rq s =
    ((case e_write (he_env E) (trace (bs_ctl s)) rq of None \<Rightarrow> Ok () | Some e \<Rightarrow> Err e),
     s\<lparr>bs_ctl := log_event (Wrote rq (e_write (he_env E) (trace (bs_ctl s)) rq)) (bs_ctl s)\<rparr>)"
  by (simp add: hwrite_def)

lemma run_upd_hcp [simp]: "upd_hcp f s = (Ok (), s\<lparr>bs_config := (bs_config s)\<lparr>ho_kcp := f (ho_kcp (bs_config s))\<rparr>\<rparr>)"
  by (simp add: upd_hcp_def)

lemma run_upd_hst [simp]: "upd_hst f s = upd_hcp (\<lambda>k. k\<lparr>hcp_Status := f (hcp_Status k)\<rparr>) s"
  by (simp only: upd_hst_def)

lemma run_upd_hsp [simp]: "upd_hsp f s = upd_hcp (\<lambda>k. k\<lparr>hcp_Spec := f (hcp_Spec k)\<rparr>) s"
  by (simp only: upd_hsp_def)

subsection \<open>The specification is written once\<close>

lemma with_spec_fields [simp]:
  "om_Annotations (kmc_Meta (with_spec kmc h sp)) AnnotationKeyClusterSpecHash = Some h"
  "kmc_Spec (with_spec kmc h sp) = sp"
  by (simp_all add: with_spec_def)

lemma synced_with_spec:
  "isClusterSpecSynced H (with_spec kmc h sp) sp' =
     Ok (Inr (sp_ExternalAddress sp = sp_ExternalAddress sp' \<and> generateClusterSpecHashWithoutExternalAddress H sp' = h,
       generateClusterSpecHashWithoutExternalAddress H sp'))"
  by (simp add: isClusterSpecSynced_def Let_def)

lemma synced_hash: "isClusterSpecSynced H kmc sp = Ok (Inr (b, h)) \<Longrightarrow> h = generateClusterSpecHashWithoutExternalAddress H sp"
  by (auto simp: isClusterSpecSynced_def Let_def split: option.splits res.splits sum.splits)

lemma default_address_idem:
  fixes t :: "hosted bstate"
  shows "sp_ExternalAddress (hcp_Spec (ho_kcp (bs_config t))) = a \<Longrightarrow>
    upd_hsp (\<lambda>sp. if sp_ExternalAddress sp = [] then sp\<lparr>sp_ExternalAddress := a\<rparr> else sp) t = (Ok (), t)"
  by (cases t; cases "bs_config t"; cases "ho_kcp (bs_config t)"; cases "hcp_Spec (ho_kcp (bs_config t))") auto

definition with_address :: "string \<Rightarrow> hosted bstate \<Rightarrow> hosted bstate" where
  \<comment> \<open>the state once the address of the cluster was taken over\<close>
  "with_address a s = snd (upd_hsp (\<lambda>sp. if sp_ExternalAddress sp = [] then sp\<lparr>sp_ExternalAddress := a\<rparr> else sp) s)"

lemma with_address_ctl [simp]: "bs_ctl (with_address a s) = bs_ctl s"
  by (simp add: with_address_def)

lemma sync_spec_run:
  "sync_spec H E found s =
     (let s0 = with_address (sp_ExternalAddress (kmc_Spec found)) s; sp = hcp_Spec (ho_kcp (bs_config s0)) in
      case isClusterSpecSynced H found sp of
        Ok (Inr (True, h)) \<Rightarrow> (Ok zero_result, s0)
      | Ok (Inr (False, h)) \<Rightarrow>
          bindM (liftC (newPatchHelper (he_env E))) (\<lambda>_. bindM (hwrite E (PatchKmc found (with_spec found h sp))) (\<lambda>_. ret zero_result)) s0
      | Ok (Inl e) \<Rightarrow> (Err (Wrapf ''error comparing cluster spec between k0smotron.Cluster and k0smotronControlPlane'' e), s0)
      | Err e \<Rightarrow> (Err (Wrapf ''error comparing cluster spec between k0smotron.Cluster and k0smotronControlPlane'' e), s0)
      | Panic \<Rightarrow> (Panic, s0))"
  unfolding sync_spec_def with_address_def Let_def
  by (simp add: run_bindM run_wrapM split: res.splits sum.splits prod.splits bool.splits)

lemma sync_spec_patched:
  assumes run: "sync_spec H E found s = (r, t)" and ev: "Wrote (PatchKmc kmc new) x \<in> set (b_events s t)"
  shows "new = with_spec found (generateClusterSpecHashWithoutExternalAddress H (hcp_Spec (ho_kcp (bs_config t)))) (hcp_Spec (ho_kcp (bs_config t)))"
proof -
  define s0 where "s0 = with_address (sp_ExternalAddress (kmc_Spec found)) s"
  have ctl: "bs_ctl s0 = bs_ctl s"
    by (simp add: s0_def)
  then have "b_events s s0 = []"
    by (simp add: b_events_def new_events_def)
  with ev have "t \<noteq> s0"
    by auto
  with run obtain h where unsynced: "isClusterSpecSynced H found (hcp_Spec (ho_kcp (bs_config s0))) = Ok (Inr (False, h))"
    and rest: "bindM (liftC (newPatchHelper (he_env E))) (\<lambda>_. bindM (hwrite E (PatchKmc found
        (with_spec found h (hcp_Spec (ho_kcp (bs_config s0)))))) (\<lambda>_. ret zero_result)) s0 = (r, t)"
    unfolding sync_spec_run Let_def s0_def [symmetric]
    by (auto split: res.splits sum.splits bool.splits)
  from rest have t: "bs_config t = bs_config s0"
    by (auto simp: run_bindM run_liftC split: option.splits)
  from rest ctl ev have "new = with_spec found h (hcp_Spec (ho_kcp (bs_config s0)))"
    by (auto simp: run_bindM run_liftC b_events_def new_events_def split: option.splits)
  with t synced_hash [OF unsynced] show ?thesis
    by simp
qed

text \<open>
  Once the cluster was patched to the specification of the control plane, the next
  comparison, against the cluster that was written and in whatever world, finds it in step: nothing is
  written and no error is returned.
\<close>
theorem spec_is_written_once:
  assumes run: "sync_spec H E found s = (r, t)" and ev: "Wrote (PatchKmc kmc new) x \<in> set (b_events s t)"
  shows "sync_spec H E' new t = (Ok zero_result, t)"
proof -
  note new = sync_spec_patched [OF run ev]
  have "with_address (sp_ExternalAddress (kmc_Spec new)) t = t"
    unfolding with_address_def by (subst default_address_idem) (simp_all add: new)
  then show ?thesis
    by (simp add: sync_spec_run Let_def) (simp add: new synced_with_spec)
qed

subsection \<open>Changes of the specification are noticed\<close>

lemma digit_char_inj: "a < 10 \<Longrightarrow> b < 10 \<Longrightarrow> digit_char a = digit_char b \<longleftrightarrow> a = b"
  using inj_onD [OF inj_on_char_of_nat, of "48 + a" "48 + b"]
  by (auto simp: digit_char_def)

lemma show_nat_Nil [simp]: "show_nat n \<noteq> []"
  by (subst show_nat.simps) simp

lemma show_nat_inj: "show_nat a = show_nat b \<Longrightarrow> a = b"
proof (induction a arbitrary: b rule: show_nat.induct)
  case (1 a)
  show ?case
  proof (cases "a < 10 \<or> b < 10")
    case True
    with 1(2) show ?thesis
      by (subst (asm) (1 2) show_nat.simps) (auto simp: digit_char_inj eq_commute [of "[]"] split: if_splits)
  next
    case False
    then have eq: "show_nat (a div 10) = show_nat (b div 10)" "a mod 10 = b mod 10"
      using 1(2) by (subst (asm) (1 2) show_nat.simps, simp add: digit_char_inj)+
    have "a div 10 = b div 10"
      using 1(1) [OF _ eq(1)] False by blast
    with eq(2) show ?thesis
      by (metis div_mult_mod_eq)
  qed
qed

text \<open>
  A cluster that was written with one specification is not in step with another one whose
  JSON form, address aside, differs in a single byte: the 32-bit hash in the annotation tells all such pairs
  apart. The encoding of the hash has to keep different numbers different.
\<close>
theorem one_byte_change_is_noticed:
  assumes enc: "inj_on (hl_SafeEncodeString H) (range show_nat)"
    and json: "hl_MarshalSpec H (old\<lparr>sp_ExternalAddress := []\<rparr>) = pre @ c # post"
      "hl_MarshalSpec H (new\<lparr>sp_ExternalAddress := []\<rparr>) = pre @ c' # post" "c \<noteq> c'"
  shows "\<exists>h. isClusterSpecSynced H
    (with_spec kmc (generateClusterSpecHashWithoutExternalAddress H old) old) new = Ok (Inr (False, h))"
proof -
  have "unat (fnv1a (pre @ c # post)) \<noteq> unat (fnv1a (pre @ c' # post))"
    using fnv1a_one_byte [OF json(3)] by (metis word_unat_eq_iff)
  then have "generateClusterSpecHashWithoutExternalAddress H old \<noteq> generateClusterSpecHashWithoutExternalAddress H new"
    unfolding generateClusterSpecHashWithoutExternalAddress_def json
    using inj_onD [OF enc] show_nat_inj by blast
  then show ?thesis
    by (simp add: synced_with_spec)
qed

subsection \<open>A small world\<close>

definition ref_alphanums :: string where "ref_alphanums = ''bcdfghjklmnpqrstvwxz2456789''"

definition ref_hl :: host_lib where
  "ref_hl = \<lparr>hl_lib = ref_lib, hl_MarshalSpec = (\<lambda>sp. ''{version:'' @ sp_Version sp @ ''}''),
     hl_SafeEncodeString = map (\<lambda>ch. ref_alphanums ! (of_char ch mod 27)),
     hl_MergeSpec = (\<lambda>_ sp. Inr sp), hl_RefIsDefined = (\<lambda>r. r_Name r \<noteq> []),
     hl_EndpointIsValid = (\<lambda>host port. host \<noteq> [] \<and> port \<noteq> 0)\<rparr>"

lemma show_nat_digits: "set (show_nat n) \<subseteq> digit_char ` {..<10}"
proof (induction n rule: show_nat.induct)
  case (1 n)
  show ?case
    using 1 by (subst show_nat.simps) auto
qed

lemma ref_alphanums_inj: "inj_on (\<lambda>ch. ref_alphanums ! (of_char ch mod 27)) (digit_char ` {..<10})"
proof -
  have "distinct (map (\<lambda>ch. ref_alphanums ! (of_char ch mod 27)) (map digit_char [0..<10]))"
    by code_simp
  then show ?thesis
    by (intro inj_on_imageI) (simp add: distinct_map atLeast0LessThan del: upt.simps)
qed

lemma ref_encode_inj: "inj_on (hl_SafeEncodeString ref_hl) (range show_nat)"
proof (rule inj_onI)
  fix x y assume "x \<in> range show_nat" "y \<in> range show_nat" "hl_SafeEncodeString ref_hl x = hl_SafeEncodeString ref_hl y"
  moreover then have "set x \<union> set y \<subseteq> digit_char ` {..<10}"
    using show_nat_digits by auto
  ultimately show "x = y"
    using inj_on_subset [OF ref_alphanums_inj, of "set x \<union> set y"] by (simp add: ref_hl_def map_inj_on)
qed

theorem one_byte_change_is_noticed_witness:
  "\<exists>h. isClusterSpecSynced ref_hl
     (with_spec zero_kmc (generateClusterSpecHashWithoutExternalAddress ref_hl (zero_spec\<lparr>sp_Version := ''v1.33.1''\<rparr>))
        (zero_spec\<lparr>sp_Version := ''v1.33.1''\<rparr>)) (zero_spec\<lparr>sp_Version := ''v1.33.2''\<rparr>) = Ok (Inr (False, h))"
  by (rule one_byte_change_is_noticed [OF ref_encode_inj, where pre = "''{version:v1.33.''" and c = "CHR ''1''" and
        c' = "CHR ''2''" and post = "''}''"]) (simp_all add: ref_hl_def zero_spec_def)

subsection \<open>The counters\<close>

lemma count_pods_sums:
  "count_pods H E sc d n ps s = (Ok n', t) \<Longrightarrow>
     pc_ready n' + pc_unavailable n' = pc_ready n + pc_unavailable n + int (length ps) \<and>
     pc_unavailable n \<le> pc_unavailable n' \<and> pc_upToDate n \<le> pc_upToDate n' \<and>
     pc_upToDate n' - pc_upToDate n \<le> pc_ready n' - pc_ready n"
proof (induction ps arbitrary: n s)
  case (Cons p ps)
  show ?case
  proof (cases "pod_ready p")
    case False
    with Cons.IH [of "n\<lparr>pc_unavailable := pc_unavailable n + 1\<rparr>" s] Cons.prems show ?thesis
      by simp
  next
    case True
    with Cons.prems obtain m u where "count_pods H E sc d m ps u = (Ok n', t)"
      and m: "pc_ready m = pc_ready n + 1" "pc_unavailable m = pc_unavailable n"
      "pc_upToDate m = pc_upToDate n \<or> pc_upToDate m = pc_upToDate n + 1"
      by (auto elim!: bindM_OkE split: if_splits)
    with Cons.IH [of m u] show ?thesis
      by auto
  qed
qed simp

definition counters :: "hosted bstate \<Rightarrow> 32 word option \<times> 32 word option \<times> 32 word option \<times> 32 word option" where
  \<comment> \<open>replicas, up to date, ready and available\<close>
  "counters s = (let st = hcp_Status (ho_kcp (bs_config s)) in
     (hst_Replicas st, hst_UpToDateReplicas st, hst_ReadyReplicas st, hst_AvailableReplicas st))"

definition same_counters :: "hosted bstate \<Rightarrow> hosted bstate \<Rightarrow> bool" where
  "same_counters s s' \<longleftrightarrow> counters s' = counters s"

interpretation same_counters: frame_order same_counters
  by unfold_locales (simp_all add: same_counters_def)

lemma same_counters_config: "keeps same_config m \<Longrightarrow> keeps same_counters m"
  by (simp add: keeps_def same_config_def same_counters_def counters_def)

lemma same_config_hwrite: "keeps same_config (hwrite E rq)"
  by (simp add: keeps_def same_config_def)

lemma same_counters_upd: "(\<And>st. hst_Replicas (f st) = hst_Replicas st \<and> hst_UpToDateReplicas (f st) = hst_UpToDateReplicas st \<and>
    hst_ReadyReplicas (f st) = hst_ReadyReplicas st \<and> hst_AvailableReplicas (f st) = hst_AvailableReplicas st) \<Longrightarrow> keeps same_counters (upd_hst f)"
  by (simp add: keeps_def same_counters_def counters_def Let_def)

lemma same_counters_cluster: "keeps same_counters (set_configM (\<lambda>h. h\<lparr>ho_cluster := f (ho_cluster h)\<rparr>))"
  by (simp add: keeps_def same_counters_def counters_def)

lemmas same_counters_rules = same_counters.keeps_intros same_counters_cluster same_counters_upd
  same_config_liftC [THEN same_counters_config] same_config_reads [THEN same_counters_config]

lemma set_hcp_condition_counters: "keeps same_counters (set_hcp_condition H E c)"
  unfolding set_hcp_condition_def by (intro same_counters_rules) simp

lemma hosted_setUnavailable_counters: "keeps same_counters (hosted_setUnavailable H E c)"
  unfolding hosted_setUnavailable_def Let_def by (intro same_counters_rules) simp

lemma computeAvailability_counters: "keeps same_counters (hosted_computeAvailability H E)"
  unfolding hosted_computeAvailability_def Let_def
  by (intro same_counters_rules set_hcp_condition_counters)
    (auto intro!: same_counters_rules set_hcp_condition_counters hosted_setUnavailable_counters split: sum.splits)

lemma count_pods_config: "keeps same_config (count_pods H E sc d n ps)"
proof (induction ps arbitrary: n)
  case (Cons p ps)
  then show ?case
    by (auto intro!: same_config_rules simp: getK0sVersionRunningInPod_def Let_def split: option.splits)
qed (simp add: same_config_rules)

definition consistent :: "32 word option \<times> 32 word option \<times> 32 word option \<times> 32 word option \<Rightarrow> bool" where
  \<comment> \<open>up to date $\le$ ready = available $\le$ replicas, with no wrap-around\<close>
  "consistent c \<longleftrightarrow> (\<exists>n u k. c = (Some (of_nat n), Some (of_nat u), Some (of_nat k), Some (of_nat k)) \<and> u \<le> k \<and> k \<le> n \<and> n < 2 ^ 31)"

lemma set_replicas_consistent:
  assumes run: "count_pods H E sc d \<lparr>pc_upToDate = 0, pc_ready = 0, pc_unavailable = 0, pc_minimum = v\<rparr> ps s = (Ok n, t)"
    and few: "length ps < 2 ^ 31"
    and st: "hcp_Status (ho_kcp (bs_config u)) = set_replicas V (length ps) n st"
  shows "consistent (counters u)"
proof -
  obtain a b c where n: "pc_upToDate n = int a" "pc_ready n = int b" "pc_unavailable n = int c" "b + c = length ps" "a \<le> b"
  proof -
    from count_pods_sums [OF run] have "pc_ready n + pc_unavailable n = int (length ps)" "0 \<le> pc_unavailable n" "0 \<le> pc_upToDate n"
      "pc_upToDate n \<le> pc_ready n"
      by simp_all
    then show ?thesis
      by (intro that [of "nat (pc_upToDate n)" "nat (pc_ready n)" "nat (pc_unavailable n)"]) simp_all
  qed
  have "(of_nat (length ps) - of_nat c :: 32 word) = of_nat b"
    by (simp flip: n(4))
  with n st few show ?thesis
    unfolding consistent_def counters_def
    by (intro exI [of _ "length ps"] exI [of _ a] exI [of _ b]) (simp add: set_replicas_def Let_def)
qed

lemma report_pods_E:
  \<comment> \<open>an error before the counters are known, or the counters of the listed pods\<close>
  assumes "report_pods H E sc ps s = (r, t)"
  obtains (failed) "bs_config t = bs_config s" and "r \<noteq> Ok ()"
  | (counted) n u where "count_pods H E sc (desired_version (sp_Version (hcp_Spec (ho_kcp (bs_config s)))))
        \<lparr>pc_upToDate = 0, pc_ready = 0, pc_unavailable = 0,
         pc_minimum = desired_version (sp_Version (hcp_Spec (ho_kcp (bs_config s))))\<rparr> ps s = (Ok n, u)"
      and "hcp_Status (ho_kcp (bs_config t)) = set_replicas (vers (hl_lib H)) (length ps) n (hcp_Status (ho_kcp (bs_config u)))"
      and "hcp_Spec (ho_kcp (bs_config t)) = hcp_Spec (ho_kcp (bs_config s))"
      and "r = (if is_settled H (desired_version (sp_Version (hcp_Spec (ho_kcp (bs_config s))))) (hcp_Status (ho_kcp (bs_config t))) n
                then Ok () else Err ErrNotReady)"
proof (cases "ver_NewVersion (vers (hl_lib H)) (desired_version (sp_Version (hcp_Spec (ho_kcp (bs_config s)))))")
  case None
  obtain q u where count: "count_pods H E sc (desired_version (sp_Version (hcp_Spec (ho_kcp (bs_config s)))))
        \<lparr>pc_upToDate = 0, pc_ready = 0, pc_unavailable = 0,
         pc_minimum = desired_version (sp_Version (hcp_Spec (ho_kcp (bs_config s))))\<rparr> ps s = (q, u)"
    by fastforce
  have u: "bs_config u = bs_config s"
    using keepsD [OF count_pods_config count] by (simp add: same_config_def)
  note run = assms [unfolded report_pods_def run_bindM Let_def run_configM, simplified None count prod.case res.case option.case run_bindM]
  show ?thesis
  proof (cases q)
    case (Ok n)
    show ?thesis
      using run count u Ok by (intro counted [of n u]) (auto split: if_splits)
  next
    case (Err e)
    with run u show ?thesis
      by (intro failed) auto
  next
    case Panic
    with run u show ?thesis
      by (intro failed) auto
  qed
next
  case (Some e)
  have "report_pods H E sc ps s = (Err e, s)"
    by (simp add: report_pods_def run_bindM Some)
  with assms show ?thesis
    by (intro failed) auto
qed

lemma report_pods_counters:
  assumes run: "report_pods H E sc ps s = (r, t)" and few: "length ps < 2 ^ 31"
  shows "counters t = counters s \<or> consistent (counters t) \<and> (r = Ok () \<or> r = Err ErrNotReady)"
  using run
proof (cases rule: report_pods_E)
  case failed
  then show ?thesis
    by (simp add: counters_def)
next
  case (counted n u)
  then show ?thesis
    using set_replicas_consistent [OF counted(1) few counted(2)] by auto
qed

lemma computeStatus_E:
  \<comment> \<open>it ended before the pods were listed, or with what the pods gave\<close>
  assumes "computeStatus H E sc s = (r, t)"
  obtains (early) s1 q where "hosted_computeAvailability H E s = (q, s1)" and "bs_config t = bs_config s1" and
      "r = Ok () \<longrightarrow> (\<exists>pre e. he_GetKmc E pre (cluster_key (ho_cluster (bs_config s1))) = Inl e \<and> is_not_found e)"
  | (pods) s1 s2 ps tr c ns sel where "hosted_computeAvailability H E s = (Ok (), s1)" and "bs_config s2 = bs_config s1"
      and "he_ListPods E tr c ns sel = Inr ps" and "report_pods H E sc ps s2 = (r, t)"
proof -
  obtain q s1 where avail: "hosted_computeAvailability H E s = (q, s1)"
    by fastforce
  show ?thesis
  proof (cases q)
    case (Ok x)
    note run = assms [unfolded computeStatus_def run_bindM avail Ok Let_def listControlPlanePods_def, simplified]
    show ?thesis
    proof (cases "he_GetKmc E (trace (bs_ctl s1)) (cluster_key (ho_cluster (bs_config s1)))")
      case (Inl e)
      with run avail show ?thesis
        by (intro early [of q s1]) (auto simp: run_tryM split: if_splits)
    next
      case (Inr kmc)
      let ?s = "s1\<lparr>bs_ctl := log_event (Read (ReadOther ''kmc'' (cl_Name (ho_cluster (bs_config s1))))) (bs_ctl s1)\<rparr>"
      show ?thesis
      proof (cases "he_ListPods E (trace (bs_ctl ?s)) (km_client sc) (cl_Namespace (ho_cluster (bs_config s1)))
          [(''cluster.x-k8s.io/cluster-name'', cl_Name (ho_cluster (bs_config s1))), (''cluster.x-k8s.io/control-plane'', ''true'')]")
        case list: (Inl e)
        with run avail Inr show ?thesis
          by (intro early [of q s1]) (auto simp: run_tryM run_bindM)
      next
        case list: (Inr ps)
        with run avail Inr Ok show ?thesis
          by (intro pods [OF _ _ list, of s1 "?s\<lparr>bs_ctl := log_event (Read (ReadOther ''pods'' (cl_Name (ho_cluster (bs_config s1))))) (bs_ctl ?s)\<rparr>"])
            (simp_all add: run_tryM run_bindM)
      qed
    qed
  qed (use assms avail in \<open>auto intro!: early simp: computeStatus_def run_bindM\<close>)
qed

text \<open>
  C7 (invariant). \<open>computeStatus\<close> leaves the four replica counters as they were, or replaces all of them by
  consistent ones: up to date at most ready, ready equal to available, at most the number of pods. It does
  the former whenever it fails with an error other than "not ready".
\<close>
theorem counters_agree:
  assumes run: "computeStatus H E sc s = (r, t)"
    and few: "\<forall>tr c ns sel ps. he_ListPods E tr c ns sel = Inr ps \<longrightarrow> length ps < 2 ^ 31"
  shows "counters t = counters s \<or> consistent (counters t) \<and> (r = Ok () \<or> r = Err ErrNotReady)"
  using run
proof (cases rule: computeStatus_E)
  case (early s1 q)
  then show ?thesis
    using keepsD [OF computeAvailability_counters early(1)] by (simp add: same_counters_def counters_def)
next
  case (pods s1 s2 ps tr c ns sel)
  then have "counters s2 = counters s"
    using keepsD [OF computeAvailability_counters pods(1)] by (simp add: same_counters_def counters_def)
  moreover have "length ps < 2 ^ 31"
    using few pods(3) by blast
  ultimately show ?thesis
    using report_pods_counters [OF pods(4)] by simp
qed

subsection \<open>A control plane that is not ready is looked at again\<close>

lemma report_pods_settled:
  assumes "report_pods H E sc ps s = (Ok (), t)"
  shows "(let st = hcp_Status (ho_kcp (bs_config t)) in
      hst_Version st = ver_String (vers (hl_lib H)) (desired_version (sp_Version (hcp_Spec (ho_kcp (bs_config t))))) \<and>
      cond_IsTrue (conds (hl_lib H)) (hst_Conditions st) ControlPlaneAvailableCondition \<and>
      hst_AvailableReplicas st = hst_Replicas st)"
  using assms
proof (cases rule: report_pods_E)
  case (counted n u)
  then have settled: "is_settled H (desired_version (sp_Version (hcp_Spec (ho_kcp (bs_config t))))) (hcp_Status (ho_kcp (bs_config t))) n"
    by (simp split: if_splits)
  then have "pc_unavailable n = 0"
    using count_pods_sums [OF counted(1)] by (simp add: is_settled_def)
  then have "hst_AvailableReplicas (hcp_Status (ho_kcp (bs_config t))) = hst_Replicas (hcp_Status (ho_kcp (bs_config t)))"
    unfolding counted(2) by (simp add: set_replicas_def Let_def)
  with settled show ?thesis
    by (simp add: is_settled_def Let_def)
qed simp

definition status_settled :: "host_lib \<Rightarrow> hosted \<Rightarrow> bool" where
  \<comment> \<open>available, at the desired version, with all replicas available\<close>
  "status_settled H h \<longleftrightarrow>
     (let st = hcp_Status (ho_kcp h) in
      hst_Version st = ver_String (vers (hl_lib H)) (desired_version (sp_Version (hcp_Spec (ho_kcp h)))) \<and>
      cond_IsTrue (conds (hl_lib H)) (hst_Conditions st) ControlPlaneAvailableCondition \<and>
      hst_AvailableReplicas st = hst_Replicas st)"

lemma computeStatus_settled:
  assumes "computeStatus H E sc s = (Ok (), t)"
  shows "status_settled H (bs_config t) \<or> (\<exists>tr key e. he_GetKmc E tr key = Inl e \<and> is_not_found e)"
  using assms
proof (cases rule: computeStatus_E)
  case (pods s1 s2 ps tr c ns sel)
  then show ?thesis
    using report_pods_settled by (simp add: status_settled_def)
next
  case (early s1 q)
  then show ?thesis
    by blast
qed

lemma infra_same_config: "keeps same_config (patchInfrastructureStatus H E)"
  unfolding patchInfrastructureStatus_def write_infra_status_def infraContractVersion_def Let_def
  by (auto intro!: same_config_rules same_config_hwrite split: prod.splits)

lemma add_err_None: "add_err err d = None \<longleftrightarrow> err = None \<and> (\<exists>x. d = Inr x)"
  by (cases d) (simp_all add: add_err_def new_aggregate_def)

lemma finish_writes_Ok:
  assumes "finish_writes H E outcome (res, err0) s = (Ok y, t)"
  shows "err0 = None \<and> y = res \<and> bs_config t = bs_config s"
proof -
  have "keeps same_config (finish_writes H E outcome (res, err0))"
    unfolding finish_writes_def Let_def
    by (auto intro!: same_config_rules same_config_hwrite infra_same_config split: res.splits option.splits)
  then have "bs_config t = bs_config s"
    using keepsD assms by (fastforce simp: same_config_def)
  moreover have "err0 = None \<and> y = res"
    using assms unfolding finish_writes_def Let_def
    by (auto elim!: bindM_OkE simp: run_tryM add_err_None split: option.splits res.splits if_splits prod.splits)
  ultimately show ?thesis
    by simp
qed

lemma finish_hosted_alive:
  assumes "om_DeletionTimestamp (hcp_Meta (ho_kcp (bs_config s))) = None" and "computeStatus H E sc s = (d, s1)"
  shows "finish_hosted H E sc outcome s =
    (case d of
       Ok x \<Rightarrow> finish_writes H E outcome (named_results outcome) s1
     | Err e \<Rightarrow> finish_writes H E outcome (hosted_status_result (named_results outcome) (Inl e)) s1
     | Panic \<Rightarrow> (Panic, s1))"
  using assms by (cases d) (simp_all add: finish_hosted_def run_bindM run_tryM hosted_status_result_def)

text \<open>
  A reconciliation of a control plane that is not being deleted ends without an error and without
  asking to be called again only when the status is settled: every replica available, the desired version
  reported, the workload cluster reached. The exception is a \<open>Cluster\<close> that does not exist.
\<close>
theorem unsettled_control_plane_comes_back:
  assumes run: "finish_hosted H E sc outcome s = (Ok res, t)" and quiet: "\<not> Requeue res"
    and alive: "om_DeletionTimestamp (hcp_Meta (ho_kcp (bs_config s))) = None"
  shows "status_settled H (bs_config t) \<or> (\<exists>tr key e. he_GetKmc E tr key = Inl e \<and> is_not_found e)"
proof -
  obtain d s1 where status: "computeStatus H E sc s = (d, s1)"
    by fastforce
  note run' = run [unfolded finish_hosted_alive [OF alive status]]
  show ?thesis
  proof (cases d)
    case (Ok x)
    obtain a b where "named_results outcome = (a, b)"
      by fastforce
    with run' Ok have "bs_config t = bs_config s1"
      using finish_writes_Ok by auto
    with computeStatus_settled status Ok show ?thesis
      by simp
  next
    case (Err e)
    obtain a b where ab: "hosted_status_result (named_results outcome) (Inl e) = (a, b)"
      by fastforce
    with run' Err have "b = None" "res = a"
      using finish_writes_Ok by auto
    with ab quiet show ?thesis
      by (auto simp: hosted_status_result_def add_err_None split: if_splits)
  next
    case Panic
    with run' show ?thesis
      by simp
  qed
qed

subsection \<open>The finalizer\<close>

definition patches_hcp :: "event \<Rightarrow> bool" where
  "patches_hcp ev \<longleftrightarrow> (case ev of Wrote (PatchHcp _) _ \<Rightarrow> True | _ \<Rightarrow> False)"

definition calm :: "hosted bstate \<Rightarrow> hosted bstate \<Rightarrow> bool" where
  "calm s s' \<longleftrightarrow> hcp_Meta (ho_kcp (bs_config s')) = hcp_Meta (ho_kcp (bs_config s)) \<and> b_appends (\<lambda>ev. \<not> patches_hcp ev) s s'"

interpretation calm: frame_order calm
proof
  show "calm s s" for s
    by (simp add: calm_def b_emits.frame_refl)
  show "calm s t \<Longrightarrow> calm t u \<Longrightarrow> calm s u" for s t u
    unfolding calm_def using b_emits.frame_trans by fastforce
qed

lemma patches_hcp_simps [simp]: "\<not> patches_hcp (Read rd)" "patches_hcp (Wrote rq x) \<longleftrightarrow> (\<exists>k. rq = PatchHcp k)"
  by (simp_all add: patches_hcp_def split: write_req.splits)

lemma calm_liftC:
  fixes m :: "'a ctlM"
  shows "emits (\<lambda>ev. \<not> patches_hcp ev) m \<Longrightarrow> keeps calm (liftC m)"
proof -
  assume "emits (\<lambda>ev. \<not> patches_hcp ev) m"
  then have "keeps (b_appends (\<lambda>ev. \<not> patches_hcp ev)) (liftC m :: 'a hostM)" and "keeps same_config (liftC m :: 'a hostM)"
    by (rule b_emits_liftC) (rule same_config_liftC)
  then show ?thesis
    by (simp add: keeps_def calm_def same_config_def)
qed

lemma calm_hread: "keeps calm (bread what n f)"
  unfolding bread_def by (intro calm_liftC emits_readM) simp

lemma calm_hwrite: "(\<And>k. rq \<noteq> PatchHcp k) \<Longrightarrow> keeps calm (hwrite E rq)"
  unfolding hwrite_def bwrite_def by (intro calm_liftC emits_writeM) simp

lemma calm_configM: "keeps calm configM"
  by (simp add: keeps_def calm.frame_refl)

lemma calm_upd: "keeps calm (upd_hst f)" "keeps calm (upd_hsp g)"
  by (simp_all add: keeps_def calm_def b_appends_def emits.frame_refl)

lemma calm_cluster: "keeps calm (set_configM (\<lambda>h. h\<lparr>ho_cluster := f (ho_cluster h)\<rparr>))"
  by (simp add: keeps_def calm_def b_appends_def emits.frame_refl)

lemmas calm_rules = calm.keeps_intros calm_hread calm_hwrite calm_configM calm_upd calm_cluster
  calm_liftC [OF emits_readM] calm_liftC [OF emits_nowM] calm_liftC [OF emits_newPatchHelper]

lemma calm_set_hcp_condition: "keeps calm (set_hcp_condition H E c)"
  unfolding set_hcp_condition_def by (intro calm_rules) simp

lemma calm_availabilityFailures: "keeps calm (liftC (modM (\<lambda>s. s\<lparr>availabilityFailures := f s\<rparr>)))"
  by (intro calm_liftC emits_modM) simp

lemma calm_clear: "keeps calm (liftC (clearAvailabilityFailures meta))"
  unfolding clearAvailabilityFailures_def by (rule calm_availabilityFailures)

lemma calm_getM: "keeps calm (liftC (getM f))"
  by (intro calm_liftC emits.keeps_pure)

lemma calm_setUnavailable: "keeps calm (hosted_setUnavailable H E c)"
  unfolding hosted_setUnavailable_def Let_def
  by (intro calm_rules calm_availabilityFailures calm_getM) simp

lemma calm_computeAvailability: "keeps calm (hosted_computeAvailability H E)"
  unfolding hosted_computeAvailability_def Let_def
  by (auto intro!: calm_rules calm_set_hcp_condition calm_setUnavailable calm_clear split: sum.splits)

lemma calm_count_pods: "keeps calm (count_pods H E sc d n ps)"
proof (induction ps arbitrary: n)
  case (Cons p ps)
  then show ?case
    by (auto intro!: calm_rules simp: getK0sVersionRunningInPod_def Let_def split: option.splits)
qed (simp add: calm_rules)

lemma calm_computeStatus: "keeps calm (computeStatus H E sc)"
  unfolding computeStatus_def report_pods_def listControlPlanePods_def Let_def
  by (auto intro!: calm_rules calm_computeAvailability calm_count_pods split: sum.splits option.splits)

lemma calm_infra: "keeps calm (patchInfrastructureStatus H E)"
  unfolding patchInfrastructureStatus_def write_infra_status_def infraContractVersion_def Let_def
  by (auto intro!: calm_rules split: prod.splits)

lemma calm_remote_owner: "keeps calm (ensure_remote_owner E sc)"
  unfolding ensure_remote_owner_def EnsureNamespaceExists_def EnsureExternalOwner_def GetExternalOwner_def
  by (auto intro!: calm_rules split: sum.splits)

lemma calm_getKmcScope: "keeps calm (getKmcScope E)"
  unfolding getKmcScope_def GetKmcClientFromClusterKubeconfigSecret_def
  by (auto intro!: calm_rules split: option.splits)

lemma calm_sync_spec: "keeps calm (sync_spec H E found)"
  unfolding sync_spec_def by (auto intro!: calm_rules split: prod.splits)

lemma calm_reconcile: "keeps calm (hosted_reconcile H E sc)"
  unfolding hosted_reconcile_def ensureHostedCertificates_def Let_def
  by (auto intro!: calm_rules calm_sync_spec split: sum.splits)

lemma calm_poll: "keeps calm (poll_address n H E d)"
proof (induction n)
  case (Suc n)
  then show ?case
    by (auto intro!: calm_rules simp: try_address_def update_endpoint_def Let_def split: option.splits prod.splits)
qed (simp del: run_failM add: calm.keeps_pure)

lemma calm_address: "keeps calm (ensureExternalAddress H E)"
  unfolding ensureExternalAddress_def by (intro calm_rules calm_poll) simp

definition cluster_gone :: "host_env \<Rightarrow> event list \<Rightarrow> bool" where
  \<comment> \<open>a read of the \<open>Cluster\<close> or its deletion was answered with "not found"\<close>
  "cluster_gone E tr \<longleftrightarrow>
     (\<exists>pre post name key e. tr = pre @ Read (ReadOther ''kmc'' name) # post \<and> he_GetKmc E pre key = Inl e \<and> is_not_found e) \<or>
     (\<exists>ns n e. Wrote (DeleteKmc ns n) (Some e) \<in> set tr \<and> is_not_found e)"

lemma cluster_gone_mono: "cluster_gone E tr \<Longrightarrow> cluster_gone E (tr @ evs)"
proof -
  have "\<exists>pre' post'. (pre @ ev # post) @ evs = pre' @ ev # post' \<and> pre' = pre" for pre post and ev :: event
    by simp
  then show "cluster_gone E tr \<Longrightarrow> cluster_gone E (tr @ evs)"
    unfolding cluster_gone_def by (elim disjE) (intro disjI1, fastforce, intro disjI2, fastforce)
qed

abbreviation hcp_meta :: "hosted bstate \<Rightarrow> objmeta" where
  "hcp_meta s \<equiv> hcp_Meta (ho_kcp (bs_config s))"

definition released :: "objmeta \<Rightarrow> objmeta" where
  \<comment> \<open>without the finalizer\<close>
  "released meta = meta\<lparr>om_Finalizers := filter (\<lambda>f. f \<noteq> K0smotronControlPlaneFinalizer) (om_Finalizers meta)\<rparr>"

definition may_patch :: "host_env \<Rightarrow> objmeta \<Rightarrow> event list \<Rightarrow> objmeta \<Rightarrow> bool" where
  "may_patch E M tr meta \<longleftrightarrow>
     meta = M \<or> om_DeletionTimestamp M \<noteq> None \<and> meta = released M \<and> cluster_gone E tr"

definition patched :: "host_env \<Rightarrow> objmeta \<Rightarrow> hosted bstate \<Rightarrow> hosted bstate \<Rightarrow> bool" where
  \<comment> \<open>every patch of the control plane in this part of the run is justified at its end\<close>
  "patched E M s t \<longleftrightarrow> b_appends (\<lambda>_. True) s t \<and>
     (\<forall>k x. Wrote (PatchHcp k) x \<in> set (b_events s t) \<longrightarrow> may_patch E M (trace (bs_ctl t)) (hcp_Meta k))"

lemma unpatched_patched: "b_appends (\<lambda>ev. \<not> patches_hcp ev) s t \<Longrightarrow> patched E M s t"
  unfolding patched_def
  using b_events_of [of "\<lambda>ev. \<not> patches_hcp ev" s t] b_appends_mono [of "\<lambda>ev. \<not> patches_hcp ev" s t "\<lambda>_. True"]
  by (auto simp: list_all_iff)

lemma calm_patched: "calm s t \<Longrightarrow> patched E M s t"
  by (simp add: calm_def unpatched_patched)

lemma unpatched_then_patched:
  assumes st: "b_appends (\<lambda>ev. \<not> patches_hcp ev) s t" and "patched E M t u"
  shows "patched E M s u"
proof -
  have tu: "b_appends (\<lambda>_. True) t u"
    using assms by (simp add: patched_def)
  have "b_appends (\<lambda>_. True) s u"
    using b_emits.frame_trans [OF b_appends_mono [OF st] tu] by simp
  moreover have "b_events s u = b_events s t @ b_events t u"
    by (rule b_events_trans [OF st tu])
  moreover have "Wrote (PatchHcp k) x \<notin> set (b_events s t)" for k x
    using b_events_of [OF st] by (auto simp: list_all_iff)
  ultimately show ?thesis
    using assms(2) by (auto simp: patched_def)
qed

lemma calm_then_patched: "calm s t \<Longrightarrow> patched E M t u \<Longrightarrow> patched E M s u"
  unfolding calm_def using unpatched_then_patched by blast

lemma may_patch_mono: "may_patch E M tr meta \<Longrightarrow> may_patch E M (tr @ evs) meta"
  unfolding may_patch_def using cluster_gone_mono by blast

lemma patched_then_calm:
  assumes "patched E M s t" and "calm t u"
  shows "patched E M s u"
proof -
  have st: "b_appends (\<lambda>_. True) s t" and tu: "b_appends (\<lambda>ev. \<not> patches_hcp ev) t u"
    using assms by (simp_all add: calm_def patched_def)
  have "b_appends (\<lambda>_. True) s u"
    using b_emits.frame_trans [OF st b_appends_mono [OF tu]] by simp
  moreover have "b_events s u = b_events s t @ b_events t u"
    by (rule b_events_trans [OF st tu])
  moreover have "Wrote (PatchHcp k) x \<notin> set (b_events t u)" for k x
    using b_events_of [OF tu] by (auto simp: list_all_iff)
  moreover have "trace (bs_ctl u) = trace (bs_ctl t) @ b_events t u"
    using b_events_of [OF tu] by simp
  ultimately show ?thesis
    using assms(1) may_patch_mono by (auto simp: patched_def)
qed

definition patches :: "host_env \<Rightarrow> objmeta \<Rightarrow> 'a hostM \<Rightarrow> bool" where
  \<comment> \<open>from a state with these metadata\<close>
  "patches E M m \<longleftrightarrow> (\<forall>s. hcp_meta s = M \<longrightarrow> patched E M s (snd (m s)))"

lemma patches_calm: "keeps calm m \<Longrightarrow> patches E M m"
  by (simp add: keeps_def patches_def calm_patched)

lemma patches_bindM:
  assumes "keeps calm m" and "\<And>x. patches E M (f x)"
  shows "patches E M (bindM m f)"
  unfolding patches_def
proof (intro allI impI)
  fix s :: "hosted bstate" assume M: "hcp_meta s = M"
  obtain r u where m: "m s = (r, u)" by fastforce
  with assms(1) have su: "calm s u" by (rule keepsD)
  then show "patched E M s (snd (bindM m f s))"
    using calm_then_patched [OF su] calm_patched [OF su] assms(2) m M
    by (cases r) (simp_all add: run_bindM calm_def patches_def)
qed

lemma patches_tryM:
  assumes "keeps calm m" and "\<And>x. patches E M (f x)"
  shows "patches E M (tryM m f)"
  unfolding patches_def
proof (intro allI impI)
  fix s :: "hosted bstate" assume M: "hcp_meta s = M"
  obtain r u where m: "m s = (r, u)" by fastforce
  with assms(1) have su: "calm s u" by (rule keepsD)
  then show "patched E M s (snd (tryM m f s))"
    using calm_then_patched [OF su] calm_patched [OF su] assms(2) m M
    by (cases r) (simp_all add: run_tryM calm_def patches_def)
qed

lemma released_meta: "hcp_Meta (remove_hcp_finalizer k) = released (hcp_Meta k)"
  by (simp add: remove_hcp_finalizer_def released_def)

lemma delete_run:
  assumes "hosted_reconcileDelete E s = (r, t)"
  shows "b_appends (\<lambda>ev. \<not> patches_hcp ev) s t \<and>
    (hcp_meta t = hcp_meta s \<or> hcp_meta t = released (hcp_meta s) \<and> cluster_gone E (trace (bs_ctl t)))"
proof -
  let ?key = "cluster_key (ho_cluster (bs_config s))"
  let ?read = "Read (ReadOther ''kmc'' (cl_Name (ho_cluster (bs_config s))))"
  note run = assms [unfolded hosted_reconcileDelete_def clearAvailabilityFailures_def run_bindM run_configM run_liftC, simplified]
  show ?thesis
  proof (cases "he_GetKmc E (trace (bs_ctl s)) ?key")
    case (Inl e)
    then have "cluster_gone E (trace (bs_ctl s) @ [?read])" if "is_not_found e"
      unfolding cluster_gone_def using that by blast
    with run Inl show ?thesis
      by (cases "is_not_found e") (auto simp: run_tryM run_bindM b_appends_def appends_def released_meta)
  next
    case (Inr kmc)
    let ?del = "DeleteKmc (om_Namespace (kmc_Meta kmc)) (om_Name (kmc_Meta kmc))"
    let ?w = "e_write (he_env E) (trace (bs_ctl s) @ [?read]) ?del"
    have "cluster_gone E (trace (bs_ctl s) @ [?read, Wrote ?del (Some e)])" if "is_not_found e" for e
      unfolding cluster_gone_def using that by (intro disjI2) auto
    with run Inr show ?thesis
      by (cases "om_DeletionTimestamp (kmc_Meta kmc)"; cases ?w; cases "is_not_found (the ?w)")
        (auto simp: run_tryM run_bindM b_appends_def appends_def released_meta)
  qed
qed

lemma finish_writes_patched:
  assumes "may_patch E M (trace (bs_ctl s)) (hcp_meta s)"
  shows "patched E M s (snd (finish_writes H E outcome rr s))"
proof -
  obtain res err0 where rr: "rr = (res, err0)" by fastforce
  define w where "w = Wrote (PatchHcp (ho_kcp (bs_config s))) (e_write (he_env E) (trace (bs_ctl s)) (PatchHcp (ho_kcp (bs_config s))))"
  define u where "u = s\<lparr>bs_ctl := log_event w (bs_ctl s)\<rparr>"
  have "trace (bs_ctl u) = trace (bs_ctl s) @ [w]"
    by (simp add: u_def)
  then have "patched E M s u"
    using may_patch_mono [OF assms, of "[w]"] b_events_eq [of u s "[w]"]
    by (auto simp: patched_def b_appends_def appends_def w_def)
  moreover have "keeps calm (tryM (hwrite E (PatchCluster c)) (\<lambda>d2.
      let err = add_err (add_err err0 d1) d2 in
      bindM (if err \<noteq> None then ret err else tryM (patchInfrastructureStatus H E) (\<lambda>d3. ret (add_err None d3))) (\<lambda>err'.
      case outcome of Panic \<Rightarrow> panicM | _ \<Rightarrow> (case err' of Some e \<Rightarrow> failM e | None \<Rightarrow> ret res))))" for c d1
    unfolding Let_def by (auto intro!: calm_rules calm_infra split: res.splits option.splits)
  ultimately have "patched E M s (snd (tryM (hwrite E (PatchCluster c)) (\<lambda>d2.
      let err = add_err (add_err err0 d1) d2 in
      bindM (if err \<noteq> None then ret err else tryM (patchInfrastructureStatus H E) (\<lambda>d3. ret (add_err None d3))) (\<lambda>err'.
      case outcome of Panic \<Rightarrow> panicM | _ \<Rightarrow> (case err' of Some e \<Rightarrow> failM e | None \<Rightarrow> ret res))) u))" for c d1
    using patched_then_calm unfolding keeps_def by blast
  then show ?thesis
    by (auto simp: rr finish_writes_def run_bindM [of configM] run_tryM [of "hwrite E (PatchHcp k)" for k] u_def w_def split: option.splits)
qed

lemma finish_hosted_patched:
  assumes "may_patch E M (trace (bs_ctl s)) (hcp_meta s)"
  shows "patched E M s (snd (finish_hosted H E sc outcome s))"
proof (cases "om_DeletionTimestamp (hcp_meta s)")
  case None
  obtain d s1 where status: "computeStatus H E sc s = (d, s1)" by fastforce
  then have calm: "calm s s1"
    using keepsD calm_computeStatus by fast
  then have "trace (bs_ctl s1) = trace (bs_ctl s) @ b_events s s1"
    using b_events_of by (auto simp: calm_def)
  with calm assms have "may_patch E M (trace (bs_ctl s1)) (hcp_meta s1)"
    using may_patch_mono by (simp add: calm_def)
  then have "patched E M s (snd (finish_writes H E outcome rr s1))" for rr
    using calm_then_patched [OF calm finish_writes_patched] by blast
  then show ?thesis
    using calm_patched [OF calm] by (cases d) (simp_all add: finish_hosted_alive [OF None status])
next
  case (Some x)
  then show ?thesis
    using finish_writes_patched [OF assms] by (simp add: finish_hosted_def run_bindM)
qed

lemma hosted_body_run:
  assumes "hosted_body H E sc s = (r, t)" and "hcp_meta s = M"
  shows "b_appends (\<lambda>ev. \<not> patches_hcp ev) s t \<and> may_patch E M (trace (bs_ctl t)) (hcp_meta t)"
proof (cases "om_DeletionTimestamp M")
  case None
  have "keeps calm (bindM (hosted_reconcile H E sc) (\<lambda>res. if res \<noteq> zero_result then ret res
      else bindM (ensureExternalAddress H E) (\<lambda>_. bindM (upd_hst (\<lambda>st. st\<lparr>hst_ExternalManagedControlPlane := Some True\<rparr>)) (\<lambda>_. ret res))))"
    by (auto intro!: calm_rules calm_reconcile calm_address)
  from keepsD [OF this] assms None have "calm s t"
    by (simp add: hosted_body_def run_bindM [of configM])
  with assms show ?thesis
    by (simp add: calm_def may_patch_def)
next
  case (Some x)
  with assms have "hosted_reconcileDelete E s = (r, t)"
    by (simp add: hosted_body_def run_bindM [of configM])
  from delete_run [OF this] Some assms show ?thesis
    by (auto simp: may_patch_def)
qed

lemma hosted_run_patches: "patches E M (hosted_run H E sc)"
  unfolding patches_def
proof (intro allI impI)
  fix s :: "hosted bstate" assume M: "hcp_meta s = M"
  obtain r t where body: "hosted_body H E sc s = (r, t)" by fastforce
  from hosted_body_run [OF body M] show "patched E M s (snd (hosted_run H E sc s))"
    unfolding hosted_run_def run_deferNamedM body prod.case
    using unpatched_then_patched finish_hosted_patched by blast
qed

lemma hosted_with_cluster_patches: "patches E M (hosted_with_cluster H E)"
  unfolding hosted_with_cluster_def
  by (auto intro!: patches_bindM patches_tryM hosted_run_patches patches_calm [OF calm.keeps_pure(1)] calm_rules calm_getKmcScope calm_remote_owner
      split: sum.splits prod.splits)


subsection \<open>The status of the infrastructure object is checked\<close>

lemma infraContractVersion_reads: "keeps (b_appends is_read) (infraContractVersion H E u)"
  unfolding infraContractVersion_def
  by (auto intro!: b_emits_rules simp: is_read_def split: prod.splits)

lemma write_infra_status_Ok:
  assumes "write_infra_status H E u v b s = (Ok (), t)"
  obtains verify where "trace (bs_ctl t) = trace (bs_ctl s) @ [Wrote (PatchInfraStatus u (join_with ''.'' (status_path v)) b) None,
      Read (ReadOther ''infra'' (u_Name u))]"
    and "he_GetInfraObject E (trace (bs_ctl s) @ [Wrote (PatchInfraStatus u (join_with ''.'' (status_path v)) b) None]) u = Inr verify"
    and "NestedBool (jsons (hl_lib H)) (u_Content verify) (status_path v) = Inr (Some b)"
  using assms unfolding write_infra_status_def Let_def
  by (auto simp: run_bindM run_wrapM run_liftE_case split: option.splits sum.splits if_splits)

lemma bind_configM: "bindM configM f s = f (bs_config s) s"
  by (simp add: run_bindM)

lemma infra_status_E:
  \<comment> \<open>it read only, or it read and then wrote and checked\<close>
  assumes "patchInfrastructureStatus H E s = (Ok (), t)"
  obtains (idle) "b_appends is_read s t"
  | (wrote) u v s1 where "b_appends is_read s s1" and "u_Annotations u AnnotationKeyManagedBy = Some AnnotationValueManagedByK0smotron"
      and "write_infra_status H E u v (hl_EndpointIsValid H (cl_EndpointHost (ho_cluster (bs_config s)))
        (cl_EndpointPort (ho_cluster (bs_config s)))) s1 = (Ok (), t)"
proof -
  let ?cl = "ho_cluster (bs_config s)"
  let ?b = "hl_EndpointIsValid H (cl_EndpointHost ?cl) (cl_EndpointPort ?cl)"
  obtain u s1 where u: "liftC (readM (ReadReferenced (cl_InfrastructureRef ?cl))
        (\<lambda>tr. e_GetReferenced (he_env E) tr CacheReader (cl_InfrastructureRef ?cl) (cl_Namespace ?cl))) s = (Ok u, s1)"
    and rest: "(if u_Annotations u AnnotationKeyManagedBy \<noteq> Some AnnotationValueManagedByK0smotron then ret ()
      else
        bindM (wrapM (Wrapf ''failed to determine infrastructure contract version'') (infraContractVersion H E u)) (\<lambda>v.
        bindM (wrapM (Wrapf ''failed to get provisioned status'')
                 (liftE (NestedBool (jsons (hl_lib H)) (u_Content u) (status_path v)))) (\<lambda>current.
        if current = Some ?b then ret () else write_infra_status H E u v ?b))) s1 = (Ok (), t)"
    using assms unfolding patchInfrastructureStatus_def bind_configM Let_def
    by (elim bindM_OkE wrapM_OkE)
  have s1: "b_appends is_read s s1"
    using keepsD [OF b_emits_liftC [OF emits_readM] u] by simp
  show ?thesis
  proof (cases "u_Annotations u AnnotationKeyManagedBy = Some AnnotationValueManagedByK0smotron")
    case False
    with rest s1 show ?thesis by (intro idle) simp
  next
    case True
    then obtain v s2 current s3 where ver: "infraContractVersion H E u s1 = (Ok v, s2)"
      and s3: "liftE (NestedBool (jsons (hl_lib H)) (u_Content u) (status_path v)) s2 = (Ok current, s3)"
      and last: "(if current = Some ?b then ret () else write_infra_status H E u v ?b) s3 = (Ok (), t)"
      using rest by (simp split del: if_split) (elim bindM_OkE wrapM_OkE)
    have "s3 = s2"
      using s3 by (simp add: run_liftE_case split: sum.splits)
    then have "b_appends is_read s s3"
      using b_emits.frame_trans [OF s1 keepsD [OF infraContractVersion_reads ver]] by simp
    with last True show ?thesis
      by (cases "current = Some ?b") (auto intro: idle wrote)
  qed
qed

text \<open>
  When \<open>patchInfrastructureStatus\<close> returns without an error, a status it patched belongs to an object
  marked as managed by k0smotron, tells whether the endpoint is valid, and was found in the object read
  after the patch: a field the server pruned is never taken for a success.
\<close>
theorem infra_status_is_read_back:
  assumes run: "patchInfrastructureStatus H E s = (Ok (), t)" and ev: "Wrote (PatchInfraStatus u field b) x \<in> set (b_events s t)"
  shows "x = None \<and> u_Annotations u AnnotationKeyManagedBy = Some AnnotationValueManagedByK0smotron \<and>
    b = hl_EndpointIsValid H (cl_EndpointHost (ho_cluster (bs_config s))) (cl_EndpointPort (ho_cluster (bs_config s))) \<and>
    (\<exists>tr v verify. Wrote (PatchInfraStatus u field b) None \<in> set tr \<and> he_GetInfraObject E tr u = Inr verify \<and>
       field = join_with ''.'' (status_path v) \<and>
       NestedBool (jsons (hl_lib H)) (u_Content verify) (status_path v) = Inr (Some b))"
  using run
proof (cases rule: infra_status_E)
  case idle
  then show ?thesis
    using ev b_events_of [of is_read s t] by (auto simp: list_all_iff)
next
  case (wrote u' v s1)
  define b' where "b' = hl_EndpointIsValid H (cl_EndpointHost (ho_cluster (bs_config s))) (cl_EndpointPort (ho_cluster (bs_config s)))"
  let ?w = "Wrote (PatchInfraStatus u' (join_with ''.'' (status_path v)) b') None"
  obtain verify where t: "trace (bs_ctl t) = trace (bs_ctl s1) @ [?w, Read (ReadOther ''infra'' (u_Name u'))]"
    and verify: "he_GetInfraObject E (trace (bs_ctl s1) @ [?w]) u' = Inr verify"
      "NestedBool (jsons (hl_lib H)) (u_Content verify) (status_path v) = Inr (Some b')"
    using write_infra_status_Ok [OF wrote(3)] unfolding b'_def by metis
  have "trace (bs_ctl s1) = trace (bs_ctl s) @ b_events s s1" and reads: "list_all is_read (b_events s s1)"
    using b_events_of [OF wrote(1)] by simp_all
  with t have "b_events s t = b_events s s1 @ [?w, Read (ReadOther ''infra'' (u_Name u'))]"
    by (intro b_events_eq) simp
  with ev reads have "Wrote (PatchInfraStatus u field b) x = ?w"
    by (auto simp: list_all_iff)
  with verify wrote(2) show ?thesis
    unfolding b'_def [symmetric] by (intro conjI exI [of _ "trace (bs_ctl s1) @ [?w]"] exI [of _ v] exI [of _ verify]) simp_all
qed

subsection \<open>Downgrades\<close>

lemma count_pods_newer:
  assumes "list_all pod_ready ps" and "\<forall>tr k. he_PodExec E tr (km_client sc) k ''k0s version'' = Inr out"
    and "ver_NewVersion (vers (hl_lib H)) (trim_suffix out newline) = None"
    and "alignToSpecVersionFormat (vers (hl_lib H)) d (trim_suffix out newline) = Inr cur"
    and "\<not> ver_Equal (vers (hl_lib H)) d cur"
  shows "\<not> ver_LessThan (vers (hl_lib H)) cur (pc_minimum n) \<Longrightarrow>
    \<exists>t. count_pods H E sc d n ps s = (Ok (n\<lparr>pc_ready := pc_ready n + int (length ps)\<rparr>), t) \<and> bs_config t = bs_config s"
  using assms(1)
proof (induction ps arbitrary: n s)
  case (Cons p ps)
  let ?s = "s\<lparr>bs_ctl := log_event (Read (ReadOther ''exec'' (pod_Name p))) (bs_ctl s)\<rparr>"
  have "count_pods H E sc d n (p # ps) s = count_pods H E sc d (n\<lparr>pc_ready := pc_ready n + 1\<rparr>) ps ?s"
    using Cons.prems assms(2-5)
    by (simp add: run_bindM getK0sVersionRunningInPod_def Let_def)
  then show ?case
    using Cons.IH [of "n\<lparr>pc_ready := pc_ready n + 1\<rparr>" ?s] Cons.prems by (simp add: add.assoc)
qed simp

text \<open>
  A downgrade is reported as done before it happened. When every pod is ready and still runs a version
  that differs from the desired one and is not below it, \<open>computeStatus\<close> reports the desired version as
  the version of the control plane and asks for no further reconciliation, although no replica is up to date.
\<close>
theorem downgrade_is_reported_as_done:
  assumes pods: "pods \<noteq> []" "list_all pod_ready pods" "length pods < 2 ^ 31"
    and running: "\<forall>tr k. he_PodExec E tr (km_client sc) k ''k0s version'' = Inr out"
      "ver_NewVersion (vers (hl_lib H)) (trim_suffix out newline) = None"
      "alignToSpecVersionFormat (vers (hl_lib H)) desired (trim_suffix out newline) = Inr current"
    and desired: "desired = desired_version (sp_Version (hcp_Spec (ho_kcp (bs_config s))))" "ver_NewVersion (vers (hl_lib H)) desired = None"
    and newer: "\<not> ver_Equal (vers (hl_lib H)) desired current" "\<not> ver_LessThan (vers (hl_lib H)) current desired"
    and available: "cond_IsTrue (conds (hl_lib H)) (hst_Conditions (hcp_Status (ho_kcp (bs_config s)))) ControlPlaneAvailableCondition"
  shows "\<exists>t. report_pods H E sc pods s = (Ok (), t) \<and>
    hst_Version (hcp_Status (ho_kcp (bs_config t))) = ver_String (vers (hl_lib H)) desired \<and>
    hst_UpToDateReplicas (hcp_Status (ho_kcp (bs_config t))) = Some 0"
proof -
  let ?n = "\<lparr>pc_upToDate = 0, pc_ready = int (length pods), pc_unavailable = 0, pc_minimum = desired\<rparr>"
  obtain u where u: "count_pods H E sc desired \<lparr>pc_upToDate = 0, pc_ready = 0, pc_unavailable = 0, pc_minimum = desired\<rparr> pods s = (Ok ?n, u)"
      "bs_config u = bs_config s"
    using count_pods_newer [OF pods(2) running newer(1), of "\<lparr>pc_upToDate = 0, pc_ready = 0, pc_unavailable = 0, pc_minimum = desired\<rparr>"] newer(2)
    by auto
  have "sint (word_of_int (int (length pods)) :: 32 word) = int (length pods)"
    unfolding sint_sbintrunc' using pods(3) by (intro signed_take_bit_int_eq_self) simp_all
  then have st: "hst_Version (set_replicas V (length pods) ?n st) = ver_String V desired"
    "hst_UpToDateReplicas (set_replicas V (length pods) ?n st) = Some 0"
    "hst_Conditions (set_replicas V (length pods) ?n st) = hst_Conditions st" for V st
    using pods(1) by (simp_all add: set_replicas_def Let_def deref_def)
  show ?thesis
    using u st available desired by (simp add: report_pods_def bind_configM run_bindM Let_def is_settled_def)
qed

subsection \<open>Runs in a small world\<close>

definition ref_pod :: "string \<Rightarrow> pod" where
  "ref_pod n = \<lparr>pod_Name = n, pod_Namespace = ''default'', pod_Conditions = [(''Initialized'', ''True''), (''Ready'', ''True'')]\<rparr>"

definition ref_hcp :: "string \<Rightarrow> int option \<Rightarrow> K0smotronControlPlane" where
  \<comment> \<open>of the version and the time of deletion\<close>
  "ref_hcp v deleted = \<lparr>hcp_Meta = (ref_meta ''cp'')\<lparr>om_Finalizers := [K0smotronControlPlaneFinalizer], om_DeletionTimestamp := deleted\<rparr>,
     hcp_Spec = zero_spec\<lparr>sp_Version := v\<rparr>,
     hcp_Status = \<lparr>hst_ControlPlaneInitialized = None, hst_ExternalManagedControlPlane = None, hst_Version = [], hst_Replicas = None,
       hst_ReadyReplicas = None, hst_Selector = [], hst_AvailableReplicas = None, hst_UpToDateReplicas = None, hst_Conditions = []\<rparr>\<rparr>"

definition ref_infra_cluster :: "bool \<Rightarrow> object \<Rightarrow> unstructured" where
  \<comment> \<open>whether it is managed by k0smotron, and its content\<close>
  "ref_infra_cluster managed content = (ref_infra ''c'')\<lparr>u_Kind := ''DockerCluster'', u_Content := content,
     u_Annotations := (if managed then [AnnotationKeyManagedBy \<mapsto> AnnotationValueManagedByK0smotron] else Map.empty)\<rparr>"

definition ref_host_env :: "gerror + Cluster \<Rightarrow> K0smotronControlPlane \<Rightarrow> pod list \<Rightarrow> string \<Rightarrow> bool \<Rightarrow> host_env" where
  \<comment> \<open>a server with this \<open>Cluster\<close>, control plane, pods and the version they run\<close>
  "ref_host_env kmc hcp pods running managed =
     \<lparr>he_boot = (ref_boot_env (ref_config ''b'' None))\<lparr>be_env := (ref_env [])\<lparr>e_GetReferenced := (\<lambda>_ _ _ _. Inr (ref_infra_cluster managed [])),
        e_GetKubeSystem := (\<lambda>_. Inr ''uid'')\<rparr>\<rparr>,
      he_GetHcp = (\<lambda>_ _. Inr hcp), he_GetKmc = (\<lambda>_ _. kmc), he_GetUncachedClient = (\<lambda>_ _. None),
      he_ListPods = (\<lambda>_ _ _ _. Inr pods), he_PodExec = (\<lambda>_ _ _ _. Inr (running @ newline)),
      he_GetNamespace = (\<lambda>_ _ _. None), he_GetConfigMapUID = (\<lambda>_ _ _. Inr ''uid''), he_CreatedUID = (\<lambda>_. ''uid''),
      he_GetCRD = (\<lambda>_ _. Inr (''dockerclusters.infrastructure.cluster.x-k8s.io'', [''cluster.x-k8s.io/v1beta1'' \<mapsto> ''v1beta1''])),
      he_GetInfraObject = (\<lambda>_ _. Inr (ref_infra_cluster managed [(''status'', JObj [(''ready'', JBool True)])]))\<rparr>"

definition ref_hosted :: "K0smotronControlPlane \<Rightarrow> hosted bstate" where
  "ref_hosted kcp = ref_bstate \<lparr>ho_kcp = kcp, ho_cluster = ref_cluster\<rparr>"

definition ref_kmcScope :: kmcScope where
  "ref_kmcScope = \<lparr>km_externalOwner = None, km_client = ManagementClient\<rparr>"

lemmas ref_host_defs = ref_hl_def ref_pod_def ref_hcp_def ref_infra_cluster_def ref_host_env_def ref_hosted_def ref_kmcScope_def
  ref_bstate_def ref_ctl_def ref_cluster_def ref_boot_env_def ref_env_def ref_lib_def

definition ref_stale :: Cluster where
  \<comment> \<open>a cluster with another address\<close>
  "ref_stale = with_spec zero_kmc ''old'' (zero_spec\<lparr>sp_ExternalAddress := ''10.0.0.1''\<rparr>)"

definition ref_moved :: "hosted bstate" where
  "ref_moved = ref_hosted ((ref_hcp ''v1.33.1'' None)\<lparr>hcp_Spec := zero_spec\<lparr>sp_ExternalAddress := ''10.0.0.2''\<rparr>\<rparr>)"

lemma ref_sync_run:
  "\<exists>t. sync_spec ref_hl (ref_host_env (Inr ref_stale) (ref_hcp ''v1.33.1'' None) [] [] False) ref_stale ref_moved = (Ok zero_result, t) \<and>
     b_events ref_moved t = [Read ReadPatchHelper, Wrote (PatchKmc ref_stale (with_spec ref_stale
       (generateClusterSpecHashWithoutExternalAddress ref_hl (zero_spec\<lparr>sp_ExternalAddress := ''10.0.0.2''\<rparr>))
       (zero_spec\<lparr>sp_ExternalAddress := ''10.0.0.2''\<rparr>))) None]"
proof -
  have addr: "with_address a ref_moved = ref_moved" for a
    by (simp add: with_address_def ref_moved_def ref_hosted_def ref_bstate_def)
  have "isClusterSpecSynced ref_hl ref_stale (zero_spec\<lparr>sp_ExternalAddress := ''10.0.0.2''\<rparr>) =
      Ok (Inr (False, generateClusterSpecHashWithoutExternalAddress ref_hl (zero_spec\<lparr>sp_ExternalAddress := ''10.0.0.2''\<rparr>)))"
    unfolding ref_stale_def synced_with_spec by simp
  then show ?thesis
    unfolding sync_spec_run addr
    by (simp add: ref_moved_def ref_hosted_def ref_bstate_def ref_host_env_def ref_env_def ref_ctl_def run_bindM run_liftC
        b_events_def new_events_def Let_def)
qed

theorem spec_is_written_once_witness:
  "\<exists>E found s r t kmc new x. sync_spec ref_hl E found s = (r, t) \<and> Wrote (PatchKmc kmc new) x \<in> set (b_events s t) \<and>
     sync_spec ref_hl E new t = (Ok zero_result, t)"
proof -
  obtain t where "sync_spec ref_hl (ref_host_env (Inr ref_stale) (ref_hcp ''v1.33.1'' None) [] [] False) ref_stale ref_moved = (Ok zero_result, t)"
    and "Wrote (PatchKmc ref_stale (with_spec ref_stale
       (generateClusterSpecHashWithoutExternalAddress ref_hl (zero_spec\<lparr>sp_ExternalAddress := ''10.0.0.2''\<rparr>))
       (zero_spec\<lparr>sp_ExternalAddress := ''10.0.0.2''\<rparr>))) None \<in> set (b_events ref_moved t)"
    using ref_sync_run by fastforce
  then show ?thesis
    using spec_is_written_once by blast
qed

lemma ref_suffix: "trim_suffix (v @ newline) newline = v"
  by (simp add: trim_suffix_def newline_def)

definition ref_report_state :: "string \<Rightarrow> hosted bstate" where
  "ref_report_state v = ref_hosted ((ref_hcp v None)\<lparr>hcp_Status := (hcp_Status (ref_hcp v None))\<lparr>hst_Conditions :=
     [mk_condition ControlPlaneAvailableCondition ConditionTrue ControlPlaneAvailableReason []]\<rparr>\<rparr>)"

theorem downgrade_is_reported_as_done_witness:
  "\<exists>t. report_pods ref_hl (ref_host_env (Inr zero_kmc) (ref_hcp ''v1.33.1+k0s.0'' None) [] ''v1.34.1+k0s.0'' False) ref_kmcScope
      [ref_pod ''cp-0''] (ref_report_state ''v1.33.1+k0s.0'') = (Ok (), t) \<and>
    hst_Version (hcp_Status (ho_kcp (bs_config t))) = ''v1.33.1+k0s.0'' \<and>
    hst_UpToDateReplicas (hcp_Status (ho_kcp (bs_config t))) = Some 0"
proof -
  have V: "ver_String (vers (hl_lib ref_hl)) = id" "ver_Equal (vers (hl_lib ref_hl)) = (=)" "ver_LessThan (vers (hl_lib ref_hl)) = (<)"
    "ver_NewVersion (vers (hl_lib ref_hl)) v = None \<longleftrightarrow> v \<noteq> []" for v
    by (simp_all add: ref_hl_def ref_lib_def ref_ver_def)
  have plus: "contains ''v1.33.1+k0s.0'' ''+k0s.''" "contains ''v1.34.1+k0s.0'' ''+k0s.''"
    by code_simp+
  have "\<exists>t. report_pods ref_hl (ref_host_env (Inr zero_kmc) (ref_hcp ''v1.33.1+k0s.0'' None) [] ''v1.34.1+k0s.0'' False) ref_kmcScope
      [ref_pod ''cp-0''] (ref_report_state ''v1.33.1+k0s.0'') = (Ok (), t) \<and>
    hst_Version (hcp_Status (ho_kcp (bs_config t))) = ver_String (vers (hl_lib ref_hl)) ''v1.33.1+k0s.0'' \<and>
    hst_UpToDateReplicas (hcp_Status (ho_kcp (bs_config t))) = Some 0"
  proof (rule downgrade_is_reported_as_done [where out = "''v1.34.1+k0s.0'' @ newline" and current = "''v1.34.1+k0s.0''"])
    show "list_all pod_ready [ref_pod ''cp-0'']"
      by (simp add: ref_pod_def pod_ready_def)
    show "alignToSpecVersionFormat (vers (hl_lib ref_hl)) ''v1.33.1+k0s.0'' (trim_suffix (''v1.34.1+k0s.0'' @ newline) newline) = Inr ''v1.34.1+k0s.0''"
      unfolding ref_suffix by (simp only: alignToSpecVersionFormat_def V id_apply plus Let_def simp_thms if_True)
    show "''v1.33.1+k0s.0'' = desired_version (sp_Version (hcp_Spec (ho_kcp (bs_config (ref_report_state ''v1.33.1+k0s.0'')))))"
    proof -
      have "sp_Version (hcp_Spec (ho_kcp (bs_config (ref_report_state v)))) = v" for v
        by (simp add: ref_report_state_def ref_hosted_def ref_bstate_def ref_hcp_def)
      then show ?thesis
        by (simp only: desired_version_def plus simp_thms if_False)
    qed
    show "cond_IsTrue (conds (hl_lib ref_hl)) (hst_Conditions (hcp_Status (ho_kcp (bs_config (ref_report_state ''v1.33.1+k0s.0''))))) ControlPlaneAvailableCondition"
      by (simp add: ref_report_state_def ref_hosted_def ref_bstate_def ref_hcp_def ref_hl_def ref_lib_def ref_cond_def mk_condition_def)
    show "ver_NewVersion (vers (hl_lib ref_hl)) (trim_suffix (''v1.34.1+k0s.0'' @ newline) newline) = None"
      unfolding ref_suffix by (simp add: V)
    show "\<not> ver_LessThan (vers (hl_lib ref_hl)) ''v1.34.1+k0s.0'' ''v1.33.1+k0s.0''"
      unfolding V by code_simp
  qed (simp_all add: V ref_host_env_def)
  then show ?thesis
    by (simp add: V)
qed

theorem infra_status_is_read_back_witness:
  "\<exists>s t u field. patchInfrastructureStatus ref_hl (ref_host_env (Inr zero_kmc) (ref_hcp [] None) [] [] True) s = (Ok (), t) \<and>
     Wrote (PatchInfraStatus u field True) None \<in> set (b_events s t) \<and>
     u_Annotations u AnnotationKeyManagedBy = Some AnnotationValueManagedByK0smotron"
proof -
  let ?E = "ref_host_env (Inr zero_kmc) (ref_hcp [] None) [] [] True"
  let ?s = "ref_hosted (ref_hcp [] None)"
  let ?u = "ref_infra_cluster True []"
  have "\<exists>t. patchInfrastructureStatus ref_hl ?E ?s = (Ok (), t) \<and> Wrote (PatchInfraStatus ?u ''status.ready'' True) None \<in> set (b_events ?s t)"
    by (simp add: patchInfrastructureStatus_def write_infra_status_def infraContractVersion_def bind_configM run_bindM run_wrapM run_liftC Let_def
        ref_host_env_def ref_env_def ref_hosted_def ref_bstate_def ref_ctl_def ref_cluster_def ref_infra_cluster_def ref_hl_def ref_lib_def
        ref_json_def status_path_def b_events_def new_events_def deref_def)
  then obtain t where "patchInfrastructureStatus ref_hl ?E ?s = (Ok (), t)" "Wrote (PatchInfraStatus ?u ''status.ready'' True) None \<in> set (b_events ?s t)"
    by blast
  then show ?thesis
    using infra_status_is_read_back by blast
qed

lemma finish_writes_accepted:
  assumes "\<And>tr rq. e_write (he_env E) tr rq = None"
    and infra: "\<And>s. \<exists>t evs. patchInfrastructureStatus H E s = (Ok (), t) \<and> trace (bs_ctl t) = trace (bs_ctl s) @ evs"
  shows "\<exists>t evs. finish_writes H E (Ok r) (r, None) s = (Ok r, t) \<and> trace (bs_ctl t) = trace (bs_ctl s) @ evs \<and>
    Wrote (PatchHcp (ho_kcp (bs_config s))) None \<in> set evs"
proof -
  let ?s1 = "s\<lparr>bs_ctl := log_event (Wrote (PatchCluster (ho_cluster (bs_config s))) None)
      (log_event (Wrote (PatchHcp (ho_kcp (bs_config s))) None) (bs_ctl s))\<rparr>"
  obtain t evs where "patchInfrastructureStatus H E ?s1 = (Ok (), t)" "trace (bs_ctl t) = trace (bs_ctl ?s1) @ evs"
    using infra by blast
  then show ?thesis
    by (simp add: assms(1) finish_writes_def bind_configM run_bindM run_tryM add_err_def)
qed

lemma ref_infra_run:
  "\<exists>t evs. patchInfrastructureStatus ref_hl (ref_host_env kmc hcp pods v False) s = (Ok (), t) \<and> trace (bs_ctl t) = trace (bs_ctl s) @ evs"
  by (simp add: patchInfrastructureStatus_def bind_configM run_bindM run_wrapM run_liftC ref_host_env_def ref_infra_cluster_def Let_def)

lemma ref_writes_accepted: "e_write (he_env (ref_host_env kmc hcp pods v managed)) tr rq = None"
  by (simp add: ref_host_env_def ref_env_def)

lemmas ref_finish_run = finish_writes_accepted [OF ref_writes_accepted ref_infra_run]

lemma ref_delete_run:
  "\<exists>t. hosted_Reconcile ref_hl (ref_host_env (Inl not_found) (ref_hcp ''v1.33.1'' (Some 5)) [] [] False) (''default'', ''cp'')
     (ref_hosted (ref_hcp [] None)) = (Ok zero_result, t) \<and>
     Wrote (PatchHcp (remove_hcp_finalizer (ref_hcp ''v1.33.1'' (Some 5)))) None \<in> set (b_events (ref_hosted (ref_hcp [] None)) t)"
proof -
  let ?E = "ref_host_env (Inl not_found) (ref_hcp ''v1.33.1'' (Some 5)) [] [] False"
  have scope: "getKmcScope ?E s = (Ok ref_kmcScope, s)" "ensure_remote_owner ?E ref_kmcScope s = (Ok ref_kmcScope, s)"
    if "ho_kcp (bs_config s) = ref_hcp ''v1.33.1'' (Some 5)" for s
    using that by (simp_all add: getKmcScope_def ensure_remote_owner_def bind_configM hosting_kubeconfig_def ref_hcp_def zero_spec_def ref_kmcScope_def)
  have body: "\<exists>t. hosted_body ref_hl ?E ref_kmcScope s = (Ok zero_result, t) \<and>
      bs_config t = \<lparr>ho_kcp = remove_hcp_finalizer (ref_hcp ''v1.33.1'' (Some 5)), ho_cluster = ref_cluster\<rparr> \<and>
      (\<exists>evs. trace (bs_ctl t) = trace (bs_ctl s) @ evs)"
    if "bs_config s = \<lparr>ho_kcp = ref_hcp ''v1.33.1'' (Some 5), ho_cluster = ref_cluster\<rparr>" for s
    using that by (simp add: hosted_body_def hosted_reconcileDelete_def bind_configM clearAvailabilityFailures_def run_bindM run_tryM run_liftC
        ref_host_env_def not_found_def ref_hcp_def)
  have finish: "\<exists>t evs. finish_hosted ref_hl ?E ref_kmcScope (Ok zero_result) s = (Ok zero_result, t) \<and> trace (bs_ctl t) = trace (bs_ctl s) @ evs \<and>
      Wrote (PatchHcp (ho_kcp (bs_config s))) None \<in> set evs" if "om_DeletionTimestamp (hcp_meta s) = Some 5" for s
    using ref_finish_run that by (simp add: finish_hosted_def bind_configM run_bindM named_results_def)
  have run: "\<exists>t evs. hosted_run ref_hl ?E ref_kmcScope s = (Ok zero_result, t) \<and> trace (bs_ctl t) = trace (bs_ctl s) @ evs \<and>
      Wrote (PatchHcp (remove_hcp_finalizer (ref_hcp ''v1.33.1'' (Some 5)))) None \<in> set evs"
    if cfg: "bs_config s = \<lparr>ho_kcp = ref_hcp ''v1.33.1'' (Some 5), ho_cluster = ref_cluster\<rparr>" for s
  proof -
    obtain u evs where u: "hosted_body ref_hl ?E ref_kmcScope s = (Ok zero_result, u)" "trace (bs_ctl u) = trace (bs_ctl s) @ evs"
        "bs_config u = \<lparr>ho_kcp = remove_hcp_finalizer (ref_hcp ''v1.33.1'' (Some 5)), ho_cluster = ref_cluster\<rparr>"
      using body [OF cfg] by blast
    moreover have "om_DeletionTimestamp (hcp_meta u) = Some 5"
      by (simp add: u(3) remove_hcp_finalizer_def ref_hcp_def)
    from finish [OF this] obtain t evs' where "finish_hosted ref_hl ?E ref_kmcScope (Ok zero_result) u = (Ok zero_result, t)"
        "trace (bs_ctl t) = trace (bs_ctl u) @ evs'" "Wrote (PatchHcp (ho_kcp (bs_config u))) None \<in> set evs'"
      by blast
    ultimately show ?thesis
      by (simp add: hosted_run_def run_deferNamedM)
  qed
  let ?s0 = "ref_hosted (ref_hcp [] None)"
  let ?u = "?s0\<lparr>bs_config := \<lparr>ho_kcp = ref_hcp ''v1.33.1'' (Some 5), ho_cluster = ref_cluster\<rparr>,
      bs_ctl := log_event (Read ReadPaused) (log_event (Read ReadPatchHelper) (log_event (Read ReadPatchHelper)
      (log_event (Read ReadOwnerCluster) (log_event (Read (ReadOther ''kcp'' ''cp'')) (bs_ctl ?s0)))))\<rparr>"
  have "\<exists>u evs. hosted_Reconcile ref_hl ?E (''default'', ''cp'') ?s0 = hosted_run ref_hl ?E ref_kmcScope u \<and>
      bs_config u = \<lparr>ho_kcp = ref_hcp ''v1.33.1'' (Some 5), ho_cluster = ref_cluster\<rparr> \<and> trace (bs_ctl u) = trace (bs_ctl ?s0) @ evs"
  proof -
    have "he_GetHcp ?E tr key = Inr (ref_hcp ''v1.33.1'' (Some 5))" "e_OwnerCluster (he_env ?E) tr meta = Inr (Some ref_cluster)"
      "e_NewPatchHelper (he_env ?E) tr = None" "e_EnsurePaused (he_env ?E) tr = Inr (False, False)" for tr key meta
      by (simp_all add: ref_host_env_def ref_env_def)
    moreover have "hosted_EnsureFinalizer ?E (ref_hcp ''v1.33.1'' (Some 5)) f s = (Ok False, s)" for f s
      by (simp add: hosted_EnsureFinalizer_def ref_hcp_def)
    ultimately have "hosted_Reconcile ref_hl ?E (''default'', ''cp'') ?s0 = hosted_run ref_hl ?E ref_kmcScope ?u"
      by (simp add: hosted_Reconcile_def hosted_with_cluster_def run_bindM run_tryM run_liftC scope)
    then show ?thesis
      by (intro exI [of _ ?u]) simp
  qed
  with run show ?thesis
    by (fastforce simp: b_events_def new_events_def)
qed


lemma ref_availability_run:
  assumes "\<And>tr k. he_GetUncachedClient E tr k = None" "\<And>tr. e_GetKubeSystem (he_env E) tr = Inr uid"
  shows "\<exists>s1. hosted_computeAvailability ref_hl E (ref_hosted (ref_hcp v None)) = (Ok (), s1) \<and>
      cond_IsTrue (conds (hl_lib ref_hl)) (hst_Conditions (hcp_Status (ho_kcp (bs_config s1)))) ControlPlaneAvailableCondition \<and>
      hcp_Spec (ho_kcp (bs_config s1)) = zero_spec\<lparr>sp_Version := v\<rparr> \<and> hcp_meta s1 = hcp_meta (ref_hosted (ref_hcp v None))"
  by (simp add: hosted_computeAvailability_def set_hcp_condition_def bind_configM run_bindM run_tryM run_liftC assms clearAvailabilityFailures_def
        ref_hosted_def ref_bstate_def ref_hcp_def ref_hl_def ref_lib_def ref_cond_def ref_cond_set_def mk_condition_def initialized_def Let_def)

abbreviation ref_running :: host_env where
  \<comment> \<open>one pod at the desired version\<close>
  "ref_running \<equiv> ref_host_env (Inr zero_kmc) (ref_hcp ''v1.33.1+k0s.0'' None) [ref_pod ''cp-0''] ''v1.33.1+k0s.0'' False"

lemma ref_version_run:
  assumes "v \<noteq> []"
  shows "\<exists>u. getK0sVersionRunningInPod ref_hl (ref_host_env kmc hcp pods v managed) sc p s = (Ok v, u) \<and> bs_config u = bs_config s"
  using assms by (simp add: getK0sVersionRunningInPod_def run_bindM ref_host_env_def ref_suffix ref_hl_def ref_lib_def ref_ver_def)

lemma ref_report_run:
  assumes "sp_Version (hcp_Spec (ho_kcp (bs_config s))) = ''v1.33.1+k0s.0''"
    and "cond_IsTrue (conds (hl_lib ref_hl)) (hst_Conditions (hcp_Status (ho_kcp (bs_config s)))) ControlPlaneAvailableCondition"
  shows "\<exists>t. report_pods ref_hl ref_running ref_kmcScope [ref_pod ''cp-0''] s = (Ok (), t) \<and> counters t = (Some 1, Some 1, Some 1, Some 1)"
proof -
  have plus: "contains ''v1.33.1+k0s.0'' ''+k0s.''"
    by code_simp
  have desired: "desired_version (sp_Version (hcp_Spec (ho_kcp (bs_config s)))) = ''v1.33.1+k0s.0''"
    by (simp only: assms(1) desired_version_def plus simp_thms if_False)
  have V: "ver_String (vers (hl_lib ref_hl)) = id" "ver_Equal (vers (hl_lib ref_hl)) = (=)" "ver_LessThan (vers (hl_lib ref_hl)) = (<)"
    "ver_NewVersion (vers (hl_lib ref_hl)) v = None \<longleftrightarrow> v \<noteq> []" for v
    by (simp_all add: ref_hl_def ref_lib_def ref_ver_def)
  have align: "alignToSpecVersionFormat (vers (hl_lib ref_hl)) ''v1.33.1+k0s.0'' ''v1.33.1+k0s.0'' = Inr ''v1.33.1+k0s.0''"
    by (simp only: alignToSpecVersionFormat_def V id_apply plus Let_def simp_thms if_True)
  have parses: "ver_NewVersion (vers (hl_lib ref_hl)) ''v1.33.1+k0s.0'' = None"
    by (simp add: V)
  have version: "\<exists>u. getK0sVersionRunningInPod ref_hl ref_running ref_kmcScope p s = (Ok ''v1.33.1+k0s.0'', u) \<and> bs_config u = bs_config s" for p s
    by (rule ref_version_run) simp
  have "pod_ready (ref_pod ''cp-0'')"
    by (simp add: ref_pod_def pod_ready_def)
  then have "\<exists>u. count_pods ref_hl ref_running ref_kmcScope ''v1.33.1+k0s.0'' \<lparr>pc_upToDate = 0, pc_ready = 0, pc_unavailable = 0,
      pc_minimum = ''v1.33.1+k0s.0''\<rparr> [ref_pod ''cp-0''] s = (Ok \<lparr>pc_upToDate = 1, pc_ready = 1, pc_unavailable = 0,
      pc_minimum = ''v1.33.1+k0s.0''\<rparr>, u) \<and> bs_config u = bs_config s"
    using version [of "ref_pod ''cp-0''" s] by (auto simp: run_bindM align V)
  then show ?thesis
    using assms(2) by (auto simp del: count_pods.simps
        simp: report_pods_def bind_configM run_bindM desired parses V(1) Let_def is_settled_def set_replicas_def counters_def deref_def)
qed

lemma ref_status_run:
  "\<exists>t. computeStatus ref_hl ref_running ref_kmcScope (ref_hosted (ref_hcp ''v1.33.1+k0s.0'' None)) = (Ok (), t) \<and>
     counters t = (Some 1, Some 1, Some 1, Some 1)"
proof -
  have E: "he_GetUncachedClient ref_running tr k = None" "e_GetKubeSystem (he_env ref_running) tr = Inr ''uid''"
      "he_GetKmc ref_running tr k = Inr zero_kmc" "he_ListPods ref_running tr c ns sel = Inr [ref_pod ''cp-0'']" for tr k c ns sel
    by (simp_all add: ref_host_env_def ref_env_def)
  obtain s1 where s1: "hosted_computeAvailability ref_hl ref_running (ref_hosted (ref_hcp ''v1.33.1+k0s.0'' None)) = (Ok (), s1)"
      "cond_IsTrue (conds (hl_lib ref_hl)) (hst_Conditions (hcp_Status (ho_kcp (bs_config s1)))) ControlPlaneAvailableCondition"
      "hcp_Spec (ho_kcp (bs_config s1)) = zero_spec\<lparr>sp_Version := ''v1.33.1+k0s.0''\<rparr>"
    using ref_availability_run [OF E(1,2)] by blast
  then show ?thesis
    using ref_report_run by (simp add: computeStatus_def run_bindM bind_configM run_tryM listControlPlanePods_def E Let_def)
qed

theorem counters_agree_witness:
  "\<exists>t. computeStatus ref_hl ref_running ref_kmcScope (ref_hosted (ref_hcp ''v1.33.1+k0s.0'' None)) = (Ok (), t) \<and> consistent (counters t)"
proof -
  obtain t where t: "computeStatus ref_hl ref_running ref_kmcScope (ref_hosted (ref_hcp ''v1.33.1+k0s.0'' None)) = (Ok (), t)"
      "counters t = (Some 1, Some 1, Some 1, Some 1)"
    using ref_status_run by blast
  have "counters t \<noteq> counters (ref_hosted (ref_hcp ''v1.33.1+k0s.0'' None))"
    unfolding t(2) by (simp add: counters_def ref_hosted_def ref_bstate_def ref_hcp_def)
  moreover have "\<forall>tr c ns sel ps. he_ListPods ref_running tr c ns sel = Inr ps \<longrightarrow> length ps < 2 ^ 31"
    by (simp add: ref_host_env_def)
  ultimately show ?thesis
    using counters_agree [OF t(1)] t(1) by blast
qed

theorem unsettled_control_plane_comes_back_witness:
  "\<exists>t. finish_hosted ref_hl ref_running ref_kmcScope (Ok zero_result) (ref_hosted (ref_hcp ''v1.33.1+k0s.0'' None)) = (Ok zero_result, t) \<and>
     status_settled ref_hl (bs_config t)"
proof -
  let ?s = "ref_hosted (ref_hcp ''v1.33.1+k0s.0'' None)"
  have alive: "om_DeletionTimestamp (hcp_meta ?s) = None"
    by (simp add: ref_hosted_def ref_bstate_def ref_hcp_def)
  obtain s1 where status: "computeStatus ref_hl ref_running ref_kmcScope ?s = (Ok (), s1)"
    using ref_status_run by blast
  have "\<exists>t. finish_writes ref_hl ref_running (Ok zero_result) (zero_result, None) s1 = (Ok zero_result, t)"
    using ref_finish_run by blast
  then obtain t where t: "finish_hosted ref_hl ref_running ref_kmcScope (Ok zero_result) ?s = (Ok zero_result, t)"
    by (auto simp: finish_hosted_alive [OF alive status] named_results_def)
  have "\<not> Requeue zero_result" "\<not> (\<exists>tr key e. he_GetKmc ref_running tr key = Inl e \<and> is_not_found e)"
    by (simp_all add: zero_result_def ref_host_env_def)
  with unsettled_control_plane_comes_back [OF t _ alive] t show ?thesis
    by blast
qed

end
