(* ===== verification/Provider_ID.thy ===== *)
theory Provider_ID
  imports Workload_Client Bootstrap_Commands
begin

text \<open>
  The controller that copies a machine's provider ID to its node
  (\<open>internal/controller/bootstrap/providerid_controller.go\<close>). Nodes are listed a page at a
  time; the server decides how many pages there are, so the loop over them runs on fuel, and running
  out of it is the value \<open>None\<close>. The theorems: on a server with finitely many pages the
  loop ends and finds what a search through all nodes at once would find, and a node is only
  changed when it had no provider ID, to carry that of the machine.
\<close>

record pid_env =
  pe_env :: env
  pe_GetMachine :: "event list \<Rightarrow> string \<times> string \<Rightarrow> gerror + machine"
  pe_ClusterByName :: "event list \<Rightarrow> string \<Rightarrow> string \<Rightarrow> gerror + cluster"
  pe_ListNodes :: "event list \<Rightarrow> int \<Rightarrow> string \<Rightarrow> gerror + node list \<times> string"
    \<comment> \<open>of the limit and the continue token: the items and the next token\<close>
  pe_IsLoopback :: "string \<Rightarrow> bool" \<comment> \<open>\<open>net.ParseIP(addr).IsLoopback()\<close>\<close>

definition nodeListPageSize :: int where "nodeListPageSize = 500"

datatype match = AlreadySet | Found node | NotThere

definition address_matches :: "pid_env \<Rightarrow> machine \<Rightarrow> node \<Rightarrow> bool" where
  \<comment> \<open>the two nested loops over the addresses\<close>
  "address_matches E m n \<longleftrightarrow>
     list_ex (\<lambda>addr. list_ex (\<lambda>nodeAddr. snd addr = nodeAddr \<and> \<not> pe_IsLoopback E nodeAddr) (n_Addresses n)) (m_Addresses m)"

definition node_matches :: "pid_env \<Rightarrow> machine \<Rightarrow> node \<Rightarrow> bool" where
  \<comment> \<open>by name, by label, or by an address that is not a loopback\<close>
  "node_matches E m n \<longleftrightarrow>
     n_Name n = m_Name m \<or> deref Map.empty (n_Labels n) machineNameNodeLabel = Some (m_Name m) \<or> address_matches E m n"

fun scan_nodes :: "pid_env \<Rightarrow> machine \<Rightarrow> node list \<Rightarrow> match" where
  \<comment> \<open>the loop over the items of a page\<close>
  "scan_nodes E m [] = NotThere"
| "scan_nodes E m (n # rest) =
     (if n_ProviderID n = m_ProviderID m then AlreadySet
      else if node_matches E m n then Found n
      else scan_nodes E m rest)"

fun nodeForMachine :: "nat \<Rightarrow> pid_env \<Rightarrow> machine \<Rightarrow> string \<Rightarrow> match option ctlM" where
  \<comment> \<open>the loop over the pages, from a continue token on\<close>
  "nodeForMachine 0 E m cont = ret None"
| "nodeForMachine (Suc fuel) E m cont =
     bindM (readM ReadNodes (\<lambda>tr. pe_ListNodes E tr nodeListPageSize cont)) (\<lambda>(items, next).
     case scan_nodes E m items of
       NotThere \<Rightarrow> if next = [] then ret (Some NotThere) else nodeForMachine fuel E m next
     | found \<Rightarrow> ret (Some found))"

fun retry_update :: "nat \<Rightarrow> pid_env \<Rightarrow> node \<Rightarrow> unit ctlM" where
  \<comment> \<open>\<open>retry.OnError\<close> with an always retriable error: the number of attempts after the first\<close>
  "retry_update 0 E n = writeM (pe_env E) (UpdateNode n)"
| "retry_update (Suc k) E n =
     tryM (writeM (pe_env E) (UpdateNode n)) (\<lambda>r. case r of Inl _ \<Rightarrow> retry_update k E n | Inr _ \<Rightarrow> ret ())"

definition set_provider_id :: "pid_env \<Rightarrow> machine \<Rightarrow> node \<Rightarrow> result ctlM" where
  \<comment> \<open>the end of \<open>Reconcile\<close>; writing to a nil map of labels panics\<close>
  "set_provider_id E m n =
     (if n_ProviderID n = [] then
        (case n_Labels n of
           None \<Rightarrow> panicM
         | Some ls \<Rightarrow>
             bindM (wrapM (Wrapf (''failed to update node '' @ quoted (n_Name n) @ '' with providerID''))
                      (retry_update 3 E (n\<lparr>n_ProviderID := m_ProviderID m,
                         n_Labels := Some (ls(machineNameNodeLabel \<mapsto> m_Name m))\<rparr>))) (\<lambda>_.
             ret zero_result))
      else ret zero_result)"

definition reconcile_machine_id :: "nat \<Rightarrow> pid_env \<Rightarrow> machine \<Rightarrow> result option ctlM" where
  \<comment> \<open>\<open>Reconcile\<close> once the machine has a provider ID\<close>
  "reconcile_machine_id fuel E m =
     (let loc = m_Namespace m @ ''/'' @ m_ClusterName m in
      bindM (wrapM (Wrapf (''can'' @ [CHR 0x27] @ ''t get cluster '' @ loc))
               (readM (ReadOther ''cluster'' (m_ClusterName m))
                  (\<lambda>tr. pe_ClusterByName E tr (m_Namespace m) (m_ClusterName m)))) (\<lambda>cl.
      bindM (wrapM (\<lambda>e. Wrapl (Wrapf (''can'' @ [CHR 0x27] @ ''t get kube client for cluster '' @ loc) e) ''may not be created yet'')
               (GetWorkloadClusterClientset (pe_env E) cl)) (\<lambda>_.
      bindM (wrapM (Wrapf (''failed to list nodes in cluster '' @ cl_Namespace cl @ ''/'' @ cl_Name cl))
               (nodeForMachine fuel E m [])) (\<lambda>found.
      case found of
        None \<Rightarrow> ret None
      | Some AlreadySet \<Rightarrow> ret (Some zero_result)
      | Some NotThere \<Rightarrow> ret (Some \<lparr>Requeue = True, RequeueAfter = 10 * second\<rparr>)
      | Some (Found n) \<Rightarrow> bindM (set_provider_id E m n) (\<lambda>res. ret (Some res))))))"

definition ProviderID_Reconcile :: "nat \<Rightarrow> pid_env \<Rightarrow> string \<times> string \<Rightarrow> result option ctlM" where
  \<comment> \<open>\<open>None\<close>: the server kept on sending continue tokens\<close>
  "ProviderID_Reconcile fuel E key =
     tryM (readM (ReadOther ''machine'' (snd key)) (\<lambda>tr. pe_GetMachine E tr key)) (\<lambda>r.
     case r of
       Inl e \<Rightarrow> if is_not_found e then ret (Some zero_result) else failM e
     | Inr m \<Rightarrow>
         if m_ProviderID m = [] then ret (Some \<lparr>Requeue = False, RequeueAfter = 10 * second\<rparr>)
         else reconcile_machine_id fuel E m)"

definition processIfResourceBelongsToK0sWorkerNode :: "machine \<Rightarrow> bool" where
  "processIfResourceBelongsToK0sWorkerNode m =
     (if r_Kind (m_ConfigRef m) \<noteq> ''K0sControllerConfig'' \<and> r_Kind (m_ConfigRef m) \<noteq> ''K0sWorkerConfig'' \<and>
         r_Kind (m_InfrastructureRef m) \<noteq> ''RemoteMachine'' then False
      else if r_Kind (m_ConfigRef m) = ''K0sControllerConfig'' \<and>
              map_get (m_Labels m) ''k0smotron.io/control-plane-worker-enabled'' \<noteq> ''true'' then False
      else True)"

subsection \<open>Paging\<close>

definition serves_pages :: "pid_env \<Rightarrow> (string \<times> node list) list \<Rightarrow> bool" where
  \<comment> \<open>the server has these pages, each with the continue token that asks for it; the last page has
      no continuation, and a token that continues is not empty\<close>
  "serves_pages E pages \<longleftrightarrow>
     (\<forall>i < length pages. \<forall>tr. pe_ListNodes E tr nodeListPageSize (fst (pages ! i)) =
        Inr (snd (pages ! i), if Suc i < length pages then fst (pages ! Suc i) else [])) \<and>
     (\<forall>i. 0 < i \<and> i < length pages \<longrightarrow> fst (pages ! i) \<noteq> [])"

lemma scan_nodes_append: "scan_nodes E m (xs @ ys) =
    (case scan_nodes E m xs of NotThere \<Rightarrow> scan_nodes E m ys | r \<Rightarrow> r)"
  by (induction xs) (auto split: match.splits)

lemma nodeForMachine_from:
  assumes pages: "serves_pages E pages" and "i < length pages" and "length pages - i \<le> fuel"
  shows "fst (nodeForMachine fuel E m (fst (pages ! i)) s) = Ok (Some (scan_nodes E m (concat (map snd (drop i pages)))))"
  using assms(2,3)
proof (induction fuel arbitrary: i s)
  case (Suc fuel)
  have drop: "drop i pages = pages ! i # drop (Suc i) pages"
    using Suc.prems(1) by (simp add: Cons_nth_drop_Suc)
  have page: "pe_ListNodes E tr nodeListPageSize (fst (pages ! i)) =
      Inr (snd (pages ! i), if Suc i < length pages then fst (pages ! Suc i) else [])" for tr
    using pages Suc.prems(1) by (simp add: serves_pages_def)
  show ?case
  proof (cases "Suc i < length pages")
    case True
    then have "fst (pages ! Suc i) \<noteq> []"
      using pages by (simp add: serves_pages_def)
    then show ?thesis
      using Suc.IH [OF True] Suc.prems(2) True
      by (simp add: run_bindM page drop scan_nodes_append split: match.splits)
  next
    case False
    then show ?thesis
      by (simp add: run_bindM page drop scan_nodes_append split: match.splits)
  qed
qed simp

text \<open>
  C30 (termination). Looking for the node of a machine ends on a server with finitely many
  pages, with as much fuel as there are pages, and finds what one scan through all nodes
  would find: paging neither misses a node nor changes which match wins.
\<close>
theorem node_search_ends_and_ignores_paging:
  assumes "serves_pages E pages" and "pages \<noteq> []" and "fst (hd pages) = []" and "length pages \<le> fuel"
  shows "fst (nodeForMachine fuel E m [] s) = Ok (Some (scan_nodes E m (concat (map snd pages))))"
  using nodeForMachine_from [OF assms(1), of 0 fuel m s] assms(2-4) by (simp add: hd_conv_nth)

text \<open>A server with two pages, the second of which holds the node of the machine.\<close>

definition ref_node :: "string \<Rightarrow> string \<Rightarrow> node" where
  "ref_node n pid = \<lparr>n_Name = n, n_Labels = Some Map.empty, n_ProviderID = pid, n_Addresses = [''10.0.0.1'']\<rparr>"

definition ref_pid_machine :: machine where
  "ref_pid_machine = (ref_machine ''w1'' 0)\<lparr>m_ProviderID := ''p://w1'', m_Addresses := [], m_ClusterName := ''c''\<rparr>"

definition ref_pid_env :: pid_env where
  "ref_pid_env = \<lparr>pe_env = ref_env [], pe_GetMachine = (\<lambda>_ _. Inr ref_pid_machine),
     pe_ClusterByName = (\<lambda>_ _ _. Inr ref_cluster),
     pe_ListNodes = (\<lambda>_ _ cont. if cont = [] then Inr ([ref_node ''w0'' ''p://w0''], ''2'') else Inr ([ref_node ''w1'' []], [])),
     pe_IsLoopback = (\<lambda>a. a = ''127.0.0.1'')\<rparr>"

lemma ref_pages: "serves_pages ref_pid_env [([], [ref_node ''w0'' ''p://w0'']), (''2'', [ref_node ''w1'' []])]"
  by (auto simp: serves_pages_def ref_pid_env_def nth_Cons split: nat.splits)

theorem node_search_ends_and_ignores_paging_witness:
  "fst (nodeForMachine 2 ref_pid_env ref_pid_machine [] (ref_ctl (ref_scope 1 [] [] []))) = Ok (Some (Found (ref_node ''w1'' [])))"
  using node_search_ends_and_ignores_paging [OF ref_pages, of 2 ref_pid_machine "ref_ctl (ref_scope 1 [] [] [])"]
  by (simp add: node_matches_def address_matches_def ref_node_def ref_pid_machine_def ref_machine_def)

subsection \<open>What is written\<close>

definition node_update_justified :: "pid_env \<Rightarrow> string \<times> string \<Rightarrow> node \<Rightarrow> bool" where
  \<comment> \<open>the node was on a page and had no provider ID; what is written is the same node with the
      provider ID and the name of the machine of the request\<close>
  "node_update_justified E key n \<longleftrightarrow>
     (\<exists>tr m tr' cont items next n0 ls.
        pe_GetMachine E tr key = Inr m \<and> m_ProviderID m \<noteq> [] \<and>
        pe_ListNodes E tr' nodeListPageSize cont = Inr (items, next) \<and> n0 \<in> set items \<and>
        n_ProviderID n0 = [] \<and> node_matches E m n0 \<and> n_Labels n0 = Some ls \<and>
        n = n0\<lparr>n_ProviderID := m_ProviderID m, n_Labels := Some (ls(machineNameNodeLabel \<mapsto> m_Name m))\<rparr>)"

fun pid_event_ok :: "pid_env \<Rightarrow> string \<times> string \<Rightarrow> event \<Rightarrow> bool" where
  "pid_event_ok E key (Wrote (UpdateNode n) e) = node_update_justified E key n"
| "pid_event_ok E key (Wrote w e) = False"
| "pid_event_ok E key _ = True"

lemma scan_nodes_Found: "scan_nodes E m ns = Found n \<Longrightarrow> n \<in> set ns \<and> node_matches E m n"
  by (induction ns) (auto split: if_splits)

lemma nodeForMachine_Found:
  "nodeForMachine fuel E m cont s = (Ok (Some (Found n)), s') \<Longrightarrow>
     (\<exists>tr c items next. pe_ListNodes E tr nodeListPageSize c = Inr (items, next) \<and> n \<in> set items) \<and> node_matches E m n"
proof (induction fuel arbitrary: cont s)
  case (Suc fuel)
  then show ?case
    by (auto elim!: bindM_OkE simp: run_liftE_case split: sum.splits match.splits if_splits dest: scan_nodes_Found)
      (use scan_nodes_Found in blast)+
qed simp

lemma nodeForMachine_reads: "emits is_read (nodeForMachine fuel E m cont)"
  by (induction fuel arbitrary: cont) (auto intro!: emits_intros split: match.splits)

lemma retry_update_emits: "(\<And>e. P (Wrote (UpdateNode n) e)) \<Longrightarrow> emits P (retry_update k E n)"
  by (induction k) (auto intro!: emits_intros split: sum.splits)

lemma set_provider_id_emits:
  assumes "\<And>ls e. n_ProviderID n = [] \<Longrightarrow> n_Labels n = Some ls \<Longrightarrow>
    P (Wrote (UpdateNode (n\<lparr>n_ProviderID := m_ProviderID m, n_Labels := Some (ls(machineNameNodeLabel \<mapsto> m_Name m))\<rparr>)) e)"
  shows "emits P (set_provider_id E m n)"
  using assms unfolding set_provider_id_def
  by (auto intro!: emits_intros retry_update_emits split: option.splits)

lemma pid_event_ok_read: "is_read ev \<Longrightarrow> pid_event_ok E key ev"
  by (cases ev) simp_all

lemma after_machine_emits:
  assumes "pe_GetMachine E tr key = Inr m" and "m_ProviderID m \<noteq> []"
    and found: "nodeForMachine fuel E m [] s = (Ok (Some (Found n)), s')"
  shows "emits (pid_event_ok E key) (set_provider_id E m n)"
proof (rule set_provider_id_emits)
  fix ls e
  assume "n_ProviderID n = []" and "n_Labels n = Some ls"
  with assms(1,2) nodeForMachine_Found [OF found] show "pid_event_ok E key
      (Wrote (UpdateNode (n\<lparr>n_ProviderID := m_ProviderID m, n_Labels := Some (ls(machineNameNodeLabel \<mapsto> m_Name m))\<rparr>)) e)"
    unfolding pid_event_ok.simps node_update_justified_def by blast
qed

lemma GetWorkloadClusterClientset_reads: "emits is_read (GetWorkloadClusterClientset E cl)"
  unfolding GetWorkloadClusterClientset_def FindK0sControlPlane_def
  by (auto intro!: emits_intros getRESTConfig_reads client_for_reads)

lemma reconcile_machine_id_emits:
  assumes "pe_GetMachine E tr key = Inr m" and "m_ProviderID m \<noteq> []"
  shows "emits (pid_event_ok E key) (reconcile_machine_id fuel E m)"
  unfolding reconcile_machine_id_def Let_def
  by (intro emits.keeps_bindM_ok emits.keeps_wrapM emits_readM
        emits_mono [OF GetWorkloadClusterClientset_reads] emits_mono [OF nodeForMachine_reads] pid_event_ok_read)
    (auto intro!: emits_intros emits_mono [OF GetWorkloadClusterClientset_reads] pid_event_ok_read
        after_machine_emits [OF assms] elim!: wrapM_OkE split: option.splits match.splits)

lemma ProviderID_Reconcile_emits: "emits (pid_event_ok E key) (ProviderID_Reconcile fuel E key)"
proof -
  have "appends (pid_event_ok E key) s (snd (ProviderID_Reconcile fuel E key s))" for s
  proof (cases "pe_GetMachine E (trace s) key")
    case (Inl e)
    then show ?thesis
      by (simp add: ProviderID_Reconcile_def run_tryM appends_def)
  next
    case (Inr m)
    let ?s = "log_event (Read (ReadOther ''machine'' (snd key))) s"
    have "appends (pid_event_ok E key) s ?s"
      by (simp add: appends_def)
    moreover have "m_ProviderID m \<noteq> [] \<Longrightarrow> appends (pid_event_ok E key) ?s (snd (reconcile_machine_id fuel E m ?s))"
      using reconcile_machine_id_emits [OF Inr] by (simp add: keeps_def)
    ultimately show ?thesis
      using Inr emits.frame_trans by (auto simp: ProviderID_Reconcile_def run_tryM)
  qed
  then show ?thesis
    by (simp add: keeps_def)
qed

text \<open>
  The controller writes nothing but nodes, and a node only when it was listed without a
  provider ID and matches a machine that has one, by name, by label or by an address that is
  not a loopback. What it writes is that node with the provider ID and the name of the machine added,
  all else unchanged: a provider ID that a node already has is never replaced.
\<close>
theorem provider_id_never_replaced:
  assumes "ProviderID_Reconcile fuel E key s = (r, s')" and "Wrote w e \<in> set (new_events s s')"
  shows "\<exists>n tr m tr' cont items next n0 ls. w = UpdateNode n \<and>
     pe_GetMachine E tr key = Inr m \<and> m_ProviderID m \<noteq> [] \<and>
     pe_ListNodes E tr' nodeListPageSize cont = Inr (items, next) \<and> n0 \<in> set items \<and>
     n_ProviderID n0 = [] \<and> node_matches E m n0 \<and> n_Labels n0 = Some ls \<and>
     n = n0\<lparr>n_ProviderID := m_ProviderID m, n_Labels := Some (ls(machineNameNodeLabel \<mapsto> m_Name m))\<rparr>"
proof -
  have ok: "pid_event_ok E key (Wrote w e)"
    by (rule emits_new_events [OF ProviderID_Reconcile_emits assms])
  then show ?thesis
    by (cases w) (simp_all add: node_update_justified_def)
qed

definition ref_named_node :: node where
  "ref_named_node = (ref_node ''w1'' ''p://w1'')\<lparr>n_Labels := Some [machineNameNodeLabel \<mapsto> ''w1'']\<rparr>"

definition ref_pid_ctl :: ctl where "ref_pid_ctl = ref_ctl (ref_scope 1 [] [] [])"

lemma ref_pid_client: "fst (GetWorkloadClusterClientset (ref_env []) ref_cluster s) = Ok (ClientsetFor \<lparr>rc_Source = ''cache'', rc_Timeout = 0\<rparr>)"
  by (simp add: GetWorkloadClusterClientset_def FindK0sControlPlane_def getRESTConfig_def client_for_def
      isTunneledRestConfigPossible_def run_simps Let_def ref_defs)

lemma ref_pid_search: "fst (nodeForMachine 2 ref_pid_env ref_pid_machine [] s) = Ok (Some (Found (ref_node ''w1'' [])))"
  by (simp add: numeral_2_eq_2 run_bindM ref_pid_env_def node_matches_def address_matches_def ref_node_def
      ref_pid_machine_def ref_machine_def)

lemma ref_pid_set: "set_provider_id ref_pid_env ref_pid_machine (ref_node ''w1'' []) s =
    (Ok zero_result, log_event (Wrote (UpdateNode ref_named_node) None) s)"
  by (simp add: set_provider_id_def ref_node_def ref_named_node_def numeral_3_eq_3 run_simps ref_pid_env_def ref_env_def
      ref_pid_machine_def ref_machine_def)

lemma ref_id_run:
  "\<exists>s'. ProviderID_Reconcile 2 ref_pid_env (''default'', ''w1'') ref_pid_ctl = (Ok (Some zero_result), s') \<and>
     Wrote (UpdateNode ref_named_node) None \<in> set (trace s')"
proof -
  have got: "pe_env ref_pid_env = ref_env []" "pe_GetMachine ref_pid_env tr key = Inr ref_pid_machine"
    "pe_ClusterByName ref_pid_env tr ns n = Inr ref_cluster" "m_ProviderID ref_pid_machine \<noteq> []" for tr key ns n
    by (simp_all add: ref_pid_env_def ref_pid_machine_def)
  obtain s1 s2 where run: "GetWorkloadClusterClientset (ref_env []) ref_cluster
        (log_event (Read (ReadOther ''cluster'' (m_ClusterName ref_pid_machine))) (log_event (Read (ReadOther ''machine'' ''w1'')) ref_pid_ctl)) =
        (Ok (ClientsetFor \<lparr>rc_Source = ''cache'', rc_Timeout = 0\<rparr>), s1)"
      "nodeForMachine 2 ref_pid_env ref_pid_machine [] s1 = (Ok (Some (Found (ref_node ''w1'' []))), s2)"
    using ref_pid_client ref_pid_search by (metis prod.collapse)
  show ?thesis
    by (simp add: ProviderID_Reconcile_def reconcile_machine_id_def run_simps Let_def got run ref_pid_set)
qed

theorem provider_id_never_replaced_witness:
  "\<exists>s'. ProviderID_Reconcile 2 ref_pid_env (''default'', ''w1'') ref_pid_ctl = (Ok (Some zero_result), s') \<and>
     (\<exists>m tr n0. n_ProviderID n0 = [] \<and> pe_GetMachine ref_pid_env tr (''default'', ''w1'') = Inr m \<and> node_matches ref_pid_env m n0 \<and>
        n_ProviderID ref_named_node = m_ProviderID m)"
proof -
  obtain s' where run: "ProviderID_Reconcile 2 ref_pid_env (''default'', ''w1'') ref_pid_ctl = (Ok (Some zero_result), s')"
    and ev: "Wrote (UpdateNode ref_named_node) None \<in> set (trace s')"
    using ref_id_run by blast
  have "Wrote (UpdateNode ref_named_node) None \<in> set (new_events ref_pid_ctl s')"
    using ev by (simp add: new_events_def ref_pid_ctl_def ref_ctl_def)
  from provider_id_never_replaced [OF run this] obtain tr m n0 ls where
      "pe_GetMachine ref_pid_env tr (''default'', ''w1'') = Inr m" "n_ProviderID n0 = []" "node_matches ref_pid_env m n0"
      "ref_named_node = n0\<lparr>n_ProviderID := m_ProviderID m, n_Labels := Some (ls(machineNameNodeLabel \<mapsto> m_Name m))\<rparr>"
    by auto
  moreover from arg_cong [OF this(4), of n_ProviderID] have "n_ProviderID ref_named_node = m_ProviderID m"
    by simp
  ultimately show ?thesis
    using run by blast
qed

end
