(* ===== verification/Cluster_Status.thy ===== *)
theory Cluster_Status
  imports Hosted_ControlPlane
begin

text \<open>
  The world, the state and the status of the controller of k0smotron clusters
  (\<open>internal/controller/k0smotron.io\<close>). A run keeps the \<open>Cluster\<close> the handler mutates and its
  deferred closure patches, the owner and the client of the hosting cluster, and what the handler saw on its way
  (\<open>currentReconcileState\<close>), from which \<open>k0smotroncluster_status.go\<close> computes the conditions.
\<close>

subsection \<open>The world\<close>

record admin_kubeconfig =
  ak_CurrentContext :: string
  ak_Contexts :: "string \<rightharpoonup> string \<times> string" \<comment> \<open>the cluster and the user of a context\<close>
  ak_Clusters :: "string \<rightharpoonup> string \<times> string" \<comment> \<open>the server and the CA of a cluster\<close>
  ak_AuthInfos :: "string \<rightharpoonup> string \<times> string" \<comment> \<open>the certificate and the key of a user\<close>

record clu_lib =
  cu_lib :: lib
  cu_obj :: obj_lib
  cu_ComputeHash :: "pod_template \<Rightarrow> 32 word option \<Rightarrow> string"
  cu_DeepDerivative :: "PersistentVolumeClaim list \<Rightarrow> PersistentVolumeClaim list \<Rightarrow> bool"
  cu_AsSelector :: "strmap \<Rightarrow> gerror + string" \<comment> \<open>\<open>LabelSelectorAsSelector\<close>, and its \<open>String\<close>\<close>
  cu_Summary :: "condition list \<Rightarrow> string \<Rightarrow> string list \<Rightarrow> string list \<Rightarrow> gerror + condition"
    \<comment> \<open>\<open>NewSummaryCondition\<close>: the target type, the types, and those of negative polarity\<close>
  cu_MergeOverride :: "object \<Rightarrow> object \<Rightarrow> gerror + object"
  cu_YAML :: "object \<Rightarrow> gerror + string"
  cu_APIServerVirtualIP :: "string \<Rightarrow> gerror + string"
  cu_DecodeKubeconfig :: "string \<Rightarrow> gerror + admin_kubeconfig option" \<comment> \<open>\<open>None\<close>: another type\<close>
  cu_CreateBasic :: "string \<Rightarrow> string \<Rightarrow> string \<Rightarrow> string \<Rightarrow> admin_kubeconfig" \<comment> \<open>server, cluster, user and CA\<close>
  cu_WriteKubeconfig :: "admin_kubeconfig \<Rightarrow> gerror + string"
  cu_InitialPurposes :: "string list" \<comment> \<open>of \<open>NewCertificatesForInitialControlPlane\<close>\<close>
  cu_ParseCertificatePEM :: "string \<Rightarrow> gerror option"
  cu_ParsePrivateKeyPEM :: "string \<Rightarrow> gerror option"
  cu_NewSigner :: "string \<Rightarrow> string \<Rightarrow> gerror option"

record clu_env =
  cv_host :: host_env
  cv_GetStatefulSet :: "event list \<Rightarrow> mgmt_client \<Rightarrow> string \<times> string \<Rightarrow> gerror + stateful_set"
  cv_DryRun :: "event list \<Rightarrow> mgmt_client \<Rightarrow> stateful_set \<Rightarrow> stateful_set"
    \<comment> \<open>what the object is after the dry run, whose error is ignored\<close>
  cv_LoadBalancer :: "event list \<Rightarrow> mgmt_client \<Rightarrow> string \<times> string \<Rightarrow> gerror + (string \<times> string) list"
    \<comment> \<open>host name and address of each ingress point of a service\<close>
  cv_ClusterIPs :: "event list \<Rightarrow> mgmt_client \<Rightarrow> string \<times> string \<Rightarrow> gerror + string list"
  cv_ListNodes :: "event list \<Rightarrow> mgmt_client \<Rightarrow> gerror + (string \<times> string) list list"
  cv_GetClaim :: "event list \<Rightarrow> mgmt_client \<Rightarrow> string \<times> string \<Rightarrow> gerror + string option" \<comment> \<open>its storage class\<close>
  cv_AllowExpansion :: "event list \<Rightarrow> mgmt_client \<Rightarrow> string \<Rightarrow> gerror + bool option" \<comment> \<open>of a storage class\<close>
  cv_GetSecret :: "event list \<Rightarrow> mgmt_client \<Rightarrow> string \<times> string \<Rightarrow> gerror + secret"
  cv_NeedsRotation :: "event list \<Rightarrow> secret \<Rightarrow> gerror + bool"
  cv_ListPods :: "event list \<Rightarrow> mgmt_client \<Rightarrow> string \<Rightarrow> strmap \<Rightarrow> gerror + (string \<times> string) list" \<comment> \<open>name and phase\<close>
  cv_LookupCertificates :: "event list \<Rightarrow> mgmt_client \<Rightarrow> string \<times> string \<Rightarrow> string list \<Rightarrow> gerror + (string \<rightharpoonup> string \<times> string)"
    \<comment> \<open>the key pairs found, by purpose\<close>
  cv_ProcessRequest :: "event list \<Rightarrow> string \<Rightarrow> string \<Rightarrow> string list \<Rightarrow> gerror + string \<times> string"
    \<comment> \<open>common name, organisation and hosts; the request and its key\<close>
  cv_Sign :: "event list \<Rightarrow> string \<Rightarrow> gerror + string"
  cv_NewClusterClient :: "event list \<Rightarrow> string \<times> string \<Rightarrow> gerror option"
  cv_Ping :: "event list \<Rightarrow> gerror option" \<comment> \<open>the read of the namespace \<open>kube-system\<close> of the workload cluster\<close>
  cv_ListJoinTokenRequests :: "event list \<Rightarrow> string \<Rightarrow> gerror + (string \<times> string \<times> strmap) list"
    \<comment> \<open>by the UID label: namespace, name and annotations\<close>

subsection \<open>The state of a run\<close>

record clusterSettings =
  set_serviceCIDR :: string
  set_clusterDomain :: string
  set_kubernetesServiceIP :: string

record currentReconcileState =
  rs_message :: string
  rs_reason :: string
  rs_sts :: "stateful_set option"
  rs_svc :: bool \<comment> \<open>whether the service was seen\<close>
  rs_kcMessage :: string
  rs_kcData :: bool \<comment> \<open>whether the kubeconfig secret was seen or written\<close>

record kmc_run =
  kx_kmc :: Cluster
  kx_owner :: "external_owner option"
  kx_client :: mgmt_client
  kx_settings :: clusterSettings
  kx_state :: currentReconcileState

type_synonym 'a kmcM = "(kmc_run, 'a) bootM"

abbreviation cv_boot :: "clu_env \<Rightarrow> boot_env" where
  "cv_boot E \<equiv> he_boot (cv_host E)"

abbreviation cv_env :: "clu_env \<Rightarrow> env" where
  "cv_env E \<equiv> he_env (cv_host E)"

abbreviation cu_conds :: "clu_lib \<Rightarrow> cond_lib" where
  "cu_conds C \<equiv> conds (cu_lib C)"

definition kread :: "string \<Rightarrow> string \<Rightarrow> (event list \<Rightarrow> mgmt_client \<Rightarrow> gerror + 'a) \<Rightarrow> 'a kmcM" where
  \<comment> \<open>a read through \<open>scope.client\<close> or \<open>scope.clienSet\<close>\<close>
  "kread what name f = bindM configM (\<lambda>r. bread what name (\<lambda>tr. f tr (kx_client r)))"

definition kwrite :: "clu_env \<Rightarrow> cluster_write \<Rightarrow> unit kmcM" where
  \<comment> \<open>a write through \<open>scope.client\<close>\<close>
  "kwrite E w = bindM configM (\<lambda>r. hwrite (cv_host E) (ClusterWrite (kx_client r) w))"

definition mwrite :: "clu_env \<Rightarrow> cluster_write \<Rightarrow> unit kmcM" where
  \<comment> \<open>a write through the client of the management cluster\<close>
  "mwrite E w = hwrite (cv_host E) (ClusterWrite ManagementClient w)"

definition kmcM :: "Cluster kmcM" where
  "kmcM = bindM configM (\<lambda>r. ret (kx_kmc r))"

definition upd_kmc :: "(Cluster \<Rightarrow> Cluster) \<Rightarrow> unit kmcM" where
  "upd_kmc f = set_configM (\<lambda>r. r\<lparr>kx_kmc := f (kx_kmc r)\<rparr>)"

definition upd_ksp :: "(ClusterSpec \<Rightarrow> ClusterSpec) \<Rightarrow> unit kmcM" where
  "upd_ksp f = upd_kmc (\<lambda>k. k\<lparr>kmc_Spec := f (kmc_Spec k)\<rparr>)"

definition upd_kst :: "(ClusterStatus \<Rightarrow> ClusterStatus) \<Rightarrow> unit kmcM" where
  "upd_kst f = upd_kmc (\<lambda>k. k\<lparr>kmc_Status := f (kmc_Status k)\<rparr>)"

definition upd_rs :: "(currentReconcileState \<Rightarrow> currentReconcileState) \<Rightarrow> unit kmcM" where
  "upd_rs f = set_configM (\<lambda>r. r\<lparr>kx_state := f (kx_state r)\<rparr>)"

definition kmc_key :: "Cluster \<Rightarrow> string \<times> string" where
  "kmc_key kmc = (om_Namespace (kmc_Meta kmc), om_Name (kmc_Meta kmc))"

definition err_unit :: "gerror option \<Rightarrow> gerror + unit" where
  "err_unit e = (case e of None \<Rightarrow> Inr () | Some e' \<Rightarrow> Inl e')"

subsection \<open>Conditions\<close>

definition ClusterControlPlaneFunctionalCondition :: string where "ClusterControlPlaneFunctionalCondition = ''ControlPlaneFunctional''"
definition ClusterControlPlaneFunctionalReason :: string where "ClusterControlPlaneFunctionalReason = ''KubeSystemNamespaceFound''"
definition ClusterDeletingCondition :: string where "ClusterDeletingCondition = ''Deleting''"
definition ClusterNotDeletingReason :: string where "ClusterNotDeletingReason = ''NotDeleting''"
definition ClusterDeletingDeletionCompletedReason :: string where "ClusterDeletingDeletionCompletedReason = ''Completed''"
definition ClusterControlPlaneUpToDateCondition :: string where "ClusterControlPlaneUpToDateCondition = ''ControlPlaneUpToDate''"
definition ClusterControlPlaneReplicasUpToDateReason :: string where "ClusterControlPlaneReplicasUpToDateReason = ''AllReplicasUpToDate''"
definition ClusterControlPlaneNotAllReplicasUpToDateReason :: string where
  "ClusterControlPlaneNotAllReplicasUpToDateReason = ''NotAllReplicasUpToDate''"
definition ClusterControlPlaneNoReadyReplicasReason :: string where "ClusterControlPlaneNoReadyReplicasReason = ''NoReadyReplicas''"
definition ClusterControlPlaneScalingCondition :: string where "ClusterControlPlaneScalingCondition = ''ControlPlaneScaling''"
definition ClusterControlPlaneScaledUpReason :: string where "ClusterControlPlaneScaledUpReason = ''ScalingUp''"
definition ClusterControlPlaneScaledDownReason :: string where "ClusterControlPlaneScaledDownReason = ''ScalingDown''"
definition ClusterControlPlaneNotScalingReason :: string where "ClusterControlPlaneNotScalingReason = ''ControlPlaneWithDesiredReplicas''"
definition ClusterControlPlaneExposedCondition :: string where "ClusterControlPlaneExposedCondition = ''ControlPlaneExposed''"
definition ClusterControlPlaneExposedReason :: string where "ClusterControlPlaneExposedReason = ''ClusterWithExternalAddress''"
definition ClusterKubeconfigSecretAvailableCondition :: string where
  "ClusterKubeconfigSecretAvailableCondition = ''KubeconfigSecretAvailable''"
definition ClusterCertificatesAvailableCondition :: string where "ClusterCertificatesAvailableCondition = ''CertificatesAvailable''"
definition ClusterAvailableCondition :: string where "ClusterAvailableCondition = ''Available''"
definition CreatedReason :: string where "CreatedReason = ''Created''"
definition NotFoundReason :: string where "NotFoundReason = ''NotFound''"

definition check_logs :: string where "check_logs = ''Check controller logs for more details''"

definition set_kmc_condition :: "clu_lib \<Rightarrow> clu_env \<Rightarrow> condition \<Rightarrow> unit kmcM" where
  "set_kmc_condition C E c =
     bindM (liftC (nowM (cv_env E))) (\<lambda>now.
     upd_kst (\<lambda>st. st\<lparr>cst_Conditions := cond_Set (cu_conds C) now (cst_Conditions st) c\<rparr>))"

definition kmc_condition_true :: "clu_lib \<Rightarrow> Cluster \<Rightarrow> string \<Rightarrow> bool" where
  "kmc_condition_true C kmc t = cond_IsTrue (cu_conds C) (cst_Conditions (kmc_Status kmc)) t"

definition translateStatusFromStatefulSet :: "clu_lib \<Rightarrow> stateful_set option \<Rightarrow> Cluster \<Rightarrow> Cluster res" where
  \<comment> \<open>the error of the selector is ignored, and its nil value then panics\<close>
  "translateStatusFromStatefulSet C sts kmc =
     (case sts of
        None \<Rightarrow> Ok kmc
      | Some s \<Rightarrow>
          (case cu_AsSelector C (ss_Selector (sts_Spec s)) of
             Inl _ \<Rightarrow> Panic
           | Inr sel \<Rightarrow>
               Ok (SetReadyStatus (sts_ReadyReplicas s = sp_Replicas (kmc_Spec kmc))
                 (kmc\<lparr>kmc_Status := (kmc_Status kmc)\<lparr>cst_Replicas := sts_Replicas s, cst_UpdatedReplicas := sts_UpdatedReplicas s,
                    cst_Selector := sel, cst_ReadyReplicas := sts_ReadyReplicas s\<rparr>\<rparr>))))"

definition scaling_text :: "string \<Rightarrow> 32 word \<Rightarrow> 32 word \<Rightarrow> string \<Rightarrow> string" where
  "scaling_text what n m end = ''Control plane is '' @ what @ '': '' @ show_int (sint n) @ ''/'' @ show_int (sint m) @ '' replicas '' @ end"

definition scaling_condition :: "Cluster \<Rightarrow> stateful_set option \<Rightarrow> condition" where
  "scaling_condition kmc sts =
     (let ty = ClusterControlPlaneScalingCondition; want = sp_Replicas (kmc_Spec kmc) in
      case sts of
        None \<Rightarrow> mk_condition ty ConditionFalse NotFoundReason check_logs
      | Some s \<Rightarrow>
          if sint want > sint (sts_Replicas s) then
            mk_condition ty ConditionTrue ClusterControlPlaneScaledUpReason (scaling_text ''scaling up'' (sts_Replicas s) want ''required'')
          else if sint (sts_Replicas s) > sint want then
            mk_condition ty ConditionTrue ClusterControlPlaneScaledDownReason (scaling_text ''scaling down'' (sts_Replicas s) want ''desired'')
          else if sint (sts_UpdatedReplicas s) < sint want then
            mk_condition ty ConditionTrue ClusterControlPlaneScaledUpReason (scaling_text ''scaling up'' (sts_UpdatedReplicas s) want ''created'')
          else if sint (sts_UpdatedReplicas s) > sint want then
            mk_condition ty ConditionTrue ClusterControlPlaneScaledDownReason (scaling_text ''scaling down'' (sts_UpdatedReplicas s) want ''desired'')
          else mk_condition ty ConditionFalse ClusterControlPlaneNotScalingReason [])"

definition cluster_up_to_date_condition :: "Cluster \<Rightarrow> stateful_set option \<Rightarrow> condition" where
  "cluster_up_to_date_condition kmc sts =
     (let ty = ClusterControlPlaneUpToDateCondition; want = sp_Replicas (kmc_Spec kmc) in
      case sts of
        None \<Rightarrow> mk_condition ty ConditionFalse NotFoundReason check_logs
      | Some s \<Rightarrow>
          if want \<noteq> sts_UpdatedReplicas s then
            mk_condition ty ConditionFalse ClusterControlPlaneNotAllReplicasUpToDateReason
              (scaling_text ''updating'' (sts_UpdatedReplicas s) want ''with desired template'')
          else mk_condition ty ConditionTrue ClusterControlPlaneReplicasUpToDateReason [])"

definition exposed_condition :: "Cluster \<Rightarrow> bool \<Rightarrow> condition" where
  "exposed_condition kmc svc =
     (let ty = ClusterControlPlaneExposedCondition in
      if \<not> svc then mk_condition ty ConditionUnknown NotFoundReason check_logs
      else if sp_ExternalAddress (kmc_Spec kmc) \<noteq> [] then mk_condition ty ConditionTrue ClusterControlPlaneExposedReason []
      else mk_condition ty ConditionFalse ClusterControlPlaneExposedReason
             ''Waiting for external address. Check controller logs for more details.'')"

definition kubeconfig_condition :: "currentReconcileState \<Rightarrow> condition" where
  "kubeconfig_condition st =
     (let ty = ClusterKubeconfigSecretAvailableCondition;
          (reason, msg) =
            (if rs_kcMessage st \<noteq> [] then (InternalErrorReason, rs_kcMessage st)
             else (case rs_sts st of
                     None \<Rightarrow> (InternalErrorReason, ''Control plane StatefulSet not found'')
                   | Some s \<Rightarrow>
                       if sts_ReadyReplicas s = 0 then (ClusterControlPlaneNoReadyReplicasReason,
                         ''It is needed to have at least 1 ready replica to generate the workload kubeconfig'')
                       else (InternalErrorReason, ''Please check controller logs for errors'')))
      in if \<not> rs_kcData st then mk_condition ty ConditionFalse reason msg
         else mk_condition ty ConditionTrue CreatedReason [])"

definition certificates_condition :: "Cluster \<Rightarrow> condition" where
  "certificates_condition kmc =
     (if elems (sp_CertificateRefs (kmc_Spec kmc)) = []
      then mk_condition ClusterCertificatesAvailableCondition ConditionFalse NotFoundReason check_logs
      else mk_condition ClusterCertificatesAvailableCondition ConditionTrue CreatedReason [])"

definition deleting_condition :: "Cluster \<Rightarrow> string \<Rightarrow> string \<Rightarrow> condition" where
  "deleting_condition kmc reason message =
     (if om_DeletionTimestamp (kmc_Meta kmc) = None
      then mk_condition ClusterDeletingCondition ConditionFalse ClusterNotDeletingReason []
      else mk_condition ClusterDeletingCondition ConditionTrue reason message)"

definition functional_condition :: "clu_lib \<Rightarrow> clu_env \<Rightarrow> stateful_set option \<Rightarrow> condition kmcM" where
  "functional_condition C E sts =
     (let cond = mk_condition ClusterControlPlaneFunctionalCondition in
      bindM kmcM (\<lambda>kmc.
      if sts = None then ret (cond ConditionFalse NotFoundReason check_logs)
      else if \<not> kmc_condition_true C kmc ClusterKubeconfigSecretAvailableCondition then
        ret (cond ConditionFalse ClusterControlPlaneFunctionalReason ''Waiting for kubeconfig secret to be available'')
      else
        tryM (bread ''client'' (kmc_Name kmc) (\<lambda>tr. err_unit (cv_NewClusterClient E tr (kmc_key kmc)))) (\<lambda>c.
        case c of
          Inl err \<Rightarrow> ret (cond ConditionFalse InternalErrorReason (''failed to create workload cluster client: '' @ error_text err))
        | Inr _ \<Rightarrow>
            tryM (bread ''namespace'' ''kube-system'' (\<lambda>tr. err_unit (cv_Ping E tr))) (\<lambda>p.
            case p of
              Inl err \<Rightarrow>
                if is_not_found err then ret (cond ConditionFalse ClusterControlPlaneFunctionalReason
                  (''Namespace '' @ quoted ''kube-system'' @ '' not found''))
                else ret (cond ConditionFalse InternalErrorReason
                  (''failed to get namespace '' @ quoted ''kube-system'' @ '': '' @ error_text err))
            | Inr _ \<Rightarrow> ret (cond ConditionTrue ClusterControlPlaneFunctionalReason [])))))"

definition available_condition :: "clu_lib \<Rightarrow> Cluster \<Rightarrow> condition" where
  "available_condition C kmc =
     (case cu_Summary C (cst_Conditions (kmc_Status kmc)) ClusterAvailableCondition
        [ClusterControlPlaneFunctionalCondition, ClusterKubeconfigSecretAvailableCondition, ClusterControlPlaneExposedCondition]
        [ClusterDeletingCondition] of
        Inr c \<Rightarrow> c
      | Inl _ \<Rightarrow> mk_condition ClusterAvailableCondition ConditionUnknown InternalErrorReason ''Please check controller logs for errors'')"

definition set_computed :: "clu_lib \<Rightarrow> clu_env \<Rightarrow> (Cluster \<Rightarrow> condition) \<Rightarrow> unit kmcM" where
  "set_computed C E f = bindM kmcM (\<lambda>kmc. set_kmc_condition C E (f kmc))"

definition cluster_updateStatus :: "clu_lib \<Rightarrow> clu_env \<Rightarrow> unit kmcM" where
  \<comment> \<open>\<open>updateStatus\<close>\<close>
  "cluster_updateStatus C E =
     bindM configM (\<lambda>r.
     (let st = kx_state r; sts = rs_sts st in
      bindM (liftR (translateStatusFromStatefulSet C sts (kx_kmc r))) (\<lambda>kmc.
      bindM (upd_kmc (\<lambda>_. kmc)) (\<lambda>_.
      bindM (set_computed C E (\<lambda>k. scaling_condition k sts)) (\<lambda>_.
      bindM (set_computed C E (\<lambda>k. cluster_up_to_date_condition k sts)) (\<lambda>_.
      bindM (set_computed C E (\<lambda>k. exposed_condition k (rs_svc st))) (\<lambda>_.
      bindM (set_computed C E (\<lambda>_. kubeconfig_condition st)) (\<lambda>_.
      bindM (functional_condition C E sts) (\<lambda>fc.
      bindM (set_kmc_condition C E fc) (\<lambda>_.
      bindM (set_computed C E certificates_condition) (\<lambda>_.
      bindM (set_computed C E (\<lambda>k. deleting_condition k (rs_reason st) (rs_message st))) (\<lambda>_.
      set_computed C E (available_condition C)))))))))))))"

end
