(* ===== verification/Cluster_Controller.thy ===== *)
theory Cluster_Controller
  imports Cluster_Status
begin

text \<open>
  The controller of k0smotron clusters (\<open>internal/controller/k0smotron.io\<close>): one definition for each
  \<open>reconcile\<close> function, in the order of requests of the code, and the handlers \<open>Reconcile\<close> and
  \<open>reconcileDelete\<close> of \<open>k0smotroncluster_controller.go\<close>. The map of a \<open>Cluster\<close>'s k0s configuration
  is shared with the merged configuration, and its annotations with the generated objects, as in Go.
\<close>

subsection \<open>Generated objects\<close>

definition reconcileResource :: "clu_lib \<Rightarrow> clu_env \<Rightarrow> kobject \<Rightarrow> kobject kmcM" where
  \<comment> \<open>it returns the object as it is left behind the pointer\<close>
  "reconcileResource C E obj =
     bindM kmcM (\<lambda>kmc.
     bindM (wrapM (Wrapf ''failed to apply component patches'')
              (liftE (ApplyComponentPatches (cu_obj C) obj (sp_Patches (kmc_Spec kmc))))) (\<lambda>obj'.
     bindM (kwrite E (ApplyObject obj')) (\<lambda>_. ret obj')))"

definition owned :: "kobject \<Rightarrow> kobject kmcM" where
  "owned obj = bindM configM (\<lambda>r. ret (SetExternalOwnerReference (kx_kmc r) (kx_owner r) obj))"

definition generatedM :: "(Cluster \<Rightarrow> Cluster \<times> kobject) \<Rightarrow> kobject kmcM" where
  \<comment> \<open>run a generator, which may change the cluster, and set the owner of its object\<close>
  "generatedM g =
     bindM kmcM (\<lambda>kmc.
     bindM (upd_kmc (\<lambda>_. fst (g kmc))) (\<lambda>_.
     owned (snd (g kmc))))"

definition reconcileGenerated :: "clu_lib \<Rightarrow> clu_env \<Rightarrow> (Cluster \<Rightarrow> Cluster \<times> kobject) \<Rightarrow> kobject kmcM" where
  "reconcileGenerated C E g = bindM (generatedM g) (reconcileResource C E)"

definition doneM :: "'a kmcM \<Rightarrow> unit kmcM" where
  "doneM m = bindM m (\<lambda>_. ret ())"

subsection \<open>Services\<close>

definition reconcileEndpointConfigMap :: "clu_lib \<Rightarrow> clu_env \<Rightarrow> unit kmcM" where
  "reconcileEndpointConfigMap C E =
     bindM kmcM (\<lambda>kmc.
     if sp_ExternalAddress (kmc_Spec kmc) = [] then ret ()
     else
       bindM (reconcileGenerated C E (generateEndpointConfigMap (cu_obj C))) (\<lambda>_.
       upd_ksp (with_endpoint_manifest kmc)))"

definition lb_address :: "string \<times> string \<Rightarrow> string \<Rightarrow> string" where
  \<comment> \<open>the address after the two assignments: the host name, and the address over it\<close>
  "lb_address point addr = (if snd point \<noteq> [] then snd point else if fst point \<noteq> [] then fst point else addr)"

definition try_load_balancer :: "clu_env \<Rightarrow> string \<times> string \<Rightarrow> bool kmcM" where
  \<comment> \<open>one attempt of the poll: whether the address is there\<close>
  "try_load_balancer E key =
     bindM (kread ''service'' (snd key) (\<lambda>tr c. cv_LoadBalancer E tr c key)) (\<lambda>points.
     case points of
       [] \<Rightarrow> ret False
     | p # _ \<Rightarrow>
         bindM (upd_ksp (\<lambda>sp. sp\<lparr>sp_ExternalAddress := lb_address p (sp_ExternalAddress sp)\<rparr>)) (\<lambda>_.
         bindM kmcM (\<lambda>kmc.
         bindM (kwrite E (UpdateCluster kmc)) (\<lambda>_. ret True))))"

fun poll_load_balancer :: "nat \<Rightarrow> clu_env \<Rightarrow> string \<times> string \<Rightarrow> int \<Rightarrow> unit kmcM" where
  "poll_load_balancer 0 E key deadline = failM (Errorf ''context deadline exceeded'')"
| "poll_load_balancer (Suc n) E key deadline =
     bindM (try_load_balancer E key) (\<lambda>done.
     if done then ret ()
     else bindM (liftC (nowM (cv_env E))) (\<lambda>now.
       if now \<ge> deadline then failM (Errorf ''context deadline exceeded'') else poll_load_balancer n E key deadline))"

definition load_balancer_attempts :: nat where
  \<comment> \<open>ticks of a second in two minutes, and the immediate attempt\<close>
  "load_balancer_attempts = 121"

definition reconcileServices :: "clu_lib \<Rightarrow> clu_env \<Rightarrow> unit kmcM" where
  "reconcileServices C E =
     bindM (reconcileGenerated C E (generateService (cu_obj C))) (\<lambda>svc.
     bindM (upd_rs (\<lambda>st. st\<lparr>rs_svc := True\<rparr>)) (\<lambda>_.
     bindM kmcM (\<lambda>kmc.
     (let ty = svs_Type (sp_Service (kmc_Spec kmc)); unknown = (sp_ExternalAddress (kmc_Spec kmc) = []) in
      bindM (if ty = ServiceTypeLoadBalancer \<and> unknown then
               wrapM (Wrapf ''failed to get loadbalancer address'')
                 (bindM (liftC (nowM (cv_env E))) (\<lambda>start.
                  poll_load_balancer load_balancer_attempts E (ob_Namespace (obj_Meta svc), ob_Name (obj_Meta svc)) (start + 2 * minute)))
             else if ty = ServiceTypeNodePort \<and> unknown then
               bindM (wrapM (Wrapf ''failed to find node address'') (kread ''nodes'' [] (\<lambda>tr c. cv_ListNodes E tr c))) (\<lambda>nodes.
               upd_ksp (\<lambda>sp. sp\<lparr>sp_ExternalAddress := find_address [] nodes\<rparr>))
             else ret ()) (\<lambda>_.
      wrapM (Wrapf ''failed to reconcile endpoint configmap'') (reconcileEndpointConfigMap C E))))))"

subsection \<open>Ingress\<close>

definition reconcileIngress :: "clu_lib \<Rightarrow> clu_env \<Rightarrow> unit kmcM" where
  "reconcileIngress C E =
     bindM configM (\<lambda>r.
     case sp_Ingress (kmc_Spec (kx_kmc r)) of
       None \<Rightarrow> ret ()
     | Some i \<Rightarrow>
         (let native = HasNativeIngressKonnectivity (vers (cu_lib C)) (kmc_Spec (kx_kmc r)) in
          bindM (wrapM (Wrapf ''failed to patch haproxy configmap for ingress'')
                   (reconcileGenerated C E (generateIngressManifestsConfigMap (set_kubernetesServiceIP (kx_settings r)) i))) (\<lambda>_.
          bindM (if native then ret ()
                 else doneM (wrapM (Wrapf ''failed to reconcile konnectivity configmap for ingress'')
                        (reconcileGenerated C E (generateKonnectivityIngressConfigMap (jsons (cu_lib C)) i)))) (\<lambda>_.
          bindM kmcM (\<lambda>kmc.
          bindM (upd_ksp (\<lambda>sp. sp\<lparr>sp_Manifests := Some (ingress_manifests native kmc (elems (sp_Manifests sp)))\<rparr>)) (\<lambda>_.
          case ing_Deploy i of
            None \<Rightarrow> panicM
          | Some False \<Rightarrow> ret ()
          | Some True \<Rightarrow>
              bindM kmcM (\<lambda>kmc2.
              bindM (liftR (generateIngress i kmc2)) (\<lambda>(kmc', obj).
              bindM (upd_kmc (\<lambda>_. kmc')) (\<lambda>_.
              bindM (owned obj) (\<lambda>obj'.
              doneM (reconcileResource C E obj')))))))))))"

subsection \<open>Configuration\<close>

definition genSANs :: "clu_env \<Rightarrow> string list kmcM" where
  "genSANs E =
     bindM kmcM (\<lambda>kmc.
     bindM (liftR (GetServiceName kmc)) (\<lambda>svcName.
     (let ns = om_Namespace (kmc_Meta kmc); qualified = svcName @ ''.'' @ ns; addr = sp_ExternalAddress (kmc_Spec kmc) in
      bindM (wrapM (Wrapf (''failed to get service '' @ svcName))
               (kread ''service'' svcName (\<lambda>tr c. cv_ClusterIPs E tr c (ns, svcName)))) (\<lambda>ips.
      ret (sort ((if addr \<noteq> [] then [addr] else []) @ [svcName, qualified, qualified @ ''.svc''] @ ips @
        [qualified @ ''.svc.cluster.local''] @
        (case sp_Ingress (kmc_Spec kmc) of
           None \<Rightarrow> []
         | Some i \<Rightarrow> (if ing_APIHost i \<noteq> [] then [''127.0.0.1'', ''localhost'', ing_APIHost i] else []) @
             (if ing_KonnectivityHost i \<noteq> [] then [ing_KonnectivityHost i] else []))))))))"

definition k0s_api_version :: "object \<Rightarrow> string" where
  \<comment> \<open>\<open>GetAPIVersion\<close>: empty where there is no string\<close>
  "k0s_api_version ob = (case map_of ob ''apiVersion'' of Some (JStr v) \<Rightarrow> v | _ \<Rightarrow> [])"

definition k0smotron_values :: "clu_lib \<Rightarrow> Cluster \<Rightarrow> string list \<Rightarrow> gerror + object \<times> bool" where
  \<comment> \<open>the generated values, and whether node-local load balancing is on\<close>
  "k0smotron_values C kmc sans =
     (let V = vers (cu_lib C); J = jsons (cu_lib C) in
      case sp_K0sConfig (kmc_Spec kmc) of
        None \<Rightarrow> Inr ([(''spec'', JObj (getV1Beta1Spec V kmc sans)), (''apiVersion'', JStr ''k0s.k0sproject.io/v1beta1''),
                      (''kind'', JStr ''ClusterConfig'')], False)
      | Some ob \<Rightarrow>
          if k0s_api_version ob \<noteq> ''k0s.k0sproject.io/v1beta1''
          then Inl (Errorf (''unsupported k0s config version: '' @ k0s_api_version ob))
          else
            (let sans' = (case NestedStringSlice J ob [''spec'', ''api'', ''sans''] of
                            Inr (Some existing) \<Rightarrow> AddToExistingSans existing sans | _ \<Rightarrow> sans)
             in case NestedBool J ob [''spec'', ''network'', ''nodeLocalLoadBalancing'', ''enabled''] of
                  Inl e \<Rightarrow> Inl (verb_v ''error getting nodeLocalLoadBalancing'' e)
                | Inr enabled \<Rightarrow> Inr ([(''spec'', JObj (getV1Beta1Spec V kmc sans'))], enabled = Some True)))"

definition merged_config :: "clu_lib \<Rightarrow> Cluster \<Rightarrow> string list \<Rightarrow> gerror + object" where
  "merged_config C kmc sans =
     (case k0smotron_values C kmc sans of
        Inl e \<Rightarrow> Inl e
      | Inr (values, nllbEnabled) \<Rightarrow>
          (case (if \<not> nllbEnabled \<and> sp_Ingress (kmc_Spec kmc) = None
                 then SetNestedField (jsons (cu_lib C)) values (JStr (sp_ExternalAddress (kmc_Spec kmc))) [''spec'', ''api'', ''externalAddress'']
                 else Inr values) of
             Inl e \<Rightarrow> Inl (verb_v ''error setting externalAddress'' e)
           | Inr values' \<Rightarrow> cu_MergeOverride C (deref values' (sp_K0sConfig (kmc_Spec kmc))) values'))"

definition set_shared_config :: "object \<Rightarrow> unit kmcM" where
  \<comment> \<open>a write to the merged map is a write to the map of the cluster, where the cluster has one\<close>
  "set_shared_config ob = upd_ksp (\<lambda>sp. sp\<lparr>sp_K0sConfig := (case sp_K0sConfig sp of None \<Rightarrow> None | Some _ \<Rightarrow> Some ob)\<rparr>)"

definition generateConfig :: "clu_lib \<Rightarrow> string list \<Rightarrow> (kobject \<times> object) kmcM" where
  "generateConfig C sans =
     bindM kmcM (\<lambda>kmc.
     bindM (liftE (merged_config C kmc sans)) (\<lambda>ob.
     bindM (set_shared_config ob) (\<lambda>_.
     bindM (liftE (cu_YAML C ob)) (\<lambda>yaml.
     bindM (generatedM (\<lambda>k. kmc_config_map k (GetConfigMapName k) ComponentClusterConfig [''K0SMOTRON_K0S_YAML'' \<mapsto> yaml])) (\<lambda>cm.
     ret (cm, ob))))))"

definition kine_secret_url :: "clu_lib \<Rightarrow> clu_env \<Rightarrow> object \<Rightarrow> object kmcM" where
  \<comment> \<open>the data source of the secret put into the configuration\<close>
  "kine_secret_url C E ob =
     bindM kmcM (\<lambda>kmc.
     (let name = kine_DataSourceSecretName (sto_Kine (sp_Storage (kmc_Spec kmc))) in
      if name = [] then ret ob
      else
        bindM (wrapM (Wrapf ''failed to get kine data source secret'')
                 (bread ''secret'' name (\<lambda>tr. cv_GetSecret E tr ManagementClient (om_Namespace (kmc_Meta kmc), name)))) (\<lambda>sec.
        (let url = map_get (s_Data sec) ''K0SMOTRON_KINE_DATASOURCE_URL'' in
         if url = [] then failM (Errorf ''kine data source secret does not contain K0SMOTRON_KINE_DATASOURCE_URL key'')
         else
           bindM (wrapM (Wrapf ''failed to set kine data source url to the k0s config'')
                    (liftE (SetNestedField (jsons (cu_lib C)) ob (JStr url) [''spec'', ''storage'', ''kine'', ''dataSource'']))) (\<lambda>ob'.
           bindM (set_shared_config ob') (\<lambda>_. ret ob'))))))"

definition reconcileDynamicConfig :: "clu_lib \<Rightarrow> clu_env \<Rightarrow> object \<Rightarrow> unit kmcM" where
  \<comment> \<open>what \<open>ReconcileDynamicConfig\<close> sets and removes it sets and removes in the shared map\<close>
  "reconcileDynamicConfig C E ob0 =
     bindM (kine_secret_url C E ob0) (\<lambda>ob.
     bindM kmcM (\<lambda>kmc.
     bindM (wrapM (Wrapf ''failed to create workload cluster client'')
              (bread ''client'' (kmc_Name kmc) (\<lambda>tr. err_unit (cv_NewClusterClient E tr (kmc_key kmc))))) (\<lambda>_.
     bindM (set_shared_config (dynamic_config (jsons (cu_lib C)) ob)) (\<lambda>_.
     liftC (ReconcileDynamicConfig (cu_lib C) (cv_env E) ob)))))"

definition upd_kine :: "(KineSpec \<Rightarrow> KineSpec) \<Rightarrow> ClusterSpec \<Rightarrow> ClusterSpec" where
  "upd_kine f sp = sp\<lparr>sp_Storage := (sp_Storage sp)\<lparr>sto_Kine := f (sto_Kine (sp_Storage sp))\<rparr>\<rparr>"

definition reconcileK0sConfig :: "clu_lib \<Rightarrow> clu_env \<Rightarrow> unit kmcM" where
  "reconcileK0sConfig C E =
     bindM kmcM (\<lambda>kmc.
     if svs_Type (sp_Service (kmc_Spec kmc)) = ServiceTypeLoadBalancer \<and> sp_ExternalAddress (kmc_Spec kmc) = [] then ret ()
     else
       bindM (upd_ksp (\<lambda>sp. if kine_DataSourceSecretName (sto_Kine (sp_Storage sp)) \<noteq> []
                then upd_kine (\<lambda>k. k\<lparr>kine_DataSourceURL := kineDataSourceURLPlaceholder\<rparr>) sp else sp)) (\<lambda>_.
       bindM (wrapM (Wrapf ''failed to generate SANs'') (genSANs E)) (\<lambda>sans.
       bindM (generateConfig C sans) (\<lambda>(cm, ob).
       bindM kmcM (\<lambda>kmc1.
       bindM (if kmc_condition_true C kmc1 ClusterControlPlaneFunctionalCondition
              then tryM (reconcileDynamicConfig C E ob) (\<lambda>_. ret ()) else ret ()) (\<lambda>_.
       doneM (reconcileResource C E cm)))))))"

subsection \<open>Config maps and certificates\<close>

definition reconcileEntrypointCM :: "clu_lib \<Rightarrow> clu_env \<Rightarrow> unit kmcM" where
  "reconcileEntrypointCM C E =
     bindM configM (\<lambda>r. doneM (reconcileGenerated C E (generateEntrypointCM (kx_owner r))))"

definition reconcileMonitoringCM :: "clu_lib \<Rightarrow> clu_env \<Rightarrow> unit kmcM" where
  "reconcileMonitoringCM C E =
     bindM configM (\<lambda>r. doneM (reconcileGenerated C E (generateMonitoringCM (kx_owner r))))"

definition cluster_ensureCertificates :: "clu_lib \<Rightarrow> clu_env \<Rightarrow> unit kmcM" where
  "cluster_ensureCertificates C E =
     bindM configM (\<lambda>r.
     (let kmc = kx_kmc r;
          purposes = cu_InitialPurposes C @ (if sp_Ingress (kmc_Spec kmc) \<noteq> None then [''server'', ''apiserver-kubelet-client''] else [])
      in bindM (wrapM (Wrapf ''error generating cluster certificates'')
                  (kwrite E (GenerateCertificates purposes (om_Namespace (kmc_Meta kmc)) (kmc_Name kmc) (owner_of kmc (kx_owner r))))) (\<lambda>_.
         upd_ksp (\<lambda>sp. sp\<lparr>sp_CertificateRefs := Some (map (\<lambda>p. \<lparr>cr_Type = p, cr_Name = secret_name (kmc_Name kmc) p\<rparr>)
           [''ca'', ''proxy'', ''sa'', ''etcd''])\<rparr>))))"

definition ca_signer :: "clu_lib \<Rightarrow> clu_env \<Rightarrow> string \<Rightarrow> string \<Rightarrow> string \<Rightarrow> unit kmcM" where
  \<comment> \<open>the CA of a purpose looked up and parsed; what the errors call it, and what the lookup is called\<close>
  "ca_signer C E purpose name lookup =
     bindM kmcM (\<lambda>kmc.
     bindM (wrapM (Wrapf (''error looking up '' @ lookup @ '' certs''))
              (kread ''certificates'' (kmc_Name kmc) (\<lambda>tr c. cv_LookupCertificates E tr c (kmc_key kmc) (cu_InitialPurposes C)))) (\<lambda>found.
     case found purpose of
       None \<Rightarrow> failM (Errorf (name @ '' CA certificate not found''))
     | Some (cert, key) \<Rightarrow>
         if cert = [] then failM (Errorf (name @ '' CA certificate not found''))
         else
           bindM (wrapM (Wrapf (''error parsing '' @ name @ '' CA certificate'')) (retErr (cu_ParseCertificatePEM C cert))) (\<lambda>_.
           bindM (wrapM (Wrapf (''error parsing '' @ name @ '' CA private key'')) (retErr (cu_ParsePrivateKeyPEM C key))) (\<lambda>_.
           wrapM (Wrapf ''error creating signer'') (retErr (cu_NewSigner C key cert))))))"

fun issue_certificates :: "clu_env \<Rightarrow> (string \<rightharpoonup> string \<times> string) \<Rightarrow> (string \<Rightarrow> string) \<Rightarrow> string list \<Rightarrow> string list \<Rightarrow>
    (string \<times> string \<times> string) list kmcM" where
  \<comment> \<open>sign a certificate for each purpose that has none: the organisation and the hosts of a request are given\<close>
  "issue_certificates E found org hosts [] = ret []"
| "issue_certificates E found org hosts (p # ps) =
     bindM (if found p \<noteq> None then ret []
            else
              bindM (wrapM (Wrapf ''error processing csr'') (bread ''csr'' p (\<lambda>tr. cv_ProcessRequest E tr p (org p) hosts))) (\<lambda>(csr, key).
              bindM (wrapM (Wrapf ''error signing csr'') (bread ''signature'' p (\<lambda>tr. cv_Sign E tr csr))) (\<lambda>cert.
              ret [(p, cert, key)]))) (\<lambda>new.
     bindM (issue_certificates E found org hosts ps) (\<lambda>rest. ret (new @ rest)))"

definition etcd_hosts :: "Cluster \<Rightarrow> string list" where
  "etcd_hosts kmc =
     (let svc = GetEtcdServiceName kmc; q = svc @ ''.'' @ om_Namespace (kmc_Meta kmc) @ ''.svc'' in
      [''127.0.0.1'', ''localhost'', svc, q, q @ ''.cluster.local'', ''*.'' @ svc, ''*.'' @ q, ''*.'' @ q @ ''.cluster.local''])"

definition ensureEtcdCertificates :: "clu_lib \<Rightarrow> clu_env \<Rightarrow> unit kmcM" where
  "ensureEtcdCertificates C E =
     bindM (ca_signer C E ''etcd'' ''etcd'' ''etcd'') (\<lambda>_.
     bindM configM (\<lambda>r.
     (let kmc = kx_kmc r; purposes = [''apiserver-etcd-client'', ''etcd-server'', ''etcd-peer''] in
      bindM (wrapM (Wrapf ''error looking up etcd certs'')
               (kread ''certificates'' (kmc_Name kmc) (\<lambda>tr c. cv_LookupCertificates E tr c (kmc_key kmc) purposes))) (\<lambda>found.
      bindM (issue_certificates E found (\<lambda>p. p) (etcd_hosts kmc) purposes) (\<lambda>new.
      kwrite E (SaveCertificates new (om_Namespace (kmc_Meta kmc)) (kmc_Name kmc) (owner_of kmc (kx_owner r))))))))"

definition haproxy_hosts :: "clusterSettings \<Rightarrow> string list" where
  "haproxy_hosts st = [''kubernetes'', ''kubernetes.default'', ''kubernetes.default.svc'', ''kubernetes.default.svc.cluster'',
     ''kubernetes.default.svc.'' @ set_clusterDomain st, ''kubernetes.svc.'' @ set_clusterDomain st, ''localhost'', ''127.0.0.1'',
     set_kubernetesServiceIP st]"

definition ensureHAProxyCerts :: "clu_lib \<Rightarrow> clu_env \<Rightarrow> unit kmcM" where
  \<comment> \<open>the owner is the cluster, also where the certificates are saved in another one\<close>
  "ensureHAProxyCerts C E =
     bindM (ca_signer C E ''ca'' ''cluster'' ''cluster'') (\<lambda>_.
     bindM configM (\<lambda>r.
     (let kmc = kx_kmc r; purposes = [''ingress-haproxy''] in
      bindM (wrapM (Wrapf ''error looking up cluster certs'')
               (kread ''certificates'' (kmc_Name kmc) (\<lambda>tr c. cv_LookupCertificates E tr c (kmc_key kmc) purposes))) (\<lambda>found.
      bindM (issue_certificates E found (\<lambda>_. ''kubernetes'') (haproxy_hosts (kx_settings r)) purposes) (\<lambda>new.
      kwrite E (SaveCertificates new (om_Namespace (kmc_Meta kmc)) (kmc_Name kmc) (kmc_controller_ref kmc)))))))"

subsection \<open>Volumes\<close>

definition with_etcd_client_ref :: "Cluster \<Rightarrow> ClusterSpec \<Rightarrow> ClusterSpec" where
  "with_etcd_client_ref kmc sp =
     (if list_ex (\<lambda>c. cr_Type c = ''apiserver-etcd-client'') (elems (sp_CertificateRefs sp)) then sp
      else sp\<lparr>sp_CertificateRefs := append_slice (sp_CertificateRefs sp)
        [\<lparr>cr_Type = ''apiserver-etcd-client'', cr_Name = secret_name (kmc_Name kmc) ''apiserver-etcd-client''\<rparr>]\<rparr>)"

fun resize_claims :: "clu_env \<Rightarrow> string \<Rightarrow> quantity \<Rightarrow> string \<Rightarrow> string \<Rightarrow> bool option \<Rightarrow> nat list \<Rightarrow> bool kmcM" where
  \<comment> \<open>the loop over the replicas, of the namespace, the size, the set and the claim template; \<open>allowExpansion\<close> is
      what is known of it. The result says whether the set is to be deleted: not when a claim does not exist yet.\<close>
  "resize_claims E ns sz sts vct allow [] = ret True"
| "resize_claims E ns sz sts vct allow (i # is) =
     (let name = vct @ ''-'' @ sts @ ''-'' @ show_nat i; pod = sts @ ''-'' @ show_nat i in
      tryM (kread ''claim'' name (\<lambda>tr c. cv_GetClaim E tr c (ns, name))) (\<lambda>g.
      case g of
        Inl err \<Rightarrow> if is_not_found err then ret False else failM (Wrapf (''failed to get PVC '' @ name) err)
      | Inr cls \<Rightarrow>
          bindM (if allow \<noteq> None then ret allow
                 else (case cls of
                   None \<Rightarrow> panicM
                 | Some sc \<Rightarrow> wrapM (Wrapf (''failed to get StorageClass '' @ sc))
                     (kread ''storageclass'' sc (\<lambda>tr c. cv_AllowExpansion E tr c sc)))) (\<lambda>allow'.
          if allow' = Some True then
            bindM (wrapM (Wrapf (''failed to update PVC '' @ name)) (kwrite E (ResizeClaim ns name sz))) (\<lambda>_.
            bindM (wrapM (Wrapf (''failed to delete pod '' @ quoted pod @ '' for resizing'')) (kwrite E (DeletePod ns pod))) (\<lambda>_.
            resize_claims E ns sz sts vct allow' is))
          else ret True)))"

definition resizeStatefulSetAndPVC :: "clu_lib \<Rightarrow> clu_env \<Rightarrow> quantity \<Rightarrow> 32 word \<Rightarrow> string \<Rightarrow> string \<Rightarrow> unit kmcM" where
  "resizeStatefulSetAndPVC C E sz replicas stsName vctName =
     bindM kmcM (\<lambda>kmc.
     (let ns = om_Namespace (kmc_Meta kmc) in
      tryM (kread ''statefulset'' stsName (\<lambda>tr c. cv_GetStatefulSet E tr c (ns, stsName))) (\<lambda>g.
      case g of
        Inl err \<Rightarrow> if is_not_found err then ret () else failM (Wrapf ''failed to get statefulset'' err)
      | Inr sts \<Rightarrow>
          (case ss_VolumeClaimTemplates (sts_Spec sts) of
             [] \<Rightarrow> ret ()
           | c # _ \<Rightarrow>
               if ol_IsZero (cu_obj C) sz \<or> ol_Cmp (cu_obj C) sz (claim_storage (pvc_Spec c)) = 0 then ret ()
               else
                 bindM (resize_claims E ns sz stsName vctName None [0..<nat (sint replicas)]) (\<lambda>gone.
                 if gone then kwrite E (OrphanStatefulSet ns (ob_Name (sts_Meta sts))) else ret ())))))"

definition reconcileControlPlanePVC :: "clu_lib \<Rightarrow> clu_env \<Rightarrow> unit kmcM" where
  \<comment> \<open>a nil claim panics\<close>
  "reconcileControlPlanePVC C E =
     bindM kmcM (\<lambda>kmc.
     (let p = sp_Persistence (kmc_Spec kmc) in
      if pers_Type p \<noteq> ''pvc'' then ret ()
      else (case pers_PersistentVolumeClaim p of
        None \<Rightarrow> panicM
      | Some c0 \<Rightarrow>
          (let c = named_claim kmc c0 in
           bindM (upd_kmc (upd_persistence (\<lambda>p. p\<lparr>pers_PersistentVolumeClaim := Some c\<rparr>))) (\<lambda>_.
           resizeStatefulSetAndPVC C E (claim_storage (pvc_Spec c)) (sp_Replicas (kmc_Spec kmc)) (GetStatefulSetName kmc)
             (pm_Name (pvc_Meta c)))))))"

definition existing_etcd :: "clu_env \<Rightarrow> stateful_set option kmcM" where
  \<comment> \<open>the set of etcd; \<open>None\<close> is the empty object that comes with a not-found error\<close>
  "existing_etcd E =
     bindM kmcM (\<lambda>kmc.
     tryM (kread ''statefulset'' (GetEtcdStatefulSetName kmc)
             (\<lambda>tr c. cv_GetStatefulSet E tr c (om_Namespace (kmc_Meta kmc), GetEtcdStatefulSetName kmc))) (\<lambda>g.
     case g of
       Inl err \<Rightarrow> if is_not_found err then ret None else failM err
     | Inr sts \<Rightarrow> ret (Some sts)))"

definition status_replicas :: "stateful_set option \<Rightarrow> 32 word" where
  "status_replicas sts = (case sts of None \<Rightarrow> 0 | Some s \<Rightarrow> sts_Replicas s)"

definition reconcileEtcdPVC :: "clu_lib \<Rightarrow> clu_env \<Rightarrow> unit kmcM" where
  "reconcileEtcdPVC C E =
     bindM kmcM (\<lambda>kmc.
     bindM (wrapM (Wrapf (''failed to get StatefulSet '' @ GetEtcdStatefulSetName kmc)) (existing_etcd E)) (\<lambda>found.
     resizeStatefulSetAndPVC C E (stp_Size (etcd_Persistence (sto_Etcd (sp_Storage (kmc_Spec kmc)))))
       (calculateDesiredReplicas kmc (status_replicas found)) (GetEtcdStatefulSetName kmc) ''etcd-data''))"

definition reconcileNatsPVC :: "clu_lib \<Rightarrow> clu_env \<Rightarrow> unit kmcM" where
  "reconcileNatsPVC C E =
     bindM kmcM (\<lambda>kmc.
     if sto_Type (sp_Storage (kmc_Spec kmc)) \<noteq> StorageTypeNATS then ret ()
     else resizeStatefulSetAndPVC C E (stp_Size (nats_Persistence (sto_NATS (sp_Storage (kmc_Spec kmc)))))
       (sp_Replicas (kmc_Spec kmc)) (GetStatefulSetName kmc) ''nats-data'')"

definition reconcilePVC :: "clu_lib \<Rightarrow> clu_env \<Rightarrow> unit kmcM" where
  "reconcilePVC C E =
     bindM (wrapM (Wrapf ''failed to reconcile control plane PVC'') (reconcileControlPlanePVC C E)) (\<lambda>_.
     bindM (wrapM (Wrapf ''failed to reconcile etcd PVC'') (reconcileEtcdPVC C E)) (\<lambda>_.
     wrapM (Wrapf ''failed to reconcile nats PVC'') (reconcileNatsPVC C E)))"

subsection \<open>NATS\<close>

definition generateNatsToken :: "clu_env \<Rightarrow> string kmcM" where
  "generateNatsToken E =
     bindM (bread ''random'' [] (\<lambda>tr. be_RandRead (cv_boot E) tr 32)) (\<lambda>b. ret (hex_bytes (map byte b)))"

definition reconcileNatsTokenSecret :: "clu_lib \<Rightarrow> clu_env \<Rightarrow> unit kmcM" where
  "reconcileNatsTokenSecret C E =
     bindM kmcM (\<lambda>kmc.
     (let name = GetNatsTokenSecretName kmc in
      tryM (kread ''secret'' name (\<lambda>tr c. cv_GetSecret E tr c (om_Namespace (kmc_Meta kmc), name))) (\<lambda>g.
      case g of
        Inr _ \<Rightarrow> ret ()
      | Inl err \<Rightarrow>
          if \<not> is_not_found err then failM (Wrapf ''failed to check NATS token secret'' err)
          else
            bindM (wrapM (Wrapf ''failed to generate NATS token'') (generateNatsToken E)) (\<lambda>token.
            tryM (reconcileGenerated C E (\<lambda>k. nats_token_secret k token)) (\<lambda>r.
            case r of
              Inr _ \<Rightarrow> ret ()
            | Inl e \<Rightarrow> if is_already_exists e then ret () else failM (Wrapf ''failed to create NATS token secret'' e))))))"

definition reconcileNats :: "clu_lib \<Rightarrow> clu_env \<Rightarrow> unit kmcM" where
  "reconcileNats C E =
     bindM kmcM (\<lambda>kmc.
     if sto_Type (sp_Storage (kmc_Spec kmc)) \<noteq> StorageTypeNATS then ret ()
     else
       bindM (wrapM (Wrapf ''error reconciling NATS service'') (reconcileGenerated C E nats_service)) (\<lambda>_.
       reconcileNatsTokenSecret C E))"

subsection \<open>etcd\<close>

definition etcd_replicas :: "Cluster \<Rightarrow> stateful_set option \<Rightarrow> 32 word option" where
  \<comment> \<open>the replicas to apply, \<open>None\<close> to wait. A set that has no name is treated as none.\<close>
  "etcd_replicas kmc found =
     (let desired = calculateDesiredReplicas kmc (status_replicas found) in
      case found of
        None \<Rightarrow> Some desired
      | Some s \<Rightarrow>
          if ob_Name (sts_Meta s) = [] then Some desired
          else
            (let d = (if sint desired > sint (ss_Replicas (sts_Spec s)) then ss_Replicas (sts_Spec s) + 1 else desired) in
             if sint d > sint (sts_ReadyReplicas s + 1) then None else Some d))"

definition existing_init_containers :: "stateful_set option \<Rightarrow> container list" where
  "existing_init_containers found =
     (case found of None \<Rightarrow> [] | Some s \<Rightarrow> po_InitContainers (te_Spec (ss_Template (sts_Spec s))))"

definition reconcileEtcdStatefulSet :: "clu_lib \<Rightarrow> clu_env \<Rightarrow> result kmcM" where
  "reconcileEtcdStatefulSet C E =
     bindM kmcM (\<lambda>kmc.
     bindM (existing_etcd E) (\<lambda>found.
     case etcd_replicas kmc found of
       None \<Rightarrow> ret \<lparr>Requeue = False, RequeueAfter = 10 * second\<rparr>
     | Some n \<Rightarrow>
         bindM (reconcileGenerated C E (\<lambda>k. generateEtcdStatefulSet (cu_obj C) k (existing_init_containers found) n)) (\<lambda>_.
         ret zero_result)))"

definition reconcileEtcd :: "clu_lib \<Rightarrow> clu_env \<Rightarrow> result kmcM" where
  "reconcileEtcd C E =
     bindM kmcM (\<lambda>kmc.
     if sto_Type (sp_Storage (kmc_Spec kmc)) \<noteq> StorageTypeEtcd then ret zero_result
     else
       bindM (wrapM (Wrapf ''error reconciling etcd service'') (reconcileGenerated C E etcd_service)) (\<lambda>_.
       bindM (wrapM (Wrapf ''error reconciling etcd statefulset'') (reconcileEtcdStatefulSet C E)) (\<lambda>result.
       bindM (if dj_Enabled (etcd_DefragJob (sto_Etcd (sp_Storage (kmc_Spec kmc))))
              then doneM (wrapM (Wrapf ''error reconciling etcd defrag job'') (reconcileGenerated C E etcd_defrag_job))
              else ret ()) (\<lambda>_.
       ret result))))"

subsection \<open>The control plane\<close>

definition hashed :: "string \<Rightarrow> strmap \<Rightarrow> strmap" where
  \<comment> \<open>the annotation of the hash, and the annotations of the cluster copied over it\<close>
  "hashed h annotations = [statefulSetHashAnnotation \<mapsto> h] ++ annotations"

definition generateStatefulSet :: "clu_lib \<Rightarrow> clu_env \<Rightarrow> (stateful_set \<times> stateful_set) kmcM" where
  \<comment> \<open>the set to apply and its preview; the status of the first is empty\<close>
  "generateStatefulSet C E =
     bindM kmcM (\<lambda>kmc0.
     bindM (upd_kmc (\<lambda>_. fst (control_plane_spec (cu_obj C) kmc0))) (\<lambda>_.
     bindM (liftE (snd (control_plane_spec (cu_obj C) kmc0))) (\<lambda>sp0.
     bindM kmcM (\<lambda>kmc.
     bindM (owned (telemetry_config_map kmc)) (\<lambda>cm0.
     bindM (reconcileResource C E cm0) (\<lambda>cm.
     bindM configM (\<lambda>r.
     (let sp = with_telemetry kmc (ob_Name (obj_Meta cm)) sp0;
          meta = (kmc_object_meta kmc (GetStatefulSetName kmc) (control_plane_labels kmc))
                   \<lparr>ob_Annotations := Map.empty, ob_OwnerReferences := [owner_of kmc (kx_owner r)]\<rparr>;
          sts = \<lparr>sts_Meta = meta, sts_Spec = sp, sts_Replicas = 0, sts_ReadyReplicas = 0, sts_UpdatedReplicas = 0,
                 sts_CollisionCount = None\<rparr>
      in bindM (kread ''dry-run'' (GetStatefulSetName kmc) (\<lambda>tr c. Inr (cv_DryRun E tr c sts))) (\<lambda>answer.
         (let tmpl = ss_Template (sts_Spec answer);
              tmpl' = tmpl\<lparr>te_Annotations := (te_Annotations tmpl)(''kubectl.kubernetes.io/last-applied-configuration'' := None)\<rparr>;
              h = cu_ComputeHash C tmpl' (sts_CollisionCount answer);
              preview = answer\<lparr>sts_Spec := (sts_Spec answer)\<lparr>ss_Template := tmpl'\<rparr>\<rparr>;
              annotate = (\<lambda>s. s\<lparr>sts_Meta := (sts_Meta s)\<lparr>ob_Annotations := hashed h (kmc_annotations kmc)\<rparr>\<rparr>)
          in ret (annotate sts, annotate preview)))))))))))"

definition isStatefulSetsEqual :: "clu_lib \<Rightarrow> stateful_set \<Rightarrow> stateful_set \<Rightarrow> bool" where
  "isStatefulSetsEqual C newSts oldSts \<longleftrightarrow>
     map_get (ob_Annotations (sts_Meta newSts)) statefulSetHashAnnotation =
       map_get (ob_Annotations (sts_Meta oldSts)) statefulSetHashAnnotation \<and>
     ss_Selector (sts_Spec newSts) = ss_Selector (sts_Spec oldSts) \<and>
     cu_DeepDerivative C (ss_VolumeClaimTemplates (sts_Spec newSts)) (ss_VolumeClaimTemplates (sts_Spec oldSts))"

definition zero_stateful_set :: stateful_set where
  \<comment> \<open>\<open>apps.StatefulSet{}\<close>\<close>
  "zero_stateful_set =
     \<lparr>sts_Meta = \<lparr>ob_Name = [], ob_Namespace = [], ob_Labels = Map.empty, ob_Annotations = Map.empty, ob_OwnerReferences = []\<rparr>,
      sts_Spec = \<lparr>ss_ServiceName = [], ss_Selector = Map.empty, ss_Replicas = 0, ss_PodManagementPolicy = [],
        ss_Template = \<lparr>te_Labels = Map.empty, te_Annotations = Map.empty,
          te_Spec = \<lparr>po_AutomountServiceAccountToken = None, po_AntiAffinity = [], po_Volumes = [], po_InitContainers = [],
            po_Containers = [], po_ServiceAccountName = [], po_TopologySpreadConstraints = None, po_FSGroup = None,
            po_RestartPolicy = []\<rparr>\<rparr>,
        ss_VolumeClaimTemplates = [], ss_WhenDeleted = None\<rparr>,
      sts_Replicas = 0, sts_ReadyReplicas = 0, sts_UpdatedReplicas = 0, sts_CollisionCount = None\<rparr>"

definition apply_control_plane :: "clu_lib \<Rightarrow> clu_env \<Rightarrow> stateful_set \<Rightarrow> result kmcM" where
  "apply_control_plane C E sts =
     bindM (reconcileResource C E (KStatefulSet (sts_Meta sts) (sts_Spec sts))) (\<lambda>_. ret zero_result)"

definition follow_control_plane :: "clu_lib \<Rightarrow> clu_env \<Rightarrow> stateful_set \<Rightarrow> stateful_set \<Rightarrow> stateful_set \<Rightarrow> result kmcM" where
  \<comment> \<open>\<open>reconcileStatefulSet\<close> with the set, its preview and the set that was found\<close>
  "follow_control_plane C E sts preview found =
     (if \<not> isStatefulSetsEqual C preview found then apply_control_plane C E sts
      else if ss_Replicas (sts_Spec found) \<noteq> ss_Replicas (sts_Spec sts) then
        bindM (kwrite E (ScaleStatefulSet (ob_Namespace (sts_Meta found)) (ob_Name (sts_Meta found)) (ss_Replicas (sts_Spec sts)))) (\<lambda>_.
        ret zero_result)
      else if sts_ReadyReplicas found = 0 then ret \<lparr>Requeue = True, RequeueAfter = minute\<rparr>
      else ret zero_result)"

definition reconcileStatefulSet :: "clu_lib \<Rightarrow> clu_env \<Rightarrow> result kmcM" where
  \<comment> \<open>a read that fails with anything but not-found leaves an empty set, whose nil replicas panic if it is equal\<close>
  "reconcileStatefulSet C E =
     bindM (wrapM (Wrapf ''failed to generate statefulset'') (generateStatefulSet C E)) (\<lambda>(sts, preview).
     bindM (wrapM (Wrapf ''error retrieving StatefulSet labels'') (liftE (cu_AsSelector C (ss_Selector (sts_Spec sts))))) (\<lambda>sel.
     bindM (upd_kst (\<lambda>st. st\<lparr>cst_Selector := sel\<rparr>)) (\<lambda>_.
     tryM (kread ''statefulset'' (ob_Name (sts_Meta sts))
             (\<lambda>tr c. cv_GetStatefulSet E tr c (ob_Namespace (sts_Meta sts), ob_Name (sts_Meta sts)))) (\<lambda>g.
     case g of
       Inl err \<Rightarrow>
         if is_not_found err then
           bindM (upd_kst (\<lambda>st. st\<lparr>cst_Replicas := 0\<rparr>)) (\<lambda>_. apply_control_plane C E sts)
         else if isStatefulSetsEqual C preview zero_stateful_set then panicM
         else apply_control_plane C E sts
     | Inr found \<Rightarrow>
         bindM (upd_rs (\<lambda>st. st\<lparr>rs_sts := Some found\<rparr>)) (\<lambda>_.
         bindM kmcM (\<lambda>kmc.
         bindM (liftR (detectAndSetCurrentClusterVersion found kmc)) (\<lambda>kmc'.
         bindM (upd_kmc (\<lambda>_. kmc')) (\<lambda>_.
         follow_control_plane C E sts preview found))))))))"

subsection \<open>Kubeconfig\<close>

definition FindStatefulSetPod :: "clu_env \<Rightarrow> string \<Rightarrow> string \<Rightarrow> string kmcM" where
  \<comment> \<open>the name of the first running pod\<close>
  "FindStatefulSetPod E statefulSet namespace =
     bindM (kread ''statefulset'' statefulSet (\<lambda>tr c. cv_GetStatefulSet E tr c (namespace, statefulSet))) (\<lambda>dep.
     bindM (kread ''pods'' statefulSet (\<lambda>tr c. cv_ListPods E tr c namespace (ss_Selector (sts_Spec dep)))) (\<lambda>pods.
     if pods = [] then failM (Errorf (''did not find matching pods for statefulSet '' @ statefulSet))
     else (case find (\<lambda>p. snd p = ''Running'') pods of
             None \<Rightarrow> failM (Errorf (''did not find running pods for statefulSet '' @ statefulSet))
           | Some p \<Rightarrow> ret (fst p))))"

definition rewriteKubeconfigValues :: "clu_lib \<Rightarrow> string \<Rightarrow> Cluster \<Rightarrow> gerror + string" where
  "rewriteKubeconfigValues C yaml kmc =
     (let q = ol_q (cu_obj C) in
      case cu_DecodeKubeconfig C yaml of
        Inl e \<Rightarrow> Inl e
      | Inr None \<Rightarrow> Inl (Errorf ''failed to decode kubeconfig'')
      | Inr (Some cfg) \<Rightarrow>
          if ak_CurrentContext cfg = [] then Inl (Errorf ''current-context is empty'')
          else (case ak_Contexts cfg (ak_CurrentContext cfg) of
            None \<Rightarrow> Inl (Errorf (''current-context '' @ q (ak_CurrentContext cfg) @ '' not found''))
          | Some (clusterRef, userRef) \<Rightarrow>
              (case ak_Clusters cfg clusterRef of
                 None \<Rightarrow> Inl (Errorf (''cluster '' @ q clusterRef @ '' not found''))
               | Some (server, ca) \<Rightarrow>
                   (case ak_AuthInfos cfg userRef of
                      None \<Rightarrow> Inl (Errorf (''user '' @ q userRef @ '' not found''))
                    | Some (cert, key) \<Rightarrow>
                        if server = [] then Inl (Errorf ''cluster server is empty'')
                        else if cert = [] \<or> key = [] then Inl (Errorf ''client certificate/key data not found in kubeconfig'')
                        else
                          (let server' = (case sp_Ingress (kmc_Spec kmc) of
                                 None \<Rightarrow> server | Some i \<Rightarrow> ''https://'' @ ing_APIHost i @ '':'' @ show_int (ing_Port i));
                               clusterKey = kmc_Name kmc @ ''-k0s''; userKey = kmc_Name kmc @ ''-admin'';
                               newConfig = cu_CreateBasic C server' clusterKey userKey ca
                           in case cu_WriteKubeconfig C (newConfig\<lparr>ak_AuthInfos := (ak_AuthInfos newConfig)(userKey \<mapsto> (cert, key))\<rparr>) of
                                Inl e \<Rightarrow> Inl (Wrapf ''failed to serialize kubeconfig'' e)
                              | Inr out \<Rightarrow> Inr out)))))"

definition noting :: "'a kmcM \<Rightarrow> 'a kmcM" where
  \<comment> \<open>an error is kept as the message of the kubeconfig\<close>
  "noting m = tryM m (\<lambda>r. case r of Inr x \<Rightarrow> ret x | Inl e \<Rightarrow> bindM (upd_rs (\<lambda>st. st\<lparr>rs_kcMessage := error_text e\<rparr>)) (\<lambda>_. failM e))"

definition new_kubeconfig :: "clu_lib \<Rightarrow> clu_env \<Rightarrow> unit kmcM" where
  "new_kubeconfig C E =
     bindM kmcM (\<lambda>kmc.
     bindM (noting (FindStatefulSetPod E (GetStatefulSetName kmc) (om_Namespace (kmc_Meta kmc)))) (\<lambda>pod.
     bindM (noting (kread ''exec'' pod (\<lambda>tr c. he_PodExec (cv_host E) tr c (om_Namespace (kmc_Meta kmc), pod)
              ''k0s kubeconfig create admin --groups system:masters''))) (\<lambda>output.
     bindM (noting (liftE (rewriteKubeconfigValues C output kmc))) (\<lambda>value.
     bindM (upd_kmc AnnotationsForK0smotronCluster) (\<lambda>_.
     bindM kmcM (\<lambda>kmc'.
     bindM (noting (mwrite E (ApplyKubeconfigSecret ((kmc_object_meta kmc' (GetAdminConfigSecretName kmc')
              (LabelsForK0smotronComponent kmc' ComponentKubeconfig))\<lparr>ob_OwnerReferences := [kmc_controller_ref kmc']\<rparr>) value))) (\<lambda>_.
     upd_rs (\<lambda>st. st\<lparr>rs_kcData := True\<rparr>))))))))"

definition reconcileKubeConfigSecret :: "clu_lib \<Rightarrow> clu_env \<Rightarrow> unit kmcM" where
  "reconcileKubeConfigSecret C E =
     bindM kmcM (\<lambda>kmc.
     tryM (bread ''secret'' (GetAdminConfigSecretName kmc)
             (\<lambda>tr. cv_GetSecret E tr ManagementClient (om_Namespace (kmc_Meta kmc), GetAdminConfigSecretName kmc))) (\<lambda>g.
     case g of
       Inl err \<Rightarrow>
         if \<not> is_not_found err then bindM (upd_rs (\<lambda>st. st\<lparr>rs_kcMessage := error_text err\<rparr>)) (\<lambda>_. failM err)
         else new_kubeconfig C E
     | Inr existing \<Rightarrow>
         tryM (bread ''rotation'' [] (\<lambda>tr. cv_NeedsRotation E tr existing)) (\<lambda>q.
         if q = Inr False then upd_rs (\<lambda>st. st\<lparr>rs_kcData := True\<rparr>) else new_kubeconfig C E)))"

subsection \<open>Deletion\<close>

definition clusterUIDLabel :: string where "clusterUIDLabel = ''k0smotron.io/cluster-uid''"
definition clusterFinalizer :: string where "clusterFinalizer = ''k0smotron.io/finalizer''"
definition V1Beta1ClusterRefNamespaceAnnotation :: string where
  "V1Beta1ClusterRefNamespaceAnnotation = ''k0smotron.io/cluster-ref-namespace''"

definition remove_kmc_finalizer :: "Cluster \<Rightarrow> Cluster" where
  "remove_kmc_finalizer kmc = kmc\<lparr>kmc_Meta := (kmc_Meta kmc)\<lparr>om_Finalizers :=
     filter (\<lambda>f. f \<noteq> clusterFinalizer) (om_Finalizers (kmc_Meta kmc))\<rparr>\<rparr>"

definition note_failure :: "string \<Rightarrow> gerror \<Rightarrow> unit kmcM" where
  "note_failure what err = upd_rs (\<lambda>st. st\<lparr>rs_reason := InternalErrorReason, rs_message := what @ '': '' @ error_text err\<rparr>)"

definition doomed_requests :: "(string \<times> string \<times> strmap) list \<Rightarrow> (string \<times> string) list" where
  \<comment> \<open>the requests created through v1beta1\<close>
  "doomed_requests jtrs = map (\<lambda>(ns, n, _). (ns, n)) (filter (\<lambda>(_, _, a). a V1Beta1ClusterRefNamespaceAnnotation \<noteq> None) jtrs)"

fun delete_requests :: "clu_env \<Rightarrow> (string \<times> string) list \<Rightarrow> bool kmcM" where
  \<comment> \<open>whether all of them could be deleted; the first failure is noted and ends the handler without an error\<close>
  "delete_requests E [] = ret True"
| "delete_requests E ((ns, n) # rest) =
     tryM (mwrite E (DeleteJoinTokenRequest ns n)) (\<lambda>d.
     case d of
       Inl err \<Rightarrow> bindM (note_failure ''Error removing JoinTokenRequests'' err) (\<lambda>_. ret False)
     | Inr _ \<Rightarrow> delete_requests E rest)"

definition delete_external_owner :: "clu_env \<Rightarrow> unit kmcM" where
  \<comment> \<open>the object that owns everything in the hosting cluster\<close>
  "delete_external_owner E =
     bindM configM (\<lambda>r.
     case kx_owner r of
       None \<Rightarrow> ret ()
     | Some eo \<Rightarrow>
         tryM (kwrite E (DeleteExternalOwner eo)) (\<lambda>d.
         case d of
           Inr _ \<Rightarrow> ret ()
         | Inl err \<Rightarrow> bindM (note_failure ''Error deleting external owner'' err) (\<lambda>_.
             failM (verb_v ''error deleting root configmap'' err))))"

definition delete_join_requests :: "clu_env \<Rightarrow> result kmcM" where
  \<comment> \<open>the rest of \<open>reconcileDelete\<close>: the requests created through v1beta1 and the finalizer\<close>
  "delete_join_requests E =
     bindM kmcM (\<lambda>kmc.
     tryM (bread ''jointokenrequests'' (kmc_Name kmc) (\<lambda>tr. cv_ListJoinTokenRequests E tr (om_UID (kmc_Meta kmc)))) (\<lambda>l.
     case l of
       Inl err \<Rightarrow>
         bindM (note_failure ''Error retrieving out-of-namespace JoinTokenRequests'' err) (\<lambda>_. ret zero_result)
     | Inr jtrs \<Rightarrow>
         bindM (delete_requests E (doomed_requests jtrs)) (\<lambda>gone.
         if \<not> gone then ret zero_result
         else
           bindM (upd_rs (\<lambda>st. st\<lparr>rs_reason := ClusterDeletingDeletionCompletedReason\<rparr>)) (\<lambda>_.
           bindM (upd_kmc remove_kmc_finalizer) (\<lambda>_.
           ret zero_result)))))"

definition cluster_reconcileDelete :: "clu_env \<Rightarrow> result kmcM" where
  "cluster_reconcileDelete E = bindM (delete_external_owner E) (\<lambda>_. delete_join_requests E)"

subsection \<open>The reconciler\<close>

definition default_settings :: clusterSettings where
  "default_settings = \<lparr>set_serviceCIDR = ''10.96.0.0/12'', set_clusterDomain = ''cluster.local'', set_kubernetesServiceIP = ''10.96.0.1''\<rparr>"

definition cluster_settings :: "clu_lib \<Rightarrow> Cluster \<Rightarrow> gerror + clusterSettings" where
  \<comment> \<open>the settings of \<open>getKmcScope\<close>\<close>
  "cluster_settings C kmc =
     (let nested = (\<lambda>what path. case sp_K0sConfig (kmc_Spec kmc) of
            None \<Rightarrow> Inr None
          | Some ob \<Rightarrow> (case NestedString (jsons (cu_lib C)) ob path of
              Inl e \<Rightarrow> Inl (Wrapf (''error retrieving '' @ what) e) | Inr v \<Rightarrow> Inr v))
      in case nested ''service CIDR'' [''spec'', ''network'', ''serviceCIDR''] of
           Inl e \<Rightarrow> Inl e
         | Inr cidr \<Rightarrow>
             (case nested ''cluster domain'' [''spec'', ''network'', ''clusterDomain''] of
                Inl e \<Rightarrow> Inl e
              | Inr domain \<Rightarrow>
                  (let c = deref (set_serviceCIDR default_settings) cidr in
                   case cu_APIServerVirtualIP C c of
                     Inl e \<Rightarrow> Inl (Wrapf (''failed to get kubernetes service IP from CIDR '' @ ol_q (cu_obj C) c) e)
                   | Inr ip \<Rightarrow> Inr \<lparr>set_serviceCIDR = c, set_clusterDomain = deref (set_clusterDomain default_settings) domain,
                       set_kubernetesServiceIP = ip\<rparr>)))"

definition initial_state :: currentReconcileState where
  "initial_state = \<lparr>rs_message = [], rs_reason = [], rs_sts = None, rs_svc = False, rs_kcMessage = [], rs_kcData = False\<rparr>"

definition cluster_getKmcScope :: "clu_lib \<Rightarrow> clu_env \<Rightarrow> Cluster \<Rightarrow> unit kmcM" where
  \<comment> \<open>\<open>getKmcScope\<close>, which starts the state of the run\<close>
  "cluster_getKmcScope C E kmc =
     bindM (case hosting_kubeconfig (kmc_Spec kmc) of
              None \<Rightarrow> ret ManagementClient
            | Some kr \<Rightarrow> bindM (GetKmcClientFromClusterKubeconfigSecret (cv_boot E) kr) (\<lambda>_. ret HostingClusterClient)) (\<lambda>cl.
     bindM (liftE (cluster_settings C kmc)) (\<lambda>settings.
     set_configM (\<lambda>_. \<lparr>kx_kmc = kmc, kx_owner = None, kx_client = cl, kx_settings = settings, kx_state = initial_state\<rparr>)))"

definition set_owner :: "external_owner option \<Rightarrow> unit kmcM" where
  "set_owner eo = set_configM (\<lambda>r. r\<lparr>kx_owner := eo\<rparr>)"

definition cluster_remote_owner :: "clu_env \<Rightarrow> unit kmcM" where
  \<comment> \<open>the owner object in the hosting cluster: looked up on deletion, ensured otherwise\<close>
  "cluster_remote_owner E =
     bindM configM (\<lambda>r.
     (let kmc = kx_kmc r; ns = om_Namespace (kmc_Meta kmc); H = cv_host E in
      if hosting_kubeconfig (kmc_Spec kmc) = None then ret ()
      else if om_DeletionTimestamp (kmc_Meta kmc) \<noteq> None then
        tryM (GetExternalOwner H (kx_client r) (kmc_Name kmc) ns) (\<lambda>g.
        case g of
          Inr eo \<Rightarrow> set_owner (Some eo)
        | Inl err \<Rightarrow> if is_not_found err then ret () else failM err)
      else
        bindM (EnsureNamespaceExists H (kx_client r) ns) (\<lambda>_.
        bindM (EnsureExternalOwner H (kx_client r) (kmc_Name kmc) ns) (\<lambda>eo. set_owner (Some eo)))))"

definition reporting :: "string \<Rightarrow> 'a kmcM \<Rightarrow> 'a kmcM" where
  \<comment> \<open>an error becomes the reconciliation status\<close>
  "reporting what m = tryM m (\<lambda>r. case r of
     Inr x \<Rightarrow> ret x
   | Inl e \<Rightarrow> bindM (upd_kmc (SetReconciliationStatus (what @ error_text e))) (\<lambda>_. failM e))"

definition reconcile_objects :: "clu_lib \<Rightarrow> clu_env \<Rightarrow> unit kmcM" where
  \<comment> \<open>\<open>Reconcile\<close>: services, ingress, config maps and certificates\<close>
  "reconcile_objects C E =
     bindM (reporting ''Failed reconciling services, '' (reconcileServices C E)) (\<lambda>_.
     bindM (reporting ''Failed reconciling ingress, '' (reconcileIngress C E)) (\<lambda>_.
     bindM (reporting ''Failed reconciling configmap, '' (reconcileK0sConfig C E)) (\<lambda>_.
     bindM (reporting ''Failed reconciling entrypoint configmap, '' (reconcileEntrypointCM C E)) (\<lambda>_.
     bindM kmcM (\<lambda>kmc1.
     bindM (if mon_Enabled (sp_Monitoring (kmc_Spec kmc1))
            then reporting ''Failed reconciling prometheus configmap, '' (reconcileMonitoringCM C E) else ret ()) (\<lambda>_.
     bindM (if sp_CertificateRefs (kmc_Spec kmc1) = None then cluster_ensureCertificates C E else ret ()) (\<lambda>_.
     bindM (if sto_Type (sp_Storage (kmc_Spec kmc1)) = StorageTypeEtcd then
              bindM (wrapM (Wrapf ''error generating etcd certificates'') (ensureEtcdCertificates C E)) (\<lambda>_.
              upd_ksp (with_etcd_client_ref kmc1))
            else ret ()) (\<lambda>_.
     if sp_Ingress (kmc_Spec kmc1) \<noteq> None
     then wrapM (Wrapf ''error generating ingress certificates'') (ensureHAProxyCerts C E) else ret ()))))))))"

definition reconcile_workloads :: "clu_lib \<Rightarrow> clu_env \<Rightarrow> result kmcM" where
  \<comment> \<open>\<open>Reconcile\<close>: volumes, NATS, etcd, the control plane and the kubeconfig\<close>
  "reconcile_workloads C E =
     bindM (reporting ''Failed reconciling PVCs: '' (reconcilePVC C E)) (\<lambda>_.
     bindM (reporting ''Failed reconciling NATS, '' (reconcileNats C E)) (\<lambda>_.
     bindM (reporting ''Failed reconciling etcd, '' (reconcileEtcd C E)) (\<lambda>result.
     bindM (reporting ''Failed reconciling statefulset, '' (reconcileStatefulSet C E)) (\<lambda>res.
     if \<not> result_is_zero res then ret res
     else
       bindM kmcM (\<lambda>kmc.
       if sint (cst_ReadyReplicas (kmc_Status kmc)) > 0 then
         bindM (reporting ''Failed reconciling secret, '' (reconcileKubeConfigSecret C E)) (\<lambda>_.
         bindM (upd_kmc (SetReconciliationStatus ''Reconciliation successful'')) (\<lambda>_.
         ret result))
       else ret \<lparr>Requeue = True, RequeueAfter = minute\<rparr>)))))"

definition cluster_body :: "clu_lib \<Rightarrow> clu_env \<Rightarrow> result kmcM" where
  \<comment> \<open>\<open>Reconcile\<close> after the deferred closure was registered\<close>
  "cluster_body C E =
     bindM kmcM (\<lambda>kmc.
     if om_DeletionTimestamp (kmc_Meta kmc) \<noteq> None then cluster_reconcileDelete E
     else bindM (reconcile_objects C E) (\<lambda>_. reconcile_workloads C E))"

definition finish_cluster :: "clu_lib \<Rightarrow> clu_env \<Rightarrow> Cluster \<Rightarrow> result res \<Rightarrow> result kmcM" where
  \<comment> \<open>the deferred closure: of the cluster as it was when the patch helper was made, and the named results\<close>
  "finish_cluster C E before outcome =
     (case named_results outcome of (res, err0) \<Rightarrow>
      bindM (cluster_updateStatus C E) (\<lambda>_.
      bindM kmcM (\<lambda>kmc.
      tryM (hwrite (cv_host E) (PatchKmc before kmc)) (\<lambda>d.
      (let err = add_err err0 d;
           res' = (if result_is_zero res \<and> om_DeletionTimestamp (kmc_Meta kmc) = None \<and>
                     (\<not> kmc_condition_true C kmc ClusterControlPlaneFunctionalCondition \<or>
                      \<not> kmc_condition_true C kmc ClusterAvailableCondition)
                   then \<lparr>Requeue = False, RequeueAfter = 20 * second\<rparr> else res)
       in case outcome of
            Panic \<Rightarrow> panicM
          | _ \<Rightarrow> (case err of Some e \<Rightarrow> failM e | None \<Rightarrow> ret res'))))))"

definition cluster_run :: "clu_lib \<Rightarrow> clu_env \<Rightarrow> Cluster \<Rightarrow> result kmcM" where
  "cluster_run C E before = deferNamedM (cluster_body C E) (finish_cluster C E before)"

definition cluster_EnsureFinalizer :: "clu_env \<Rightarrow> Cluster \<Rightarrow> string \<Rightarrow> bool kmcM" where
  \<comment> \<open>\<open>EnsureFinalizer\<close> for a \<open>Cluster\<close>; whether the finalizer was added\<close>
  "cluster_EnsureFinalizer E kmc finalizer =
     (if om_DeletionTimestamp (kmc_Meta kmc) \<noteq> None then ret False
      else if finalizer \<in> set (om_Finalizers (kmc_Meta kmc)) then ret False
      else
        bindM (liftC (newPatchHelper (cv_env E))) (\<lambda>_.
        bindM (mwrite E (PatchClusterFinalizer (kmc\<lparr>kmc_Meta := (kmc_Meta kmc)\<lparr>om_Finalizers :=
                 om_Finalizers (kmc_Meta kmc) @ [finalizer]\<rparr>\<rparr>))) (\<lambda>_.
        ret True)))"

definition cluster_Reconcile :: "clu_lib \<Rightarrow> clu_env \<Rightarrow> string \<times> string \<Rightarrow> result kmcM" where
  "cluster_Reconcile C E key =
     tryM (bread ''kmc'' (snd key) (\<lambda>tr. he_GetKmc (cv_host E) tr key)) (\<lambda>g.
     case g of
       Inl e \<Rightarrow> if is_not_found e then ret zero_result else failM e
     | Inr kmc \<Rightarrow>
         bindM (cluster_EnsureFinalizer E kmc clusterFinalizer) (\<lambda>finalizerAdded.
         if finalizerAdded then ret zero_result
         else
           bindM (cluster_getKmcScope C E kmc) (\<lambda>_.
           bindM (cluster_remote_owner E) (\<lambda>_.
           tryM (liftC (newPatchHelper (cv_env E))) (\<lambda>p.
           case p of
             Inl _ \<Rightarrow> ret \<lparr>Requeue = True, RequeueAfter = 0\<rparr>
           | Inr _ \<Rightarrow> cluster_run C E kmc)))))"

end
