(* ===== verification/Workload_Properties.thy ===== *)
theory Workload_Properties
  imports Cluster_Workloads
begin

text \<open>
  What holds of the generated objects, whatever the cluster: names of volumes are valid labels, the service
  selects the pods of the control plane and never those of etcd, the mounts of a pod have volumes,
  the replicas of etcd, and what a user-defined patch may touch.
\<close>

subsection \<open>Names of volumes\<close>

definition dns_label :: "string \<Rightarrow> bool" where
  \<comment> \<open>a label of RFC 1123\<close>
  "dns_label s \<longleftrightarrow> s \<noteq> [] \<and> length s \<le> 63 \<and> list_all label_char s \<and> hd s \<noteq> CHR ''-'' \<and> last s \<noteq> CHR ''-''"

lemma dash_runs_chars: "list_all label_char (dash_runs s)"
  by (induction s rule: dash_runs.induct) (simp_all add: label_char_def)

lemma list_all_dropWhile: "list_all P s \<Longrightarrow> list_all P (dropWhile Q s)"
  by (induction s) simp_all

lemma list_all_take: "list_all P s \<Longrightarrow> list_all P (take n s)"
  by (simp add: list_all_iff) (meson in_set_takeD)

lemma trim_right_chars: "list_all P s \<Longrightarrow> list_all P (trim_right c s)"
  unfolding trim_right_def by (simp add: list_all_dropWhile)

lemma trim_right_last:
  assumes "trim_right c s \<noteq> []"
  shows "last (trim_right c s) \<noteq> c"
proof -
  have "dropWhile (\<lambda>d. d = c) (rev s) \<noteq> []"
    using assms by (simp only: trim_right_def rev_is_Nil_conv not_False_eq_True)
  then have "hd (dropWhile (\<lambda>d. d = c) (rev s)) \<noteq> c"
    using hd_dropWhile [of "\<lambda>d. d = c" "rev s"] by blast
  then show ?thesis by (simp only: trim_right_def last_rev not_False_eq_True)
qed

lemma trim_right_prefix: "\<exists>t. s = trim_right c s @ t"
proof -
  have "rev s = takeWhile (\<lambda>d. d = c) (rev s) @ dropWhile (\<lambda>d. d = c) (rev s)"
    by simp
  then have "s = rev (dropWhile (\<lambda>d. d = c) (rev s)) @ rev (takeWhile (\<lambda>d. d = c) (rev s))"
    by (metis rev_append rev_rev_ident)
  then show ?thesis unfolding trim_right_def by blast
qed

lemma trim_right_hd: "trim_right c s \<noteq> [] \<Longrightarrow> hd (trim_right c s) = hd s"
  using trim_right_prefix [of s c] by (metis hd_append2)

lemma length_trim_right: "length (trim_right c s) \<le> length s"
  unfolding trim_right_def using length_dropWhile_le [of _ "rev s"] by simp

lemma trim_both_ends:
  assumes "trim_both c s \<noteq> []"
  shows "hd (trim_both c s) \<noteq> c" and "last (trim_both c s) \<noteq> c"
proof -
  have "dropWhile (\<lambda>d. d = c) s \<noteq> []"
    using assms length_trim_right [of c "dropWhile (\<lambda>d. d = c) s"] unfolding trim_both_def
    by (metis le_zero_eq length_0_conv)
  then show "hd (trim_both c s) \<noteq> c"
    using assms hd_dropWhile [of "\<lambda>d. d = c" s] by (simp add: trim_both_def trim_right_hd)
  show "last (trim_both c s) \<noteq> c"
    using assms by (simp add: trim_both_def trim_right_last)
qed

lemma hex_label: "c \<in> hex_digits \<Longrightarrow> label_char c \<and> c \<noteq> CHR ''-''"
  by (auto simp: hex_digits_def label_char_def)

lemma hash_label:
  fixes path :: string
  defines "hash \<equiv> take 5 (sha256_hex path)"
  shows "length hash = 5" and "list_all label_char hash" and "hash \<noteq> []" and "hd hash \<noteq> CHR ''-''" and "last hash \<noteq> CHR ''-''"
proof -
  show len: "length hash = 5"
    by (simp add: hash_def)
  then show ne: "hash \<noteq> []" by auto
  have "set hash \<subseteq> hex_digits"
    unfolding hash_def using set_sha256_hex [of path] set_take_subset [of 5 "sha256_hex path"] by blast
  then have "label_char c \<and> c \<noteq> CHR ''-''" if "c \<in> set hash" for c
    using hex_label that by blast
  with ne show "list_all label_char hash" and "hd hash \<noteq> CHR ''-''" and "last hash \<noteq> CHR ''-''"
    by (auto simp: list_all_iff)
qed

lemma dns_label_join:
  assumes "base \<noteq> []" "length base \<le> 57" "list_all label_char base" "hd base \<noteq> CHR ''-''"
    and "hash \<noteq> []" "length hash = 5" "list_all label_char hash" "last hash \<noteq> CHR ''-''"
  shows "dns_label (base @ ''-'' @ hash)"
  using assms unfolding dns_label_def by (simp add: label_char_def last_append)

text \<open>
  The name of the volume for a mounted path is a valid DNS label, at most 63 characters
  of lower case letters, digits and dashes with a letter or a digit at both ends, whatever bytes the path consists of.
\<close>
theorem volume_names_are_labels:
  assumes labels: "\<And>s. ol_IsDNS1123Label L s \<longleftrightarrow> dns_label s"
  shows "dns_label (pathToVolumeName L path)"
proof -
  let ?name = "trim_both (CHR ''-'') (dash_runs (to_lower (trim_prefix ''/'' path)))"
  let ?base = "if length ?name > 57 then trim_right (CHR ''-'') (take 57 ?name) else ?name"
  have chars: "list_all label_char ?base"
    using dash_runs_chars by (simp add: trim_both_def trim_right_chars list_all_dropWhile list_all_take)
  have len: "length ?base \<le> 57"
    using length_trim_right [of "CHR ''-''" "take 57 ?name"] by (simp add: not_less)
  have first: "hd ?base \<noteq> CHR ''-''" if ne: "?base \<noteq> []"
  proof (cases "length ?name > 57")
    case True
    then have "hd ?base = hd ?name"
      using ne by (simp add: trim_right_hd)
    moreover have "?name \<noteq> []" using True by auto
    ultimately show ?thesis using trim_both_ends(1) by metis
  next
    case False
    then show ?thesis using ne trim_both_ends(1) by auto
  qed
  show ?thesis
  proof (cases "dns_label (replace_all ''/'' ''-'' (trim_prefix ''/'' path))")
    case True
    then show ?thesis by (simp add: pathToVolumeName_def labels)
  next
    case False
    then have name: "pathToVolumeName L path =
        (if ?base = [] then take 5 (sha256_hex path) else ?base @ ''-'' @ take 5 (sha256_hex path))"
      unfolding pathToVolumeName_def labels Let_def by (simp only: if_False)
    show ?thesis
    proof (cases "?base = []")
      case True
      then show ?thesis
        unfolding name using hash_label [of path] by (simp add: dns_label_def)
    next
      case False
      then show ?thesis
        unfolding name using dns_label_join [OF False len chars first [OF False] hash_label(3,1,2,5)]
        by (simp only: if_False)
    qed
  qed
qed

text \<open>A concrete library: labels are checked as documented, and nothing can be patched.\<close>

definition ref_obj_lib :: obj_lib where
  "ref_obj_lib = \<lparr>ol_q = quoted, ol_UnmarshalString = Inr, ol_UnmarshalMap = (\<lambda>_. Inr Map.empty),
     ol_IsZero = (\<lambda>q. q = []), ol_Cmp = (\<lambda>a b. if a = b then 0 else 1), ol_IsDNS1123Label = dns_label,
     ol_ObjectKinds = (\<lambda>ob. Inr [case ob of KService _ _ \<Rightarrow> ''Service'' | KStatefulSet _ _ \<Rightarrow> ''StatefulSet'' | _ \<Rightarrow> ''ConfigMap'']),
     ol_Marshal = (\<lambda>_. Inr []), ol_YAMLToJSON = Inr, ol_DecodePatch = (\<lambda>_. None), ol_ApplyJSON = (\<lambda>_ d. Inr d),
     ol_New = (\<lambda>_. None), ol_StrategicMerge = (\<lambda>_ d _. Inr d), ol_Merge = (\<lambda>d _. Inr d),
     ol_Unmarshal = (\<lambda>_ _. Inl (Errorf ''not supported''))\<rparr>"

lemma ref_labels: "ol_IsDNS1123Label ref_obj_lib s \<longleftrightarrow> dns_label s"
  by (simp add: ref_obj_lib_def)

theorem volume_names_are_labels_witness:
  "(\<exists>s. pathToVolumeName ref_obj_lib ''/etc/k0s_Extra.d'' = s \<and> dns_label s)"
  using volume_names_are_labels [of ref_obj_lib "''/etc/k0s_Extra.d''", OF ref_labels] by blast

subsection \<open>Volumes and mounts of a specification\<close>

definition volume_names :: "stateful_set_spec \<Rightarrow> string list" where
  "volume_names sp = map vol_Name (po_Volumes (te_Spec (ss_Template sp)))"

definition claim_names :: "stateful_set_spec \<Rightarrow> string list" where
  "claim_names sp = map (\<lambda>c. pm_Name (pvc_Meta c)) (ss_VolumeClaimTemplates sp)"

definition mounted_names :: "stateful_set_spec \<Rightarrow> string set" where
  \<comment> \<open>the volumes that the containers mount, init containers included\<close>
  "mounted_names sp = (\<Union>c \<in> set (po_InitContainers (te_Spec (ss_Template sp)) @ po_Containers (te_Spec (ss_Template sp))).
     vm_Name ` set (ct_VolumeMounts c))"

definition has_containers :: "stateful_set_spec \<Rightarrow> bool" where
  "has_containers sp \<longleftrightarrow> po_Containers (te_Spec (ss_Template sp)) \<noteq> []"

lemmas shape_defs = volume_names_def claim_names_def mounted_names_def has_containers_def

lemma add_volumes_shape [simp]:
  "volume_names (add_volumes vs sp) = volume_names sp @ map vol_Name vs"
  "claim_names (add_volumes vs sp) = claim_names sp"
  "mounted_names (add_volumes vs sp) = mounted_names sp"
  "has_containers (add_volumes vs sp) = has_containers sp"
  by (simp_all add: shape_defs add_volumes_def upd_pod_def)

lemma add_mounts_shape [simp]:
  "volume_names (add_mounts ms sp) = volume_names sp"
  "claim_names (add_mounts ms sp) = claim_names sp"
  "mounted_names (add_mounts ms sp) \<subseteq> mounted_names sp \<union> vm_Name ` set ms"
  "has_containers (add_mounts ms sp) = has_containers sp"
  by (cases "po_Containers (te_Spec (ss_Template sp))", auto simp: shape_defs add_mounts_def upd_first_def upd_pod_def)+

lemma add_claim_shape [simp]:
  "volume_names (add_claim c sp) = volume_names sp"
  "claim_names (add_claim c sp) = claim_names sp @ [pm_Name (pvc_Meta c)]"
  "mounted_names (add_claim c sp) = mounted_names sp"
  by (simp_all add: shape_defs add_claim_def)

lemma upd_first_shape [simp]:
  assumes "\<And>c. ct_VolumeMounts (f c) = ct_VolumeMounts c"
  shows "volume_names (upd_first f sp) = volume_names sp" "claim_names (upd_first f sp) = claim_names sp"
    "mounted_names (upd_first f sp) = mounted_names sp"
  using assms by (cases "po_Containers (te_Spec (ss_Template sp))", auto simp: shape_defs upd_first_def upd_pod_def)+

lemma with_mounts_names:
  "volume_names (with_mounts L ms sp) = volume_names sp @ map (\<lambda>m. pathToVolumeName L (mnt_Path m)) ms"
  by (induction ms arbitrary: sp) (simp_all add: with_mounts_def Let_def)

text \<open>
  Two different mounts can get one volume name: the paths \<open>/etc/app/conf\<close> and \<open>/etc/app-conf\<close>
  both become \<open>etc-app-conf\<close>, without the hash that tells other paths apart, so a control plane that
  mounts both has two volumes of one name.
\<close>
theorem mounted_paths_clash:
  assumes labels: "\<And>s. ol_IsDNS1123Label L s \<longleftrightarrow> dns_label s"
  shows "pathToVolumeName L ''/etc/app/conf'' = ''etc-app-conf'' \<and> pathToVolumeName L ''/etc/app-conf'' = ''etc-app-conf'' \<and>
    (\<forall>src src' sp. volume_names (with_mounts L
       [\<lparr>mnt_Path = ''/etc/app/conf'', mnt_ReadOnly = False, mnt_Source = src\<rparr>,
        \<lparr>mnt_Path = ''/etc/app-conf'', mnt_ReadOnly = False, mnt_Source = src'\<rparr>] sp) =
     volume_names sp @ [''etc-app-conf'', ''etc-app-conf''])"
proof -
  have "dns_label ''etc-app-conf''"
    by code_simp
  moreover have "replace_all ''/'' ''-'' (trim_prefix ''/'' ''/etc/app/conf'') = ''etc-app-conf''"
    and "replace_all ''/'' ''-'' (trim_prefix ''/'' ''/etc/app-conf'') = ''etc-app-conf''"
    by code_simp+
  ultimately have names: "pathToVolumeName L ''/etc/app/conf'' = ''etc-app-conf''" "pathToVolumeName L ''/etc/app-conf'' = ''etc-app-conf''"
    by (simp_all only: pathToVolumeName_def labels Let_def if_True)
  then show ?thesis
    by (simp add: with_mounts_names)
qed

theorem mounted_paths_clash_witness:
  "pathToVolumeName ref_obj_lib ''/etc/app/conf'' = pathToVolumeName ref_obj_lib ''/etc/app-conf''"
  using mounted_paths_clash [OF ref_labels] by metis

subsection \<open>Selectors\<close>

definition selects :: "strmap \<Rightarrow> strmap \<Rightarrow> bool" where
  \<comment> \<open>whether the equality-based selector matches an object with these labels\<close>
  "selects selector labels \<longleftrightarrow> selector \<subseteq>\<^sub>m labels"

definition user_label :: "Cluster \<Rightarrow> string \<Rightarrow> string option" where
  \<comment> \<open>a label of the cluster, or of the metadata of its kubeconfig secret\<close>
  "user_label kmc = om_Labels (kmc_Meta kmc) ++ smd_Labels (sp_KubeconfigSecretMetadata (kmc_Spec kmc))"

definition agrees :: "Cluster \<Rightarrow> string \<Rightarrow> string \<Rightarrow> bool" where
  \<comment> \<open>the user set no other value for this label\<close>
  "agrees kmc k v \<longleftrightarrow> user_label kmc k = None \<or> user_label kmc k = Some v"

lemma map_le_upd_iff: "m \<subseteq>\<^sub>m m(k \<mapsto> v) \<longleftrightarrow> m k = None \<or> m k = Some v"
  by (auto simp: map_le_def dom_def)

lemma map_le_upd2_iff:
  "k \<noteq> k' \<Longrightarrow> m \<subseteq>\<^sub>m m(k \<mapsto> v, k' \<mapsto> v') \<longleftrightarrow> (m k = None \<or> m k = Some v) \<and> (m k' = None \<or> m k' = Some v')"
  by (auto simp: map_le_def dom_def)

lemma label_of_user:
  assumes "k \<noteq> ''app''" "k \<noteq> ''cluster''" "k \<noteq> ''component''"
  shows "LabelsForK0smotronCluster kmc k = user_label kmc k"
  using assms by (simp add: LabelsForK0smotronCluster_def DefaultK0smotronClusterLabels_def user_label_def map_add_def split: option.splits)

lemma generated_service:
  "\<exists>kmc' m spec. generateService L kmc = (kmc', KService m spec) \<and> ses_Selector spec = LabelsForK0smotronCluster kmc"
  by (auto simp: generateService_def Let_def default_service_type_def AnnotationsForK0smotronCluster_def set_kmc_annotations_def
      LabelsForK0smotronCluster_def DefaultK0smotronClusterLabels_def kmc_Name_def)

text \<open>
  The service of the control plane never selects a pod of etcd. It selects the pods of the
  control plane exactly when the user gave the labels \<open>app.kubernetes.io/component\<close> and
  \<open>cluster.x-k8s.io/control-plane\<close> no value of their own, on the cluster or in the metadata of the kubeconfig
  secret; with such a label the service has no endpoints.
\<close>
theorem service_selects_control_plane:
  assumes gen: "generateService L kmc = (kmc', KService m spec)"
  shows "\<not> selects (ses_Selector spec) (etcd_labels kmc) \<and>
    (selects (ses_Selector spec) (control_plane_labels kmc) \<longleftrightarrow>
       agrees kmc ComponentLabel ComponentControlPlane \<and> agrees kmc ''cluster.x-k8s.io/control-plane'' ''true'')"
proof
  have sel: "ses_Selector spec = LabelsForK0smotronCluster kmc"
    using generated_service [of L kmc] gen by auto
  have component: "LabelsForK0smotronCluster kmc ''component'' = Some ''cluster''"
    by (simp add: LabelsForK0smotronCluster_def)
  show "\<not> selects (ses_Selector spec) (etcd_labels kmc)"
  proof
    assume "selects (ses_Selector spec) (etcd_labels kmc)"
    then have "etcd_labels kmc ''component'' = Some ''cluster''"
      using component unfolding selects_def sel map_le_def by force
    then show False
      by (simp add: etcd_labels_def LabelsForEtcdK0smotronCluster_def ComponentLabel_def)
  qed
  show "selects (ses_Selector spec) (control_plane_labels kmc) \<longleftrightarrow>
       agrees kmc ComponentLabel ComponentControlPlane \<and> agrees kmc ''cluster.x-k8s.io/control-plane'' ''true''"
    unfolding selects_def sel control_plane_labels_def LabelsForK0smotronControlPlane_def agrees_def
    by (subst map_le_upd2_iff) (auto simp: ComponentLabel_def label_of_user)
qed

theorem service_selects_control_plane_witness:
  "\<exists>kmc' m spec. generateService ref_obj_lib zero_kmc = (kmc', KService m spec) \<and>
     \<not> selects (ses_Selector spec) (etcd_labels zero_kmc) \<and> selects (ses_Selector spec) (control_plane_labels zero_kmc)"
proof -
  obtain kmc' m spec where gen: "generateService ref_obj_lib zero_kmc = (kmc', KService m spec)"
    using generated_service by blast
  have "user_label zero_kmc = Map.empty"
    by (simp add: user_label_def zero_kmc_def zero_spec_def)
  then show ?thesis
    using service_selects_control_plane [OF gen] gen by (simp add: agrees_def)
qed

subsection \<open>Every mount has its volume\<close>

definition mounts_within :: "string set \<Rightarrow> stateful_set_spec \<Rightarrow> bool" where
  \<comment> \<open>every mount has a volume or a claim template, or is one of the given names\<close>
  "mounts_within D sp \<longleftrightarrow> mounted_names sp \<subseteq> set (volume_names sp) \<union> set (claim_names sp) \<union> D"

lemma add_containers_shape [simp]:
  "volume_names (upd_pod (\<lambda>p. p\<lparr>po_Containers := po_Containers p @ cs\<rparr>) sp) = volume_names sp"
  "claim_names (upd_pod (\<lambda>p. p\<lparr>po_Containers := po_Containers p @ cs\<rparr>) sp) = claim_names sp"
  "mounted_names (upd_pod (\<lambda>p. p\<lparr>po_Containers := po_Containers p @ cs\<rparr>) sp) =
     mounted_names sp \<union> (\<Union>c \<in> set cs. vm_Name ` set (ct_VolumeMounts c))"
  "volume_names (upd_pod (\<lambda>p. p\<lparr>po_InitContainers := po_InitContainers p @ cs\<rparr>) sp) = volume_names sp"
  "claim_names (upd_pod (\<lambda>p. p\<lparr>po_InitContainers := po_InitContainers p @ cs\<rparr>) sp) = claim_names sp"
  "mounted_names (upd_pod (\<lambda>p. p\<lparr>po_InitContainers := po_InitContainers p @ cs\<rparr>) sp) =
     mounted_names sp \<union> (\<Union>c \<in> set cs. vm_Name ` set (ct_VolumeMounts c))"
  by (auto simp: shape_defs upd_pod_def)

lemma field_shape [simp]:
  "volume_names (sp\<lparr>ss_Template := (ss_Template sp)\<lparr>te_Annotations := a\<rparr>\<rparr>) = volume_names sp"
  "claim_names (sp\<lparr>ss_Template := (ss_Template sp)\<lparr>te_Annotations := a\<rparr>\<rparr>) = claim_names sp"
  "mounted_names (sp\<lparr>ss_Template := (ss_Template sp)\<lparr>te_Annotations := a\<rparr>\<rparr>) = mounted_names sp"
  "volume_names (sp\<lparr>ss_WhenDeleted := z\<rparr>) = volume_names sp"
  "claim_names (sp\<lparr>ss_WhenDeleted := z\<rparr>) = claim_names sp"
  "mounted_names (sp\<lparr>ss_WhenDeleted := z\<rparr>) = mounted_names sp"
  by (simp_all add: shape_defs)

lemma within_mono: "mounts_within D sp \<Longrightarrow> D \<subseteq> D' \<Longrightarrow> mounts_within D' sp"
  by (auto simp: mounts_within_def)

lemma within_volumes: "mounts_within D sp \<Longrightarrow> mounts_within D (add_volumes vs sp)"
  by (auto simp: mounts_within_def)

lemma within_claim: "mounts_within D sp \<Longrightarrow> mounts_within D (add_claim c sp)"
  by (auto simp: mounts_within_def)

lemma within_mounts:
  "mounts_within D sp \<Longrightarrow> vm_Name ` set ms \<subseteq> set (volume_names sp) \<union> set (claim_names sp) \<union> D \<Longrightarrow> mounts_within D (add_mounts ms sp)"
  unfolding mounts_within_def add_mounts_shape(1,2) by (rule subset_trans [OF add_mounts_shape(3)]) (rule Un_least)

lemma within_upd_first:
  "(\<And>c. ct_VolumeMounts (f c) = ct_VolumeMounts c) \<Longrightarrow> mounts_within D sp \<Longrightarrow> mounts_within D (upd_first f sp)"
  by (simp add: mounts_within_def)

lemma within_fields:
  assumes "mounts_within D sp"
  shows "mounts_within D (sp\<lparr>ss_ServiceName := x, ss_PodManagementPolicy := y\<rparr>)" "mounts_within D (sp\<lparr>ss_WhenDeleted := z\<rparr>)"
    "mounts_within D (upd_pod (\<lambda>p. p\<lparr>po_TopologySpreadConstraints := t\<rparr>) sp)"
    "mounts_within D (sp\<lparr>ss_Template := (ss_Template sp)\<lparr>te_Annotations := a\<rparr>\<rparr>)"
  using assms by (simp_all add: mounts_within_def shape_defs upd_pod_def)

lemmas within_rules = within_volumes within_claim within_mounts within_upd_first within_fields

lemma within_base: "mounts_within {} (control_plane_base kmc)"
proof -
  have "vm_Name ` set (ct_VolumeMounts (controller_container kmc)) = {GetEntrypointConfigMapName kmc}"
    by (simp add: controller_container_def mount_sub_def)
  then have "mounted_names (control_plane_base kmc) = {GetEntrypointConfigMapName kmc}"
    by (simp only: mounted_names_def control_plane_base_def stateful_set_spec.simps pod_template.simps pod_spec.simps) simp
  moreover have "volume_names (control_plane_base kmc) = [GetEntrypointConfigMapName kmc]"
    by (simp only: volume_names_def control_plane_base_def stateful_set_spec.simps pod_template.simps pod_spec.simps volume.simps list.map)
  ultimately show ?thesis by (simp add: mounts_within_def)
qed

lemma within_monitoring:
  assumes "mounts_within D sp" and "addMonitoringStack kmc sp = (kmc', sp')"
  shows "mounts_within (insert (GetVolumeName kmc) D) sp'"
proof -
  have "(\<Union>c \<in> set (monitoring_containers kmc). vm_Name ` set (ct_VolumeMounts c)) =
      {GetVolumeName kmc, GetMonitoringConfigMapName kmc, GetMonitoringNginxConfigMapName kmc}"
    by (auto simp: monitoring_containers_def mount_at_def mount_sub_def)
  moreover have "map vol_Name (monitoring_volumes kmc) = [GetMonitoringConfigMapName kmc, GetMonitoringNginxConfigMapName kmc]"
    by (simp add: monitoring_volumes_def)
  moreover have "sp' = snd (addMonitoringStack kmc sp)"
    using assms(2) by simp
  ultimately show ?thesis
    using assms(1) by (simp add: addMonitoringStack_def Let_def mounts_within_def) blast
qed

lemma within_nats: "mounts_within D sp \<Longrightarrow> mounts_within D (with_nats L kmc sp)"
  unfolding with_nats_def by (auto intro!: within_rules simp: data_claim_def mount_at_def)

lemma within_kine: "mounts_within D sp \<Longrightarrow> mounts_within D (with_kine kmc sp)"
  unfolding with_kine_def Let_def by (auto intro!: within_rules)

lemma within_topology: "mounts_within D sp \<Longrightarrow> mounts_within D (with_topology kmc sp)"
  unfolding with_topology_def by (auto intro!: within_rules split: option.splits)

lemma within_certificates:
  assumes "mounts_within D sp"
  shows "mounts_within (if elems (sp_CertificateRefs (kmc_Spec kmc)) = [] then D else insert (k0sDataVolumeName kmc) D) (with_certificates kmc sp)"
  using assms by (auto simp: mounts_within_def with_certificates_def mountSecrets_def mount_at_def)

lemma within_manifests: "mounts_within D sp \<Longrightarrow> mounts_within D (with_manifests ms sp)"
proof (induction ms arbitrary: sp)
  case (Cons m ms)
  have "mounts_within D (add_mounts [mount_ro (vol_Name m) (''/var/lib/k0s/manifests/'' @ vol_Name m)] (add_volumes [m] sp))"
    by (intro within_mounts within_volumes Cons.prems) (simp add: mount_ro_def)
  from Cons.IH [OF this] show ?case by (simp add: with_manifests_def)
qed (simp add: with_manifests_def)

lemma within_user_mounts: "mounts_within D sp \<Longrightarrow> mounts_within D (with_mounts L ms sp)"
proof (induction ms arbitrary: sp)
  case (Cons m ms)
  have "mounts_within D (add_mounts [(mount_at (pathToVolumeName L (mnt_Path m)) (mnt_Path m))\<lparr>vm_ReadOnly := r\<rparr>]
      (add_volumes [\<lparr>vol_Name = pathToVolumeName L (mnt_Path m), vol_Source = mnt_Source m\<rparr>] sp))" for r
    by (intro within_mounts within_volumes Cons.prems) (simp add: mount_at_def)
  from Cons.IH [OF this] show ?case by (simp add: with_mounts_def Let_def)
qed (simp add: with_mounts_def)

lemma within_telemetry: "mounts_within D sp \<Longrightarrow> mounts_within D (with_telemetry kmc name sp)"
  unfolding with_telemetry_def Let_def by (auto intro!: within_rules simp: mount_ro_def configmap_volume_def)

definition data_volume :: "Cluster \<Rightarrow> string" where
  \<comment> \<open>the volume or claim that is mounted at the data directory of k0s\<close>
  "data_volume kmc = (if pers_Type (sp_Persistence (kmc_Spec kmc)) = ''pvc'' then k0sDataVolumeName kmc else GetVolumeName kmc)"

lemma named_claim_name:
  "pers_PersistentVolumeClaim (sp_Persistence (kmc_Spec kmc)) = Some c \<Longrightarrow> pm_Name (pvc_Meta (named_claim kmc c)) = k0sDataVolumeName kmc"
  by (simp add: named_claim_def k0sDataVolumeName_def)

lemma within_persistence:
  assumes "mounts_within D sp" and "with_persistence kmc sp = Inr (kmc', sp')"
  shows "mounts_within (D - {data_volume kmc}) sp'"
proof -
  have shrink: "mounts_within (D - {v}) (add_mounts [k0s_data v] sp1)"
    if "mounts_within D sp1" "v \<in> set (volume_names sp1) \<union> set (claim_names sp1)" for v sp1
    using that unfolding mounts_within_def add_mounts_shape(1,2)
    by (intro subset_trans [OF add_mounts_shape(3)] Un_least) (auto simp: k0s_data_def mount_at_def)
  show ?thesis
    using assms unfolding with_persistence_def Let_def data_volume_def
    by (auto intro!: shrink within_volumes within_claim within_fields simp: named_claim_name split: if_splits option.splits)
qed

lemma fst_with_monitoring:
  "fst (with_monitoring (kmc, sp)) =
     (if mon_Enabled (sp_Monitoring (kmc_Spec kmc))
      then (let k = upd_persistence (\<lambda>p. if pers_Type p = [] then p\<lparr>pers_Type := ''emptyDir''\<rparr> else p) kmc
            in set_kmc_annotations (kmc_annotations k ++ monitoringAnnotations) k)
      else kmc)"
  by (simp add: with_monitoring_def addMonitoringStack_def Let_def)

lemma monitored_cluster:
  assumes "with_monitoring (kmc, sp) = (kmc', sp')"
  shows "GetVolumeName kmc' = GetVolumeName kmc" "k0sDataVolumeName kmc' = k0sDataVolumeName kmc" "data_volume kmc' = data_volume kmc"
    "sp_CertificateRefs (kmc_Spec kmc') = sp_CertificateRefs (kmc_Spec kmc)"
proof -
  have kmc': "kmc' = fst (with_monitoring (kmc, sp))"
    using assms by simp
  show vol: "GetVolumeName kmc' = GetVolumeName kmc"
    unfolding kmc' fst_with_monitoring Let_def
    by (simp add: upd_persistence_def set_kmc_annotations_def GetVolumeName_def getObjectName_def kmc_Name_def)
  have claim: "pers_PersistentVolumeClaim (sp_Persistence (kmc_Spec kmc')) = pers_PersistentVolumeClaim (sp_Persistence (kmc_Spec kmc))"
    and type: "pers_Type (sp_Persistence (kmc_Spec kmc')) = ''pvc'' \<longleftrightarrow> pers_Type (sp_Persistence (kmc_Spec kmc)) = ''pvc''"
    and "sp_CertificateRefs (kmc_Spec kmc') = sp_CertificateRefs (kmc_Spec kmc)"
    unfolding kmc' fst_with_monitoring Let_def by (simp_all add: upd_persistence_def set_kmc_annotations_def)
  then show "sp_CertificateRefs (kmc_Spec kmc') = sp_CertificateRefs (kmc_Spec kmc)" by simp
  show "k0sDataVolumeName kmc' = k0sDataVolumeName kmc"
    by (simp only: k0sDataVolumeName_def claim vol)
  then show "data_volume kmc' = data_volume kmc"
    by (simp only: data_volume_def type vol)
qed

lemma annotated_cluster:
  "GetVolumeName (without_spec_hash (AnnotationsForK0smotronCluster kmc)) = GetVolumeName kmc"
  "k0sDataVolumeName (without_spec_hash (AnnotationsForK0smotronCluster kmc)) = k0sDataVolumeName kmc"
  "data_volume (without_spec_hash (AnnotationsForK0smotronCluster kmc)) = data_volume kmc"
  "kmc_Spec (without_spec_hash (AnnotationsForK0smotronCluster kmc)) = kmc_Spec kmc"
  by (simp_all add: without_spec_hash_def AnnotationsForK0smotronCluster_def set_kmc_annotations_def data_volume_def
      k0sDataVolumeName_def GetVolumeName_def getObjectName_def kmc_Name_def split: option.splits)

lemma within_with_monitoring:
  assumes "mounts_within {} sp" and "with_monitoring (kmc, sp) = (kmc', sp')"
  shows "mounts_within (if mon_Enabled (sp_Monitoring (kmc_Spec kmc)) then {GetVolumeName kmc} else {}) sp'"
proof -
  have "GetVolumeName (upd_persistence f kmc) = GetVolumeName kmc" for f
    by (simp add: upd_persistence_def GetVolumeName_def getObjectName_def kmc_Name_def)
  then show ?thesis
    using assms within_monitoring [OF assms(1)] by (fastforce simp: with_monitoring_def split: if_splits)
qed

text \<open>
  C12 (invariant). In the pod template of the control plane every mount of every container, init containers and
  the monitoring sidecars included, names a volume of the pod or a claim template, provided that the name of the data volume is
  the one the sidecars and the init container assume: with monitoring it is the default name, and with
  certificates a claim is named only when the persistence type is \<open>pvc\<close>.
\<close>
theorem mounts_have_volumes:
  assumes spec: "control_plane_spec L kmc0 = (kmc, Inr sp)"
    and monitoring: "mon_Enabled (sp_Monitoring (kmc_Spec kmc0)) \<Longrightarrow> data_volume kmc0 = GetVolumeName kmc0"
    and certs: "elems (sp_CertificateRefs (kmc_Spec kmc0)) \<noteq> [] \<Longrightarrow> k0sDataVolumeName kmc0 = data_volume kmc0"
  shows "mounted_names (with_telemetry kmc name sp) \<subseteq>
    set (volume_names (with_telemetry kmc name sp)) \<union> set (claim_names (with_telemetry kmc name sp))"
proof -
  let ?k1 = "without_spec_hash (AnnotationsForK0smotronCluster kmc0)"
  obtain k2 sp1 where mon: "with_monitoring (?k1, control_plane_base ?k1) = (k2, sp1)"
    by fastforce
  let ?sp2 = "with_topology k2 (with_certificates k2 (with_kine k2 (with_nats L k2 sp1)))"
  obtain kmc' sp3 where pers: "with_persistence k2 ?sp2 = Inr (kmc', sp3)"
    and sp: "sp = with_mounts L (elems (sp_Mounts (kmc_Spec kmc'))) (with_manifests (elems (sp_Manifests (kmc_Spec kmc'))) sp3)"
    using spec mon by (auto simp: control_plane_spec_def Let_def split: sum.splits prod.splits)
  let ?D1 = "if mon_Enabled (sp_Monitoring (kmc_Spec kmc0)) then {GetVolumeName kmc0} else {}"
  let ?D2 = "if elems (sp_CertificateRefs (kmc_Spec k2)) = [] then ?D1 else insert (k0sDataVolumeName k2) ?D1"
  have "mounts_within ?D1 sp1"
    using within_with_monitoring [OF within_base mon] by (simp only: annotated_cluster)
  then have "mounts_within ?D2 ?sp2"
    by (intro within_topology within_certificates within_kine within_nats)
  then have "mounts_within (?D2 - {data_volume k2}) sp3"
    using within_persistence [OF _ pers] by blast
  moreover have "?D2 - {data_volume k2} = {}"
    using monitoring certs by (auto simp: monitored_cluster [OF mon] annotated_cluster)
  ultimately have "mounts_within {} sp3" by simp
  then have "mounts_within {} (with_telemetry kmc name sp)"
    unfolding sp by (intro within_telemetry within_user_mounts within_manifests)
  then show ?thesis by (simp add: mounts_within_def)
qed

theorem mounts_have_volumes_witness:
  "\<exists>kmc sp. control_plane_spec ref_obj_lib zero_kmc = (kmc, Inr sp) \<and>
     mounted_names (with_telemetry kmc ''t'' sp) \<subseteq> set (volume_names (with_telemetry kmc ''t'' sp)) \<union> set (claim_names (with_telemetry kmc ''t'' sp))"
proof -
  have "\<exists>kmc sp. control_plane_spec ref_obj_lib zero_kmc = (kmc, Inr sp)"
    by (simp add: control_plane_spec_def Let_def with_monitoring_def annotated_cluster with_persistence_def) (simp add: zero_kmc_def zero_spec_def)
  then obtain kmc sp where spec: "control_plane_spec ref_obj_lib zero_kmc = (kmc, Inr sp)" by blast
  have "\<not> mon_Enabled (sp_Monitoring (kmc_Spec zero_kmc))" and "elems (sp_CertificateRefs (kmc_Spec zero_kmc)) = []"
    by (simp_all add: zero_kmc_def zero_spec_def)
  then show ?thesis
    using mounts_have_volumes [OF spec] spec by blast
qed

lemma add_mounts_mono: "mounted_names sp \<subseteq> mounted_names (add_mounts ms sp)"
  by (cases "po_Containers (te_Spec (ss_Template sp))", auto simp: shape_defs add_mounts_def upd_first_def upd_pod_def)

lemma with_kine_shape [simp]:
  "volume_names (with_kine kmc sp) = volume_names sp" "claim_names (with_kine kmc sp) = claim_names sp"
  "mounted_names (with_kine kmc sp) = mounted_names sp"
  by (simp_all add: with_kine_def Let_def)

lemma with_topology_shape [simp]:
  "volume_names (with_topology kmc sp) = volume_names sp" "claim_names (with_topology kmc sp) = claim_names sp"
  "mounted_names (with_topology kmc sp) = mounted_names sp"
  by (simp_all add: with_topology_def shape_defs upd_pod_def split: option.splits)

lemma base_shape:
  "volume_names (control_plane_base kmc) = [GetEntrypointConfigMapName kmc]" "claim_names (control_plane_base kmc) = []"
  by (simp_all only: volume_names_def claim_names_def control_plane_base_def stateful_set_spec.simps pod_template.simps pod_spec.simps
      volume.simps list.map)

lemma monitoring_shape:
  "volume_names (snd (addMonitoringStack kmc sp)) = volume_names sp @ [GetMonitoringConfigMapName kmc, GetMonitoringNginxConfigMapName kmc]"
  "claim_names (snd (addMonitoringStack kmc sp)) = claim_names sp"
  "GetVolumeName kmc \<in> mounted_names (snd (addMonitoringStack kmc sp))"
  by (simp_all add: addMonitoringStack_def Let_def monitoring_volumes_def) (simp add: monitoring_containers_def mount_at_def)

lemma claim_persistence:
  assumes pers: "with_persistence kmc sp = Inr (kmc', sp')"
    and claim: "pers_Type (sp_Persistence (kmc_Spec kmc)) = ''pvc''"
  shows "claim_names sp' = claim_names sp @ [k0sDataVolumeName kmc]" "volume_names sp' = volume_names sp"
    "mounted_names sp \<subseteq> mounted_names sp'"
proof -
  obtain c where c: "pers_PersistentVolumeClaim (sp_Persistence (kmc_Spec kmc)) = Some c"
    using pers claim by (auto simp: with_persistence_def Let_def split: option.splits)
  let ?sp1 = "if pers_AutoDeletePVCs (sp_Persistence (kmc_Spec kmc)) then sp\<lparr>ss_WhenDeleted := Some ''Delete''\<rparr> else sp"
  obtain d where sp': "sp' = add_mounts [k0s_data (pm_Name (pvc_Meta d))] (add_claim d ?sp1)"
    and d: "pm_Name (pvc_Meta d) = k0sDataVolumeName kmc"
    using pers by (simp add: with_persistence_def Let_def claim c) (metis PersistentVolumeClaim.select_convs(3) named_claim_name [OF c])
  show "claim_names sp' = claim_names sp @ [k0sDataVolumeName kmc]" "volume_names sp' = volume_names sp"
    by (simp_all add: sp' d)
  have "mounted_names (add_claim d ?sp1) = mounted_names sp" by simp
  then show "mounted_names sp \<subseteq> mounted_names sp'"
    unfolding sp' by (metis add_mounts_mono)
qed

text \<open>
  With monitoring enabled and a claim that has a name of its own, the sidecar mounts a volume that does not
  exist: it mounts the default volume name, while the data is in the named claim. The pods of
  such a control plane are refused.
\<close>
theorem monitoring_mounts_missing_volume:
  assumes spec: "control_plane_spec L kmc0 = (kmc, Inr sp)"
    and monitored: "mon_Enabled (sp_Monitoring (kmc_Spec kmc0))"
    and claim: "pers_Type (sp_Persistence (kmc_Spec kmc0)) = ''pvc''" "k0sDataVolumeName kmc0 \<noteq> GetVolumeName kmc0"
    and plain: "sto_Type (sp_Storage (kmc_Spec kmc0)) \<noteq> StorageTypeNATS" "elems (sp_CertificateRefs (kmc_Spec kmc0)) = []"
      "elems (sp_Manifests (kmc_Spec kmc0)) = []" "elems (sp_Mounts (kmc_Spec kmc0)) = []"
    and names: "GetVolumeName kmc0 \<notin> {GetEntrypointConfigMapName kmc0, GetMonitoringConfigMapName kmc0,
      GetMonitoringNginxConfigMapName kmc0, telemetryConfigMapName kmc0}"
  shows "GetVolumeName kmc0 \<in> mounted_names (with_telemetry kmc (telemetryConfigMapName kmc0) sp) \<and>
    GetVolumeName kmc0 \<notin> set (volume_names (with_telemetry kmc (telemetryConfigMapName kmc0) sp)) \<union>
      set (claim_names (with_telemetry kmc (telemetryConfigMapName kmc0) sp))"
proof -
  let ?k1 = "without_spec_hash (AnnotationsForK0smotronCluster kmc0)"
  let ?m = "upd_persistence (\<lambda>p. if pers_Type p = [] then p\<lparr>pers_Type := ''emptyDir''\<rparr> else p) ?k1"
  obtain k2 sp1 where mon: "with_monitoring (?k1, control_plane_base ?k1) = (k2, sp1)"
    by fastforce
  have sp1: "sp1 = snd (addMonitoringStack ?m (control_plane_base ?k1))"
    using mon monitored by (simp add: with_monitoring_def annotated_cluster)
  have spec2: "kmc_Spec k2 = kmc_Spec ?m"
    using fst_with_monitoring [of ?k1 "control_plane_base ?k1"] mon monitored
    by (simp add: annotated_cluster Let_def set_kmc_annotations_def)
  have same: "sp_Storage (kmc_Spec k2) = sp_Storage (kmc_Spec kmc0)" "sp_CertificateRefs (kmc_Spec k2) = sp_CertificateRefs (kmc_Spec kmc0)"
    "sp_Manifests (kmc_Spec k2) = sp_Manifests (kmc_Spec kmc0)" "sp_Mounts (kmc_Spec k2) = sp_Mounts (kmc_Spec kmc0)"
    "pers_Type (sp_Persistence (kmc_Spec k2)) = ''pvc''"
    using claim by (simp_all add: spec2 upd_persistence_def annotated_cluster)
  have objects: "GetEntrypointConfigMapName ?k1 = GetEntrypointConfigMapName kmc0" "GetMonitoringConfigMapName ?m = GetMonitoringConfigMapName kmc0"
    "GetMonitoringNginxConfigMapName ?m = GetMonitoringNginxConfigMapName kmc0" "GetVolumeName ?m = GetVolumeName kmc0"
    by (simp_all add: upd_persistence_def without_spec_hash_def AnnotationsForK0smotronCluster_def set_kmc_annotations_def
        GetEntrypointConfigMapName_def GetMonitoringConfigMapName_def GetMonitoringNginxConfigMapName_def GetVolumeName_def
        getObjectName_def kmc_Name_def)
  obtain kmc' sp3 where pers: "with_persistence k2 (with_topology k2 (with_kine k2 sp1)) = Inr (kmc', sp3)"
    and sp: "sp = with_mounts L (elems (sp_Mounts (kmc_Spec kmc'))) (with_manifests (elems (sp_Manifests (kmc_Spec kmc'))) sp3)"
    using spec mon plain by (auto simp: control_plane_spec_def Let_def with_nats_def with_certificates_def same split: sum.splits prod.splits)
  have "sp_Mounts (kmc_Spec kmc') = sp_Mounts (kmc_Spec k2)" "sp_Manifests (kmc_Spec kmc') = sp_Manifests (kmc_Spec k2)"
    using pers by (auto simp: with_persistence_def Let_def same upd_persistence_def split: option.splits)
  then have sp: "sp = sp3"
    using sp plain by (simp add: same with_mounts_def with_manifests_def)
  have k2_data: "k0sDataVolumeName k2 = k0sDataVolumeName kmc0"
    by (simp only: monitored_cluster(2) [OF mon] annotated_cluster)
  have claims: "claim_names sp3 = [k0sDataVolumeName kmc0]" and vols: "volume_names sp3 = volume_names sp1"
    using claim_persistence(1,2) [OF pers same(5)] by (simp_all add: k2_data sp1 monitoring_shape base_shape)
  have mounted: "mounted_names sp1 \<subseteq> mounted_names sp3"
    using claim_persistence(3) [OF pers same(5)] by simp
  have "GetVolumeName kmc0 \<in> mounted_names sp3"
    using mounted monitoring_shape(3) [of ?m "control_plane_base ?k1"] by (auto simp: sp1 objects)
  then have "GetVolumeName kmc0 \<in> mounted_names (with_telemetry kmc (telemetryConfigMapName kmc0) sp)"
    by (simp add: with_telemetry_def Let_def sp set_mp [OF add_mounts_mono])
  then show ?thesis
    using claim(2) names by (simp add: with_telemetry_def Let_def sp vols claims sp1 monitoring_shape base_shape objects configmap_volume_def)
qed

lemma control_plane_spec_returns:
  assumes "pers_PersistentVolumeClaim (sp_Persistence (kmc_Spec kmc0)) \<noteq> None"
  shows "\<exists>kmc sp. control_plane_spec L kmc0 = (kmc, Inr sp)"
proof -
  let ?k1 = "without_spec_hash (AnnotationsForK0smotronCluster kmc0)"
  obtain k2 sp1 where mon: "with_monitoring (?k1, control_plane_base ?k1) = (k2, sp1)"
    by fastforce
  have "pers_PersistentVolumeClaim (sp_Persistence (kmc_Spec k2)) = pers_PersistentVolumeClaim (sp_Persistence (kmc_Spec kmc0))"
    using fst_with_monitoring [of ?k1 "control_plane_base ?k1"] mon
    by (auto simp: annotated_cluster Let_def upd_persistence_def set_kmc_annotations_def)
  then have "\<exists>kmc' sp'. with_persistence k2 sp = Inr (kmc', sp')" for sp
    using assms by (auto simp: with_persistence_def Let_def)
  then obtain kmc' sp' where "with_persistence k2 (with_topology k2 (with_certificates k2 (with_kine k2 (with_nats L k2 sp1)))) = Inr (kmc', sp')"
    by blast
  then show ?thesis by (simp add: control_plane_spec_def Let_def mon)
qed

definition monitored_kmc :: Cluster where
  \<comment> \<open>a cluster with monitoring and a claim of its own\<close>
  "monitored_kmc = zero_kmc\<lparr>kmc_Meta := (kmc_Meta zero_kmc)\<lparr>om_Name := ''c''\<rparr>,
     kmc_Spec := zero_spec\<lparr>sp_Monitoring := \<lparr>mon_Enabled = True, mon_PrometheusImage = ''p'', mon_ProxyImage = ''n''\<rparr>,
       sp_Persistence := \<lparr>pers_Type = ''pvc'', pers_PersistentVolumeClaim = Some
         \<lparr>pvc_Kind = [], pvc_APIVersion = [], pvc_Meta = \<lparr>pm_Name = ''data'', pm_Namespace = [], pm_Labels = Map.empty,
            pm_Annotations = Map.empty, pm_Finalizers = None\<rparr>, pvc_Spec = JObj [], pvc_Status = JObj []\<rparr>,
         pers_AutoDeletePVCs = False, pers_HostPath = []\<rparr>\<rparr>\<rparr>"

lemma monitored_kmc_sel:
  "kmc_Name monitored_kmc = ''c''" "mon_Enabled (sp_Monitoring (kmc_Spec monitored_kmc))"
  "pers_Type (sp_Persistence (kmc_Spec monitored_kmc)) = ''pvc''" "sto_Type (sp_Storage (kmc_Spec monitored_kmc)) = []"
  "sp_CertificateRefs (kmc_Spec monitored_kmc) = None" "sp_Manifests (kmc_Spec monitored_kmc) = None"
  "sp_Mounts (kmc_Spec monitored_kmc) = None"
  "\<exists>c. pers_PersistentVolumeClaim (sp_Persistence (kmc_Spec monitored_kmc)) = Some c \<and> pm_Name (pvc_Meta c) = ''data''"
  by (simp_all add: monitored_kmc_def zero_kmc_def zero_spec_def kmc_Name_def)

lemma monitored_names:
  "GetVolumeName monitored_kmc = ''kmc-c''" "GetEntrypointConfigMapName monitored_kmc = ''kmc-entrypoint-c-config''"
  "GetMonitoringConfigMapName monitored_kmc = ''kmc-prometheus-c-config''"
  "GetMonitoringNginxConfigMapName monitored_kmc = ''kmc-prometheus-c-config-nginx''"
  "telemetryConfigMapName monitored_kmc = ''kmc-c-telemetry-config''" "k0sDataVolumeName monitored_kmc = ''data''"
proof -
  have "getObjectName monitored_kmc p = shortName (replace_first ''%s'' ''c'' p)" for p
    by (simp add: getObjectName_def monitored_kmc_sel)
  moreover have "shortName (replace_first ''%s'' ''c'' ''kmc-%s'') = ''kmc-c''"
    "shortName (replace_first ''%s'' ''c'' ''kmc-entrypoint-%s-config'') = ''kmc-entrypoint-c-config''"
    "shortName (replace_first ''%s'' ''c'' ''kmc-prometheus-%s-config'') = ''kmc-prometheus-c-config''"
    "shortName (replace_first ''%s'' ''c'' ''kmc-prometheus-%s-config-nginx'') = ''kmc-prometheus-c-config-nginx''"
    by (simp_all add: shortName_def kubeNameLengthLimit_def has_prefix_def)
  ultimately show "GetVolumeName monitored_kmc = ''kmc-c''" "GetEntrypointConfigMapName monitored_kmc = ''kmc-entrypoint-c-config''"
    "GetMonitoringConfigMapName monitored_kmc = ''kmc-prometheus-c-config''"
    "GetMonitoringNginxConfigMapName monitored_kmc = ''kmc-prometheus-c-config-nginx''"
    by (simp_all only: GetVolumeName_def GetEntrypointConfigMapName_def GetMonitoringConfigMapName_def GetMonitoringNginxConfigMapName_def)
  show "telemetryConfigMapName monitored_kmc = ''kmc-c-telemetry-config''"
    by (simp add: telemetryConfigMapName_def monitored_kmc_sel)
  show "k0sDataVolumeName monitored_kmc = ''data''"
    using monitored_kmc_sel(8) by (auto simp: k0sDataVolumeName_def)
qed

theorem monitoring_mounts_missing_volume_witness:
  "\<exists>kmc sp. control_plane_spec ref_obj_lib monitored_kmc = (kmc, Inr sp) \<and>
     ''kmc-c'' \<in> mounted_names (with_telemetry kmc ''kmc-c-telemetry-config'' sp) \<and>
     ''kmc-c'' \<notin> set (volume_names (with_telemetry kmc ''kmc-c-telemetry-config'' sp)) \<union>
       set (claim_names (with_telemetry kmc ''kmc-c-telemetry-config'' sp))"
proof -
  have "\<exists>kmc sp. control_plane_spec ref_obj_lib monitored_kmc = (kmc, Inr sp)"
    by (rule control_plane_spec_returns) (use monitored_kmc_sel(8) in auto)
  then obtain kmc sp where spec: "control_plane_spec ref_obj_lib monitored_kmc = (kmc, Inr sp)" by blast
  show ?thesis
    using monitoring_mounts_missing_volume [OF spec monitored_kmc_sel(2,3)] spec
    by (auto simp: monitored_names monitored_kmc_sel StorageTypeNATS_def)
qed

end
