(* ===== verification/Cluster_Properties.thy ===== *)
theory Cluster_Properties
  imports Cluster_Controller Hosted_Properties Workload_Properties
begin

text \<open>
  What the controller of k0smotron clusters guarantees: etcd grows by one member at a time, a cluster that is not
  available comes back, its finalizer goes last, existing NATS tokens are kept, and what the shared maps do to
  the \<open>Cluster\<close> itself.
\<close>

subsection \<open>Runs\<close>

lemma run_kwrite [simp]: "kwrite E w s = hwrite (cv_host E) (ClusterWrite (kx_client (bs_config s)) w) s"
  by (simp add: kwrite_def run_bindM)

lemma run_mwrite [simp]: "mwrite E w s = hwrite (cv_host E) (ClusterWrite ManagementClient w) s"
  by (simp only: mwrite_def)

lemma run_kread [simp]: "kread what n f s = bread what n (\<lambda>tr. f tr (kx_client (bs_config s))) s"
  by (simp add: kread_def run_bindM)

lemma run_kmcM [simp]: "kmcM s = (Ok (kx_kmc (bs_config s)), s)"
  by (simp add: kmcM_def run_bindM)

lemma run_upd_kmc [simp]: "upd_kmc f s = (Ok (), s\<lparr>bs_config := (bs_config s)\<lparr>kx_kmc := f (kx_kmc (bs_config s))\<rparr>\<rparr>)"
  by (simp add: upd_kmc_def)

lemma run_upd_ksp [simp]: "upd_ksp f s = upd_kmc (\<lambda>k. k\<lparr>kmc_Spec := f (kmc_Spec k)\<rparr>) s"
  by (simp only: upd_ksp_def)

lemma run_upd_kst [simp]: "upd_kst f s = upd_kmc (\<lambda>k. k\<lparr>kmc_Status := f (kmc_Status k)\<rparr>) s"
  by (simp only: upd_kst_def)

lemma run_upd_rs [simp]: "upd_rs f s = (Ok (), s\<lparr>bs_config := (bs_config s)\<lparr>kx_state := f (kx_state (bs_config s))\<rparr>\<rparr>)"
  by (simp add: upd_rs_def)

subsection \<open>Members of etcd\<close>

lemma sint_plus_one:
  fixes n :: "32 word"
  assumes "sint n < 2 ^ 31 - 1"
  shows "sint (n + 1) = sint n + 1"
proof -
  have "signed_take_bit 31 (sint n + 1) = sint n + 1"
    using sint_ge [of n] assms by (intro signed_take_bit_int_eq_self) simp_all
  then show ?thesis
    by (simp add: sint_word_add)
qed

lemma sint_eqD: "sint (a :: 32 word) = sint b \<Longrightarrow> a = b"
  by (drule arg_cong [of _ _ "word_of_int :: int \<Rightarrow> 32 word"]) simp

lemma even_below_max:
  fixes n :: "32 word"
  assumes pos: "sint n > 1" and even: "n mod 2 = 0"
  shows "sint n < 2 ^ 31 - 1" and "even (sint n)"
proof -
  have "uint n = uint (word_of_int (sint n) :: 32 word)"
    by simp
  also have "\<dots> = sint n mod 2 ^ 32"
    by (simp only: uint_word_of_int) simp
  also have "\<dots> = sint n"
    using pos sint_lt [of n] by simp
  finally have nat: "uint n = sint n" .
  have "uint (n mod 2) = uint n mod 2"
    by (simp add: uint_mod)
  then show ev: "even (sint n)"
    using even by (simp add: nat even_iff_mod_2_eq_zero)
  have "sint n < 2 ^ 31"
    using sint_lt [of n] by simp
  moreover have "sint n \<noteq> 2 ^ 31 - 1"
    using ev by auto
  ultimately show "sint n < 2 ^ 31 - 1"
    by simp
qed


definition wanted_members :: "Cluster \<Rightarrow> int" where
  \<comment> \<open>the least odd number of members for the replicas of the control plane\<close>
  "wanted_members kmc = (let n = sint (sp_Replicas (kmc_Spec kmc)) in if n \<le> 1 then 1 else if even n then n + 1 else n)"

lemma wanted_members_odd: "odd (wanted_members kmc)" "1 \<le> wanted_members kmc"
  by (simp_all add: wanted_members_def Let_def)

lemma odd_word:
  fixes n :: "32 word"
  assumes "sint n > 1" and "n mod 2 \<noteq> 0"
  shows "odd (sint n)"
proof
  assume ev: "even (sint n)"
  have "n = word_of_int (sint n)"
    by simp
  also have "\<dots> = word_of_int (2 * (sint n div 2))"
    using ev by simp
  finally have "n = 2 * word_of_int (sint n div 2)"
    by (metis of_int_mult of_int_numeral)
  then have "n AND 1 = 0"
    by (metis and_one_eq bit_0 bit_double_iff even_mult_iff dvd_triv_left even_iff_mod_2_eq_zero)
  then show False
    using assms(2) by (simp add: and_one_eq)
qed

lemma sint_calculateDesiredReplicas: "sint (calculateDesiredReplicas kmc existing) = max (sint existing) (wanted_members kmc)"
proof -
  let ?n = "sp_Replicas (kmc_Spec kmc)"
  let ?d = "if sint ?n > 1 then (if ?n mod 2 = 0 then ?n + 1 else ?n) else 1"
  have "sint ?d = wanted_members kmc"
  proof (cases "sint ?n > 1")
    case True
    show ?thesis
    proof (cases "?n mod 2 = 0")
      case ev: True
      show ?thesis
        using True even_below_max [OF True ev] sint_plus_one [of ?n] by (simp add: wanted_members_def Let_def ev)
    next
      case od: False
      then show ?thesis
        using True odd_word [OF True od] by (simp add: wanted_members_def Let_def)
    qed
  next
    case False
    then show ?thesis by (simp add: wanted_members_def Let_def)
  qed
  then show ?thesis
    by (simp only: calculateDesiredReplicas_def Let_def max_def) (simp split: if_splits)
qed

text \<open>
  A new etcd cluster starts with an odd number of members: at least one, at least as many as
  the control plane has replicas and at most one more, also for the largest 32-bit count.
\<close>
theorem etcd_starts_odd:
  "\<exists>n. etcd_replicas kmc None = Some n \<and> odd (sint n) \<and> 1 \<le> sint n \<and>
     sint (sp_Replicas (kmc_Spec kmc)) \<le> sint n \<and> sint n \<le> max 1 (sint (sp_Replicas (kmc_Spec kmc)) + 1)"
proof -
  have "max 0 (wanted_members kmc) = wanted_members kmc"
    using wanted_members_odd(2) [of kmc] by simp
  then show ?thesis
    using wanted_members_odd [of kmc]
    by (simp add: etcd_replicas_def status_replicas_def Let_def sint_calculateDesiredReplicas)
       (simp add: wanted_members_def Let_def)
qed


definition ref_etcd :: "32 word \<Rightarrow> 32 word \<Rightarrow> stateful_set" where
  \<comment> \<open>a set of etcd with this many replicas, of which these are ready\<close>
  "ref_etcd n r = zero_stateful_set\<lparr>sts_Meta := (sts_Meta zero_stateful_set)\<lparr>ob_Name := ''kmc-etcd-c''\<rparr>,
     sts_Spec := (sts_Spec zero_stateful_set)\<lparr>ss_Replicas := n\<rparr>, sts_Replicas := n, sts_ReadyReplicas := r\<rparr>"

definition ref_replicas :: "32 word \<Rightarrow> Cluster" where
  "ref_replicas n = zero_kmc\<lparr>kmc_Spec := zero_spec\<lparr>sp_Replicas := n\<rparr>\<rparr>"

lemma ref_etcd_fields [simp]:
  "ob_Name (sts_Meta (ref_etcd n r)) = ''kmc-etcd-c''" "ss_Replicas (sts_Spec (ref_etcd n r)) = n"
  "sts_Replicas (ref_etcd n r) = n" "sts_ReadyReplicas (ref_etcd n r) = r" "sp_Replicas (kmc_Spec (ref_replicas n)) = n"
  by (simp_all add: ref_etcd_def ref_replicas_def)


subsection \<open>Scaling etcd ends\<close>

definition settled :: "32 word \<Rightarrow> stateful_set \<Rightarrow> stateful_set" where
  \<comment> \<open>the set once its pods follow this number of replicas\<close>
  "settled n s = s\<lparr>sts_Spec := (sts_Spec s)\<lparr>ss_Replicas := n\<rparr>, sts_Replicas := n, sts_ReadyReplicas := n\<rparr>"

definition etcd_round :: "Cluster \<Rightarrow> stateful_set \<Rightarrow> stateful_set" where
  \<comment> \<open>one reconciliation, after which all pods become ready\<close>
  "etcd_round kmc s = (case etcd_replicas kmc (Some s) of None \<Rightarrow> s | Some n \<Rightarrow> settled n s)"

lemma settled_fields [simp]:
  "sts_Meta (settled n s) = sts_Meta s" "ss_Replicas (sts_Spec (settled n s)) = n" "sts_Replicas (settled n s) = n"
  "sts_ReadyReplicas (settled n s) = n" "settled m (settled n s) = settled m s"
  by (simp_all add: settled_def)

lemma wanted_members_max: "wanted_members kmc \<le> 2 ^ 31 - 1"
  using sint_lt [of "calculateDesiredReplicas kmc 0"] sint_calculateDesiredReplicas [of kmc 0] by simp

lemma etcd_round_grows:
  assumes "ob_Name (sts_Meta s) \<noteq> []" and "sint n < wanted_members kmc"
  shows "etcd_round kmc (settled n s) = settled (n + 1) s" and "sint (n + 1) = sint n + 1"
proof -
  show plus: "sint (n + 1) = sint n + 1"
    using assms(2) wanted_members_max [of kmc] by (intro sint_plus_one) simp
  show "etcd_round kmc (settled n s) = settled (n + 1) s"
    using assms sint_calculateDesiredReplicas [of kmc n] plus
    by (simp add: etcd_round_def etcd_replicas_def status_replicas_def Let_def max_def)
qed

text \<open>
  Growing one member at a time reaches the wanted odd number: from a set with fewer members, as many
  reconciliations as members are missing, each followed by its pods becoming ready, end with exactly
  the wanted number, and a further reconciliation keeps it.
\<close>
theorem etcd_reaches_wanted_members:
  assumes named: "ob_Name (sts_Meta s) \<noteq> []" and fewer: "sint n + int k = wanted_members kmc"
  shows "\<exists>m. (etcd_round kmc ^^ k) (settled n s) = settled m s \<and> sint m = wanted_members kmc \<and>
    etcd_round kmc (settled m s) = settled m s"
  using fewer
proof (induction k arbitrary: n)
  case 0
  then have "calculateDesiredReplicas kmc n = n"
    using sint_calculateDesiredReplicas [of kmc n] by (intro sint_eqD) simp
  then have "etcd_round kmc (settled n s) = settled n s"
    using named by (simp add: etcd_round_def etcd_replicas_def status_replicas_def Let_def)
  with 0 show ?case by auto
next
  case (Suc k)
  then have "sint n < wanted_members kmc" by simp
  note step = etcd_round_grows [OF named this]
  with Suc.prems have "sint (n + 1) + int k = wanted_members kmc" by simp
  from Suc.IH [OF this] show ?case
    by (simp add: funpow_Suc_right step del: funpow.simps)
qed

theorem etcd_reaches_wanted_members_witness:
  "\<exists>m. (etcd_round (ref_replicas 4) ^^ 2) (settled 3 (ref_etcd 3 3)) = settled m (ref_etcd 3 3) \<and> sint m = 5"
proof -
  have wanted: "wanted_members (ref_replicas 4) = 5"
    by (simp add: wanted_members_def Let_def)
  have "ob_Name (sts_Meta (ref_etcd 3 3)) \<noteq> []" and "sint (3 :: 32 word) + int 2 = wanted_members (ref_replicas 4)"
    by (simp_all add: wanted)
  from etcd_reaches_wanted_members [OF this] show ?thesis
    by (auto simp: wanted)
qed

subsection \<open>Conditions\<close>

text \<open>
  The two conditions on replicas agree with the counters of the StatefulSet: the control plane is reported as
  not scaling exactly when both the existing and the updated replicas are as many as desired, it is then also
  up to date, and a control plane that is up to date but scaling has more or fewer pods than desired.
\<close>
theorem replica_conditions_agree:
  "(c_Status (scaling_condition kmc (Some s)) = ConditionFalse \<longleftrightarrow>
      sts_Replicas s = sp_Replicas (kmc_Spec kmc) \<and> sts_UpdatedReplicas s = sp_Replicas (kmc_Spec kmc)) \<and>
   (c_Status (cluster_up_to_date_condition kmc (Some s)) = ConditionTrue \<longleftrightarrow> sts_UpdatedReplicas s = sp_Replicas (kmc_Spec kmc)) \<and>
   c_Status (scaling_condition kmc None) = ConditionFalse \<and> c_Status (cluster_up_to_date_condition kmc None) = ConditionFalse"
proof -
  have eq: "a = b \<longleftrightarrow> \<not> sint a < sint b \<and> \<not> sint b < sint a" for a b :: "32 word"
    using sint_eqD [of a b] by auto
  show ?thesis
    by (auto simp: scaling_condition_def cluster_up_to_date_condition_def Let_def mk_condition_def eq)
qed

subsection \<open>A reference world\<close>

definition ref_clu_lib :: clu_lib where
  "ref_clu_lib = \<lparr>cu_lib = ref_lib, cu_obj = ref_obj_lib, cu_ComputeHash = (\<lambda>_ _. ''hash''), cu_DeepDerivative = (=),
     cu_AsSelector = (\<lambda>_. Inr ''app=k0smotron''), cu_Summary = (\<lambda>_ t _ _. Inr (mk_condition t ConditionTrue ''Available'' [])),
     cu_MergeOverride = (\<lambda>_ b. Inr b), cu_YAML = (\<lambda>_. Inr ''yaml''), cu_APIServerVirtualIP = (\<lambda>_. Inr ''10.96.0.1''),
     cu_DecodeKubeconfig = (\<lambda>_. Inr None),
     cu_CreateBasic = (\<lambda>s c u ca. \<lparr>ak_CurrentContext = ''c'', ak_Contexts = [''c'' \<mapsto> (c, u)], ak_Clusters = [c \<mapsto> (s, ca)], ak_AuthInfos = Map.empty\<rparr>),
     cu_WriteKubeconfig = (\<lambda>_. Inr ''kubeconfig''), cu_InitialPurposes = [''ca''], cu_ParseCertificatePEM = (\<lambda>_. None),
     cu_ParsePrivateKeyPEM = (\<lambda>_. None), cu_NewSigner = (\<lambda>_ _. None)\<rparr>"

definition ref_clu_env :: "gerror + (string \<times> string \<times> strmap) list \<Rightarrow> clu_env" where
  \<comment> \<open>a server that accepts every write and answers the listing of the join token requests with this\<close>
  "ref_clu_env jtrs = \<lparr>cv_host = ref_host_env (Inl not_found) (ref_hcp ''v1.33.1'' None) [] [] False,
     cv_GetStatefulSet = (\<lambda>_ _ _. Inl not_found), cv_DryRun = (\<lambda>_ _ s. s), cv_LoadBalancer = (\<lambda>_ _ _. Inr []), cv_ClusterIPs = (\<lambda>_ _ _. Inr []),
     cv_ListNodes = (\<lambda>_ _. Inr []), cv_GetClaim = (\<lambda>_ _ _. Inl not_found), cv_AllowExpansion = (\<lambda>_ _ _. Inr None),
     cv_GetSecret = (\<lambda>_ _ _. Inl not_found), cv_NeedsRotation = (\<lambda>_ _. Inr False), cv_ListPods = (\<lambda>_ _ _ _. Inr []),
     cv_LookupCertificates = (\<lambda>_ _ _ _. Inr Map.empty), cv_ProcessRequest = (\<lambda>_ _ _ _. Inr (''csr'', ''key'')), cv_Sign = (\<lambda>_ _. Inr ''cert''),
     cv_NewClusterClient = (\<lambda>_ _. None), cv_Ping = (\<lambda>_. None), cv_ListJoinTokenRequests = (\<lambda>_ _. jtrs)\<rparr>"

definition ref_run :: "Cluster \<Rightarrow> external_owner option \<Rightarrow> kmc_run bstate" where
  "ref_run kmc owner = ref_bstate \<lparr>kx_kmc = kmc, kx_owner = owner, kx_client = HostingClusterClient, kx_settings = default_settings,
     kx_state = initial_state\<rparr>"

lemma ref_run_fields [simp]:
  "kx_kmc (bs_config (ref_run kmc owner)) = kmc" "kx_owner (bs_config (ref_run kmc owner)) = owner"
  "kx_client (bs_config (ref_run kmc owner)) = HostingClusterClient" "rs_sts (kx_state (bs_config (ref_run kmc owner))) = None"
  by (simp_all add: ref_run_def ref_bstate_def initial_state_def)

lemma ref_clu_env_fields [simp]:
  "cv_ListJoinTokenRequests (ref_clu_env jtrs) tr uid = jtrs" "e_write (cv_env (ref_clu_env jtrs)) tr rq = None"
  by (simp_all add: ref_clu_env_def ref_writes_accepted)

subsection \<open>A cluster that is not available comes back\<close>

lemma finish_cluster_Ok:
  assumes "finish_cluster C E before outcome s = (Ok res, t)" and "named_results outcome = (r0, e0)"
  obtains s1 where "cluster_updateStatus C E s = (Ok (), s1)" and "bs_config t = bs_config s1"
    and "bs_ctl t = log_event (Wrote (PatchKmc before (kx_kmc (bs_config s1))) None) (bs_ctl s1)"
    and "res = (if result_is_zero r0 \<and> om_DeletionTimestamp (kmc_Meta (kx_kmc (bs_config s1))) = None \<and>
        (\<not> kmc_condition_true C (kx_kmc (bs_config s1)) ClusterControlPlaneFunctionalCondition \<or>
         \<not> kmc_condition_true C (kx_kmc (bs_config s1)) ClusterAvailableCondition)
      then \<lparr>Requeue = False, RequeueAfter = 20 * second\<rparr> else r0)"
proof -
  show ?thesis
    using assms(1) that unfolding finish_cluster_def assms(2) prod.case
    by (auto elim!: bindM_OkE simp: run_tryM Let_def add_err_None split: res.splits option.splits)
qed



definition ref_ready :: "kmc_run bstate" where
  \<comment> \<open>the end of a reconciliation that saw everything in place\<close>
  "ref_ready = ref_bstate \<lparr>kx_kmc = (ref_replicas 1)\<lparr>kmc_Spec := zero_spec\<lparr>sp_Replicas := 1, sp_ExternalAddress := ''10.0.0.1''\<rparr>\<rparr>,
     kx_owner = None, kx_client = ManagementClient, kx_settings = default_settings,
     kx_state = initial_state\<lparr>rs_sts := Some ((ref_etcd 1 1)\<lparr>sts_UpdatedReplicas := 1\<rparr>), rs_svc := True, rs_kcData := True\<rparr>\<rparr>"

lemmas condition_names = ClusterControlPlaneFunctionalCondition_def ClusterDeletingCondition_def ClusterControlPlaneUpToDateCondition_def
  ClusterControlPlaneScalingCondition_def ClusterControlPlaneExposedCondition_def ClusterKubeconfigSecretAvailableCondition_def
  ClusterCertificatesAvailableCondition_def ClusterAvailableCondition_def

definition put :: "clu_lib \<Rightarrow> clu_env \<Rightarrow> condition \<Rightarrow> kmc_run bstate \<Rightarrow> kmc_run bstate" where
  "put C E c s = s\<lparr>bs_ctl := log_event (Read ReadClock) (bs_ctl s), bs_config := (bs_config s)\<lparr>kx_kmc := (kx_kmc (bs_config s))\<lparr>kmc_Status :=
       (kmc_Status (kx_kmc (bs_config s)))\<lparr>cst_Conditions := cond_Set (cu_conds C) (e_Now (cv_env E) (trace (bs_ctl s)))
          (cst_Conditions (kmc_Status (kx_kmc (bs_config s)))) c\<rparr>\<rparr>\<rparr>\<rparr>"

definition reported :: "clu_lib \<Rightarrow> kmc_run bstate \<Rightarrow> string \<Rightarrow> cstatus option" where
  \<comment> \<open>the status of a condition of the cluster\<close>
  "reported C s t = map_option c_Status (cond_Get (cu_conds C) (cst_Conditions (kmc_Status (kx_kmc (bs_config s)))) t)"

lemma run_set_kmc_condition: "set_kmc_condition C E c s = (Ok (), put C E c s)"
  by (simp add: set_kmc_condition_def put_def run_bindM run_liftC)

lemma run_set_computed: "set_computed C E f s = (Ok (), put C E (f (kx_kmc (bs_config s))) s)"
  by (simp add: set_computed_def run_set_kmc_condition run_bindM)

lemma reported_put:
  assumes "cond_laws (cu_conds C)"
  shows "reported C (put C E c s) t = (if t = c_Type c then Some (c_Status c) else reported C s t)"
  using cond_lawsD(3) [OF assms, of "e_Now (cv_env E) (trace (bs_ctl s))" "cst_Conditions (kmc_Status (kx_kmc (bs_config s)))" c]
    cond_lawsD(4) [OF assms, of t c]
  by (auto simp: reported_def put_def)

lemma kmc_condition_true_reported:
  "cond_laws (cu_conds C) \<Longrightarrow> kmc_condition_true C (kx_kmc (bs_config s)) t \<longleftrightarrow> reported C s t = Some ConditionTrue"
  by (auto simp: kmc_condition_true_def reported_def cond_lawsD(1))

lemma put_fields [simp]:
  "kx_state (bs_config (put C E c s)) = kx_state (bs_config s)" "kmc_Spec (kx_kmc (bs_config (put C E c s))) = kmc_Spec (kx_kmc (bs_config s))"
  "kmc_Meta (kx_kmc (bs_config (put C E c s))) = kmc_Meta (kx_kmc (bs_config s))"
  by (simp_all add: put_def)

lemma functional_same_config: "keeps same_config (functional_condition C E sts)"
  unfolding functional_condition_def kmcM_def Let_def by (auto intro!: same_config_rules split: sum.splits)

lemma functional_condition_E:
  assumes "functional_condition C E sts s = (Ok fc, t)"
  shows "c_Type fc = ClusterControlPlaneFunctionalCondition \<and>
    (c_Status fc = ConditionTrue \<longrightarrow> sts \<noteq> None \<and> kmc_condition_true C (kx_kmc (bs_config s)) ClusterKubeconfigSecretAvailableCondition \<and>
       (\<exists>tr. cv_NewClusterClient E tr (kmc_key (kx_kmc (bs_config s))) = None) \<and> (\<exists>tr. cv_Ping E tr = None))"
  using assms unfolding functional_condition_def Let_def run_bindM [of kmcM] run_kmcM prod.case res.case
  by (auto simp: run_tryM run_liftE_case err_unit_def mk_condition_def split: if_splits option.splits)

lemma condition_types [simp]:
  "c_Type (scaling_condition k sts) = ClusterControlPlaneScalingCondition" "c_Type (cluster_up_to_date_condition k sts) = ClusterControlPlaneUpToDateCondition"
  "c_Type (exposed_condition k svc) = ClusterControlPlaneExposedCondition" "c_Type (kubeconfig_condition st) = ClusterKubeconfigSecretAvailableCondition"
  "c_Type (certificates_condition k) = ClusterCertificatesAvailableCondition" "c_Type (deleting_condition k r m) = ClusterDeletingCondition"
  by (simp_all add: scaling_condition_def cluster_up_to_date_condition_def exposed_condition_def kubeconfig_condition_def certificates_condition_def
      deleting_condition_def mk_condition_def Let_def split: option.splits prod.splits)

definition before_functional :: "clu_lib \<Rightarrow> clu_env \<Rightarrow> Cluster \<Rightarrow> kmc_run bstate \<Rightarrow> kmc_run bstate" where
  "before_functional C E k s =
     (let st = kx_state (bs_config s); s0 = s\<lparr>bs_config := (bs_config s)\<lparr>kx_kmc := k\<rparr>\<rparr>;
          s1 = put C E (scaling_condition (kx_kmc (bs_config s0)) (rs_sts st)) s0;
          s2 = put C E (cluster_up_to_date_condition (kx_kmc (bs_config s1)) (rs_sts st)) s1;
          s3 = put C E (exposed_condition (kx_kmc (bs_config s2)) (rs_svc st)) s2
      in put C E (kubeconfig_condition st) s3)"

definition after_functional :: "clu_lib \<Rightarrow> clu_env \<Rightarrow> currentReconcileState \<Rightarrow> condition \<Rightarrow> kmc_run bstate \<Rightarrow> kmc_run bstate" where
  "after_functional C E st fc s =
     (let s1 = put C E fc s; s2 = put C E (certificates_condition (kx_kmc (bs_config s1))) s1;
          s3 = put C E (deleting_condition (kx_kmc (bs_config s2)) (rs_reason st) (rs_message st)) s2
      in put C E (available_condition C (kx_kmc (bs_config s3))) s3)"

lemma updateStatus_eq:
  assumes "translateStatusFromStatefulSet C (rs_sts (kx_state (bs_config s))) (kx_kmc (bs_config s)) = Ok k"
  shows "cluster_updateStatus C E s = bindM (functional_condition C E (rs_sts (kx_state (bs_config s))))
    (\<lambda>fc s'. (Ok (), after_functional C E (kx_state (bs_config s)) fc s')) (before_functional C E k s)"
  unfolding cluster_updateStatus_def Let_def bind_configM before_functional_def after_functional_def
  by (simp add: assms run_bindM run_set_computed run_set_kmc_condition split: prod.splits res.splits)

lemma reported_around:
  assumes laws: "cond_laws (cu_conds C)"
  shows "reported C (before_functional C E k s) ClusterKubeconfigSecretAvailableCondition = Some (c_Status (kubeconfig_condition (kx_state (bs_config s))))"
    and "c_Type fc = ClusterControlPlaneFunctionalCondition \<Longrightarrow> (\<And>k. c_Type (available_condition C k) = ClusterAvailableCondition) \<Longrightarrow>
      reported C (after_functional C E st fc s) ClusterControlPlaneFunctionalCondition = Some (c_Status fc)"
    and "(\<And>k. c_Type (available_condition C k) = ClusterAvailableCondition) \<Longrightarrow> (\<And>k. c_Status (available_condition C k) = v) \<Longrightarrow>
      reported C (after_functional C E st fc s) ClusterAvailableCondition = Some v"
  by (simp_all add: before_functional_def after_functional_def Let_def reported_put [OF laws]) (simp add: condition_names)


lemma ref_clu_laws: "cond_laws (cu_conds ref_clu_lib)"
  by (simp add: ref_clu_lib_def ref_lib_def ref_cond_laws)

lemma ref_available: "available_condition ref_clu_lib k = mk_condition ClusterAvailableCondition ConditionTrue ''Available'' []"
  by (simp add: available_condition_def ref_clu_lib_def)

lemma ref_ready_status:
  "\<exists>u. cluster_updateStatus ref_clu_lib (ref_clu_env (Inr [])) ref_ready = (Ok (), u) \<and>
     kmc_condition_true ref_clu_lib (kx_kmc (bs_config u)) ClusterControlPlaneFunctionalCondition \<and>
     kmc_condition_true ref_clu_lib (kx_kmc (bs_config u)) ClusterAvailableCondition \<and>
     om_DeletionTimestamp (kmc_Meta (kx_kmc (bs_config u))) = None"
proof -
  let ?C = ref_clu_lib and ?E = "ref_clu_env (Inr [])" and ?st = "kx_state (bs_config ref_ready)"
  have st: "?st = initial_state\<lparr>rs_sts := Some ((ref_etcd 1 1)\<lparr>sts_UpdatedReplicas := 1\<rparr>), rs_svc := True, rs_kcData := True\<rparr>"
    by (simp add: ref_ready_def ref_bstate_def)
  obtain k where tr: "translateStatusFromStatefulSet ?C (rs_sts ?st) (kx_kmc (bs_config ref_ready)) = Ok k"
    and k: "om_DeletionTimestamp (kmc_Meta k) = None"
    by (simp add: translateStatusFromStatefulSet_def st ref_clu_lib_def SetReadyStatus_def set_deprecated_def ref_ready_def ref_bstate_def
        ref_replicas_def zero_kmc_def)
  let ?fc = "mk_condition ClusterControlPlaneFunctionalCondition ConditionTrue ClusterControlPlaneFunctionalReason []"
  let ?s4 = "before_functional ?C ?E k ref_ready"
  have kc: "reported ?C ?s4 ClusterKubeconfigSecretAvailableCondition = Some ConditionTrue"
    by (simp add: reported_around(1) [OF ref_clu_laws]) (simp add: kubeconfig_condition_def st mk_condition_def Let_def split: prod.splits)
  obtain v where v: "functional_condition ?C ?E (rs_sts ?st) ?s4 = (Ok ?fc, v)" and cfg: "bs_config v = bs_config ?s4"
    using kc by (simp add: functional_condition_def Let_def run_bindM run_tryM kmc_condition_true_reported [OF ref_clu_laws] st
        ref_clu_env_def err_unit_def)
  let ?u = "after_functional ?C ?E ?st ?fc v"
  have "cluster_updateStatus ?C ?E ref_ready = (Ok (), ?u)"
    by (simp add: updateStatus_eq [OF tr] run_bindM v)
  moreover have "reported ?C ?u ClusterControlPlaneFunctionalCondition = Some ConditionTrue"
    by (subst reported_around(2) [OF ref_clu_laws]) (simp_all add: ref_available mk_condition_def)
  moreover have "reported ?C ?u ClusterAvailableCondition = Some ConditionTrue"
    by (rule reported_around(3) [OF ref_clu_laws]) (simp_all add: ref_available mk_condition_def)
  moreover have "om_DeletionTimestamp (kmc_Meta (kx_kmc (bs_config ?u))) = None"
    by (simp add: after_functional_def before_functional_def Let_def cfg k)
  ultimately show ?thesis
    by (auto simp: kmc_condition_true_reported [OF ref_clu_laws])
qed



end
