(* ===== verification/Cluster_Deletion.thy ===== *)
theory Cluster_Deletion
  imports Cluster_Properties
begin

text \<open>
  Deletion of k0smotron clusters: whatever else a reconciliation does, it does not touch the finalizers of the
  \<open>Cluster\<close>; they go only at the end of \<open>reconcileDelete\<close>. The frame order \<open>steady\<close> carries
  this through every operation of the controller.
\<close>

subsection \<open>What no operation touches\<close>

definition marks :: "Cluster \<Rightarrow> string list \<times> int option" where
  "marks kmc = (om_Finalizers (kmc_Meta kmc), om_DeletionTimestamp (kmc_Meta kmc))"

definition patches_kmc :: "event \<Rightarrow> bool" where
  "patches_kmc ev \<longleftrightarrow> (case ev of Wrote (PatchKmc _ _) _ \<Rightarrow> True | _ \<Rightarrow> False)"

definition steady :: "kmc_run bstate \<Rightarrow> kmc_run bstate \<Rightarrow> bool" where
  "steady s t \<longleftrightarrow> marks (kx_kmc (bs_config t)) = marks (kx_kmc (bs_config s)) \<and> b_appends (\<lambda>ev. \<not> patches_kmc ev) s t"

interpretation steady: frame_order steady
proof
  show "steady s s" for s
    by (simp add: steady_def b_emits.frame_refl)
  show "steady s t \<Longrightarrow> steady t u \<Longrightarrow> steady s u" for s t u
    unfolding steady_def using b_emits.frame_trans by fastforce
qed

lemma patches_kmc_simps [simp]: "\<not> patches_kmc (Read rd)" "patches_kmc (Wrote rq x) \<longleftrightarrow> (\<exists>a b. rq = PatchKmc a b)"
  by (simp_all add: patches_kmc_def split: write_req.splits)

lemma marks_simps [simp]:
  "marks (k\<lparr>kmc_Spec := sp\<rparr>) = marks k" "marks (k\<lparr>kmc_Status := st\<rparr>) = marks k"
  "marks (set_kmc_annotations a k) = marks k" "marks (AnnotationsForK0smotronCluster k) = marks k"
  "marks (upd_persistence f k) = marks k" "marks (SetReconciliationStatus m k) = marks k" "marks (SetReadyStatus b k) = marks k"
  "marks (without_spec_hash k) = marks k"
  by (simp_all add: marks_def set_kmc_annotations_def AnnotationsForK0smotronCluster_def upd_persistence_def
      SetReconciliationStatus_def SetReadyStatus_def set_deprecated_def without_spec_hash_def)

lemma steady_liftC:
  fixes m :: "'a ctlM"
  assumes "emits (\<lambda>ev. \<not> patches_kmc ev) m"
  shows "keeps steady (liftC m)"
proof -
  have "keeps (b_appends (\<lambda>ev. \<not> patches_kmc ev)) (liftC m :: 'a kmcM)" and "keeps same_config (liftC m :: 'a kmcM)"
    using assms by (rule b_emits_liftC) (rule same_config_liftC)
  then show ?thesis
    by (simp add: keeps_def steady_def same_config_def)
qed

lemma steady_bread: "keeps steady (bread what n f)"
  unfolding bread_def by (intro steady_liftC emits_readM) simp

lemma steady_hwrite: "(\<And>a b. rq \<noteq> PatchKmc a b) \<Longrightarrow> keeps steady (hwrite E rq)"
  unfolding hwrite_def bwrite_def by (intro steady_liftC emits_writeM) simp

lemma steady_configM: "keeps steady configM" "keeps steady kmcM"
  by (simp_all add: keeps_def steady.frame_refl)

lemma steady_kread: "keeps steady (kread what n f)"
  unfolding kread_def by (intro steady.keeps_bindM steady_configM steady_bread)

lemma steady_kwrite: "keeps steady (kwrite E w)" "keeps steady (mwrite E w)"
  unfolding kwrite_def mwrite_def by (intro steady.keeps_bindM steady_configM steady_hwrite write_req.distinct)+

lemma steady_upd: "(\<And>k. marks (f k) = marks k) \<Longrightarrow> keeps steady (upd_kmc f)"
  by (simp add: keeps_def steady_def b_appends_def emits.frame_refl)

lemma steady_upd_fields: "keeps steady (upd_ksp f)" "keeps steady (upd_kst g)" "keeps steady (upd_rs h)"
  by (simp_all add: keeps_def steady_def b_appends_def emits.frame_refl)

lemma steady_set:
  assumes "marks k = marks (kx_kmc (bs_config s))" and "keeps steady m"
  shows "steady s (snd (m (s\<lparr>bs_config := (bs_config s)\<lparr>kx_kmc := k\<rparr>\<rparr>)))"
proof (rule steady.frame_trans)
  show "steady s (s\<lparr>bs_config := (bs_config s)\<lparr>kx_kmc := k\<rparr>\<rparr>)"
    using assms(1) by (simp add: steady_def b_appends_def emits.frame_refl)
  show "steady (s\<lparr>bs_config := (bs_config s)\<lparr>kx_kmc := k\<rparr>\<rparr>) (snd (m (s\<lparr>bs_config := (bs_config s)\<lparr>kx_kmc := k\<rparr>\<rparr>)))"
    using assms(2) by (simp add: keeps_def)
qed

lemma steady_replace:
  assumes "\<And>kmc. marks (f kmc) = marks kmc" and "\<And>kmc. keeps steady (g kmc)"
  shows "keeps steady (bindM kmcM (\<lambda>kmc. bindM (upd_kmc (\<lambda>_. f kmc)) (\<lambda>_. g kmc)))"
  using steady_set [OF assms] by (simp add: keeps_def run_bindM)

lemma steady_checked:
  \<comment> \<open>a value computed from the cluster that may fail or panic, and that becomes the new cluster\<close>
  assumes "\<And>k k' x. f k = Ok (k', x) \<Longrightarrow> marks k' = marks k" and "\<And>k x. keeps steady (g k x)"
  shows "keeps steady (bindM kmcM (\<lambda>k. bindM (liftR (f k)) (\<lambda>(k', x). bindM (upd_kmc (\<lambda>_. k')) (\<lambda>_. g k' x))))"
  using steady_set [OF assms] by (auto simp: keeps_def run_bindM steady.frame_refl split: res.splits)

lemma steady_becomes:
  assumes "\<And>k k'. f k = Ok k' \<Longrightarrow> marks k' = marks k" and "\<And>k. keeps steady (g k)"
  shows "keeps steady (bindM kmcM (\<lambda>k. bindM (liftR (f k)) (\<lambda>k'. bindM (upd_kmc (\<lambda>_. k')) (\<lambda>_. g k'))))"
  using steady_set [OF assms] by (auto simp: keeps_def run_bindM steady.frame_refl split: res.splits)

lemmas steady_rules = steady.keeps_intros steady_bread steady_hwrite steady_configM steady_kread steady_kwrite steady_upd_fields
  steady_liftC [OF emits_readM] steady_liftC [OF emits_nowM] steady_liftC [OF emits_newPatchHelper]


subsection \<open>The operations are steady\<close>

lemma marks_config_map [simp]: "marks (fst (kmc_config_map k n c d)) = marks k"
  by (simp add: kmc_config_map_def Let_def)

lemma marks_generators [simp]:
  "marks (fst (generateService L k)) = marks k" "marks (fst (generateEndpointConfigMap L k)) = marks k"
  "marks (fst (generateEntrypointCM eo k)) = marks k" "marks (fst (generateMonitoringCM eo k)) = marks k"
  "marks (fst (nats_service k)) = marks k" "marks (fst (nats_token_secret k tok)) = marks k"
  "marks (fst (etcd_service k)) = marks k" "marks (fst (etcd_defrag_job k)) = marks k"
  "marks (fst (generateEtcdStatefulSet L k cs n)) = marks k"
  "marks (fst (generateIngressManifestsConfigMap ip i k)) = marks k"
  "marks (fst (generateKonnectivityIngressConfigMap J i k)) = marks k"
  by (simp_all add: generateService_def default_service_type_def generateEndpointConfigMap_def generateEntrypointCM_def generateMonitoringCM_def
      nats_service_def nats_token_secret_def etcd_service_def etcd_defrag_job_def generateEtcdStatefulSet_def headless_service_def
      generateIngressManifestsConfigMap_def generateKonnectivityIngressConfigMap_def kmc_config_map_def Let_def)

lemma marks_with_monitoring [simp]: "marks (fst (with_monitoring (k, sp))) = marks k"
  by (simp add: fst_with_monitoring Let_def)

lemma marks_with_persistence: "with_persistence k sp = Inr (k', sp') \<Longrightarrow> marks k' = marks k"
  by (auto simp: with_persistence_def Let_def split: if_splits option.splits)

lemma marks_control_plane_spec [simp]: "marks (fst (control_plane_spec L k)) = marks k"
proof -
  let ?k1 = "without_spec_hash (AnnotationsForK0smotronCluster k)"
  obtain k2 sp1 where mon: "with_monitoring (?k1, control_plane_base ?k1) = (k2, sp1)"
    by fastforce
  then have "marks k2 = marks k"
    using marks_with_monitoring [of ?k1 "control_plane_base ?k1"] by simp
  then show ?thesis
    by (auto simp: control_plane_spec_def Let_def mon dest!: marks_with_persistence split: sum.splits)
qed

lemma steady_reconcileResource: "keeps steady (reconcileResource C E obj)"
  unfolding reconcileResource_def by (intro steady_rules)

lemma steady_owned: "keeps steady (owned obj)"
  unfolding owned_def by (intro steady_rules)

lemma steady_generated:
  assumes "\<And>k. marks (fst (g k)) = marks k"
  shows "keeps steady (generatedM g)" and "keeps steady (reconcileGenerated C E g)"
proof -
  show "keeps steady (generatedM g)"
    unfolding generatedM_def by (rule steady_replace [OF assms steady_owned])
  then show "keeps steady (reconcileGenerated C E g)"
    unfolding reconcileGenerated_def by (intro steady_rules steady_reconcileResource)
qed

lemma steady_done: "keeps steady m \<Longrightarrow> keeps steady (doneM m)"
  unfolding doneM_def by (intro steady_rules)

lemmas steady_objects = steady_rules steady_reconcileResource steady_owned steady_generated steady_done

lemma steady_poll: "keeps steady (poll_load_balancer n E key d)"
proof (induction n)
  case (Suc n)
  then show ?case
    by (auto intro!: steady_rules simp: try_load_balancer_def split: list.splits)
qed (simp del: run_failM add: steady.keeps_pure)

lemma steady_services: "keeps steady (reconcileServices C E)"
  unfolding reconcileServices_def reconcileEndpointConfigMap_def Let_def
  by (auto intro!: steady_objects steady_poll)


lemma generateIngress_marks: "generateIngress i k = Ok (k', ob) \<Longrightarrow> marks k' = marks k"
  by (auto simp: generateIngress_def Let_def split: res.splits)

lemma steady_ingress: "keeps steady (reconcileIngress C E)"
proof -
  have deploy: "keeps steady (bindM kmcM (\<lambda>kmc. bindM (liftR (generateIngress i kmc)) (\<lambda>(kmc', obj).
      bindM (upd_kmc (\<lambda>_. kmc')) (\<lambda>_. bindM (owned obj) (\<lambda>obj'. doneM (reconcileResource C E obj'))))))" for i
    by (rule steady_checked) (auto intro: generateIngress_marks steady_objects)
  show ?thesis
    unfolding reconcileIngress_def Let_def
    by (auto intro!: deploy steady_objects split: option.splits bool.splits)
qed

lemma steady_config: "keeps steady (reconcileK0sConfig C E)"
proof -
  have "emits (\<lambda>ev. \<not> patches_kmc ev) (ReconcileDynamicConfig L F ob)" for L F ob
    unfolding ReconcileDynamicConfig_def Let_def by (auto intro!: emits_rules split: option.splits sum.splits)
  then have "keeps steady (reconcileDynamicConfig C E ob)" for ob
    unfolding reconcileDynamicConfig_def kine_secret_url_def set_shared_config_def Let_def
    by (auto intro!: steady_objects steady_liftC)
  then show ?thesis
    unfolding reconcileK0sConfig_def genSANs_def generateConfig_def set_shared_config_def Let_def
    by (auto intro!: steady_objects)
qed

lemma steady_certificates:
  "keeps steady (cluster_ensureCertificates C E)" "keeps steady (ensureEtcdCertificates C E)" "keeps steady (ensureHAProxyCerts C E)"
proof -
  have "keeps steady (issue_certificates E found org hosts ps)" for found org hosts ps
    by (induction ps) (auto intro!: steady_rules simp del: run_ret)
  moreover have "keeps steady (ca_signer C E p n l)" for p n l
    unfolding ca_signer_def by (auto intro!: steady_rules split: option.splits)
  ultimately show "keeps steady (cluster_ensureCertificates C E)" "keeps steady (ensureEtcdCertificates C E)" "keeps steady (ensureHAProxyCerts C E)"
    unfolding cluster_ensureCertificates_def ensureEtcdCertificates_def ensureHAProxyCerts_def Let_def by (auto intro!: steady_rules)
qed

lemma steady_volumes: "keeps steady (reconcilePVC C E)"
proof -
  have "keeps steady (resize_claims E ns sz sts vct allow is)" for ns sz sts vct allow "is"
    by (induction "is" arbitrary: allow) (auto intro!: steady_rules simp: Let_def split: sum.splits option.splits)
  then have "keeps steady (resizeStatefulSetAndPVC C E sz n sts vct)" for sz n sts vct
    unfolding resizeStatefulSetAndPVC_def Let_def by (auto intro!: steady_rules split: sum.splits list.splits)
  then show ?thesis
    unfolding reconcilePVC_def reconcileControlPlanePVC_def reconcileEtcdPVC_def reconcileNatsPVC_def existing_etcd_def Let_def
    by (auto intro!: steady_rules steady_upd split: sum.splits option.splits)
qed

lemma steady_nats: "keeps steady (reconcileNats C E)"
  unfolding reconcileNats_def reconcileNatsTokenSecret_def generateNatsToken_def Let_def
  by (auto intro!: steady_objects split: sum.splits)

lemma steady_etcd: "keeps steady (reconcileEtcd C E)"
  unfolding reconcileEtcd_def reconcileEtcdStatefulSet_def existing_etcd_def
  by (auto intro!: steady_objects split: sum.splits option.splits)


lemma steady_generateStatefulSet: "keeps steady (generateStatefulSet C E)"
  unfolding generateStatefulSet_def Let_def by (rule steady_replace) (auto intro!: steady_objects)

lemma detect_marks: "detectAndSetCurrentClusterVersion s k = Ok k' \<Longrightarrow> marks k' = marks k"
  by (auto simp: detectAndSetCurrentClusterVersion_def Let_def split: list.splits if_splits)

lemma steady_control_plane: "keeps steady (reconcileStatefulSet C E)"
proof -
  have applied: "keeps steady (apply_control_plane C E sts)" for sts
    unfolding apply_control_plane_def by (intro steady_objects)
  then have "keeps steady (follow_control_plane C E sts preview found)" for sts preview found
    unfolding follow_control_plane_def by (auto intro!: steady_rules)
  then have found: "keeps steady (bindM kmcM (\<lambda>kmc. bindM (liftR (detectAndSetCurrentClusterVersion found kmc)) (\<lambda>kmc'.
      bindM (upd_kmc (\<lambda>_. kmc')) (\<lambda>_. follow_control_plane C E sts preview found))))" for sts preview found
    by (intro steady_becomes detect_marks)
  show ?thesis
    unfolding reconcileStatefulSet_def
    by (auto intro!: steady_rules steady_generateStatefulSet applied found split: sum.splits prod.splits)
qed

lemma steady_kubeconfig: "keeps steady (reconcileKubeConfigSecret C E)"
proof -
  have noting: "keeps steady (noting m)" if "keeps steady m" for m :: "'a kmcM"
    unfolding noting_def using that by (auto intro!: steady_rules split: sum.splits)
  have "keeps steady (FindStatefulSetPod E n ns)" for n ns
    unfolding FindStatefulSetPod_def by (auto intro!: steady_rules split: option.splits)
  then have "keeps steady (new_kubeconfig C E)"
    unfolding new_kubeconfig_def by (auto intro!: steady_rules noting steady_upd)
  then show ?thesis
    unfolding reconcileKubeConfigSecret_def by (auto intro!: steady_rules split: sum.splits)
qed

lemma steady_reporting: "keeps steady m \<Longrightarrow> keeps steady (reporting what m)"
  unfolding reporting_def by (auto intro!: steady_rules steady_upd split: sum.splits)

lemma steady_body:
  "keeps steady (reconcile_objects C E)" "keeps steady (reconcile_workloads C E)"
  unfolding reconcile_objects_def reconcile_workloads_def reconcileEntrypointCM_def reconcileMonitoringCM_def
  by (auto intro!: steady_objects steady_upd steady_reporting steady_services steady_ingress steady_config steady_certificates
      steady_volumes steady_nats steady_etcd steady_control_plane steady_kubeconfig)

lemma translate_marks: "translateStatusFromStatefulSet C sts k = Ok k' \<Longrightarrow> marks k' = marks k"
  by (auto simp: translateStatusFromStatefulSet_def split: option.splits sum.splits)

lemma steady_status: "keeps steady (cluster_updateStatus C E)"
proof -
  have cond: "keeps steady (set_kmc_condition C E c)" for c
    unfolding set_kmc_condition_def by (auto intro!: steady_rules)
  then have "keeps steady (set_computed C E f)" for f
    unfolding set_computed_def by (intro steady_rules)
  moreover have "keeps steady (functional_condition C E sts)" for sts
    unfolding functional_condition_def Let_def by (auto intro!: steady_rules split: sum.splits)
  ultimately have "keeps steady (bindM kmcM (\<lambda>k. bindM (liftR (translateStatusFromStatefulSet C (rs_sts st) k)) (\<lambda>kmc.
      bindM (upd_kmc (\<lambda>_. kmc)) (\<lambda>_.
      bindM (set_computed C E (\<lambda>k. scaling_condition k (rs_sts st))) (\<lambda>_.
      bindM (set_computed C E (\<lambda>k. cluster_up_to_date_condition k (rs_sts st))) (\<lambda>_.
      bindM (set_computed C E (\<lambda>k. exposed_condition k (rs_svc st))) (\<lambda>_.
      bindM (set_computed C E (\<lambda>_. kubeconfig_condition st)) (\<lambda>_.
      bindM (functional_condition C E (rs_sts st)) (\<lambda>fc.
      bindM (set_kmc_condition C E fc) (\<lambda>_.
      bindM (set_computed C E certificates_condition) (\<lambda>_.
      bindM (set_computed C E (\<lambda>k. deleting_condition k (rs_reason st) (rs_message st))) (\<lambda>_.
      set_computed C E (available_condition C)))))))))))))" for st
    by (intro steady_becomes translate_marks steady_rules cond)
  then show ?thesis
    unfolding cluster_updateStatus_def keeps_def run_bindM [of configM] run_bindM [of kmcM] by (simp add: Let_def)
qed


subsection \<open>The finalizer goes last\<close>

definition cleared :: "clu_env \<Rightarrow> kmc_run \<Rightarrow> event list \<Rightarrow> bool" where
  \<comment> \<open>the owner object in the hosting cluster was deleted, the join token requests were listed, and those created through
      v1beta1 were deleted\<close>
  "cleared E r evs \<longleftrightarrow>
     (\<forall>eo. kx_owner r = Some eo \<longrightarrow> Wrote (ClusterWrite (kx_client r) (DeleteExternalOwner eo)) None \<in> set evs) \<and>
     (\<exists>tr jtrs. cv_ListJoinTokenRequests E tr (om_UID (kmc_Meta (kx_kmc r))) = Inr jtrs \<and>
        (\<forall>(ns, n) \<in> set (doomed_requests jtrs). Wrote (ClusterWrite ManagementClient (DeleteJoinTokenRequest ns n)) None \<in> set evs))"

lemma steady_events: "steady s t \<Longrightarrow> steady t u \<Longrightarrow> b_events s u = b_events s t @ b_events t u"
  unfolding steady_def using b_events_trans by blast

lemma steady_delete_requests: "keeps steady (delete_requests E rs)"
proof (induction rs)
  case (Cons p rs)
  then show ?case
    by (cases p) (auto intro!: steady_rules simp: note_failure_def split: sum.splits)
qed (simp del: run_ret add: steady.keeps_pure)

lemma delete_requests_done:
  assumes "delete_requests E rs s = (Ok True, t)" and "(ns, n) \<in> set rs"
  shows "Wrote (ClusterWrite ManagementClient (DeleteJoinTokenRequest ns n)) None \<in> set (b_events s t)"
  using assms
proof (induction rs arbitrary: s)
  case (Cons p rs)
  obtain ns' n' where p: "p = (ns', n')" by fastforce
  let ?rq = "ClusterWrite ManagementClient (DeleteJoinTokenRequest ns' n')"
  let ?s1 = "s\<lparr>bs_ctl := log_event (Wrote ?rq None) (bs_ctl s)\<rparr>"
  have rest: "delete_requests E rs ?s1 = (Ok True, t)"
    using Cons.prems(1) by (auto simp: p run_tryM run_bindM note_failure_def split: option.splits)
  have "steady s ?s1"
    by (simp add: steady_def b_appends_def appends_def)
  moreover have "steady ?s1 t"
    using keepsD [OF steady_delete_requests rest] .
  ultimately have "b_events s t = b_events s ?s1 @ b_events ?s1 t"
    by (rule steady_events)
  moreover have "b_events s ?s1 = [Wrote ?rq None]"
    by (simp add: b_events_def new_events_def)
  ultimately show ?case
    using Cons.IH [OF rest] Cons.prems(2) p by auto
qed simp


lemma delete_owner_run:
  assumes "delete_external_owner E s = (Ok (), t)"
  shows "bs_config t = bs_config s" and "kx_owner (bs_config s) = Some eo \<Longrightarrow>
    Wrote (ClusterWrite (kx_client (bs_config s)) (DeleteExternalOwner eo)) None \<in> set (b_events s t)"
  using assms
  by (auto simp: delete_external_owner_def run_bindM run_tryM note_failure_def b_events_def new_events_def split: option.splits)

lemma steady_delete_owner: "keeps steady (delete_external_owner E)"
  unfolding delete_external_owner_def note_failure_def by (auto intro!: steady_rules split: option.splits sum.splits)

lemma delete_join_requests_run:
  assumes run: "delete_join_requests E s = (r, t)"
  obtains "steady s t" | u tr jtrs where "steady s u" and "cv_ListJoinTokenRequests E tr (om_UID (kmc_Meta (kx_kmc (bs_config s)))) = Inr jtrs"
    and "\<And>ns n. (ns, n) \<in> set (doomed_requests jtrs) \<Longrightarrow>
      Wrote (ClusterWrite ManagementClient (DeleteJoinTokenRequest ns n)) None \<in> set (b_events s u)"
    and "bs_ctl t = bs_ctl u" and "kx_kmc (bs_config t) = remove_kmc_finalizer (kx_kmc (bs_config u))"
proof -
  let ?kmc = "kx_kmc (bs_config s)"
  let ?s1 = "s\<lparr>bs_ctl := log_event (Read (ReadOther ''jointokenrequests'' (kmc_Name ?kmc))) (bs_ctl s)\<rparr>"
  have s1: "steady s ?s1"
    by (simp add: steady_def b_appends_def appends_def)
  show ?thesis
  proof (cases "cv_ListJoinTokenRequests E (trace (bs_ctl s)) (om_UID (kmc_Meta ?kmc))")
    case (Inl e)
    then have "steady s t"
      using run s1 by (auto simp: delete_join_requests_def run_bindM run_tryM note_failure_def steady_def b_appends_def)
    then show ?thesis by (rule that(1))
  next
    case (Inr jtrs)
    obtain q u where del: "delete_requests E (doomed_requests jtrs) ?s1 = (q, u)"
      by fastforce
    have "steady ?s1 u"
      using keepsD [OF steady_delete_requests del] .
    with s1 have su: "steady s u" and ev: "b_events s u = b_events s ?s1 @ b_events ?s1 u"
      by (rule steady.frame_trans, rule steady_events)
    show ?thesis
    proof (cases "q = Ok True")
      case True
      have "bs_ctl t = bs_ctl u" and "kx_kmc (bs_config t) = remove_kmc_finalizer (kx_kmc (bs_config u))"
        using run Inr del True by (auto simp: delete_join_requests_def run_bindM run_tryM)
      moreover have "Wrote (ClusterWrite ManagementClient (DeleteJoinTokenRequest ns n)) None \<in> set (b_events s u)"
        if "(ns, n) \<in> set (doomed_requests jtrs)" for ns n
        using delete_requests_done [OF del [unfolded True] that] by (simp add: ev)
      ultimately show ?thesis
        using that(2) [OF su Inr] by blast
    next
      case False
      then have "t = u"
        using run Inr del by (auto simp: delete_join_requests_def run_bindM run_tryM split: res.splits if_splits)
      then show ?thesis using su that(1) by simp
    qed
  qed
qed


lemma finish_cluster_run:
  assumes run: "finish_cluster C E before outcome s = (r, t)"
  obtains "steady s t" | u w where "steady s u" and "bs_ctl t = log_event (Wrote (PatchKmc before (kx_kmc (bs_config u))) w) (bs_ctl u)"
proof -
  obtain q u where status: "cluster_updateStatus C E s = (q, u)"
    by fastforce
  then have su: "steady s u"
    using keepsD [OF steady_status] by blast
  obtain r0 e0 where named: "named_results outcome = (r0, e0)"
    by fastforce
  show ?thesis
  proof (cases q)
    case (Ok x)
    have "\<exists>w. bs_ctl t = log_event (Wrote (PatchKmc before (kx_kmc (bs_config u))) w) (bs_ctl u)"
      using run status Ok unfolding finish_cluster_def named prod.case
      by (auto simp: run_bindM run_tryM Let_def split: option.splits res.splits)
    then show ?thesis using su that(2) by blast
  next
    case (Err e)
    then have "t = u"
      using run status unfolding finish_cluster_def named prod.case by (simp add: run_bindM)
    then show ?thesis using su that(1) by simp
  next
    case Panic
    then have "t = u"
      using run status unfolding finish_cluster_def named prod.case by (simp add: run_bindM)
    then show ?thesis using su that(1) by simp
  qed
qed

lemma cluster_body_run:
  assumes run: "cluster_body C E s = (r, t)"
  shows "b_appends (\<lambda>ev. \<not> patches_kmc ev) s t \<and>
    (marks (kx_kmc (bs_config t)) = marks (kx_kmc (bs_config s)) \<or>
     om_DeletionTimestamp (kmc_Meta (kx_kmc (bs_config s))) \<noteq> None \<and> cleared E (bs_config s) (b_events s t))"
proof (cases "om_DeletionTimestamp (kmc_Meta (kx_kmc (bs_config s)))")
  case None
  have "keeps steady (bindM (reconcile_objects C E) (\<lambda>_. reconcile_workloads C E))"
    by (intro steady_rules steady_body)
  with None run have "steady s t"
    by (auto simp: cluster_body_def run_bindM [of kmcM] dest: keepsD)
  then show ?thesis by (simp add: steady_def)
next
  case (Some d)
  then have run: "bindM (delete_external_owner E) (\<lambda>_. delete_join_requests E) s = (r, t)"
    using run by (simp add: cluster_body_def run_bindM [of kmcM] cluster_reconcileDelete_def)
  obtain q s1 where own: "delete_external_owner E s = (q, s1)"
    by fastforce
  then have s1: "steady s s1"
    using keepsD [OF steady_delete_owner] by blast
  show ?thesis
  proof (cases "q = Ok ()")
    case False
    then have "t = s1"
      using run own by (cases q) (simp_all add: run_bindM)
    then show ?thesis using s1 by (simp add: steady_def)
  next
    case True
    note own = own [unfolded True]
    have cfg: "bs_config s1 = bs_config s"
      using delete_owner_run(1) [OF own] .
    from run own have "delete_join_requests E s1 = (r, t)"
      by (simp add: run_bindM)
    then show ?thesis
    proof (cases rule: delete_join_requests_run)
      case 1
      then show ?thesis using steady.frame_trans [OF s1] by (simp add: steady_def)
    next
      case (2 u tr jtrs)
      have su: "steady s u" and ev: "b_events s t = b_events s s1 @ b_events s1 u"
        using steady.frame_trans [OF s1 2(1)] steady_events [OF s1 2(1)] 2(4) by (simp_all add: b_events_def)
      then have "b_appends (\<lambda>ev. \<not> patches_kmc ev) s t"
        using 2(4) by (simp add: steady_def b_appends_def)
      moreover have "cleared E (bs_config s) (b_events s t)"
        using 2(2,3) delete_owner_run(2) [OF own] unfolding cleared_def ev cfg by fastforce
      ultimately show ?thesis using Some by simp
    qed
  qed
qed

text \<open>
  C8 (safety). The finalizer of a \<open>Cluster\<close> goes last: a reconciliation that writes a \<open>Cluster\<close> without the
  finalizer it had was asked to delete it, has deleted the object that owns everything in the hosting cluster
  if there is one, and has listed the join token requests of the cluster and deleted those created through
  v1beta1.
\<close>
theorem cluster_finalizer_goes_last:
  assumes run: "cluster_run C E before s = (r, t)"
    and patched: "Wrote (PatchKmc old new) x \<in> set (b_events s t)"
    and had: "clusterFinalizer \<in> set (om_Finalizers (kmc_Meta (kx_kmc (bs_config s))))"
    and lost: "clusterFinalizer \<notin> set (om_Finalizers (kmc_Meta new))"
  shows "om_DeletionTimestamp (kmc_Meta (kx_kmc (bs_config s))) \<noteq> None \<and> cleared E (bs_config s) (b_events s t)"
proof -
  obtain outcome s1 where body: "cluster_body C E s = (outcome, s1)"
    by fastforce
  note b = cluster_body_run [OF body]
  have no_patch: "\<not> patches_kmc ev" if "b_appends (\<lambda>ev. \<not> patches_kmc ev) a c" "ev \<in> set (b_events a c)" for a c :: "kmc_run bstate" and ev
    using b_events_of [OF that(1)] that(2) by (auto simp: list_all_iff)
  from run have "finish_cluster C E before outcome s1 = (r, t)"
    by (simp add: cluster_run_def run_deferNamedM body)
  then show ?thesis
  proof (cases rule: finish_cluster_run)
    case 1
    then have "b_appends (\<lambda>ev. \<not> patches_kmc ev) s t"
      using b b_emits.frame_trans by (auto simp: steady_def)
    from no_patch [OF this patched] show ?thesis by simp
  next
    case (2 u w)
    have su: "b_appends (\<lambda>ev. \<not> patches_kmc ev) s u"
      using b 2(1) b_emits.frame_trans by (auto simp: steady_def)
    have "b_events s t = b_events s u @ [Wrote (PatchKmc before (kx_kmc (bs_config u))) w]"
      using b_events_of [OF su] 2(2) by (intro b_events_eq) simp
    then have "new = kx_kmc (bs_config u)"
      using patched no_patch [OF su, of "Wrote (PatchKmc old new) x"] by auto
    with 2(1) lost have "clusterFinalizer \<notin> set (om_Finalizers (kmc_Meta (kx_kmc (bs_config s1))))"
      by (simp add: steady_def marks_def)
    with had have "marks (kx_kmc (bs_config s1)) \<noteq> marks (kx_kmc (bs_config s))"
      by (auto simp: marks_def)
    with b have "om_DeletionTimestamp (kmc_Meta (kx_kmc (bs_config s))) \<noteq> None" and c: "cleared E (bs_config s) (b_events s s1)"
      by auto
    moreover have "set (b_events s s1) \<subseteq> set (b_events s t)"
    proof -
      have "b_appends (\<lambda>_. True) s1 t"
        using 2 by (auto simp: steady_def b_appends_def appends_def list_all_iff)
      then show ?thesis using b b_events_trans by fastforce
    qed
    ultimately show ?thesis
      unfolding cleared_def by fastforce
  qed
qed


subsection \<open>Failures that are lost\<close>

definition returns :: "('s, 'a) gom \<Rightarrow> bool" where
  \<comment> \<open>it ends with a value from every state\<close>
  "returns m \<longleftrightarrow> (\<forall>s. \<exists>x t. m s = (Ok x, t))"

lemma returns_ret: "returns (ret x)"
  by (simp add: returns_def)

lemma returns_bindM: "returns m \<Longrightarrow> (\<And>x. returns (f x)) \<Longrightarrow> returns (bindM m f)"
  unfolding returns_def run_bindM by (metis (no_types, lifting) prod.case res.case(1))

lemma updateStatus_returns:
  assumes "rs_sts (kx_state (bs_config s)) = None"
  shows "\<exists>u. cluster_updateStatus C E s = (Ok (), u)"
proof -
  have set: "returns (set_kmc_condition C E c)" for c
    by (simp add: set_kmc_condition_def returns_def run_bindM run_liftC)
  have computed: "returns (set_computed C E f)" for f
    using set by (simp add: set_computed_def returns_def run_bindM)
  have functional: "returns (functional_condition C E None)"
    by (simp add: functional_condition_def returns_def run_bindM)
  have unchanged: "s\<lparr>bs_config := (bs_config s)\<lparr>kx_kmc := kx_kmc (bs_config s)\<rparr>\<rparr> = s"
    by simp
  have "\<exists>x u. cluster_updateStatus C E s = (Ok x, u)"
    unfolding cluster_updateStatus_def Let_def bind_configM assms translateStatusFromStatefulSet_def option.case
      run_bindM [of "liftR _"] run_liftR prod.case res.case run_bindM [of "upd_kmc _"] run_upd_kmc unchanged
    by (intro returns_bindM [THEN returns_def [THEN iffD1, rule_format]] returns_bindM set computed functional)
  then show ?thesis by simp
qed


lemma status_reads: "keeps (b_appends is_read) (cluster_updateStatus C E)"
  unfolding cluster_updateStatus_def set_computed_def set_kmc_condition_def functional_condition_def upd_kst_def upd_kmc_def kmcM_def Let_def
  by (auto intro!: b_emits_rules emits_nowM split: sum.splits)

lemma finish_cluster_deleting:
  assumes deleting: "om_DeletionTimestamp (kmc_Meta (kx_kmc (bs_config s))) \<noteq> None" and fresh: "rs_sts (kx_state (bs_config s)) = None"
    and accepted: "\<And>tr new. e_write (cv_env E) tr (PatchKmc before new) = None"
  obtains t u where "finish_cluster C E before (Ok zero_result) s = (Ok zero_result, t)" and "bs_config t = bs_config u"
    and "steady s u" and "b_appends is_read s u"
    and "bs_ctl t = log_event (Wrote (PatchKmc before (kx_kmc (bs_config u))) None) (bs_ctl u)"
proof -
  obtain u where status: "cluster_updateStatus C E s = (Ok (), u)"
    using updateStatus_returns [OF fresh] by blast
  have su: "steady s u"
    using keepsD [OF steady_status status] .
  then have "om_DeletionTimestamp (kmc_Meta (kx_kmc (bs_config u))) \<noteq> None"
    using deleting by (simp add: steady_def marks_def)
  then have "finish_cluster C E before (Ok zero_result) s =
      (Ok zero_result, u\<lparr>bs_ctl := log_event (Wrote (PatchKmc before (kx_kmc (bs_config u))) None) (bs_ctl u)\<rparr>)"
    by (auto simp: finish_cluster_def named_results_def run_bindM status run_tryM accepted add_err_def Let_def)
  then show ?thesis
    using su keepsD [OF status_reads status] that by simp
qed

text \<open>
  A failure to list the join token requests of a deleted cluster is lost: the reconciliation ends without an error and
  without asking to be called again, although the finalizer is still there and nothing was deleted.
\<close>
theorem deletion_failure_is_lost:
  assumes deleting: "om_DeletionTimestamp (kmc_Meta (kx_kmc (bs_config s))) \<noteq> None"
    and plain: "kx_owner (bs_config s) = None" "rs_sts (kx_state (bs_config s)) = None"
    and fails: "cv_ListJoinTokenRequests E (trace (bs_ctl s)) (om_UID (kmc_Meta (kx_kmc (bs_config s)))) = Inl err"
    and accepted: "\<And>tr new. e_write (cv_env E) tr (PatchKmc before new) = None"
  shows "\<exists>t. cluster_run C E before s = (Ok zero_result, t) \<and>
    om_Finalizers (kmc_Meta (kx_kmc (bs_config t))) = om_Finalizers (kmc_Meta (kx_kmc (bs_config s))) \<and>
    (\<forall>rq x. Wrote rq x \<in> set (b_events s t) \<longrightarrow> rq = PatchKmc before (kx_kmc (bs_config t)))"
proof -
  let ?s1 = "s\<lparr>bs_ctl := log_event (Read (ReadOther ''jointokenrequests'' (kmc_Name (kx_kmc (bs_config s))))) (bs_ctl s),
    bs_config := (bs_config s)\<lparr>kx_state := (kx_state (bs_config s))\<lparr>rs_reason := InternalErrorReason,
      rs_message := ''Error retrieving out-of-namespace JoinTokenRequests: '' @ error_text err\<rparr>\<rparr>\<rparr>"
  have body: "cluster_body C E s = (Ok zero_result, ?s1)"
    using deleting plain fails
    by (simp add: cluster_body_def cluster_reconcileDelete_def delete_external_owner_def delete_join_requests_def run_bindM run_tryM
        note_failure_def)
  obtain t u where fin: "finish_cluster C E before (Ok zero_result) ?s1 = (Ok zero_result, t)" and tu: "bs_config t = bs_config u"
    and su: "steady ?s1 u" and reads: "b_appends is_read ?s1 u"
    and ctl: "bs_ctl t = log_event (Wrote (PatchKmc before (kx_kmc (bs_config u))) None) (bs_ctl u)"
    using finish_cluster_deleting [of ?s1 E before C] deleting plain accepted by auto
  have "b_appends is_read s ?s1"
    by (simp add: b_appends_def appends_def)
  then have su_reads: "b_appends is_read s u"
    using reads by (rule b_emits.frame_trans)
  then have "b_events s t = b_events s u @ [Wrote (PatchKmc before (kx_kmc (bs_config u))) None]"
    using b_events_of [OF su_reads] by (intro b_events_eq) (simp add: ctl)
  moreover have "Wrote rq x \<notin> set (b_events s u)" for rq x
    using b_events_of [OF su_reads] by (auto simp: list_all_iff)
  ultimately have "\<forall>rq x. Wrote rq x \<in> set (b_events s t) \<longrightarrow> rq = PatchKmc before (kx_kmc (bs_config t))"
    by (simp add: tu)
  moreover have "om_Finalizers (kmc_Meta (kx_kmc (bs_config t))) = om_Finalizers (kmc_Meta (kx_kmc (bs_config s)))"
    using su by (simp add: tu steady_def marks_def)
  moreover have "cluster_run C E before s = (Ok zero_result, t)"
    using fin by (simp only: cluster_run_def run_deferNamedM body prod.case)
  ultimately show ?thesis by blast
qed


subsection \<open>A reference world\<close>

definition ref_deleted :: Cluster where
  "ref_deleted = zero_kmc\<lparr>kmc_Meta := (ref_meta ''c'')\<lparr>om_Finalizers := [clusterFinalizer], om_DeletionTimestamp := Some 1\<rparr>\<rparr>"

lemma ref_deleted_fields [simp]:
  "om_DeletionTimestamp (kmc_Meta ref_deleted) = Some 1" "om_Finalizers (kmc_Meta ref_deleted) = [clusterFinalizer]"
  by (simp_all add: ref_deleted_def)

theorem deletion_failure_is_lost_witness:
  "\<exists>t. cluster_run ref_clu_lib (ref_clu_env (Inl (Errorf ''timeout''))) ref_deleted (ref_run ref_deleted None) = (Ok zero_result, t) \<and>
     om_Finalizers (kmc_Meta (kx_kmc (bs_config t))) = [clusterFinalizer]"
proof -
  have "om_DeletionTimestamp (kmc_Meta (kx_kmc (bs_config (ref_run ref_deleted None)))) \<noteq> None"
    and "kx_owner (bs_config (ref_run ref_deleted None)) = None" "rs_sts (kx_state (bs_config (ref_run ref_deleted None))) = None"
    and "cv_ListJoinTokenRequests (ref_clu_env (Inl (Errorf ''timeout''))) (trace (bs_ctl (ref_run ref_deleted None)))
      (om_UID (kmc_Meta (kx_kmc (bs_config (ref_run ref_deleted None))))) = Inl (Errorf ''timeout'')"
    and "e_write (cv_env (ref_clu_env (Inl (Errorf ''timeout'')))) tr (PatchKmc ref_deleted new) = None" for tr new
    by simp_all
  from deletion_failure_is_lost [OF this, of ref_clu_lib] show ?thesis
    by auto
qed

definition ref_owner :: external_owner where
  "ref_owner = \<lparr>eo_Name = ''c-root-owner'', eo_UID = ''uid''\<rparr>"


definition ref_requests :: "(string \<times> string \<times> strmap) list" where
  "ref_requests = [(''ns'', ''old'', [V1Beta1ClusterRefNamespaceAnnotation \<mapsto> ''ns'']), (''ns'', ''new'', Map.empty)]"

lemma ref_doomed: "doomed_requests ref_requests = [(''ns'', ''old'')]"
  by (simp add: doomed_requests_def ref_requests_def)

lemma ref_delete_body:
  "\<exists>s1. cluster_body C (ref_clu_env (Inr ref_requests)) (ref_run ref_deleted (Some ref_owner)) = (Ok zero_result, s1) \<and>
     kx_kmc (bs_config s1) = remove_kmc_finalizer ref_deleted \<and> rs_sts (kx_state (bs_config s1)) = None"
  by (simp add: cluster_body_def cluster_reconcileDelete_def delete_external_owner_def delete_join_requests_def run_bindM run_tryM
      ref_doomed)

theorem cluster_finalizer_goes_last_witness:
  "\<exists>t new x. cluster_run ref_clu_lib (ref_clu_env (Inr ref_requests)) ref_deleted (ref_run ref_deleted (Some ref_owner)) = (Ok zero_result, t) \<and>
     Wrote (PatchKmc ref_deleted new) x \<in> set (b_events (ref_run ref_deleted (Some ref_owner)) t) \<and> om_Finalizers (kmc_Meta new) = [] \<and>
     cleared (ref_clu_env (Inr ref_requests)) (bs_config (ref_run ref_deleted (Some ref_owner))) (b_events (ref_run ref_deleted (Some ref_owner)) t)"
proof -
  let ?E = "ref_clu_env (Inr ref_requests)" and ?s = "ref_run ref_deleted (Some ref_owner)"
  obtain s1 where body: "cluster_body ref_clu_lib ?E ?s = (Ok zero_result, s1)" and kmc: "kx_kmc (bs_config s1) = remove_kmc_finalizer ref_deleted"
    and fresh: "rs_sts (kx_state (bs_config s1)) = None"
    using ref_delete_body by blast
  have del: "om_DeletionTimestamp (kmc_Meta (kx_kmc (bs_config s1))) \<noteq> None"
    by (simp add: kmc remove_kmc_finalizer_def)
  have "e_write (cv_env ?E) tr (PatchKmc ref_deleted new) = None" for tr new
    by simp
  from finish_cluster_deleting [OF del fresh this, of ref_clu_lib] obtain t u
    where fin: "finish_cluster ref_clu_lib ?E ref_deleted (Ok zero_result) s1 = (Ok zero_result, t)" and su: "steady s1 u"
      and ctl: "bs_ctl t = log_event (Wrote (PatchKmc ref_deleted (kx_kmc (bs_config u))) None) (bs_ctl u)"
    by metis
  have run: "cluster_run ref_clu_lib ?E ref_deleted ?s = (Ok zero_result, t)"
    using fin by (simp only: cluster_run_def run_deferNamedM body prod.case)
  have quiet: "b_appends (\<lambda>ev. \<not> patches_kmc ev) ?s u"
    using cluster_body_run [OF body] su b_emits.frame_trans by (auto simp: steady_def)
  have patched: "Wrote (PatchKmc ref_deleted (kx_kmc (bs_config u))) None \<in> set (b_events ?s t)"
    using b_events_of [OF quiet] by (subst b_events_eq [of t ?s "b_events ?s u @ [Wrote (PatchKmc ref_deleted (kx_kmc (bs_config u))) None]"])
      (simp_all add: ctl)
  have lost: "om_Finalizers (kmc_Meta (kx_kmc (bs_config u))) = []"
    using su by (simp add: steady_def marks_def kmc remove_kmc_finalizer_def)
  show ?thesis
    using cluster_finalizer_goes_last [OF run patched] run patched lost by auto
qed

end
