(* ===== verification/Cluster_Sharing.thy ===== *)
theory Cluster_Sharing
  imports Cluster_Properties
begin

text \<open>
  What the controller of k0smotron clusters does to the \<open>Cluster\<close> it reconciles and to secrets it shares: the token of NATS is
  never replaced, the k0s configuration that goes to the workload cluster is the map of the \<open>Cluster\<close> itself, and
  the annotations of the StatefulSet are those of the \<open>Cluster\<close>.
\<close>

subsection \<open>The token of NATS\<close>

text \<open>
  The token that the members of a NATS cluster share is never replaced: the secret is written only after the
  server has said that it does not exist. A secret that exists is left alone, and a read that fails for another
  reason ends the reconciliation before anything is written.
\<close>
theorem nats_token_is_kept:
  assumes run: "reconcileNatsTokenSecret C E s = (r, t)"
    and there: "\<And>e. cv_GetSecret E (trace (bs_ctl s)) (kx_client (bs_config s))
      (om_Namespace (kmc_Meta (kx_kmc (bs_config s))), GetNatsTokenSecretName (kx_kmc (bs_config s))) = Inl e \<Longrightarrow> \<not> is_not_found e"
  shows "b_events s t = [Read (ReadOther ''secret'' (GetNatsTokenSecretName (kx_kmc (bs_config s))))] \<and> bs_config t = bs_config s \<and>
    (r = Ok () \<longleftrightarrow> (\<exists>sec. cv_GetSecret E (trace (bs_ctl s)) (kx_client (bs_config s))
      (om_Namespace (kmc_Meta (kx_kmc (bs_config s))), GetNatsTokenSecretName (kx_kmc (bs_config s))) = Inr sec))"
proof -
  let ?key = "(om_Namespace (kmc_Meta (kx_kmc (bs_config s))), GetNatsTokenSecretName (kx_kmc (bs_config s)))"
  show ?thesis
  proof (cases "cv_GetSecret E (trace (bs_ctl s)) (kx_client (bs_config s)) ?key")
    case (Inl e)
    then show ?thesis
      using run there [OF Inl]
      by (auto simp: reconcileNatsTokenSecret_def Let_def run_bindM run_tryM b_events_def new_events_def)
  next
    case (Inr sec)
    then show ?thesis
      using run by (auto simp: reconcileNatsTokenSecret_def Let_def run_bindM run_tryM b_events_def new_events_def)
  qed
qed

definition ref_token_env :: clu_env where
  \<comment> \<open>a server that has every secret\<close>
  "ref_token_env = (ref_clu_env (Inr []))\<lparr>cv_GetSecret := (\<lambda>_ _ key. Inr \<lparr>s_Name = snd key, s_Namespace = fst key, s_Labels = Map.empty,
     s_Annotations = Map.empty, s_OwnerReferences = [], s_Data = Map.empty, s_Type = ''Opaque''\<rparr>)\<rparr>"

theorem nats_token_is_kept_witness:
  "\<exists>t. reconcileNatsTokenSecret ref_clu_lib ref_token_env ref_ready = (Ok (), t) \<and> bs_config t = bs_config ref_ready"
proof -
  obtain r t where run: "reconcileNatsTokenSecret ref_clu_lib ref_token_env ref_ready = (r, t)"
    by fastforce
  have found: "\<exists>sec. cv_GetSecret ref_token_env tr c key = Inr sec" for tr c key
    by (simp add: ref_token_env_def)
  from nats_token_is_kept [OF run] run found show ?thesis
    by (metis sum.distinct(1))
qed

subsection \<open>The configuration of the cluster\<close>

lemma dynamic_config_stripped:
  assumes "json_laws J"
  shows "nested_lookup (dynamic_config J ob) [''spec'', ''storage''] = None"
    and "nested_lookup (dynamic_config J ob) [''spec'', ''network'', ''controlPlaneLoadBalancing''] = None"
  using json_lawsD(5,6) [OF assms] by (simp_all add: dynamic_config_def Let_def del: nested_lookup.simps)

lemma kine_secret_url_keeps:
  assumes "kine_secret_url C E ob s = (r, t)"
  shows "sp_K0sConfig (kmc_Spec (kx_kmc (bs_config t))) = None \<longleftrightarrow> sp_K0sConfig (kmc_Spec (kx_kmc (bs_config s))) = None"
  using assms
  by (auto simp: kine_secret_url_def set_shared_config_def Let_def run_bindM run_wrapM run_liftE_case split: if_splits sum.splits option.splits)

text \<open>
  Updating the dynamic configuration of the workload cluster changes the \<open>Cluster\<close> itself: the map it sends is the map
  of \<open>spec.k0sConfig\<close>, so the storage settings and the control plane load balancing that must not be sent are
  removed from the specification of the cluster, which the reconciliation then writes back.
\<close>
theorem dynamic_config_strips_the_cluster:
  assumes laws: "json_laws (jsons (cu_lib C))" and run: "reconcileDynamicConfig C E ob s = (Ok (), t)"
    and config: "sp_K0sConfig (kmc_Spec (kx_kmc (bs_config s))) \<noteq> None"
  shows "\<exists>cfg. sp_K0sConfig (kmc_Spec (kx_kmc (bs_config t))) = Some cfg \<and> nested_lookup cfg [''spec'', ''storage''] = None \<and>
    nested_lookup cfg [''spec'', ''network'', ''controlPlaneLoadBalancing''] = None"
proof -
  obtain ob' s1 where k: "kine_secret_url C E ob s = (Ok ob', s1)"
    using run unfolding reconcileDynamicConfig_def by (auto elim!: bindM_OkE)
  obtain cfg where cfg: "sp_K0sConfig (kmc_Spec (kx_kmc (bs_config s1))) = Some cfg"
    using kine_secret_url_keeps [OF k] config by auto
  have "sp_K0sConfig (kmc_Spec (kx_kmc (bs_config t))) = Some (dynamic_config (jsons (cu_lib C)) ob')"
    using run k cfg unfolding reconcileDynamicConfig_def
    by (auto elim!: bindM_OkE wrapM_OkE simp: set_shared_config_def run_liftE_case run_liftC split: sum.splits prod.splits)
  then show ?thesis
    using dynamic_config_stripped [OF laws] by blast
qed


definition ref_configured :: "kmc_run bstate" where
  "ref_configured = ref_run ((ref_replicas 1)\<lparr>kmc_Spec := zero_spec\<lparr>sp_K0sConfig := Some Workload_Config.ref_config\<rparr>\<rparr>) None"

theorem dynamic_config_strips_the_cluster_witness:
  "\<exists>t cfg. reconcileDynamicConfig ref_clu_lib (ref_clu_env (Inr [])) Workload_Config.ref_config ref_configured = (Ok (), t) \<and>
     sp_K0sConfig (kmc_Spec (kx_kmc (bs_config t))) = Some cfg \<and> nested_lookup cfg [''spec'', ''storage''] = None \<and>
     nested_lookup Workload_Config.ref_config [''spec'', ''storage''] \<noteq> None"
proof -
  have kmc: "sp_K0sConfig (kmc_Spec (kx_kmc (bs_config ref_configured))) = Some Workload_Config.ref_config"
    "kine_DataSourceSecretName (sto_Kine (sp_Storage (kmc_Spec (kx_kmc (bs_config ref_configured))))) = []"
    by (simp_all add: ref_configured_def zero_spec_def)
  have env: "cv_NewClusterClient (ref_clu_env (Inr [])) tr key = None" "MarshalObject (jsons (cu_lib ref_clu_lib)) u = None" for tr key u
    by (simp_all add: ref_clu_env_def ref_clu_lib_def ref_lib_def ref_json_def)
  have "\<exists>t. reconcileDynamicConfig ref_clu_lib (ref_clu_env (Inr [])) Workload_Config.ref_config ref_configured = (Ok (), t)"
    by (simp add: reconcileDynamicConfig_def kine_secret_url_def set_shared_config_def ReconcileDynamicConfig_def Let_def run_bindM run_wrapM run_tryM
        run_liftC kmc env err_unit_def)
  then obtain t where run: "reconcileDynamicConfig ref_clu_lib (ref_clu_env (Inr [])) Workload_Config.ref_config ref_configured = (Ok (), t)"
    by blast
  have "json_laws (jsons (cu_lib ref_clu_lib))" and "sp_K0sConfig (kmc_Spec (kx_kmc (bs_config ref_configured))) \<noteq> None"
    by (simp_all add: ref_clu_lib_def ref_lib_def ref_json_laws kmc)
  from dynamic_config_strips_the_cluster [OF this(1) run this(2)] run show ?thesis
    by (auto simp: Workload_Config.ref_config_def simp del: nested_lookup.simps) (simp add: Workload_Config.ref_config_def)
qed


subsection \<open>The hash of the specification\<close>

lemma with_persistence_meta: "with_persistence k sp = Inr (k', sp') \<Longrightarrow> kmc_Meta k' = kmc_Meta k"
  by (auto simp: with_persistence_def Let_def upd_persistence_def split: if_splits option.splits)

lemma control_plane_spec_drops_hash: "kmc_annotations (fst (control_plane_spec L kmc)) AnnotationKeyClusterSpecHash = None"
proof -
  let ?k1 = "without_spec_hash (AnnotationsForK0smotronCluster kmc)"
  obtain k2 sp1 where mon: "with_monitoring (?k1, control_plane_base ?k1) = (k2, sp1)"
    by fastforce
  have "kmc_annotations ?k1 AnnotationKeyClusterSpecHash = None" and "monitoringAnnotations AnnotationKeyClusterSpecHash = None"
    by (simp_all add: without_spec_hash_def set_kmc_annotations_def kmc_annotations_def monitoringAnnotations_def AnnotationKeyClusterSpecHash_def)
  then have "kmc_annotations k2 AnnotationKeyClusterSpecHash = None"
    using fst_with_monitoring [of ?k1 "control_plane_base ?k1"] mon
    by (auto simp: Let_def set_kmc_annotations_def kmc_annotations_def upd_persistence_def map_add_def split: if_splits)
  then show ?thesis
    by (auto simp: control_plane_spec_def Let_def mon kmc_annotations_def dest!: with_persistence_meta split: sum.splits)
qed

end
