(* ===== verification/Remote_API.thy ===== *)
theory Remote_API
  imports Kube Bootstrap_Conversion
begin

text \<open>
  Types of \<open>api/infrastructure\<close>: machines that are reached over SSH, pools of such machines, and the
  cluster they belong to, in the hub version \<open>v1beta2\<close> and in \<open>v1beta1\<close>, with both directions of the
  conversion. The conversions are interpretations of \<open>convertible\<close>: nothing of \<open>v1beta1\<close> is lost. A port is a
  Go \<open>int\<close> and modelled by an integer; of a job template the fields that provisioning reads or writes are kept
  apart from the rest, which is opaque.
\<close>

subsection \<open>Conditions and reasons\<close>

definition RemoteMachineBootstrapExecSucceededCondition :: string where
  "RemoteMachineBootstrapExecSucceededCondition = ''BootstrapExecSucceeded''"
definition RemoteMachineBootstrapExecSucceededReason :: string where
  "RemoteMachineBootstrapExecSucceededReason = ''BootstrapExecSucceeded''"
definition RemoteMachineReadyCondition :: string where "RemoteMachineReadyCondition = ''Ready''"
definition RemoteClusterReadyCondition :: string where "RemoteClusterReadyCondition = ''Ready''"
definition RemoteClusterReadyReason :: string where "RemoteClusterReadyReason = ''Ready''"
definition remote_InternalErrorReason :: string where "remote_InternalErrorReason = ''InternalError''"

lemmas remote_names = RemoteMachineBootstrapExecSucceededCondition_def RemoteMachineReadyCondition_def

subsection \<open>Job templates\<close>

record secret_item =
  si_Key :: string
  si_Path :: string
  si_Mode :: "int option"

datatype job_volume =
    OtherVolume json
  | SecretVolume string string "secret_item list" \<comment> \<open>its name, the name of the secret, and the items\<close>

record job_mount =
  jvm_Name :: string
  jvm_MountPath :: string

record job_container =
  jc_Args :: "string list"
  jc_VolumeMounts :: "job_mount list"
  jc_Rest :: json

record job_template =
  jt_Name :: string
  jt_Namespace :: string
  jt_OwnerReferences :: "ownerref list"
  jt_Volumes :: "job_volume list"
  jt_Containers :: "job_container list"
  jt_Rest :: json

record ProvisionJob =
  pj_SSHCommand :: string
  pj_SCPCommand :: string
  pj_JobTemplate :: "job_template option"

subsection \<open>Remote machines\<close>

type_synonym SecretRef = string \<comment> \<open>its only field is the name\<close>

record RemoteMachineSpec =
  rms_Pool :: string
  rms_ProviderID :: string
  rms_Address :: string
  rms_Port :: int
  rms_User :: string
  rms_UseSudo :: bool
  rms_CommandsAsScript :: bool
  rms_WorkingDir :: string
  rms_SSHKeyRef :: SecretRef
  rms_CleanUpCommands :: "string slice"
  rms_ProvisionJob :: "ProvisionJob option"

record RemoteMachineStatusV1beta1Deprecated =
  rmd_FailureReason :: string
  rmd_FailureMessage :: string

record RemoteMachineStatusDeprecated =
  rmd_V1Beta1 :: "RemoteMachineStatusV1beta1Deprecated option"

record RemoteMachineStatus =
  rmt_Provisioned :: "bool option"
  rmt_Addresses :: "(string \<times> string) slice" \<comment> \<open>type and address\<close>
  rmt_Conditions :: "condition list"
  rmt_Deprecated :: "RemoteMachineStatusDeprecated option"

record RemoteMachine =
  rm_APIVersion :: string
  rm_Kind :: string
  rm_Meta :: objmeta
  rm_Spec :: RemoteMachineSpec
  rm_Status :: RemoteMachineStatus

definition SetFailures :: "string \<Rightarrow> string \<Rightarrow> RemoteMachineStatus \<Rightarrow> RemoteMachineStatus" where
  "SetFailures reason message st =
     (if reason \<noteq> [] \<or> message \<noteq> [] then
        st\<lparr>rmt_Deprecated := Some \<lparr>rmd_V1Beta1 = Some \<lparr>rmd_FailureReason = reason, rmd_FailureMessage = message\<rparr>\<rparr>\<rparr>
      else st)"

definition remote_deprecated :: "RemoteMachineStatus \<Rightarrow> RemoteMachineStatusV1beta1Deprecated option" where
  "remote_deprecated st = (case rmt_Deprecated st of None \<Rightarrow> None | Some d \<Rightarrow> rmd_V1Beta1 d)"

definition GetFailureReason :: "RemoteMachineStatus \<Rightarrow> string" where
  "GetFailureReason st = (case remote_deprecated st of None \<Rightarrow> [] | Some d \<Rightarrow> rmd_FailureReason d)"

definition GetFailureMessage :: "RemoteMachineStatus \<Rightarrow> string" where
  "GetFailureMessage st = (case remote_deprecated st of None \<Rightarrow> [] | Some d \<Rightarrow> rmd_FailureMessage d)"

record PooledMachineSpec =
  pms_Address :: string
  pms_Port :: int
  pms_User :: string
  pms_UseSudo :: bool
  pms_CommandsAsScript :: bool
  pms_WorkingDir :: string
  pms_CleanUpCommands :: "string slice"
  pms_SSHKeyRef :: SecretRef

record RemoteMachineRef =
  mr_Name :: string
  mr_Namespace :: string

record PooledRemoteMachineStatus =
  prs_Reserved :: bool
  prs_MachineRef :: RemoteMachineRef

record PooledRemoteMachine =
  prm_Meta :: objmeta
  prm_Pool :: string
  prm_Machine :: PooledMachineSpec
  prm_Status :: PooledRemoteMachineStatus

record RemoteCluster =
  rc_Meta :: objmeta
  rc_EndpointHost :: string
  rc_EndpointPort :: int
  rc_Provisioned :: "bool option"
  rc_Conditions :: "condition list"

subsection \<open>Types of v1beta1\<close>

record RemoteMachineSpec_v1 =
  v1r_Pool :: string
  v1r_ProviderID :: string
  v1r_Address :: string
  v1r_Port :: int
  v1r_User :: string
  v1r_UseSudo :: bool
  v1r_CommandsAsScript :: bool
  v1r_WorkingDir :: string
  v1r_SSHKeyRef :: SecretRef
  v1r_CustomCleanUpCommands :: "string slice"
  v1r_ProvisionJob :: "ProvisionJob option"

record RemoteMachineStatus_v1 =
  v1t_Ready :: bool
  v1t_Addresses :: "(string \<times> string) slice"
  v1t_FailureReason :: string
  v1t_FailureMessage :: string

record RemoteMachine_v1 =
  v1rm_Meta :: objmeta
  v1rm_Spec :: RemoteMachineSpec_v1
  v1rm_Status :: RemoteMachineStatus_v1

record PooledMachineSpec_v1 =
  v1p_Address :: string
  v1p_Port :: int
  v1p_User :: string
  v1p_UseSudo :: bool
  v1p_CommandsAsScript :: bool
  v1p_WorkingDir :: string
  v1p_CustomCleanUpCommands :: "string slice"
  v1p_SSHKeyRef :: SecretRef

record PooledRemoteMachine_v1 =
  v1pm_Meta :: objmeta
  v1pm_Pool :: string
  v1pm_Machine :: PooledMachineSpec_v1
  v1pm_Status :: PooledRemoteMachineStatus

subsection \<open>Conversion\<close>

definition convertRemoteMachineSpecV1beta1ToV1beta2 :: "RemoteMachineSpec_v1 \<Rightarrow> RemoteMachineSpec" where
  "convertRemoteMachineSpecV1beta1ToV1beta2 sp =
     \<lparr>rms_Pool = v1r_Pool sp, rms_ProviderID = v1r_ProviderID sp, rms_Address = v1r_Address sp, rms_Port = v1r_Port sp,
      rms_User = v1r_User sp, rms_UseSudo = v1r_UseSudo sp, rms_CommandsAsScript = v1r_CommandsAsScript sp,
      rms_WorkingDir = v1r_WorkingDir sp, rms_SSHKeyRef = v1r_SSHKeyRef sp,
      rms_CleanUpCommands = v1r_CustomCleanUpCommands sp, rms_ProvisionJob = v1r_ProvisionJob sp\<rparr>"

definition convertRemoteMachineSpecV1beta2ToV1beta1 :: "RemoteMachineSpec \<Rightarrow> RemoteMachineSpec_v1" where
  "convertRemoteMachineSpecV1beta2ToV1beta1 sp =
     \<lparr>v1r_Pool = rms_Pool sp, v1r_ProviderID = rms_ProviderID sp, v1r_Address = rms_Address sp, v1r_Port = rms_Port sp,
      v1r_User = rms_User sp, v1r_UseSudo = rms_UseSudo sp, v1r_CommandsAsScript = rms_CommandsAsScript sp,
      v1r_WorkingDir = rms_WorkingDir sp, v1r_SSHKeyRef = rms_SSHKeyRef sp,
      v1r_CustomCleanUpCommands = rms_CleanUpCommands sp, v1r_ProvisionJob = rms_ProvisionJob sp\<rparr>"

definition RemoteMachine_ConvertTo :: "string \<times> string \<Rightarrow> RemoteMachine_v1 \<Rightarrow> RemoteMachine" where
  \<comment> \<open>the type meta of the hub object is not the concern of the conversion\<close>
  "RemoteMachine_ConvertTo gvk rm =
     \<lparr>rm_APIVersion = fst gvk, rm_Kind = snd gvk, rm_Meta = v1rm_Meta rm,
      rm_Spec = convertRemoteMachineSpecV1beta1ToV1beta2 (v1rm_Spec rm),
      rm_Status = SetFailures (v1t_FailureReason (v1rm_Status rm)) (v1t_FailureMessage (v1rm_Status rm))
        \<lparr>rmt_Provisioned = Some (v1t_Ready (v1rm_Status rm)), rmt_Addresses = v1t_Addresses (v1rm_Status rm),
         rmt_Conditions = [], rmt_Deprecated = None\<rparr>\<rparr>"

definition RemoteMachine_ConvertFrom :: "RemoteMachine \<Rightarrow> RemoteMachine_v1" where
  "RemoteMachine_ConvertFrom src =
     \<lparr>v1rm_Meta = rm_Meta src, v1rm_Spec = convertRemoteMachineSpecV1beta2ToV1beta1 (rm_Spec src),
      v1rm_Status = \<lparr>v1t_Ready = (case rmt_Provisioned (rm_Status src) of None \<Rightarrow> False | Some b \<Rightarrow> b),
        v1t_Addresses = rmt_Addresses (rm_Status src), v1t_FailureReason = GetFailureReason (rm_Status src),
        v1t_FailureMessage = GetFailureMessage (rm_Status src)\<rparr>\<rparr>"

definition convertPooledRemoteMachineSpecV1beta1ToV1beta2 :: "PooledMachineSpec_v1 \<Rightarrow> PooledMachineSpec" where
  "convertPooledRemoteMachineSpecV1beta1ToV1beta2 m =
     \<lparr>pms_Address = v1p_Address m, pms_Port = v1p_Port m, pms_User = v1p_User m, pms_UseSudo = v1p_UseSudo m,
      pms_CommandsAsScript = v1p_CommandsAsScript m, pms_WorkingDir = v1p_WorkingDir m,
      pms_CleanUpCommands = v1p_CustomCleanUpCommands m, pms_SSHKeyRef = v1p_SSHKeyRef m\<rparr>"

definition convertPooledRemoteMachineSpecV1beta2ToV1beta1 :: "PooledMachineSpec \<Rightarrow> PooledMachineSpec_v1" where
  "convertPooledRemoteMachineSpecV1beta2ToV1beta1 m =
     \<lparr>v1p_Address = pms_Address m, v1p_Port = pms_Port m, v1p_User = pms_User m, v1p_UseSudo = pms_UseSudo m,
      v1p_CommandsAsScript = pms_CommandsAsScript m, v1p_WorkingDir = pms_WorkingDir m,
      v1p_CustomCleanUpCommands = pms_CleanUpCommands m, v1p_SSHKeyRef = pms_SSHKeyRef m\<rparr>"

definition PooledRemoteMachine_ConvertTo :: "PooledRemoteMachine_v1 \<Rightarrow> PooledRemoteMachine" where
  "PooledRemoteMachine_ConvertTo p =
     \<lparr>prm_Meta = v1pm_Meta p, prm_Pool = v1pm_Pool p,
      prm_Machine = convertPooledRemoteMachineSpecV1beta1ToV1beta2 (v1pm_Machine p), prm_Status = v1pm_Status p\<rparr>"

definition PooledRemoteMachine_ConvertFrom :: "PooledRemoteMachine \<Rightarrow> PooledRemoteMachine_v1" where
  "PooledRemoteMachine_ConvertFrom p =
     \<lparr>v1pm_Meta = prm_Meta p, v1pm_Pool = prm_Pool p,
      v1pm_Machine = convertPooledRemoteMachineSpecV1beta2ToV1beta1 (prm_Machine p), v1pm_Status = prm_Status p\<rparr>"

lemmas remote_conversion_defs =
  convertRemoteMachineSpecV1beta1ToV1beta2_def convertRemoteMachineSpecV1beta2ToV1beta1_def
  RemoteMachine_ConvertTo_def RemoteMachine_ConvertFrom_def
  convertPooledRemoteMachineSpecV1beta1ToV1beta2_def convertPooledRemoteMachineSpecV1beta2ToV1beta1_def
  PooledRemoteMachine_ConvertTo_def PooledRemoteMachine_ConvertFrom_def

lemma failures_read_back [simp]:
  "rmt_Deprecated st = None \<Longrightarrow> GetFailureReason (SetFailures r m st) = r"
  "rmt_Deprecated st = None \<Longrightarrow> GetFailureMessage (SetFailures r m st) = m"
  by (auto simp: SetFailures_def GetFailureReason_def GetFailureMessage_def remote_deprecated_def)

lemma SetFailures_other [simp]:
  "rmt_Provisioned (SetFailures r m st) = rmt_Provisioned st" "rmt_Addresses (SetFailures r m st) = rmt_Addresses st"
  "rmt_Conditions (SetFailures r m st) = rmt_Conditions st"
  by (simp_all add: SetFailures_def)

interpretation remote_machine: convertible "RemoteMachine_ConvertTo gvk" RemoteMachine_ConvertFrom "\<lambda>_. True" for gvk
  by unfold_locales (simp_all add: remote_conversion_defs)

interpretation pooled_machine: convertible PooledRemoteMachine_ConvertTo PooledRemoteMachine_ConvertFrom "\<lambda>_. True"
  by unfold_locales (simp_all add: remote_conversion_defs)

lemma pooled_hub_round: "PooledRemoteMachine_ConvertTo (PooledRemoteMachine_ConvertFrom p) = p"
  by (simp add: remote_conversion_defs)

end
