(* ===== verification/Remote_Machine.thy ===== *)
theory Remote_Machine
  imports Remote_API Provisioner Hashes
begin

text \<open>
  The infrastructure controllers (\<open>internal/controller/infrastructure\<close>): a \<open>RemoteMachine\<close> is provisioned over
  SSH or by a job, after a free machine of its pool was reserved for it, and is cleaned up and
  returned when it is deleted. The state of a reconciliation is the object and the trace of everything asked of
  the API server and of the machine; every answer is an oracle of that trace, so that the server, the machine and
  the clock are arbitrary. The job template of the object shares its containers with the job that is
  created from it, so the model writes them back to the object. The goroutine that watches for deletion
  can only cancel the context, which the SSH provisioner does not read; for a job the cancellation is among the
  answers to the watch.
\<close>

subsection \<open>Requests and state\<close>

record owner_machine = machine +
  mo_DataSecretName :: "string option"

datatype rm_write =
    PatchRemoteMachine RemoteMachine
  | UpdatePooledStatus PooledRemoteMachine
  | PatchOwnerMachine owner_machine owner_machine \<comment> \<open>before and after\<close>
  | ApplyJobSecret string string "ownerref list" "string \<rightharpoonup> string" \<comment> \<open>name, namespace, owners, data\<close>
  | CreateJob job_template
  | UpdateRemoteClusterStatus RemoteCluster

datatype ssh_op =
    Connect string int string \<comment> \<open>address, port and user\<close>
  | Disconnect
  | Exec bool string \<comment> \<open>whether with sudo, and the command\<close>
  | Stat bool string \<comment> \<open>whether of the file system with sudo, and the path\<close>
  | MkDirAll bool string int
  | OpenFile bool string int
  | WriteFile string string
  | CloseFile string
  | RemoveFile string

datatype rm_event =
    RmRead string
  | RmWrote rm_write "gerror option"
  | Ssh ssh_op "gerror option"

record rm_state =
  rs_rm :: RemoteMachine
  rs_trace :: "rm_event list" \<comment> \<open>the oldest first\<close>

type_synonym 'a rmM = "(rm_state, 'a) gom"

record rm_env =
  re_conds :: cond_lib
  re_Now :: "rm_event list \<Rightarrow> int"
  re_Summary :: "condition list \<Rightarrow> string \<Rightarrow> string list \<Rightarrow> gerror + condition"
  re_IsPaused :: "cluster \<Rightarrow> objmeta \<Rightarrow> bool" \<comment> \<open>\<open>annotations.IsPaused\<close>\<close>
  re_write :: "rm_event list \<Rightarrow> rm_write \<Rightarrow> gerror option"
  re_GetRemoteMachine :: "rm_event list \<Rightarrow> string \<times> string \<Rightarrow> gerror + RemoteMachine"
  re_EnsureFinalizer :: "rm_event list \<Rightarrow> RemoteMachine \<Rightarrow> gerror + bool" \<comment> \<open>of Cluster API: whether it was added\<close>
  re_GetOwnerMachine :: "rm_event list \<Rightarrow> objmeta \<Rightarrow> gerror + owner_machine option"
  re_GetClusterFromMetadata :: "rm_event list \<Rightarrow> owner_machine \<Rightarrow> gerror + cluster option"
  re_NewPatchHelper :: "rm_event list \<Rightarrow> gerror option"
  re_GetSecret :: "rm_event list \<Rightarrow> string \<times> string \<Rightarrow> gerror + (string \<rightharpoonup> string)" \<comment> \<open>its data\<close>
  re_Unmarshal :: "string \<Rightarrow> gerror + InputProvisionData" \<comment> \<open>\<open>yaml.Unmarshal\<close>\<close>
  re_ListPooled :: "rm_event list \<Rightarrow> string option \<Rightarrow> gerror + PooledRemoteMachine list" \<comment> \<open>of a namespace, or all\<close>
  re_WatchJob :: "rm_event list \<Rightarrow> string \<times> string \<Rightarrow> gerror option"
  re_ParseSSHPrivateKey :: "string \<Rightarrow> gerror option"
  re_ssh :: "rm_event list \<Rightarrow> ssh_op \<Rightarrow> gerror option"
  re_Output :: "rm_event list \<Rightarrow> string \<Rightarrow> string" \<comment> \<open>the output of a command\<close>
  re_IsNotExist :: "gerror \<Rightarrow> bool" \<comment> \<open>\<open>errors.Is(err, fs.ErrNotExist)\<close>\<close>
  re_GetRemoteCluster :: "rm_event list \<Rightarrow> string \<times> string \<Rightarrow> gerror + RemoteCluster"

definition rm_log :: "rm_event \<Rightarrow> rm_state \<Rightarrow> rm_state" where
  "rm_log ev s = s\<lparr>rs_trace := rs_trace s @ [ev]\<rparr>"

definition rmread :: "string \<Rightarrow> (rm_event list \<Rightarrow> gerror + 'a) \<Rightarrow> 'a rmM" where
  "rmread what f = (\<lambda>s. liftE (f (rs_trace s)) (rm_log (RmRead what) s))"

definition rmwrite :: "rm_env \<Rightarrow> rm_write \<Rightarrow> unit rmM" where
  "rmwrite E w = (\<lambda>s. retErr (re_write E (rs_trace s) w) (rm_log (RmWrote w (re_write E (rs_trace s) w)) s))"

definition sshM :: "rm_env \<Rightarrow> ssh_op \<Rightarrow> unit rmM" where
  "sshM E op = (\<lambda>s. retErr (re_ssh E (rs_trace s) op) (rm_log (Ssh op (re_ssh E (rs_trace s) op)) s))"

definition theRm :: "RemoteMachine rmM" where
  "theRm = getM rs_rm"

definition setRm :: "(RemoteMachine \<Rightarrow> RemoteMachine) \<Rightarrow> unit rmM" where
  "setRm f = modM (\<lambda>s. s\<lparr>rs_rm := f (rs_rm s)\<rparr>)"

definition setSpec :: "(RemoteMachineSpec \<Rightarrow> RemoteMachineSpec) \<Rightarrow> RemoteMachine \<Rightarrow> RemoteMachine" where
  "setSpec f rm = rm\<lparr>rm_Spec := f (rm_Spec rm)\<rparr>"

definition setStatus :: "(RemoteMachineStatus \<Rightarrow> RemoteMachineStatus) \<Rightarrow> RemoteMachine \<Rightarrow> RemoteMachine" where
  "setStatus f rm = rm\<lparr>rm_Status := f (rm_Status rm)\<rparr>"

definition rm_deleted :: "RemoteMachine \<Rightarrow> bool" where
  "rm_deleted rm \<longleftrightarrow> om_DeletionTimestamp (rm_Meta rm) \<noteq> None"

definition RemoteMachineFinalizer :: string where
  "RemoteMachineFinalizer = ''remotemachine.k0smotron.io/finalizer''"

datatype RemoteMachineMode = ModeController | ModeWorker | ModeNonK0s

subsection \<open>The SSH provisioner\<close>

definition shellQuote :: "string \<Rightarrow> string" where
  "shellQuote s = [CHR 0x27] @ replace_all [CHR 0x27] [CHR 0x27, CHR 0x5C, CHR 0x27, CHR 0x27] s @ [CHR 0x27]"

definition stopCommand :: "string \<Rightarrow> string \<Rightarrow> string \<Rightarrow> string" where
  \<comment> \<open>\<open>stopCommandTemplate\<close> with its three services\<close>
  "stopCommand a b c =
     ''(command -v systemctl > /dev/null 2>&1 && systemctl stop '' @ a @ '') || '' @
     ''(command -v rc-service > /dev/null 2>&1 && rc-service '' @ b @ '' stop) || '' @
     ''(command -v service > /dev/null 2>&1 && service '' @ c @ '' stop) || '' @
     ''(echo '' @ [CHR 0x22] @ ''Not a supported init system'' @ [CHR 0x22] @ ''; false)''"

definition ctrlService :: string where "ctrlService = ''k0scontroller''"
definition workerService :: string where "workerService = ''k0sworker''"

definition ignoring :: "unit rmM \<Rightarrow> unit rmM" where
  \<comment> \<open>an error is only logged\<close>
  "ignoring m = tryM m (\<lambda>_. ret ())"

definition sentinel_file :: string where
  "sentinel_file = ''/run/cluster-api/bootstrap-success.complete''"

definition install_script_path :: "RemoteMachine \<Rightarrow> string" where
  "install_script_path rm = filepath_join (rms_WorkingDir (rm_Spec rm)) ''k0s_install.sh''"

definition install_script :: "RemoteMachine \<Rightarrow> InputProvisionData \<Rightarrow> File" where
  "install_script rm ci =
     \<lparr>f_Path = install_script_path rm,
      f_Content = ''#!/bin/sh'' @ newline @ ''set -e'' @ newline @ newline @ join_with newline (ip_Commands ci) @ newline,
      f_Permissions = ''0700'', f_Owner = [], f_Encoding = [], f_Append = False, f_ContentFrom = None\<rparr>"

definition chown_command :: "File \<Rightarrow> string" where
  "chown_command file = ''chown -- '' @ shellQuote (f_Owner file) @ '' '' @ shellQuote (f_Path file)"

definition set_file_owner :: "rm_env \<Rightarrow> bool \<Rightarrow> File \<Rightarrow> unit rmM" where
  \<comment> \<open>the error also wraps the one of the command, which no caller looks for\<close>
  "set_file_owner E sudo file =
     (if f_Owner file = [] then ret ()
      else bindM (getM rs_trace) (\<lambda>tr. wrapM (\<lambda>e. Errorf (''failed to set owner '' @ quoted (f_Owner file) @ '' on '' @ f_Path file @
             '': '' @ error_text e @ '' (output: '' @ re_Output E tr (chown_command file) @ '')'')) (sshM E (Exec sudo (chown_command file)))))"

definition ensure_dir :: "rm_env \<Rightarrow> bool \<Rightarrow> string \<Rightarrow> unit rmM" where
  "ensure_dir E sudo dir =
     tryM (sshM E (Stat sudo dir)) (\<lambda>r. case r of
       Inl e \<Rightarrow> if re_IsNotExist E e
               then wrapM (Wrapf ''failed to create directory'') (sshM E (MkDirAll sudo dir 0x1ed)) else ret ()
     | Inr _ \<Rightarrow> ret ())"

definition uploadFile :: "rm_env \<Rightarrow> bool \<Rightarrow> File \<Rightarrow> unit rmM" where
  \<comment> \<open>\<open>sudo\<close>: whether commands and the file system are those with sudo\<close>
  "uploadFile E sudo file =
     bindM (wrapM (Wrapf ''failed to parse permissions'') (liftE (PermissionsAsInt file))) (\<lambda>perms.
     if f_Append file then
       failM (Errorf (''file '' @ f_Path file @ '' uses append, which is not supported when provisioning over ssh''))
     else
       bindM (liftE (DecodedContent file)) (\<lambda>content.
       bindM (ensure_dir E sudo (filepath_dir (replace_all [CHR 0x5C] ''/'' (f_Path file)))) (\<lambda>_.
       bindM (wrapM (Wrapf ''failed to open remote file for writing'') (sshM E (OpenFile sudo (f_Path file) perms))) (\<lambda>_.
       deferM
         (bindM (wrapM (Wrapf ''failed to write to remote file'') (sshM E (WriteFile (f_Path file) content))) (\<lambda>_.
          set_file_owner E sudo file))
         (ignoring (sshM E (CloseFile (f_Path file))))))))"

definition run_commands :: "rm_env \<Rightarrow> bool \<Rightarrow> string list \<Rightarrow> unit rmM" where
  "run_commands E sudo cmds = for_each (\<lambda>cmd. wrapM (Wrapf ''failed to run command'') (sshM E (Exec sudo cmd))) cmds"

definition connected :: "rm_env \<Rightarrow> string \<Rightarrow> unit rmM \<Rightarrow> unit rmM" where
  \<comment> \<open>parse the key, connect, and disconnect at the end\<close>
  "connected E sshKey body =
     bindM theRm (\<lambda>rm.
     bindM (wrapM (Wrapf ''failed to parse ssh key'') (retErr (re_ParseSSHPrivateKey E sshKey))) (\<lambda>_.
     bindM (wrapM (Wrapf ''failed to connect to host'')
        (sshM E (Connect (rms_Address (rm_Spec rm)) (rms_Port (rm_Spec rm)) (rms_User (rm_Spec rm))))) (\<lambda>_.
     deferM body (ignoring (sshM E Disconnect)))))"

definition SSHProvisioner_Provision :: "rm_env \<Rightarrow> string \<Rightarrow> InputProvisionData \<Rightarrow> unit rmM" where
  "SSHProvisioner_Provision E sshKey ci =
     bindM theRm (\<lambda>rm.
     let sudo = rms_UseSudo (rm_Spec rm); script = rms_CommandsAsScript (rm_Spec rm);
         files = ip_Files ci @ (if script then [install_script rm ci] else []) in
     connected E sshKey
       (bindM (for_each (\<lambda>f. wrapM (Wrapf ''failed to upload file'') (uploadFile E sudo f)) files) (\<lambda>_.
        bindM (run_commands E sudo (if script then [install_script_path rm] else ip_Commands ci)) (\<lambda>_.
        tryM (sshM E (Stat True sentinel_file)) (\<lambda>r.
        case r of Inl _ \<Rightarrow> failM (Errorf ''bootstrap sentinel file not found'') | Inr _ \<Rightarrow> ret ())))))"

definition root_dir_char :: "char \<Rightarrow> bool" where
  \<comment> \<open>\<open>[/a-zA-Z0-9_-]\<close>\<close>
  "root_dir_char c \<longleftrightarrow> c \<in> set ''/_-0123456789abcdefghijklmnopqrstuvwxyzABCDEFGHIJKLMNOPQRSTUVWXYZ''"

fun kubelet_root_dir :: "string \<Rightarrow> string option" where
  \<comment> \<open>the group of \<open>--kubelet-root-dir[ =](/[/a-zA-Z0-9_-]+)+\<close> at its leftmost match; the first
      repetition of the group takes the whole path\<close>
  "kubelet_root_dir [] = None"
| "kubelet_root_dir (c # s) =
     (let rest = drop 18 (c # s) in
      if has_prefix ''--kubelet-root-dir'' (c # s) \<and> 3 \<le> length rest \<and> hd rest \<in> {CHR '' '', CHR ''=''} \<and>
         rest ! 1 = CHR ''/'' \<and> root_dir_char (rest ! 2)
      then Some (takeWhile root_dir_char (tl rest))
      else kubelet_root_dir s)"

fun find_root_dir :: "string list \<Rightarrow> string" where
  \<comment> \<open>the loop over the commands, up to the first match\<close>
  "find_root_dir [] = []"
| "find_root_dir (cmd # cmds) =
     (if contains cmd ''--kubelet-root-dir'' then
        (case kubelet_root_dir cmd of Some d \<Rightarrow> d | None \<Rightarrow> find_root_dir cmds)
      else find_root_dir cmds)"

definition cleanup_commands :: "RemoteMachineMode \<Rightarrow> InputProvisionData \<Rightarrow> string list" where
  "cleanup_commands mode ci =
     (if mode = ModeController then [''k0s etcd leave'', stopCommand ctrlService ctrlService ctrlService]
      else [stopCommand workerService workerService ctrlService]) @
     [if find_root_dir (ip_Commands ci) = [] then ''k0s reset''
      else ''k0s reset --kubelet-root-dir '' @ find_root_dir (ip_Commands ci)]"

definition cleanup_command :: "rm_env \<Rightarrow> bool \<Rightarrow> InputProvisionData \<Rightarrow> string \<Rightarrow> unit rmM" where
  \<comment> \<open>where k0s is not installed, the files of the bootstrap are removed\<close>
  "cleanup_command E sudo ci cmd =
     tryM (sshM E (Exec sudo cmd)) (\<lambda>r. case r of
       Inl e \<Rightarrow> if contains (error_text e) ''command not found''
               then for_each (\<lambda>f. ignoring (sshM E (RemoveFile (f_Path f)))) (ip_Files ci) else ret ()
     | Inr _ \<Rightarrow> ret ())"

definition SSHProvisioner_Cleanup :: "rm_env \<Rightarrow> string \<Rightarrow> InputProvisionData \<Rightarrow> RemoteMachineMode \<Rightarrow> unit rmM" where
  "SSHProvisioner_Cleanup E sshKey ci mode =
     bindM theRm (\<lambda>rm.
     let sudo = rms_UseSudo (rm_Spec rm) in
     connected E sshKey
       (case rms_CleanUpCommands (rm_Spec rm) of
          Some cmds \<Rightarrow> for_each (\<lambda>cmd. ignoring (sshM E (Exec sudo cmd))) cmds
        | None \<Rightarrow>
            if mode = ModeNonK0s then ret ()
            else for_each (cleanup_command E sudo ci) (cleanup_commands mode ci)))"

subsection \<open>The job provisioner\<close>

definition filepath_base :: "string \<Rightarrow> string" where
  \<comment> \<open>\<open>filepath.Base\<close>: the last element without trailing separators\<close>
  "filepath_base p =
     (let q = rev (dropWhile (\<lambda>c. c = CHR ''/'') (rev p)) in
      if p = [] then ''.'' else if q = [] then ''/'' else rev (takeWhile (\<lambda>c. c \<noteq> CHR ''/'') (rev q)))"

definition genFileName :: "string \<Rightarrow> string" where
  "genFileName filePath = filepath_base filePath @ ''-'' @ md5_hex filePath"

definition machineDSN :: "RemoteMachine \<Rightarrow> string" where
  "machineDSN rm =
     (if rms_User (rm_Spec rm) \<noteq> [] then rms_User (rm_Spec rm) @ ''@'' @ rms_Address (rm_Spec rm)
      else rms_Address (rm_Spec rm))"

definition job_ssh_command :: "ProvisionJob \<Rightarrow> RemoteMachine \<Rightarrow> string" where
  "job_ssh_command pj rm =
     (if rms_Port (rm_Spec rm) \<noteq> 0
      then pj_SSHCommand pj @ '' -p '' @ show_int (rms_Port (rm_Spec rm)) @ '' '' @ machineDSN rm
      else pj_SSHCommand pj @ '' '' @ machineDSN rm)"

definition job_scp_command :: "ProvisionJob \<Rightarrow> RemoteMachine \<Rightarrow> string" where
  "job_scp_command pj rm =
     (if rms_Port (rm_Spec rm) \<noteq> 0 then pj_SCPCommand pj @ '' -P '' @ show_int (rms_Port (rm_Spec rm)) else pj_SCPCommand pj)"

definition job_file_lines :: "ProvisionJob \<Rightarrow> RemoteMachine \<Rightarrow> File \<Rightarrow> string" where
  "job_file_lines pj rm file =
     (let sudoPrefix = (if rms_UseSudo (rm_Spec rm) then ''sudo '' else []) in
      job_scp_command pj rm @ '' /var/lib/bootstrap-data/'' @ genFileName (f_Path file) @ '' '' @ machineDSN rm @ '':'' @ f_Path file @ newline @
      job_ssh_command pj rm @ '' '' @ sudoPrefix @ ''chmod '' @ shellQuote (f_Permissions file) @ '' '' @ shellQuote (f_Path file) @ newline @
      (if f_Owner file = [] then []
       else job_ssh_command pj rm @ '' '' @ sudoPrefix @ chown_command file @ newline))"

definition job_command_line :: "ProvisionJob \<Rightarrow> RemoteMachine \<Rightarrow> string \<Rightarrow> string" where
  "job_command_line pj rm cmd =
     (let cmd' = (if rms_UseSudo (rm_Spec rm) then ''sudo su -c '' @ [CHR 0x27] @ cmd @ [CHR 0x27] else cmd) in
      job_ssh_command pj rm @ '' '' @ [CHR 0x22] @ cmd' @ [CHR 0x22] @ newline)"

fun stage_files :: "File list \<Rightarrow> gerror + (string \<times> string) list" where
  \<comment> \<open>the name under which a file is staged and its content, in the order of the files\<close>
  "stage_files [] = Inr []"
| "stage_files (f # fs) =
     (if f_Append f then
        Inl (Errorf (''file '' @ f_Path f @ '' uses append, which is not supported when provisioning through a job''))
      else case DecodedContent f of
        Inl e \<Rightarrow> Inl e
      | Inr content \<Rightarrow> (case stage_files fs of Inl e \<Rightarrow> Inl e | Inr r \<Rightarrow> Inr ((genFileName (f_Path f), content) # r)))"

definition entrypoint_name :: string where "entrypoint_name = ''k0smotron-entrypoint.sh''"

definition job_entrypoint :: "ProvisionJob \<Rightarrow> RemoteMachine \<Rightarrow> InputProvisionData \<Rightarrow> string" where
  "job_entrypoint pj rm ci =
     ''#!/bin/sh'' @ newline @ concat (map (job_file_lines pj rm) (ip_Files ci)) @ concat (map (job_command_line pj rm) (ip_Commands ci))"

definition extractCloudInit ::
  "ProvisionJob \<Rightarrow> RemoteMachine \<Rightarrow> InputProvisionData \<Rightarrow> gerror + secret_item list \<times> job_mount list \<times> (string \<rightharpoonup> string)" where
  \<comment> \<open>the items of the secret volume, the mounts and the data; the name of the secret is set by the caller\<close>
  "extractCloudInit pj rm ci =
     (case stage_files (ip_Files ci) of
        Inl e \<Rightarrow> Inl e
      | Inr staged \<Rightarrow>
          Inr (map (\<lambda>(n, _). \<lparr>si_Key = n, si_Path = n, si_Mode = None\<rparr>) staged @
                 [\<lparr>si_Key = entrypoint_name, si_Path = entrypoint_name, si_Mode = Some 0x1ed\<rparr>],
               [\<lparr>jvm_Name = ''bootstrap-data'', jvm_MountPath = ''/var/lib/bootstrap-data''\<rparr>],
               (foldl (\<lambda>m (n, content). m(n \<mapsto> content)) Map.empty staged)(entrypoint_name \<mapsto> job_entrypoint pj rm ci)))"

definition remote_owner :: "RemoteMachine \<Rightarrow> ownerref" where
  "remote_owner rm = \<lparr>o_APIVersion = rm_APIVersion rm, o_Kind = rm_Kind rm, o_Name = om_Name (rm_Meta rm), o_UID = om_UID (rm_Meta rm)\<rparr>"

definition bootstrap_container :: "job_mount list \<Rightarrow> job_container \<Rightarrow> job_container" where
  "bootstrap_container mounts c =
     c\<lparr>jc_VolumeMounts := jc_VolumeMounts c @ mounts, jc_Args := [''/var/lib/bootstrap-data/k0smotron-entrypoint.sh'']\<rparr>"

definition build_job :: "string \<Rightarrow> RemoteMachine \<Rightarrow> job_template \<Rightarrow> job_template" where
  \<comment> \<open>the job before the bootstrap data is added\<close>
  "build_job clusterName rm jb =
     jb\<lparr>jt_Name := (if jt_Name jb = [] then clusterName @ ''-'' @ om_Name (rm_Meta rm) else jt_Name jb),
        jt_Namespace := (if jt_Namespace jb = [] then om_Namespace (rm_Meta rm) else jt_Namespace jb),
        jt_OwnerReferences := [remote_owner rm]\<rparr>"

definition share_containers :: "job_container list \<Rightarrow> ProvisionJob \<Rightarrow> ProvisionJob" where
  \<comment> \<open>the containers are one array for the job and for the template of the object\<close>
  "share_containers cs pj = pj\<lparr>pj_JobTemplate := map_option (\<lambda>jb. jb\<lparr>jt_Containers := cs\<rparr>) (pj_JobTemplate pj)\<rparr>"

definition JobProvisioner_Provision :: "rm_env \<Rightarrow> ProvisionJob \<Rightarrow> string \<Rightarrow> InputProvisionData \<Rightarrow> unit rmM" where
  "JobProvisioner_Provision E pj clusterName ci =
     bindM theRm (\<lambda>rm.
     case pj_JobTemplate pj of
       None \<Rightarrow> panicM
     | Some jb \<Rightarrow>
         (let job = build_job clusterName rm jb; secretName = jt_Name job @ ''-job-bootstrap-data'' in
          bindM (liftE (extractCloudInit pj rm ci)) (\<lambda>(items, mounts, secretData).
          case jt_Containers job of
            [] \<Rightarrow> panicM
          | c # cs \<Rightarrow>
              (let containers = bootstrap_container mounts c # cs;
                   job' = job\<lparr>jt_Volumes := jt_Volumes job @ [SecretVolume ''bootstrap-data'' secretName items], jt_Containers := containers\<rparr> in
               bindM (setRm (setSpec (\<lambda>sp. sp\<lparr>rms_ProvisionJob := Some (share_containers containers pj)\<rparr>))) (\<lambda>_.
               bindM (wrapM (Wrapf ''failed to create a secret'')
                        (rmwrite E (ApplyJobSecret secretName (jt_Namespace job) [remote_owner rm] secretData))) (\<lambda>_.
               bindM (wrapM (Wrapf ''failed to create job'') (rmwrite E (CreateJob job'))) (\<lambda>_.
               wrapM (Wrapf ''failed to watch job'')
                 (rmread ''watch job'' (\<lambda>tr. case re_WatchJob E tr (jt_Namespace job, jt_Name job) of None \<Rightarrow> Inr () | Some e \<Rightarrow> Inl e)))))))))"

subsection \<open>Pools\<close>

definition ErrPooledMachineNotFound :: gerror where
  "ErrPooledMachineNotFound = Sentinel ''free pooled machine not found''"

definition mergedMap :: "strmap \<Rightarrow> strmap \<Rightarrow> strmap" where
  "mergedMap dst src = dst ++ src"

definition pooled_name :: "PooledRemoteMachine \<Rightarrow> string" where
  "pooled_name pm = om_Name (prm_Meta pm)"

fun scan_pool :: "string \<Rightarrow> string \<Rightarrow> PooledRemoteMachine option \<Rightarrow> PooledRemoteMachine list \<Rightarrow>
    PooledRemoteMachine option \<times> PooledRemoteMachine option" where
  \<comment> \<open>the loop over the pooled machines: the one reserved for this name, and the first free one\<close>
  "scan_pool pool name free [] = (None, free)"
| "scan_pool pool name free (pm # pms) =
     (if prm_Pool pm = pool then
        if prs_Reserved (prm_Status pm) \<and> mr_Name (prs_MachineRef (prm_Status pm)) = name then (Some pm, free)
        else scan_pool pool name (if \<not> prs_Reserved (prm_Status pm) \<and> free = None then Some pm else free) pms
      else scan_pool pool name free pms)"

definition machine_ref :: "objmeta \<Rightarrow> RemoteMachineRef" where
  "machine_ref m = \<lparr>mr_Name = om_Name m, mr_Namespace = om_Namespace m\<rparr>"

definition reserved_for :: "RemoteMachineRef \<Rightarrow> PooledRemoteMachine \<Rightarrow> PooledRemoteMachine" where
  "reserved_for ref pm = pm\<lparr>prm_Status := \<lparr>prs_Reserved = True, prs_MachineRef = ref\<rparr>\<rparr>"

definition populate :: "PooledRemoteMachine \<Rightarrow> RemoteMachine \<Rightarrow> RemoteMachine" where
  "populate pm rm =
     rm\<lparr>rm_Meta := (rm_Meta rm)\<lparr>om_Labels := mergedMap (om_Labels (rm_Meta rm)) (om_Labels (prm_Meta pm)),
          om_Annotations := mergedMap (om_Annotations (rm_Meta rm)) (om_Annotations (prm_Meta pm))\<rparr>,
        rm_Spec := (rm_Spec rm)\<lparr>rms_Address := pms_Address (prm_Machine pm), rms_Port := pms_Port (prm_Machine pm),
          rms_User := pms_User (prm_Machine pm), rms_SSHKeyRef := pms_SSHKeyRef (prm_Machine pm),
          rms_UseSudo := pms_UseSudo (prm_Machine pm), rms_CommandsAsScript := pms_CommandsAsScript (prm_Machine pm),
          rms_WorkingDir := pms_WorkingDir (prm_Machine pm), rms_CleanUpCommands := pms_CleanUpCommands (prm_Machine pm)\<rparr>\<rparr>"

definition reservePooledMachineAndPopulateRemoteMachine :: "rm_env \<Rightarrow> unit rmM" where
  "reservePooledMachineAndPopulateRemoteMachine E =
     bindM theRm (\<lambda>rm.
     bindM (wrapM (Wrapf ''failed to list pooled machines'')
        (rmread ''pooledremotemachines'' (\<lambda>tr. re_ListPooled E tr (Some (om_Namespace (rm_Meta rm)))))) (\<lambda>items.
     case scan_pool (rms_Pool (rm_Spec rm)) (om_Name (rm_Meta rm)) None (sort_key pooled_name items) of
       (Some pm, _) \<Rightarrow> setRm (populate pm)
     | (None, None) \<Rightarrow> failM ErrPooledMachineNotFound
     | (None, Some pm) \<Rightarrow>
         bindM (wrapM (Wrapf ''failed to update pooled machine status'') (rmwrite E (UpdatePooledStatus (reserved_for (machine_ref (rm_Meta rm)) pm)))) (\<lambda>_.
         setRm (populate pm))))"

definition held_by :: "RemoteMachineRef \<Rightarrow> PooledRemoteMachine \<Rightarrow> bool" where
  "held_by ref pm \<longleftrightarrow> prs_Reserved (prm_Status pm) \<and> mr_Name (prs_MachineRef (prm_Status pm)) = mr_Name ref \<and>
     mr_Namespace (prs_MachineRef (prm_Status pm)) = mr_Namespace ref"

definition unreserved :: "PooledRemoteMachine \<Rightarrow> PooledRemoteMachine" where
  "unreserved pm = pm\<lparr>prm_Status := \<lparr>prs_Reserved = False, prs_MachineRef = \<lparr>mr_Name = [], mr_Namespace = []\<rparr>\<rparr>\<rparr>"

definition returnMachineToPool :: "rm_env \<Rightarrow> unit rmM" where
  "returnMachineToPool E =
     bindM theRm (\<lambda>rm.
     if rms_Pool (rm_Spec rm) = [] then ret ()
     else
       bindM (wrapM (Wrapf ''failed to list pooled machines'') (rmread ''pooledremotemachines'' (\<lambda>tr. re_ListPooled E tr None))) (\<lambda>items.
       if items = [] then
         if rm_deleted rm then ret () else failM (Errorf (''no pooled machines found for pool '' @ rms_Pool (rm_Spec rm)))
       else case find (held_by (machine_ref (rm_Meta rm))) items of
         Some pm \<Rightarrow> wrapM (Wrapf ''failed to update pooled machine'') (rmwrite E (UpdatePooledStatus (unreserved pm)))
       | None \<Rightarrow> ret ()))"

subsection \<open>Status\<close>

definition set_rm_condition :: "rm_env \<Rightarrow> int \<Rightarrow> condition \<Rightarrow> RemoteMachineStatus \<Rightarrow> RemoteMachineStatus" where
  "set_rm_condition E now c st = st\<lparr>rmt_Conditions := cond_Set (re_conds E) now (rmt_Conditions st) c\<rparr>"

definition set_exec_condition :: "rm_env \<Rightarrow> cstatus \<Rightarrow> string \<Rightarrow> string \<Rightarrow> unit rmM" where
  \<comment> \<open>\<open>conditions.Set\<close> of the bootstrap condition\<close>
  "set_exec_condition E st reason message =
     bindM (rmread ''clock'' (\<lambda>tr. Inr (re_Now E tr))) (\<lambda>now.
     setRm (setStatus (set_rm_condition E now (mk_condition RemoteMachineBootstrapExecSucceededCondition st reason message))))"

definition exec_succeeded :: "rm_env \<Rightarrow> RemoteMachineStatus \<Rightarrow> bool" where
  "exec_succeeded E st = cond_IsTrue (re_conds E) (rmt_Conditions st) RemoteMachineBootstrapExecSucceededCondition"

definition remote_updateStatus :: "rm_env \<Rightarrow> int \<Rightarrow> gerror option \<Rightarrow> RemoteMachine \<Rightarrow> RemoteMachine" where
  "remote_updateStatus E now reconcileErr rm =
     (let st0 = (rm_Status rm)\<lparr>rmt_Deprecated := None\<rparr>;
          st1 = (case reconcileErr of None \<Rightarrow> st0 | Some e \<Rightarrow> SetFailures ''ProvisionFailed'' (error_text e) st0);
          st2 = (if exec_succeeded E st1
                 then st1\<lparr>rmt_Provisioned := Some True, rmt_Addresses := Some [(''ExternalIP'', rms_Address (rm_Spec rm))]\<rparr> else st1);
          available = (case re_Summary E (rmt_Conditions st2) RemoteMachineReadyCondition [RemoteMachineBootstrapExecSucceededCondition] of
             Inr c \<Rightarrow> c
           | Inl _ \<Rightarrow> mk_condition RemoteMachineReadyCondition ConditionUnknown remote_InternalErrorReason ''Check controller logs for errors'')
      in rm\<lparr>rm_Status := set_rm_condition E now available st2\<rparr>)"

definition remote_report_status :: "rm_env \<Rightarrow> result res \<Rightarrow> result rmM" where
  \<comment> \<open>the deferred closure: where the body panics, the named error is still nil\<close>
  "remote_report_status E r =
     bindM (rmread ''clock'' (\<lambda>tr. Inr (re_Now E tr))) (\<lambda>now.
     bindM (setRm (remote_updateStatus E now (case r of Err e \<Rightarrow> Some e | _ \<Rightarrow> None))) (\<lambda>_.
     bindM theRm (\<lambda>rm.
     bindM (ignoring (rmwrite E (PatchRemoteMachine rm))) (\<lambda>_.
     liftR r))))"

subsection \<open>The reconciler\<close>

datatype remote_provisioner = JobProvisioner ProvisionJob InputProvisionData | SSHProvisioner string InputProvisionData

fun Provision :: "rm_env \<Rightarrow> string \<Rightarrow> remote_provisioner \<Rightarrow> unit rmM" where
  "Provision E clusterName (JobProvisioner pj ci) = JobProvisioner_Provision E pj clusterName ci"
| "Provision E clusterName (SSHProvisioner key ci) = SSHProvisioner_Provision E key ci"

fun Cleanup :: "rm_env \<Rightarrow> remote_provisioner \<Rightarrow> RemoteMachineMode \<Rightarrow> unit rmM" where
  "Cleanup E (JobProvisioner pj ci) mode = ret ()"
| "Cleanup E (SSHProvisioner key ci) mode = SSHProvisioner_Cleanup E key ci mode"

definition secret_value :: "(string \<rightharpoonup> string) \<Rightarrow> string" where
  \<comment> \<open>\<open>secret.Data["value"]\<close>, nil where there is none\<close>
  "secret_value d = (case d ''value'' of None \<Rightarrow> [] | Some v \<Rightarrow> v)"

definition getSSHKey :: "rm_env \<Rightarrow> string rmM" where
  "getSSHKey E = bindM theRm (\<lambda>rm.
     bindM (rmread ''secret'' (\<lambda>tr. re_GetSecret E tr (om_Namespace (rm_Meta rm), rms_SSHKeyRef (rm_Spec rm)))) (\<lambda>d. ret (secret_value d)))"

definition getBootstrapData :: "rm_env \<Rightarrow> owner_machine \<Rightarrow> string rmM" where
  "getBootstrapData E m =
     (case mo_DataSecretName m of
        None \<Rightarrow> failM (Errorf (''wait for bootstap secret for the machine: '' @ m_Name m))
      | Some n \<Rightarrow> bindM (rmread ''secret'' (\<lambda>tr. re_GetSecret E tr (m_Namespace m, n))) (\<lambda>d. ret (secret_value d)))"

definition bootstrap_input :: "rm_env \<Rightarrow> owner_machine \<Rightarrow> InputProvisionData rmM" where
  \<comment> \<open>fetch and parse; a missing secret is empty data where the machine is being deleted\<close>
  "bootstrap_input E m =
     bindM (tryM (getBootstrapData E m) (\<lambda>r. case r of
         Inr d \<Rightarrow> ret d
       | Inl e \<Rightarrow> if is_not_found e \<and> m_DeletionTimestamp m \<noteq> None then ret [] else failM e)) (\<lambda>d.
     wrapM (Wrapf ''failed to parse bootstrap data'') (liftE (re_Unmarshal E d)))"

definition pick_provisioner :: "rm_env \<Rightarrow> InputProvisionData \<Rightarrow> remote_provisioner rmM" where
  "pick_provisioner E ci =
     bindM theRm (\<lambda>rm.
     case rms_ProvisionJob (rm_Spec rm) of
       Some pj \<Rightarrow> ret (JobProvisioner pj ci)
     | None \<Rightarrow> bindM (getSSHKey E) (\<lambda>key. ret (SSHProvisioner key ci)))"

definition machine_mode :: "owner_machine \<Rightarrow> RemoteMachineMode" where
  "machine_mode m =
     (if r_Kind (m_ConfigRef m) = ''K0sWorkerConfig'' then ModeWorker
      else if r_Kind (m_ConfigRef m) = ''K0sControllerConfig'' then ModeController
      else ModeNonK0s)"

definition drop_finalizer :: "RemoteMachine \<Rightarrow> RemoteMachine" where
  "drop_finalizer rm = rm\<lparr>rm_Meta := (rm_Meta rm)\<lparr>om_Finalizers := removeAll RemoteMachineFinalizer (om_Finalizers (rm_Meta rm))\<rparr>\<rparr>"

definition remote_delete :: "rm_env \<Rightarrow> owner_machine \<Rightarrow> remote_provisioner \<Rightarrow> result rmM" where
  "remote_delete E m p =
     bindM theRm (\<lambda>rm.
     if RemoteMachineFinalizer \<in> set (om_Finalizers (rm_Meta rm)) then
       bindM (ignoring (Cleanup E p (machine_mode m))) (\<lambda>_.
       bindM (if rms_Pool (rm_Spec rm) \<noteq> [] then returnMachineToPool E else ret ()) (\<lambda>_.
       bindM (setRm drop_finalizer) (\<lambda>_.
       ret zero_result)))
     else ret zero_result)"

definition is_conflict :: "gerror \<Rightarrow> bool" where
  "is_conflict e \<longleftrightarrow> error_reason e = Some Conflict"

fun retry_on_conflict :: "nat \<Rightarrow> unit rmM \<Rightarrow> unit rmM" where
  \<comment> \<open>\<open>retry.RetryOnConflict\<close> with a number of attempts after the first\<close>
  "retry_on_conflict 0 m = m"
| "retry_on_conflict (Suc k) m = tryM m (\<lambda>r. case r of Inr _ \<Rightarrow> ret () | Inl e \<Rightarrow> if is_conflict e then retry_on_conflict k m else failM e)"

definition labelled_machine :: "RemoteMachine \<Rightarrow> owner_machine \<Rightarrow> owner_machine" where
  \<comment> \<open>what the machine does not have is added; its labels are not nil, since its cluster was found by one\<close>
  "labelled_machine rm m =
     m\<lparr>m_Labels := om_Labels (rm_Meta rm) ++ m_Labels m, m_Annotations := om_Annotations (rm_Meta rm) ++ m_Annotations m\<rparr>"

definition remote_provider_id :: "RemoteMachineSpec \<Rightarrow> string" where
  "remote_provider_id sp = ''remote-machine://'' @ rms_Address sp @ '':'' @ show_int (rms_Port sp)"

definition remote_provision :: "rm_env \<Rightarrow> owner_machine \<Rightarrow> remote_provisioner \<Rightarrow> result rmM" where
  "remote_provision E m p =
     bindM (tryM (Provision E (m_ClusterName m) p) (\<lambda>r. case r of
         Inr _ \<Rightarrow> ret ()
       | Inl e \<Rightarrow>
           bindM (set_exec_condition E ConditionFalse remote_InternalErrorReason ''Check the bootstrap logs for more details'') (\<lambda>_.
           failM (Wrapf ''failed to provision RemoteMachine'' e)))) (\<lambda>_.
     bindM (set_exec_condition E ConditionTrue RemoteMachineBootstrapExecSucceededReason []) (\<lambda>_.
     bindM (setRm (setSpec (\<lambda>sp. sp\<lparr>rms_ProviderID := remote_provider_id sp\<rparr>))) (\<lambda>_.
     bindM theRm (\<lambda>rm.
     bindM (retry_on_conflict 3 (rmwrite E (PatchOwnerMachine m (labelled_machine rm m)))) (\<lambda>_.
     ret zero_result)))))"

definition missing_fields :: "RemoteMachineSpec \<Rightarrow> bool" where
  "missing_fields sp \<longleftrightarrow> rms_ProvisionJob sp = None \<and> (rms_Address sp = [] \<or> rms_SSHKeyRef sp = [])"

definition remote_normal :: "rm_env \<Rightarrow> owner_machine \<Rightarrow> remote_provisioner \<Rightarrow> result rmM" where
  \<comment> \<open>what follows the deletion branch\<close>
  "remote_normal E m p =
     bindM theRm (\<lambda>rm.
     if rmt_Provisioned (rm_Status rm) = Some True then
       bindM (set_exec_condition E ConditionTrue RemoteMachineBootstrapExecSucceededReason []) (\<lambda>_. ret zero_result)
     else if rms_ProviderID (rm_Spec rm) \<noteq> [] then ret zero_result
     else if missing_fields (rm_Spec rm) then
       bindM (setRm (setStatus (SetFailures ''MissingFields'' ''If pool is empty, following fields are required: address, sshKeyRef''))) (\<lambda>_.
       ret \<lparr>Requeue = True, RequeueAfter = 0\<rparr>)
     else remote_provision E m p)"

definition remote_reconcile :: "rm_env \<Rightarrow> owner_machine \<Rightarrow> result rmM" where
  \<comment> \<open>what runs under the deferred status update\<close>
  "remote_reconcile E m =
     bindM (bootstrap_input E m) (\<lambda>ci.
     bindM theRm (\<lambda>rm.
     bindM (if rms_Pool (rm_Spec rm) \<noteq> [] \<and> \<not> rm_deleted rm then reservePooledMachineAndPopulateRemoteMachine E else ret ()) (\<lambda>_.
     bindM (pick_provisioner E ci) (\<lambda>p.
     if rm_deleted rm then remote_delete E m p else remote_normal E m p))))"

definition requeue_now :: result where
  "requeue_now = \<lparr>Requeue = True, RequeueAfter = 0\<rparr>"

definition remote_gates :: "rm_env \<Rightarrow> (owner_machine \<Rightarrow> result rmM) \<Rightarrow> result rmM" where
  \<comment> \<open>the early returns of \<open>Reconcile\<close> before the patch helper\<close>
  "remote_gates E go =
     bindM theRm (\<lambda>rm.
     bindM (rmread ''finalizer'' (\<lambda>tr. re_EnsureFinalizer E tr rm)) (\<lambda>added.
     if added then ret zero_result
     else
       bindM (rmread ''machine'' (\<lambda>tr. re_GetOwnerMachine E tr (rm_Meta rm))) (\<lambda>om.
       case om of
         None \<Rightarrow> ret requeue_now
       | Some m \<Rightarrow>
           bindM (rmread ''cluster'' (\<lambda>tr. re_GetClusterFromMetadata E tr m)) (\<lambda>oc.
           case oc of
             None \<Rightarrow> ret requeue_now
           | Some cl \<Rightarrow>
               if re_IsPaused E cl (rm_Meta rm) then ret zero_result
               else if \<not> cond_IsTrue (re_conds E) (cl_Conditions cl) ''InfrastructureReady'' then ret requeue_now
               else if mo_DataSecretName m = None then ret requeue_now
               else
                 bindM (rmread ''patch helper'' (\<lambda>tr. case re_NewPatchHelper E tr of None \<Rightarrow> Inr () | Some e \<Rightarrow> Inl e)) (\<lambda>_.
                 go m)))))"

definition RemoteMachine_Reconcile :: "rm_env \<Rightarrow> string \<times> string \<Rightarrow> result rmM" where
  "RemoteMachine_Reconcile E key =
     tryM (rmread ''remotemachine'' (\<lambda>tr. re_GetRemoteMachine E tr key)) (\<lambda>r.
     case r of
       Inl e \<Rightarrow> if is_not_found e then ret zero_result else failM e
     | Inr rm \<Rightarrow>
         bindM (setRm (\<lambda>_. rm)) (\<lambda>_.
         remote_gates E (\<lambda>m. deferNamedM (remote_reconcile E m) (remote_report_status E))))"

definition cancels_provisioning :: "gerror + RemoteMachine \<Rightarrow> bool" where
  \<comment> \<open>one tick of the goroutine: whether it cancels the context\<close>
  "cancels_provisioning r = (case r of Inl _ \<Rightarrow> False | Inr rm \<Rightarrow> rm_deleted rm)"

subsection \<open>Remote clusters\<close>

definition RemoteCluster_Reconcile :: "rm_env \<Rightarrow> string \<times> string \<Rightarrow> result rmM" where
  "RemoteCluster_Reconcile E key =
     tryM (rmread ''remotecluster'' (\<lambda>tr. re_GetRemoteCluster E tr key)) (\<lambda>r.
     case r of
       Inl e \<Rightarrow> if is_not_found e then ret zero_result else failM e
     | Inr c \<Rightarrow>
         if om_DeletionTimestamp (rc_Meta c) = None then
           bindM (rmread ''clock'' (\<lambda>tr. Inr (re_Now E tr))) (\<lambda>now.
           bindM (rmwrite E (UpdateRemoteClusterStatus (c\<lparr>rc_Provisioned := Some True,
              rc_Conditions := cond_Set (re_conds E) now (rc_Conditions c)
                (mk_condition RemoteClusterReadyCondition ConditionTrue RemoteClusterReadyReason [])\<rparr>))) (\<lambda>_.
           ret zero_result))
         else ret zero_result)"

end
