(* ===== verification/Remote_Properties.thy ===== *)
theory Remote_Properties
  imports Remote_Machine Reference_World
begin

text \<open>
  What is proved of the infrastructure controllers: quoting for the shell, the pools as a state machine with
  its abstract specification, the order of provisioning over SSH, the order of deletion, and what two defects do.
\<close>

subsection \<open>Runs\<close>

lemma rs_rm_log [simp]: "rs_rm (rm_log ev s) = rs_rm s"
  and rs_trace_log [simp]: "rs_trace (rm_log ev s) = rs_trace s @ [ev]"
  by (simp_all add: rm_log_def)

lemma run_rmread [simp]: "rmread what f s = liftE (f (rs_trace s)) (rm_log (RmRead what) s)"
  by (simp add: rmread_def)

lemma run_retErr_case: "retErr e s = (case e of None \<Rightarrow> (Ok (), s) | Some x \<Rightarrow> (Err x, s))"
  by (cases e) simp_all

lemma run_rmwrite: "rmwrite E w s = retErr (re_write E (rs_trace s) w) (rm_log (RmWrote w (re_write E (rs_trace s) w)) s)"
  by (simp add: rmwrite_def)

lemma run_sshM: "sshM E op s = retErr (re_ssh E (rs_trace s) op) (rm_log (Ssh op (re_ssh E (rs_trace s) op)) s)"
  by (simp add: sshM_def)

lemma run_theRm [simp]: "theRm s = (Ok (rs_rm s), s)"
  by (simp add: theRm_def)

lemma run_setRm [simp]: "setRm f s = (Ok (), s\<lparr>rs_rm := f (rs_rm s)\<rparr>)"
  by (simp add: setRm_def)

lemma setRm_trace [simp]: "rs_trace (s\<lparr>rs_rm := r\<rparr>) = rs_trace s"
  by simp

subsection \<open>Quoting\<close>

text \<open>
  How a POSIX shell splits a command into words, for the characters that can occur in a quoted argument: a single quote
  takes everything up to the next one literally, a backslash outside of quotes takes the next character.
\<close>

fun sh_words :: "bool \<Rightarrow> string option \<Rightarrow> string \<Rightarrow> string list option" where
  \<comment> \<open>whether inside of quotes, and the word begun, if any\<close>
  "sh_words True w [] = None"
| "sh_words False None [] = Some []"
| "sh_words False (Some w) [] = Some [w]"
| "sh_words True w (c # s) =
     (if c = CHR 0x27 then sh_words False w s else sh_words True (Some (deref [] w @ [c])) s)"
| "sh_words False w (c # s) =
     (if c = CHR 0x27 then sh_words True (Some (deref [] w)) s
      else if c = CHR 0x5C then
        (case s of [] \<Rightarrow> None | d # s' \<Rightarrow> sh_words False (Some (deref [] w @ [d])) s')
      else if c = CHR '' '' then
        (case w of None \<Rightarrow> sh_words False None s | Some v \<Rightarrow> map_option ((#) v) (sh_words False None s))
      else sh_words False (Some (deref [] w @ [c])) s)"

lemma sh_words_quoted:
  "sh_words True (Some w) (replace_all [CHR 0x27] [CHR 0x27, CHR 0x5C, CHR 0x27, CHR 0x27] t @ CHR 0x27 # s) =
     sh_words False (Some (w @ t)) s"
proof (induction t arbitrary: w)
  case (Cons c t)
  show ?case
    using Cons.IH [of "w @ [c]"] by (cases "c = CHR 0x27") (simp_all add: has_prefix_def)
qed simp

lemma sh_words_shellQuote: "sh_words False None (shellQuote t @ s) = sh_words False (Some t) s"
  using sh_words_quoted [of "[]" t s] by (simp add: shellQuote_def)

text \<open>
  C36 (roundtrip). Quoting protects from the shell: the command that gives a file away is, for the shell, exactly four words, the last two being the
  owner and the path as they are, whatever characters they contain.
\<close>
theorem chown_words:
  "sh_words False None (chown_command file) = Some [''chown'', ''--'', f_Owner file, f_Path file]"
  using sh_words_shellQuote [of "f_Owner file" "'' '' @ shellQuote (f_Path file)"] sh_words_shellQuote [of "f_Path file" "[]"]
  by (simp add: chown_command_def)

subsection \<open>Pools\<close>

text \<open>
  What the server holds of one namespace is a list of pooled machines. Reserving and returning are the successful
  updates of a reconciliation; a failed or conflicting update leaves the list as it is. The pool a remote machine asks for is fixed.
\<close>

definition holder :: "PooledRemoteMachine \<Rightarrow> string option" where
  "holder pm = (if prs_Reserved (prm_Status pm) then Some (mr_Name (prs_MachineRef (prm_Status pm))) else None)"

definition store_pooled :: "PooledRemoteMachine \<Rightarrow> PooledRemoteMachine list \<Rightarrow> PooledRemoteMachine list" where
  \<comment> \<open>the server replaces the object of that name\<close>
  "store_pooled pm ps = map (\<lambda>q. if pooled_name q = pooled_name pm then pm else q) ps"

definition pool_reserve :: "string \<Rightarrow> RemoteMachineRef \<Rightarrow> PooledRemoteMachine list \<Rightarrow> (PooledRemoteMachine \<times> PooledRemoteMachine list) option" where
  \<comment> \<open>what \<open>reservePooledMachineAndPopulateRemoteMachine\<close> does to the list\<close>
  "pool_reserve pool ref ps =
     (case scan_pool pool (mr_Name ref) None (sort_key pooled_name ps) of
        (Some pm, _) \<Rightarrow> Some (pm, ps)
      | (None, None) \<Rightarrow> None
      | (None, Some pm) \<Rightarrow> Some (pm, store_pooled (reserved_for ref pm) ps))"

definition pool_return :: "RemoteMachineRef \<Rightarrow> PooledRemoteMachine list \<Rightarrow> PooledRemoteMachine list" where
  \<comment> \<open>what \<open>returnMachineToPool\<close> does to it\<close>
  "pool_return ref ps = (case find (held_by ref) ps of Some pm \<Rightarrow> store_pooled (unreserved pm) ps | None \<Rightarrow> ps)"

lemma scan_pool_found:
  "scan_pool pool name free ps = (Some pm, free') \<Longrightarrow> pm \<in> set ps \<and> prm_Pool pm = pool \<and> holder pm = Some name"
  by (induction pool name free ps rule: scan_pool.induct) (auto simp: holder_def split: if_splits)

lemma scan_pool_none:
  "scan_pool pool name free ps = (None, free') \<Longrightarrow>
     (\<forall>pm \<in> set ps. prm_Pool pm = pool \<longrightarrow> holder pm \<noteq> Some name) \<and>
     free' = (case free of Some f \<Rightarrow> Some f | None \<Rightarrow> find (\<lambda>pm. prm_Pool pm = pool \<and> holder pm = None) ps)"
  by (induction pool name free ps rule: scan_pool.induct) (auto simp: holder_def split: if_splits option.splits)

lemma find_in_set: "find P xs = Some x \<Longrightarrow> x \<in> set xs \<and> P x"
  by (induction xs) (auto split: if_splits)

lemma find_none: "find P xs = None \<longleftrightarrow> (\<forall>x \<in> set xs. \<not> P x)"
  by (induction xs) auto

lemma scan_pool_free:
  assumes "scan_pool pool name None ps = (None, Some pm)"
  shows "pm \<in> set ps \<and> prm_Pool pm = pool \<and> holder pm = None"
  using scan_pool_none [OF assms] find_in_set [of "\<lambda>pm. prm_Pool pm = pool \<and> holder pm = None" ps pm] by simp

lemma find_sorted_least:
  assumes "find P (sort_key f xs) = Some x" and "y \<in> set xs" and "P y"
  shows "f x \<le> f y"
proof -
  have "find P zs = Some x \<Longrightarrow> sorted (map f zs) \<Longrightarrow> y \<in> set zs \<Longrightarrow> f x \<le> f y" for zs
    using \<open>P y\<close> by (induction zs) (auto split: if_splits)
  from this [OF assms(1)] assms(2) show ?thesis
    by simp
qed

lemma store_pooled_names [simp]: "map pooled_name (store_pooled pm ps) = map pooled_name ps"
  by (simp add: store_pooled_def)

lemma holder_status [simp]: "holder (reserved_for ref pm) = Some (mr_Name ref)" "holder (unreserved pm) = None"
  "pooled_name (reserved_for ref pm) = pooled_name pm" "pooled_name (unreserved pm) = pooled_name pm"
  "prm_Pool (reserved_for ref pm) = prm_Pool pm" "prm_Pool (unreserved pm) = prm_Pool pm"
  by (simp_all add: holder_def reserved_for_def unreserved_def pooled_name_def)

lemma run_reserve:
  "reservePooledMachineAndPopulateRemoteMachine E s =
     (let rm = rs_rm s; s1 = rm_log (RmRead ''pooledremotemachines'') s in
      case re_ListPooled E (rs_trace s) (Some (om_Namespace (rm_Meta rm))) of
        Inl e \<Rightarrow> (Err (Wrapf ''failed to list pooled machines'' e), s1)
      | Inr ps \<Rightarrow>
          (case pool_reserve (rms_Pool (rm_Spec rm)) (machine_ref (rm_Meta rm)) ps of
             None \<Rightarrow> (Err ErrPooledMachineNotFound, s1)
           | Some (pm, ps') \<Rightarrow>
               if holder pm \<noteq> None then (Ok (), s1\<lparr>rs_rm := populate pm rm\<rparr>)
               else let w = UpdatePooledStatus (reserved_for (machine_ref (rm_Meta rm)) pm); e = re_write E (rs_trace s1) w;
                        s2 = rm_log (RmWrote w e) s1 in
                 (case e of None \<Rightarrow> (Ok (), s2\<lparr>rs_rm := populate pm rm\<rparr>)
                  | Some x \<Rightarrow> (Err (Wrapf ''failed to update pooled machine status'' x), s2))))"
proof (cases "re_ListPooled E (rs_trace s) (Some (om_Namespace (rm_Meta (rs_rm s))))")
  case Inl
  then show ?thesis by (simp add: reservePooledMachineAndPopulateRemoteMachine_def run_simps)
next
  case list: (Inr ps)
  obtain found free where scan: "scan_pool (rms_Pool (rm_Spec (rs_rm s))) (om_Name (rm_Meta (rs_rm s))) None (sort_key pooled_name ps) = (found, free)"
    by fastforce
  show ?thesis
  proof (cases found)
    case (Some pm)
    then show ?thesis
      using scan_pool_found [of _ _ None "sort_key pooled_name ps" pm free] scan
      by (simp add: reservePooledMachineAndPopulateRemoteMachine_def run_simps list pool_reserve_def machine_ref_def)
  next
    case None
    with scan have "free = Some pm \<Longrightarrow> holder pm = None" for pm
      by (auto dest: scan_pool_free)
    with None scan show ?thesis
      by (auto simp: reservePooledMachineAndPopulateRemoteMachine_def run_simps list pool_reserve_def machine_ref_def
          run_rmwrite run_retErr_case Let_def split: option.splits)
  qed
qed

subsubsection \<open>Exclusive allocation\<close>

text \<open>
  The contract of an allocator: taking gives a client what it already holds, or else something free while it holds
  nothing; giving back frees what the client holds and nothing else. From it follows that no client
  ever holds two resources.
\<close>

locale allocator =
  fixes wf :: "'s \<Rightarrow> bool"
    and alloc :: "'s \<Rightarrow> 'r \<Rightarrow> 'c option"
    and take_one :: "'c \<Rightarrow> 's \<Rightarrow> ('r \<times> 's) option"
    and give_back :: "'c \<Rightarrow> 's \<Rightarrow> 's"
  assumes take_wf: "wf s \<Longrightarrow> take_one c s = Some (r, s') \<Longrightarrow> wf s'"
    and give_wf: "wf s \<Longrightarrow> wf (give_back c s)"
    and take_alloc: "wf s \<Longrightarrow> take_one c s = Some (r, s') \<Longrightarrow> alloc s' = (alloc s)(r \<mapsto> c)"
    and take_own_or_free: "wf s \<Longrightarrow> take_one c s = Some (r, s') \<Longrightarrow>
          alloc s r = Some c \<or> alloc s r = None \<and> c \<notin> ran (alloc s)"
    and give_one: "wf s \<Longrightarrow> \<exists>r. alloc (give_back c s) = (alloc s)(r := None) \<and> (alloc s r = Some c \<or> c \<notin> ran (alloc s) \<and> alloc s r = None)"
begin

definition exclusive :: "'s \<Rightarrow> bool" where
  "exclusive s \<longleftrightarrow> (\<forall>r r' c. alloc s r = Some c \<longrightarrow> alloc s r' = Some c \<longrightarrow> r = r')"

lemma take_exclusive:
  assumes "wf s" and "exclusive s" and "take_one c s = Some (r, s')"
  shows "exclusive s'"
  using take_alloc [OF assms(1,3)] take_own_or_free [OF assms(1,3)] assms(2)
  unfolding exclusive_def by (auto simp: ran_def split: if_splits)

lemma give_exclusive: "wf s \<Longrightarrow> exclusive s \<Longrightarrow> exclusive (give_back c s)"
  using give_one [of s c] unfolding exclusive_def by (auto split: if_splits)

lemma give_frees: "wf s \<Longrightarrow> exclusive s \<Longrightarrow> c \<notin> ran (alloc (give_back c s))"
  using give_one [of s c] unfolding exclusive_def by (auto simp: ran_def split: if_splits)

lemma others_keep:
  assumes "wf s" and "alloc s r = Some d" and "d \<noteq> c"
  shows "alloc (give_back c s) r = Some d" "take_one c s = Some (r', s') \<Longrightarrow> alloc s' r = Some d"
  using give_one [OF assms(1), of c] take_own_or_free [OF assms(1), of c r' s'] take_alloc [OF assms(1), of c r' s'] assms(2,3)
  by auto

end

definition pool_wf :: "(string \<Rightarrow> string) \<Rightarrow> string \<Rightarrow> PooledRemoteMachine list \<Rightarrow> bool" where
  \<comment> \<open>names are unique, and a reserved machine is of the pool and in the namespace of the one that holds it\<close>
  "pool_wf pool_of ns ps \<longleftrightarrow> distinct (map pooled_name ps) \<and>
     (\<forall>pm \<in> set ps. prs_Reserved (prm_Status pm) \<longrightarrow>
        prm_Pool pm = pool_of (mr_Name (prs_MachineRef (prm_Status pm))) \<and> mr_Namespace (prs_MachineRef (prm_Status pm)) = ns)"

definition pool_alloc :: "PooledRemoteMachine list \<Rightarrow> string \<Rightarrow> string option" where
  "pool_alloc ps n = (case find (\<lambda>pm. pooled_name pm = n) ps of None \<Rightarrow> None | Some pm \<Rightarrow> holder pm)"

definition pool_take :: "(string \<Rightarrow> string) \<Rightarrow> string \<Rightarrow> string \<Rightarrow> PooledRemoteMachine list \<Rightarrow> (string \<times> PooledRemoteMachine list) option" where
  "pool_take pool_of ns c ps =
     map_option (\<lambda>(pm, ps'). (pooled_name pm, ps')) (pool_reserve (pool_of c) \<lparr>mr_Name = c, mr_Namespace = ns\<rparr> ps)"

definition pool_give :: "string \<Rightarrow> string \<Rightarrow> PooledRemoteMachine list \<Rightarrow> PooledRemoteMachine list" where
  "pool_give ns c = pool_return \<lparr>mr_Name = c, mr_Namespace = ns\<rparr>"

lemma pool_alloc_member: "distinct (map pooled_name ps) \<Longrightarrow> pm \<in> set ps \<Longrightarrow> pool_alloc ps (pooled_name pm) = holder pm"
  by (induction ps) (auto simp: pool_alloc_def rev_image_eqI)

lemma find_store_other: "n \<noteq> pooled_name pm \<Longrightarrow> find (\<lambda>q. pooled_name q = n) (store_pooled pm ps) = find (\<lambda>q. pooled_name q = n) ps"
  by (induction ps) (auto simp: store_pooled_def)

lemma find_store_same:
  "\<exists>q \<in> set ps. pooled_name q = pooled_name pm \<Longrightarrow> find (\<lambda>q. pooled_name q = pooled_name pm) (store_pooled pm ps) = Some pm"
  by (induction ps) (auto simp: store_pooled_def)

lemma pool_alloc_store:
  assumes "\<exists>q \<in> set ps. pooled_name q = pooled_name pm"
  shows "pool_alloc (store_pooled pm ps) = (pool_alloc ps)(pooled_name pm := holder pm)"
  using find_store_same [OF assms] by (intro ext) (simp add: pool_alloc_def find_store_other)

lemma pool_alloc_holds: "pool_alloc ps n = Some c \<Longrightarrow> \<exists>pm \<in> set ps. pooled_name pm = n \<and> holder pm = Some c"
  by (auto simp: pool_alloc_def split: option.splits dest: find_in_set)

lemma pool_wf_store:
  assumes "pool_wf pool_of ns ps"
    and "prs_Reserved (prm_Status pm) \<Longrightarrow>
      prm_Pool pm = pool_of (mr_Name (prs_MachineRef (prm_Status pm))) \<and> mr_Namespace (prs_MachineRef (prm_Status pm)) = ns"
  shows "pool_wf pool_of ns (store_pooled pm ps)"
  using assms unfolding pool_wf_def store_pooled_names by (auto simp: store_pooled_def)

lemma pool_reserve_cases:
  assumes "pool_reserve pool ref ps = Some (pm, ps')"
  obtains (held) "pm \<in> set ps" "prm_Pool pm = pool" "holder pm = Some (mr_Name ref)" "ps' = ps"
  | (free) "pm \<in> set ps" "prm_Pool pm = pool" "holder pm = None" "ps' = store_pooled (reserved_for ref pm) ps"
      "\<And>q. q \<in> set ps \<Longrightarrow> prm_Pool q = pool \<Longrightarrow> holder q \<noteq> Some (mr_Name ref)"
      "\<And>q. q \<in> set ps \<Longrightarrow> prm_Pool q = pool \<Longrightarrow> holder q = None \<Longrightarrow> pooled_name pm \<le> pooled_name q"
proof -
  let ?P = "\<lambda>pm. prm_Pool pm = pool \<and> holder pm = None"
  obtain found free where scan: "scan_pool pool (mr_Name ref) None (sort_key pooled_name ps) = (found, free)"
    by fastforce
  show thesis
  proof (cases found)
    case (Some q)
    with assms scan have "q = pm" "ps' = ps"
      by (simp_all add: pool_reserve_def)
    with Some scan_pool_found [of pool "mr_Name ref" None "sort_key pooled_name ps" q free] scan show thesis
      by (intro held) simp_all
  next
    case None
    with assms scan have now: "free = Some pm" "ps' = store_pooled (reserved_for ref pm) ps"
      by (auto simp: pool_reserve_def split: option.splits)
    have none: "\<And>q. q \<in> set ps \<Longrightarrow> prm_Pool q = pool \<Longrightarrow> holder q \<noteq> Some (mr_Name ref)"
      and first: "find ?P (sort_key pooled_name ps) = Some pm"
      using scan_pool_none [of pool "mr_Name ref" None "sort_key pooled_name ps" free] scan None now(1) by auto
    show thesis
      using find_in_set [OF first] find_sorted_least [OF first] none now(2) by (intro free) simp_all
  qed
qed

lemma holder_Some: "holder pm = Some c \<longleftrightarrow> prs_Reserved (prm_Status pm) \<and> mr_Name (prs_MachineRef (prm_Status pm)) = c"
  by (auto simp: holder_def)

lemma pool_take_alloc:
  assumes wf: "pool_wf pool_of ns ps" and "pool_take pool_of ns c ps = Some (r, ps')"
  shows "pool_wf pool_of ns ps'" and "pool_alloc ps' = (pool_alloc ps)(r \<mapsto> c)"
    and "pool_alloc ps r = Some c \<or> pool_alloc ps r = None \<and> c \<notin> ran (pool_alloc ps)"
proof -
  let ?ref = "\<lparr>mr_Name = c, mr_Namespace = ns\<rparr>"
  from assms(2) obtain pm where res: "pool_reserve (pool_of c) ?ref ps = Some (pm, ps')" and r: "r = pooled_name pm"
    by (auto simp: pool_take_def)
  have distinct: "distinct (map pooled_name ps)"
    using wf by (simp add: pool_wf_def)
  from res have "pool_wf pool_of ns ps' \<and> pool_alloc ps' = (pool_alloc ps)(r \<mapsto> c) \<and>
    (pool_alloc ps r = Some c \<or> pool_alloc ps r = None \<and> c \<notin> ran (pool_alloc ps))"
  proof (cases rule: pool_reserve_cases)
    case held
    then show ?thesis
      using wf r pool_alloc_member [OF distinct held(1)] by auto
  next
    case free
    have "pool_wf pool_of ns ps'"
      unfolding free(4) using wf by (rule pool_wf_store) (simp add: reserved_for_def free(2))
    moreover have "pool_alloc ps' = (pool_alloc ps)(r \<mapsto> c)"
      using free(1,4) r pool_alloc_store [of ps "reserved_for ?ref pm"] by auto
    moreover have "prm_Pool q = pool_of c" if "q \<in> set ps" "holder q = Some c" for q
      using that wf by (auto simp: pool_wf_def holder_Some)
    then have "c \<notin> ran (pool_alloc ps)"
      using free(5) by (auto simp: ran_def dest!: pool_alloc_holds)
    ultimately show ?thesis
      using pool_alloc_member [OF distinct free(1)] free(3) r \<open>c \<notin> ran (pool_alloc ps)\<close> by simp
  qed
  then show "pool_wf pool_of ns ps'" "pool_alloc ps' = (pool_alloc ps)(r \<mapsto> c)"
    "pool_alloc ps r = Some c \<or> pool_alloc ps r = None \<and> c \<notin> ran (pool_alloc ps)"
    by auto
qed

lemma pool_give_alloc:
  assumes wf: "pool_wf pool_of ns ps"
  shows "pool_wf pool_of ns (pool_give ns c ps)"
    and "\<exists>r. pool_alloc (pool_give ns c ps) = (pool_alloc ps)(r := None) \<and>
          (pool_alloc ps r = Some c \<or> c \<notin> ran (pool_alloc ps) \<and> pool_alloc ps r = None)"
proof -
  let ?ref = "\<lparr>mr_Name = c, mr_Namespace = ns\<rparr>"
  have held: "held_by ?ref pm \<longleftrightarrow> holder pm = Some c" if "pm \<in> set ps" for pm
    using wf that by (auto simp: pool_wf_def held_by_def holder_Some)
  have "pool_wf pool_of ns (pool_give ns c ps) \<and> (\<exists>r. pool_alloc (pool_give ns c ps) = (pool_alloc ps)(r := None) \<and>
          (pool_alloc ps r = Some c \<or> c \<notin> ran (pool_alloc ps) \<and> pool_alloc ps r = None))"
  proof (cases "find (held_by ?ref) ps")
    case None
    then have "c \<notin> ran (pool_alloc ps)"
      by (auto simp: ran_def find_none held dest!: pool_alloc_holds)
    moreover obtain r where "pool_alloc ps r = None"
      using pool_alloc_holds [of ps] ex_new_if_finite [OF infinite_UNIV_listI, of "pooled_name ` set ps"]
      by (metis List.finite_set finite_imageI imageI not_None_eq)
    ultimately show ?thesis
      using None wf by (auto simp: pool_give_def pool_return_def fun_upd_idem intro!: exI [of _ r])
  next
    case (Some pm)
    then have pm: "pm \<in> set ps" "holder pm = Some c"
      using find_in_set [OF Some] held by auto
    have "pool_wf pool_of ns (store_pooled (unreserved pm) ps)"
      using wf by (rule pool_wf_store) (simp add: unreserved_def)
    moreover have "pool_alloc (store_pooled (unreserved pm) ps) = (pool_alloc ps)(pooled_name pm := None)"
      using pm(1) pool_alloc_store [of ps "unreserved pm"] by auto
    moreover have "pool_alloc ps (pooled_name pm) = Some c"
      using wf pm pool_alloc_member [of ps pm] by (simp add: pool_wf_def)
    ultimately show ?thesis
      using Some by (auto simp: pool_give_def pool_return_def)
  qed
  then show "pool_wf pool_of ns (pool_give ns c ps)"
    "\<exists>r. pool_alloc (pool_give ns c ps) = (pool_alloc ps)(r := None) \<and>
          (pool_alloc ps r = Some c \<or> c \<notin> ran (pool_alloc ps) \<and> pool_alloc ps r = None)"
    by auto
qed

interpretation pools: allocator "pool_wf pool_of ns" pool_alloc "pool_take pool_of ns" "pool_give ns" for pool_of ns
  by unfold_locales (fact pool_take_alloc pool_give_alloc)+

inductive pool_step :: "(string \<Rightarrow> string) \<Rightarrow> string \<Rightarrow> PooledRemoteMachine list \<Rightarrow> PooledRemoteMachine list \<Rightarrow> bool"
  for pool_of :: "string \<Rightarrow> string" and ns :: string where
  Reserve: "pool_reserve (pool_of c) \<lparr>mr_Name = c, mr_Namespace = ns\<rparr> ps = Some (pm, ps') \<Longrightarrow> pool_step pool_of ns ps ps'"
| Return: "pool_step pool_of ns ps (pool_return \<lparr>mr_Name = c, mr_Namespace = ns\<rparr> ps)"

definition all_free :: "PooledRemoteMachine list \<Rightarrow> bool" where
  "all_free ps \<longleftrightarrow> distinct (map pooled_name ps) \<and> list_all (\<lambda>pm. \<not> prs_Reserved (prm_Status pm)) ps"

lemma pool_step_keeps:
  assumes "pool_step pool_of ns ps ps'" and "pool_wf pool_of ns ps \<and> pools.exclusive ps"
  shows "pool_wf pool_of ns ps' \<and> pools.exclusive ps'"
  using assms(1)
proof cases
  case (Reserve c pm)
  then have "pool_take pool_of ns c ps = Some (pooled_name pm, ps')"
    by (simp add: pool_take_def)
  with assms(2) show ?thesis
    using pools.take_wf pools.take_exclusive by blast
next
  case (Return c)
  then show ?thesis
    using assms(2) pools.give_wf [of pool_of ns ps c] pools.give_exclusive [of pool_of ns ps c] by (simp add: pool_give_def)
qed

lemma pool_run_keeps:
  assumes "(pool_step pool_of ns)\<^sup>*\<^sup>* ps ps'" and "all_free ps"
  shows "pool_wf pool_of ns ps' \<and> pools.exclusive ps'"
  using assms(1)
proof (induction rule: rtranclp_induct)
  case base
  have free: "\<not> prs_Reserved (prm_Status pm)" if "pm \<in> set ps" for pm
    using assms(2) that by (simp add: all_free_def list_all_iff)
  then have "pool_alloc ps n = None" for n
    by (auto simp: pool_alloc_def holder_def split: option.splits dest: find_in_set)
  with free assms(2) show ?case
    by (simp add: pool_wf_def pools.exclusive_def all_free_def)
qed (rule pool_step_keeps)

text \<open>
  C14 (invariant). Pools never give two machines to one: starting from a pool in which everything is free, whatever sequence of
  successful reservations and returns the remote machines of a namespace make, no two pooled machines are reserved for the same remote
  machine, and every reserved machine is of the pool that remote machine asked for.
\<close>
theorem pools_stay_exclusive:
  assumes "(pool_step pool_of ns)\<^sup>*\<^sup>* ps ps'" and "all_free ps"
    and "pm \<in> set ps'" and "q \<in> set ps'" and "holder pm = Some c" and "holder q = Some c"
  shows "pm = q \<and> prm_Pool pm = pool_of c"
proof -
  have wf: "pool_wf pool_of ns ps'" and ex: "pools.exclusive ps'"
    using pool_run_keeps [OF assms(1,2)] by auto
  then have d: "distinct (map pooled_name ps')"
    by (simp add: pool_wf_def)
  have "pooled_name pm = pooled_name q"
    using ex pool_alloc_member [OF d assms(3)] pool_alloc_member [OF d assms(4)] assms(5,6) by (auto simp: pools.exclusive_def)
  then have "pm = q"
    using d assms(3,4) by (simp add: distinct_map inj_on_def)
  moreover have "prm_Pool pm = pool_of c"
    using wf assms(3,5) by (auto simp: pool_wf_def holder_Some)
  ultimately show ?thesis
    by simp
qed

definition sample_pooled :: "string \<Rightarrow> PooledRemoteMachine" where
  "sample_pooled n =
     \<lparr>prm_Meta = \<lparr>om_Name = n, om_Namespace = ''ns'', om_UID = [], om_Labels = Map.empty, om_Annotations = Map.empty,
        om_OwnerReferences = [], om_Finalizers = [], om_CreationTimestamp = 0, om_DeletionTimestamp = None\<rparr>, prm_Pool = ''p'',
      prm_Machine = \<lparr>pms_Address = ''10.0.0.'' @ n, pms_Port = 22, pms_User = ''root'', pms_UseSudo = False, pms_CommandsAsScript = False,
        pms_WorkingDir = [], pms_CleanUpCommands = None, pms_SSHKeyRef = ''key''\<rparr>,
      prm_Status = \<lparr>prs_Reserved = False, prs_MachineRef = \<lparr>mr_Name = [], mr_Namespace = []\<rparr>\<rparr>\<rparr>"

definition sample_pool :: "PooledRemoteMachine list" where
  "sample_pool = [sample_pooled ''2'', sample_pooled ''1'']"

abbreviation sample_ref :: "string \<Rightarrow> RemoteMachineRef" where
  "sample_ref c \<equiv> \<lparr>mr_Name = c, mr_Namespace = ''ns''\<rparr>"

lemmas sample_pool_simps = pool_reserve_def store_pooled_def reserved_for_def sample_pool_def sample_pooled_def pooled_name_def
  holder_def pool_return_def held_by_def unreserved_def

lemma sample_pool_run:
  "(pool_step (\<lambda>_. ''p'') ''ns'')\<^sup>*\<^sup>* sample_pool [reserved_for (sample_ref ''b'') (sample_pooled ''2''), reserved_for (sample_ref ''a'') (sample_pooled ''1'')]"
proof -
  have one: "pool_step (\<lambda>_. ''p'') ''ns'' sample_pool [sample_pooled ''2'', reserved_for (sample_ref ''a'') (sample_pooled ''1'')]"
    by (rule pool_step.Reserve [where c = "''a''" and pm = "sample_pooled ''1''"]) (simp add: sample_pool_simps)
  have two: "pool_step (\<lambda>_. ''p'') ''ns'' [sample_pooled ''2'', reserved_for (sample_ref ''a'') (sample_pooled ''1'')]
      [reserved_for (sample_ref ''b'') (sample_pooled ''2''), reserved_for (sample_ref ''a'') (sample_pooled ''1'')]"
    by (rule pool_step.Reserve [where c = "''b''" and pm = "sample_pooled ''2''"]) (simp add: sample_pool_simps)
  show ?thesis
    by (rule converse_rtranclp_into_rtranclp [OF one r_into_rtranclp [of "pool_step (\<lambda>_. ''p'') ''ns''", OF two]])
qed

theorem pools_stay_exclusive_witness:
  "prm_Pool (reserved_for (sample_ref ''b'') (sample_pooled ''2'')) = ''p''"
proof -
  have free: "all_free sample_pool"
    by (simp add: all_free_def sample_pool_simps)
  show ?thesis
    using pools_stay_exclusive [OF sample_pool_run free, of "reserved_for (sample_ref ''b'') (sample_pooled ''2'')"
        "reserved_for (sample_ref ''b'') (sample_pooled ''2'')" "''b''"] by simp
qed

text \<open>The effect of a run on what the server holds: its successful updates, in their order.\<close>

fun server_after :: "rm_event list \<Rightarrow> PooledRemoteMachine list \<Rightarrow> PooledRemoteMachine list" where
  "server_after [] ps = ps"
| "server_after (RmWrote (UpdatePooledStatus pm) None # evs) ps = server_after evs (store_pooled pm ps)"
| "server_after (ev # evs) ps = server_after evs ps"

definition rm_events :: "rm_state \<Rightarrow> rm_state \<Rightarrow> rm_event list" where
  "rm_events s t = drop (length (rs_trace s)) (rs_trace t)"


subsection \<open>Provisioning over SSH\<close>

definition after :: "rm_state \<Rightarrow> rm_event list \<Rightarrow> rm_state" where
  "after s evs = s\<lparr>rs_trace := rs_trace s @ evs\<rparr>"

lemma after_simps [simp]: "rs_rm (after s evs) = rs_rm s" "rs_trace (after s evs) = rs_trace s @ evs"
  "after (after s a) b = after s (a @ b)" "rm_events s (after s evs) = evs" "after s [] = s"
  by (simp_all add: after_def rm_events_def)

lemma rm_log_after: "rm_log ev s = after s [ev]"
  by (simp add: rm_log_def after_def)

lemma sshM_OkD: "sshM E op s = (Ok x, t) \<Longrightarrow> t = after s [Ssh op None]"
  by (auto simp: run_sshM run_retErr_case rm_log_after split: option.splits)

lemma wrapped_sshM_OkD: "wrapM g (sshM E op) s = (Ok x, t) \<Longrightarrow> t = after s [Ssh op None]"
  by (erule wrapM_OkE) (rule sshM_OkD)

lemma ignoring_sshM: "ignoring (sshM E op) s = (Ok (), after s [Ssh op (re_ssh E (rs_trace s) op)])"
  by (simp add: ignoring_def run_simps run_sshM run_retErr_case rm_log_after split: option.splits)

lemma deferM_ignoring_OkE:
  assumes "deferM m (ignoring (sshM E op)) s = (Ok x, t)"
  obtains u e where "m s = (Ok x, u)" and "t = after u [Ssh op e]"
  using assms by (auto simp: run_deferM ignoring_sshM split: prod.splits)

lemma for_each_OkD:
  assumes step: "\<And>x s t. f x s = (Ok (), t) \<Longrightarrow> \<exists>evs. t = after s evs \<and> P x evs"
    and "for_each f xs s = (Ok (), t)"
  shows "\<exists>evss. list_all2 P xs evss \<and> t = after s (concat evss)"
  using assms(2)
proof (induction xs arbitrary: s)
  case Nil
  then show ?case by (intro exI [of _ "[]"]) simp
next
  case (Cons x xs)
  from Cons.prems obtain u where "f x s = (Ok (), u)" and rest: "for_each f xs u = (Ok (), t)"
    by (auto elim: bindM_OkE)
  with step obtain evs where evs: "u = after s evs" "P x evs"
    by blast
  from Cons.IH [OF rest] obtain evss where "list_all2 P xs evss" "t = after u (concat evss)"
    by blast
  with evs show ?case
    by (intro exI [of _ "evs # evss"]) simp
qed

fun directory_event :: "rm_event \<Rightarrow> bool" where
  "directory_event (Ssh (Stat _ _) _) = True"
| "directory_event (Ssh (MkDirAll _ _ _) e) = (e = None)"
| "directory_event _ = False"

definition uploaded :: "bool \<Rightarrow> File \<Rightarrow> rm_event list \<Rightarrow> bool" where
  \<comment> \<open>what a successful upload does: its directory, then the file with its mode and decoded content, then its owner\<close>
  "uploaded sudo f evs \<longleftrightarrow> (\<exists>perms content dirs e. PermissionsAsInt f = Inr perms \<and> DecodedContent f = Inr content \<and> \<not> f_Append f \<and>
     list_all directory_event dirs \<and>
     evs = dirs @ [Ssh (OpenFile sudo (f_Path f) perms) None, Ssh (WriteFile (f_Path f) content) None] @
       (if f_Owner f = [] then [] else [Ssh (Exec sudo (chown_command f)) None]) @ [Ssh (CloseFile (f_Path f)) e])"

lemma ensure_dir_OkD: "ensure_dir E sudo dir s = (Ok x, t) \<Longrightarrow> \<exists>dirs. t = after s dirs \<and> list_all directory_event dirs"
  by (auto simp: ensure_dir_def run_simps run_sshM run_retErr_case rm_log_after split: option.splits if_splits)

lemma set_file_owner_OkD:
  "set_file_owner E sudo f s = (Ok x, t) \<Longrightarrow> t = after s (if f_Owner f = [] then [] else [Ssh (Exec sudo (chown_command f)) None])"
  by (auto simp: set_file_owner_def split: if_splits elim!: bindM_OkE dest: wrapped_sshM_OkD)

lemma liftE_OkD: "liftE r s = (Ok x, t) \<Longrightarrow> r = Inr x \<and> t = s"
  by (cases r) auto

lemma uploadFile_OkD:
  assumes "uploadFile E sudo f s = (Ok (), t)"
  shows "\<exists>evs. t = after s evs \<and> uploaded sudo f evs"
proof -
  from assms obtain perms where perms: "PermissionsAsInt f = Inr perms" and "\<not> f_Append f"
    and 1: "bindM (liftE (DecodedContent f)) (\<lambda>content.
       bindM (ensure_dir E sudo (filepath_dir (replace_all [CHR 0x5C] ''/'' (f_Path f)))) (\<lambda>_.
       bindM (wrapM (Wrapf ''failed to open remote file for writing'') (sshM E (OpenFile sudo (f_Path f) perms))) (\<lambda>_.
       deferM
         (bindM (wrapM (Wrapf ''failed to write to remote file'') (sshM E (WriteFile (f_Path f) content))) (\<lambda>_. set_file_owner E sudo f))
         (ignoring (sshM E (CloseFile (f_Path f))))))) s = (Ok (), t)"
    unfolding uploadFile_def by (elim bindM_OkE wrapM_OkE) (auto dest: liftE_OkD split: if_splits)
  from 1 obtain content dirs v e where "DecodedContent f = Inr content" "list_all directory_event dirs"
    and owner: "set_file_owner E sudo f (after s (dirs @ [Ssh (OpenFile sudo (f_Path f) perms) None, Ssh (WriteFile (f_Path f) content) None])) = (Ok (), v)"
    and "t = after v [Ssh (CloseFile (f_Path f)) e]"
    by (elim bindM_OkE deferM_ignoring_OkE) (auto dest!: liftE_OkD ensure_dir_OkD wrapped_sshM_OkD)
  with perms \<open>\<not> f_Append f\<close> set_file_owner_OkD [OF owner] show ?thesis
    by (auto simp: uploaded_def)
qed

lemma run_commands_OkD:
  assumes "run_commands E sudo cmds s = (Ok (), t)"
  shows "t = after s (map (\<lambda>c. Ssh (Exec sudo c) None) cmds)"
proof -
  have "list_all2 (\<lambda>c evs. evs = [Ssh (Exec sudo c) None]) cs evss \<Longrightarrow> concat evss = map (\<lambda>c. Ssh (Exec sudo c) None) cs" for cs evss
    by (induction rule: list_all2_induct) auto
  moreover obtain evss where "list_all2 (\<lambda>c evs. evs = [Ssh (Exec sudo c) None]) cmds evss" "t = after s (concat evss)"
    using for_each_OkD [of _ "\<lambda>c evs. evs = [Ssh (Exec sudo c) None]", OF _ assms [unfolded run_commands_def]]
    by (auto dest: wrapped_sshM_OkD)
  ultimately show ?thesis
    by simp
qed

lemma provision_trace:
  assumes "SSHProvisioner_Provision E key ci s = (Ok (), t)"
  defines "sp \<equiv> rm_Spec (rs_rm s)"
  shows "\<exists>uploads e.
     list_all2 (uploaded (rms_UseSudo sp)) (ip_Files ci @ (if rms_CommandsAsScript sp then [install_script (rs_rm s) ci] else [])) uploads \<and>
     rm_events s t = [Ssh (Connect (rms_Address sp) (rms_Port sp) (rms_User sp)) None] @ concat uploads @
       map (\<lambda>c. Ssh (Exec (rms_UseSudo sp) c) None) (if rms_CommandsAsScript sp then [install_script_path (rs_rm s)] else ip_Commands ci) @
       [Ssh (Stat True sentinel_file) None, Ssh Disconnect e]"
proof -
  let ?files = "ip_Files ci @ (if rms_CommandsAsScript sp then [install_script (rs_rm s) ci] else [])"
  let ?cmds = "if rms_CommandsAsScript sp then [install_script_path (rs_rm s)] else ip_Commands ci"
  let ?c = "after s [Ssh (Connect (rms_Address sp) (rms_Port sp) (rms_User sp)) None]"
  from assms(1) obtain u e where t: "t = after u [Ssh Disconnect e]" and
    body: "bindM (for_each (\<lambda>f. wrapM (Wrapf ''failed to upload file'') (uploadFile E (rms_UseSudo sp) f)) ?files) (\<lambda>_.
        bindM (run_commands E (rms_UseSudo sp) ?cmds) (\<lambda>_.
        tryM (sshM E (Stat True sentinel_file)) (\<lambda>r.
        case r of Inl _ \<Rightarrow> failM (Errorf ''bootstrap sentinel file not found'') | Inr _ \<Rightarrow> ret ()))) ?c = (Ok (), u)"
    unfolding SSHProvisioner_Provision_def connected_def sp_def
    by (auto simp: Let_def run_simps run_retErr_case run_sshM rm_log_after ignoring_sshM split: option.splits prod.splits res.splits)
  from body obtain v w where up: "for_each (\<lambda>f. wrapM (Wrapf ''failed to upload file'') (uploadFile E (rms_UseSudo sp) f)) ?files ?c = (Ok (), v)"
    and cmds: "run_commands E (rms_UseSudo sp) ?cmds v = (Ok (), w)"
    and "u = after w [Ssh (Stat True sentinel_file) None]"
    by (elim bindM_OkE) (auto simp: run_tryM run_sshM run_retErr_case rm_log_after split: option.splits)
  moreover obtain uploads where "list_all2 (uploaded (rms_UseSudo sp)) ?files uploads" "v = after ?c (concat uploads)"
    using for_each_OkD [of _ "uploaded (rms_UseSudo sp)", OF _ up] by (auto elim!: wrapM_OkE dest: uploadFile_OkD)
  ultimately show ?thesis
    using run_commands_OkD [OF cmds] t by (intro exI [of _ uploads] exI [of _ e]) simp
qed

lemma provision_sentinel: "SSHProvisioner_Provision E key ci s = (Ok (), t) \<Longrightarrow> Ssh (Stat True sentinel_file) None \<in> set (rm_events s t)"
  by (drule provision_trace) auto

text \<open>
  C16 (functional). A machine counts as provisioned over SSH only after everything was done, in this order: every file was
  uploaded with its mode, its decoded content and its owner, then every command succeeded (or the script of them all, which was uploaded last), and
  then the sentinel file was there; nothing else was done to the machine.
\<close>
theorem ssh_provision_complete:
  assumes "SSHProvisioner_Provision E key ci s = (Ok (), t)"
  defines "sp \<equiv> rm_Spec (rs_rm s)"
  shows "\<exists>uploads e.
     list_all2 (uploaded (rms_UseSudo sp)) (ip_Files ci @ (if rms_CommandsAsScript sp then [install_script (rs_rm s) ci] else [])) uploads \<and>
     rm_events s t = [Ssh (Connect (rms_Address sp) (rms_Port sp) (rms_User sp)) None] @ concat uploads @
       map (\<lambda>c. Ssh (Exec (rms_UseSudo sp) c) None) (if rms_CommandsAsScript sp then [install_script_path (rs_rm s)] else ip_Commands ci) @
       [Ssh (Stat True sentinel_file) None, Ssh Disconnect e]"
  using provision_trace [OF assms(1)] unfolding sp_def .

subsection \<open>Deletion\<close>

definition same_rm :: "rm_state \<Rightarrow> rm_state \<Rightarrow> bool" where
  \<comment> \<open>the object is untouched and the trace only grows\<close>
  "same_rm s t \<longleftrightarrow> rs_rm t = rs_rm s \<and> (\<exists>evs. rs_trace t = rs_trace s @ evs)"

interpretation same_rm: frame_order same_rm
  by unfold_locales (auto simp: same_rm_def)

lemma same_rm_ssh: "keeps same_rm (sshM E op)"
  by (auto simp: keeps_def same_rm_def run_sshM run_retErr_case split: option.splits)

lemma same_rm_write: "keeps same_rm (rmwrite E w)"
  by (auto simp: keeps_def same_rm_def run_rmwrite run_retErr_case split: option.splits)

lemma same_rm_read: "keeps same_rm (rmread what f)"
  by (auto simp: keeps_def same_rm_def run_liftE_case split: sum.splits)

lemma same_rm_theRm: "keeps same_rm theRm"
  by (auto simp: keeps_def same_rm_def)

lemmas same_rm_rules = same_rm.keeps_intros same_rm_ssh same_rm_write same_rm_read same_rm_theRm

lemma same_rm_Cleanup: "keeps same_rm (Cleanup E p mode)"
  by (cases p) (auto simp: SSHProvisioner_Cleanup_def connected_def cleanup_command_def ignoring_def Let_def
      intro!: same_rm_rules split: option.splits sum.splits)

lemma run_returnMachineToPool:
  "rms_Pool (rm_Spec (rs_rm s)) \<noteq> [] \<Longrightarrow> rm_deleted (rs_rm s) \<Longrightarrow> returnMachineToPool E s =
     (case re_ListPooled E (rs_trace s) None of
        Inl e \<Rightarrow> (Err (Wrapf ''failed to list pooled machines'' e), after s [RmRead ''pooledremotemachines''])
      | Inr items \<Rightarrow>
          (case find (held_by (machine_ref (rm_Meta (rs_rm s)))) items of
             None \<Rightarrow> (Ok (), after s [RmRead ''pooledremotemachines''])
           | Some pm \<Rightarrow> wrapM (Wrapf ''failed to update pooled machine'') (rmwrite E (UpdatePooledStatus (unreserved pm))) (after s [RmRead ''pooledremotemachines''])))"
  by (auto simp: returnMachineToPool_def run_simps rm_log_after split: sum.splits option.splits)

definition given_back :: "rm_env \<Rightarrow> RemoteMachineRef \<Rightarrow> rm_event list \<Rightarrow> bool" where
  \<comment> \<open>the server listed no pooled machine of this owner, or one was released\<close>
  "given_back E ref evs \<longleftrightarrow> (\<exists>tr items. re_ListPooled E tr None = Inr items \<and>
     ((\<forall>pm \<in> set items. \<not> held_by ref pm) \<or>
      (\<exists>pm \<in> set items. held_by ref pm \<and> RmWrote (UpdatePooledStatus (unreserved pm)) None \<in> set evs)))"

lemma returnMachineToPool_gives_back:
  assumes "returnMachineToPool E s = (r, t)" and "rms_Pool (rm_Spec (rs_rm s)) \<noteq> []" and "rm_deleted (rs_rm s)"
  shows "\<exists>evs. t = after s evs \<and> (r = Ok () \<longrightarrow> given_back E (machine_ref (rm_Meta (rs_rm s))) evs) \<and> r \<noteq> Panic"
proof (cases "re_ListPooled E (rs_trace s) None")
  case Inl
  with assms(1) show ?thesis
    by (auto simp: run_returnMachineToPool [OF assms(2,3)])
next
  case items: (Inr items)
  show ?thesis
  proof (cases "find (held_by (machine_ref (rm_Meta (rs_rm s)))) items")
    case None
    with assms(1) items show ?thesis
      by (auto simp: run_returnMachineToPool [OF assms(2,3)] given_back_def find_none)
  next
    case (Some pm)
    let ?evs = "\<lambda>e. [RmRead ''pooledremotemachines'', RmWrote (UpdatePooledStatus (unreserved pm)) e]"
    have "given_back E (machine_ref (rm_Meta (rs_rm s))) (?evs None)"
      using items find_in_set [OF Some] unfolding given_back_def by force
    with Some assms(1) items show ?thesis
      by (cases "re_write E (rs_trace s @ [RmRead ''pooledremotemachines'']) (UpdatePooledStatus (unreserved pm))")
        (auto simp: run_returnMachineToPool [OF assms(2,3)] run_wrapM run_rmwrite rm_log_after)
  qed
qed


subsection \<open>Status and identity\<close>

lemma same_rm_upload: "keeps same_rm (uploadFile E sudo f)"
  unfolding uploadFile_def ensure_dir_def set_file_owner_def ignoring_def
  by (auto intro!: same_rm_rules split: sum.splits)

lemma same_rm_SSHProvision: "keeps same_rm (SSHProvisioner_Provision E key ci)"
  unfolding SSHProvisioner_Provision_def connected_def run_commands_def ignoring_def Let_def
  by (auto intro!: same_rm_rules same_rm_upload split: sum.splits)

lemma same_rm_new: "same_rm s t \<Longrightarrow> t = after s (rm_events s t)"
  by (cases s; cases t) (auto simp: same_rm_def after_def rm_events_def)

lemma run_set_exec_condition:
  "set_exec_condition E st reason message s =
     (Ok (), (after s [RmRead ''clock''])\<lparr>rs_rm := setStatus (set_rm_condition E (re_Now E (rs_trace s))
        (mk_condition RemoteMachineBootstrapExecSucceededCondition st reason message)) (rs_rm s)\<rparr>)"
  by (simp add: set_exec_condition_def run_bindM rm_log_after)

lemma setStatus_spec [simp]: "rm_Spec (setStatus f rm) = rm_Spec rm" "rm_Meta (setStatus f rm) = rm_Meta rm"
  "rm_Status (setStatus f rm) = f (rm_Status rm)"
  by (simp_all add: setStatus_def)

lemma exec_succeeded_set:
  assumes "cond_laws (re_conds E)"
  shows "exec_succeeded E (set_rm_condition E now (mk_condition RemoteMachineBootstrapExecSucceededCondition st reason msg) status) \<longleftrightarrow> st = ConditionTrue"
  by (simp add: exec_succeeded_def set_rm_condition_def cond_IsTrue_Set [OF assms] mk_condition_def)

lemma same_rm_retry: "keeps same_rm m \<Longrightarrow> keeps same_rm (retry_on_conflict k m)"
  by (induction k) (auto intro!: same_rm_rules split: sum.splits)

text \<open>
  A machine is given its provider ID, by which Cluster API takes it as provisioned, only in a run over SSH in which the sentinel file was found, and
  after the condition for a successful bootstrap was set; a failed attempt leaves the specification as it was.
\<close>
theorem provider_id_needs_sentinel:
  assumes "remote_provision E m (SSHProvisioner key ci) s = (r, t)" and "rms_ProviderID (rm_Spec (rs_rm s)) = []"
    and laws: "cond_laws (re_conds E)"
  shows "if rms_ProviderID (rm_Spec (rs_rm t)) = [] then rm_Spec (rs_rm t) = rm_Spec (rs_rm s) \<and> r \<noteq> Ok zero_result
    else Ssh (Stat True sentinel_file) None \<in> set (rm_events s t) \<and> exec_succeeded E (rm_Status (rs_rm t)) \<and>
      rms_ProviderID (rm_Spec (rs_rm t)) = remote_provider_id (rm_Spec (rs_rm s))"
proof -
  obtain q u where run: "SSHProvisioner_Provision E key ci s = (q, u)"
    by fastforce
  with same_rm_SSHProvision [of E key ci] have "same_rm s u"
    by (rule keepsD)
  then obtain evs0 where u: "u = after s evs0"
    by (blast dest: same_rm_new)
  show ?thesis
  proof (cases q)
    case (Ok x)
    let ?rm = "setSpec (\<lambda>sp. sp\<lparr>rms_ProviderID := remote_provider_id sp\<rparr>) (setStatus (set_rm_condition E (re_Now E (rs_trace u))
        (mk_condition RemoteMachineBootstrapExecSucceededCondition ConditionTrue RemoteMachineBootstrapExecSucceededReason [])) (rs_rm s))"
    let ?v = "(after u [RmRead ''clock''])\<lparr>rs_rm := ?rm\<rparr>"
    have sentinel: "Ssh (Stat True sentinel_file) None \<in> set evs0"
      using provision_sentinel [of E key ci s u] run Ok u by simp
    have "same_rm ?v t"
    proof -
      have "keeps same_rm (bindM (retry_on_conflict 3 (rmwrite E (PatchOwnerMachine m (labelled_machine ?rm m)))) (\<lambda>_. ret zero_result))"
        by (intro same_rm_rules same_rm_retry)
      moreover have "bindM (retry_on_conflict 3 (rmwrite E (PatchOwnerMachine m (labelled_machine ?rm m)))) (\<lambda>_. ret zero_result) ?v = (r, t)"
        using assms(1) run Ok u by (simp add: remote_provision_def run_bindM run_tryM run_set_exec_condition)
      ultimately show ?thesis
        by (rule keepsD)
    qed
    then have t: "rs_rm t = ?rm" "\<exists>evs. rs_trace t = rs_trace u @ evs"
      by (auto simp: same_rm_def)
    have "exec_succeeded E (rm_Status (rs_rm t))"
      by (simp add: t(1) setSpec_def exec_succeeded_set [OF laws])
    moreover have "Ssh (Stat True sentinel_file) None \<in> set (rm_events s t)"
      using sentinel t(2) u by (auto simp: rm_events_def)
    moreover have "rms_ProviderID (rm_Spec (rs_rm t)) = remote_provider_id (rm_Spec (rs_rm s))"
      by (simp add: t(1) setSpec_def)
    ultimately show ?thesis
      by (simp add: remote_provider_id_def)
  next
    case (Err e)
    with assms(1,2) run have "r = Err (Wrapf ''failed to provision RemoteMachine'' e)" "rm_Spec (rs_rm t) = rm_Spec (rs_rm u)"
      by (auto simp: remote_provision_def run_bindM run_tryM run_set_exec_condition)
    with u assms(2) show ?thesis
      by simp
  next
    case Panic
    with assms(1) run have "r = Panic" "t = u"
      by (auto simp: remote_provision_def run_bindM run_tryM)
    with u assms(2) show ?thesis
      by simp
  qed
qed

text \<open>
  Fields that are missing are never reported: the failure set for them is erased by the deferred status update, which clears the
  deprecated fields and knows no error, before the object is written; all that remains is an endless requeueing.
\<close>
theorem missing_fields_not_reported:
  assumes "rmt_Provisioned (rm_Status (rs_rm s)) \<noteq> Some True" and "rms_ProviderID (rm_Spec (rs_rm s)) = []"
    and "missing_fields (rm_Spec (rs_rm s))"
    and "deferNamedM (remote_normal E m p) (remote_report_status E) s = (r, t)"
  shows "r = Ok requeue_now \<and> GetFailureReason (rm_Status (rs_rm t)) = [] \<and> GetFailureMessage (rm_Status (rs_rm t)) = [] \<and>
    (\<exists>e. last (rs_trace t) = RmWrote (PatchRemoteMachine (rs_rm t)) e)"
proof -
  let ?rm = "setStatus (SetFailures ''MissingFields'' ''If pool is empty, following fields are required: address, sshKeyRef'') (rs_rm s)"
  have "remote_normal E m p s = (Ok requeue_now, s\<lparr>rs_rm := ?rm\<rparr>)"
    using assms(1-3) by (simp add: remote_normal_def run_bindM requeue_now_def)
  then have "remote_report_status E (Ok requeue_now) (s\<lparr>rs_rm := ?rm\<rparr>) = (r, t)"
    using assms(4) by (simp add: run_deferNamedM)
  then have "r = Ok requeue_now" and rm: "rs_rm t = remote_updateStatus E (re_Now E (rs_trace s)) None ?rm"
    and "\<exists>e. last (rs_trace t) = RmWrote (PatchRemoteMachine (rs_rm t)) e"
    by (auto simp: remote_report_status_def ignoring_def run_bindM run_tryM run_rmwrite run_retErr_case split: option.splits)
  moreover have "rmt_Deprecated (rm_Status (rs_rm t)) = None"
    by (simp add: rm remote_updateStatus_def Let_def set_rm_condition_def)
  ultimately show ?thesis
    by (simp add: GetFailureReason_def GetFailureMessage_def remote_deprecated_def)
qed

text \<open>
  A machine is provisioned once: where the status says that it was, or it has a provider ID, a
  reconciliation neither touches the machine nor writes anything but its own status.
\<close>
theorem provisioned_machine_left_alone:
  assumes "rmt_Provisioned (rm_Status (rs_rm s)) = Some True \<or> rms_ProviderID (rm_Spec (rs_rm s)) \<noteq> []"
  shows "fst (remote_normal E m p s) = Ok zero_result \<and> rm_Spec (rs_rm (snd (remote_normal E m p s))) = rm_Spec (rs_rm s) \<and>
    set (rm_events s (snd (remote_normal E m p s))) \<subseteq> {RmRead ''clock''}"
  using assms by (auto simp: remote_normal_def run_bindM run_set_exec_condition rm_events_def)

subsection \<open>Provisioning by a job\<close>

definition bootstrap_mount :: job_mount where
  "bootstrap_mount = \<lparr>jvm_Name = ''bootstrap-data'', jvm_MountPath = ''/var/lib/bootstrap-data''\<rparr>"

lemma run_JobProvisioner:
  assumes "pj_JobTemplate pj = Some jb" and "jt_Containers jb = c # cs" and "stage_files (ip_Files ci) = Inr staged"
    and "JobProvisioner_Provision E pj cn ci s = (r, t)"
  shows "rms_ProvisionJob (rm_Spec (rs_rm t)) = Some (share_containers (bootstrap_container [bootstrap_mount] c # cs) pj)"
    and "\<And>j. RmWrote (CreateJob j) e \<in> set (rm_events s t) \<Longrightarrow> jt_Containers j = bootstrap_container [bootstrap_mount] c # cs"
proof -
  let ?cs = "bootstrap_container [bootstrap_mount] c # cs"
  obtain items d where ex: "extractCloudInit pj (rs_rm s) ci = Inr (items, [bootstrap_mount], d)"
    by (simp add: extractCloudInit_def assms(3) bootstrap_mount_def)
  let ?s1 = "s\<lparr>rs_rm := setSpec (\<lambda>sp. sp\<lparr>rms_ProvisionJob := Some (share_containers ?cs pj)\<rparr>) (rs_rm s)\<rparr>"
  define job where "job = build_job cn (rs_rm s) jb"
  define job' where "job' = job\<lparr>jt_Volumes := jt_Volumes job @ [SecretVolume ''bootstrap-data'' (jt_Name job @ ''-job-bootstrap-data'') items], jt_Containers := ?cs\<rparr>"
  define w where "w = ApplyJobSecret (jt_Name job @ ''-job-bootstrap-data'') (jt_Namespace job) [remote_owner (rs_rm s)] d"
  have job: "jt_Containers job = c # cs"
    by (simp add: job_def build_job_def assms(2))
  have run: "bindM (wrapM (Wrapf ''failed to create a secret'') (rmwrite E w)) (\<lambda>_.
      bindM (wrapM (Wrapf ''failed to create job'') (rmwrite E (CreateJob job'))) (\<lambda>_.
      wrapM (Wrapf ''failed to watch job'')
        (rmread ''watch job'' (\<lambda>tr. case re_WatchJob E tr (jt_Namespace job, jt_Name job) of None \<Rightarrow> Inr () | Some e \<Rightarrow> Inl e)))) ?s1 = (r, t)"
    using assms(4) job unfolding JobProvisioner_Provision_def w_def job'_def job_def
    by (simp add: run_bindM [of theRm] run_bindM [of "liftE _"] run_bindM [of "setRm _"] assms(1) ex Let_def)
  have "keeps same_rm (bindM (wrapM (Wrapf ''failed to create a secret'') (rmwrite E w)) (\<lambda>_.
      bindM (wrapM (Wrapf ''failed to create job'') (rmwrite E (CreateJob job'))) (\<lambda>_.
      wrapM (Wrapf ''failed to watch job'')
        (rmread ''watch job'' (\<lambda>tr. case re_WatchJob E tr (jt_Namespace job, jt_Name job) of None \<Rightarrow> Inr () | Some e \<Rightarrow> Inl e)))))"
    by (intro same_rm_rules)
  from keepsD [OF this run] have "rs_rm t = rs_rm ?s1"
    by (simp add: same_rm_def)
  then show "rms_ProvisionJob (rm_Spec (rs_rm t)) = Some (share_containers ?cs pj)"
    by (simp add: setSpec_def)
  have "jt_Containers job' = ?cs"
    by (simp add: job'_def)
  moreover have "set (rm_events s t) \<subseteq> {RmWrote w None, RmRead ''watch job''} \<union> range (RmWrote w) \<union> range (RmWrote (CreateJob job'))"
    using run by (auto simp: run_bindM run_wrapM run_rmwrite run_retErr_case run_liftE_case rm_events_def split: option.splits sum.splits)
  ultimately show "jt_Containers j = ?cs" if "RmWrote (CreateJob j) e \<in> set (rm_events s t)" for j
    using that by (auto simp: w_def)
qed


subsection \<open>Witnesses\<close>

text \<open>A world in which everything succeeds, with one pool and a machine with one file and one command.\<close>

definition ref_rm_env :: rm_env where
  "ref_rm_env = \<lparr>re_conds = ref_cond, re_Now = (\<lambda>_. 0), re_Summary = (\<lambda>_ t _. Inr (mk_condition t ConditionTrue ''Ready'' [])),
     re_IsPaused = (\<lambda>_ _. False), re_write = (\<lambda>_ _. None), re_GetRemoteMachine = (\<lambda>_ _. Inl (Errorf [])),
     re_EnsureFinalizer = (\<lambda>_ _. Inr False), re_GetOwnerMachine = (\<lambda>_ _. Inr None), re_GetClusterFromMetadata = (\<lambda>_ _. Inr None),
     re_NewPatchHelper = (\<lambda>_. None), re_GetSecret = (\<lambda>_ _. Inr Map.empty), re_Unmarshal = (\<lambda>_. Inl (Errorf [])),
     re_ListPooled = (\<lambda>_ _. Inr sample_pool), re_WatchJob = (\<lambda>_ _. None), re_ParseSSHPrivateKey = (\<lambda>_. None),
     re_ssh = (\<lambda>_ _. None), re_Output = (\<lambda>_ _. []), re_IsNotExist = (\<lambda>_. False), re_GetRemoteCluster = (\<lambda>_ _. Inl (Errorf []))\<rparr>"

definition ref_rm :: RemoteMachine where
  "ref_rm = \<lparr>rm_APIVersion = ''v1beta2'', rm_Kind = ''RemoteMachine'', rm_Meta = (ref_meta ''r'')\<lparr>om_Finalizers := [RemoteMachineFinalizer], om_DeletionTimestamp := Some 1\<rparr>,
     rm_Spec = \<lparr>rms_Pool = ''p'', rms_ProviderID = [], rms_Address = [], rms_Port = 22, rms_User = ''root'', rms_UseSudo = False,
       rms_CommandsAsScript = False, rms_WorkingDir = [], rms_SSHKeyRef = ''key'', rms_CleanUpCommands = None, rms_ProvisionJob = None\<rparr>,
     rm_Status = \<lparr>rmt_Provisioned = None, rmt_Addresses = None, rmt_Conditions = [], rmt_Deprecated = None\<rparr>\<rparr>"

definition ref_rm_state :: rm_state where
  "ref_rm_state = \<lparr>rs_rm = ref_rm, rs_trace = []\<rparr>"

definition ref_input :: InputProvisionData where
  "ref_input = \<lparr>ip_Files = [\<lparr>f_Path = ''/f'', f_Content = ''x'', f_Permissions = ''0600'', f_Owner = [], f_Encoding = [], f_Append = False, f_ContentFrom = None\<rparr>],
     ip_Commands = [''k0s start''], ip_CustomUserData = [], ip_Vars = []\<rparr>"

definition ref_machine_owner :: owner_machine where
  "ref_machine_owner = machine.extend (ref_machine ''m'' 0) \<lparr>mo_DataSecretName = Some ''d''\<rparr>"

lemmas ref_rm_simps = ref_rm_env_def ref_rm_def ref_rm_state_def ref_input_def ref_meta_def

lemma parse_0600: "ParseInt_8_32 ''0600'' = Inr 384"
  by (simp add: ParseInt_8_32_def has_prefix_def Let_def less_eq_char_def)


theorem ssh_provision_complete_witness:
  "Ssh (Exec False ''k0s start'') None \<in> set (rm_events ref_rm_state (snd (SSHProvisioner_Provision ref_rm_env [] ref_input ref_rm_state)))"
proof -
  have "fst (SSHProvisioner_Provision ref_rm_env [] ref_input ref_rm_state) = Ok ()"
    by (simp add: SSHProvisioner_Provision_def connected_def run_commands_def uploadFile_def ensure_dir_def set_file_owner_def ignoring_def
        run_simps run_sshM run_retErr_case ref_rm_simps DecodedContent_def PermissionsAsInt_def parse_0600)
  then have "SSHProvisioner_Provision ref_rm_env [] ref_input ref_rm_state = (Ok (), snd (SSHProvisioner_Provision ref_rm_env [] ref_input ref_rm_state))"
    by (metis prod.collapse)
  from ssh_provision_complete [OF this] show ?thesis
    by (auto simp: ref_rm_state_def ref_rm_def ref_input_def)
qed

definition ref_job :: ProvisionJob where
  "ref_job = \<lparr>pj_SSHCommand = ''ssh'', pj_SCPCommand = ''scp'', pj_JobTemplate = Some \<lparr>jt_Name = ''j'', jt_Namespace = ''ns'',
     jt_OwnerReferences = [], jt_Volumes = [], jt_Containers = [\<lparr>jc_Args = [], jc_VolumeMounts = [], jc_Rest = JNull\<rparr>], jt_Rest = JNull\<rparr>\<rparr>"

definition ref_delete :: "result res \<times> rm_state" where
  "ref_delete = remote_delete ref_rm_env ref_machine_owner (JobProvisioner ref_job ref_input) ref_rm_state"


theorem provider_id_needs_sentinel_witness:
  "rms_ProviderID (rm_Spec (rs_rm (snd (remote_provision ref_rm_env ref_machine_owner (SSHProvisioner [] ref_input) ref_rm_state)))) = ''remote-machine://:22''"
proof -
  let ?run = "remote_provision ref_rm_env ref_machine_owner (SSHProvisioner [] ref_input) ref_rm_state"
  have ssh: "fst (SSHProvisioner_Provision ref_rm_env [] ref_input ref_rm_state) = Ok ()"
    by (simp add: SSHProvisioner_Provision_def connected_def run_commands_def uploadFile_def ensure_dir_def set_file_owner_def ignoring_def
        run_simps run_sshM run_retErr_case ref_rm_simps DecodedContent_def PermissionsAsInt_def parse_0600)
  have laws: "cond_laws (re_conds ref_rm_env)"
    by (simp add: ref_rm_env_def ref_cond_laws)
  have "retry_on_conflict 3 (rmwrite ref_rm_env w) u = (Ok (), after u [RmWrote w None])" for w u
    by (simp add: numeral_eq_Suc run_tryM run_rmwrite rm_log_after ref_rm_env_def)
  then have "fst ?run = Ok zero_result"
    using ssh by (cases "SSHProvisioner_Provision ref_rm_env [] ref_input ref_rm_state")
      (simp add: remote_provision_def run_bindM run_tryM run_set_exec_condition)
  then obtain t where run: "?run = (Ok zero_result, t)"
    by (metis prod.collapse)
  have "show_nat 22 = ''22''"
    by code_simp
  then have "rms_ProviderID (rm_Spec (rs_rm ref_rm_state)) = []" "remote_provider_id (rm_Spec (rs_rm ref_rm_state)) = ''remote-machine://:22''"
    by (simp_all add: ref_rm_state_def ref_rm_def remote_provider_id_def show_int_def digit_char_def)
  then show ?thesis
    using provider_id_needs_sentinel [OF run _ laws] run by (simp split: if_splits)
qed

theorem missing_fields_not_reported_witness:
  "GetFailureReason (rm_Status (rs_rm (snd (deferNamedM (remote_normal ref_rm_env ref_machine_owner (SSHProvisioner [] ref_input))
     (remote_report_status ref_rm_env) ref_rm_state)))) = []"
  using missing_fields_not_reported [of ref_rm_state ref_rm_env ref_machine_owner "SSHProvisioner [] ref_input"
      "fst (deferNamedM (remote_normal ref_rm_env ref_machine_owner (SSHProvisioner [] ref_input)) (remote_report_status ref_rm_env) ref_rm_state)"
      "snd (deferNamedM (remote_normal ref_rm_env ref_machine_owner (SSHProvisioner [] ref_input)) (remote_report_status ref_rm_env) ref_rm_state)"]
  by (simp add: missing_fields_def ref_rm_def ref_rm_state_def)

definition ref_done :: rm_state where
  "ref_done = ref_rm_state\<lparr>rs_rm := setSpec (\<lambda>sp. sp\<lparr>rms_ProviderID := ''x''\<rparr>) ref_rm\<rparr>"

theorem provisioned_machine_left_alone_witness:
  "fst (remote_normal ref_rm_env ref_machine_owner (SSHProvisioner [] ref_input) ref_done) = Ok zero_result"
  using provisioned_machine_left_alone [of ref_done ref_rm_env ref_machine_owner "SSHProvisioner [] ref_input"]
  by (simp add: ref_done_def setSpec_def)



end
