(* ===== verification/Join_Token.thy ===== *)
theory Join_Token
  imports Cluster_Controller Bootstrap_Conversion
begin

text \<open>
  Requests for join tokens of a hosted control plane: the kind \<open>JoinTokenRequest\<close> in both API versions with its
  conversion, and its controller (\<open>internal/controller/k0smotron.io/jointokenrequest_controller.go\<close>), which has a
  pod of the control plane create a token and stores it in a secret. The state of a reconciliation is
  the object, the two variables the deferred status update reads, and the trace of requests; answers are oracles of
  that trace. The package \<open>clientcmd\<close> and gzip are the fields of \<open>tok_lib\<close>. Patches of
  the object are not read back.
\<close>

subsection \<open>The API\<close>

definition JoinTokenRequestSecretCondition :: string where "JoinTokenRequestSecretCondition = ''JoinTokenSecretCreated''"
definition JoinTokenRequestSecretCreatedReason :: string where "JoinTokenRequestSecretCreatedReason = ''Created''"
definition JoinTokenRequestInternalErrorReason :: string where "JoinTokenRequestInternalErrorReason = ''InternalError''"

record JoinTokenRequestSpec =
  jts_ClusterName :: string
  jts_Expiry :: string
  jts_Role :: string

record JTRStatusV1beta1Deprecated =
  jtd_ReconciliationStatus :: string
  jtd_ClusterUID :: string

record JTRStatusDeprecated =
  jtd_V1Beta1 :: "JTRStatusV1beta1Deprecated option"

record JoinTokenRequestStatus =
  jtt_TokenID :: string
  jtt_Conditions :: "condition list"
  jtt_Deprecated :: "JTRStatusDeprecated option"

record JoinTokenRequest =
  jtr_Meta :: objmeta
  jtr_Spec :: JoinTokenRequestSpec
  jtr_Status :: JoinTokenRequestStatus

definition SetDeprecatedStatus :: "string \<Rightarrow> string \<Rightarrow> JoinTokenRequest \<Rightarrow> JoinTokenRequest" where
  "SetDeprecatedStatus reconcileStatus clusterUID jtr =
     jtr\<lparr>jtr_Status := (jtr_Status jtr)\<lparr>jtt_Deprecated :=
       Some \<lparr>jtd_V1Beta1 = Some \<lparr>jtd_ReconciliationStatus = reconcileStatus, jtd_ClusterUID = clusterUID\<rparr>\<rparr>\<rparr>\<rparr>"

definition jtr_deprecated :: "JoinTokenRequest \<Rightarrow> JTRStatusV1beta1Deprecated option" where
  "jtr_deprecated jtr = (case jtt_Deprecated (jtr_Status jtr) of None \<Rightarrow> None | Some d \<Rightarrow> jtd_V1Beta1 d)"

definition GetDeprecatedReconciliationStatus :: "JoinTokenRequest \<Rightarrow> string" where
  "GetDeprecatedReconciliationStatus jtr = (case jtr_deprecated jtr of None \<Rightarrow> [] | Some d \<Rightarrow> jtd_ReconciliationStatus d)"

definition GetDeprecatedClusterUUID :: "JoinTokenRequest \<Rightarrow> string" where
  "GetDeprecatedClusterUUID jtr = (case jtr_deprecated jtr of None \<Rightarrow> [] | Some d \<Rightarrow> jtd_ClusterUID d)"

record ClusterRef_v1 =
  v1cr_Name :: string
  v1cr_Namespace :: string

record JoinTokenRequest_v1 =
  v1j_Meta :: objmeta
  v1j_ClusterRef :: ClusterRef_v1
  v1j_Expiry :: string
  v1j_Role :: string
  v1j_ReconciliationStatus :: string
  v1j_TokenID :: string
  v1j_ClusterUID :: string

definition JoinTokenRequest_ConvertTo :: "JoinTokenRequest_v1 \<Rightarrow> JoinTokenRequest" where
  \<comment> \<open>into a zero object\<close>
  "JoinTokenRequest_ConvertTo j =
     (let m = v1j_Meta j; ns = v1cr_Namespace (v1j_ClusterRef j) in
      SetDeprecatedStatus (v1j_ReconciliationStatus j) (v1j_ClusterUID j)
        \<lparr>jtr_Meta = (if ns \<noteq> [] then m\<lparr>om_Annotations := (om_Annotations m)(V1Beta1ClusterRefNamespaceAnnotation \<mapsto> ns)\<rparr> else m),
         jtr_Spec = \<lparr>jts_ClusterName = v1cr_Name (v1j_ClusterRef j), jts_Expiry = v1j_Expiry j, jts_Role = v1j_Role j\<rparr>,
         jtr_Status = \<lparr>jtt_TokenID = v1j_TokenID j, jtt_Conditions = [], jtt_Deprecated = None\<rparr>\<rparr>)"

definition JoinTokenRequest_ConvertFrom :: "JoinTokenRequest \<Rightarrow> JoinTokenRequest_v1" where
  "JoinTokenRequest_ConvertFrom src =
     \<lparr>v1j_Meta = jtr_Meta src,
      v1j_ClusterRef = \<lparr>v1cr_Name = jts_ClusterName (jtr_Spec src),
        v1cr_Namespace = map_get (om_Annotations (jtr_Meta src)) V1Beta1ClusterRefNamespaceAnnotation\<rparr>,
      v1j_Expiry = jts_Expiry (jtr_Spec src), v1j_Role = jts_Role (jtr_Spec src),
      v1j_ReconciliationStatus = GetDeprecatedReconciliationStatus src, v1j_TokenID = jtt_TokenID (jtr_Status src),
      v1j_ClusterUID = GetDeprecatedClusterUUID src\<rparr>"

subsection \<open>Tokens\<close>

record token_config =
  tc_Clusters :: "string \<rightharpoonup> string \<times> json" \<comment> \<open>the server and the rest of each cluster\<close>
  tc_AuthInfos :: "string \<rightharpoonup> string \<times> json" \<comment> \<open>the token and the rest of each user\<close>
  tc_Rest :: json

record tok_lib =
  tl_Load :: "string \<Rightarrow> gerror + token_config" \<comment> \<open>\<open>clientcmd.Load\<close>\<close>
  tl_Write :: "token_config \<Rightarrow> gerror + string" \<comment> \<open>\<open>clientcmd.Write\<close>\<close>
  tl_Gunzip :: "string \<Rightarrow> gerror + string" \<comment> \<open>\<open>gzip.NewReader\<close> and \<open>io.ReadAll\<close>\<close>
  tl_Gzip :: "string \<Rightarrow> gerror + string" \<comment> \<open>\<open>gzip.NewWriterLevel\<close>, \<open>io.Copy\<close> and \<open>Close\<close>\<close>

definition tok_laws :: "tok_lib \<Rightarrow> bool" where
  \<comment> \<open>what was compressed decompresses to itself, and a written configuration loads as itself\<close>
  "tok_laws T \<longleftrightarrow> (\<forall>x z. tl_Gzip T x = Inr z \<longrightarrow> tl_Gunzip T z = Inr x) \<and>
     (\<forall>c y. tl_Write T c = Inr y \<longrightarrow> tl_Load T y = Inr c)"

definition tokenDecode :: "tok_lib \<Rightarrow> string \<Rightarrow> gerror + string" where
  \<comment> \<open>the decoder skips line breaks\<close>
  "tokenDecode T token =
     (case b64_decode (filter (\<lambda>c. c \<noteq> CHR 0x0A \<and> c \<noteq> CHR 0x0D) token) of
        None \<Rightarrow> Inl (Errorf ''illegal base64 data'')
      | Some b \<Rightarrow> tl_Gunzip T b)"

definition tokenEncode :: "tok_lib \<Rightarrow> string \<Rightarrow> gerror + string" where
  "tokenEncode T data = (case tl_Gzip T data of Inl e \<Rightarrow> Inl e | Inr z \<Rightarrow> Inr (b64_encode z))"

definition loadToken :: "tok_lib \<Rightarrow> string \<Rightarrow> gerror + token_config" where
  "loadToken T token = (case tokenDecode T token of Inl e \<Rightarrow> Inl e | Inr b \<Rightarrow> tl_Load T b)"

definition updateJoinTokenURL :: "tok_lib \<Rightarrow> string \<Rightarrow> IngressSpec \<Rightarrow> gerror + string" where
  \<comment> \<open>called only where the cluster has an ingress\<close>
  "updateJoinTokenURL T token ing =
     (case loadToken T token of
        Inl e \<Rightarrow> Inl e
      | Inr cfg \<Rightarrow>
          (case tl_Write T (cfg\<lparr>tc_Clusters := (\<lambda>n. map_option (\<lambda>(_, rest). (''https://'' @ ing_APIHost ing @ '':'' @ show_int (ing_Port ing), rest))
                  (tc_Clusters cfg n))\<rparr>) of
             Inl e \<Rightarrow> Inl e
           | Inr out \<Rightarrow> tokenEncode T out))"

definition token_user :: "string \<Rightarrow> string option" where
  "token_user role = (if role = ''controller'' then Some ''controller-bootstrap''
     else if role = ''worker'' then Some ''kubelet-bootstrap'' else None)"

definition getTokenID :: "tok_lib \<Rightarrow> string \<Rightarrow> string \<Rightarrow> string res" where
  \<comment> \<open>a configuration without the user is a nil pointer\<close>
  "getTokenID T token role =
     (case loadToken T token of
        Inl e \<Rightarrow> Err e
      | Inr cfg \<Rightarrow>
          (case token_user role of
             None \<Rightarrow> Err (Errorf (''unknown role: '' @ role))
           | Some userName \<Rightarrow>
               (case tc_AuthInfos cfg userName of
                  None \<Rightarrow> Panic
                | Some (tok, _) \<Rightarrow> Ok (fst (cut_at (CHR ''.'') tok)))))"

subsection \<open>The state of a reconciliation\<close>

datatype jtr_write =
    PatchJtr JoinTokenRequest
  | UpdateJtr JoinTokenRequest
  | ApplyTokenSecret secret

datatype jtr_event =
    JRead string
  | JWrote jtr_write "gerror option"
  | JExec "string \<times> string" "string list" "gerror option" \<comment> \<open>the pod, the command, and its error\<close>

record jtr_state =
  js_jtr :: JoinTokenRequest
  js_failure :: string \<comment> \<open>\<open>reconcileFailureMessage\<close>\<close>
  js_uid :: string \<comment> \<open>\<open>clusterUID\<close>\<close>
  js_trace :: "jtr_event list"

type_synonym 'a jtrM = "(jtr_state, 'a) gom"

record jtr_env =
  je_tok :: tok_lib
  je_conds :: cond_lib
  je_Now :: "jtr_event list \<Rightarrow> int"
  je_write :: "jtr_event list \<Rightarrow> jtr_write \<Rightarrow> gerror option"
  je_NewPatchHelper :: "jtr_event list \<Rightarrow> gerror option"
  je_GetJtr :: "jtr_event list \<Rightarrow> string \<times> string \<Rightarrow> gerror + JoinTokenRequest"
  je_GetCluster :: "jtr_event list \<Rightarrow> string \<times> string \<Rightarrow> gerror + Cluster"
  je_GetSelector :: "jtr_event list \<Rightarrow> string \<times> string \<Rightarrow> gerror + string" \<comment> \<open>the formatted selector of a StatefulSet\<close>
  je_ListPods :: "jtr_event list \<Rightarrow> string \<Rightarrow> string \<Rightarrow> gerror + (string \<times> string) list" \<comment> \<open>name and phase\<close>
  je_NewExecutor :: "jtr_event list \<Rightarrow> gerror option" \<comment> \<open>the error of \<open>remotecommand.NewSPDYExecutor\<close>\<close>
  je_Stream :: "jtr_event list \<Rightarrow> string \<times> string \<Rightarrow> string list \<Rightarrow> gerror option \<times> string \<times> string"
    \<comment> \<open>the error, the standard output and the standard error\<close>

definition jlog :: "jtr_event \<Rightarrow> jtr_state \<Rightarrow> jtr_state" where
  "jlog ev s = s\<lparr>js_trace := js_trace s @ [ev]\<rparr>"

definition jread :: "string \<Rightarrow> (jtr_event list \<Rightarrow> gerror + 'a) \<Rightarrow> 'a jtrM" where
  "jread what f = (\<lambda>s. liftE (f (js_trace s)) (jlog (JRead what) s))"

definition jwrite :: "jtr_env \<Rightarrow> jtr_write \<Rightarrow> unit jtrM" where
  "jwrite E w = (\<lambda>s. retErr (je_write E (js_trace s) w) (jlog (JWrote w (je_write E (js_trace s) w)) s))"

definition theJtr :: "JoinTokenRequest jtrM" where
  "theJtr = getM js_jtr"

definition setJtr :: "(JoinTokenRequest \<Rightarrow> JoinTokenRequest) \<Rightarrow> unit jtrM" where
  "setJtr f = modM (\<lambda>s. s\<lparr>js_jtr := f (js_jtr s)\<rparr>)"

definition PodExecCmdOutput :: "jtr_env \<Rightarrow> string \<times> string \<Rightarrow> string \<Rightarrow> string jtrM" where
  \<comment> \<open>of the pod's namespace and name; the executor is created first\<close>
  "PodExecCmdOutput E pod command =
     bindM (jread ''executor'' (\<lambda>tr. case je_NewExecutor E tr of None \<Rightarrow> Inr () | Some e \<Rightarrow> Inl e)) (\<lambda>_ s.
     (let cmd = [''/bin/sh'', ''-c'', command] in
      case je_Stream E (js_trace s) pod cmd of
        (None, out, _) \<Rightarrow> (Ok out, jlog (JExec pod cmd None) s)
      | (Some e, _, err) \<Rightarrow>
          (Err (Errorf (''failed to exec command: '' @ error_text e @ '', stderr: '' @ err)), jlog (JExec pod cmd (Some e)) s)))"

definition jtr_FindStatefulSetPod :: "jtr_env \<Rightarrow> string \<Rightarrow> string \<Rightarrow> string jtrM" where
  "jtr_FindStatefulSetPod E statefulSet namespace =
     bindM (jread ''statefulset'' (\<lambda>tr. je_GetSelector E tr (namespace, statefulSet))) (\<lambda>selector.
     bindM (jread ''pods'' (\<lambda>tr. je_ListPods E tr namespace selector)) (\<lambda>pods.
     if pods = [] then failM (Errorf (''did not find matching pods for statefulSet '' @ statefulSet))
     else (case find (\<lambda>p. snd p = ''Running'') pods of
             None \<Rightarrow> failM (Errorf (''did not find running pods for statefulSet '' @ statefulSet))
           | Some p \<Rightarrow> ret (fst p))))"

subsection \<open>The controller\<close>

definition joinTokenRequestFinalizer :: string where
  "joinTokenRequestFinalizer = ''jointokenrequests.k0smotron.io/finalizer''"

definition jtr_deleted :: "JoinTokenRequest \<Rightarrow> bool" where
  "jtr_deleted jtr \<longleftrightarrow> om_DeletionTimestamp (jtr_Meta jtr) \<noteq> None"

definition jtr_EnsureFinalizer :: "jtr_env \<Rightarrow> bool jtrM" where
  \<comment> \<open>\<open>EnsureFinalizer\<close> for a request; whether the finalizer was added\<close>
  "jtr_EnsureFinalizer E =
     bindM theJtr (\<lambda>jtr.
     if jtr_deleted jtr then ret False
     else if joinTokenRequestFinalizer \<in> set (om_Finalizers (jtr_Meta jtr)) then ret False
     else
       bindM (jread ''patch helper'' (\<lambda>tr. case je_NewPatchHelper E tr of None \<Rightarrow> Inr () | Some e \<Rightarrow> Inl e)) (\<lambda>_.
       bindM (setJtr (\<lambda>j. j\<lparr>jtr_Meta := (jtr_Meta j)\<lparr>om_Finalizers := om_Finalizers (jtr_Meta j) @ [joinTokenRequestFinalizer]\<rparr>\<rparr>)) (\<lambda>_.
       bindM theJtr (\<lambda>jtr'.
       bindM (jwrite E (PatchJtr jtr')) (\<lambda>_. ret True)))))"

definition jtr_owner :: "Cluster \<Rightarrow> ownerref" where
  \<comment> \<open>an object read from the server has its kind set\<close>
  "jtr_owner kmc = \<lparr>o_APIVersion = ''k0smotron.io/v1beta2'', o_Kind = ''Cluster'', o_Name = kmc_Name kmc, o_UID = om_UID (kmc_Meta kmc)\<rparr>"

definition jtr_ensureOwnerReference :: "Cluster \<Rightarrow> JoinTokenRequest \<Rightarrow> JoinTokenRequest option" where
  \<comment> \<open>the changed request, \<open>None\<close> where the owner is there already\<close>
  "jtr_ensureOwnerReference kmc jtr =
     (if list_ex (\<lambda>ref. o_UID ref = om_UID (kmc_Meta kmc)) (om_OwnerReferences (jtr_Meta jtr)) then None
      else Some (jtr\<lparr>jtr_Meta := (jtr_Meta jtr)\<lparr>om_OwnerReferences := om_OwnerReferences (jtr_Meta jtr) @ [jtr_owner kmc]\<rparr>\<rparr>))"

definition jtr_updateStatus :: "jtr_env \<Rightarrow> int \<Rightarrow> string \<Rightarrow> string \<Rightarrow> JoinTokenRequest \<Rightarrow> JoinTokenRequest" where
  "jtr_updateStatus E now failureMessage clusterUID jtr =
     (let (dep, c) =
        (if failureMessage \<noteq> [] then
           (failureMessage, mk_condition JoinTokenRequestSecretCondition ConditionFalse JoinTokenRequestInternalErrorReason
              (failureMessage @ ''. Check logs for more details''))
         else (''Reconciliation successful'', mk_condition JoinTokenRequestSecretCondition ConditionTrue JoinTokenRequestSecretCreatedReason []));
       jtr' = SetDeprecatedStatus dep clusterUID jtr
      in jtr'\<lparr>jtr_Status := (jtr_Status jtr')\<lparr>jtt_Conditions := cond_Set (je_conds E) now (jtt_Conditions (jtr_Status jtr')) c\<rparr>\<rparr>)"

definition jtr_report :: "jtr_env \<Rightarrow> bool \<Rightarrow> unit jtrM" where
  \<comment> \<open>the deferred closure; an error of the patch is only logged\<close>
  "jtr_report E deleting =
     (if deleting then ret ()
      else
        bindM (jread ''clock'' (\<lambda>tr. Inr (je_Now E tr))) (\<lambda>now.
        bindM (modM (\<lambda>s. s\<lparr>js_jtr := jtr_updateStatus E now (js_failure s) (js_uid s) (js_jtr s)\<rparr>)) (\<lambda>_.
        bindM theJtr (\<lambda>jtr.
        tryM (jwrite E (PatchJtr jtr)) (\<lambda>_. ret ())))))"

definition failing :: "string \<Rightarrow> 'a jtrM \<Rightarrow> 'a jtrM" where
  \<comment> \<open>on an error, leave a message for the status\<close>
  "failing msg m = tryM m (\<lambda>r. case r of Inr x \<Rightarrow> ret x
     | Inl e \<Rightarrow> bindM (modM (\<lambda>s. s\<lparr>js_failure := msg\<rparr>)) (\<lambda>_. failM e))"

definition generateSecret :: "JoinTokenRequest \<Rightarrow> string \<Rightarrow> secret" where
  "generateSecret jtr token =
     \<lparr>s_Name = om_Name (jtr_Meta jtr), s_Namespace = om_Namespace (jtr_Meta jtr),
      s_Labels = [''k0smotron.io/cluster'' \<mapsto> jts_ClusterName (jtr_Spec jtr), ''k0smotron.io/role'' \<mapsto> jts_Role (jtr_Spec jtr),
         ''k0smotron.io/token-request'' \<mapsto> om_Name (jtr_Meta jtr), ComponentLabel \<mapsto> ''jointoken''] ++ om_Labels (jtr_Meta jtr),
      s_Annotations = om_Annotations (jtr_Meta jtr),
      s_OwnerReferences = [\<lparr>o_APIVersion = ''k0smotron.io/v1beta2'', o_Kind = ''JoinTokenRequest'', o_Name = om_Name (jtr_Meta jtr),
         o_UID = om_UID (jtr_Meta jtr)\<rparr>],
      s_Data = [''token'' \<mapsto> token], s_Type = []\<rparr>"

definition jtr_reconcileSecret :: "jtr_env \<Rightarrow> string \<Rightarrow> unit jtrM" where
  "jtr_reconcileSecret E token = bindM theJtr (\<lambda>jtr. jwrite E (ApplyTokenSecret (generateSecret jtr token)))"

definition invalidateToken :: "jtr_env \<Rightarrow> string \<times> string \<Rightarrow> unit jtrM" where
  "invalidateToken E pod =
     bindM theJtr (\<lambda>jtr.
     bindM (PodExecCmdOutput E pod (''k0s token invalidate '' @ jtt_TokenID (jtr_Status jtr))) (\<lambda>_. ret ()))"

definition jtr_delete :: "jtr_env \<Rightarrow> (string \<times> string) option \<Rightarrow> result jtrM" where
  "jtr_delete E pod =
     bindM theJtr (\<lambda>jtr.
     if joinTokenRequestFinalizer \<in> set (om_Finalizers (jtr_Meta jtr)) then
       bindM (case pod of None \<Rightarrow> ret () | Some p \<Rightarrow> invalidateToken E p) (\<lambda>_.
       bindM (setJtr (\<lambda>j. j\<lparr>jtr_Meta := (jtr_Meta j)\<lparr>om_Finalizers := removeAll joinTokenRequestFinalizer (om_Finalizers (jtr_Meta j))\<rparr>\<rparr>)) (\<lambda>_.
       bindM theJtr (\<lambda>jtr'.
       bindM (jwrite E (UpdateJtr jtr')) (\<lambda>_. ret zero_result))))
     else ret zero_result)"

definition jtr_create_token :: "jtr_env \<Rightarrow> bool \<Rightarrow> string \<Rightarrow> string \<times> string \<Rightarrow> result jtrM" where
  \<comment> \<open>from the second read of the cluster to the end of \<open>Reconcile\<close>\<close>
  "jtr_create_token E crossNamespace clusterNamespace pod =
     bindM theJtr (\<lambda>jtr.
     bindM (failing ''Failed to get cluster'' (jread ''cluster'' (\<lambda>tr. je_GetCluster E tr (clusterNamespace, jts_ClusterName (jtr_Spec jtr))))) (\<lambda>cluster.
     bindM (modM (\<lambda>s. s\<lparr>js_uid := om_UID (kmc_Meta cluster)\<rparr>)) (\<lambda>_.
     bindM (if crossNamespace
            then setJtr (\<lambda>j. j\<lparr>jtr_Meta := (jtr_Meta j)\<lparr>om_Labels := [clusterUIDLabel \<mapsto> om_UID (kmc_Meta cluster)]\<rparr>\<rparr>) else ret ()) (\<lambda>_.
     bindM (failing ''Failed getting token'' (PodExecCmdOutput E pod
              (''k0s token create --role='' @ jts_Role (jtr_Spec jtr) @ '' --expiry='' @ jts_Expiry (jtr_Spec jtr)))) (\<lambda>created.
     bindM (case sp_Ingress (kmc_Spec cluster) of
              None \<Rightarrow> ret created
            | Some ing \<Rightarrow> failing ''Failed updating token URL'' (liftE (updateJoinTokenURL (je_tok E) created ing))) (\<lambda>token.
     bindM (failing ''Failed creating secret'' (jtr_reconcileSecret E token)) (\<lambda>_.
     bindM (failing ''Failed getting token id'' (liftR (getTokenID (je_tok E) token (jts_Role (jtr_Spec jtr))))) (\<lambda>tokenID.
     bindM (setJtr (\<lambda>j. j\<lparr>jtr_Status := (jtr_Status j)\<lparr>jtt_TokenID := tokenID\<rparr>\<rparr>)) (\<lambda>_.
     ret zero_result)))))))))"

definition jtr_claim :: "jtr_env \<Rightarrow> bool jtrM" where
  \<comment> \<open>the owner reference of a request made in v1beta2; whether it was added\<close>
  "jtr_claim E =
     bindM theJtr (\<lambda>jtr.
     bindM (failing ''Failed to get k0smotron cluster''
        (jread ''cluster'' (\<lambda>tr. je_GetCluster E tr (om_Namespace (jtr_Meta jtr), jts_ClusterName (jtr_Spec jtr))))) (\<lambda>kmc.
     case jtr_ensureOwnerReference kmc jtr of
       None \<Rightarrow> ret False
     | Some jtr' \<Rightarrow>
         bindM (setJtr (\<lambda>_. jtr')) (\<lambda>_.
         bindM (jwrite E (PatchJtr jtr')) (\<lambda>_. ret True))))"

definition crossNamespace :: "JoinTokenRequest \<Rightarrow> bool" where
  \<comment> \<open>\<open>isV1Beta1WithPossibleCrossNamespace\<close>\<close>
  "crossNamespace jtr \<longleftrightarrow> om_Annotations (jtr_Meta jtr) V1Beta1ClusterRefNamespaceAnnotation \<noteq> None"

definition clusterNamespace :: "JoinTokenRequest \<Rightarrow> string" where
  "clusterNamespace jtr =
     (case om_Annotations (jtr_Meta jtr) V1Beta1ClusterRefNamespaceAnnotation of Some ns \<Rightarrow> ns | None \<Rightarrow> om_Namespace (jtr_Meta jtr))"

definition jtr_serve :: "jtr_env \<Rightarrow> JoinTokenRequest \<Rightarrow> result jtrM" where
  \<comment> \<open>from the search for a pod on\<close>
  "jtr_serve E jtr =
     tryM (jtr_FindStatefulSetPod E (GetStatefulSetName_of (jts_ClusterName (jtr_Spec jtr))) (clusterNamespace jtr)) (\<lambda>pod.
     if jtr_deleted jtr then jtr_delete E (case pod of Inr p \<Rightarrow> Some (clusterNamespace jtr, p) | Inl _ \<Rightarrow> None)
     else (case pod of
       Inl e \<Rightarrow> failing ''Failed finding pods in statefulset'' (failM e)
     | Inr p \<Rightarrow>
         if jtt_TokenID (jtr_Status jtr) \<noteq> [] then ret zero_result
         else jtr_create_token E (crossNamespace jtr) (clusterNamespace jtr) (clusterNamespace jtr, p)))"

definition jtr_reconcile :: "jtr_env \<Rightarrow> result jtrM" where
  \<comment> \<open>what runs under the deferred status update\<close>
  "jtr_reconcile E =
     bindM theJtr (\<lambda>jtr.
     bindM (if crossNamespace jtr \<or> jtr_deleted jtr then ret False else jtr_claim E) (\<lambda>claimed.
     if claimed then ret \<lparr>Requeue = True, RequeueAfter = 5 * second\<rparr> else jtr_serve E jtr))"

definition JoinTokenRequest_Reconcile :: "jtr_env \<Rightarrow> string \<times> string \<Rightarrow> result jtrM" where
  "JoinTokenRequest_Reconcile E key =
     tryM (jread ''jointokenrequest'' (\<lambda>tr. je_GetJtr E tr key)) (\<lambda>r.
     case r of
       Inl e \<Rightarrow> if is_not_found e then ret zero_result else failM e
     | Inr jtr \<Rightarrow>
         bindM (setJtr (\<lambda>_. jtr)) (\<lambda>_.
         bindM (jtr_EnsureFinalizer E) (\<lambda>finalizerAdded.
         if finalizerAdded then ret \<lparr>Requeue = False, RequeueAfter = 5 * second\<rparr>
         else
           tryM (jread ''patch helper'' (\<lambda>tr. case je_NewPatchHelper E tr of None \<Rightarrow> Inr () | Some e \<Rightarrow> Inl e)) (\<lambda>h.
           case h of
             Inl _ \<Rightarrow> ret \<lparr>Requeue = True, RequeueAfter = 0\<rparr>
           | Inr _ \<Rightarrow> deferM (jtr_reconcile E) (jtr_report E (jtr_deleted jtr))))))"

end
