(* ===== verification/Join_Token_Properties.thy ===== *)
theory Join_Token_Properties
  imports Join_Token Reference_World
begin

text \<open>
  What is proved of requests for join tokens: the conversion, the identity of a token whose address is rewritten, that a
  token is made once and invalidated before its request goes, and two defects of the reported status.
\<close>

subsection \<open>Conversion\<close>

definition jtr_lossless :: "JoinTokenRequest_v1 \<Rightarrow> bool" where
  \<comment> \<open>the annotation, where there is one, is the namespace of the reference\<close>
  "jtr_lossless j \<longleftrightarrow> v1cr_Namespace (v1j_ClusterRef j) = map_get (om_Annotations (v1j_Meta j)) V1Beta1ClusterRefNamespaceAnnotation"

lemma deprecated_read_back [simp]:
  "GetDeprecatedReconciliationStatus (SetDeprecatedStatus st uid jtr) = st" "GetDeprecatedClusterUUID (SetDeprecatedStatus st uid jtr) = uid"
  "jtr_Meta (SetDeprecatedStatus st uid jtr) = jtr_Meta jtr" "jtr_Spec (SetDeprecatedStatus st uid jtr) = jtr_Spec jtr"
  "jtt_TokenID (jtr_Status (SetDeprecatedStatus st uid jtr)) = jtt_TokenID (jtr_Status jtr)"
  by (simp_all add: SetDeprecatedStatus_def GetDeprecatedReconciliationStatus_def GetDeprecatedClusterUUID_def jtr_deprecated_def)

lemma jtr_spoke_round:
  "JoinTokenRequest_ConvertFrom (JoinTokenRequest_ConvertTo j) =
     (if v1cr_Namespace (v1j_ClusterRef j) \<noteq> []
      then j\<lparr>v1j_Meta := (v1j_Meta j)\<lparr>om_Annotations := (om_Annotations (v1j_Meta j))(V1Beta1ClusterRefNamespaceAnnotation \<mapsto> v1cr_Namespace (v1j_ClusterRef j))\<rparr>\<rparr>
      else j\<lparr>v1j_ClusterRef := (v1j_ClusterRef j)\<lparr>v1cr_Namespace := map_get (om_Annotations (v1j_Meta j)) V1Beta1ClusterRefNamespaceAnnotation\<rparr>\<rparr>)"
  by (simp add: JoinTokenRequest_ConvertFrom_def JoinTokenRequest_ConvertTo_def Let_def)

lemma map_get_Some: "map_get m k \<noteq> [] \<Longrightarrow> m k = Some (map_get m k)"
  by (auto simp: map_get_def split: option.splits)

lemma jtr_lossless_round: "jtr_lossless j \<Longrightarrow> JoinTokenRequest_ConvertFrom (JoinTokenRequest_ConvertTo j) = j"
  unfolding jtr_spoke_round jtr_lossless_def by (auto simp: fun_upd_idem dest!: map_get_Some)

interpretation join_token_request: convertible JoinTokenRequest_ConvertTo JoinTokenRequest_ConvertFrom jtr_lossless
  by unfold_locales (simp_all add: jtr_lossless_round, simp add: jtr_lossless_def JoinTokenRequest_ConvertFrom_def)

text \<open>
  A request written in v1beta1 reads back as it was written: the cluster it names with its namespace, its expiry and role, its status
  and all of its metadata except for the annotation that carries the namespace meanwhile.
\<close>
theorem join_token_request_roundtrip:
  assumes "v1cr_Namespace (v1j_ClusterRef j) \<noteq> []"
  defines "k \<equiv> JoinTokenRequest_ConvertFrom (JoinTokenRequest_ConvertTo j)"
  shows "k\<lparr>v1j_Meta := v1j_Meta j\<rparr> = j \<and>
    v1j_Meta k = (v1j_Meta j)\<lparr>om_Annotations := (om_Annotations (v1j_Meta j))(V1Beta1ClusterRefNamespaceAnnotation \<mapsto> v1cr_Namespace (v1j_ClusterRef j))\<rparr> \<and>
    JoinTokenRequest_ConvertFrom (JoinTokenRequest_ConvertTo k) = k"
proof -
  have "k = JoinTokenRequest_ConvertFrom (JoinTokenRequest_ConvertTo j)"
    by (simp add: k_def)
  then have "JoinTokenRequest_ConvertFrom (JoinTokenRequest_ConvertTo k) = k"
    by (simp add: join_token_request.spoke_round join_token_request.lossless_from_hub)
  then show ?thesis
    using assms(1) unfolding k_def jtr_spoke_round by simp
qed

subsection \<open>Tokens\<close>

lemma b64_no_line_breaks: "filter (\<lambda>c. c \<noteq> CHR 0x0A \<and> c \<noteq> CHR 0x0D) (b64_encode z) = b64_encode z"
proof -
  have "c \<noteq> CHR 0x0A \<and> c \<noteq> CHR 0x0D" if "c \<in> set (b64_encode z)" for c
    using set_b64_encode [of z] that by (auto simp: b64_alphabet_def)
  then show ?thesis
    by simp
qed

lemma tokenDecode_Encode: "tok_laws T \<Longrightarrow> tokenEncode T x = Inr tok \<Longrightarrow> tokenDecode T tok = Inr x"
  by (auto simp: tokenEncode_def tokenDecode_def b64_no_line_breaks tok_laws_def split: sum.splits)

text \<open>
  C37 (roundtrip). Rewriting the address in a join token changes nothing but the address: the new token decodes to the old configuration with every server replaced, and in
  particular has the same token ID for every role, or fails in the same way.
\<close>
theorem rewritten_token_is_the_same:
  assumes "tok_laws T" and "updateJoinTokenURL T token ing = Inr token'"
  shows "\<exists>cfg. loadToken T token = Inr cfg \<and>
    loadToken T token' = Inr (cfg\<lparr>tc_Clusters := (\<lambda>n. map_option (\<lambda>(_, rest). (''https://'' @ ing_APIHost ing @ '':'' @ show_int (ing_Port ing), rest))
      (tc_Clusters cfg n))\<rparr>) \<and> getTokenID T token' = getTokenID T token"
proof -
  obtain cfg where cfg: "loadToken T token = Inr cfg"
    using assms(2) by (auto simp: updateJoinTokenURL_def split: sum.splits)
  let ?new = "cfg\<lparr>tc_Clusters := (\<lambda>n. map_option (\<lambda>(_, rest). (''https://'' @ ing_APIHost ing @ '':'' @ show_int (ing_Port ing), rest)) (tc_Clusters cfg n))\<rparr>"
  obtain out where out: "tl_Write T ?new = Inr out" "tokenEncode T out = Inr token'"
    using assms(2) cfg by (auto simp: updateJoinTokenURL_def split: sum.splits)
  have "loadToken T token' = Inr ?new"
    using tokenDecode_Encode [OF assms(1) out(2)] out(1) assms(1) by (simp add: loadToken_def tok_laws_def)
  with cfg show ?thesis
    by (auto simp: getTokenID_def intro!: exI [of _ cfg] split: option.splits)
qed

subsection \<open>Runs\<close>

lemma js_log [simp]: "js_jtr (jlog ev s) = js_jtr s" "js_failure (jlog ev s) = js_failure s" "js_uid (jlog ev s) = js_uid s"
  "js_trace (jlog ev s) = js_trace s @ [ev]"
  by (simp_all add: jlog_def)

lemma run_jread [simp]: "jread what f s = liftE (f (js_trace s)) (jlog (JRead what) s)"
  by (simp add: jread_def)

lemma jretErr_case: "retErr e s = (case e of None \<Rightarrow> (Ok (), s) | Some x \<Rightarrow> (Err x, s))"
  by (cases e) simp_all

lemma run_jwrite: "jwrite E w s = (case je_write E (js_trace s) w of None \<Rightarrow> (Ok (), jlog (JWrote w None) s) | Some x \<Rightarrow> (Err x, jlog (JWrote w (Some x)) s))"
  by (simp add: jwrite_def jretErr_case split: option.splits)

lemma run_theJtr [simp]: "theJtr s = (Ok (js_jtr s), s)"
  by (simp add: theJtr_def)

lemma run_setJtr [simp]: "setJtr f s = (Ok (), s\<lparr>js_jtr := f (js_jtr s)\<rparr>)"
  by (simp add: setJtr_def)

definition jtr_events :: "jtr_state \<Rightarrow> jtr_state \<Rightarrow> jtr_event list" where
  "jtr_events s t = drop (length (js_trace s)) (js_trace t)"

fun mild :: "jtr_event \<Rightarrow> bool" where
  \<comment> \<open>no command was run and no secret written\<close>
  "mild (JExec _ _ _) = False"
| "mild (JWrote (ApplyTokenSecret _) _) = False"
| "mild _ = True"

definition jcalm :: "jtr_state \<Rightarrow> jtr_state \<Rightarrow> bool" where
  "jcalm s t \<longleftrightarrow> (\<exists>evs. js_trace t = js_trace s @ evs \<and> list_all mild evs) \<and>
     jtt_TokenID (jtr_Status (js_jtr t)) = jtt_TokenID (jtr_Status (js_jtr s))"

interpretation jcalm: frame_order jcalm
proof
  show "jcalm s s" for s by (simp add: jcalm_def)
  show "jcalm s t \<Longrightarrow> jcalm t u \<Longrightarrow> jcalm s u" for s t u
    unfolding jcalm_def by (metis (no_types, opaque_lifting) append.assoc list_all_append)
qed

lemma jcalm_read: "keeps jcalm (jread what f)"
  by (auto simp: keeps_def jcalm_def run_liftE_case split: sum.splits)

lemma jcalm_patch: "keeps jcalm (jwrite E (PatchJtr j))"
  by (auto simp: keeps_def jcalm_def run_jwrite split: option.splits)

lemma jcalm_theJtr: "keeps jcalm theJtr"
  by (auto simp: keeps_def jcalm_def)

lemma jcalm_mod: "(\<And>s. js_trace (f s) = js_trace s \<and> jtt_TokenID (jtr_Status (js_jtr (f s))) = jtt_TokenID (jtr_Status (js_jtr s))) \<Longrightarrow> keeps jcalm (modM f)"
  by (auto simp: keeps_def jcalm_def)

lemmas jcalm_rules = jcalm.keeps_intros jcalm_read jcalm_patch jcalm_theJtr

lemma jcalm_failing: "keeps jcalm m \<Longrightarrow> keeps jcalm (failing msg m)"
  unfolding failing_def by (auto intro!: jcalm_rules jcalm_mod split: sum.splits)

lemma jcalm_find: "keeps jcalm (jtr_FindStatefulSetPod E n ns)"
  unfolding jtr_FindStatefulSetPod_def by (auto intro!: jcalm_rules split: option.splits)

lemma jcalm_report: "keeps jcalm (jtr_report E d)"
  unfolding jtr_report_def by (auto intro!: jcalm_rules jcalm_mod simp: jtr_updateStatus_def Let_def split: prod.splits)

lemma jcalm_claim: "jcalm s (snd (jtr_claim E s))"
proof -
  have eq: "jtr_claim E s = bindM (failing ''Failed to get k0smotron cluster''
        (jread ''cluster'' (\<lambda>tr. je_GetCluster E tr (om_Namespace (jtr_Meta (js_jtr s)), jts_ClusterName (jtr_Spec (js_jtr s)))))) (\<lambda>kmc.
     case jtr_ensureOwnerReference kmc (js_jtr s) of
       None \<Rightarrow> ret False
     | Some jtr' \<Rightarrow> bindM (setJtr (\<lambda>_. jtr')) (\<lambda>_. bindM (jwrite E (PatchJtr jtr')) (\<lambda>_. ret True))) s"
    by (simp add: jtr_claim_def run_bindM [of theJtr])
  show ?thesis
    unfolding eq by (auto simp: run_bindM failing_def run_tryM run_liftE_case run_jwrite jcalm_def jtr_ensureOwnerReference_def split: sum.splits option.splits)
qed

lemma jcalmD: "jcalm s t \<Longrightarrow> list_all mild (jtr_events s t) \<and> jtt_TokenID (jtr_Status (js_jtr t)) = jtt_TokenID (jtr_Status (js_jtr s))"
  by (auto simp: jcalm_def jtr_events_def)

lemma deferM_jcalm: "jcalm s (snd (m s)) \<Longrightarrow> keeps jcalm d \<Longrightarrow> jcalm s (snd (deferM m d s))"
  by (auto simp: run_deferM keeps_def split: prod.splits intro: jcalm.frame_trans) (metis jcalm.frame_trans snd_conv)

lemma bindM_jcalm: "jcalm s (snd (m s)) \<Longrightarrow> (\<And>x. keeps jcalm (f x)) \<Longrightarrow> jcalm s (snd (bindM m f s))"
  by (auto simp: run_bindM keeps_def split: prod.splits res.splits) (metis jcalm.frame_trans snd_conv)

text \<open>
  C18 (safety). A token is made once: while a request has a token ID and is not being deleted, its reconciliation runs no command in the
  control plane, writes no secret, and keeps the ID, whatever fails on the way.
\<close>
theorem token_made_once:
  assumes "jtt_TokenID (jtr_Status (js_jtr s)) \<noteq> []" and "\<not> jtr_deleted (js_jtr s)"
    and "deferM (jtr_reconcile E) (jtr_report E False) s = (r, t)"
  shows "list_all mild (jtr_events s t) \<and> jtt_TokenID (jtr_Status (js_jtr t)) = jtt_TokenID (jtr_Status (js_jtr s))"
proof -
  have serve: "keeps jcalm (jtr_serve E (js_jtr s))"
    unfolding jtr_serve_def using assms(1,2) by (auto intro!: jcalm_rules jcalm_find jcalm_failing split: sum.splits)
  have "jcalm s (snd ((if crossNamespace (js_jtr s) \<or> jtr_deleted (js_jtr s) then ret False else jtr_claim E) s))"
    by (simp add: jcalm_claim jcalm.frame_refl)
  then have "jcalm s (snd (jtr_reconcile E s))"
    unfolding jtr_reconcile_def run_bindM [of theJtr] run_theJtr prod.case res.case
    by (rule bindM_jcalm) (auto intro!: jcalm_rules serve)
  from deferM_jcalm [of s "jtr_reconcile E", OF this jcalm_report [of E False]] assms(3) show ?thesis
    by (auto dest: jcalmD)
qed

text \<open>
  Success is reported before there is a token: the first reconciliation of a request only adds the owner reference and returns, and since no failure was noted, the
  deferred status update sets the condition that the secret was created and reports a successful reconciliation, while the token ID is
  still empty and no secret was written; even where storing the owner reference failed.
\<close>
theorem success_before_token:
  assumes laws: "cond_laws (je_conds E)" and "js_failure s = []" and "\<not> jtr_deleted (js_jtr s)" and "\<not> crossNamespace (js_jtr s)"
    and "je_GetCluster E (js_trace s) (om_Namespace (jtr_Meta (js_jtr s)), jts_ClusterName (jtr_Spec (js_jtr s))) = Inr kmc"
    and "jtr_ensureOwnerReference kmc (js_jtr s) \<noteq> None"
    and "deferM (jtr_reconcile E) (jtr_report E False) s = (r, t)"
  shows "cond_IsTrue (je_conds E) (jtt_Conditions (jtr_Status (js_jtr t))) JoinTokenRequestSecretCondition \<and>
    GetDeprecatedReconciliationStatus (js_jtr t) = ''Reconciliation successful'' \<and>
    jtt_TokenID (jtr_Status (js_jtr t)) = jtt_TokenID (jtr_Status (js_jtr s)) \<and> list_all mild (jtr_events s t)"
proof -
  obtain jtr' where own: "jtr_ensureOwnerReference kmc (js_jtr s) = Some jtr'"
    using assms(6) by blast
  obtain q u where run: "jtr_reconcile E s = (q, u)"
    by fastforce
  have claim: "jcalm s (snd (jtr_claim E s))" "js_failure (snd (jtr_claim E s)) = []" "fst (jtr_claim E s) \<noteq> Ok False"
    using jcalm_claim [of s E] assms(2,5) own
    by (auto simp: jtr_claim_def failing_def run_bindM run_tryM run_jwrite split: option.splits)
  have u: "jcalm s u" "js_failure u = []"
    using run claim assms(3,4) by (auto simp: jtr_reconcile_def run_bindM split: prod.splits res.splits if_splits)
  have "deferM (jtr_reconcile E) (jtr_report E False) s = (case jtr_report E False u of (p, v) \<Rightarrow> ((case p of Panic \<Rightarrow> Panic | _ \<Rightarrow> q), v))"
    by (simp add: run_deferM run)
  then have t: "js_jtr t = jtr_updateStatus E (je_Now E (js_trace u)) [] (js_uid u) (js_jtr u)"
    using assms(7) u(2) by (auto simp: jtr_report_def run_bindM run_tryM run_jwrite split: option.splits)
  have "jcalm s t"
    using deferM_jcalm [of s "jtr_reconcile E" "jtr_report E False"] run u(1) jcalm_report [of E False] assms(7) by simp
  then show ?thesis
    by (simp add: jcalmD) (simp add: t jtr_updateStatus_def Let_def cond_IsTrue_Set [OF laws] mk_condition_def GetDeprecatedReconciliationStatus_def
        jtr_deprecated_def SetDeprecatedStatus_def)
qed

definition jreads :: "jtr_state \<Rightarrow> jtr_state \<Rightarrow> bool" where
  \<comment> \<open>the request is untouched and everything new is a read\<close>
  "jreads s t \<longleftrightarrow> js_jtr t = js_jtr s \<and> (\<exists>evs. js_trace t = js_trace s @ evs \<and> set evs \<subseteq> range JRead)"

interpretation jreads: frame_order jreads
proof
  show "jreads s s" for s by (simp add: jreads_def)
  show "jreads s t \<Longrightarrow> jreads t u \<Longrightarrow> jreads s u" for s t u
    by (auto simp: jreads_def)
qed

lemma jreads_read: "keeps jreads (jread what f)"
  by (auto simp: keeps_def jreads_def run_liftE_case split: sum.splits)

lemma jreads_find: "keeps jreads (jtr_FindStatefulSetPod E n ns)"
  unfolding jtr_FindStatefulSetPod_def by (auto intro!: jreads.keeps_intros jreads_read split: option.splits)

lemma run_invalidateToken:
  assumes "invalidateToken E pod s = (q, t)"
  shows "\<exists>evs. t = s\<lparr>js_trace := js_trace s @ evs\<rparr> \<and> (\<forall>j e. JWrote (UpdateJtr j) e \<notin> set evs) \<and>
    (q = Ok () \<longrightarrow> JExec pod [''/bin/sh'', ''-c'', ''k0s token invalidate '' @ jtt_TokenID (jtr_Status (js_jtr s))] None \<in> set evs)"
  using assms
  by (auto simp: invalidateToken_def PodExecCmdOutput_def run_bindM jlog_def Let_def split: option.splits prod.splits)

text \<open>
  C19 (safety). A token is invalidated before its request goes: a request that is being deleted is written without the finalizer only after
  its token was invalidated in the control plane, or where no running pod was found to do it; where the command fails, the finalizer stays.
\<close>
theorem token_invalidated_first:
  assumes "jtr_deleted (js_jtr s)" and "jtr_reconcile E s = (r, t)" and "JWrote (UpdateJtr j) e \<in> set (jtr_events s t)"
  shows "(\<exists>pod. JExec pod [''/bin/sh'', ''-c'', ''k0s token invalidate '' @ jtt_TokenID (jtr_Status (js_jtr s))] None \<in> set (jtr_events s t)) \<or>
    (\<exists>err u. jtr_FindStatefulSetPod E (GetStatefulSetName_of (jts_ClusterName (jtr_Spec (js_jtr s)))) (clusterNamespace (js_jtr s)) s = (Err err, u))"
proof -
  let ?find = "jtr_FindStatefulSetPod E (GetStatefulSetName_of (jts_ClusterName (jtr_Spec (js_jtr s)))) (clusterNamespace (js_jtr s))"
  obtain q u where find: "?find s = (q, u)"
    by fastforce
  then obtain evs where u: "js_jtr u = js_jtr s" "js_trace u = js_trace s @ evs" and reads: "set evs \<subseteq> range JRead"
    using keepsD [OF jreads_find find] by (auto simp: jreads_def)
  from assms(1,2) have run: "tryM ?find (\<lambda>pod. jtr_delete E (case pod of Inr p \<Rightarrow> Some (clusterNamespace (js_jtr s), p) | Inl _ \<Rightarrow> None)) s = (r, t)"
    by (simp add: jtr_reconcile_def jtr_serve_def run_bindM)
  have no_write: "JWrote (UpdateJtr j) e \<notin> set evs"
    using reads by auto
  show ?thesis
  proof (cases q)
    case (Ok p)
    with run find have del: "jtr_delete E (Some (clusterNamespace (js_jtr s), p)) u = (r, t)"
      by (simp add: run_tryM)
    obtain i v where inv: "invalidateToken E (clusterNamespace (js_jtr s), p) u = (i, v)"
      by fastforce
    from run_invalidateToken [OF inv] u(1) obtain evs' where v: "v = u\<lparr>js_trace := js_trace u @ evs'\<rparr>"
      and quiet: "JWrote (UpdateJtr j) e \<notin> set evs'"
      and exec: "i = Ok () \<Longrightarrow> JExec (clusterNamespace (js_jtr s), p) [''/bin/sh'', ''-c'', ''k0s token invalidate '' @ jtt_TokenID (jtr_Status (js_jtr s))] None \<in> set evs'"
      by auto
    show ?thesis
    proof (cases "joinTokenRequestFinalizer \<in> set (om_Finalizers (jtr_Meta (js_jtr u))) \<and> i = Ok ()")
      case True
      with del inv v have "\<exists>w. js_trace t = js_trace v @ [w]"
        by (auto simp: jtr_delete_def run_bindM run_jwrite split: option.splits)
      with True exec u v show ?thesis
        by (auto simp: jtr_events_def)
    next
      case False
      with del inv have "t = u \<or> t = v"
        by (cases i) (auto simp: jtr_delete_def run_bindM split: if_splits)
      with assms(3) no_write quiet u v show ?thesis
        by (auto simp: jtr_events_def)
    qed
  next
    case (Err x)
    with find show ?thesis by blast
  next
    case Panic
    with run find have "t = u"
      by (simp add: run_tryM)
    with assms(3) no_write u show ?thesis
      by (simp add: jtr_events_def)
  qed
qed

subsection \<open>Witnesses\<close>

definition ref_jtr_v1 :: JoinTokenRequest_v1 where
  "ref_jtr_v1 = \<lparr>v1j_Meta = ref_meta ''j'', v1j_ClusterRef = \<lparr>v1cr_Name = ''c'', v1cr_Namespace = ''other''\<rparr>, v1j_Expiry = ''1h'', v1j_Role = ''worker'',
     v1j_ReconciliationStatus = [], v1j_TokenID = [], v1j_ClusterUID = []\<rparr>"

theorem join_token_request_roundtrip_witness:
  "v1cr_Namespace (v1j_ClusterRef (JoinTokenRequest_ConvertFrom (JoinTokenRequest_ConvertTo ref_jtr_v1))) = ''other''"
  using join_token_request_roundtrip [of ref_jtr_v1] by (simp add: ref_jtr_v1_def jtr_spoke_round)

definition ref_token_config :: "string \<Rightarrow> token_config" where
  "ref_token_config server = \<lparr>tc_Clusters = [''k0s'' \<mapsto> (server, JNull)], tc_AuthInfos = [''kubelet-bootstrap'' \<mapsto> (''abc.def'', JNull)], tc_Rest = JNull\<rparr>"

definition ref_tok :: tok_lib where
  \<comment> \<open>compression is the identity, and a configuration is written as the name of its server\<close>
  "ref_tok = \<lparr>tl_Load = (\<lambda>y. Inr (ref_token_config y)),
     tl_Write = (\<lambda>c. case tc_Clusters c ''k0s'' of Some (server, JNull) \<Rightarrow> if c = ref_token_config server then Inr server else Inl (Errorf []) | _ \<Rightarrow> Inl (Errorf [])),
     tl_Gunzip = Inr, tl_Gzip = Inr\<rparr>"

lemma ref_tok_laws: "tok_laws ref_tok"
  by (auto simp: tok_laws_def ref_tok_def split: option.splits prod.splits json.splits if_splits)

definition ref_ingress :: IngressSpec where
  "ref_ingress = \<lparr>ing_Deploy = None, ing_Port = 443, ing_APIHost = ''api'', ing_KonnectivityHost = ''kon'', ing_ClassName = None, ing_Annotations = Map.empty\<rparr>"

theorem rewritten_token_is_the_same_witness:
  "\<exists>token'. updateJoinTokenURL ref_tok (b64_encode ''s'') ref_ingress = Inr token' \<and> getTokenID ref_tok token' ''worker'' = Ok ''abc''"
proof -
  let ?url = "''https://'' @ ing_APIHost ref_ingress @ '':'' @ show_int (ing_Port ref_ingress)"
  have cfg: "loadToken ref_tok (b64_encode ''s'') = Inr (ref_token_config ''s'')"
    by (simp add: loadToken_def tokenDecode_def b64_no_line_breaks ref_tok_def del: b64_encode.simps)
  have "(ref_token_config ''s'')\<lparr>tc_Clusters := (\<lambda>n. map_option (\<lambda>(_, rest). (?url, rest)) (tc_Clusters (ref_token_config ''s'') n))\<rparr> = ref_token_config ?url"
    by (auto simp: ref_token_config_def)
  moreover have "tl_Write ref_tok (ref_token_config u) = Inr u" for u
    by (simp add: ref_tok_def) (simp add: ref_token_config_def)
  ultimately have new: "updateJoinTokenURL ref_tok (b64_encode ''s'') ref_ingress = Inr (b64_encode ?url)"
    unfolding updateJoinTokenURL_def cfg by (simp add: tokenEncode_def) (simp add: ref_tok_def)
  have "getTokenID ref_tok (b64_encode ''s'') ''worker'' = Ok ''abc''"
    by (simp add: getTokenID_def cfg token_user_def del: b64_encode.simps) (simp add: ref_token_config_def)
  then show ?thesis
    using rewritten_token_is_the_same [OF ref_tok_laws new] new by auto
qed

definition ref_jtr_env :: jtr_env where
  "ref_jtr_env = \<lparr>je_tok = ref_tok, je_conds = ref_cond, je_Now = (\<lambda>_. 0), je_write = (\<lambda>_ _. None), je_NewPatchHelper = (\<lambda>_. None),
     je_GetJtr = (\<lambda>_ _. Inl (Errorf [])), je_GetCluster = (\<lambda>_ _. Inr zero_kmc), je_GetSelector = (\<lambda>_ _. Inr ''app''),
     je_ListPods = (\<lambda>_ _ _. Inr [(''p'', ''Running'')]), je_NewExecutor = (\<lambda>_. None), je_Stream = (\<lambda>_ _ _. (None, [], []))\<rparr>"

definition ref_jtr :: "string \<Rightarrow> int option \<Rightarrow> JoinTokenRequest" where
  "ref_jtr tid del = \<lparr>jtr_Meta = (ref_meta ''j'')\<lparr>om_Finalizers := [joinTokenRequestFinalizer], om_DeletionTimestamp := del\<rparr>,
     jtr_Spec = \<lparr>jts_ClusterName = ''c'', jts_Expiry = ''1h'', jts_Role = ''worker''\<rparr>,
     jtr_Status = \<lparr>jtt_TokenID = tid, jtt_Conditions = [], jtt_Deprecated = None\<rparr>\<rparr>"

definition ref_jtr_state :: "string \<Rightarrow> int option \<Rightarrow> jtr_state" where
  "ref_jtr_state tid del = \<lparr>js_jtr = ref_jtr tid del, js_failure = [], js_uid = [], js_trace = []\<rparr>"

definition ref_jtr_run :: "string \<Rightarrow> jtr_state" where
  "ref_jtr_run tid = snd (deferM (jtr_reconcile ref_jtr_env) (jtr_report ref_jtr_env False) (ref_jtr_state tid None))"

lemma ref_jtr_run_eq: "deferM (jtr_reconcile ref_jtr_env) (jtr_report ref_jtr_env False) (ref_jtr_state tid None) =
    (fst (deferM (jtr_reconcile ref_jtr_env) (jtr_report ref_jtr_env False) (ref_jtr_state tid None)), ref_jtr_run tid)"
  by (simp add: ref_jtr_run_def)

lemmas ref_jtr_simps = ref_jtr_state_def ref_jtr_def jtr_deleted_def crossNamespace_def ref_meta_def

theorem token_made_once_witness: "jtt_TokenID (jtr_Status (js_jtr (ref_jtr_run ''abc''))) = ''abc''"
  using token_made_once [OF _ _ ref_jtr_run_eq [of "''abc''"]] by (simp add: ref_jtr_simps)

theorem success_before_token_witness:
  "GetDeprecatedReconciliationStatus (js_jtr (ref_jtr_run [])) = ''Reconciliation successful'' \<and> jtt_TokenID (jtr_Status (js_jtr (ref_jtr_run []))) = []"
  using success_before_token [OF _ _ _ _ _ _ ref_jtr_run_eq [of "[]"], of zero_kmc] ref_cond_laws
  by (simp add: ref_jtr_simps ref_jtr_env_def jtr_ensureOwnerReference_def)

theorem token_invalidated_first_witness:
  "\<exists>pod t. JExec pod [''/bin/sh'', ''-c'', ''k0s token invalidate abc''] None \<in> set (jtr_events (ref_jtr_state ''abc'' (Some 1)) t)"
proof -
  let ?s = "ref_jtr_state ''abc'' (Some 1)"
  obtain r t where run: "jtr_reconcile ref_jtr_env ?s = (r, t)"
    by fastforce
  have find: "jtr_FindStatefulSetPod ref_jtr_env n ns s = (Ok ''p'', jlog (JRead ''pods'') (jlog (JRead ''statefulset'') s))" for n ns s
    by (simp add: jtr_FindStatefulSetPod_def run_bindM ref_jtr_env_def)
  have exec: "PodExecCmdOutput ref_jtr_env pod cmd s = (Ok [], jlog (JExec pod [''/bin/sh'', ''-c'', cmd] None) (jlog (JRead ''executor'') s))" for pod cmd s
    by (simp add: PodExecCmdOutput_def run_bindM ref_jtr_env_def)
  have wr: "je_write ref_jtr_env tr w = None" for tr w
    by (simp add: ref_jtr_env_def)
  have "\<exists>j e. JWrote (UpdateJtr j) e \<in> set (jtr_events ?s t)"
    using run by (auto simp: jtr_reconcile_def jtr_serve_def jtr_delete_def invalidateToken_def exec wr run_bindM run_tryM find run_jwrite
        ref_jtr_simps jtr_events_def)
  then obtain j e where upd: "JWrote (UpdateJtr j) e \<in> set (jtr_events ?s t)"
    by blast
  have "jtr_deleted (js_jtr ?s)" "jtt_TokenID (jtr_Status (js_jtr ?s)) = ''abc''"
    by (simp_all add: ref_jtr_simps)
  then show ?thesis
    using token_invalidated_first [OF _ run upd] by (simp add: find) blast
qed

end
