(* ===== verification/Cluster_Conversion.thy ===== *)
theory Cluster_Conversion
  imports Workload_Properties
begin

text \<open>
  The older version of hosted control planes: \<open>api/k0smotron.io/v1beta1\<close> and the hosted kinds of
  \<open>api/controlplane/v1beta1\<close>, and their conversion to and from the hub. Fields of the service that the hub has
  no place for travel in annotations of the object, as JSON; \<open>json.Marshal\<close> of strings and of maps
  of strings does not fail, and what it returns is a parameter. Shown: what survives a round trip, and what does not.
\<close>

subsection \<open>Types of v1beta1\<close>

record ServiceSpec_v1 =
  v1s_Type :: string
  v1s_APIPort :: int
  v1s_KonnectivityPort :: int
  v1s_Annotations :: "strmap option" \<comment> \<open>\<open>None\<close> is the nil map\<close>
  v1s_Labels :: "strmap option"
  v1s_LoadBalancerClass :: "string option"
  v1s_ExternalTrafficPolicy :: string

record ClusterSpec_v1 =
  v1k_KubeconfigRef :: "KubeconfigRef option"
  v1k_Replicas :: "32 word"
  v1k_Image :: string
  v1k_ServiceAccount :: string
  v1k_Version :: string
  v1k_ExternalAddress :: string
  v1k_Ingress :: "IngressSpec option"
  v1k_Service :: ServiceSpec_v1
  v1k_Persistence :: PersistenceSpec
  v1k_KineDataSourceURL :: string
  v1k_KineDataSourceSecretName :: string
  v1k_K0sConfig :: "object option"
  v1k_CertificateRefs :: "CertificateRef slice"
  v1k_Manifests :: "volume slice"
  v1k_Mounts :: "Mount slice"
  v1k_ControlPlaneFlags :: "string slice"
  v1k_Monitoring :: MonitoringSpec
  v1k_Etcd :: EtcdSpec
  v1k_TopologySpreadConstraints :: "topology_spread slice"
  v1k_Resources :: resource_requirements
  v1k_KubeconfigSecretMetadata :: secret_metadata

definition GetImage_v1 :: "ClusterSpec_v1 \<Rightarrow> string" where
  "GetImage_v1 c = (if v1k_Image c = [] then defaultK0SImage else v1k_Image c) @ '':'' @ image_tag (v1k_Version c)"

record ClusterStatus_v1 =
  v1cs_ReconciliationStatus :: string
  v1cs_Ready :: bool
  v1cs_Replicas :: "32 word"
  v1cs_Selector :: string

record Cluster_v1 =
  v1c_Meta :: objmeta
  v1c_Spec :: ClusterSpec_v1
  v1c_Status :: ClusterStatus_v1

record K0smotronControlPlaneStatus_v1 =
  v1hs_Ready :: bool
  v1hs_Initialized :: bool
  v1hs_ControlPlaneInitialized :: bool
  v1hs_ExternalManagedControlPlane :: bool
  v1hs_Version :: string
  v1hs_Replicas :: "32 word"
  v1hs_UpdatedReplicas :: "32 word"
  v1hs_ReadyReplicas :: "32 word"
  v1hs_UnavailableReplicas :: "32 word"
  v1hs_Selector :: string
  v1hs_Conditions :: "condition list"

record K0smotronControlPlane_v1 =
  v1h_Meta :: objmeta
  v1h_Spec :: ClusterSpec_v1
  v1h_Status :: K0smotronControlPlaneStatus_v1

record K0smotronControlPlaneTemplate_v1 =
  v1ht_Meta :: objmeta
  v1ht_TemplateMeta :: objmeta
  v1ht_TemplateSpec :: ClusterSpec_v1

record K0smotronControlPlaneTemplate =
  hct_Meta :: objmeta
  hct_TemplateMeta :: objmeta
  hct_TemplateSpec :: ClusterSpec

subsection \<open>Conversion\<close>

record conv_lib =
  ml_obj :: obj_lib
  ml_MarshalMap :: "strmap \<Rightarrow> string"
  ml_MarshalString :: "string \<Rightarrow> string"

definition convertStorageV1toV2 :: "ClusterSpec_v1 \<Rightarrow> StorageSpec" where
  "convertStorageV1toV2 sp =
     (if v1k_KineDataSourceURL sp \<noteq> [] \<or> v1k_KineDataSourceSecretName sp \<noteq> [] then
        \<lparr>sto_Type = StorageTypeKine,
         sto_Kine = \<lparr>kine_DataSourceURL = v1k_KineDataSourceURL sp, kine_DataSourceSecretName = v1k_KineDataSourceSecretName sp\<rparr>,
         sto_Etcd = v1k_Etcd sp, sto_NATS = \<lparr>nats_Persistence = zero_persistence\<rparr>\<rparr>
      else
        \<lparr>sto_Type = StorageTypeEtcd, sto_Kine = \<lparr>kine_DataSourceURL = [], kine_DataSourceSecretName = []\<rparr>,
         sto_Etcd = v1k_Etcd sp, sto_NATS = \<lparr>nats_Persistence = zero_persistence\<rparr>\<rparr>)"

definition nonSupportedFields :: "conv_lib \<Rightarrow> ServiceSpec_v1 \<Rightarrow> strmap" where
  \<comment> \<open>encoded, as the callers store them\<close>
  "nonSupportedFields M svc =
     (\<lambda>k. if k = ServiceAnnotationLabels then map_option (ml_MarshalMap M) (v1s_Labels svc)
          else if k = ServiceAnnotationAnnotations then map_option (ml_MarshalMap M) (v1s_Annotations svc)
          else if k = ServiceAnnotationExternalTrafficPolicy then
            (if v1s_ExternalTrafficPolicy svc \<noteq> [] then Some (ml_MarshalString M (v1s_ExternalTrafficPolicy svc)) else None)
          else if k = ServiceAnnotationLoadBalancerClass then map_option (ml_MarshalString M) (v1s_LoadBalancerClass svc)
          else None)"

definition ClusterSpecToV2 :: "conv_lib \<Rightarrow> ClusterSpec_v1 \<Rightarrow> ClusterSpec \<times> strmap" where
  "ClusterSpecToV2 M sp =
     (\<lparr>sp_RemoteHostCluster = map_option (\<lambda>r. \<lparr>rh_KubeconfigRef = Some r\<rparr>) (v1k_KubeconfigRef sp),
       sp_Replicas = v1k_Replicas sp, sp_Image = v1k_Image sp, sp_ServiceAccount = v1k_ServiceAccount sp, sp_Version = v1k_Version sp,
       sp_ExternalAddress = v1k_ExternalAddress sp, sp_Ingress = v1k_Ingress sp,
       sp_Service = \<lparr>svs_Type = v1s_Type (v1k_Service sp), svs_APIPort = v1s_APIPort (v1k_Service sp),
         svs_KonnectivityPort = v1s_KonnectivityPort (v1k_Service sp)\<rparr>,
       sp_Persistence = v1k_Persistence sp, sp_Storage = convertStorageV1toV2 sp, sp_K0sConfig = v1k_K0sConfig sp,
       sp_CertificateRefs = v1k_CertificateRefs sp, sp_Manifests = v1k_Manifests sp, sp_Mounts = v1k_Mounts sp,
       sp_ControlPlaneFlags = v1k_ControlPlaneFlags sp, sp_Monitoring = v1k_Monitoring sp,
       sp_TopologySpreadConstraints = v1k_TopologySpreadConstraints sp, sp_Resources = v1k_Resources sp,
       sp_KubeconfigSecretMetadata = v1k_KubeconfigSecretMetadata sp, sp_Patches = None\<rparr>,
      nonSupportedFields M (v1k_Service sp))"

definition ClusterSpecFromV2 :: "conv_lib \<Rightarrow> ClusterSpec \<Rightarrow> strmap \<Rightarrow> ClusterSpec_v1" where
  \<comment> \<open>it never returns an error\<close>
  "ClusterSpecFromV2 M src ann =
     \<lparr>v1k_KubeconfigRef = hosting_kubeconfig src, v1k_Replicas = sp_Replicas src, v1k_Image = sp_Image src,
      v1k_ServiceAccount = sp_ServiceAccount src, v1k_Version = sp_Version src, v1k_ExternalAddress = sp_ExternalAddress src,
      v1k_Ingress = sp_Ingress src,
      v1k_Service = \<lparr>v1s_Type = svs_Type (sp_Service src), v1s_APIPort = svs_APIPort (sp_Service src),
        v1s_KonnectivityPort = svs_KonnectivityPort (sp_Service src),
        v1s_Annotations = GetServiceAnnotations (ml_obj M) ann, v1s_Labels = GetServiceLabels (ml_obj M) ann,
        v1s_LoadBalancerClass = GetServiceLoadBalancerClass (ml_obj M) ann,
        v1s_ExternalTrafficPolicy = GetServiceExternalTrafficPolicy (ml_obj M) ann\<rparr>,
      v1k_Persistence = sp_Persistence src,
      v1k_KineDataSourceURL = (if sto_Type (sp_Storage src) = StorageTypeKine then kine_DataSourceURL (sto_Kine (sp_Storage src)) else []),
      v1k_KineDataSourceSecretName = (if sto_Type (sp_Storage src) = StorageTypeKine then kine_DataSourceSecretName (sto_Kine (sp_Storage src)) else []),
      v1k_K0sConfig = sp_K0sConfig src, v1k_CertificateRefs = sp_CertificateRefs src, v1k_Manifests = sp_Manifests src,
      v1k_Mounts = sp_Mounts src, v1k_ControlPlaneFlags = sp_ControlPlaneFlags src, v1k_Monitoring = sp_Monitoring src,
      v1k_Etcd = sto_Etcd (sp_Storage src), v1k_TopologySpreadConstraints = sp_TopologySpreadConstraints src,
      v1k_Resources = sp_Resources src, v1k_KubeconfigSecretMetadata = sp_KubeconfigSecretMetadata src\<rparr>"

definition annotated :: "strmap \<Rightarrow> objmeta \<Rightarrow> objmeta" where
  "annotated extra m = m\<lparr>om_Annotations := om_Annotations m ++ extra\<rparr>"

definition Cluster_ConvertTo :: "conv_lib \<Rightarrow> Cluster_v1 \<Rightarrow> Cluster" where
  \<comment> \<open>into a zero object\<close>
  "Cluster_ConvertTo M kmc =
     SetReadyStatus (v1cs_Ready (v1c_Status kmc)) (SetReconciliationStatus (v1cs_ReconciliationStatus (v1c_Status kmc))
       (zero_kmc\<lparr>kmc_Meta := annotated (snd (ClusterSpecToV2 M (v1c_Spec kmc))) (v1c_Meta kmc),
          kmc_Spec := fst (ClusterSpecToV2 M (v1c_Spec kmc))\<rparr>))"

definition Cluster_ConvertFrom :: "conv_lib \<Rightarrow> Cluster \<Rightarrow> Cluster_v1" where
  "Cluster_ConvertFrom M src =
     \<lparr>v1c_Meta = kmc_Meta src, v1c_Spec = ClusterSpecFromV2 M (kmc_Spec src) (om_Annotations (kmc_Meta src)),
      v1c_Status = \<lparr>v1cs_ReconciliationStatus = GetReconciliationStatus src, v1cs_Ready = GetReadyStatus src,
        v1cs_Replicas = 0, v1cs_Selector = []\<rparr>\<rparr>"

definition K0smotronControlPlane_ConvertTo :: "conv_lib \<Rightarrow> K0smotronControlPlane_v1 \<Rightarrow> K0smotronControlPlane" where
  "K0smotronControlPlane_ConvertTo M k =
     (let st = v1h_Status k in
      \<lparr>hcp_Meta = annotated (snd (ClusterSpecToV2 M (v1h_Spec k))) (v1h_Meta k), hcp_Spec = fst (ClusterSpecToV2 M (v1h_Spec k)),
       hcp_Status = \<lparr>hst_ControlPlaneInitialized = Some (v1hs_Initialized st),
         hst_ExternalManagedControlPlane = Some (v1hs_ExternalManagedControlPlane st), hst_Version = v1hs_Version st,
         hst_Replicas = Some (v1hs_Replicas st), hst_ReadyReplicas = Some (v1hs_ReadyReplicas st), hst_Selector = v1hs_Selector st,
         hst_AvailableReplicas = Some (v1hs_Replicas st - v1hs_UnavailableReplicas st), hst_UpToDateReplicas = Some (v1hs_UpdatedReplicas st),
         hst_Conditions = v1hs_Conditions st\<rparr>\<rparr>)"

definition K0smotronControlPlane_ConvertFrom :: "conv_lib \<Rightarrow> K0smotronControlPlane \<Rightarrow> K0smotronControlPlane_v1" where
  "K0smotronControlPlane_ConvertFrom M src =
     (let st = hcp_Status src in
      \<lparr>v1h_Meta = hcp_Meta src, v1h_Spec = ClusterSpecFromV2 M (hcp_Spec src) (om_Annotations (hcp_Meta src)),
       v1h_Status = \<lparr>v1hs_Ready = (0 < sint (deref 0 (hst_ReadyReplicas st))), v1hs_Initialized = deref False (hst_ControlPlaneInitialized st),
         v1hs_ControlPlaneInitialized = deref False (hst_ControlPlaneInitialized st),
         v1hs_ExternalManagedControlPlane = deref False (hst_ExternalManagedControlPlane st), v1hs_Version = hst_Version st,
         v1hs_Replicas = deref 0 (hst_Replicas st), v1hs_UpdatedReplicas = deref 0 (hst_UpToDateReplicas st),
         v1hs_ReadyReplicas = deref 0 (hst_ReadyReplicas st),
         v1hs_UnavailableReplicas = deref 0 (hst_Replicas st) - deref 0 (hst_AvailableReplicas st), v1hs_Selector = hst_Selector st,
         v1hs_Conditions = hst_Conditions st\<rparr>\<rparr>)"

definition K0smotronControlPlaneTemplate_ConvertTo :: "conv_lib \<Rightarrow> K0smotronControlPlaneTemplate_v1 \<Rightarrow> K0smotronControlPlaneTemplate" where
  "K0smotronControlPlaneTemplate_ConvertTo M k =
     \<lparr>hct_Meta = annotated (snd (ClusterSpecToV2 M (v1ht_TemplateSpec k))) (v1ht_Meta k), hct_TemplateMeta = v1ht_TemplateMeta k,
      hct_TemplateSpec = fst (ClusterSpecToV2 M (v1ht_TemplateSpec k))\<rparr>"

definition K0smotronControlPlaneTemplate_ConvertFrom :: "conv_lib \<Rightarrow> K0smotronControlPlaneTemplate \<Rightarrow> K0smotronControlPlaneTemplate_v1" where
  "K0smotronControlPlaneTemplate_ConvertFrom M src =
     \<lparr>v1ht_Meta = hct_Meta src, v1ht_TemplateMeta = hct_TemplateMeta src,
      v1ht_TemplateSpec = ClusterSpecFromV2 M (hct_TemplateSpec src) (om_Annotations (hct_Meta src))\<rparr>"

subsection \<open>What survives\<close>

lemmas service_annotation_names = ServiceAnnotationLabels_def ServiceAnnotationAnnotations_def ServiceAnnotationExternalTrafficPolicy_def
  ServiceAnnotationLoadBalancerClass_def

lemma service_annotations_differ [simp]:
  "ServiceAnnotationLabels \<noteq> ServiceAnnotationAnnotations" "ServiceAnnotationAnnotations \<noteq> ServiceAnnotationLabels"
  "ServiceAnnotationExternalTrafficPolicy \<noteq> ServiceAnnotationLabels" "ServiceAnnotationExternalTrafficPolicy \<noteq> ServiceAnnotationAnnotations"
  "ServiceAnnotationLoadBalancerClass \<noteq> ServiceAnnotationLabels" "ServiceAnnotationLoadBalancerClass \<noteq> ServiceAnnotationAnnotations"
  "ServiceAnnotationLoadBalancerClass \<noteq> ServiceAnnotationExternalTrafficPolicy"
  by (simp_all add: service_annotation_names)

definition dropped_keys :: "string set" where
  "dropped_keys = {ServiceAnnotationLabels, ServiceAnnotationAnnotations, ServiceAnnotationExternalTrafficPolicy, ServiceAnnotationLoadBalancerClass}"

definition encodes :: "conv_lib \<Rightarrow> ServiceSpec_v1 \<Rightarrow> bool" where
  \<comment> \<open>\<open>encoding/json\<close> on the values at hand: an encoded value is not the empty text and decodes to itself\<close>
  "encodes M svc \<longleftrightarrow> (\<forall>m. v1s_Labels svc = Some m \<or> v1s_Annotations svc = Some m \<longrightarrow>
       ml_MarshalMap M m \<noteq> [] \<and> ol_UnmarshalMap (ml_obj M) (ml_MarshalMap M m) = Inr m) \<and>
     (\<forall>t. v1s_LoadBalancerClass svc = Some t \<or> v1s_ExternalTrafficPolicy svc = t \<longrightarrow>
       ml_MarshalString M t \<noteq> [] \<and> ol_UnmarshalString (ml_obj M) (ml_MarshalString M t) = Inr t)"

definition fresh_annotations :: "strmap \<Rightarrow> bool" where
  "fresh_annotations ann \<longleftrightarrow> (\<forall>k \<in> dropped_keys. ann k = None)"

lemma service_fields_read_back:
  assumes "encodes M svc" and "fresh_annotations ann" and "v1s_LoadBalancerClass svc \<noteq> Some []"
  defines "a \<equiv> ann ++ nonSupportedFields M svc"
  shows "GetServiceLabels (ml_obj M) a = v1s_Labels svc" "GetServiceAnnotations (ml_obj M) a = v1s_Annotations svc"
    "GetServiceExternalTrafficPolicy (ml_obj M) a = v1s_ExternalTrafficPolicy svc" "GetServiceLoadBalancerClass (ml_obj M) a = v1s_LoadBalancerClass svc"
  using assms(1-3) unfolding a_def
  by (auto simp: GetServiceLabels_def GetServiceAnnotations_def GetServiceExternalTrafficPolicy_def GetServiceLoadBalancerClass_def
      getMapAnnotation_def getStringAnnotation_def map_add_def nonSupportedFields_def encodes_def fresh_annotations_def dropped_keys_def Let_def
      split: option.splits)

lemma spec_round:
  assumes "encodes M (v1k_Service sp)" and "fresh_annotations ann" and "v1s_LoadBalancerClass (v1k_Service sp) \<noteq> Some []"
  shows "ClusterSpecFromV2 M (fst (ClusterSpecToV2 M sp)) (ann ++ snd (ClusterSpecToV2 M sp)) = sp"
  using service_fields_read_back [OF assms]
  by (cases "v1k_KubeconfigRef sp") (auto simp: ClusterSpecFromV2_def ClusterSpecToV2_def hosting_kubeconfig_def convertStorageV1toV2_def
      StorageTypeKine_def StorageTypeEtcd_def)


subsection \<open>What does not\<close>

text \<open>
  Settings of the service cannot be taken away through the old version: when a user reads an object, removes the labels of the service and writes it back, the
  annotation of the earlier conversion is still among the metadata, and the labels are there again.
\<close>
theorem service_labels_cannot_be_removed:
  assumes "GetServiceLabels (ml_obj M) (om_Annotations (kmc_Meta h)) = Some m"
  defines "x \<equiv> Cluster_ConvertFrom M h"
  defines "y \<equiv> x\<lparr>v1c_Spec := (v1c_Spec x)\<lparr>v1k_Service := (v1k_Service (v1c_Spec x))\<lparr>v1s_Labels := None\<rparr>\<rparr>\<rparr>"
  shows "v1s_Labels (v1k_Service (v1c_Spec (Cluster_ConvertFrom M (Cluster_ConvertTo M y)))) = Some m"
proof -
  have "nonSupportedFields M (v1k_Service (v1c_Spec y)) ServiceAnnotationLabels = None"
    by (simp add: nonSupportedFields_def y_def)
  then have "GetServiceLabels (ml_obj M) (om_Annotations (kmc_Meta h) ++ nonSupportedFields M (v1k_Service (v1c_Spec y))) = Some m"
    using assms(1) by (simp add: GetServiceLabels_def getMapAnnotation_def map_add_def)
  then show ?thesis
    by (simp add: Cluster_ConvertFrom_def Cluster_ConvertTo_def annotated_def SetReadyStatus_def SetReconciliationStatus_def set_deprecated_def
        ClusterSpecFromV2_def ClusterSpecToV2_def y_def x_def)
qed

text \<open>
  Touching a cluster through the old version moves its data: a cluster that stores its data in NATS is, after it was read and
  written back unchanged in v1beta1, a cluster that stores its data in etcd.
\<close>
theorem nats_becomes_etcd:
  assumes "sto_Type (sp_Storage (kmc_Spec h)) = StorageTypeNATS"
  shows "sto_Type (sp_Storage (kmc_Spec (Cluster_ConvertTo M (Cluster_ConvertFrom M h)))) = StorageTypeEtcd"
  using assms
  by (simp add: Cluster_ConvertFrom_def Cluster_ConvertTo_def SetReadyStatus_def SetReconciliationStatus_def set_deprecated_def
      ClusterSpecFromV2_def ClusterSpecToV2_def convertStorageV1toV2_def StorageTypeNATS_def StorageTypeKine_def)

subsection \<open>Witnesses\<close>

definition ref_marshal_map :: "strmap \<Rightarrow> string" where
  \<comment> \<open>of maps with at most the key \<open>a\<close>\<close>
  "ref_marshal_map m = (case m ''a'' of None \<Rightarrow> ''{}'' | Some v \<Rightarrow> ''a'' @ v)"

definition ref_conv :: conv_lib where
  "ref_conv = \<lparr>ml_obj = ref_obj_lib\<lparr>ol_UnmarshalMap := (\<lambda>t. Inr (if t = ''{}'' then Map.empty else [''a'' \<mapsto> drop 1 t])), ol_UnmarshalString := (\<lambda>t. Inr (tl t))\<rparr>,
     ml_MarshalMap = ref_marshal_map, ml_MarshalString = (\<lambda>t. CHR ''s'' # t)\<rparr>"

definition ref_service_v1 :: ServiceSpec_v1 where
  "ref_service_v1 = \<lparr>v1s_Type = ''LoadBalancer'', v1s_APIPort = 30443, v1s_KonnectivityPort = 30132, v1s_Annotations = None,
     v1s_Labels = Some [''a'' \<mapsto> ''b''], v1s_LoadBalancerClass = Some ''lb'', v1s_ExternalTrafficPolicy = ''Local''\<rparr>"

definition ref_spec_v1 :: ClusterSpec_v1 where
  "ref_spec_v1 = (ClusterSpecFromV2 ref_conv zero_spec Map.empty)\<lparr>v1k_Service := ref_service_v1\<rparr>"

definition ref_cluster_v1 :: Cluster_v1 where
  "ref_cluster_v1 = \<lparr>v1c_Meta = kmc_Meta zero_kmc, v1c_Spec = ref_spec_v1,
     v1c_Status = \<lparr>v1cs_ReconciliationStatus = [], v1cs_Ready = True, v1cs_Replicas = 1, v1cs_Selector = []\<rparr>\<rparr>"


definition ref_hub :: Cluster where
  "ref_hub = zero_kmc\<lparr>kmc_Meta := (kmc_Meta zero_kmc)\<lparr>om_Annotations := [ServiceAnnotationLabels \<mapsto> ''ab'']\<rparr>,
     kmc_Spec := zero_spec\<lparr>sp_Storage := (sp_Storage zero_spec)\<lparr>sto_Type := StorageTypeNATS\<rparr>\<rparr>\<rparr>"

definition without_labels :: "Cluster_v1 \<Rightarrow> Cluster_v1" where
  "without_labels x = x\<lparr>v1c_Spec := (v1c_Spec x)\<lparr>v1k_Service := (v1k_Service (v1c_Spec x))\<lparr>v1s_Labels := None\<rparr>\<rparr>\<rparr>"

theorem service_labels_cannot_be_removed_witness:
  "v1s_Labels (v1k_Service (v1c_Spec (Cluster_ConvertFrom ref_conv (Cluster_ConvertTo ref_conv
     (without_labels (Cluster_ConvertFrom ref_conv ref_hub)))))) = Some [''a'' \<mapsto> ''b'']"
proof -
  have "GetServiceLabels (ml_obj ref_conv) (om_Annotations (kmc_Meta ref_hub)) = Some [''a'' \<mapsto> ''b'']"
    by (simp add: GetServiceLabels_def getMapAnnotation_def ref_conv_def ref_hub_def)
  from service_labels_cannot_be_removed [OF this] show ?thesis
    by (simp add: without_labels_def)
qed

theorem nats_becomes_etcd_witness:
  "sto_Type (sp_Storage (kmc_Spec (Cluster_ConvertTo ref_conv (Cluster_ConvertFrom ref_conv ref_hub)))) = StorageTypeEtcd"
  using nats_becomes_etcd [of ref_hub] by (simp add: ref_hub_def)

end
