(* ===== verification/Update_Extension.thy ===== *)
theory Update_Extension
  imports Autopilot
begin

text \<open>
  The runtime extension that updates machines in place (\<open>extensions/inplaceversionupdate\<close>): Cluster API asks it whether it
  can take a machine to the desired version, and then polls it until the machine is there. There is one autopilot plan in
  a workload cluster, and the extension replaces a completed plan that is not that of the machine. JSON and its patches
  are parameters. Shown: what the answer "updated" rests on, that a plan is never taken away before it completed, that a machine polled
  alone is updated, and that two machines polled in turns can wait for ever.
\<close>

subsection \<open>Requests and answers\<close>

datatype ResponseStatus = ResponseStatusSuccess | ResponseStatusFailure

record UpdateMachineResponse =
  ur_Status :: ResponseStatus
  ur_Message :: string
  ur_RetryAfterSeconds :: int

record CanUpdateMachineResponse =
  cr_Status :: ResponseStatus
  cr_Message :: string
  cr_MachinePatch :: "string option" \<comment> \<open>\<open>None\<close> is the nil patch\<close>
  cr_BootstrapConfigPatch :: "string option"
  cr_InfrastructureMachinePatch :: "string option"

record machine_set =
  mset_Meta :: objmeta
  mset_Version :: string \<comment> \<open>\<open>Spec.Template.Spec.Version\<close>\<close>
  mset_Rest :: json

record patch_lib =
  xl_MarshalMachine :: "machine \<Rightarrow> gerror + string"
  xl_MarshalMachineSet :: "machine_set \<Rightarrow> gerror + string"
  xl_CreatePatch :: "string \<Rightarrow> string \<Rightarrow> gerror + json list" \<comment> \<open>\<open>jsonpatch.CreatePatch\<close>\<close>
  xl_MarshalPatch :: "json list \<Rightarrow> gerror + string"

record ext_env =
  xe_env :: env
  xe_GetCluster :: "event list \<Rightarrow> string \<times> string \<Rightarrow> gerror + cluster"
  xe_FromController :: "unstructured \<Rightarrow> gerror + K0sControllerConfig" \<comment> \<open>\<open>FromUnstructured\<close>\<close>
  xe_FromWorker :: "unstructured \<Rightarrow> gerror + K0sWorkerConfig"

subsection \<open>Whether a machine can be updated\<close>

definition isMachineBootstrappedWithK0s :: "machine \<Rightarrow> bool" where
  "isMachineBootstrappedWithK0s m \<longleftrightarrow>
     r_APIGroup (m_ConfigRef m) = ''bootstrap.cluster.x-k8s.io'' \<and>
     (r_Kind (m_ConfigRef m) = ''K0sControllerConfig'' \<or> r_Kind (m_ConfigRef m) = ''K0sWorkerConfig'')"

definition createJSONPatch :: "patch_lib \<Rightarrow> string \<Rightarrow> gerror + string \<Rightarrow> gerror + string" where
  \<comment> \<open>of the original and of the marshalled modified object; the errors are formatted without wrapping\<close>
  "createJSONPatch X original modified =
     (case modified of
        Inl e \<Rightarrow> Inl (Errorf (''failed to marshal modified object: '' @ error_text e))
      | Inr new \<Rightarrow>
          (case xl_CreatePatch X original new of
             Inl e \<Rightarrow> Inl (Errorf (''failed to create patch: '' @ error_text e))
           | Inr p \<Rightarrow>
               (case xl_MarshalPatch X p of
                  Inl e \<Rightarrow> Inl (Errorf (''failed to marshal patch: '' @ error_text e))
                | Inr bytes \<Rightarrow> Inr bytes)))"

definition can_update_failed :: "gerror \<Rightarrow> CanUpdateMachineResponse" where
  "can_update_failed e = \<lparr>cr_Status = ResponseStatusFailure, cr_Message = error_text e, cr_MachinePatch = None,
     cr_BootstrapConfigPatch = None, cr_InfrastructureMachinePatch = None\<rparr>"

definition can_update_answer :: "string option \<Rightarrow> CanUpdateMachineResponse" where
  "can_update_answer p = \<lparr>cr_Status = ResponseStatusSuccess, cr_Message = [], cr_MachinePatch = p,
     cr_BootstrapConfigPatch = None, cr_InfrastructureMachinePatch = None\<rparr>"

definition computeCanUpdateMachineResponse :: "patch_lib \<Rightarrow> machine \<Rightarrow> machine \<Rightarrow> gerror + string option" where
  \<comment> \<open>of the current machine of the request and its changed copy\<close>
  "computeCanUpdateMachineResponse X current changed =
     (case xl_MarshalMachine X current of
        Inl e \<Rightarrow> Inl e
      | Inr marshalled \<Rightarrow>
          if isMachineBootstrappedWithK0s changed then
            (case createJSONPatch X marshalled (xl_MarshalMachine X changed) of Inl e \<Rightarrow> Inl e | Inr p \<Rightarrow> Inr (Some p))
          else Inr None)"

definition DoCanUpdateMachine :: "patch_lib \<Rightarrow> machine \<Rightarrow> machine \<Rightarrow> CanUpdateMachineResponse" where
  "DoCanUpdateMachine X current desired =
     (let changed = (if m_Version current \<noteq> m_Version desired then current\<lparr>m_Version := m_Version desired\<rparr> else current) in
      case computeCanUpdateMachineResponse X current changed of
        Inl e \<Rightarrow> can_update_failed e
      | Inr p \<Rightarrow> can_update_answer p)"

definition DoCanUpdateMachineSet :: "patch_lib \<Rightarrow> machine_set \<Rightarrow> machine_set \<Rightarrow> CanUpdateMachineResponse" where
  \<comment> \<open>with \<open>computeCanUpdateMachineSetResponse\<close>; the answer has only the patch of the set\<close>
  "DoCanUpdateMachineSet X current desired =
     (let changed = (if mset_Version current \<noteq> mset_Version desired then current\<lparr>mset_Version := mset_Version desired\<rparr> else current) in
      case xl_MarshalMachineSet X current of
        Inl e \<Rightarrow> can_update_failed e
      | Inr marshalled \<Rightarrow>
          (case createJSONPatch X marshalled (xl_MarshalMachineSet X changed) of
             Inl e \<Rightarrow> can_update_failed e
           | Inr p \<Rightarrow> can_update_answer (Some p)))"

subsection \<open>Updating a machine\<close>

definition getDownloadURLFromBootstrapConfig :: "ext_env \<Rightarrow> objref \<Rightarrow> bool \<Rightarrow> string \<Rightarrow> string ctlM" where
  \<comment> \<open>the embedded specification of a controller configuration is a pointer\<close>
  "getDownloadURLFromBootstrapConfig E configRef isControlPlane namespace =
     bindM (wrapM (Wrapf ''error fetching bootstrap config'')
        (readM (ReadReferenced configRef) (\<lambda>tr. e_GetReferenced (xe_env E) tr APIReader configRef namespace))) (\<lambda>u.
     if isControlPlane then
       bindM (wrapM (Wrapf ''failed to convert controller bootstrap config for machine object'') (liftE (xe_FromController E u))) (\<lambda>c.
       case kcc_K0sConfigSpec c of None \<Rightarrow> panicM | Some sp \<Rightarrow> ret (k_DownloadURL sp))
     else
       bindM (wrapM (Wrapf ''failed to convert worker bootstrap config for machine object'') (liftE (xe_FromWorker E u))) (\<lambda>w.
       ret (w_DownloadURL (kwc_Spec w))))"

definition machine_plan :: "machine \<Rightarrow> bool \<Rightarrow> int \<Rightarrow> string \<Rightarrow> PlanParameters" where
  "machine_plan m isControlPlane now url =
     (let timestamp = show_int (now div second) in
      \<lparr>pl_ID = ''id-'' @ m_Name m @ ''-'' @ m_Version m @ ''-'' @ timestamp, pl_Timestamp = timestamp, pl_Version = m_Version m,
       pl_DownloadURL = url, pl_Target = (if isControlPlane then ControllersTarget else WorkersTarget), pl_Nodes = [m_Name m]\<rparr>)"

definition createAutopilotPlanForMachine :: "ext_env \<Rightarrow> machine \<Rightarrow> bool \<Rightarrow> unit ctlM" where
  "createAutopilotPlanForMachine E m isControlPlane =
     bindM (wrapM (Wrapf ''error getting download URL from bootstrap config'')
        (getDownloadURLFromBootstrapConfig E (m_ConfigRef m) isControlPlane (m_Namespace m))) (\<lambda>url.
     bindM (nowM (xe_env E)) (\<lambda>now.
     wrapM (Wrapf ''error creating autopilot plan'') (CreatePlan (xe_env E) (machine_plan m isControlPlane now url))))"

definition update_failed :: "string \<Rightarrow> UpdateMachineResponse" where
  "update_failed msg = \<lparr>ur_Status = ResponseStatusFailure, ur_Message = msg, ur_RetryAfterSeconds = 0\<rparr>"

definition updating :: UpdateMachineResponse where
  "updating = \<lparr>ur_Status = ResponseStatusSuccess, ur_Message = ''Extension is updating Machine'', ur_RetryAfterSeconds = 15\<rparr>"

definition updated :: UpdateMachineResponse where
  "updated = \<lparr>ur_Status = ResponseStatusSuccess, ur_Message = ''Extension completed updating Machine'', ur_RetryAfterSeconds = 0\<rparr>"

definition answering :: "'a ctlM \<Rightarrow> ('a \<Rightarrow> UpdateMachineResponse ctlM) \<Rightarrow> UpdateMachineResponse ctlM" where
  \<comment> \<open>an error is the message of a failure\<close>
  "answering m f = tryM m (\<lambda>r. case r of Inl e \<Rightarrow> ret (update_failed (error_text e)) | Inr x \<Rightarrow> f x)"

definition isControlPlaneMachine :: "machine \<Rightarrow> bool" where
  "isControlPlaneMachine m \<longleftrightarrow> m_Labels m MachineControlPlaneLabel \<noteq> None"

definition start_plan :: "ext_env \<Rightarrow> machine \<Rightarrow> UpdateMachineResponse ctlM" where
  "start_plan E m = answering (createAutopilotPlanForMachine E m (isControlPlaneMachine m)) (\<lambda>_. ret updating)"

definition judge_plan :: "json_lib \<Rightarrow> ext_env \<Rightarrow> machine \<Rightarrow> object \<Rightarrow> UpdateMachineResponse ctlM" where
  \<comment> \<open>where there is a plan\<close>
  "judge_plan J E m plan =
     (case IsPlanCompleted J plan of
        Inl e \<Rightarrow>
          ret (update_failed (if error_is e ErrUnexpectedPlanState
            then ''Autopilot plan is in an unexpected state. Check workload cluster logs for more details: '' @ error_text e
            else error_text e))
      | Inr False \<Rightarrow> ret updating
      | Inr True \<Rightarrow>
          answering (liftE (GetPlanTargetNodes J plan)) (\<lambda>nodes.
          answering (liftR (GetPlanTargetVersion J plan)) (\<lambda>version.
          if m_Name m \<notin> set nodes \<or> version \<noteq> m_Version m then
            answering (DeletePlan (xe_env E)) (\<lambda>_. start_plan E m)
          else ret updated)))"

definition DoUpdateMachine :: "json_lib \<Rightarrow> ext_env \<Rightarrow> machine \<Rightarrow> UpdateMachineResponse ctlM" where
  \<comment> \<open>there is no cluster cache\<close>
  "DoUpdateMachine J E m =
     answering (readM (ReadOther ''cluster'' (m_ClusterName m)) (\<lambda>tr. xe_GetCluster E tr (m_Namespace m, m_ClusterName m))) (\<lambda>cl.
     answering (GetWorkloadClusterClientset ((xe_env E)\<lparr>e_hasClusterCache := False\<rparr>) cl) (\<lambda>_.
     tryM (GetPlan (xe_env E)) (\<lambda>r.
     case r of
       Inl e \<Rightarrow> if is_not_found e then start_plan E m else ret (update_failed (error_text e))
     | Inr plan \<Rightarrow> judge_plan J E m plan)))"


subsection \<open>Facts\<close>

lemma run_answering: "answering m f s = (case m s of (r, t) \<Rightarrow>
    (case r of Ok x \<Rightarrow> f x t | Err e \<Rightarrow> (Ok (update_failed (error_text e)), t) | Panic \<Rightarrow> (Panic, t)))"
  by (simp add: answering_def run_tryM split: prod.splits res.splits)

lemma answers_differ [simp]: "updating \<noteq> updated" "update_failed msg \<noteq> updated" "updated \<noteq> updating"
  by (simp_all add: updating_def updated_def update_failed_def)

lemma answering_OkE:
  assumes "answering m f s = (Ok updated, t)"
  obtains x u where "m s = (Ok x, u)" and "f x u = (Ok updated, t)"
  using assms by (auto simp: run_answering split: prod.splits res.splits)

lemma start_plan_not_updated: "start_plan E m s \<noteq> (Ok updated, t)"
proof
  assume "start_plan E m s = (Ok updated, t)"
  then show False
    unfolding start_plan_def by (rule answering_OkE) simp
qed

definition replaceable :: "json_lib \<Rightarrow> machine \<Rightarrow> object \<Rightarrow> bool" where
  \<comment> \<open>a plan that is done and does not concern this machine in its version\<close>
  "replaceable J m plan \<longleftrightarrow> IsPlanCompleted J plan = Inr True \<and>
     (\<exists>ns v. GetPlanTargetNodes J plan = Inr ns \<and> GetPlanTargetVersion J plan = Ok v \<and> (m_Name m \<notin> set ns \<or> v \<noteq> m_Version m))"

fun plan_event :: "json_lib \<Rightarrow> ext_env \<Rightarrow> machine \<Rightarrow> event \<Rightarrow> bool" where
  "plan_event J E m (Read _) = True"
| "plan_event J E m (Wrote w e) =
     ((w = RemovePlan \<and> (\<exists>tr plan. e_GetPlan (xe_env E) tr = Inr plan \<and> replaceable J m plan)) \<or>
      (\<exists>now url. w = PostPlan (plan_object (machine_plan m (isControlPlaneMachine m) now url))))"
| "plan_event J E m _ = False"

lemma plan_event_read: "is_read ev \<Longrightarrow> plan_event J E m ev"
  by (cases ev) (simp_all add: is_read_def)

lemma ext_clientset_reads: "emits is_read (GetWorkloadClusterClientset E cl)"
  unfolding GetWorkloadClusterClientset_def FindK0sControlPlane_def
  by (auto intro!: emits_intros getRESTConfig_reads client_for_reads)

lemma answering_emits: "emits P m \<Longrightarrow> (\<And>x. emits P (f x)) \<Longrightarrow> emits P (answering m f)"
  unfolding answering_def by (auto intro!: emits_intros split: sum.splits)

lemma start_plan_emits: "emits (plan_event J E m) (start_plan E m)"
  unfolding start_plan_def createAutopilotPlanForMachine_def getDownloadURLFromBootstrapConfig_def CreatePlan_def
  by (intro answering_emits emits.keeps_bindM emits.keeps_wrapM emits_readM emits_nowM emits_writeM emits.keeps_pure)
    (auto intro!: emits_intros split: option.splits)

lemma judge_plan_emits:
  assumes "e_GetPlan (xe_env E) tr = Inr plan"
  shows "emits (plan_event J E m) (judge_plan J E m plan)"
proof (cases "replaceable J m plan")
  case True
  with assms have "\<exists>tr plan. e_GetPlan (xe_env E) tr = Inr plan \<and> replaceable J m plan"
    by (intro exI conjI)
  then have "emits (plan_event J E m) (DeletePlan (xe_env E))"
    unfolding DeletePlan_def by (intro emits_writeM) simp
  then show ?thesis
    unfolding judge_plan_def
    by (auto intro!: emits_intros answering_emits start_plan_emits split: sum.splits bool.splits)
next
  case False
  have "appends (plan_event J E m) s (snd (judge_plan J E m plan s))" for s
    using False emits.frame_refl
    by (cases "GetPlanTargetNodes J plan"; cases "GetPlanTargetVersion J plan")
      (auto simp: judge_plan_def run_answering replaceable_def split: sum.splits bool.splits)
  then show ?thesis
    by (simp add: keeps_def)
qed

lemma DoUpdateMachine_emits: "emits (plan_event J E m) (DoUpdateMachine J E m)"
proof -
  have plan: "emits (plan_event J E m) (tryM (GetPlan (xe_env E)) (\<lambda>r. case r of
      Inl e \<Rightarrow> if is_not_found e then start_plan E m else ret (update_failed (error_text e))
    | Inr plan \<Rightarrow> judge_plan J E m plan))"
  proof (rule emits.keeps_tryM_ok)
    show "emits (plan_event J E m) (GetPlan (xe_env E))"
      unfolding GetPlan_def by (intro emits.keeps_wrapM emits_readM) simp
    show "emits (plan_event J E m) (case Inl e of Inl e \<Rightarrow> if is_not_found e then start_plan E m else ret (update_failed (error_text e))
        | Inr plan \<Rightarrow> judge_plan J E m plan)" for e
      by (auto intro!: emits_intros start_plan_emits)
    fix plan s s'
    assume "GetPlan (xe_env E) s = (Ok plan, s')"
    then have "e_GetPlan (xe_env E) (trace s) = Inr plan"
      by (cases "e_GetPlan (xe_env E) (trace s)") (auto simp: GetPlan_def run_wrapM)
    then show "emits (plan_event J E m) (case Inr plan of Inl e \<Rightarrow> if is_not_found e then start_plan E m else ret (update_failed (error_text e))
        | Inr plan \<Rightarrow> judge_plan J E m plan)"
      by (simp add: judge_plan_emits)
  qed
  show ?thesis
    unfolding DoUpdateMachine_def
    by (intro answering_emits plan emits_readM emits_mono [OF ext_clientset_reads plan_event_read]) simp
qed

subsection \<open>What is written, and what "updated" means\<close>


text \<open>
  The answer "updated" is given only where the plan in the workload cluster completed, names the machine among its nodes and is for
  the desired version, and then nothing was written.
\<close>
theorem updated_means_plan_completed:
  assumes "DoUpdateMachine J E m s = (Ok updated, t)"
  shows "\<exists>tr plan ns. e_GetPlan (xe_env E) tr = Inr plan \<and> IsPlanCompleted J plan = Inr True \<and>
    GetPlanTargetNodes J plan = Inr ns \<and> m_Name m \<in> set ns \<and> GetPlanTargetVersion J plan = Ok (m_Version m) \<and>
    list_all is_read (new_events s t)"
proof -
  obtain cl c u1 u2 where u1: "readM (ReadOther ''cluster'' (m_ClusterName m)) (\<lambda>tr. xe_GetCluster E tr (m_Namespace m, m_ClusterName m)) s = (Ok cl, u1)"
    and u2: "GetWorkloadClusterClientset ((xe_env E)\<lparr>e_hasClusterCache := False\<rparr>) cl u1 = (Ok c, u2)"
    and rest: "tryM (GetPlan (xe_env E)) (\<lambda>r. case r of
       Inl e \<Rightarrow> if is_not_found e then start_plan E m else ret (update_failed (error_text e))
     | Inr plan \<Rightarrow> judge_plan J E m plan) u2 = (Ok updated, t)"
    using assms unfolding DoUpdateMachine_def by (elim answering_OkE) blast
  obtain plan where plan: "e_GetPlan (xe_env E) (trace u2) = Inr plan"
    and judge: "judge_plan J E m plan (log_event (Read ReadPlan) u2) = (Ok updated, t)"
    using rest start_plan_not_updated
    by (cases "e_GetPlan (xe_env E) (trace u2)") (auto simp: run_tryM GetPlan_def run_wrapM split: if_splits)
  have fin: "IsPlanCompleted J plan = Inr True"
    using judge by (auto simp: judge_plan_def split: sum.splits bool.splits)
  obtain ns v where ns: "GetPlanTargetNodes J plan = Inr ns" and v: "GetPlanTargetVersion J plan = Ok v"
    and final: "(if m_Name m \<notin> set ns \<or> v \<noteq> m_Version m then answering (DeletePlan (xe_env E)) (\<lambda>_. start_plan E m) else ret updated)
        (log_event (Read ReadPlan) u2) = (Ok updated, t)"
    using judge fin
    by (cases "GetPlanTargetNodes J plan"; cases "GetPlanTargetVersion J plan") (simp_all add: judge_plan_def run_answering)
  have same: "m_Name m \<in> set ns" "v = m_Version m" and t: "t = log_event (Read ReadPlan) u2"
    using final start_plan_not_updated by (auto split: if_splits elim!: answering_OkE)
  have "u1 = log_event (Read (ReadOther ''cluster'' (m_ClusterName m))) s"
    using u1 by (cases "xe_GetCluster E (trace s) (m_Namespace m, m_ClusterName m)") auto
  then have "list_all is_read (new_events s t)"
    using keepsD [OF ext_clientset_reads u2] t by (auto simp: appends_def new_events_def)
  with plan fin ns v same show ?thesis by blast
qed

subsection \<open>Polling\<close>

definition serving :: "ext_env \<Rightarrow> object option \<Rightarrow> ext_env" where
  \<comment> \<open>a workload cluster that has this plan, or none, and accepts every write\<close>
  "serving E p = E\<lparr>xe_env := (xe_env E)\<lparr>e_GetPlan := (\<lambda>_. case p of None \<Rightarrow> Inl (ApiStatus NotFound []) | Some ob \<Rightarrow> Inr ob),
     e_write := (\<lambda>_ _. None)\<rparr>\<rparr>"

definition plan_effect :: "event \<Rightarrow> object option \<Rightarrow> object option" where
  "plan_effect ev p = (case ev of
       Wrote w None \<Rightarrow> (case w of PostPlan ob \<Rightarrow> Some ob | RemovePlan \<Rightarrow> None | _ \<Rightarrow> p)
     | _ \<Rightarrow> p)"

definition completed_plan :: "object \<Rightarrow> object" where
  \<comment> \<open>what autopilot makes of a plan in the end\<close>
  "completed_plan ob = (if map_of ob ''status'' = None then ob @ [(''status'', JObj [(''state'', JStr ''Completed'')])] else ob)"

definition poll :: "json_lib \<Rightarrow> ext_env \<Rightarrow> ctl \<Rightarrow> object option \<Rightarrow> machine \<Rightarrow> UpdateMachineResponse res \<times> object option" where
  \<comment> \<open>one call, and the plan in the workload cluster after it\<close>
  "poll J E s p m = (case DoUpdateMachine J (serving E p) m s of (r, t) \<Rightarrow> (r, fold plan_effect (new_events s t) p))"

fun polls :: "json_lib \<Rightarrow> ext_env \<Rightarrow> ctl \<Rightarrow> object option \<Rightarrow> machine list \<Rightarrow> UpdateMachineResponse res list" where
  \<comment> \<open>one call after the other, autopilot completing every plan in between\<close>
  "polls J E s p [] = []"
| "polls J E s p (m # ms) = (case poll J E s p m of (r, p') \<Rightarrow> r # polls J E s (map_option completed_plan p') ms)"

definition ext_ready :: "ext_env \<Rightarrow> machine \<Rightarrow> bool" where
  \<comment> \<open>the cluster, the workload cluster and the bootstrap configuration of the machine can be reached\<close>
  "ext_ready E m \<longleftrightarrow>
     (\<forall>tr. \<exists>cl. xe_GetCluster E tr (m_Namespace m, m_ClusterName m) = Inr cl \<and>
        (\<forall>p s. \<exists>c t. GetWorkloadClusterClientset ((xe_env (serving E p))\<lparr>e_hasClusterCache := False\<rparr>) cl s = (Ok c, t))) \<and>
     (\<forall>p s. \<exists>url t. getDownloadURLFromBootstrapConfig (serving E p) (m_ConfigRef m) (isControlPlaneMachine m) (m_Namespace m) s = (Ok url, t))"

definition plan_for :: "json_lib \<Rightarrow> string list \<Rightarrow> string \<Rightarrow> object \<Rightarrow> bool" where
  "plan_for J ns v plan \<longleftrightarrow> IsPlanCompleted J plan = Inr True \<and> GetPlanTargetNodes J plan = Inr ns \<and> GetPlanTargetVersion J plan = Ok v"

lemma plan_effect_read: "is_read ev \<Longrightarrow> plan_effect ev p = p"
  by (cases ev) (simp_all add: plan_effect_def)

lemma reads_keep_plan: "list_all is_read evs \<Longrightarrow> fold plan_effect evs p = p"
  by (induction evs) (simp_all add: plan_effect_read)

lemma serving_simps [simp]:
  "xe_GetCluster (serving E p) = xe_GetCluster E"
  "e_write (xe_env (serving E p)) = (\<lambda>_ _. None)"
  "e_GetPlan (xe_env (serving E p)) = (\<lambda>_. case p of None \<Rightarrow> Inl (ApiStatus NotFound []) | Some ob \<Rightarrow> Inr ob)"
  by (simp_all add: serving_def)

lemma completed_own_plan:
  assumes "json_laws J"
  shows "plan_for J [m_Name m] (m_Version m) (completed_plan (plan_object (machine_plan m cp now url)))"
proof -
  let ?p = "machine_plan m cp now url"
  let ?o = "completed_plan (plan_object ?p)"
  have [simp]: "pl_Version ?p = m_Version m" "plan_nodes ?p = [m_Name m]"
    by (simp_all add: machine_plan_def plan_nodes_def Let_def)
  have o: "?o = plan_object ?p @ [(''status'', JObj [(''state'', JStr ''Completed'')])]"
    by (simp add: completed_plan_def plan_object_def)
  obtain c where s: "nested_lookup ?o [''spec'', ''commands''] = Some (JArr [JObj c])"
    and t: "nested_lookup c [''k0supdate'', ''targets''] = Some (JObj
       [(pl_Target ?p, JObj [(''discovery'', JObj [(''static'', JObj [(''nodes'', JArr (map JStr [m_Name m]))])])])])"
    and v: "nested_lookup c [''k0supdate'', ''version''] = Some (JStr (m_Version m))"
    unfolding o by (simp add: plan_object_def)
  have st: "nested_lookup ?o [''status'', ''state''] = Some (JStr ''Completed'')"
    unfolding o by (simp add: plan_object_def)
  have n: "NestedStringSlice J [(''discovery'', JObj [(''static'', JObj [(''nodes'', JArr (map JStr [m_Name m]))])])]
      [''discovery'', ''static'', ''nodes''] = Inr (Some [m_Name m])"
    by (rule json_lawsD(4) [OF assms]) simp
  show ?thesis
    using json_lawsD(1) [OF assms s] json_lawsD(2) [OF assms t] json_lawsD(3) [OF assms v] json_lawsD(3) [OF assms st] n
    by (simp add: plan_for_def IsPlanCompleted_def GetPlanTargetNodes_def GetPlanTargetVersion_def)
qed

lemma download_url_reads: "emits is_read (getDownloadURLFromBootstrapConfig E ref cp ns)"
  unfolding getDownloadURLFromBootstrapConfig_def by (auto intro!: emits_intros split: option.splits)

lemma run_start_plan:
  assumes "ext_ready E m"
  shows "\<exists>now url evs t. start_plan (serving E p) m u = (Ok updating, t) \<and> list_all is_read evs \<and>
    trace t = trace u @ evs @ [Wrote (PostPlan (plan_object (machine_plan m (isControlPlaneMachine m) now url))) None]"
proof -
  obtain url v where v: "getDownloadURLFromBootstrapConfig (serving E p) (m_ConfigRef m) (isControlPlaneMachine m) (m_Namespace m) u = (Ok url, v)"
    using assms unfolding ext_ready_def by blast
  then obtain evs where "trace v = trace u @ evs" and "list_all is_read evs"
    using keepsD [OF download_url_reads v] by (auto simp: appends_def)
  then show ?thesis
    by (intro exI [of _ "e_Now (xe_env (serving E p)) (trace v)"] exI [of _ url] exI [of _ "evs @ [Read ReadClock]"])
      (simp add: start_plan_def run_answering createAutopilotPlanForMachine_def run_bindM run_wrapM v CreatePlan_def)
qed

lemma run_DoUpdateMachine:
  assumes "ext_ready E m"
  shows "\<exists>u evs. trace u = trace s @ evs \<and> list_all is_read evs \<and>
    DoUpdateMachine J (serving E p) m s =
      (case p of None \<Rightarrow> start_plan (serving E p) m u | Some ob \<Rightarrow> judge_plan J (serving E p) m ob u)"
proof -
  let ?c = "log_event (Read (ReadOther ''cluster'' (m_ClusterName m))) s"
  obtain cl where cl: "xe_GetCluster E (trace s) (m_Namespace m, m_ClusterName m) = Inr cl"
    and client: "\<And>p s. \<exists>c t. GetWorkloadClusterClientset ((xe_env (serving E p))\<lparr>e_hasClusterCache := False\<rparr>) cl s = (Ok c, t)"
    using assms unfolding ext_ready_def by blast
  obtain c v where v: "GetWorkloadClusterClientset ((xe_env (serving E p))\<lparr>e_hasClusterCache := False\<rparr>) cl ?c = (Ok c, v)"
    using client by blast
  obtain evs where "trace v = trace ?c @ evs" and "list_all is_read evs"
    using keepsD [OF ext_clientset_reads v] by (auto simp: appends_def)
  then show ?thesis
    by (intro exI [of _ "log_event (Read ReadPlan) v"] exI [of _ "Read (ReadOther ''cluster'' (m_ClusterName m)) # evs @ [Read ReadPlan]"])
      (simp add: DoUpdateMachine_def run_answering cl v run_tryM GetPlan_def run_wrapM split: option.splits)
qed

lemma poll_result:
  assumes ready: "ext_ready E m" and "case p of None \<Rightarrow> True | Some ob \<Rightarrow> plan_for J ns v ob"
  shows "if p \<noteq> None \<and> m_Name m \<in> set ns \<and> v = m_Version m then poll J E s p m = (Ok updated, p)
    else \<exists>now url. poll J E s p m = (Ok updating, Some (plan_object (machine_plan m (isControlPlaneMachine m) now url)))"
proof -
  obtain u evs where u: "trace u = trace s @ evs" "list_all is_read evs"
    and run: "DoUpdateMachine J (serving E p) m s =
      (case p of None \<Rightarrow> start_plan (serving E p) m u | Some ob \<Rightarrow> judge_plan J (serving E p) m ob u)"
    using run_DoUpdateMachine [OF ready] by blast
  have start: "\<exists>now url. poll J E s p m = (Ok updating, Some (plan_object (machine_plan m (isControlPlaneMachine m) now url)))"
    if w: "trace w = trace s @ ws" "DoUpdateMachine J (serving E p) m s = start_plan (serving E p) m w" for w ws
  proof -
    obtain now url evs t where "start_plan (serving E p) m w = (Ok updating, t)"
      and "trace t = trace w @ evs @ [Wrote (PostPlan (plan_object (machine_plan m (isControlPlaneMachine m) now url))) None]"
      using run_start_plan [OF ready, of p w] by blast
    with w have "poll J E s p m = (Ok updating, Some (plan_object (machine_plan m (isControlPlaneMachine m) now url)))"
      by (simp add: poll_def new_events_def plan_effect_def)
    then show ?thesis by blast
  qed
  show ?thesis
  proof (cases p)
    case None
    then show ?thesis
      using run start [OF u(1)] by simp
  next
    case (Some ob)
    with assms(2) have ob: "IsPlanCompleted J ob = Inr True" "GetPlanTargetNodes J ob = Inr ns" "GetPlanTargetVersion J ob = Ok v"
      by (simp_all add: plan_for_def)
    show ?thesis
    proof (cases "m_Name m \<in> set ns \<and> v = m_Version m")
      case True
      then show ?thesis
        using run ob u Some by (simp add: poll_def judge_plan_def run_answering new_events_def reads_keep_plan)
    next
      case False
      let ?w = "log_event (Wrote RemovePlan None) u"
      have "DoUpdateMachine J (serving E p) m s = start_plan (serving E p) m ?w"
        using run ob Some False by (auto simp: judge_plan_def run_answering DeletePlan_def)
      then show ?thesis
        using start [of ?w "evs @ [Wrote RemovePlan None]"] u False by auto
    qed
  qed
qed

text \<open>
  C20 (liveness). A machine that is polled alone is updated: where there is no plan, or a completed one for another machine or version, the first
  poll starts the plan and asks to be polled again, and once autopilot completed it every later poll answers that the machine is updated.
\<close>
theorem machine_polled_alone_is_updated:
  assumes "json_laws J" and "ext_ready E m"
    and "case p of None \<Rightarrow> True | Some ob \<Rightarrow> plan_for J ns v ob \<and> (m_Name m \<notin> set ns \<or> v \<noteq> m_Version m)"
  shows "polls J E s p (replicate (Suc n) m) = Ok updating # replicate n (Ok updated)"
proof -
  have again: "polls J E s (Some (completed_plan ob)) (replicate n m) = replicate n (Ok updated)"
    if "plan_for J [m_Name m] (m_Version m) (completed_plan ob)" for ob n
  proof (induction n)
    case (Suc n)
    have "completed_plan (completed_plan ob) = completed_plan ob"
      by (simp add: completed_plan_def map_of_eq_None_iff)
    with Suc that poll_result [OF assms(2), of J "[m_Name m]" "m_Version m" "Some (completed_plan ob)" s] show ?case
      by simp
  qed simp
  obtain now url where "poll J E s p m = (Ok updating, Some (plan_object (machine_plan m (isControlPlaneMachine m) now url)))"
    using poll_result [OF assms(2), of J ns v p s] assms(3) by (auto split: option.splits if_splits)
  then show ?thesis
    using again [OF completed_own_plan [OF assms(1)]] by simp
qed

text \<open>
  C40 (error). Two machines can keep each other waiting for ever: where two machines are polled in turns, each poll finds the completed
  plan of the other machine, deletes it and starts a plan of its own, so that no poll ever answers that its machine is updated.
\<close>
theorem two_machines_starve:
  assumes "json_laws J" and "ext_ready E m1" and "ext_ready E m2" and "m_Name m1 \<noteq> m_Name m2"
  shows "polls J E s None (concat (replicate n [m1, m2])) = replicate (2 * n) (Ok updating)"
proof -
  have turns: "polls J E s p (concat (replicate n [m1, m2])) = replicate (2 * n) (Ok updating)"
    if "p = None \<or> (\<exists>ob. p = Some ob \<and> plan_for J [m_Name m2] (m_Version m2) ob)" for p
    using that
  proof (induction n arbitrary: p)
    case (Suc n)
    obtain now1 url1 where 1: "poll J E s p m1 = (Ok updating, Some (plan_object (machine_plan m1 (isControlPlaneMachine m1) now1 url1)))"
      using poll_result [OF assms(2), of J "[m_Name m2]" "m_Version m2" p s] Suc.prems assms(4) by (auto split: if_splits)
    let ?q = "completed_plan (plan_object (machine_plan m1 (isControlPlaneMachine m1) now1 url1))"
    obtain now2 url2 where 2: "poll J E s (Some ?q) m2 = (Ok updating, Some (plan_object (machine_plan m2 (isControlPlaneMachine m2) now2 url2)))"
      using poll_result [OF assms(3), of J "[m_Name m1]" "m_Version m1" "Some ?q" s] completed_own_plan [OF assms(1)] assms(4)
      by (auto split: if_splits)
    show ?case
      using Suc.IH [of "Some (completed_plan (plan_object (machine_plan m2 (isControlPlaneMachine m2) now2 url2)))"]
        completed_own_plan [OF assms(1)] 1 2 by simp
  qed simp
  show ?thesis
    by (rule turns) simp
qed

subsection \<open>What the extension takes on\<close>

text \<open>
  Where the extension says what it can do for a machine, that is the version and nothing else: for a machine bootstrapped by k0s the patch turns the
  current machine into the same machine with the desired version, for any other machine there is no patch, and the
  bootstrap configuration and the infrastructure are left alone. \<open>ap\<close> is the application of a patch, which undoes
  what \<open>CreatePatch\<close> computes.
\<close>
theorem extension_takes_only_the_version:
  assumes ap: "\<And>a b ops. xl_CreatePatch X a b = Inr ops \<Longrightarrow> ap ops a = b"
    and "cr_Status (DoCanUpdateMachine X current desired) = ResponseStatusSuccess"
  defines "resp \<equiv> DoCanUpdateMachine X current desired"
  shows "cr_BootstrapConfigPatch resp = None \<and> cr_InfrastructureMachinePatch resp = None \<and>
    (if isMachineBootstrappedWithK0s current then
       \<exists>bytes ops old new. cr_MachinePatch resp = Some bytes \<and> xl_MarshalPatch X ops = Inr bytes \<and>
         xl_MarshalMachine X current = Inr old \<and> xl_MarshalMachine X (current\<lparr>m_Version := m_Version desired\<rparr>) = Inr new \<and> ap ops old = new
     else cr_MachinePatch resp = None)"
proof -
  let ?new = "current\<lparr>m_Version := m_Version desired\<rparr>"
  have changed: "(if m_Version current \<noteq> m_Version desired then ?new else current) = ?new"
    by (cases current) simp
  have k0s: "isMachineBootstrappedWithK0s ?new \<longleftrightarrow> isMachineBootstrappedWithK0s current"
    by (simp add: isMachineBootstrappedWithK0s_def)
  obtain q where q: "computeCanUpdateMachineResponse X current ?new = Inr q" and resp: "resp = can_update_answer q"
    using assms(2) unfolding resp_def DoCanUpdateMachine_def Let_def changed
    by (auto simp: can_update_failed_def split: sum.splits)
  show ?thesis
    using q ap unfolding resp computeCanUpdateMachineResponse_def k0s
    by (fastforce simp: can_update_answer_def createJSONPatch_def split: sum.splits if_splits)
qed

subsection \<open>Witnesses\<close>

definition ref_ext_env :: ext_env where
  \<comment> \<open>a server with one cluster, its kubeconfig, and controller configurations\<close>
  "ref_ext_env = \<lparr>xe_env = (ref_env [])\<lparr>e_GetReferenced := (\<lambda>_ _ r _. Inr ((ref_infra (r_Name r))\<lparr>u_Kind := r_Kind r\<rparr>)),
       e_GetSecret := (\<lambda>_ key. Inr \<lparr>s_Name = snd key, s_Namespace = fst key, s_Labels = Map.empty, s_Annotations = Map.empty,
         s_OwnerReferences = [], s_Data = [''value'' \<mapsto> ''kubeconfig''], s_Type = []\<rparr>)\<rparr>,
     xe_GetCluster = (\<lambda>_ _. Inr ref_cluster), xe_FromController = (\<lambda>_. Inr ref_controller_config),
     xe_FromWorker = (\<lambda>_. Inl (Errorf []))\<rparr>"

lemma ref_ext_ready: "ext_ready ref_ext_env (ref_machine n 0)"
  by (simp add: ext_ready_def ref_ext_env_def serving_def isControlPlaneMachine_def GetWorkloadClusterClientset_def
      FindK0sControlPlane_def getRESTConfig_def fromKubeconfigSecretToRestConfig_def client_for_def isTunneledRestConfigPossible_def
      getDownloadURLFromBootstrapConfig_def run_bindM run_wrapM ref_defs ref_controller_config_def KubeconfigDataName_def)

theorem machine_polled_alone_is_updated_witness:
  "polls ref_json ref_ext_env (ref_ctl (ref_scope 1 [] [] [])) None [ref_machine ''a'' 0, ref_machine ''a'' 0] = [Ok updating, Ok updated]"
  using machine_polled_alone_is_updated [OF ref_json_laws ref_ext_ready, where p = None and n = 1] by simp

theorem two_machines_starve_witness:
  "polls ref_json ref_ext_env (ref_ctl (ref_scope 1 [] [] [])) None
     [ref_machine ''a'' 0, ref_machine ''b'' 0, ref_machine ''a'' 0, ref_machine ''b'' 0] = replicate 4 (Ok updating)"
proof -
  have "m_Name (ref_machine ''a'' 0) \<noteq> m_Name (ref_machine ''b'' 0)"
    by (simp add: ref_machine_def)
  from two_machines_starve [OF ref_json_laws ref_ext_ready ref_ext_ready this, of _ 2] show ?thesis
    by (simp add: numeral_2_eq_2 eval_nat_numeral)
qed

definition ref_plan :: "string \<Rightarrow> object" where
  "ref_plan n = completed_plan (plan_object (machine_plan (ref_machine n 0) True 0 []))"

definition ref_poll :: "string \<Rightarrow> string \<Rightarrow> UpdateMachineResponse res \<times> ctl" where
  \<comment> \<open>one call for a machine, where the plan of another or of itself completed\<close>
  "ref_poll n n' = DoUpdateMachine ref_json (serving ref_ext_env (Some (ref_plan n'))) (ref_machine n 0) (ref_ctl (ref_scope 1 [] [] []))"

lemma ref_plan_for: "plan_for ref_json [n] ''v1.30.0+k0s.0'' (ref_plan n)"
  using completed_own_plan [OF ref_json_laws, of "ref_machine n 0" True 0 "[]"] by (simp add: ref_plan_def ref_machine_def)

theorem updated_means_plan_completed_witness:
  "\<exists>tr plan ns. e_GetPlan (xe_env (serving ref_ext_env (Some (ref_plan ''a'')))) tr = Inr plan \<and> IsPlanCompleted ref_json plan = Inr True \<and>
    GetPlanTargetNodes ref_json plan = Inr ns \<and> ''a'' \<in> set ns \<and> GetPlanTargetVersion ref_json plan = Ok ''v1.30.0+k0s.0''"
proof -
  have "fst (ref_poll ''a'' ''a'') = Ok updated"
    using poll_result [OF ref_ext_ready [of "''a''"], where J = ref_json and ns = "[''a'']" and v = "''v1.30.0+k0s.0''"
        and p = "Some (ref_plan ''a'')" and s = "ref_ctl (ref_scope 1 [] [] [])"]
      ref_plan_for [of "''a''"]
    by (auto simp: ref_poll_def poll_def ref_machine_def split: prod.splits)
  then obtain t where "ref_poll ''a'' ''a'' = (Ok updated, t)"
    by (cases "ref_poll ''a'' ''a''") simp
  from updated_means_plan_completed [OF this [unfolded ref_poll_def]] show ?thesis
    by (simp add: ref_machine_def) blast
qed


definition ref_patches :: patch_lib where
  "ref_patches = \<lparr>xl_MarshalMachine = (\<lambda>m. Inr (m_Version m)), xl_MarshalMachineSet = (\<lambda>m. Inr (mset_Version m)),
     xl_CreatePatch = (\<lambda>a b. Inr [JStr b]), xl_MarshalPatch = (\<lambda>ops. Inr (case ops of [JStr b] \<Rightarrow> b | _ \<Rightarrow> []))\<rparr>"

theorem extension_takes_only_the_version_witness:
  "\<exists>bytes. cr_MachinePatch (DoCanUpdateMachine ref_patches (ref_machine ''a'' 0) ((ref_machine ''a'' 0)\<lparr>m_Version := ''v1.31.0+k0s.0''\<rparr>)) = Some bytes"
  using extension_takes_only_the_version [of ref_patches "\<lambda>ops _. (case ops of [JStr b] \<Rightarrow> b | _ \<Rightarrow> [])" "ref_machine ''a'' 0"
      "(ref_machine ''a'' 0)\<lparr>m_Version := ''v1.31.0+k0s.0''\<rparr>"]
  by (simp add: ref_patches_def DoCanUpdateMachine_def computeCanUpdateMachineResponse_def createJSONPatch_def can_update_answer_def
      isMachineBootstrappedWithK0s_def ref_machine_def)

end
