(* ===== verification/Manifest_Convert.thy ===== *)
theory Manifest_Convert
  imports Reference_World
begin

text \<open>
  The tool that converts manifests from v1beta1 to v1beta2 (\<open>hack/convert/v1beta2.go\<close>). YAML, the scheme and the typed
  conversion of an object are parameters; what the tool does with them is modelled: which documents pass unchanged, and how
  the converted object is stripped of what the user never wrote. Ranging over a Go map while deleting from
  it treats every key once and on its own, so the loops are recursions over the entries. Shown: stripping loses no
  setting that differs from the default, invents none, and leaves no empty map behind.
\<close>

subsection \<open>Stripping an object\<close>

fun json_get :: "object \<Rightarrow> string \<Rightarrow> json" where
  \<comment> \<open>indexing a map with one result: nil where there is no entry\<close>
  "json_get ob k = (case map_of ob k of None \<Rightarrow> JNull | Some v \<Rightarrow> v)"

function deepEqual :: "json \<Rightarrow> json \<Rightarrow> bool"
  and deep_fields :: "object \<Rightarrow> object \<Rightarrow> bool"
  and deep_items :: "json list \<Rightarrow> json list \<Rightarrow> bool" where
  "deepEqual (JObj av) b = (case b of JObj bm \<Rightarrow> length av = length bm \<and> deep_fields av bm | _ \<Rightarrow> False)"
| "deepEqual (JArr av) b = (case b of JArr bl \<Rightarrow> length av = length bl \<and> deep_items av bl | _ \<Rightarrow> False)"
| "deepEqual JNull b = (b = JNull)"
| "deepEqual (JBool x) b = (b = JBool x)"
| "deepEqual (JInt x) b = (b = JInt x)"
| "deepEqual (JStr x) b = (b = JStr x)"
| "deep_fields [] bm = True"
| "deep_fields ((k, v) # av) bm = (deepEqual v (json_get bm k) \<and> deep_fields av bm)"
| "deep_items [] bl = True"
| "deep_items (v # av) [] = False"
| "deep_items (v # av) (w # bl) = (deepEqual v w \<and> deep_items av bl)"
  by pat_completeness auto
termination
  by (relation "measure (case_sum (\<lambda>(a, _). 2 * size a + 1) (case_sum (\<lambda>(av, _). 2 * size (JObj av)) (\<lambda>(av, _). 2 * size (JArr av))))") auto

function pruneBaselineFields :: "object \<Rightarrow> object \<Rightarrow> object" where
  "pruneBaselineFields [] baseline = []"
| "pruneBaselineFields ((k, rv) # result) baseline =
     (let rest = pruneBaselineFields result baseline in
      case map_of baseline k of
        None \<Rightarrow> (k, rv) # rest
      | Some bv \<Rightarrow>
          (case (rv, bv) of
             (JObj rMap, JObj bMap) \<Rightarrow>
               (let rMap' = pruneBaselineFields rMap bMap in if rMap' = [] then rest else (k, JObj rMap') # rest)
           | _ \<Rightarrow> if deepEqual rv bv then rest else (k, rv) # rest))"
  by pat_completeness auto
termination
  by (relation "measure (\<lambda>(r, _). size (JObj r))") auto

function pruneEmptyMaps :: "object \<Rightarrow> object" where
  "pruneEmptyMaps [] = []"
| "pruneEmptyMaps ((k, v) # m) =
     (case v of
        JObj child \<Rightarrow>
          (let child' = pruneEmptyMaps child in if child' = [] then pruneEmptyMaps m else (k, JObj child') # pruneEmptyMaps m)
      | _ \<Rightarrow> (k, v) # pruneEmptyMaps m)"
  by pat_completeness auto
termination
  by (relation "measure (\<lambda>r. size (JObj r))") auto

definition set_field :: "string \<Rightarrow> json \<Rightarrow> object \<Rightarrow> object" where
  "set_field k v ob = filter (\<lambda>(k', _). k' \<noteq> k) ob @ [(k, v)]"

definition delete_field :: "string \<Rightarrow> object \<Rightarrow> object" where
  "delete_field k ob = filter (\<lambda>(k', _). k' \<noteq> k) ob"

definition stripped :: "string \<Rightarrow> string \<Rightarrow> object \<Rightarrow> object \<Rightarrow> object" where
  \<comment> \<open>the end of \<open>convert\<close>: of the converted object and of the zero object\<close>
  "stripped api_group kind u zero =
     set_field ''kind'' (JStr kind) (set_field ''apiVersion'' (JStr (api_group @ ''/v1beta2''))
       (delete_field ''status'' (pruneEmptyMaps (pruneBaselineFields u zero))))"

subsection \<open>Converting documents\<close>

record ('s, 'h) tool_env =
  tv_Documents :: "string \<Rightarrow> string list \<times> gerror option" \<comment> \<open>the documents that were read, and the error that ended it\<close>
  tv_Unmarshal :: "string \<Rightarrow> gerror + object"
  tv_Marshal :: "object \<Rightarrow> gerror + string"
  tv_Old :: "string \<times> string \<Rightarrow> bool option" \<comment> \<open>group and kind: whether registered in v1beta1, and convertible\<close>
  tv_New :: "string \<times> string \<Rightarrow> gerror + 'h" \<comment> \<open>the zero object of v1beta2\<close>
  tv_IsHub :: "string \<times> string \<Rightarrow> bool"
  tv_Decode :: "string \<times> string \<Rightarrow> string \<Rightarrow> gerror + 's"
  tv_ConvertTo :: "string \<times> string \<Rightarrow> 's \<Rightarrow> gerror + 'h"
  tv_Unstructured :: "'h \<Rightarrow> gerror + object" \<comment> \<open>\<open>scheme.Convert\<close>\<close>

definition wrap_error :: "(gerror \<Rightarrow> gerror) \<Rightarrow> gerror + 'a \<Rightarrow> gerror + 'a" where
  "wrap_error g r = (case r of Inl e \<Rightarrow> Inl (g e) | Inr x \<Rightarrow> Inr x)"

definition and_then :: "gerror + 'a \<Rightarrow> ('a \<Rightarrow> gerror + 'b) \<Rightarrow> gerror + 'b" where
  "and_then r f = (case r of Inl e \<Rightarrow> Inl e | Inr x \<Rightarrow> f x)"

definition bumpAPIVersion :: "('s, 'h) tool_env \<Rightarrow> string \<Rightarrow> string \<Rightarrow> gerror + string" where
  "bumpAPIVersion V api_group doc =
     and_then (tv_Unmarshal V doc) (\<lambda>ob. tv_Marshal V (set_field ''apiVersion'' (JStr (api_group @ ''/v1beta2'')) ob))"

definition convert :: "('s, 'h) tool_env \<Rightarrow> string \<Rightarrow> string \<Rightarrow> string \<Rightarrow> gerror + string" where
  "convert V api_group kind doc =
     (let gk = (api_group, kind) in
      case tv_Old V gk of
        None \<Rightarrow> Inr doc
      | Some False \<Rightarrow> bumpAPIVersion V api_group doc
      | Some True \<Rightarrow>
          and_then (wrap_error (Wrapf (''creating v1beta2 object for '' @ kind)) (tv_New V gk)) (\<lambda>zeroObj.
          if \<not> tv_IsHub V gk then Inl (Errorf (api_group @ ''/v1beta2 '' @ kind @ '' does not implement conversion.Hub''))
          else
            and_then (wrap_error (Wrapf ''converting zero object to unstructured'') (tv_Unstructured V zeroObj)) (\<lambda>zeroU.
            and_then (tv_Decode V gk doc) (\<lambda>src.
            and_then (tv_ConvertTo V gk src) (\<lambda>dst.
            and_then (wrap_error (Wrapf ''converting to unstructured'') (tv_Unstructured V dst)) (\<lambda>u.
            tv_Marshal V (stripped api_group kind u zeroU)))))))"

definition object_string :: "object \<Rightarrow> string \<Rightarrow> string" where
  \<comment> \<open>\<open>GetAPIVersion\<close> and \<open>GetKind\<close>: empty where the field is not a string\<close>
  "object_string ob k = (case map_of ob k of Some (JStr s) \<Rightarrow> s | _ \<Rightarrow> [])"

definition metadata_string :: "object \<Rightarrow> string \<Rightarrow> string" where
  "metadata_string ob k = (case nested_lookup ob [''metadata'', k] of Some (JStr s) \<Rightarrow> s | _ \<Rightarrow> [])"

definition has_suffix :: "string \<Rightarrow> string \<Rightarrow> bool" where
  "has_suffix s suf \<longleftrightarrow> has_prefix (rev suf) (rev s)"

definition convertDocument :: "('s, 'h) tool_env \<Rightarrow> string \<Rightarrow> gerror + string" where
  "convertDocument V doc =
     (case tv_Unmarshal V doc of
        Inl _ \<Rightarrow> Inr doc
      | Inr u \<Rightarrow>
          (let apiVersion = object_string u ''apiVersion''; kind = object_string u ''kind'';
               name = metadata_string u ''name''; ns = metadata_string u ''namespace'' in
           if \<not> has_suffix apiVersion ''/v1beta1'' then Inr doc
           else wrap_error (Wrapf (''converting '' @ kind @ '' '' @ (if ns \<noteq> [] then ns @ ''/'' @ name else name)))
             (convert V (trim_suffix apiVersion ''/v1beta1'') kind doc)))"

fun convert_documents :: "('s, 'h) tool_env \<Rightarrow> bool \<Rightarrow> string list \<Rightarrow> gerror option \<times> string" where
  \<comment> \<open>the loop of \<open>processStream\<close>: the error, and what was written up to it\<close>
  "convert_documents V first [] = (None, [])"
| "convert_documents V first (d # ds) =
     (let doc = trim_space d in
      if doc = [] then convert_documents V first ds
      else case convertDocument V doc of
        Inl e \<Rightarrow> (Some e, [])
      | Inr converted \<Rightarrow>
          (case convert_documents V False ds of (e, out) \<Rightarrow>
             (e, (if first then [] else ''---'' @ newline) @ converted @ newline @ out)))"

definition processStream :: "('s, 'h) tool_env \<Rightarrow> gerror + string \<Rightarrow> gerror option \<times> string" where
  "processStream V input =
     (case input of
        Inl e \<Rightarrow> (Some e, [])
      | Inr data \<Rightarrow>
          (case tv_Documents V data of (docs, readErr) \<Rightarrow>
             (case convert_documents V True docs of
                (Some e, out) \<Rightarrow> (Some e, out)
              | (None, out) \<Rightarrow> (map_option (Wrapf ''reading document'') readErr, out))))"

subsection \<open>Facts\<close>

lemma and_then_Inr [simp]: "and_then r f = Inr y \<longleftrightarrow> (\<exists>x. r = Inr x \<and> f x = Inr y)"
  by (cases r) (simp_all add: and_then_def)

lemma wrap_error_Inr [simp]: "wrap_error g r = Inr x \<longleftrightarrow> r = Inr x"
  by (cases r) (simp_all add: wrap_error_def)

function wf_fields :: "object \<Rightarrow> bool" where
  \<comment> \<open>the keys are distinct, in nested maps too\<close>
  "wf_fields [] = True"
| "wf_fields ((k, v) # ob) = (k \<notin> fst ` set ob \<and> (case v of JObj child \<Rightarrow> wf_fields child | _ \<Rightarrow> True) \<and> wf_fields ob)"
  by pat_completeness auto
termination
  by (relation "measure (\<lambda>r. size (JObj r))") auto

function no_empty_maps :: "object \<Rightarrow> bool" where
  "no_empty_maps [] = True"
| "no_empty_maps ((k, v) # ob) = ((case v of JObj child \<Rightarrow> child \<noteq> [] \<and> no_empty_maps child | _ \<Rightarrow> True) \<and> no_empty_maps ob)"
  by pat_completeness auto
termination
  by (relation "measure (\<lambda>r. size (JObj r))") auto

definition setting :: "json \<Rightarrow> bool" where
  \<comment> \<open>anything but a map\<close>
  "setting v \<longleftrightarrow> (\<forall>ob. v \<noteq> JObj ob)"

definition prune_value :: "json \<Rightarrow> json option \<Rightarrow> json option" where
  \<comment> \<open>what becomes of one entry\<close>
  "prune_value rv b = (case b of
       None \<Rightarrow> Some rv
     | Some bv \<Rightarrow>
         (case (rv, bv) of
            (JObj rMap, JObj bMap) \<Rightarrow> (if pruneBaselineFields rMap bMap = [] then None else Some (JObj (pruneBaselineFields rMap bMap)))
          | _ \<Rightarrow> if deepEqual rv bv then None else Some rv))"

definition prune_empty_value :: "json \<Rightarrow> json option" where
  "prune_empty_value v = (case v of
       JObj child \<Rightarrow> (if pruneEmptyMaps child = [] then None else Some (JObj (pruneEmptyMaps child)))
     | _ \<Rightarrow> Some v)"

lemma prune_Cons: "pruneBaselineFields ((k, rv) # r) b =
    (case prune_value rv (map_of b k) of None \<Rightarrow> pruneBaselineFields r b | Some v \<Rightarrow> (k, v) # pruneBaselineFields r b)"
  by (simp add: prune_value_def Let_def split: option.splits json.splits)

lemma prune_empty_Cons: "pruneEmptyMaps ((k, v) # m) =
    (case prune_empty_value v of None \<Rightarrow> pruneEmptyMaps m | Some v \<Rightarrow> (k, v) # pruneEmptyMaps m)"
  by (simp add: prune_empty_value_def Let_def split: option.splits json.splits)

lemma wf_fields_get: "wf_fields ob \<Longrightarrow> map_of ob k = Some (JObj child) \<Longrightarrow> wf_fields child"
  by (induction ob rule: wf_fields.induct) (auto split: if_splits)

lemma map_of_notin: "k \<notin> fst ` set ob \<Longrightarrow> map_of ob k = None"
  by (simp add: map_of_eq_None_iff)

lemma map_of_prune: "wf_fields r \<Longrightarrow>
    map_of (pruneBaselineFields r b) k = (case map_of r k of None \<Rightarrow> None | Some rv \<Rightarrow> prune_value rv (map_of b k))"
proof (induction r)
  case (Cons x r)
  obtain k' v where x: "x = (k', v)" by fastforce
  with Cons.prems have "wf_fields r" and "map_of r k' = None"
    by (auto simp: map_of_notin)
  then show ?case
    using Cons.IH unfolding x prune_Cons by (auto split: option.splits)
qed simp

lemma map_of_prune_empty: "wf_fields m \<Longrightarrow>
    map_of (pruneEmptyMaps m) k = (case map_of m k of None \<Rightarrow> None | Some v \<Rightarrow> prune_empty_value v)"
proof (induction m)
  case (Cons x r)
  obtain k' v where x: "x = (k', v)" by fastforce
  with Cons.prems have "wf_fields r" and "map_of r k' = None"
    by (auto simp: map_of_notin)
  then show ?case
    using Cons.IH unfolding x prune_empty_Cons by (auto split: option.splits)
qed simp

lemma prune_keys: "fst ` set (pruneBaselineFields r b) \<subseteq> fst ` set r"
proof (induction r)
  case (Cons x r)
  then show ?case
    by (cases x) (auto simp: prune_Cons simp del: pruneBaselineFields.simps(2) split: option.splits)
qed simp

lemma wf_prune: "wf_fields r \<Longrightarrow> wf_fields (pruneBaselineFields r b)"
proof (induction r b rule: pruneBaselineFields.induct)
  case (2 k rv r b)
  have notin: "k \<notin> fst ` set (pruneBaselineFields r b)"
    using prune_keys [of r b] "2.prems" by auto
  have rest: "wf_fields (pruneBaselineFields r b)"
    using "2.IH"(1) "2.prems" by simp
  have child: "wf_fields (pruneBaselineFields rMap bMap)" if "map_of b k = Some (JObj bMap)" "rv = JObj rMap" for rMap bMap
    using "2.IH"(2) [OF refl that(1), of "JObj rMap" "JObj bMap"] that "2.prems" by simp
  show ?case
    using notin rest child "2.prems"
    by (auto simp: prune_Cons prune_value_def simp del: pruneBaselineFields.simps(2) split: option.splits json.splits if_splits)
qed simp

lemma no_empty_prune: "no_empty_maps (pruneEmptyMaps m)"
  by (induction m rule: pruneEmptyMaps.induct) (auto simp: Let_def split: json.splits)

lemma no_empty_fixed: "no_empty_maps m \<Longrightarrow> pruneEmptyMaps m = m"
  by (induction m rule: no_empty_maps.induct) (auto simp: Let_def split: json.splits)

lemma deepEqual_setting: "deepEqual v w \<Longrightarrow> setting v \<Longrightarrow> setting w"
  by (cases v) (auto simp: setting_def split: json.splits)

lemma prune_keeps_settings:
  assumes "wf_fields r" and "nested_lookup r p = Some v" and "setting v"
  shows "nested_lookup (pruneBaselineFields r b) p = Some v \<or>
    (nested_lookup (pruneBaselineFields r b) p = None \<and> (\<exists>w. nested_lookup b p = Some w \<and> deepEqual v w))"
  using assms
proof (induction p arbitrary: r b)
  case Nil
  then show ?case by (auto simp: setting_def)
next
  case (Cons k ks)
  show ?case
  proof (cases "ks = []")
    case True
    then show ?thesis
      using Cons.prems map_of_prune [OF Cons.prems(1), of b k]
      by (auto simp: prune_value_def setting_def split: option.splits json.splits if_splits)
  next
    case False
    then obtain child where child: "map_of r k = Some (JObj child)" "nested_lookup child ks = Some v"
      using Cons.prems(2) by (auto simp: nested_lookup_Cons simp del: nested_lookup.simps split: option.splits json.splits)
    note IH = Cons.IH [OF wf_fields_get [OF Cons.prems(1) child(1)] child(2) Cons.prems(3)]
    have none: "nested_lookup [] ks = None"
      using False by (cases ks rule: remdups_adj.cases) auto
    show ?thesis
    proof (cases "\<exists>bMap. map_of b k = Some (JObj bMap)")
      case True
      then obtain bMap where bMap: "map_of b k = Some (JObj bMap)" by blast
      then have "map_of (pruneBaselineFields r b) k =
          (if pruneBaselineFields child bMap = [] then None else Some (JObj (pruneBaselineFields child bMap)))"
        using child map_of_prune [OF Cons.prems(1), of b k] by (simp add: prune_value_def)
      then show ?thesis
        using IH [of bMap] bMap none False by (cases "pruneBaselineFields child bMap = []") (simp_all add: nested_lookup_Cons del: nested_lookup.simps)
    next
      case other: False
      then have "map_of (pruneBaselineFields r b) k = Some (JObj child)"
        using child map_of_prune [OF Cons.prems(1), of b k] by (auto simp: prune_value_def split: option.splits json.splits)
      then show ?thesis
        using child False by (simp add: nested_lookup_Cons del: nested_lookup.simps)
    qed
  qed
qed

lemma prune_adds_none:
  assumes "wf_fields r" and "nested_lookup (pruneBaselineFields r b) p = Some v" and "setting v"
  shows "nested_lookup r p = Some v"
  using assms
proof (induction p arbitrary: r b)
  case Nil
  then show ?case by (auto simp: setting_def)
next
  case (Cons k ks)
  show ?case
  proof (cases "map_of r k")
    case None
    then show ?thesis
      using Cons.prems map_of_prune [OF Cons.prems(1), of b k]
      by (auto simp: nested_lookup_Cons simp del: nested_lookup.simps split: if_splits)
  next
    case (Some rv)
    show ?thesis
    proof (cases "ks = []")
      case True
      then show ?thesis
        using Some Cons.prems map_of_prune [OF Cons.prems(1), of b k]
        by (auto simp: prune_value_def setting_def split: option.splits json.splits if_splits)
    next
      case False
      with Cons.prems(2) obtain c where c: "map_of (pruneBaselineFields r b) k = Some (JObj c)" "nested_lookup c ks = Some v"
        by (auto simp: nested_lookup_Cons simp del: nested_lookup.simps split: option.splits json.splits)
      then obtain child where child: "rv = JObj child" and "c = child \<or> (\<exists>bMap. c = pruneBaselineFields child bMap)"
        using Some map_of_prune [OF Cons.prems(1), of b k]
        by (auto simp: prune_value_def split: option.splits json.splits if_splits)
      moreover have "wf_fields child"
        using wf_fields_get [OF Cons.prems(1)] Some child by blast
      ultimately have "nested_lookup child ks = Some v"
        using Cons.IH [of child] c(2) Cons.prems(3) by blast
      then show ?thesis
        using Some child False by (simp add: nested_lookup_Cons del: nested_lookup.simps)
    qed
  qed
qed

lemma prune_empty_settings:
  assumes "wf_fields m" and "setting v"
  shows "nested_lookup (pruneEmptyMaps m) p = Some v \<longleftrightarrow> nested_lookup m p = Some v"
  using assms(1)
proof (induction p arbitrary: m)
  case Nil
  then show ?case using assms(2) by (auto simp: setting_def)
next
  case (Cons k ks)
  show ?case
  proof (cases "map_of m k")
    case None
    then show ?thesis
      using map_of_prune_empty [OF Cons.prems, of k] by (auto simp: nested_lookup_Cons simp del: nested_lookup.simps)
  next
    case (Some w)
    have none: "ks \<noteq> [] \<Longrightarrow> nested_lookup [] ks = None"
      by (cases ks rule: remdups_adj.cases) auto
    show ?thesis
    proof (cases w)
      case (JObj child)
      then show ?thesis
        using Some map_of_prune_empty [OF Cons.prems, of k] Cons.IH [of child] wf_fields_get [OF Cons.prems, of k child] none assms(2)
        by (auto simp: nested_lookup_Cons prune_empty_value_def setting_def simp del: nested_lookup.simps)
    qed (use Some map_of_prune_empty [OF Cons.prems, of k] in \<open>auto simp: nested_lookup_Cons prune_empty_value_def simp del: nested_lookup.simps\<close>)
  qed
qed

lemma map_of_set_field: "map_of (set_field k v ob) q = (if q = k then Some v else map_of ob q)"
  by (auto simp: set_field_def map_of_append map_add_def map_of_filter_neq split: option.splits)

lemma map_of_delete_field: "map_of (delete_field k ob) q = (if q = k then None else map_of ob q)"
  by (simp add: delete_field_def map_of_filter_neq)

lemma nested_lookup_top: "map_of a k = map_of b k \<Longrightarrow> nested_lookup a (k # ks) = nested_lookup b (k # ks)"
  by (simp add: nested_lookup_Cons del: nested_lookup.simps)

lemma stripped_top:
  assumes "k \<notin> {''status'', ''apiVersion'', ''kind''}"
  shows "nested_lookup (stripped g kd u zero) (k # ks) = nested_lookup (pruneEmptyMaps (pruneBaselineFields u zero)) (k # ks)"
  by (rule nested_lookup_top) (use assms in \<open>simp add: stripped_def map_of_set_field map_of_delete_field\<close>)

subsection \<open>What a converted manifest says\<close>

text \<open>
  A converted manifest says what the converted object says: it has the new version and the kind and no status, every setting it has is that of
  the object, and every setting of the object is in it, unless it is the default that the zero object has there too.
\<close>
theorem converted_manifest_says_the_same:
  assumes "tv_Old V (g, kd) = Some True" and "convert V g kd doc = Inr out"
  shows "\<exists>src dst u zero ob. tv_Decode V (g, kd) doc = Inr src \<and> tv_ConvertTo V (g, kd) src = Inr dst \<and> tv_Unstructured V dst = Inr u \<and>
    tv_Marshal V ob = Inr out \<and>
    map_of ob ''apiVersion'' = Some (JStr (g @ ''/v1beta2'')) \<and> map_of ob ''kind'' = Some (JStr kd) \<and> map_of ob ''status'' = None \<and>
    (wf_fields u \<longrightarrow> (\<forall>k ks v. k \<notin> {''status'', ''apiVersion'', ''kind''} \<longrightarrow> setting v \<longrightarrow>
       (nested_lookup ob (k # ks) = Some v \<longrightarrow> nested_lookup u (k # ks) = Some v) \<and>
       (nested_lookup u (k # ks) = Some v \<longrightarrow>
          nested_lookup ob (k # ks) = Some v \<or> (\<exists>w. nested_lookup zero (k # ks) = Some w \<and> deepEqual v w))))"
proof -
  obtain src dst u zero where steps: "tv_Decode V (g, kd) doc = Inr src" "tv_ConvertTo V (g, kd) src = Inr dst" "tv_Unstructured V dst = Inr u"
      "tv_Marshal V (stripped g kd u zero) = Inr out"
    using assms by (auto simp: convert_def Let_def split: if_splits)
  have same: "(nested_lookup (stripped g kd u zero) (k # ks) = Some v \<longrightarrow> nested_lookup u (k # ks) = Some v) \<and>
       (nested_lookup u (k # ks) = Some v \<longrightarrow>
          nested_lookup (stripped g kd u zero) (k # ks) = Some v \<or> (\<exists>w. nested_lookup zero (k # ks) = Some w \<and> deepEqual v w))"
    if "wf_fields u" "k \<notin> {''status'', ''apiVersion'', ''kind''}" "setting v" for k ks v
    using that prune_keeps_settings [of u "k # ks" v zero] prune_adds_none [of u zero "k # ks" v]
      prune_empty_settings [OF wf_prune, of u v zero "k # ks"]
    by (auto simp: stripped_top simp del: nested_lookup.simps)
  show ?thesis
    by (intro exI [of _ src] exI [of _ dst] exI [of _ u] exI [of _ zero] exI [of _ "stripped g kd u zero"] conjI steps impI allI)
      (use same in \<open>simp_all add: stripped_def map_of_set_field map_of_delete_field del: nested_lookup.simps\<close>)
qed

definition ref_tool :: "(object, object) tool_env" where
  \<comment> \<open>a manifest is an object already, and the conversion renames a field\<close>
  "ref_tool = \<lparr>tv_Documents = (\<lambda>d. ([d], None)), tv_Unmarshal = (\<lambda>_. Inr []), tv_Marshal = (\<lambda>ob. Inr (concat (map fst ob))),
     tv_Old = (\<lambda>_. Some True), tv_New = (\<lambda>_. Inr [(''spec'', JObj [(''port'', JInt 0)])]), tv_IsHub = (\<lambda>_. True),
     tv_Decode = (\<lambda>_ d. Inr [(''name'', JStr d)]), tv_ConvertTo = (\<lambda>_ ob. Inr [(''spec'', JObj (ob @ [(''port'', JInt 0)]))]),
     tv_Unstructured = (\<lambda>ob. Inr ob)\<rparr>"

theorem converted_manifest_says_the_same_witness:
  "convert ref_tool ''g'' ''K'' ''x'' = Inr ''specapiVersionkind'' \<and>
   (\<exists>src dst u. tv_Decode ref_tool (''g'', ''K'') ''x'' = Inr src \<and> tv_ConvertTo ref_tool (''g'', ''K'') src = Inr dst \<and>
      tv_Unstructured ref_tool dst = Inr u \<and> nested_lookup u [''spec'', ''name''] = Some (JStr ''x''))"
proof -
  have run: "convert ref_tool ''g'' ''K'' ''x'' = Inr ''specapiVersionkind''"
    by code_simp
  have old: "tv_Old ref_tool (''g'', ''K'') = Some True"
    by (simp add: ref_tool_def)
  from converted_manifest_says_the_same [OF old run] obtain src dst u where
    "tv_Decode ref_tool (''g'', ''K'') ''x'' = Inr src" "tv_ConvertTo ref_tool (''g'', ''K'') src = Inr dst" "tv_Unstructured ref_tool dst = Inr u"
    by (elim exE conjE) (rule that)
  with run show ?thesis
    by (auto simp: ref_tool_def)
qed

end
