(* ===== verification/Startup.thy ===== *)
theory Startup
  imports Kube
begin

text \<open>
  What the process starts (\<open>cmd/main.go\<close>): which controllers and webhooks are set up, depending on the flag
  \<open>enable-controller\<close> and on whether Cluster API is installed, in the order of the code, and what the caches watch.
  Setting up one part can fail, and the process then exits. Building the manager and parsing the other flags is left out.
\<close>

definition allControllers :: string where "allControllers = ''all''"
definition bootstrapController :: string where "bootstrapController = ''bootstrap''"
definition controlPlaneController :: string where "controlPlaneController = ''control-plane''"
definition infrastructureController :: string where "infrastructureController = ''infrastructure''"
definition standaloneController :: string where "standaloneController = ''standalone''"

lemmas controller_names = allControllers_def bootstrapController_def controlPlaneController_def
  infrastructureController_def standaloneController_def

definition enabledControllers :: "string \<Rightarrow> string list" where
  \<comment> \<open>the names that are enabled: those of the variable, unless the flag names another\<close>
  "enabledControllers flag =
     (if flag \<noteq> [] \<and> flag \<noteq> allControllers then [flag]
      else [bootstrapController, controlPlaneController, infrastructureController])"

definition isControllerEnabled :: "string \<Rightarrow> string \<Rightarrow> bool" where
  "isControllerEnabled flag name \<longleftrightarrow> name \<in> set (enabledControllers flag)"

definition isCAPIControllerEnabled :: "gerror + string list \<Rightarrow> gerror + bool" where
  \<comment> \<open>of the API groups the server lists\<close>
  "isCAPIControllerEnabled groups =
     (case groups of
        Inl e \<Rightarrow> Inl (Wrapf ''failed to get server groups'' e)
      | Inr gs \<Rightarrow> Inr (list_ex (\<lambda>g. g = ''cluster.x-k8s.io'') gs))"

datatype part =
    ClusterReconciler | K0smotronClusterWebhook | JoinTokenRequestReconciler
  | SecretCachingClient | ClusterCache
  | BootstrapWorkers | BootstrapControlPlane | K0sWorkerConfigWebhook
  | K0smotronController | K0sController | K0sControlPlaneWebhook | K0smotronControlPlaneWebhook
  | RemoteMachineController | RemoteClusterController | RemoteMachineWebhook | PooledRemoteMachineWebhook
  | ProviderIDController

fun or_die :: "(part \<Rightarrow> bool) \<Rightarrow> part list \<Rightarrow> part list option" where
  \<comment> \<open>set up one part after the other; \<open>None\<close> is \<open>os.Exit(1)\<close> at the first that fails\<close>
  "or_die ok [] = Some []"
| "or_die ok (p # ps) = (if ok p then map_option (Cons p) (or_die ok ps) else None)"

definition standalone_parts :: "part list" where
  "standalone_parts = [ClusterReconciler, K0smotronClusterWebhook, JoinTokenRequestReconciler]"

definition bootstrap_parts :: "part list" where
  "bootstrap_parts = [BootstrapWorkers, BootstrapControlPlane, K0sWorkerConfigWebhook]"

definition control_plane_parts :: "part list" where
  "control_plane_parts = standalone_parts @ [K0smotronController, K0sController, K0sControlPlaneWebhook, K0smotronControlPlaneWebhook]"

definition infrastructure_parts :: "part list" where
  "infrastructure_parts = [RemoteMachineController, RemoteClusterController, RemoteMachineWebhook, PooledRemoteMachineWebhook]"

definition capi_parts :: "string \<Rightarrow> part list" where
  "capi_parts flag =
     [SecretCachingClient, ClusterCache] @
     (if isControllerEnabled flag bootstrapController then bootstrap_parts else []) @
     (if isControllerEnabled flag controlPlaneController then control_plane_parts else []) @
     (if isControllerEnabled flag infrastructureController then infrastructure_parts else []) @
     (if isControllerEnabled flag bootstrapController \<or> isControllerEnabled flag infrastructureController
      then [ProviderIDController] else [])"

definition setupCAPIControllersOrDie :: "(part \<Rightarrow> bool) \<Rightarrow> string \<Rightarrow> part list option" where
  "setupCAPIControllersOrDie ok flag = or_die ok (capi_parts flag)"

definition setStandaloneControllersOrDie :: "(part \<Rightarrow> bool) \<Rightarrow> part list option" where
  "setStandaloneControllersOrDie ok = or_die ok standalone_parts"

definition setupControllersOrDie :: "(part \<Rightarrow> bool) \<Rightarrow> bool \<Rightarrow> string \<Rightarrow> part list option" where
  "setupControllersOrDie ok isCAPICoreProviderInstalled flag =
     (if isCAPICoreProviderInstalled \<and> \<not> isControllerEnabled flag standaloneController
      then setupCAPIControllersOrDie ok flag else setStandaloneControllersOrDie ok)"

record cache_options =
  co_DefaultLabelSelector :: "(string \<times> string) option"
  co_SecretLabel :: string \<comment> \<open>secrets are selected by the presence of this label\<close>
  co_DefaultNamespaces :: "string list option"

definition newCacheOptions :: "(string \<Rightarrow> gerror option) \<Rightarrow> string \<Rightarrow> string \<Rightarrow> gerror + cache_options" where
  \<comment> \<open>with the validation of a label value by \<open>labels.NewRequirement\<close>\<close>
  "newCacheOptions invalid namespace watchFilter =
     (let opts = (\<lambda>sel. \<lparr>co_DefaultLabelSelector = sel, co_SecretLabel = ''cluster.x-k8s.io/cluster-name'',
            co_DefaultNamespaces = (if namespace \<noteq> [] then Some [namespace] else None)\<rparr>) in
      if watchFilter \<noteq> [] then
        (case invalid watchFilter of
           Some e \<Rightarrow> Inl e
         | None \<Rightarrow> Inr (opts (Some (''cluster.x-k8s.io/watch-filter'', watchFilter))))
      else Inr (opts None))"

subsection \<open>What runs\<close>

lemma or_die_Some: "or_die ok ps = Some qs \<longleftrightarrow> list_all ok ps \<and> qs = ps"
  by (induction ps arbitrary: qs) auto

lemma enabled_iff:
  "isControllerEnabled flag bootstrapController \<longleftrightarrow> flag \<in> {[], allControllers, bootstrapController}"
  "isControllerEnabled flag controlPlaneController \<longleftrightarrow> flag \<in> {[], allControllers, controlPlaneController}"
  "isControllerEnabled flag infrastructureController \<longleftrightarrow> flag \<in> {[], allControllers, infrastructureController}"
  "isControllerEnabled flag standaloneController \<longleftrightarrow> flag = standaloneController"
  by (auto simp: isControllerEnabled_def enabledControllers_def controller_names)

lemmas startup_parts = capi_parts_def standalone_parts_def bootstrap_parts_def control_plane_parts_def infrastructure_parts_def

text \<open>
  What a started process runs: nothing is set up twice and the controllers of hosted clusters come with those of the control
  plane; the provider ID controller runs exactly with the bootstrap or the infrastructure controllers; and where the flag asks for the
  standalone controllers, or Cluster API is not installed, it is these and nothing else, whatever else the flag may say.
\<close>
theorem started_process_runs:
  assumes "setupControllersOrDie ok capi flag = Some parts"
  shows "distinct parts \<and> list_all ok parts \<and>
    (if capi \<and> flag \<noteq> standaloneController then
       (ProviderIDController \<in> set parts \<longleftrightarrow> BootstrapWorkers \<in> set parts \<or> RemoteMachineController \<in> set parts) \<and>
       (set standalone_parts \<subseteq> set parts \<longleftrightarrow> flag \<in> {[], allControllers, controlPlaneController}) \<and>
       (K0sController \<in> set parts \<longleftrightarrow> flag \<in> {[], allControllers, controlPlaneController})
     else parts = standalone_parts)"
proof (cases "capi \<and> flag \<noteq> standaloneController")
  case True
  then have parts: "parts = capi_parts flag" and ok: "list_all ok parts"
    using assms by (simp_all add: setupControllersOrDie_def setupCAPIControllersOrDie_def or_die_Some enabled_iff(4))
  have "distinct (capi_parts flag) \<and>
      (ProviderIDController \<in> set (capi_parts flag) \<longleftrightarrow> BootstrapWorkers \<in> set (capi_parts flag) \<or> RemoteMachineController \<in> set (capi_parts flag)) \<and>
      (set standalone_parts \<subseteq> set (capi_parts flag) \<longleftrightarrow> isControllerEnabled flag controlPlaneController) \<and>
      (K0sController \<in> set (capi_parts flag) \<longleftrightarrow> isControllerEnabled flag controlPlaneController)"
    by (cases "isControllerEnabled flag bootstrapController"; cases "isControllerEnabled flag controlPlaneController";
        cases "isControllerEnabled flag infrastructureController") (simp_all add: startup_parts)
  with parts ok True show ?thesis
    by (simp add: enabled_iff(2))
next
  case False
  then have "parts = standalone_parts" and "list_all ok parts"
    using assms by (auto simp: setupControllersOrDie_def setStandaloneControllersOrDie_def or_die_Some enabled_iff(4))
  moreover have "distinct standalone_parts"
    by (simp add: standalone_parts_def)
  ultimately show ?thesis
    unfolding if_not_P [OF False] by simp
qed

theorem started_process_runs_witness:
  "setupControllersOrDie (\<lambda>_. True) True ''infrastructure'' =
     Some [SecretCachingClient, ClusterCache, RemoteMachineController, RemoteClusterController, RemoteMachineWebhook,
       PooledRemoteMachineWebhook, ProviderIDController] \<and> ''infrastructure'' \<noteq> standaloneController"
proof -
  have run: "setupControllersOrDie (\<lambda>_. True) True ''infrastructure'' = Some (capi_parts ''infrastructure'')"
    by (simp add: setupControllersOrDie_def setupCAPIControllersOrDie_def isControllerEnabled_def enabledControllers_def controller_names or_die_Some list_all_iff)
  then show ?thesis
    using started_process_runs [OF run]
    by (simp add: startup_parts isControllerEnabled_def enabledControllers_def controller_names)
qed

lemma misspelt_flag_runs_nothing:
  \<comment> \<open>with Cluster API, a name that is none of the known ones leaves the process without any controller\<close>
  assumes "flag \<notin> {[], allControllers, bootstrapController, controlPlaneController, infrastructureController, standaloneController}"
  shows "setupControllersOrDie (\<lambda>_. True) True flag = Some [SecretCachingClient, ClusterCache]"
  using assms by (simp add: setupControllersOrDie_def setupCAPIControllersOrDie_def or_die_Some capi_parts_def enabled_iff list_all_iff)

end
