(* ===== verification/Spec2Isabelle.thy ===== *)
theory Spec2Isabelle
  imports Reconcile Rollout Autopilot Hosted_Properties Provider_ID Cluster_Deletion Cluster_Sharing
    Remote_Properties Join_Token_Properties Cluster_Conversion Update_Extension Manifest_Convert Startup
begin

text \<open>
  \<^bold>\<open>k0smotron\<close> runs k0s control planes as Cluster API resources. A \<open>K0sControlPlane\<close> is
  a set of machines that the control plane controller creates, updates and deletes; every machine has
  a bootstrap configuration, from which the bootstrap controllers render the user data that makes the
  machine a controller or a worker of the cluster; the provider ID controller then ties the node of
  the workload cluster to its machine. A \<open>K0smotronControlPlane\<close> is a hosted control plane: its controller
  writes a \<open>Cluster\<close> of the group k0smotron.io, and the controller of the \<open>Cluster\<close> turns it into
  services, configuration, certificates and StatefulSets. A \<open>JoinTokenRequest\<close> asks such a control plane for a
  token, and a \<open>RemoteMachine\<close> is a machine that exists already, is taken from a pool where it names one, and is provisioned
  over SSH or by a job. The controllers share no memory: they meet in the objects of the API server. This library
  models all controllers of the program, the update extension, the provisioners, and the API types, webhooks and
  conversions they rest on.

  \<^bold>\<open>Reading order, and the source each theory models (paths under src/).\<close>

  \<^item> \<open>Prelude\<close>: slices, string maps and the functions of Go's \<open>strings\<close>,
    \<open>strconv\<close> and \<open>path/filepath\<close> that the code calls, with their lemmas.
  \<^item> \<open>Go_Effects\<close>: errors with their wrapping chain, \<open>Ok\<close>/\<open>Err\<close>/\<open>Panic\<close>
    results, computations as state transformers, and the shapes of Go control flow (early return,
    wrapping, deferred calls, loops). The locale \<open>frame_order\<close> proves once that a preorder on
    states kept by every primitive step is kept by every composed computation; all
    arguments about traces and unchanged state are interpretations of it.
  \<^item> \<open>Kube\<close>: the fields the source uses of Kubernetes and Cluster API types, and the third-party
    functions as records of parameters with their documented laws.
  \<^item> \<open>Bootstrap_API\<close>, \<open>Bootstrap_Conversion\<close>, \<open>ControlPlane_API\<close>:
    api/bootstrap and api/controlplane, v1beta2 and v1beta1, with validation and conversion. The locale
    \<open>convertible\<close> is the contract of a lossy conversion, interpreted on each pair of
    conversion functions.
  \<^item> \<open>Feature_Gates\<close>: internal/featuregate.
  \<^item> \<open>Controller_Env\<close>: the state of the control plane controller (its scope, its trace of
    requests and its two in-memory maps) and the world as oracles over that trace, so that every answer may
    depend on everything done before. \<open>Reference_World\<close> instantiates all
    parameters; only witnesses use it.
  \<^item> \<open>Machine_State\<close>, \<open>Workload_Client\<close>, \<open>Node_Lifecycle\<close>, \<open>Autopilot\<close>,
    \<open>Remediation\<close>, \<open>Inplace\<close>, \<open>Scaling\<close>, \<open>Availability\<close>,
    \<open>Workload_Config\<close>, \<open>Reconcile\<close>: internal/controller/controlplane
    (helper.go, util.go, scale.go, inplace.go, remediation.go, status.go, k0s_controlplane_controller.go),
    internal/controller/util (wc_client.go, nodes.go, util.go), internal/autopilot and
    internal/util/dynamic_config.go. Every handler is one definition with the order of requests, the
    guards and the early returns of the code; parts of long handlers have names of their own.
  \<^item> \<open>Rollout\<close>: the abstract rolling update on five counters, as a step relation; the
    locale \<open>rolling_update\<close> states what a policy must promise, and its interpretation
    discharges that for the decisions of scale.go.
  \<^item> \<open>Provisioner\<close>: internal/provisioner, cloud-init, Ignition and PowerShell.
  \<^item> \<open>Bootstrap_Commands\<close>, \<open>Controller_Bootstrap\<close>, \<open>Worker_Bootstrap\<close>,
    \<open>Provider_ID\<close>: internal/controller/bootstrap, with internal/controller/util/download.go,
    hostingcluster.go and internal/util/token.go, random.go. The locale \<open>config_status\<close> is the interface
    to the status of a configuration object that the two bootstrap controllers share.
  \<^item> \<open>Hashes\<close>: MD5, SHA-256 and FNV-1a of Go's standard library, by which names are shortened
    and changes detected.
  \<^item> \<open>Cluster_API\<close>: api/k0smotron.io/v1beta2 and the hosted kinds of api/controlplane/v1beta2, with
    defaulting, validation and the names of generated objects.
  \<^item> \<open>Hosted_ControlPlane\<close>, \<open>Hosted_Properties\<close>: k0smotron_controlplane_controller.go with
    internal/controller/util (namespace.go, ownerreference.go, util.go).
  \<^item> \<open>Cluster_Scripts\<close>, \<open>Cluster_Objects\<close>, \<open>Cluster_Workloads\<close>,
    \<open>Cluster_Status\<close>, \<open>Cluster_Controller\<close>: internal/controller/k0smotron.io, from the texts of the generated
    scripts over the generated objects and the conditions to the reconciler; \<open>Workload_Properties\<close>,
    \<open>Cluster_Properties\<close>, \<open>Cluster_Deletion\<close> and \<open>Cluster_Sharing\<close> hold what is proved
    of them. A Go map that several objects share is returned with the \<open>Cluster\<close>, so that a write through one
    of the names is seen through the others.
  \<^item> \<open>Cluster_Conversion\<close>: api/k0smotron.io/v1beta1 and the hosted kinds of api/controlplane/v1beta1 with their conversion.
  \<^item> \<open>Join_Token\<close>, \<open>Join_Token_Properties\<close>: jointokenrequest_controller.go, internal/exec and the API of
    \<open>JoinTokenRequest\<close> in both versions.
  \<^item> \<open>Remote_API\<close>, \<open>Remote_Machine\<close>, \<open>Remote_Properties\<close>: api/infrastructure and
    internal/controller/infrastructure. The locale \<open>allocator\<close> is the contract of a pool that lends its members, with the invariant proved
    once, and is interpreted on the reservation and return of pooled machines.
  \<^item> \<open>Update_Extension\<close>: extensions/inplaceversionupdate, the runtime extension that Cluster API asks to update a
    machine in place, on the autopilot plans of \<open>Autopilot\<close>.
  \<^item> \<open>Manifest_Convert\<close>: hack/convert, the tool that converts manifests. \<open>Startup\<close>: which controllers cmd/main.go sets up.

  \<^bold>\<open>What the theorems show.\<close>

  \<^item> Rollout: with either update strategy it reaches the desired state, never exceeds the surge, never
    deletes the last active machine, and the decisions refine the policy on counters.
  \<^item> Members: the pre-terminate hook is released only after the etcd member and the control node are gone;
    a machine is created after everything it refers to; scale down takes the oldest outdated machine;
    a fresh machine is up to date; the scope partitions the machines and manual deletions keep it so.
  \<^item> Remediation deletes at most one machine per reconciliation, never the last of an initialized control
    plane. In-place updates hold the rollout, and an interrupted trigger is completed later.
  \<^item> Status: an outage is reported after its grace period and not before, a control plane that was reached is
    available, and a reconciliation always comes back while something is undecided.
  \<^item> Deletion: the finalizer is the last thing removed. Gated reconciliations change nothing.
  \<^item> Bootstrap: the status says that the data secret exists exactly when this run stored it; created data is
    final; a join credential is created after everything that can fail before it; the PowerShell
    script writes exactly the bytes of each file; user arguments are kept in order.
  \<^item> Provider IDs: the paged search ends and finds what one scan would find; an ID is never replaced.
  \<^item> Hosted control planes: a \<open>Cluster\<close> that is not available is looked at again, and its
    condition says that the control plane was reached exactly when it was; the finalizer goes after everything
    else; etcd starts with an odd number of members, grows by one at a time and reaches the wanted number;
    every mount of the control plane has its volume, and the service selects its pods; the NATS token is
    never replaced once it exists.
  \<^item> Join tokens: a token is made once, is invalidated before its request goes, and keeps its ID when its address is rewritten.
  \<^item> Remote machines: whatever sequence of reservations and returns the controller makes, no pooled machine is lent
    twice, and the code that reserves refines the pool; over SSH every file and command is done in order before the
    sentinel is looked for, and quoting gives the shell exactly the words meant; the
    finalizer goes after the machine was returned.
  \<^item> Update extension: a plan is never taken away while it runs, "updated" means that the plan of the machine completed, and
    a machine that is polled alone is updated, whereas two machines polled in turns can wait for ever.
  \<^item> A converted manifest keeps every setting that is not a default; a started process sets up nothing twice.
  \<^item> Webhooks and conversions: what is admitted, what survives a round trip, and what is lost.
  \<^item> Some theorems state what the code does although it does not seem meant: a failed creation of the
    kubeconfig secret and a failed status patch of remediation are lost, two deletions in one
    reconciliation can remove both machines of a control plane, an Ignition worker behind an
    ingress never gets its data, a spaced kubelet flag loses its name, a failure while deleting a \<open>Cluster\<close>
    is lost, the hash of the specification is deleted from the \<open>Cluster\<close>, writing the dynamic
    configuration takes fields out of it, the failure for missing fields of a remote machine is erased before it is written, a
    retried job mounts its data twice, a request reports success before it has a token, and through v1beta1 labels of a service
    cannot be removed while NATS storage becomes etcd.

  \<^bold>\<open>Bounds and fuel.\<close> Replica counts are 32-bit words where Go has int32 and integers elsewhere;
  durations are integers of nanoseconds. Polling with a timeout runs on the number of
  attempts the timeout allows (seven: 60 seconds every ten seconds; 181 for the external address: three minutes every
  second and one at once; 121 for the load balancer: two minutes every second and one at once), and running out of them is
  the error of the deadline. The background loop of an
  in-place update and the loop over pages of nodes run on fuel, since the server decides when they end:
  not ending is the value \<open>None\<close>, and the theorem on paging proves that as much fuel as there are
  pages is enough. All other loops are structural recursion.

  \<^bold>\<open>Parameters.\<close> The API server, the clock, randomness, dialling, JSON, YAML and gzip encoders, the
  Butane translator, version parsing, \<open>net/url\<close>, \<open>net/netip\<close>, the conditions and patch
  helpers of Cluster API, and the certificates package are not in the repository: they are fields of the records
  \<open>lib\<close>, \<open>boot_lib\<close>, \<open>prov_lib\<close>, \<open>obj_lib\<close>, \<open>host_lib\<close>, \<open>clu_lib\<close>,
  \<open>tok_lib\<close>, \<open>conv_lib\<close>, \<open>env\<close>, \<open>boot_env\<close>, \<open>pid_env\<close>, \<open>host_env\<close>, \<open>clu_env\<close>,
  \<open>jtr_env\<close>, \<open>rm_env\<close> (with the SSH connection), \<open>ext_env\<close>, \<open>patch_lib\<close> and \<open>tool_env\<close>. Theorems assume at
  most the documented laws collected in \<open>Kube\<close>. What the server answers to an apply is not decoded back
  into the applied object, since the code does not read it afterwards.

  \<^bold>\<open>Not modelled.\<close> Generated deep copies and registration; \<open>SetupWithManager\<close> and event filters other than
  those that decide by the object; logging, metrics and event recording; flags and the manager in cmd/main.go; extensions/main.go, which registers hooks; the integration tests; of the
  goroutine that watches for the deletion of a remote machine only the decision to cancel, since the SSH provisioner
  does not read the context it cancels; of the goroutine that watches a job nothing, since it has no effect; the remaining template kinds.
\<close>


subsection \<open>The controllers of hosted control planes together\<close>

text \<open>
  C13 (error). The two controllers of a hosted control plane undo each other's work: the controller of the
  \<open>K0smotronControlPlane\<close> records the hash of the specification it wrote in an annotation of the \<open>Cluster\<close>, and the controller of
  the \<open>Cluster\<close>, on generating the StatefulSet, deletes that annotation from the \<open>Cluster\<close>, since the map it
  deletes from is the map of the \<open>Cluster\<close>. The next comparison of the specifications is the deprecated one.
\<close>
theorem spec_hash_is_lost:
  "kmc_annotations (with_spec kmc h sp) AnnotationKeyClusterSpecHash = Some h \<and>
   kmc_annotations (fst (control_plane_spec L (with_spec kmc h sp))) AnnotationKeyClusterSpecHash = None \<and>
   isClusterSpecSynced H (fst (control_plane_spec L (with_spec kmc h sp))) sp' =
     (case deprecated_spec_synced H (fst (control_plane_spec L (with_spec kmc h sp))) sp' of
        Ok (Inl e) \<Rightarrow> Ok (Inl e) | Ok (Inr b) \<Rightarrow> Ok (Inr (b, generateClusterSpecHashWithoutExternalAddress H sp')) | Err e \<Rightarrow> Err e | Panic \<Rightarrow> Panic)"
proof -
  have "om_Annotations (kmc_Meta (fst (control_plane_spec L (with_spec kmc h sp)))) AnnotationKeyClusterSpecHash = None"
    using control_plane_spec_drops_hash [of L "with_spec kmc h sp"] by (simp add: kmc_annotations_def)
  then show ?thesis
    by (simp add: isClusterSpecSynced_def kmc_annotations_def with_spec_def)
qed

end
